(* ===== verification/Prelude.thy ===== *)
theory Prelude
  imports Main "HOL-Library.Char_ord" "HOL-Library.List_Lexorder"
begin

text \<open>
  What the components share: the exceptions of the runtime as values, the parts of Python's
  \<open>str\<close> the source uses (on the code points U+0000 to U+00FF, one \<open>char\<close> each), checks that
  raise at the first failure, and SQL tables as lists of rows.
\<close>

section \<open>Collections of rewrite rules\<close>

named_theorems py_simps \<open>unfolding rules of the Python string and check layer\<close>
named_theorems table_simps \<open>facts about tables after SQL statements\<close>
named_theorems errors_intros \<open>which errors a computation can raise\<close>

section \<open>Exceptions and results\<close>

text \<open>One constructor per exception class the modelled modules raise; the argument is the message.\<close>

datatype exn =
    ValueError string
  | KeyError string
  | RuntimeError string
  | TypeError string
  | AttributeError string
  | IndexError string
  | IntegrityError
  | AuditIntegrityError string
  | AuditCheckpointSigningConfigurationError string
  | AuditCheckpointSigningKeyUnavailableError string
  | RunStateConflictError string
  | AuditEventConflictError string
  | SessionAuthenticationError string
  | SessionCsrfError string
  | AuthenticationRateLimitError int
  | AuthenticatedRequestRateLimitError int
  | GreenlightError string
  | PoliticalReviewerSeparationError string
  | ModelEffectConflictError string
  | ModelEffectStateError string
  | ModelEffectUnavailableError string
  | ModelEffectBlockedError string
  | ModelEffectUnknownError string
  | SocialPublicationConflictError string
  | SocialPublicationStateError string
  | SocialPublicationUnavailableError string
  | SocialPublicationBlockedError string
  | SocialPublicationProviderRejectedError string int string string string
  | SocialPublicationUnknownError string
  | PublicationMediaConflictError string
  | PublicationMediaStoreError string
  | ModelGatewayDisabledError string
  | ModelGatewayConfigurationError string
  | ModelGatewayProviderError string
  | HTTPError
  | IdempotencyConflictError string
  | StopIteration
  | AuthConfigurationError string
  | AuthenticationError string
  | AuthorizationError string
  | PublicMediaSigningConfigurationError string
  | PublicMediaSigningKeyUnavailableError string
  | PublicationMediaValidationError string
  | SocialOAuthStoreError string
  | SocialOAuthStateUnavailableError string
  | SocialOAuthUnavailableError string
  | SocialOAuthCallbackError string
  | SocialOAuthProviderError string string string string "int option" string string
  | SocialTokenCipherConfigurationError string
  | SocialTokenDecryptionError string
  | PublicApiError int string string "(string \<times> string) list"
  | HTTPException int string
  | PostgresSchemaError string
  | TimeoutError string

type_synonym 'a res = "exn + 'a"

definition rbind :: "'a res \<Rightarrow> ('a \<Rightarrow> 'b res) \<Rightarrow> 'b res" where
  "rbind r f = (case r of Inl e \<Rightarrow> Inl e | Inr v \<Rightarrow> f v)"

lemma rbind_simps [simp]:
  "rbind (Inl e) f = Inl e"
  "rbind (Inr v) f = f v"
  by (simp_all add: rbind_def)

lemma rbind_Inr_iff: "rbind r f = Inr w \<longleftrightarrow> (\<exists>v. r = Inr v \<and> f v = Inr w)"
  by (cases r) auto

lemma rbind_Inl_iff: "rbind r f = Inl e \<longleftrightarrow> r = Inl e \<or> (\<exists>v. r = Inr v \<and> f v = Inl e)"
  by (cases r) auto

lemma raise_else_Inr [simp]: "((if b then Inl e else r) = Inr w) \<longleftrightarrow> \<not> b \<and> r = Inr w"
  by simp

text \<open>A block of \<open>if bad: raise e\<close> statements: the first condition that holds raises.\<close>

fun raise_first :: "(bool \<times> exn) list \<Rightarrow> unit res" where
  "raise_first [] = Inr ()"
| "raise_first ((bad, e) # rest) = (if bad then Inl e else raise_first rest)"

lemma raise_first_Inr: "raise_first cs = Inr u \<longleftrightarrow> (\<forall>c \<in> set cs. \<not> fst c)"
  by (induction cs rule: raise_first.induct) auto

lemma raise_first_Inl: "raise_first cs = Inl e \<Longrightarrow> (True, e) \<in> set cs"
  by (induction cs rule: raise_first.induct) (auto split: if_splits)

lemma raise_first_append:
  "raise_first (xs @ ys) = rbind (raise_first xs) (\<lambda>_. raise_first ys)"
  by (induction xs rule: raise_first.induct) auto

text \<open>Every error a computation can raise satisfies \<open>P\<close>.\<close>

definition errors_in :: "(exn \<Rightarrow> bool) \<Rightarrow> 'a res \<Rightarrow> bool" where
  "errors_in P r \<longleftrightarrow> (\<forall>e. r = Inl e \<longrightarrow> P e)"

lemma errors_inD: "errors_in P r \<Longrightarrow> r = Inl e \<Longrightarrow> P e"
  by (simp add: errors_in_def)

lemma errors_in_Inr [errors_intros]: "errors_in P (Inr v)"
  by (simp add: errors_in_def)

lemma errors_in_Inl [errors_intros]: "P e \<Longrightarrow> errors_in P (Inl e)"
  by (simp add: errors_in_def)

lemma errors_in_rbind [errors_intros]:
  "errors_in P r \<Longrightarrow> (\<And>v. errors_in P (f v)) \<Longrightarrow> errors_in P (rbind r f)"
  by (auto simp: errors_in_def rbind_Inl_iff)

lemma errors_in_raise [errors_intros]: "list_all (\<lambda>c. P (snd c)) cs \<Longrightarrow> errors_in P (raise_first cs)"
  by (auto simp: errors_in_def list_all_iff dest!: raise_first_Inl)

lemma errors_in_if [errors_intros]: "errors_in P a \<Longrightarrow> errors_in P b \<Longrightarrow> errors_in P (if c then a else b)"
  by simp

lemma errors_in_option [errors_intros]:
  "errors_in P a \<Longrightarrow> (\<And>v. errors_in P (f v)) \<Longrightarrow> errors_in P (case x of None \<Rightarrow> a | Some v \<Rightarrow> f v)"
  by (cases x) simp_all

section \<open>Python strings\<close>

abbreviation code_point :: "char \<Rightarrow> nat" where
  "code_point c \<equiv> of_char c"

text \<open>\<open>str.isspace\<close> on U+0000 to U+00FF, hence what \<open>str.strip\<close> removes.\<close>

definition is_space :: "char \<Rightarrow> bool" where
  "is_space c = (let n = code_point c in
     (9 \<le> n \<and> n \<le> 13) \<or> (28 \<le> n \<and> n \<le> 32) \<or> n = 133 \<or> n = 160)"

definition lstrip :: "string \<Rightarrow> string" where
  "lstrip s = dropWhile is_space s"

definition rstrip :: "string \<Rightarrow> string" where
  "rstrip s = rev (dropWhile is_space (rev s))"

definition strip :: "string \<Rightarrow> string" where
  "strip s = rstrip (lstrip s)"

lemma rstrip_Nil_iff: "rstrip s = [] \<longleftrightarrow> (\<forall>c \<in> set s. is_space c)"
  by (auto simp: rstrip_def dropWhile_eq_Nil_conv)

lemma strip_Nil_iff: "strip s = [] \<longleftrightarrow> (\<forall>c \<in> set s. is_space c)"
proof
  assume "strip s = []"
  then have "\<forall>c \<in> set (lstrip s). is_space c" by (simp add: strip_def rstrip_Nil_iff)
  then have "lstrip s = []"
    unfolding lstrip_def by (metis hd_dropWhile hd_in_set)
  then show "\<forall>c \<in> set s. is_space c" by (simp add: lstrip_def dropWhile_eq_Nil_conv)
next
  assume "\<forall>c \<in> set s. is_space c"
  then have "lstrip s = []" by (simp add: lstrip_def dropWhile_eq_Nil_conv)
  then show "strip s = []" by (simp add: strip_def rstrip_def)
qed

lemma strip_Nil [simp]: "strip [] = []"
  by (simp add: strip_Nil_iff)

lemma rstrip_hd: "s \<noteq> [] \<Longrightarrow> \<not> is_space (hd s) \<Longrightarrow> hd (rstrip s) = hd s \<and> rstrip s \<noteq> []"
proof -
  assume a: "s \<noteq> []" "\<not> is_space (hd s)"
  obtain c cs where s: "s = c # cs" using a(1) by (cases s) auto
  with a have "\<not> is_space c" by simp
  then show ?thesis using s
    by (simp add: rstrip_def dropWhile_append)
qed

lemma lstrip_id: "s = [] \<or> \<not> is_space (hd s) \<Longrightarrow> lstrip s = s"
  by (cases s) (auto simp: lstrip_def)

lemma rstrip_id: "s = [] \<or> \<not> is_space (last s) \<Longrightarrow> rstrip s = s"
  by (cases s rule: rev_cases) (auto simp: rstrip_def)

lemma lstrip_hd: "lstrip s \<noteq> [] \<Longrightarrow> \<not> is_space (hd (lstrip s))"
  unfolding lstrip_def by (rule hd_dropWhile)

lemma rstrip_last: "rstrip s \<noteq> [] \<Longrightarrow> \<not> is_space (last (rstrip s))"
  using hd_dropWhile [of is_space "rev s"] by (simp add: rstrip_def last_rev del: dropWhile_eq_Nil_conv)

lemma strip_idem [simp]: "strip (strip s) = strip s"
proof (cases "strip s = []")
  case False
  have l: "lstrip s \<noteq> []" using False by (auto simp: strip_def rstrip_def)
  have "hd (strip s) = hd (lstrip s)"
    using rstrip_hd [OF l lstrip_hd [OF l]] by (simp add: strip_def)
  then have "lstrip (strip s) = strip s" using lstrip_hd [OF l] by (simp add: lstrip_id)
  moreover have "rstrip (strip s) = strip s"
    using False rstrip_last [of "lstrip s"] by (simp add: strip_def rstrip_id)
  ultimately show ?thesis by (simp add: strip_def [of "strip s"])
qed simp

lemma length_strip: "length (strip s) \<le> length s"
proof -
  have "length (rstrip t) \<le> length t" for t
    using length_dropWhile_le [of is_space "rev t"] by (simp add: rstrip_def)
  moreover have "length (lstrip s) \<le> length s"
    by (simp add: lstrip_def length_dropWhile_le)
  ultimately show ?thesis unfolding strip_def using le_trans by blast
qed

text \<open>\<open>str.encode("utf-8")\<close>: one byte below U+0080, two bytes from U+0080 to U+00FF.\<close>

definition utf8_char :: "char \<Rightarrow> string" where
  "utf8_char c = (let n = code_point c in
     if n < 128 then [c] else [char_of (192 + n div 64), char_of (128 + n mod 64)])"

definition utf8 :: "string \<Rightarrow> string" where
  "utf8 s = concat (map utf8_char s)"

definition utf8_len :: "string \<Rightarrow> nat" where
  "utf8_len s = length (utf8 s)"

lemma of_char_less_256: "(of_char c :: nat) < 256"
  using nat_of_char_less_256 by simp

lemma utf8_Nil [simp]: "utf8 [] = []" and utf8_Cons: "utf8 (c # s) = utf8_char c @ utf8 s"
  by (simp_all add: utf8_def)

lemma utf8_append: "utf8 (s @ t) = utf8 s @ utf8 t"
  by (simp add: utf8_def)

lemma utf8_len_ge: "length s \<le> utf8_len s"
proof (induction s)
  case (Cons c s)
  have "1 \<le> length (utf8_char c)" by (simp add: utf8_char_def Let_def)
  with Cons show ?case by (simp add: utf8_len_def utf8_Cons)
qed (simp add: utf8_len_def)

lemma utf8_char_prefix:
  assumes "utf8_char c @ r = utf8_char d @ s"
  shows "c = d \<and> r = s"
proof -
  have c: "(of_char c :: nat) < 256" and d: "(of_char d :: nat) < 256"
    by (rule of_char_less_256)+
  have hi: "(of_char (char_of (192 + n div 64)) :: nat) = 192 + n div 64" if "n < 256" for n :: nat
    using that by (simp add: of_char_of)
  have lo: "(of_char (char_of (128 + n mod 64)) :: nat) = 128 + n mod 64" for n :: nat
  proof -
    have "n mod 64 < 64" by simp
    then show ?thesis by (simp add: of_char_of)
  qed
  show ?thesis
  proof (cases "code_point c < 128"; cases "code_point d < 128")
    assume "code_point c < 128" "\<not> code_point d < 128"
    with assms have "c = char_of (192 + code_point d div 64)" by (simp add: utf8_char_def Let_def)
    then have "code_point c = 192 + code_point d div 64" using hi [OF d] by simp
    with \<open>code_point c < 128\<close> show ?thesis by simp
  next
    assume "\<not> code_point c < 128" "code_point d < 128"
    with assms have "d = char_of (192 + code_point c div 64)" by (simp add: utf8_char_def Let_def)
    then have "code_point d = 192 + code_point c div 64" using hi [OF c] by simp
    with \<open>code_point d < 128\<close> show ?thesis by simp
  next
    assume a: "\<not> code_point c < 128" "\<not> code_point d < 128"
    with assms have
      h: "char_of (192 + code_point c div 64) = (char_of (192 + code_point d div 64) :: char)" and
      l: "char_of (128 + code_point c mod 64) = (char_of (128 + code_point d mod 64) :: char)" and
      rs: "r = s"
      by (simp_all add: utf8_char_def Let_def)
    have "192 + code_point c div 64 = 192 + code_point d div 64"
      using arg_cong [OF h, of "of_char :: char \<Rightarrow> nat"] hi [OF c] hi [OF d] by simp
    moreover have "128 + code_point c mod 64 = 128 + code_point d mod 64"
      using arg_cong [OF l, of "of_char :: char \<Rightarrow> nat"] lo by simp
    ultimately have "code_point c = code_point d"
      by (metis add_left_cancel div_mult_mod_eq)
    then show ?thesis using rs by simp
  qed (use assms in \<open>simp add: utf8_char_def Let_def\<close>)
qed

lemma utf8_inj [simp]: "utf8 s = utf8 t \<longleftrightarrow> s = t"
proof (induction s arbitrary: t)
  case Nil
  show ?case
  proof (cases t)
    case (Cons d u)
    have "utf8_char d \<noteq> []" by (simp add: utf8_char_def Let_def)
    then show ?thesis using Cons by (simp add: utf8_Cons)
  qed simp
next
  case (Cons c s)
  show ?case
  proof (cases t)
    case Nil
    have "utf8_char c \<noteq> []" by (simp add: utf8_char_def Let_def)
    then show ?thesis using Nil by (simp add: utf8_Cons)
  next
    case (Cons d u)
    then show ?thesis
      using utf8_char_prefix [of c "utf8 s" d "utf8 u"] Cons.IH [of u] by (auto simp: utf8_Cons)
  qed
qed

text \<open>Character classes of the regular expressions, and \<open>str.isdigit\<close> on U+0000 to U+00FF
  (which also accepts the superscripts one, two and three).\<close>

definition in_range :: "nat \<Rightarrow> nat \<Rightarrow> char \<Rightarrow> bool" where
  "in_range lo hi c = (lo \<le> code_point c \<and> code_point c \<le> hi)"

definition is_ascii_digit :: "char \<Rightarrow> bool" where
  "is_ascii_digit c = in_range 48 57 c"

definition is_lower :: "char \<Rightarrow> bool" where
  "is_lower c = in_range 97 122 c"

definition is_upper :: "char \<Rightarrow> bool" where
  "is_upper c = in_range 65 90 c"

definition is_alnum :: "char \<Rightarrow> bool" where
  "is_alnum c = (is_ascii_digit c \<or> is_lower c \<or> is_upper c)"

definition is_py_digit :: "char \<Rightarrow> bool" where
  "is_py_digit c = (is_ascii_digit c \<or> code_point c = 178 \<or> code_point c = 179 \<or> code_point c = 185)"

definition str_isdigit :: "string \<Rightarrow> bool" where
  "str_isdigit s = (s \<noteq> [] \<and> list_all is_py_digit s)"

definition is_lower_hex :: "char \<Rightarrow> bool" where
  "is_lower_hex c = (is_ascii_digit c \<or> in_range 97 102 c)"

text \<open>\<open>^[a-f0-9]{64}$\<close> with \<open>fullmatch\<close>.\<close>

definition is_sha256 :: "string \<Rightarrow> bool" where
  "is_sha256 s = (length s = 64 \<and> list_all is_lower_hex s)"

text \<open>\<open>^[p][q]{lo,hi}$\<close> with \<open>fullmatch\<close>.\<close>

definition fullmatch_class ::
  "(char \<Rightarrow> bool) \<Rightarrow> (char \<Rightarrow> bool) \<Rightarrow> nat \<Rightarrow> nat \<Rightarrow> string \<Rightarrow> bool" where
  "fullmatch_class p q lo hi s = (case s of
     [] \<Rightarrow> False
   | c # cs \<Rightarrow> p c \<and> lo \<le> length cs \<and> length cs \<le> hi \<and> list_all q cs)"

lemma fullmatch_class_bounds:
  "fullmatch_class p q lo hi s \<Longrightarrow> s \<noteq> [] \<and> Suc lo \<le> length s \<and> length s \<le> Suc hi"
  by (cases s) (auto simp: fullmatch_class_def)

section \<open>SQL tables\<close>

text \<open>
  A table is the list of its rows in insertion order. \<open>UPDATE t SET f WHERE p\<close> maps the rows
  that satisfy \<open>p\<close>; \<open>cursor.rowcount\<close> counts them.
\<close>

definition sql_update :: "('r \<Rightarrow> bool) \<Rightarrow> ('r \<Rightarrow> 'r) \<Rightarrow> 'r list \<Rightarrow> 'r list" where
  "sql_update p f rows = map (\<lambda>r. if p r then f r else r) rows"

definition sql_count :: "('r \<Rightarrow> bool) \<Rightarrow> 'r list \<Rightarrow> nat" where
  "sql_count p rows = length (filter p rows)"

definition sql_delete :: "('r \<Rightarrow> bool) \<Rightarrow> 'r list \<Rightarrow> 'r list" where
  "sql_delete p rows = filter (\<lambda>r. \<not> p r) rows"

text \<open>\<open>SELECT ... fetchone()\<close> in insertion order.\<close>

definition sql_find :: "('r \<Rightarrow> bool) \<Rightarrow> 'r list \<Rightarrow> 'r option" where
  "sql_find p rows = find p rows"

lemma length_sql_update [table_simps, simp]: "length (sql_update p f rows) = length rows"
  by (simp add: sql_update_def)

lemma sql_update_none: "sql_count p rows = 0 \<Longrightarrow> sql_update p f rows = rows"
  by (auto simp: sql_update_def sql_count_def filter_empty_conv intro: map_idI)

lemma map_sql_update_key [table_simps]:
  "(\<And>r. p r \<Longrightarrow> k (f r) = k r) \<Longrightarrow> map k (sql_update p f rows) = map k rows"
  by (induction rows) (auto simp: sql_update_def)

lemma set_sql_update [table_simps]:
  "set (sql_update p f rows) = f ` {r \<in> set rows. p r} \<union> {r \<in> set rows. \<not> p r}"
  by (auto simp: sql_update_def)

lemma sql_find_Some: "sql_find p rows = Some r \<Longrightarrow> r \<in> set rows \<and> p r"
  by (auto simp: sql_find_def find_Some_iff)

lemma sql_find_None: "sql_find p rows = None \<longleftrightarrow> (\<forall>r \<in> set rows. \<not> p r)"
  by (auto simp: sql_find_def find_None_iff)

lemma sql_find_append:
  "sql_find p (xs @ ys) = (case sql_find p xs of Some r \<Rightarrow> Some r | None \<Rightarrow> sql_find p ys)"
  by (induction xs) (auto simp: sql_find_def)

lemma sql_find_unique:
  assumes "distinct (map k rows)" and "r \<in> set rows" and "p r"
    and "\<And>x. x \<in> set rows \<Longrightarrow> p x \<Longrightarrow> k x = k r"
  shows "sql_find p rows = Some r"
proof (cases "sql_find p rows")
  case None
  with assms show ?thesis by (auto simp: sql_find_None)
next
  case (Some x)
  then have "x \<in> set rows" "p x" by (auto dest: sql_find_Some)
  then have "k x = k r" using assms(4) by blast
  then have "x = r" using assms(1,2) \<open>x \<in> set rows\<close> by (auto simp: distinct_map dest: inj_onD)
  with Some show ?thesis by simp
qed

lemma unique_key: "distinct (map k rows) \<Longrightarrow> x \<in> set rows \<Longrightarrow> y \<in> set rows \<Longrightarrow> k x = k y \<Longrightarrow> x = y"
  by (auto simp: distinct_map dest: inj_onD)

lemma filter_eq_single: "distinct rows \<Longrightarrow> r \<in> set rows \<Longrightarrow> filter (\<lambda>x. x = r) rows = [r]"
proof (induction rows)
  case (Cons a rows)
  show ?case
  proof (cases "a = r")
    case True
    with Cons.prems have "filter (\<lambda>x. x = r) rows = []" by (auto simp: filter_empty_conv)
    with True show ?thesis by simp
  qed (use Cons in auto)
qed simp

lemma filter_unique_key:
  assumes "distinct (map k rows)" and "r \<in> set rows"
  shows "filter (\<lambda>x. k x = k r) rows = [r]"
proof -
  have "filter (\<lambda>x. k x = k r) rows = filter (\<lambda>x. x = r) rows"
    using assms unique_key by (intro filter_cong) (auto dest: unique_key)
  with assms show ?thesis by (simp add: filter_eq_single distinct_map)
qed

lemma sql_count_pos: "0 < sql_count p rows \<longleftrightarrow> (\<exists>r \<in> set rows. p r)"
  by (auto simp: sql_count_def filter_empty_conv)

lemma sql_count_unique:
  assumes "distinct (map k rows)"
    and "\<And>x y. x \<in> set rows \<Longrightarrow> y \<in> set rows \<Longrightarrow> p x \<Longrightarrow> p y \<Longrightarrow> k x = k y"
  shows "sql_count p rows \<le> 1"
proof -
  have d: "distinct (map k (filter p rows))" using assms(1) by (rule distinct_map_filter)
  have e: "\<forall>x \<in> set (filter p rows). \<forall>y \<in> set (filter p rows). k x = k y"
    unfolding set_filter using assms(2) by blast
  show ?thesis
  proof (cases "filter p rows")
    case (Cons x xs)
    show ?thesis
    proof (cases xs)
      case (Cons y ys)
      with \<open>filter p rows = x # xs\<close> have f: "filter p rows = x # y # ys" by simp
      have "k x = k y" using e unfolding f by (meson list.set_intros)
      moreover have "k x \<noteq> k y" using d unfolding f by auto
      ultimately show ?thesis by simp
    qed (simp add: sql_count_def \<open>filter p rows = x # xs\<close>)
  qed (simp add: sql_count_def)
qed

end
