(* ===== verification/Sha256.thy ===== *)
theory Sha256
  imports Prelude "HOL-Library.Word"
begin

text \<open>
  The parts of Python's \<open>hashlib\<close>, \<open>hmac\<close> and \<open>base64\<close> that the source uses: the SHA-256 hex
  digest of a byte string (FIPS 180-4), HMAC-SHA256 (RFC 2104) and unpadded base64url. Byte
  strings are \<open>string\<close> values whose \<open>char\<close>s are the bytes. The one fact the components use is
  the shape of a digest: 64 lower-case hexadecimal characters.
\<close>

unbundle bit_operations_syntax

type_synonym u32 = "32 word"
type_synonym digest_state = "u32 \<times> u32 \<times> u32 \<times> u32 \<times> u32 \<times> u32 \<times> u32 \<times> u32"

section \<open>SHA-256\<close>

definition sha256_k :: "u32 list" where
  "sha256_k = [
     1116352408, 1899447441, 3049323471, 3921009573, 961987163, 1508970993, 2453635748, 2870763221,
     3624381080, 310598401, 607225278, 1426881987, 1925078388, 2162078206, 2614888103, 3248222580,
     3835390401, 4022224774, 264347078, 604807628, 770255983, 1249150122, 1555081692, 1996064986,
     2554220882, 2821834349, 2952996808, 3210313671, 3336571891, 3584528711, 113926993, 338241895,
     666307205, 773529912, 1294757372, 1396182291, 1695183700, 1986661051, 2177026350, 2456956037,
     2730485921, 2820302411, 3259730800, 3345764771, 3516065817, 3600352804, 4094571909, 275423344,
     430227734, 506948616, 659060556, 883997877, 958139571, 1322822218, 1537002063, 1747873779,
     1955562222, 2024104815, 2227730452, 2361852424, 2428436474, 2756734187, 3204031479, 3329325298]"

definition sha256_init :: digest_state where
  "sha256_init = (1779033703, 3144134277, 1013904242, 2773480762,
                  1359893119, 2600822924, 528734635, 1541459225)"

definition big_endian :: "nat \<Rightarrow> nat \<Rightarrow> nat list" where
  "big_endian k n = map (\<lambda>i. n div 256 ^ (k - 1 - i) mod 256) [0..<k]"

definition sha256_pad :: "nat list \<Rightarrow> nat list" where
  "sha256_pad m = m @ [128] @ replicate ((119 - length m mod 64) mod 64) 0
                    @ big_endian 8 (8 * length m)"

fun words_of :: "nat list \<Rightarrow> u32 list" where
  "words_of (a # b # c # d # rest) =
     word_of_nat (16777216 * a + 65536 * b + 256 * c + d) # words_of rest"
| "words_of _ = []"

text \<open>The message schedule, newest word first.\<close>

fun sha256_schedule :: "nat \<Rightarrow> u32 list \<Rightarrow> u32 list" where
  "sha256_schedule 0 ws = ws"
| "sha256_schedule (Suc n) ws =
     (let x = ws ! 14; y = ws ! 1;
          s0 = word_rotr 7 x XOR word_rotr 18 x XOR drop_bit 3 x;
          s1 = word_rotr 17 y XOR word_rotr 19 y XOR drop_bit 10 y
      in sha256_schedule n ((ws ! 15 + s0 + ws ! 6 + s1) # ws))"

fun sha256_round :: "u32 \<times> u32 \<Rightarrow> digest_state \<Rightarrow> digest_state" where
  "sha256_round (k, w) (a, b, c, d, e, f, g, h) =
     (let s1 = word_rotr 6 e XOR word_rotr 11 e XOR word_rotr 25 e;
          ch = (e AND f) XOR (NOT e AND g);
          t1 = h + s1 + ch + k + w;
          s0 = word_rotr 2 a XOR word_rotr 13 a XOR word_rotr 22 a;
          maj = (a AND b) XOR (a AND c) XOR (b AND c)
      in (t1 + (s0 + maj), a, b, c, d + t1, e, f, g))"

fun state_add :: "digest_state \<Rightarrow> digest_state \<Rightarrow> digest_state" where
  "state_add (a, b, c, d, e, f, g, h) (a', b', c', d', e', f', g', h') =
     (a + a', b + b', c + c', d + d', e + e', f + f', g + g', h + h')"

definition sha256_block :: "digest_state \<Rightarrow> u32 list \<Rightarrow> digest_state" where
  "sha256_block st ws =
     state_add st (fold sha256_round (zip sha256_k (rev (sha256_schedule 48 (rev ws)))) st)"

fun sha256_blocks :: "nat \<Rightarrow> digest_state \<Rightarrow> u32 list \<Rightarrow> digest_state" where
  "sha256_blocks 0 st ws = st"
| "sha256_blocks (Suc n) st ws = sha256_blocks n (sha256_block st (take 16 ws)) (drop 16 ws)"

definition sha256_state :: "nat list \<Rightarrow> digest_state" where
  "sha256_state m = (let p = words_of (sha256_pad m)
     in sha256_blocks (length p div 16) sha256_init p)"

fun state_words :: "digest_state \<Rightarrow> u32 list" where
  "state_words (a, b, c, d, e, f, g, h) = [a, b, c, d, e, f, g, h]"

definition sha256_bytes :: "nat list \<Rightarrow> nat list" where
  "sha256_bytes m = concat (map (\<lambda>w. big_endian 4 (unat w)) (state_words (sha256_state m)))"

section \<open>Hexadecimal digests\<close>

definition hex_char :: "nat \<Rightarrow> char" where
  "hex_char n = (if n mod 16 < 10 then char_of (48 + n mod 16) else char_of (87 + n mod 16))"

definition hexdigest :: "nat list \<Rightarrow> string" where
  "hexdigest bs = concat (map (\<lambda>b. [hex_char (b div 16), hex_char b]) bs)"

definition bytes_of :: "string \<Rightarrow> nat list" where
  "bytes_of s = map of_char s"

text \<open>\<open>hashlib.sha256(b).hexdigest()\<close>.\<close>

definition sha256_hex :: "string \<Rightarrow> string" where
  "sha256_hex b = hexdigest (sha256_bytes (bytes_of b))"

text \<open>\<open>hashlib.sha256(s.encode("utf-8")).hexdigest()\<close>.\<close>

definition sha256_text :: "string \<Rightarrow> string" where
  "sha256_text s = sha256_hex (utf8 s)"

lemma hex_char_lower_hex: "is_lower_hex (hex_char n)"
proof -
  have "n mod 16 < 16" by simp
  then show ?thesis
    by (auto simp: hex_char_def is_lower_hex_def is_ascii_digit_def in_range_def of_char_of)
qed

lemma length_hexdigest: "length (hexdigest bs) = 2 * length bs"
  by (induction bs) (auto simp: hexdigest_def)

lemma hexdigest_lower_hex: "list_all is_lower_hex (hexdigest bs)"
  by (induction bs) (auto simp: hexdigest_def hex_char_lower_hex)

lemma length_sha256_bytes: "length (sha256_bytes m) = 32"
proof -
  obtain a b c d e f g h where "sha256_state m = (a, b, c, d, e, f, g, h)"
    by (cases "sha256_state m") auto
  then show ?thesis by (simp add: sha256_bytes_def big_endian_def)
qed

theorem is_sha256_hex [simp]: "is_sha256 (sha256_hex b)"
  by (simp add: is_sha256_def sha256_hex_def length_hexdigest length_sha256_bytes
      hexdigest_lower_hex)

lemma is_sha256_text [simp]: "is_sha256 (sha256_text s)"
  by (simp add: sha256_text_def)

lemma length_sha256_hex [simp]: "length (sha256_hex b) = 64"
  using is_sha256_hex [of b] by (simp add: is_sha256_def del: is_sha256_hex)

text \<open>Two different byte strings with one digest.\<close>

definition sha256_collision :: "string \<Rightarrow> string \<Rightarrow> bool" where
  "sha256_collision a b = (a \<noteq> b \<and> sha256_hex a = sha256_hex b)"

lemma sha256_text_eq:
  "sha256_text s = sha256_text t \<Longrightarrow> s = t \<or> sha256_collision (utf8 s) (utf8 t)"
  by (auto simp: sha256_text_def sha256_collision_def)

section \<open>HMAC and base64url\<close>

definition xor_byte :: "nat \<Rightarrow> nat \<Rightarrow> nat" where
  "xor_byte a b = (a XOR b)"

definition hmac_sha256 :: "nat list \<Rightarrow> nat list \<Rightarrow> nat list" where
  "hmac_sha256 key msg = (
     let k0 = (if 64 < length key then sha256_bytes key else key);
         k = k0 @ replicate (64 - length k0) 0
     in sha256_bytes (map (xor_byte 92) k @ sha256_bytes (map (xor_byte 54) k @ msg)))"

definition b64url_char :: "nat \<Rightarrow> char" where
  "b64url_char n =
     (if n < 26 then char_of (65 + n) else if n < 52 then char_of (71 + n)
      else if n < 62 then char_of (n - 4) else if n = 62 then CHR ''-'' else CHR ''_'')"

text \<open>\<open>base64.urlsafe_b64encode(b).rstrip(b"=")\<close>.\<close>

fun b64url_encode :: "nat list \<Rightarrow> string" where
  "b64url_encode (a # b # c # rest) =
     b64url_char (a div 4) # b64url_char (a mod 4 * 16 + b div 16)
     # b64url_char (b mod 16 * 4 + c div 64) # b64url_char (c mod 64) # b64url_encode rest"
| "b64url_encode [a, b] =
     [b64url_char (a div 4), b64url_char (a mod 4 * 16 + b div 16), b64url_char (b mod 16 * 4)]"
| "b64url_encode [a] = [b64url_char (a div 4), b64url_char (a mod 4 * 16)]"
| "b64url_encode [] = []"

text \<open>\<open>base64.b64decode(padded, altchars=b"-_", validate=True)\<close> on a string without padding;
  None where it raises.\<close>

definition b64url_value :: "char \<Rightarrow> nat option" where
  "b64url_value c =
     (if is_upper c then Some (code_point c - 65) else if is_lower c then Some (code_point c - 71)
      else if is_ascii_digit c then Some (code_point c + 4) else if c = CHR ''-'' then Some 62
      else if c = CHR ''_'' then Some 63 else None)"

fun b64url_bytes :: "nat list \<Rightarrow> nat list option" where
  "b64url_bytes (p # q # r # s # rest) =
     map_option (\<lambda>t. (p * 4 + q div 16) # (q mod 16 * 16 + r div 4) # (r mod 4 * 64 + s) # t)
       (b64url_bytes rest)"
| "b64url_bytes [p, q, r] = Some [p * 4 + q div 16, q mod 16 * 16 + r div 4]"
| "b64url_bytes [p, q] = Some [p * 4 + q div 16]"
| "b64url_bytes [p] = None"
| "b64url_bytes [] = Some []"

definition b64url_decode :: "string \<Rightarrow> nat list option" where
  "b64url_decode s =
     (if list_all (\<lambda>c. b64url_value c \<noteq> None) s
      then b64url_bytes (map (\<lambda>c. the (b64url_value c)) s) else None)"

end
