(* ===== verification/Json.thy ===== *)
theory Json
  imports Sha256
begin

text \<open>
  \<open>backend/agency_runtime/utils.py\<close>: JSON-compatible values, \<open>to_primitive\<close>, \<open>canonical_json\<close>
  and \<open>stable_id\<close>. The central fact is that \<open>canonical_json\<close> is injective on canonical values
  (numbers well formed, keys sorted), so two documents with one text are one document and two
  documents with one digest are a SHA-256 collision.
\<close>

section \<open>Values\<close>

text \<open>
  The values the runtime hands to \<open>canonical_json\<close>. A \<open>float\<close> is the text \<open>float.__repr__\<close> gives
  it. A dict is the list of its items in insertion order.
\<close>

datatype json =
    JNull
  | JBool bool
  | JInt int
  | JFloat string
  | JStr string
  | JList "json list"
  | JObj "(string \<times> json) list"

definition jget :: "string \<Rightarrow> (string \<times> json) list \<Rightarrow> json option" where
  "jget k kvs = map_of kvs k"

text \<open>\<open>{**a, **b}\<close> and \<open>a.update(b)\<close>: \<open>b\<close> wins, the position of the first insertion stays.\<close>

definition dict_set :: "string \<Rightarrow> 'v \<Rightarrow> (string \<times> 'v) list \<Rightarrow> (string \<times> 'v) list" where
  "dict_set k v kvs =
     (if k \<in> fst ` set kvs then map (\<lambda>(k', v'). (k', if k' = k then v else v')) kvs
      else kvs @ [(k, v)])"

definition dict_update ::
  "(string \<times> 'v) list \<Rightarrow> (string \<times> 'v) list \<Rightarrow> (string \<times> 'v) list" where
  "dict_update a b = fold (\<lambda>(k, v) d. dict_set k v d) b a"

lemma map_of_dict_set [simp]: "map_of (dict_set k v kvs) = (map_of kvs)(k \<mapsto> v)"
proof (cases "k \<in> fst ` set kvs")
  case True
  then have "map_of (map (\<lambda>(k', v'). (k', if k' = k then v else v')) kvs) x =
      ((map_of kvs)(k \<mapsto> v)) x" for x
  proof (induction kvs)
    case (Cons p kvs)
    show ?case
    proof (cases "k \<in> fst ` set kvs")
      case True
      with Cons.IH show ?thesis by (cases p) auto
    next
      case False
      with Cons.prems have "fst p = k" by auto
      moreover have "map (\<lambda>(k', v'). (k', if k' = k then v else v')) kvs = kvs"
        using False by (intro map_idI) force
      ultimately show ?thesis by (cases p) auto
    qed
  qed simp
  with True show ?thesis by (auto simp: dict_set_def)
next
  case False
  then have "map_of kvs k = None" by (simp add: map_of_eq_None_iff)
  with False show ?thesis by (auto simp: dict_set_def map_add_def fun_eq_iff split: option.splits)
qed

lemma dict_set_keys: "set (map fst (dict_set k v kvs)) = insert k (set (map fst kvs))"
  and distinct_dict_set: "distinct (map fst kvs) \<Longrightarrow> distinct (map fst (dict_set k v kvs))"
proof -
  have m: "map fst (map (\<lambda>(k', v'). (k', if k' = k then v else v')) kvs) = map fst kvs"
    by (induction kvs) auto
  have e: "map fst (dict_set k v kvs) =
      (if k \<in> set (map fst kvs) then map fst kvs else map fst kvs @ [k])"
    unfolding dict_set_def by (simp only: m set_map split: if_split) simp
  show "set (map fst (dict_set k v kvs)) = insert k (set (map fst kvs))"
    unfolding e by (auto simp del: set_map)
  show "distinct (map fst kvs) \<Longrightarrow> distinct (map fst (dict_set k v kvs))"
    unfolding e by (simp del: set_map)
qed

lemma map_of_dict_update: "map_of (dict_update a b) = map_of a ++ map_of (rev b)"
proof (induction b arbitrary: a)
  case (Cons p b)
  have "dict_update a (p # b) = dict_update (dict_set (fst p) (snd p) a) b"
    by (simp add: dict_update_def split: prod.splits)
  with Cons.IH show ?case by (cases p) (auto simp: map_add_def fun_eq_iff split: option.splits)
qed (simp add: dict_update_def)

lemma jget_dict_set [simp]: "jget x (dict_set k v kvs) = (if x = k then Some v else jget x kvs)"
  by (simp add: jget_def)

section \<open>Canonical form\<close>

text \<open>\<open>sorted(value.items(), key=...)\<close>: dicts sorted by key, recursively.\<close>

fun to_primitive :: "json \<Rightarrow> json" where
  "to_primitive (JList xs) = JList (map to_primitive xs)"
| "to_primitive (JObj kvs) = JObj (sort_key fst (map (\<lambda>(k, v). (k, to_primitive v)) kvs))"
| "to_primitive v = v"

lemma map_of_filter_key: "map_of (filter (\<lambda>p. fst p = k) xs) k = map_of xs k"
  by (induction xs) auto

lemma map_of_sort_key: "map_of (sort_key fst xs) = map_of xs"
proof
  fix k
  have "filter (\<lambda>p. fst p = k) (sort_key fst xs) = filter (\<lambda>p. fst p = k) xs"
    by (rule sort_key_stable)
  then show "map_of (sort_key fst xs) k = map_of xs k" by (metis map_of_filter_key)
qed

lemma map_of_values: "map_of (map (\<lambda>(k, v). (k, f v)) xs) k = map_option f (map_of xs k)"
  by (induction xs) auto

section \<open>Printing\<close>

definition nat_digit :: "nat \<Rightarrow> char" where
  "nat_digit d = char_of (48 + d)"

fun show_nat :: "nat \<Rightarrow> string" where
  "show_nat n = (if n < 10 then [nat_digit n] else show_nat (n div 10) @ [nat_digit (n mod 10)])"

declare show_nat.simps [simp del]

definition show_int :: "int \<Rightarrow> string" where
  "show_int i = (if i < 0 then CHR ''-'' # show_nat (nat (- i)) else show_nat (nat i))"

text \<open>The escapes of \<open>json.dumps(..., ensure_ascii=False)\<close>.\<close>

definition escape_char :: "char \<Rightarrow> string" where
  "escape_char c = (let n = code_point c in
     if n = 34 then [CHR 0x5C, CHR 0x22] else if n = 92 then [CHR 0x5C, CHR 0x5C]
     else if n = 10 then [CHR 0x5C, CHR ''n''] else if n = 13 then [CHR 0x5C, CHR ''r'']
     else if n = 9 then [CHR 0x5C, CHR ''t''] else if n = 8 then [CHR 0x5C, CHR ''b'']
     else if n = 12 then [CHR 0x5C, CHR ''f'']
     else if n < 32 then [CHR 0x5C, CHR ''u'', CHR ''0'', CHR ''0'', hex_char (n div 16), hex_char n]
     else [c])"

definition show_str :: "string \<Rightarrow> string" where
  "show_str s = CHR 0x22 # concat (map escape_char s) @ [CHR 0x22]"

fun intercalate :: "string \<Rightarrow> string list \<Rightarrow> string" where
  "intercalate sep [] = []"
| "intercalate sep [x] = x"
| "intercalate sep (x # y # zs) = x @ sep @ intercalate sep (y # zs)"

fun show_json :: "json \<Rightarrow> string" where
  "show_json JNull = ''null''"
| "show_json (JBool b) = (if b then ''true'' else ''false'')"
| "show_json (JInt i) = show_int i"
| "show_json (JFloat t) = t"
| "show_json (JStr s) = show_str s"
| "show_json (JList xs) = CHR ''['' # intercalate '','' (map show_json xs) @ '']''"
| "show_json (JObj kvs) =
     CHR ''{'' # intercalate '','' (map (\<lambda>(k, v). show_str k @ CHR '':'' # show_json v) kvs) @ ''}''"

definition canonical_json :: "json \<Rightarrow> string" where
  "canonical_json v = show_json (to_primitive v)"

section \<open>Injectivity of printing\<close>

text \<open>Well-formed values: every \<open>float\<close> text is the repr of a finite float.\<close>

definition is_num_char :: "char \<Rightarrow> bool" where
  "is_num_char c = (is_ascii_digit c \<or> c \<in> {CHR ''-'', CHR ''+'', CHR ''.'', CHR ''e''})"

definition is_float_text :: "string \<Rightarrow> bool" where
  "is_float_text t = (list_all is_num_char t \<and> (CHR ''.'' \<in> set t \<or> CHR ''e'' \<in> set t)
     \<and> (is_ascii_digit (hd t) \<or> hd t = CHR ''-''))"

fun wf_json :: "json \<Rightarrow> bool" where
  "wf_json (JFloat t) = is_float_text t"
| "wf_json (JList xs) = list_all wf_json xs"
| "wf_json (JObj kvs) = list_all (\<lambda>(k, v). wf_json v) kvs"
| "wf_json _ = True"

definition unhex :: "char \<Rightarrow> nat" where
  "unhex c = (if is_ascii_digit c then code_point c - 48 else code_point c - 87)"

lemma unhex_hex_char [simp]: "unhex (hex_char n) = n mod 16"
proof -
  have "n mod 16 < 16" by simp
  then show ?thesis
    by (auto simp: unhex_def hex_char_def is_ascii_digit_def in_range_def of_char_of)
qed

definition unescape :: "string \<Rightarrow> char \<times> string" where
  "unescape s = (case s of
     a # b # r \<Rightarrow>
       (if a = CHR 0x5C then
          (if b = CHR 0x22 then (CHR 0x22, r) else if b = CHR 0x5C then (CHR 0x5C, r)
           else if b = CHR ''n'' then (CHR 0x0A, r) else if b = CHR ''r'' then (CHR 0x0D, r)
           else if b = CHR ''t'' then (CHR 0x09, r) else if b = CHR ''b'' then (CHR 0x08, r)
           else if b = CHR ''f'' then (CHR 0x0C, r)
           else (char_of (16 * unhex (r ! 2) + unhex (r ! 3)), drop 4 r))
        else (a, b # r))
   | [a] \<Rightarrow> (a, [])
   | [] \<Rightarrow> (CHR 0x00, []))"

lemma code_point_inj: "code_point c = code_point d \<longleftrightarrow> c = d"
  by (metis char_of_char)

lemma unescape_escape: "unescape (escape_char c @ r) = (c, r)"
proof -
  let ?n = "code_point c"
  have q: "code_point (CHR 0x22) = 34" "code_point (CHR 0x5C) = 92" "code_point (CHR 0x0A) = 10"
    "code_point (CHR 0x0D) = 13" "code_point (CHR 0x09) = 9" "code_point (CHR 0x08) = 8"
    "code_point (CHR 0x0C) = 12"
    by simp_all
  have k: "c \<noteq> CHR 0x22 \<Longrightarrow> ?n \<noteq> 34" "c \<noteq> CHR 0x5C \<Longrightarrow> ?n \<noteq> 92" "c \<noteq> CHR 0x0A \<Longrightarrow> ?n \<noteq> 10"
    "c \<noteq> CHR 0x0D \<Longrightarrow> ?n \<noteq> 13" "c \<noteq> CHR 0x09 \<Longrightarrow> ?n \<noteq> 9" "c \<noteq> CHR 0x08 \<Longrightarrow> ?n \<noteq> 8"
    "c \<noteq> CHR 0x0C \<Longrightarrow> ?n \<noteq> 12"
    using q by (metis code_point_inj)+
  consider "c \<in> {CHR 0x22, CHR 0x5C, CHR 0x0A, CHR 0x0D, CHR 0x09, CHR 0x08, CHR 0x0C}"
    | (ctl) "c \<notin> {CHR 0x22, CHR 0x5C, CHR 0x0A, CHR 0x0D, CHR 0x09, CHR 0x08, CHR 0x0C}" "?n < 32"
    | (plain) "c \<notin> {CHR 0x22, CHR 0x5C, CHR 0x0A, CHR 0x0D, CHR 0x09, CHR 0x08, CHR 0x0C}" "\<not> ?n < 32"
    by blast
  then show ?thesis
  proof cases
    case 1
    then show ?thesis by (auto simp: unescape_def escape_char_def)
  next
    case ctl
    have n: "?n \<noteq> 34" "?n \<noteq> 92" "?n \<noteq> 10" "?n \<noteq> 13" "?n \<noteq> 9" "?n \<noteq> 8" "?n \<noteq> 12"
      using ctl(1) k by simp_all
    have e: "escape_char c = [CHR 0x5C, CHR ''u'', CHR ''0'', CHR ''0'', hex_char (?n div 16), hex_char ?n]"
      using n ctl(2) by (simp add: escape_char_def Let_def)
    have "?n div 16 < 16" using ctl(2) by simp
    then have m: "16 * (?n div 16 mod 16) + ?n mod 16 = ?n" by simp
    have u: "unescape ([CHR 0x5C, CHR ''u'', CHR ''0'', CHR ''0'', a, b] @ r) =
        (char_of (16 * unhex a + unhex b), r)" for a b
      by (simp add: unescape_def)
    have "unescape (escape_char c @ r) = (char_of ?n, r)"
      unfolding e u unhex_hex_char m by (rule refl)
    then show ?thesis by simp
  next
    case plain
    have n: "?n \<noteq> 34" "?n \<noteq> 92" "?n \<noteq> 10" "?n \<noteq> 13" "?n \<noteq> 9" "?n \<noteq> 8" "?n \<noteq> 12"
      using plain(1) k by simp_all
    then show ?thesis using plain by (cases r) (simp_all add: unescape_def escape_char_def Let_def)
  qed
qed

lemma escape_char_hd: "escape_char c \<noteq> [] \<and> hd (escape_char c) \<noteq> CHR 0x22"
proof -
  have "code_point c \<noteq> 34 \<Longrightarrow> c \<noteq> CHR 0x22" by auto
  then show ?thesis by (simp add: escape_char_def Let_def)
qed

lemma escapes_prefix:
  "concat (map escape_char s) @ CHR 0x22 # r = concat (map escape_char t) @ CHR 0x22 # u
   \<Longrightarrow> s = t \<and> r = u"
proof (induction s arbitrary: t)
  case Nil
  show ?case
  proof (cases t)
    case (Cons d t')
    with Nil have "hd (escape_char d) = CHR 0x22"
      using escape_char_hd [of d] by (cases "escape_char d") auto
    then show ?thesis using escape_char_hd by blast
  qed (use Nil in simp)
next
  case (Cons c s)
  show ?case
  proof (cases t)
    case Nil
    with Cons.prems have "hd (escape_char c) = CHR 0x22"
      using escape_char_hd [of c] by (cases "escape_char c") auto
    then show ?thesis using escape_char_hd by blast
  next
    case (Cons d t')
    let ?x = "concat (map escape_char s) @ CHR 0x22 # r"
    let ?y = "concat (map escape_char t') @ CHR 0x22 # u"
    have "escape_char c @ ?x = escape_char d @ ?y" using Cons.prems Cons by simp
    then have "(c, ?x) = (d, ?y)" by (metis unescape_escape)
    with Cons.IH [of t'] Cons show ?thesis by simp
  qed
qed
lemma show_str_prefix: "show_str s @ r = show_str t @ u \<Longrightarrow> s = t \<and> r = u"
  using escapes_prefix [of s r t u] by (simp add: show_str_def)

lemma nat_digit_digit: "d < 10 \<Longrightarrow> is_ascii_digit (nat_digit d)"
  by (simp add: nat_digit_def is_ascii_digit_def in_range_def of_char_of)

lemma show_nat_digits: "list_all is_ascii_digit (show_nat n) \<and> show_nat n \<noteq> []"
proof (induction n rule: show_nat.induct)
  case (1 n)
  then show ?case by (subst (1 2) show_nat.simps) (auto simp: nat_digit_digit)
qed

fun digits_value :: "nat \<Rightarrow> string \<Rightarrow> nat" where
  "digits_value acc [] = acc"
| "digits_value acc (c # cs) = digits_value (10 * acc + (code_point c - 48)) cs"

lemma digits_value_append: "digits_value a (xs @ [c]) = 10 * digits_value a xs + (code_point c - 48)"
  by (induction xs arbitrary: a) auto

lemma digits_value_show_nat: "digits_value 0 (show_nat n) = n"
proof (induction n rule: show_nat.induct)
  case (1 n)
  have d: "d < 10 \<Longrightarrow> code_point (nat_digit d) - 48 = d" for d :: nat
    by (simp add: nat_digit_def of_char_of)
  show ?case
  proof (cases "n < 10")
    case True
    then show ?thesis by (subst show_nat.simps) (simp add: d)
  next
    case False
    with 1 show ?thesis by (subst show_nat.simps) (simp add: digits_value_append d)
  qed
qed

lemma show_nat_inj: "show_nat m = show_nat n \<Longrightarrow> m = n"
  using digits_value_show_nat by metis

lemma show_int_text:
  "list_all is_num_char (show_int i) \<and> show_int i \<noteq> []
   \<and> CHR ''.'' \<notin> set (show_int i) \<and> CHR ''e'' \<notin> set (show_int i)
   \<and> (is_ascii_digit (hd (show_int i)) \<or> hd (show_int i) = CHR ''-'')"
proof -
  have d: "list_all is_ascii_digit (show_nat n)" "show_nat n \<noteq> []" for n
    using show_nat_digits by auto
  have n: "\<not> is_ascii_digit (CHR ''.'')" "\<not> is_ascii_digit (CHR ''e'')"
    by (simp_all add: is_ascii_digit_def in_range_def)
  have "is_ascii_digit (hd (show_nat n))" for n
    using d [of n] by (cases "show_nat n") auto
  moreover have "CHR ''.'' \<notin> set (show_nat n) \<and> CHR ''e'' \<notin> set (show_nat n)" for n
    using d [of n] n by (auto simp: list_all_iff)
  moreover have "list_all is_num_char (show_nat n)" for n
    using d [of n] by (auto simp: list_all_iff is_num_char_def)
  ultimately show ?thesis using d by (auto simp: show_int_def is_num_char_def)
qed

lemma show_int_inj: "show_int i = show_int j \<Longrightarrow> i = j"
proof -
  assume e: "show_int i = show_int j"
  have m: "show_nat n \<noteq> CHR ''-'' # s" for n s
    using show_nat_digits [of n] by (auto simp: is_ascii_digit_def in_range_def)
  then have m': "CHR ''-'' # s \<noteq> show_nat n" for n s by metis
  show ?thesis using e m m'
    by (auto simp: show_int_def split: if_splits dest!: show_nat_inj)
qed

definition delimited :: "string \<Rightarrow> bool" where
  "delimited r = (r = [] \<or> hd r \<in> {CHR '','', CHR '']'', CHR ''}''})"

lemma delimited_not_num: "delimited r \<Longrightarrow> takeWhile is_num_char r = []"
  by (cases r) (auto simp: delimited_def is_num_char_def is_ascii_digit_def in_range_def)

lemma num_text_prefix:
  assumes "list_all is_num_char a" "list_all is_num_char b" "delimited r" "delimited s"
    and "a @ r = b @ s"
  shows "a = b \<and> r = s"
proof -
  have "takeWhile is_num_char (a @ r) = a" "takeWhile is_num_char (b @ s) = b"
    using assms(1-4) by (simp_all add: takeWhile_append list_all_iff delimited_not_num)
  with assms(5) show ?thesis by auto
qed

text \<open>The printed form of a number, of whichever Python type.\<close>

definition is_number :: "json \<Rightarrow> bool" where
  "is_number j = (case j of JInt _ \<Rightarrow> True | JFloat _ \<Rightarrow> True | _ \<Rightarrow> False)"

lemma number_text:
  "is_number j \<Longrightarrow> wf_json j \<Longrightarrow> list_all is_num_char (show_json j) \<and> show_json j \<noteq> []
   \<and> (is_ascii_digit (hd (show_json j)) \<or> hd (show_json j) = CHR ''-'')"
  using show_int_text by (cases j) (auto simp: is_number_def is_float_text_def)

lemma number_inj:
  assumes "is_number j" "is_number k" "wf_json j" "wf_json k" "show_json j = show_json k"
  shows "j = k"
proof -
  have f: "show_int i \<noteq> t \<and> t \<noteq> show_int i" if "is_float_text t" for i t
    using that show_int_text [of i] by (auto simp: is_float_text_def)
  show ?thesis
  proof (cases j)
    case (JInt i)
    with assms f show ?thesis
      by (cases k) (auto simp: is_number_def dest: show_int_inj)
  next
    case (JFloat t)
    with assms f show ?thesis
      by (cases k) (auto simp: is_number_def)
  qed (use assms(1) in \<open>simp_all add: is_number_def\<close>)
qed

text \<open>
  A printer is prefix-injective on \<open>ok\<close> when its output, followed by the end of the text or by
  a delimiter, determines both the value and what follows. The law is stated for one value, so
  that the induction over nested values can use it.
\<close>

definition prefix_inj_at :: "('a \<Rightarrow> string) \<Rightarrow> ('a \<Rightarrow> bool) \<Rightarrow> 'a \<Rightarrow> bool" where
  "prefix_inj_at shw ok x \<longleftrightarrow>
     (\<forall>y r s. ok y \<longrightarrow> delimited r \<longrightarrow> delimited s \<longrightarrow> shw x @ r = shw y @ s \<longrightarrow> x = y \<and> r = s)"

lemma prefix_inj_atD:
  "prefix_inj_at shw ok x \<Longrightarrow> ok y \<Longrightarrow> delimited r \<Longrightarrow> delimited s \<Longrightarrow> shw x @ r = shw y @ s
   \<Longrightarrow> x = y \<and> r = s"
  unfolding prefix_inj_at_def by blast

fun show_rest :: "('a \<Rightarrow> string) \<Rightarrow> 'a list \<Rightarrow> string" where
  "show_rest shw [] = []"
| "show_rest shw (x # xs) = CHR '','' # shw x @ show_rest shw xs"

lemma intercalate_show_rest: "intercalate '','' (map shw (x # xs)) = shw x @ show_rest shw xs"
  by (induction xs arbitrary: x) auto

lemma delimited_rest: "c \<in> {CHR '']'', CHR ''}''} \<Longrightarrow> delimited (show_rest shw xs @ c # r)"
  by (cases xs) (auto simp: delimited_def)

lemma show_rest_inj:
  assumes c: "c \<in> {CHR '']'', CHR ''}''}"
  shows "\<forall>x \<in> set xs. prefix_inj_at shw ok x \<Longrightarrow> list_all ok ys
    \<Longrightarrow> show_rest shw xs @ c # r = show_rest shw ys @ c # s \<Longrightarrow> xs = ys \<and> r = s"
proof (induction xs arbitrary: ys)
  case Nil
  then show ?case using c by (cases ys) auto
next
  case (Cons x xs)
  show ?case
  proof (cases ys)
    case Nil
    with Cons.prems c show ?thesis by auto
  next
    case (Cons y ys')
    have "x = y \<and> show_rest shw xs @ c # r = show_rest shw ys' @ c # s"
      using Cons.prems Cons
      by (intro prefix_inj_atD [of shw ok]) (auto intro!: delimited_rest c)
    with Cons.prems Cons Cons.IH [of ys'] show ?thesis by auto
  qed
qed

lemma show_seq_inj:
  assumes c: "c \<in> {CHR '']'', CHR ''}''}"
    and x: "\<forall>x \<in> set xs. prefix_inj_at shw ok x" and y: "list_all ok ys"
    and ne: "\<And>z. z \<in> set xs \<union> set ys \<Longrightarrow> shw z \<noteq> [] \<and> hd (shw z) \<noteq> c"
    and eq: "intercalate '','' (map shw xs) @ c # r = intercalate '','' (map shw ys) @ c # s"
  shows "xs = ys \<and> r = s"
proof (cases xs; cases ys)
  fix y ys' assume a: "xs = []" "ys = y # ys'"
  then have "hd (shw y) = c" "shw y \<noteq> []" using eq ne [of y]
    by (simp_all only: intercalate_show_rest, simp_all) (metis hd_append2 list.sel(1))
  then show ?thesis using ne [of y] a by simp
next
  fix x xs' assume a: "xs = x # xs'" "ys = []"
  then have "hd (shw x) = c" "shw x \<noteq> []" using eq ne [of x]
    by (simp_all only: intercalate_show_rest, simp_all) (metis hd_append2 list.sel(1))
  then show ?thesis using ne [of x] a by simp
next
  fix u us v vs assume a: "xs = u # us" "ys = v # vs"
  have "u = v \<and> show_rest shw us @ c # r = show_rest shw vs @ c # s"
    using x y eq a unfolding a intercalate_show_rest append_assoc
    by (intro prefix_inj_atD [of shw ok]) (auto intro!: delimited_rest c)
  moreover have "\<forall>x \<in> set us. prefix_inj_at shw ok x" "list_all ok vs" using x y a by auto
  ultimately show ?thesis using show_rest_inj [OF c] a by blast
qed (use eq in simp)

text \<open>Which kind of value a text starts.\<close>

fun json_kind :: "json \<Rightarrow> nat" where
  "json_kind JNull = 0" | "json_kind (JBool b) = (if b then 1 else 2)"
| "json_kind (JInt _) = 3" | "json_kind (JFloat _) = 3" | "json_kind (JStr _) = 4"
| "json_kind (JList _) = 5" | "json_kind (JObj _) = 6"

definition kind_of_char :: "char \<Rightarrow> nat" where
  "kind_of_char c = (if c = CHR ''n'' then 0 else if c = CHR ''t'' then 1 else if c = CHR ''f'' then 2
     else if is_num_char c then 3 else if c = CHR 0x22 then 4 else if c = CHR ''['' then 5 else 6)"

lemma show_json_hd:
  "wf_json j \<Longrightarrow> show_json j \<noteq> [] \<and> kind_of_char (hd (show_json j)) = json_kind j
   \<and> hd (show_json j) \<notin> {CHR '']'', CHR ''}''}"
proof (cases "is_number j")
  case True
  assume "wf_json j"
  with True have h: "show_json j \<noteq> []" "is_ascii_digit (hd (show_json j)) \<or> hd (show_json j) = CHR ''-''"
    using number_text by auto
  moreover have "json_kind j = 3" using True by (cases j) (auto simp: is_number_def)
  ultimately show ?thesis
    by (auto simp: kind_of_char_def is_num_char_def is_ascii_digit_def in_range_def)
next
  case False
  then show ?thesis
    by (cases j) (auto simp: is_number_def kind_of_char_def is_num_char_def is_ascii_digit_def
        in_range_def show_str_def)
qed

lemma show_json_kind:
  assumes "wf_json j" "wf_json k" "show_json j @ r = show_json k @ s"
  shows "json_kind j = json_kind k"
  using show_json_hd [OF assms(1)] show_json_hd [OF assms(2)] assms(3) by (metis hd_append2)

abbreviation show_entry :: "string \<times> json \<Rightarrow> string" where
  "show_entry \<equiv> \<lambda>(k, v). show_str k @ CHR '':'' # show_json v"

abbreviation wf_entry :: "string \<times> json \<Rightarrow> bool" where
  "wf_entry \<equiv> \<lambda>(k, v). wf_json v"

lemma entry_prefix_inj:
  assumes "prefix_inj_at show_json wf_json v"
  shows "prefix_inj_at show_entry wf_entry (k, v)"
proof -
  have "(k, v) = y \<and> r = s" if y: "wf_entry y" "delimited r" "delimited s"
    and e: "show_entry (k, v) @ r = show_entry y @ s" for y r s
  proof (cases y)
    case (Pair k' v')
    have "show_str k @ (CHR '':'' # show_json v @ r) = show_str k' @ (CHR '':'' # show_json v' @ s)"
      using e Pair by simp
    then have "k = k'" "show_json v @ r = show_json v' @ s" by (auto dest!: show_str_prefix)
    moreover have "wf_json v'" using y Pair by simp
    ultimately show ?thesis using prefix_inj_atD [OF assms] y(2,3) Pair by blast
  qed
  then show ?thesis unfolding prefix_inj_at_def by blast
qed

lemma number_prefix:
  assumes "is_number j" "wf_json j" "wf_json k" "delimited r" "delimited s"
    and "show_json j @ r = show_json k @ s"
  shows "j = k \<and> r = s"
proof -
  have "json_kind j = 3" using assms(1) by (cases j) (auto simp: is_number_def)
  then have "json_kind k = 3" using show_json_kind [OF assms(2,3,6)] by simp
  then have k: "is_number k" by (cases k) (auto simp: is_number_def split: if_splits)
  have "show_json j = show_json k \<and> r = s"
    using number_text [OF assms(1,2)] number_text [OF k assms(3)] assms(4-6)
    by (intro num_text_prefix) auto
  then show ?thesis using number_inj [OF assms(1) k assms(2,3)] by simp
qed

lemma keyword_prefix:
  assumes "json_kind j < 3" "wf_json j" "wf_json k" "show_json j @ r = show_json k @ s"
  shows "j = k \<and> r = s"
proof -
  have "json_kind k = json_kind j" using show_json_kind [OF assms(2-4)] by simp
  then have "j = k" using assms(1) by (cases j; cases k) (auto split: if_splits)
  with assms(4) show ?thesis by simp
qed

lemma show_json_prefix_inj: "wf_json j \<Longrightarrow> prefix_inj_at show_json wf_json j"
proof (induction j)
  case (JList xs)
  have "JList xs = k \<and> r = s" if k: "wf_json k" and e: "show_json (JList xs) @ r = show_json k @ s" for k r s
  proof -
    have "json_kind k = 5" using show_json_kind [OF JList.prems k e] by simp
    then obtain ys where ys: "k = JList ys" by (cases k) (auto split: if_splits)
    have "xs = ys \<and> r = s"
      using JList k e ys show_json_hd
      by (intro show_seq_inj [of "CHR '']''" xs show_json wf_json ys r s]) (auto simp: list_all_iff)
    with ys show ?thesis by simp
  qed
  then show ?case unfolding prefix_inj_at_def by blast
next
  case (JObj kvs)
  have "JObj kvs = k \<and> r = s" if k: "wf_json k" and e: "show_json (JObj kvs) @ r = show_json k @ s" for k r s
  proof -
    have "json_kind k = 6" using show_json_kind [OF JObj.prems k e] by simp
    then obtain ys where ys: "k = JObj ys" by (cases k) (auto split: if_splits)
    have "prefix_inj_at show_entry wf_entry p" if "p \<in> set kvs" for p
    proof (cases p)
      case (Pair a b)
      then have "wf_json b" "prefix_inj_at show_json wf_json b"
        using JObj that by (auto simp: list_all_iff intro!: JObj.IH [of p b])
      with Pair show ?thesis using entry_prefix_inj by simp
    qed
    moreover have "show_entry z \<noteq> [] \<and> hd (show_entry z) \<noteq> CHR ''}''" for z
      by (cases z) (simp add: show_str_def)
    ultimately have "kvs = ys \<and> r = s"
      using k e ys
      by (intro show_seq_inj [of "CHR ''}''" kvs show_entry wf_entry ys r s]) (auto simp: list_all_iff)
    with ys show ?thesis by simp
  qed
  then show ?case unfolding prefix_inj_at_def by blast
next
  case (JStr t)
  have "JStr t = k \<and> r = s" if k: "wf_json k" and e: "show_json (JStr t) @ r = show_json k @ s" for k r s
  proof -
    have "json_kind k = 4" using show_json_kind [OF JStr.prems k e] by simp
    then obtain u where "k = JStr u" by (cases k) (auto split: if_splits)
    with e show ?thesis by (auto dest: show_str_prefix)
  qed
  then show ?case unfolding prefix_inj_at_def by blast
next
  case JNull
  have "json_kind JNull < 3" by simp
  then show ?case unfolding prefix_inj_at_def using keyword_prefix JNull by blast
next
  case (JBool b)
  have "json_kind (JBool b) < 3" by simp
  then show ?case unfolding prefix_inj_at_def using keyword_prefix JBool by blast
next
  case (JInt i)
  have "is_number (JInt i)" by (simp add: is_number_def)
  then show ?case unfolding prefix_inj_at_def using number_prefix JInt.prems by blast
next
  case (JFloat t)
  have "is_number (JFloat t)" by (simp add: is_number_def)
  then show ?case unfolding prefix_inj_at_def using number_prefix JFloat.prems by blast
qed

text \<open>A value is canonical when it is well formed and its dicts are sorted by key.\<close>

fun sorted_json :: "json \<Rightarrow> bool" where
  "sorted_json (JList xs) = list_all sorted_json xs"
| "sorted_json (JObj kvs) = (sorted (map fst kvs) \<and> list_all (\<lambda>(k, v). sorted_json v) kvs)"
| "sorted_json _ = True"

lemma wf_to_primitive: "wf_json j \<Longrightarrow> wf_json (to_primitive j)"
proof (induction j)
  case (JObj kvs)
  then show ?case by (fastforce simp: list_all_iff)
qed (auto simp: list_all_iff)

lemma sorted_to_primitive: "sorted_json (to_primitive j)"
proof (induction j)
  case (JObj kvs)
  then show ?case by (fastforce simp: list_all_iff)
qed (auto simp: list_all_iff)

lemma to_primitive_sorted: "sorted_json j \<Longrightarrow> to_primitive j = j"
proof (induction j)
  case (JObj kvs)
  have "map (\<lambda>(k, v). (k, to_primitive v)) kvs = kvs"
    using JObj by (intro map_idI) (force simp: list_all_iff)
  then show ?case using JObj.prems by (simp add: sorted_sort_id sort_key_id_if_sorted)
qed (auto simp: list_all_iff intro!: map_idI)

lemma to_primitive_idem: "to_primitive (to_primitive j) = to_primitive j"
  by (rule to_primitive_sorted) (rule sorted_to_primitive)

theorem canonical_json_inj:
  assumes "wf_json j" "wf_json k" "canonical_json j = canonical_json k"
  shows "to_primitive j = to_primitive k"
  using prefix_inj_atD [OF show_json_prefix_inj [OF wf_to_primitive [OF assms(1)]]
      wf_to_primitive [OF assms(2)], of "[]" "[]"] assms(3)
  by (simp add: canonical_json_def delimited_def)

lemma canonical_digest_eq:
  assumes "wf_json j" "wf_json k"
    and "sha256_text (canonical_json j) = sha256_text (canonical_json k)"
  shows "to_primitive j = to_primitive k
    \<or> sha256_collision (utf8 (canonical_json j)) (utf8 (canonical_json k))"
  using sha256_text_eq [OF assms(3)] canonical_json_inj [OF assms(1,2)] by auto

section \<open>Size of the printed form\<close>

lemma utf8_len_append: "utf8_len (s @ t) = utf8_len s + utf8_len t"
  by (simp add: utf8_len_def utf8_append)

lemma utf8_len_Nil [simp]: "utf8_len [] = 0"
  by (simp add: utf8_len_def)

lemma utf8_len_Cons: "utf8_len (c # s) = length (utf8_char c) + utf8_len s"
  by (simp add: utf8_len_def utf8_Cons)

lemma utf8_len_le: "utf8_len s \<le> 2 * length s"
proof (induction s)
  case (Cons c s)
  have "length (utf8_char c) \<le> 2" by (simp add: utf8_char_def Let_def)
  with Cons show ?case by (simp add: utf8_len_Cons)
qed simp

lemma utf8_len_escape: "utf8_len (escape_char c) \<le> 12"
proof -
  have "length (escape_char c) \<le> 6" by (simp add: escape_char_def Let_def)
  then show ?thesis using utf8_len_le [of "escape_char c"] by simp
qed

lemma utf8_len_show_str: "utf8_len (show_str s) \<le> 4 + 12 * length s"
proof -
  have "utf8_len (concat (map escape_char s)) \<le> 12 * length s"
  proof (induction s)
    case (Cons c s)
    then show ?case using utf8_len_escape [of c] by (simp add: utf8_len_append)
  qed simp
  then show ?thesis
    using utf8_len_le [of "[CHR 0x22]"] by (simp add: show_str_def utf8_len_Cons utf8_len_append utf8_char_def)
qed

fun json_size :: "json \<Rightarrow> nat" where
  "json_size JNull = 4"
| "json_size (JBool b) = 5"
| "json_size (JInt i) = 2 * length (show_int i)"
| "json_size (JFloat t) = 2 * length t"
| "json_size (JStr s) = 4 + 12 * length s"
| "json_size (JList xs) = 4 + sum_list (map (\<lambda>x. 2 + json_size x) xs)"
| "json_size (JObj kvs) = 4 + sum_list (map (\<lambda>(k, v). 8 + 12 * length k + json_size v) kvs)"

lemma utf8_len_intercalate: "utf8_len (intercalate '','' xs) \<le> sum_list (map (\<lambda>x. 2 + utf8_len x) xs)"
proof (induction "'',''" xs rule: intercalate.induct)
  case (3 x y zs)
  then show ?case by (simp add: utf8_len_append utf8_len_Cons utf8_char_def)
qed simp_all

lemma utf8_len_show_json: "utf8_len (show_json j) \<le> json_size j"
proof (induction j)
  case (JList xs)
  have "sum_list (map (\<lambda>x. 2 + utf8_len x) (map show_json xs)) \<le> sum_list (map (\<lambda>x. 2 + json_size x) xs)"
    using JList by (auto intro!: sum_list_mono)
  then show ?case
    using utf8_len_intercalate [of "map show_json xs"]
    by (simp add: utf8_len_Cons utf8_len_append utf8_char_def)
next
  case (JObj kvs)
  have "2 + utf8_len (show_str k @ CHR '':'' # show_json v) \<le> 8 + 12 * length k + json_size v"
    if "(k, v) \<in> set kvs" for k v
    using JObj [OF that] utf8_len_show_str [of k] by (simp add: utf8_len_Cons utf8_len_append utf8_char_def)
  then have "sum_list (map (\<lambda>x. 2 + utf8_len x) (map (\<lambda>(k, v). show_str k @ CHR '':'' # show_json v) kvs))
      \<le> sum_list (map (\<lambda>(k, v). 8 + 12 * length k + json_size v) kvs)"
    by (auto intro!: sum_list_mono simp: comp_def)
  then show ?case
    using utf8_len_intercalate [of "map (\<lambda>(k, v). show_str k @ CHR '':'' # show_json v) kvs"]
    by (simp add: utf8_len_Cons utf8_len_append utf8_char_def)
next
  case (JStr s)
  then show ?case using utf8_len_show_str by simp
qed (use utf8_len_le in \<open>auto simp: utf8_len_Cons utf8_char_def\<close>)

lemma sum_list_sort_key: "sum_list (map f (sort_key g xs)) = sum_list (map f xs)" for f :: "'a \<Rightarrow> nat"
proof -
  have ins: "sum_list (map f (insort_key g x ys)) = f x + sum_list (map f ys)" for x ys
    by (induction ys) auto
  show ?thesis by (induction xs) (simp_all add: ins)
qed

lemma json_size_primitive: "json_size (to_primitive j) = json_size j"
proof (induction j)
  case (JList xs)
  then have "map (\<lambda>x. 2 + json_size x) (map to_primitive xs) = map (\<lambda>x. 2 + json_size x) xs" by simp
  then show ?case by (simp only: to_primitive.simps json_size.simps)
next
  case (JObj kvs)
  have "map (\<lambda>(k, v). 8 + 12 * length k + json_size v) (map (\<lambda>(k, v). (k, to_primitive v)) kvs)
      = map (\<lambda>(k, v). 8 + 12 * length k + json_size v) kvs"
    using JObj by auto
  then show ?case by (simp only: to_primitive.simps json_size.simps sum_list_sort_key)
qed simp_all

text \<open>A bound on the bytes of \<open>canonical_json\<close> that needs no printing.\<close>

lemma canonical_json_size: "utf8_len (canonical_json j) \<le> json_size j"
  using utf8_len_show_json [of "to_primitive j"] by (simp add: canonical_json_def json_size_primitive)

section \<open>Identifiers and checks\<close>

definition stable_id :: "string \<Rightarrow> json list \<Rightarrow> nat \<Rightarrow> string" where
  "stable_id prefix values len =
     prefix @ ''-'' @ take len (sha256_text (canonical_json (JList values)))"

definition require_non_empty :: "string \<Rightarrow> string \<Rightarrow> unit res" where
  "require_non_empty v field_name =
     raise_first [(strip v = [], ValueError (field_name @ '' must not be empty''))]"

lemma require_non_empty_Inr: "require_non_empty v f = Inr u \<longleftrightarrow> strip v \<noteq> []"
  by (auto simp: require_non_empty_def)

end
