(* ===== verification/Models.thy ===== *)
theory Models
  imports Json
begin

text \<open>
  \<open>backend/agency_runtime/models.py\<close>: the enumerations, the frozen records with the checks of
  their \<open>__post_init__\<close>, and the mutable run with its agent states. Payloads are JSON objects.
  Timestamps here are the texts the clock returns; no operation of this module compares them.
\<close>

section \<open>Python text of a JSON value\<close>

text \<open>\<open>repr(str)\<close> on U+0000 to U+00FF.\<close>

definition repr_escape :: "char \<Rightarrow> char \<Rightarrow> string" where
  "repr_escape q c = (let n = code_point c in
     if c = q \<or> n = 92 then [CHR 0x5C, c]
     else if n = 10 then [CHR 0x5C, CHR ''n''] else if n = 13 then [CHR 0x5C, CHR ''r'']
     else if n = 9 then [CHR 0x5C, CHR ''t'']
     else if n < 32 \<or> (127 \<le> n \<and> n \<le> 160) \<or> n = 173
       then [CHR 0x5C, CHR ''x'', hex_char (n div 16), hex_char n]
     else [c])"

definition repr_str :: "string \<Rightarrow> string" where
  "repr_str s =
     (let q = (if CHR 0x27 \<in> set s \<and> CHR 0x22 \<notin> set s then CHR 0x22 else CHR 0x27)
      in q # concat (map (repr_escape q) s) @ [q])"

fun py_repr :: "json \<Rightarrow> string" where
  "py_repr JNull = ''None''"
| "py_repr (JBool b) = (if b then ''True'' else ''False'')"
| "py_repr (JInt i) = show_int i"
| "py_repr (JFloat t) = t"
| "py_repr (JStr s) = repr_str s"
| "py_repr (JList xs) = CHR ''['' # intercalate '', '' (map py_repr xs) @ '']''"
| "py_repr (JObj kvs) =
     CHR ''{'' # intercalate '', '' (map (\<lambda>(k, v). repr_str k @ '': '' @ py_repr v) kvs) @ ''}''"

definition py_str :: "json \<Rightarrow> string" where
  "py_str v = (case v of JStr s \<Rightarrow> s | _ \<Rightarrow> py_repr v)"

text \<open>\<open>d.get(key, default)\<close>.\<close>

definition get_or :: "(string \<times> json) list \<Rightarrow> string \<Rightarrow> json \<Rightarrow> json" where
  "get_or d k dflt = (case jget k d of Some v \<Rightarrow> v | None \<Rightarrow> dflt)"

section \<open>Enumerations\<close>

datatype platform = X | Facebook | Tiktok | Instagram

datatype agent_role = CEO | Research | Strategist | Growth | Writer | Media | Risk | Publisher

datatype agent_status = Standby | Processing | Ready | WaitingGreenlight | Blocked | Attention

datatype run_status =
  Queued | Running | AwaitingGreenlight | Completed | RunRejected | Revoked | Failed

datatype decision = Approved | Rejected

fun platform_value :: "platform \<Rightarrow> string" where
  "platform_value X = ''x''" | "platform_value Facebook = ''facebook''"
| "platform_value Tiktok = ''tiktok''" | "platform_value Instagram = ''instagram''"

fun role_value :: "agent_role \<Rightarrow> string" where
  "role_value CEO = ''ceo''" | "role_value Research = ''research''"
| "role_value Strategist = ''strategist''" | "role_value Growth = ''growth''"
| "role_value Writer = ''writer''" | "role_value Media = ''media''"
| "role_value Risk = ''risk''" | "role_value Publisher = ''publisher''"

definition AGENT_SEQUENCE :: "agent_role list" where
  "AGENT_SEQUENCE = [CEO, Research, Strategist, Growth, Writer, Media, Risk, Publisher]"

fun agent_status_value :: "agent_status \<Rightarrow> string" where
  "agent_status_value Standby = ''standby''" | "agent_status_value Processing = ''processing''"
| "agent_status_value Ready = ''ready''"
| "agent_status_value WaitingGreenlight = ''waiting_greenlight''"
| "agent_status_value Blocked = ''blocked''" | "agent_status_value Attention = ''attention''"

fun run_status_value :: "run_status \<Rightarrow> string" where
  "run_status_value Queued = ''queued''" | "run_status_value Running = ''running''"
| "run_status_value AwaitingGreenlight = ''awaiting_greenlight''"
| "run_status_value Completed = ''completed''" | "run_status_value RunRejected = ''rejected''"
| "run_status_value Revoked = ''revoked''" | "run_status_value Failed = ''failed''"

fun decision_value :: "decision \<Rightarrow> string" where
  "decision_value Approved = ''approved''" | "decision_value Rejected = ''rejected''"

lemma platform_value_inj [simp]: "platform_value p = platform_value q \<longleftrightarrow> p = q"
  by (cases p; cases q) simp_all

lemma role_value_inj [simp]: "role_value p = role_value q \<longleftrightarrow> p = q"
  by (cases p; cases q) simp_all

lemma run_status_value_inj [simp]: "run_status_value p = run_status_value q \<longleftrightarrow> p = q"
  by (cases p; cases q) simp_all

lemma agent_sequence_all: "set AGENT_SEQUENCE = UNIV" "distinct AGENT_SEQUENCE"
proof -
  have "r \<in> set AGENT_SEQUENCE" for r by (cases r) (simp_all add: AGENT_SEQUENCE_def)
  then show "set AGENT_SEQUENCE = UNIV" by blast
qed (simp add: AGENT_SEQUENCE_def)

section \<open>Records\<close>

record provenance =
  prov_source :: string
  prov_locator :: string
  prov_observed_at :: string
  prov_tool :: string
  prov_trace_id :: string

definition check_provenance :: "provenance \<Rightarrow> unit res" where
  "check_provenance p =
     rbind (require_non_empty (prov_source p) ''source'') (\<lambda>_.
     rbind (require_non_empty (prov_locator p) ''locator'') (\<lambda>_.
     rbind (require_non_empty (prov_observed_at p) ''observed_at'') (\<lambda>_.
       require_non_empty (prov_tool p) ''tool'')))"

record brief =
  title :: string
  objective :: string
  audience :: string
  platforms :: "platform list"
  budget_cents :: int
  source_asset :: string
  campaign_goal :: string
  campaign_type :: string
  publication_mode :: string
  brief_locale :: string
  jurisdiction :: string
  office :: string
  candidate_name :: string
  locality :: string
  problem :: string
  proposal :: string
  desired_action :: string
  disclosure :: string
  legal_review_status :: string
  legal_reviewed_by :: string
  evidence_claims :: "json list"

text \<open>One evidence claim of a brief.\<close>

definition blank_field :: "(string \<times> json) list \<Rightarrow> string \<Rightarrow> bool" where
  "blank_field d k = (case jget k d of Some (JStr s) \<Rightarrow> strip s = [] | _ \<Rightarrow> True)"

definition check_claim :: "json \<Rightarrow> unit res" where
  "check_claim claim = (case claim of
     JObj d \<Rightarrow>
       (let vs = py_str (get_or d ''verification_status'' (JStr ''unverified'')) in raise_first
         [(blank_field d ''statement'', ValueError ''evidence claim statement must not be empty''),
          (blank_field d ''source'', ValueError ''evidence claim source must not be empty''),
          (blank_field d ''locator'', ValueError ''evidence claim locator must not be empty''),
          (vs \<notin> {''unverified'', ''verified''},
             ValueError ''evidence claim verification_status is invalid''),
          (vs = ''verified'' \<and> strip (py_str (get_or d ''reviewed_by'' (JStr ''''))) = [],
             ValueError ''verified evidence claims require reviewed_by'')])
   | _ \<Rightarrow> Inl (ValueError ''evidence claims must be mappings''))"

fun check_claims :: "json list \<Rightarrow> unit res" where
  "check_claims [] = Inr ()"
| "check_claims (c # cs) = rbind (check_claim c) (\<lambda>_. check_claims cs)"

definition required_political :: "brief \<Rightarrow> (bool \<times> exn) list" where
  "required_political b = map (\<lambda>(k, v). (strip v = [], ValueError (k @ '' must not be empty'')))
     [(''jurisdiction'', jurisdiction b), (''office'', office b),
      (''candidate_name'', candidate_name b), (''locality'', locality b),
      (''problem'', problem b), (''proposal'', proposal b),
      (''desired_action'', desired_action b), (''disclosure'', disclosure b)]"

definition check_brief :: "brief \<Rightarrow> unit res" where
  "check_brief b =
     rbind (raise_first
       [(strip (title b) = [], ValueError ''title must not be empty''),
        (strip (objective b) = [], ValueError ''objective must not be empty''),
        (strip (audience b) = [], ValueError ''audience must not be empty''),
        (platforms b = [], ValueError ''platforms must contain at least one platform''),
        (budget_cents b < 0, ValueError ''budget_cents must not be negative''),
        (campaign_type b \<notin> {''commercial'', ''political''},
           ValueError ''campaign_type must be commercial or political''),
        (publication_mode b \<notin> {''organic'', ''paid''},
           ValueError ''publication_mode must be organic or paid''),
        (strip (brief_locale b) = [], ValueError ''locale must not be empty''),
        (legal_review_status b \<notin> {''pending'', ''approved''},
           ValueError ''legal_review_status must be pending or approved''),
        (legal_review_status b = ''approved'' \<and> strip (legal_reviewed_by b) = [],
           ValueError ''approved legal review requires legal_reviewed_by'')]) (\<lambda>_.
     rbind (check_claims (evidence_claims b)) (\<lambda>_.
       if campaign_type b = ''political'' then
         raise_first (required_political b
           @ [(evidence_claims b = [],
                ValueError ''political briefs require at least one evidence claim'')])
       else Inr ()))"

record tool_evidence =
  evidence_id :: string
  ev_tool :: string
  ev_operation :: string
  ev_sandbox :: bool
  ev_summary :: string
  ev_payload :: "(string \<times> json) list"
  ev_references :: "string list"

record artifact =
  artifact_id :: string
  art_kind :: string
  art_title :: string
  created_by :: agent_role
  art_payload :: "(string \<times> json) list"
  art_evidence_ids :: "string list"

record agent_state =
  as_role :: agent_role
  as_status :: agent_status
  as_progress :: int
  as_detail :: string
  as_artifact_ids :: "string list"

definition new_agent_state :: "agent_role \<Rightarrow> agent_state" where
  "new_agent_state r = \<lparr>as_role = r, as_status = Standby, as_progress = 0,
     as_detail = ''Awaiting mission'', as_artifact_ids = []\<rparr>"

definition agent_state_update ::
  "agent_state \<Rightarrow> agent_status \<Rightarrow> int \<Rightarrow> string \<Rightarrow> agent_state res" where
  "agent_state_update st status progress detail =
     (if progress < 0 \<or> 100 < progress then Inl (ValueError ''progress must be between 0 and 100'')
      else Inr (st\<lparr>as_status := status, as_progress := progress, as_detail := detail\<rparr>))"

record trace_event =
  te_sequence :: nat
  te_timestamp :: string
  te_role :: agent_role
  te_action :: string
  te_status :: string
  te_detail :: string
  te_artifact_ids :: "string list"
  te_evidence_ids :: "string list"

record greenlight =
  greenlight_id :: string
  gl_run_id :: string
  gl_decision :: decision
  gl_reviewer :: string
  gl_note :: string
  gl_decided_at :: string
  approved_artifact_ids :: "string list"
  approved_artifact_hashes :: "string list"
  authorized_channels :: "platform list"
  authorized_budget_cents :: int
  gl_fencing_token :: int
  gl_revoked_at :: "string option"
  gl_revoked_by :: string
  gl_revocation_reason :: string

definition check_greenlight :: "greenlight \<Rightarrow> unit res" where
  "check_greenlight g = raise_first
     ([(strip (gl_reviewer g) = [], ValueError ''reviewer must not be empty''),
       (strip (gl_decided_at g) = [], ValueError ''decided_at must not be empty''),
       (length (approved_artifact_ids g) \<noteq> length (approved_artifact_hashes g),
          ValueError ''approved artifact ids and hashes must have equal length''),
       (authorized_budget_cents g < 0, ValueError ''authorized_budget_cents must not be negative''),
       (gl_fencing_token g < 1, ValueError ''fencing_token must be positive'')]
      @ (case gl_revoked_at g of
           None \<Rightarrow> [(gl_revoked_by g \<noteq> [] \<or> gl_revocation_reason g \<noteq> [],
                      ValueError ''active Greenlight cannot contain revocation metadata'')]
         | Some _ \<Rightarrow> [(strip (gl_revoked_by g) = [], ValueError ''revoked_by must not be empty''),
                       (strip (gl_revocation_reason g) = [],
                          ValueError ''revocation_reason must not be empty'')]))"

definition greenlight_active :: "greenlight \<Rightarrow> bool" where
  "greenlight_active g = (gl_decision g = Approved \<and> gl_revoked_at g = None)"

record run_execution =
  ex_state :: string
  ex_next_station :: string
  ex_lease_owner :: string
  ex_lease_expires_at :: "string option"
  ex_fencing_token :: int
  ex_attempts :: int
  ex_checkpointed_at :: "string option"
  ex_failure_detail :: string

definition EXECUTION_STATES :: "string list" where
  "EXECUTION_STATES = [''inline'', ''queued'', ''leased'', ''running'',
     ''awaiting_greenlight'', ''completed'', ''failed'']"

definition check_execution :: "run_execution \<Rightarrow> unit res" where
  "check_execution e = raise_first
     [(ex_state e \<notin> set EXECUTION_STATES, ValueError ''run execution state is invalid''),
      (ex_fencing_token e < 0 \<or> ex_attempts e < 0,
         ValueError ''run execution counters must not be negative''),
      (ex_lease_owner e \<noteq> [] \<and> ex_lease_expires_at e = None,
         ValueError ''run execution lease requires an expiry'')]"

record run =
  run_id :: string
  run_brief :: brief
  run_status :: run_status
  started_at :: string
  agent_states :: "agent_role \<Rightarrow> agent_state"
  artifacts :: "artifact list"
  evidence :: "tool_evidence list"
  trace :: "trace_event list"
  run_greenlight :: "greenlight option"
  completed_at :: "string option"
  execution :: run_execution

definition state_for :: "run \<Rightarrow> agent_role \<Rightarrow> agent_state" where
  "state_for r role = agent_states r role"

definition set_state :: "run \<Rightarrow> agent_role \<Rightarrow> agent_state \<Rightarrow> run" where
  "set_state r role st = r\<lparr>agent_states := (agent_states r)(role := st)\<rparr>"

definition add_artifact :: "run \<Rightarrow> artifact \<Rightarrow> run" where
  "add_artifact r a =
     (let r' = r\<lparr>artifacts := artifacts r @ [a]\<rparr>; st = state_for r' (created_by a)
      in set_state r' (created_by a)
           (st\<lparr>as_artifact_ids := as_artifact_ids st @ [artifact_id a]\<rparr>))"

definition find_artifact :: "run \<Rightarrow> string \<Rightarrow> artifact res" where
  "find_artifact r kind = (case find (\<lambda>a. art_kind a = kind) (rev (artifacts r)) of
     Some a \<Rightarrow> Inr a | None \<Rightarrow> Inl (KeyError (''artifact kind not found: '' @ kind)))"

section \<open>Documents\<close>

abbreviation jstrs :: "string list \<Rightarrow> json" where
  "jstrs xs \<equiv> JList (map JStr xs)"

definition opt_json :: "string option \<Rightarrow> json" where
  "opt_json t = (case t of None \<Rightarrow> JNull | Some s \<Rightarrow> JStr s)"

definition brief_json :: "brief \<Rightarrow> json" where
  "brief_json b = JObj
     [(''title'', JStr (title b)), (''objective'', JStr (objective b)),
      (''audience'', JStr (audience b)),
      (''platforms'', jstrs (map platform_value (platforms b))),
      (''budget_cents'', JInt (budget_cents b)), (''source_asset'', JStr (source_asset b)),
      (''campaign_goal'', JStr (campaign_goal b)), (''campaign_type'', JStr (campaign_type b)),
      (''publication_mode'', JStr (publication_mode b)), (''locale'', JStr (brief_locale b)),
      (''jurisdiction'', JStr (jurisdiction b)), (''office'', JStr (office b)),
      (''candidate_name'', JStr (candidate_name b)), (''locality'', JStr (locality b)),
      (''problem'', JStr (problem b)), (''proposal'', JStr (proposal b)),
      (''desired_action'', JStr (desired_action b)), (''disclosure'', JStr (disclosure b)),
      (''legal_review_status'', JStr (legal_review_status b)),
      (''legal_reviewed_by'', JStr (legal_reviewed_by b)),
      (''evidence_claims'', JList (evidence_claims b))]"

definition artifact_json :: "artifact \<Rightarrow> json" where
  "artifact_json a = JObj
     [(''artifact_id'', JStr (artifact_id a)), (''kind'', JStr (art_kind a)),
      (''title'', JStr (art_title a)), (''created_by'', JStr (role_value (created_by a))),
      (''payload'', JObj (art_payload a)), (''evidence_ids'', jstrs (art_evidence_ids a))]"

section \<open>Facts\<close>

lemma agent_state_update_Inr:
  "agent_state_update st s p d = Inr st' \<longleftrightarrow>
     0 \<le> p \<and> p \<le> 100 \<and> st' = st\<lparr>as_status := s, as_progress := p, as_detail := d\<rparr>"
  by (auto simp: agent_state_update_def)

lemma state_for_set_state [simp]:
  "state_for (set_state r role st) role' = (if role' = role then st else state_for r role')"
  by (simp add: state_for_def set_state_def)

lemma set_state_fields [simp]:
  "run_id (set_state r a s) = run_id r" "run_brief (set_state r a s) = run_brief r"
  "run_status (set_state r a s) = run_status r" "artifacts (set_state r a s) = artifacts r"
  "evidence (set_state r a s) = evidence r" "trace (set_state r a s) = trace r"
  "run_greenlight (set_state r a s) = run_greenlight r"
  "execution (set_state r a s) = execution r" "completed_at (set_state r a s) = completed_at r"
  by (simp_all add: set_state_def)

lemma find_artifact_Inr:
  "find_artifact r kind = Inr a \<Longrightarrow> a \<in> set (artifacts r) \<and> art_kind a = kind"
  by (auto simp: find_artifact_def find_Some_iff split: option.splits)
    (metis nth_mem set_rev length_rev)

lemma find_artifact_append:
  "art_kind a = kind \<Longrightarrow> find_artifact (r\<lparr>artifacts := as @ [a]\<rparr>) kind = Inr a"
  by (simp add: find_artifact_def)

lemma artifact_json_inj:
  assumes "to_primitive (artifact_json a) = to_primitive (artifact_json b)"
  shows "artifact_id a = artifact_id b \<and> art_kind a = art_kind b \<and> art_title a = art_title b
    \<and> created_by a = created_by b \<and> to_primitive (JObj (art_payload a)) = to_primitive (JObj (art_payload b))
    \<and> art_evidence_ids a = art_evidence_ids b"
proof -
  have m: "inj JStr" by (rule injI) simp
  show ?thesis using assms
    by (auto simp: artifact_json_def inj_map_eq_map [OF m] comp_def)
qed

end
