(* ===== verification/AuditIntegrity.thy ===== *)
theory AuditIntegrity
  imports Json
begin

text \<open>
  \<open>backend/agency_runtime/audit_integrity.py\<close>: the hash of an audit event, checkpoints of a
  verified chain and the HMAC keyring that signs them. The locale \<open>hash_chain\<close> states what a
  ledger relies on (the text that is hashed determines the content and the previous hash) and
  proves once that two linked lists with one head are one list, up to a digest collision between
  two of their events.
\<close>

section \<open>Event hashes\<close>

definition AUDIT_CHAIN_SCHEMA :: string where
  "AUDIT_CHAIN_SCHEMA = ''audit-chain.v1''"

definition AUDIT_CHECKPOINT_SCHEMA :: string where
  "AUDIT_CHECKPOINT_SCHEMA = ''audit-checkpoint.v1''"

definition GENESIS_AUDIT_HASH :: string where
  "GENESIS_AUDIT_HASH = replicate 64 (CHR ''0'')"

record audit_content =
  ac_event_id :: string
  ac_tenant_id :: string
  ac_request_id :: string
  ac_occurred_at :: string
  ac_action :: string
  ac_resource_type :: string
  ac_resource_id :: string
  ac_actor :: string
  ac_payload :: "(string \<times> json) list"

definition audit_document :: "audit_content \<Rightarrow> string \<Rightarrow> json" where
  "audit_document a previous_hash = JList
     [JStr AUDIT_CHAIN_SCHEMA, JStr (ac_event_id a), JStr (ac_tenant_id a),
      JStr (ac_request_id a), JStr (ac_occurred_at a), JStr (ac_action a),
      JStr (ac_resource_type a), JStr (ac_resource_id a), JStr (ac_actor a),
      JObj (ac_payload a), JStr previous_hash]"

definition audit_event_text :: "audit_content \<Rightarrow> string \<Rightarrow> string" where
  "audit_event_text a previous_hash = utf8 (canonical_json (audit_document a previous_hash))"

definition audit_event_hash :: "audit_content \<Rightarrow> string \<Rightarrow> string res" where
  "audit_event_hash a previous_hash =
     (if \<not> is_sha256 previous_hash then Inl (ValueError ''previous audit hash is invalid'')
      else Inr (sha256_hex (audit_event_text a previous_hash)))"

lemma genesis_sha256 [simp]: "is_sha256 GENESIS_AUDIT_HASH"
  by (simp add: is_sha256_def GENESIS_AUDIT_HASH_def list_all_iff is_lower_hex_def
      is_ascii_digit_def in_range_def)

lemma audit_event_hash_Inr:
  "audit_event_hash a p = Inr h \<longleftrightarrow> is_sha256 p \<and> h = sha256_hex (audit_event_text a p)"
  by (auto simp: audit_event_hash_def)

text \<open>The content as the stored payload text determines it.\<close>

definition canonical_content :: "audit_content \<Rightarrow> audit_content" where
  "canonical_content a = a\<lparr>ac_payload := (case to_primitive (JObj (ac_payload a)) of
     JObj d \<Rightarrow> d | _ \<Rightarrow> [])\<rparr>"

definition wf_content :: "audit_content \<Rightarrow> bool" where
  "wf_content a = wf_json (JObj (ac_payload a))"

lemma audit_event_text_inj:
  assumes "wf_content a" "wf_content b" "audit_event_text a p = audit_event_text b q"
  shows "canonical_content a = canonical_content b \<and> p = q"
proof -
  have "to_primitive (audit_document a p) = to_primitive (audit_document b q)"
    using assms by (intro canonical_json_inj) (auto simp: audit_event_text_def audit_document_def wf_content_def)
  then show ?thesis
    by (auto simp: audit_document_def canonical_content_def intro!: audit_content.equality)
qed

lemma JObj_to_primitive: "\<exists>d'. to_primitive (JObj d) = JObj d'"
  by simp

lemma audit_event_text_canonical: "audit_event_text (canonical_content a) p = audit_event_text a p"
proof -
  have "to_primitive (audit_document (canonical_content a) p) = to_primitive (audit_document a p)"
    using to_primitive_idem [of "JObj (ac_payload a)"]
    by (simp add: audit_document_def canonical_content_def)
  then show ?thesis by (simp add: audit_event_text_def canonical_json_def)
qed

section \<open>Hash chains\<close>

text \<open>The head hash of a list of contents linked from \<open>p\<close>, and the texts hashed on the way.\<close>

primrec chain_head :: "('c \<Rightarrow> string \<Rightarrow> string) \<Rightarrow> string \<Rightarrow> 'c list \<Rightarrow> string" where
  "chain_head enc p [] = p"
| "chain_head enc p (c # cs) = chain_head enc (sha256_hex (enc c p)) cs"

primrec chain_texts :: "('c \<Rightarrow> string \<Rightarrow> string) \<Rightarrow> string \<Rightarrow> 'c list \<Rightarrow> string list" where
  "chain_texts enc p [] = []"
| "chain_texts enc p (c # cs) = enc c p # chain_texts enc (sha256_hex (enc c p)) cs"

lemma chain_head_snoc: "chain_head enc p (cs @ [c]) = sha256_hex (enc c (chain_head enc p cs))"
  by (induction cs arbitrary: p) auto

lemma chain_texts_snoc: "chain_texts enc p (cs @ [c]) = chain_texts enc p cs @ [enc c (chain_head enc p cs)]"
  by (induction cs arbitrary: p) auto

lemma chain_head_sha256: "is_sha256 p \<Longrightarrow> is_sha256 (chain_head enc p cs)"
  by (induction cs arbitrary: p) auto

locale hash_chain =
  fixes enc :: "'c \<Rightarrow> string \<Rightarrow> string"
    and content :: "'c \<Rightarrow> 'd"
    and ok :: "'c \<Rightarrow> bool"
  assumes enc_inj: "ok a \<Longrightarrow> ok b \<Longrightarrow> enc a p = enc b q \<Longrightarrow> content a = content b \<and> p = q"
begin

lemma head_collision:
  assumes "length xs = length ys" and "list_all ok xs" and "list_all ok ys"
    and "chain_head enc p xs = chain_head enc p ys"
  shows "map content xs = map content ys
    \<or> (\<exists>a \<in> set (chain_texts enc p xs). \<exists>b \<in> set (chain_texts enc p ys). sha256_collision a b)"
  using assms
proof (induction xs arbitrary: ys rule: rev_induct)
  case (snoc x xs)
  then obtain y zs where ys: "ys = zs @ [y]" by (cases ys rule: rev_cases) auto
  let ?a = "enc x (chain_head enc p xs)" and ?b = "enc y (chain_head enc p zs)"
  have eq: "sha256_hex ?a = sha256_hex ?b" using snoc.prems(4) ys by (simp add: chain_head_snoc)
  show ?case
  proof (cases "?a = ?b")
    case True
    have "ok x" "ok y" using snoc.prems ys by auto
    with True have c: "content x = content y" "chain_head enc p xs = chain_head enc p zs"
      using enc_inj by blast+
    have "map content xs = map content zs \<or> (\<exists>a \<in> set (chain_texts enc p xs).
        \<exists>b \<in> set (chain_texts enc p zs). sha256_collision a b)"
      using snoc.prems ys c by (intro snoc.IH) auto
    then show ?thesis using c ys by (auto simp: chain_texts_snoc)
  next
    case False
    then have "sha256_collision ?a ?b" using eq by (simp add: sha256_collision_def)
    then show ?thesis using ys by (auto simp: chain_texts_snoc)
  qed
qed simp

end

interpretation audit_chain: hash_chain audit_event_text canonical_content wf_content
  by unfold_locales (rule audit_event_text_inj, assumption+)

section \<open>Checkpoints\<close>

record checkpoint =
  cp_tenant_id :: string
  cp_event_count :: nat
  cp_head_event_id :: string
  cp_head_hash :: string
  cp_verified_at :: string

definition check_checkpoint :: "checkpoint \<Rightarrow> unit res" where
  "check_checkpoint c = raise_first
     ((cp_tenant_id c = [], ValueError ''audit checkpoint tenant is required'')
      # (if cp_event_count c = 0 then
           [(cp_head_event_id c \<noteq> [],
               ValueError ''empty audit checkpoint cannot contain a head event''),
            (cp_head_hash c \<noteq> GENESIS_AUDIT_HASH,
               ValueError ''empty audit checkpoint must use the genesis hash'')]
         else
           [(cp_head_event_id c = [], ValueError ''audit checkpoint head event is required''),
            (\<not> is_sha256 (cp_head_hash c), ValueError ''audit checkpoint head hash is invalid'')])
      @ [(cp_verified_at c = [],
            ValueError ''audit checkpoint verification timestamp is required'')])"

definition checkpoint_document :: "checkpoint \<Rightarrow> json" where
  "checkpoint_document c = JObj
     [(''schema_version'', JStr AUDIT_CHECKPOINT_SCHEMA), (''tenant_id'', JStr (cp_tenant_id c)),
      (''event_count'', JInt (int (cp_event_count c))),
      (''head_event_id'', JStr (cp_head_event_id c)), (''head_hash'', JStr (cp_head_hash c)),
      (''verified_at'', JStr (cp_verified_at c))]"

record signed_checkpoint =
  sc_checkpoint :: checkpoint
  sc_key_id :: string
  sc_signature :: string

lemma checkpoint_document_inj:
  "canonical_json (checkpoint_document c) = canonical_json (checkpoint_document d) \<Longrightarrow> c = d"
proof -
  assume "canonical_json (checkpoint_document c) = canonical_json (checkpoint_document d)"
  then have "to_primitive (checkpoint_document c) = to_primitive (checkpoint_document d)"
    by (intro canonical_json_inj) (simp_all add: checkpoint_document_def)
  then show ?thesis by (auto simp: checkpoint_document_def intro!: checkpoint.equality)
qed

section \<open>The signing keyring\<close>

record keyring =
  kr_keys :: "(string \<times> nat list) list"
  kr_active :: string

definition is_key_id :: "string \<Rightarrow> bool" where
  "is_key_id = fullmatch_class is_alnum
     (\<lambda>c. is_alnum c \<or> c \<in> {CHR ''.'', CHR ''_'', CHR ''-''}) 0 63"

fun check_keys :: "(string \<times> nat list) list \<Rightarrow> unit res" where
  "check_keys [] = Inr ()"
| "check_keys ((k, raw) # rest) = rbind (raise_first
     [(\<not> is_key_id k, AuditCheckpointSigningConfigurationError
         ''audit checkpoint key identifier is invalid''),
      (length raw \<noteq> 32, AuditCheckpointSigningConfigurationError
         ''audit checkpoint signing keys must contain exactly 32 bytes'')])
     (\<lambda>_. check_keys rest)"

definition make_keyring :: "(string \<times> nat list) list \<Rightarrow> string \<Rightarrow> keyring res" where
  "make_keyring keys active =
     (if keys = [] \<or> 16 < length keys then
        Inl (AuditCheckpointSigningConfigurationError
          ''audit checkpoint keyring must contain 1..16 keys'')
      else rbind (check_keys keys) (\<lambda>_.
        if active \<notin> fst ` set keys then
          Inl (AuditCheckpointSigningConfigurationError
            ''active audit checkpoint key is absent from the keyring'')
        else Inr \<lparr>kr_keys = keys, kr_active = active\<rparr>))"

text \<open>\<open>^[A-Za-z0-9_-]+={0,2}$\<close> with \<open>fullmatch\<close>.\<close>

definition is_base64url_char :: "char \<Rightarrow> bool" where
  "is_base64url_char c = (is_alnum c \<or> c = CHR ''_'' \<or> c = CHR ''-'')"

definition matches_base64url :: "string \<Rightarrow> bool" where
  "matches_base64url s =
     (let body = takeWhile is_base64url_char s; pad = dropWhile is_base64url_char s
      in body \<noteq> [] \<and> length pad \<le> 2 \<and> list_all (\<lambda>c. c = CHR ''='') pad)"

text \<open>A value that keeps its padding is refused (as not canonical when it decodes, as invalid
  when the padding is malformed; both are one exception class and the model keeps one message).
  What \<open>json.loads\<close> with the duplicate-rejecting \<open>object_pairs_hook\<close> is given: text that is
  not JSON, a document that is not an object, or the pairs of an object in document order.\<close>

datatype parsed = NotJson | NotObject | Pairs "(string \<times> json) list"

definition key_error :: "string \<Rightarrow> 'a res" where
  "key_error m = Inl (AuditCheckpointSigningConfigurationError m)"

fun decode_keys :: "(string \<times> json) list \<Rightarrow> (string \<times> nat list) list res" where
  "decode_keys [] = Inr []"
| "decode_keys ((k, JStr v) # rest) =
     (if \<not> matches_base64url v then
        key_error ''audit checkpoint key material is not canonical base64url''
      else case (if CHR ''='' \<in> set v then None else b64url_decode v) of
        None \<Rightarrow> (if CHR ''='' \<in> set v
                 then key_error ''audit checkpoint key material is not canonical base64url''
                 else key_error ''audit checkpoint key material is invalid'')
      | Some raw \<Rightarrow>
          if v \<noteq> b64url_encode raw then
            key_error ''audit checkpoint key material is not canonical base64url''
          else rbind (decode_keys rest) (\<lambda>ds. Inr ((k, raw) # ds)))"
| "decode_keys ((k, _) # rest) =
     key_error ''audit checkpoint key material is not canonical base64url''"

definition keyring_from_environment ::
  "string option \<Rightarrow> string option \<Rightarrow> (string \<Rightarrow> parsed) \<Rightarrow> keyring option res" where
  "keyring_from_environment raw_keys_json active_key_id loads =
     (let raw_keys = strip (case raw_keys_json of None \<Rightarrow> [] | Some s \<Rightarrow> s);
          active = strip (case active_key_id of None \<Rightarrow> [] | Some s \<Rightarrow> s)
      in if raw_keys = [] \<and> active = [] then Inr None
         else if raw_keys = [] \<or> active = [] then
           key_error ''audit checkpoint keyring and active key ID must be configured together''
         else case loads raw_keys of
           NotJson \<Rightarrow> key_error ''audit checkpoint keyring JSON is invalid''
         | NotObject \<Rightarrow> key_error ''audit checkpoint keyring must be a JSON object''
         | Pairs kvs \<Rightarrow>
             if \<not> distinct (map fst kvs) then
               key_error ''audit checkpoint keyring contains a duplicate key ID''
             else rbind (decode_keys kvs) (\<lambda>keys. rbind (make_keyring keys active) (\<lambda>k. Inr (Some k))))"

definition checkpoint_signature :: "nat list \<Rightarrow> checkpoint \<Rightarrow> string" where
  "checkpoint_signature key c =
     b64url_encode (hmac_sha256 key (bytes_of (utf8 (canonical_json (checkpoint_document c)))))"

definition sign :: "keyring \<Rightarrow> checkpoint \<Rightarrow> signed_checkpoint res" where
  "sign kr c = (case map_of (kr_keys kr) (kr_active kr) of
     None \<Rightarrow> Inl (KeyError (kr_active kr))
   | Some key \<Rightarrow> Inr \<lparr>sc_checkpoint = c, sc_key_id = kr_active kr,
                      sc_signature = checkpoint_signature key c\<rparr>)"

definition verify :: "keyring \<Rightarrow> signed_checkpoint \<Rightarrow> bool res" where
  "verify kr s = (case map_of (kr_keys kr) (sc_key_id s) of
     None \<Rightarrow> Inl (AuditCheckpointSigningKeyUnavailableError
               ''required audit checkpoint signing key is unavailable'')
   | Some key \<Rightarrow> Inr (checkpoint_signature key (sc_checkpoint s) = sc_signature s))"

section \<open>Base64url and signatures\<close>

lemma b64url_value_char: "n < 64 \<Longrightarrow> b64url_value (b64url_char n) = Some n"
  by (auto simp: b64url_value_def b64url_char_def is_upper_def is_lower_def is_ascii_digit_def
      in_range_def of_char_of)


lemma b64url_chars: "list_all (\<lambda>n. n < 64) ns \<Longrightarrow> b64url_decode (map b64url_char ns) = b64url_bytes ns"
proof -
  assume "list_all (\<lambda>n. n < 64) ns"
  then have "\<forall>c \<in> set (map b64url_char ns). b64url_value c \<noteq> None"
    and "map (\<lambda>c. the (b64url_value c)) (map b64url_char ns) = ns"
    by (auto simp: list_all_iff b64url_value_char intro!: map_idI)
  then show ?thesis by (simp add: b64url_decode_def list_all_iff)
qed

fun b64url_sextets :: "nat list \<Rightarrow> nat list" where
  "b64url_sextets (a # b # c # rest) =
     a div 4 # (a mod 4 * 16 + b div 16) # (b mod 16 * 4 + c div 64) # c mod 64 # b64url_sextets rest"
| "b64url_sextets [a, b] = [a div 4, a mod 4 * 16 + b div 16, b mod 16 * 4]"
| "b64url_sextets [a] = [a div 4, a mod 4 * 16]"
| "b64url_sextets [] = []"

lemma b64url_encode_sextets: "b64url_encode bs = map b64url_char (b64url_sextets bs)"
  by (induction bs rule: b64url_sextets.induct) auto

lemma sextets_bound: "list_all (\<lambda>b. b < 256) bs \<Longrightarrow> list_all (\<lambda>n. n < 64) (b64url_sextets bs)"
  by (induction bs rule: b64url_sextets.induct) auto

lemma sextet_joins:
  fixes a b c :: nat
  shows "b < 256 \<Longrightarrow> a div 4 * 4 + (a mod 4 * 16 + b div 16) div 16 = a"
    and "c < 256 \<Longrightarrow> (a mod 4 * 16 + b div 16) mod 16 * 16 + (b mod 16 * 4 + c div 64) div 4
      = b div 16 mod 16 * 16 + b mod 16"
    and "(b mod 16 * 4 + c div 64) mod 4 * 64 + c mod 64 = c div 64 mod 4 * 64 + c mod 64"
proof -
  show "a div 4 * 4 + (a mod 4 * 16 + b div 16) div 16 = a" if "b < 256"
  proof -
    have "b div 16 < 16" using that by simp
    then show ?thesis by simp
  qed
  show "(a mod 4 * 16 + b div 16) mod 16 * 16 + (b mod 16 * 4 + c div 64) div 4
      = b div 16 mod 16 * 16 + b mod 16" if "c < 256"
  proof -
    have "c div 64 < 4" using that by simp
    then show ?thesis by simp
  qed
qed simp

lemma byte_split: "(b::nat) < 256 \<Longrightarrow> b div 16 mod 16 * 16 + b mod 16 = b"
  and byte_split4: "(b::nat) < 256 \<Longrightarrow> b div 64 mod 4 * 64 + b mod 64 = b"
  by simp_all

lemma sextets_bytes: "list_all (\<lambda>b. b < 256) bs \<Longrightarrow> b64url_bytes (b64url_sextets bs) = Some bs"
proof (induction bs rule: b64url_sextets.induct)
  case (1 a b c rest)
  then have l: "b < 256" "c < 256" by simp_all
  have "b64url_bytes (b64url_sextets rest) = Some rest" using 1 by simp
  then show ?case
    unfolding b64url_sextets.simps b64url_bytes.simps sextet_joins(1) [OF l(1)]
      sextet_joins(2) [OF l(2)] sextet_joins(3) byte_split [OF l(1)] byte_split4 [OF l(2)]
    by simp
next
  case (2 a b)
  then have l: "b < 256" by simp
  have "b mod 16 * 4 div 4 = b mod 16" by simp
  then show ?case using sextet_joins(1) [OF l, of a] byte_split [OF l] by simp
qed simp_all

lemma b64url_roundtrip: "list_all (\<lambda>b. b < 256) bs \<Longrightarrow> b64url_decode (b64url_encode bs) = Some bs"
  by (simp add: b64url_encode_sextets b64url_chars sextets_bound sextets_bytes)

lemma sha256_bytes_bound: "list_all (\<lambda>b. b < 256) (sha256_bytes m)"
  by (auto simp: sha256_bytes_def big_endian_def list_all_iff)

lemma hmac_bound: "list_all (\<lambda>b. b < 256) (hmac_sha256 key m)"
  by (simp add: hmac_sha256_def Let_def sha256_bytes_bound)

lemma bytes_of_inj: "bytes_of s = bytes_of t \<longleftrightarrow> s = t"
proof -
  have "inj (of_char :: char \<Rightarrow> nat)" by (rule injI) simp
  then show ?thesis by (simp add: bytes_of_def inj_map_eq_map)
qed

text \<open>The message a checkpoint's signature covers.\<close>

definition checkpoint_message :: "checkpoint \<Rightarrow> nat list" where
  "checkpoint_message c = bytes_of (utf8 (canonical_json (checkpoint_document c)))"

lemma checkpoint_message_inj: "checkpoint_message c = checkpoint_message d \<longleftrightarrow> c = d"
  by (auto simp: checkpoint_message_def bytes_of_inj dest: checkpoint_document_inj)

lemma checkpoint_signature_eq:
  "checkpoint_signature key c = checkpoint_signature key d
   \<Longrightarrow> hmac_sha256 key (checkpoint_message c) = hmac_sha256 key (checkpoint_message d)"
  using b64url_roundtrip [OF hmac_bound]
  by (metis checkpoint_signature_def checkpoint_message_def option.inject)

end
