(* ===== verification/AuditLedger.thy ===== *)
theory AuditLedger
  imports AuditIntegrity
begin

text \<open>
  The append-only audit ledger of \<open>SQLiteRunStore\<close> in \<open>backend/agency_runtime/persistence.py\<close>:
  the tables \<open>audit_events\<close> and \<open>audit_chain_heads\<close>, the append that links a new event to the
  tenant's head, the verification of a tenant's chain and the start-up pass that back-fills or
  verifies every chain. A row keeps the JSON value its \<open>payload_json\<close> text denotes.
\<close>

section \<open>State\<close>

record audit_write =
  aw_request_id :: string
  aw_action :: string
  aw_resource_type :: string
  aw_resource_id :: string
  aw_actor :: string
  aw_payload :: "(string \<times> json) list"
  aw_event_id :: string

definition check_audit_write :: "audit_write \<Rightarrow> unit res" where
  "check_audit_write w = raise_first
     [(strip (aw_request_id w) = [], ValueError ''request_id must not be empty''),
      (strip (aw_action w) = [], ValueError ''action must not be empty''),
      (strip (aw_resource_type w) = [], ValueError ''resource_type must not be empty''),
      (strip (aw_resource_id w) = [], ValueError ''resource_id must not be empty''),
      (strip (aw_actor w) = [], ValueError ''actor must not be empty''),
      (aw_event_id w \<noteq> [] \<and> strip (aw_event_id w) = [], ValueError ''event_id must not be empty'')]"

record audit_row =
  ar_sequence :: nat
  ar_content :: audit_content
  ar_previous_hash :: string
  ar_event_hash :: string

record audit_head =
  ah_event_count :: nat
  ah_head_event_id :: string
  ah_head_hash :: string

record ledger =
  led_events :: "audit_row list"
  led_heads :: "(string \<times> audit_head) list"
  led_next_sequence :: nat

definition empty_ledger :: ledger where
  "empty_ledger = \<lparr>led_events = [], led_heads = [], led_next_sequence = 1\<rparr>"

abbreviation row_tenant :: "audit_row \<Rightarrow> string" where
  "row_tenant r \<equiv> ac_tenant_id (ar_content r)"

abbreviation row_event_id :: "audit_row \<Rightarrow> string" where
  "row_event_id r \<equiv> ac_event_id (ar_content r)"

text \<open>\<open>SELECT * FROM audit_events WHERE tenant_id = ? ORDER BY sequence ASC\<close>.\<close>

definition tenant_rows :: "ledger \<Rightarrow> string \<Rightarrow> audit_row list" where
  "tenant_rows l t = sort_key ar_sequence (filter (\<lambda>r. row_tenant r = t) (led_events l))"

section \<open>Operations\<close>

definition append_audit_locked ::
  "ledger \<Rightarrow> string \<Rightarrow> audit_write \<Rightarrow> string \<Rightarrow> string \<Rightarrow> ledger res" where
  "append_audit_locked l tenant w now uuid =
     (let event_id = (if aw_event_id w \<noteq> [] then aw_event_id w else ''audit-'' @ uuid);
          head = map_of (led_heads l) tenant;
          previous_hash = (case head of None \<Rightarrow> GENESIS_AUDIT_HASH | Some h \<Rightarrow> ah_head_hash h);
          previous_count = (case head of None \<Rightarrow> 0 | Some h \<Rightarrow> ah_event_count h);
          c = \<lparr>ac_event_id = event_id, ac_tenant_id = tenant, ac_request_id = aw_request_id w,
               ac_occurred_at = now, ac_action = aw_action w, ac_resource_type = aw_resource_type w,
               ac_resource_id = aw_resource_id w, ac_actor = aw_actor w, ac_payload = aw_payload w\<rparr>
      in rbind (audit_event_hash c previous_hash) (\<lambda>event_hash.
           if \<exists>r \<in> set (led_events l). row_event_id r = event_id then Inl IntegrityError
           else Inr (l\<lparr>led_events := led_events l
                         @ [\<lparr>ar_sequence = led_next_sequence l, ar_content = canonical_content c,
                             ar_previous_hash = previous_hash, ar_event_hash = event_hash\<rparr>],
                       led_heads := dict_set tenant \<lparr>ah_event_count = previous_count + 1,
                         ah_head_event_id = event_id, ah_head_hash = event_hash\<rparr> (led_heads l),
                       led_next_sequence := led_next_sequence l + 1\<rparr>)))"

definition append_audit ::
  "ledger \<Rightarrow> string \<Rightarrow> audit_write \<Rightarrow> string \<Rightarrow> string \<Rightarrow> ledger res" where
  "append_audit l tenant w now uuid =
     rbind (require_non_empty tenant ''tenant_id'') (\<lambda>_. append_audit_locked l tenant w now uuid)"

text \<open>The loop of \<open>verify_audit_chain\<close>: previous hash and head event so far.\<close>

fun verify_rows :: "string \<Rightarrow> string \<Rightarrow> audit_row list \<Rightarrow> (string \<times> string) res" where
  "verify_rows previous_hash head_event_id [] = Inr (previous_hash, head_event_id)"
| "verify_rows previous_hash head_event_id (r # rs) =
     (if ar_previous_hash r \<noteq> previous_hash then
        Inl (AuditIntegrityError ''audit previous hash linkage is invalid'')
      else rbind (audit_event_hash (ar_content r) previous_hash) (\<lambda>expected.
        if ar_event_hash r \<noteq> expected then Inl (AuditIntegrityError ''audit event hash is invalid'')
        else verify_rows (ar_event_hash r) (row_event_id r) rs))"

definition make_checkpoint :: "checkpoint \<Rightarrow> checkpoint res" where
  "make_checkpoint c = rbind (check_checkpoint c) (\<lambda>_. Inr c)"

definition verify_audit_chain :: "ledger \<Rightarrow> string \<Rightarrow> string \<Rightarrow> checkpoint res" where
  "verify_audit_chain l tenant now =
     rbind (require_non_empty tenant ''tenant_id'') (\<lambda>_.
       let rows = tenant_rows l tenant; head = map_of (led_heads l) tenant
       in rbind (verify_rows GENESIS_AUDIT_HASH [] rows) (\<lambda>(previous_hash, head_event_id).
            if rows = [] \<and> head \<noteq> None then
              Inl (AuditIntegrityError ''audit chain head exists without events'')
            else if rows \<noteq> [] \<and> (case head of None \<Rightarrow> True | Some h \<Rightarrow>
                 ah_event_count h \<noteq> length rows \<or> ah_head_event_id h \<noteq> head_event_id
                 \<or> ah_head_hash h \<noteq> previous_hash) then
              Inl (AuditIntegrityError ''audit chain head does not match events'')
            else make_checkpoint \<lparr>cp_tenant_id = tenant, cp_event_count = length rows,
                   cp_head_event_id = head_event_id, cp_head_hash = previous_hash,
                   cp_verified_at = now\<rparr>))"

definition audit_events :: "ledger \<Rightarrow> string \<Rightarrow> int \<Rightarrow> int \<Rightarrow> audit_row list res" where
  "audit_events l tenant after_sequence limit =
     rbind (raise_first
       [(after_sequence < 0, ValueError ''after_sequence must not be negative''),
        (limit < 1 \<or> 1000 < limit, ValueError ''limit must be between 1 and 1000'')])
     (\<lambda>_. Inr (take (nat limit)
        (filter (\<lambda>r. after_sequence < int (ar_sequence r)) (tenant_rows l tenant))))"

definition audit_event :: "ledger \<Rightarrow> string \<Rightarrow> string \<Rightarrow> audit_row option res" where
  "audit_event l tenant event_id =
     rbind (require_non_empty tenant ''tenant_id'') (\<lambda>_.
     rbind (require_non_empty event_id ''event_id'') (\<lambda>_.
       Inr (sql_find (\<lambda>r. row_tenant r = tenant \<and> row_event_id r = event_id) (led_events l))))"

definition audit_count :: "ledger \<Rightarrow> string \<Rightarrow> nat" where
  "audit_count l tenant = sql_count (\<lambda>r. row_tenant r = tenant) (led_events l)"

text \<open>
  \<open>_ensure_audit_chain_locked\<close>: the rows in tenant and sequence order; per tenant the previous
  hash, the count and the last event (insertion-ordered dicts, here one).
\<close>

type_synonym chain_acc = "(string \<times> (string \<times> nat \<times> string)) list"

fun ensure_rows :: "audit_row list \<Rightarrow> ledger \<Rightarrow> chain_acc \<Rightarrow> (ledger \<times> chain_acc) res" where
  "ensure_rows [] l acc = Inr (l, acc)"
| "ensure_rows (r # rs) l acc =
     (let t = row_tenant r;
          (previous_hash, n) = (case map_of acc t of
             None \<Rightarrow> (GENESIS_AUDIT_HASH, 0) | Some (p, k, _) \<Rightarrow> (p, k))
      in rbind (audit_event_hash (ar_content r) previous_hash) (\<lambda>expected.
           let acc' = dict_set t (expected, n + 1, row_event_id r) acc in
           if ar_previous_hash r = [] \<and> ar_event_hash r = [] then
             ensure_rows rs (l\<lparr>led_events := sql_update (\<lambda>x. ar_sequence x = ar_sequence r)
               (\<lambda>x. x\<lparr>ar_previous_hash := previous_hash, ar_event_hash := expected\<rparr>)
               (led_events l)\<rparr>) acc'
           else if ar_previous_hash r \<noteq> previous_hash \<or> ar_event_hash r \<noteq> expected then
             Inl (AuditIntegrityError ''stored SQLite audit chain failed verification'')
           else ensure_rows rs l acc'))"

fun ensure_heads :: "chain_acc \<Rightarrow> ledger \<Rightarrow> ledger res" where
  "ensure_heads [] l = Inr l"
| "ensure_heads ((t, (h, n, e)) # rest) l = (case map_of (led_heads l) t of
     None \<Rightarrow> ensure_heads rest (l\<lparr>led_heads := led_heads l @
       [(t, \<lparr>ah_event_count = n, ah_head_event_id = e, ah_head_hash = h\<rparr>)]\<rparr>)
   | Some s \<Rightarrow>
       if ah_event_count s \<noteq> n \<or> ah_head_event_id s \<noteq> e \<or> ah_head_hash s \<noteq> h then
         Inl (AuditIntegrityError ''SQLite audit chain head is invalid'')
       else ensure_heads rest l)"

definition ensure_audit_chain :: "ledger \<Rightarrow> ledger res" where
  "ensure_audit_chain l =
     rbind (ensure_rows (sort_key row_tenant (sort_key ar_sequence (led_events l))) l [])
       (\<lambda>(l', acc).
          if \<exists>t \<in> fst ` set (led_heads l'). t \<notin> fst ` set acc then
            Inl (AuditIntegrityError ''SQLite audit chain head has no events'')
          else ensure_heads acc l')"

section \<open>The ledger invariant\<close>

fun rows_linked :: "string \<Rightarrow> audit_row list \<Rightarrow> bool" where
  "rows_linked p [] = True"
| "rows_linked p (r # rs) = (ar_previous_hash r = p
     \<and> ar_event_hash r = sha256_hex (audit_event_text (ar_content r) p)
     \<and> rows_linked (ar_event_hash r) rs)"

definition head_of :: "audit_row list \<Rightarrow> audit_head option" where
  "head_of rows = (if rows = [] then None else
     Some \<lparr>ah_event_count = length rows, ah_head_event_id = row_event_id (last rows),
           ah_head_hash = ar_event_hash (last rows)\<rparr>)"

definition ledger_inv :: "ledger \<Rightarrow> bool" where
  "ledger_inv l \<longleftrightarrow>
     sorted_wrt (<) (map ar_sequence (led_events l))
     \<and> (\<forall>r \<in> set (led_events l). ar_sequence r < led_next_sequence l)
     \<and> distinct (map row_event_id (led_events l))
     \<and> (\<forall>r \<in> set (led_events l). row_event_id r \<noteq> [])
     \<and> (\<forall>t. rows_linked GENESIS_AUDIT_HASH (tenant_rows l t)
            \<and> map_of (led_heads l) t = head_of (tenant_rows l t))"

lemma sorted_tenant_rows:
  assumes "sorted_wrt (<) (map ar_sequence (led_events l))"
  shows "tenant_rows l t = filter (\<lambda>r. row_tenant r = t) (led_events l)"
proof -
  have "sorted (map ar_sequence (led_events l))"
    using assms strict_sorted_iff by blast
  then have "sorted (map ar_sequence (filter (\<lambda>r. row_tenant r = t) (led_events l)))"
    by (rule sorted_filter)
  then show ?thesis by (simp add: tenant_rows_def sort_key_id_if_sorted)
qed

lemma rows_linked_snoc:
  "rows_linked p (rs @ [r]) \<longleftrightarrow> rows_linked p rs
     \<and> ar_previous_hash r = (if rs = [] then p else ar_event_hash (last rs))
     \<and> ar_event_hash r = sha256_hex (audit_event_text (ar_content r) (ar_previous_hash r))"
  by (induction rs arbitrary: p) auto

lemma rows_linked_head:
  "rows_linked p rs \<Longrightarrow>
   (if rs = [] then p else ar_event_hash (last rs)) = chain_head audit_event_text p (map ar_content rs)"
  by (induction rs arbitrary: p) (auto split: if_splits)

lemma rows_linked_sha256:
  "rows_linked p rs \<Longrightarrow> is_sha256 p \<Longrightarrow> is_sha256 (if rs = [] then p else ar_event_hash (last rs))"
  by (simp add: rows_linked_head chain_head_sha256)

lemma verify_rows_linked:
  "is_sha256 p \<Longrightarrow> verify_rows p e rs = Inr (h, e') \<longleftrightarrow>
     rows_linked p rs \<and> h = (if rs = [] then p else ar_event_hash (last rs))
     \<and> e' = (if rs = [] then e else row_event_id (last rs))"
proof (induction rs arbitrary: p e)
  case (Cons r rs)
  show ?case
  proof (cases "ar_previous_hash r = p \<and> ar_event_hash r = sha256_hex (audit_event_text (ar_content r) p)")
    case True
    then have "verify_rows p e (r # rs) = verify_rows (ar_event_hash r) (row_event_id r) rs"
      using Cons.prems by (simp add: audit_event_hash_def)
    then show ?thesis using Cons.IH [of "ar_event_hash r" "row_event_id r"] True by simp
  next
    case False
    then show ?thesis using Cons.prems by (auto simp: audit_event_hash_def)
  qed
qed auto

lemma verify_rows_cases:
  "is_sha256 p \<Longrightarrow> \<not> rows_linked p rs \<Longrightarrow> \<exists>m. verify_rows p e rs = Inl (AuditIntegrityError m)"
proof (induction rs arbitrary: p e)
  case (Cons r rs)
  then show ?case
    by (cases "ar_previous_hash r = p \<and> ar_event_hash r = sha256_hex (audit_event_text (ar_content r) p)")
      (auto simp: audit_event_hash_def)
qed simp

section \<open>Appending\<close>

text \<open>The row an append writes on a ledger that satisfies the invariant.\<close>

definition appended_content :: "string \<Rightarrow> audit_write \<Rightarrow> string \<Rightarrow> string \<Rightarrow> audit_content" where
  "appended_content tenant w now uuid = canonical_content
     \<lparr>ac_event_id = (if aw_event_id w \<noteq> [] then aw_event_id w else ''audit-'' @ uuid),
      ac_tenant_id = tenant, ac_request_id = aw_request_id w, ac_occurred_at = now,
      ac_action = aw_action w, ac_resource_type = aw_resource_type w,
      ac_resource_id = aw_resource_id w, ac_actor = aw_actor w, ac_payload = aw_payload w\<rparr>"

lemma canonical_content_ids [simp]:
  "ac_event_id (canonical_content c) = ac_event_id c"
  "ac_tenant_id (canonical_content c) = ac_tenant_id c"
  by (simp_all add: canonical_content_def)

lemma appended_content_ids [simp]:
  "ac_event_id (appended_content t w now uuid) =
     (if aw_event_id w \<noteq> [] then aw_event_id w else ''audit-'' @ uuid)"
  "ac_tenant_id (appended_content t w now uuid) = t"
  by (simp_all add: appended_content_def)

definition tenant_tip :: "ledger \<Rightarrow> string \<Rightarrow> string" where
  "tenant_tip l t = (let rows = tenant_rows l t in
     if rows = [] then GENESIS_AUDIT_HASH else ar_event_hash (last rows))"

lemma tenant_tip_sha256: "ledger_inv l \<Longrightarrow> is_sha256 (tenant_tip l t)"
  unfolding tenant_tip_def Let_def
  by (rule rows_linked_sha256) (auto simp: ledger_inv_def)

definition appended_row :: "ledger \<Rightarrow> string \<Rightarrow> audit_write \<Rightarrow> string \<Rightarrow> string \<Rightarrow> audit_row" where
  "appended_row l t w now uuid = (let c = appended_content t w now uuid in
     \<lparr>ar_sequence = led_next_sequence l, ar_content = c, ar_previous_hash = tenant_tip l t,
      ar_event_hash = sha256_hex (audit_event_text c (tenant_tip l t))\<rparr>)"

lemma appended_row_fields [simp]:
  "ar_sequence (appended_row l t w now uuid) = led_next_sequence l"
  "ar_content (appended_row l t w now uuid) = appended_content t w now uuid"
  "ar_previous_hash (appended_row l t w now uuid) = tenant_tip l t"
  "ar_event_hash (appended_row l t w now uuid) =
     sha256_hex (audit_event_text (appended_content t w now uuid) (tenant_tip l t))"
  by (simp_all add: appended_row_def Let_def)

definition append_row :: "ledger \<Rightarrow> audit_row \<Rightarrow> ledger" where
  "append_row l r = l\<lparr>led_events := led_events l @ [r],
     led_heads := dict_set (row_tenant r) \<lparr>ah_event_count = length (tenant_rows l (row_tenant r)) + 1,
       ah_head_event_id = row_event_id r, ah_head_hash = ar_event_hash r\<rparr> (led_heads l),
     led_next_sequence := led_next_sequence l + 1\<rparr>"

lemma append_row_fields [simp]:
  "led_events (append_row l r) = led_events l @ [r]"
  "map_of (led_heads (append_row l r)) = (map_of (led_heads l))(row_tenant r \<mapsto>
     \<lparr>ah_event_count = length (tenant_rows l (row_tenant r)) + 1,
      ah_head_event_id = row_event_id r, ah_head_hash = ar_event_hash r\<rparr>)"
  "led_next_sequence (append_row l r) = led_next_sequence l + 1"
  by (simp_all add: append_row_def)

lemma append_audit_locked_eq:
  assumes "ledger_inv l"
  shows "append_audit_locked l t w now uuid =
    (let r = appended_row l t w now uuid in
     if \<exists>x \<in> set (led_events l). row_event_id x = row_event_id r then Inl IntegrityError
     else Inr (append_row l r))"
proof -
  have h: "map_of (led_heads l) t = head_of (tenant_rows l t)" using assms by (simp add: ledger_inv_def)
  have tip: "(case map_of (led_heads l) t of None \<Rightarrow> GENESIS_AUDIT_HASH | Some h \<Rightarrow> ah_head_hash h)
      = tenant_tip l t"
    by (simp add: h head_of_def tenant_tip_def)
  have n: "(case map_of (led_heads l) t of None \<Rightarrow> 0 | Some h \<Rightarrow> ah_event_count h)
      = length (tenant_rows l t)"
    by (simp add: h head_of_def)
  show ?thesis
    unfolding append_audit_locked_def Let_def tip n
    using tenant_tip_sha256 [OF assms, of t]
    by (simp add: audit_event_hash_def append_row_def audit_event_text_canonical
        appended_content_def appended_row_def Let_def)
qed

lemma tenant_rows_append_row:
  assumes "ledger_inv l" "led_next_sequence l \<le> ar_sequence r"
  shows "tenant_rows (append_row l r) t =
    (if t = row_tenant r then tenant_rows l t @ [r] else tenant_rows l t)"
proof -
  have s: "sorted_wrt (<) (map ar_sequence (led_events l))" using assms by (simp add: ledger_inv_def)
  then have s': "sorted_wrt (<) (map ar_sequence (led_events (append_row l r)))"
    using assms by (fastforce simp: ledger_inv_def append_row_def sorted_wrt_append)
  show ?thesis
    unfolding sorted_tenant_rows [OF s] sorted_tenant_rows [OF s'] by (simp add: append_row_def)
qed

lemma append_row_inv:
  assumes inv: "ledger_inv l" and seq: "ar_sequence r = led_next_sequence l"
    and fresh: "\<forall>x \<in> set (led_events l). row_event_id x \<noteq> row_event_id r" "row_event_id r \<noteq> []"
    and link: "ar_previous_hash r = tenant_tip l (row_tenant r)"
      "ar_event_hash r = sha256_hex (audit_event_text (ar_content r) (ar_previous_hash r))"
  shows "ledger_inv (append_row l r)"
proof -
  have rows: "tenant_rows (append_row l r) t =
      (if t = row_tenant r then tenant_rows l t @ [r] else tenant_rows l t)" for t
    using tenant_rows_append_row [OF inv] seq by simp
  have "rows_linked GENESIS_AUDIT_HASH (tenant_rows (append_row l r) t)
      \<and> map_of (led_heads (append_row l r)) t = head_of (tenant_rows (append_row l r) t)" for t
  proof (cases "t = row_tenant r")
    case True
    then show ?thesis using inv link
      by (simp add: rows rows_linked_snoc ledger_inv_def tenant_tip_def Let_def head_of_def)
  next
    case False
    then show ?thesis using inv by (simp add: rows ledger_inv_def)
  qed
  moreover have "\<forall>x \<in> set (led_events l). ar_sequence x < led_next_sequence l" using inv
    by (simp add: ledger_inv_def)
  ultimately show ?thesis using inv seq fresh
    unfolding ledger_inv_def by (auto simp: sorted_wrt_append less_SucI)
qed

lemma append_inv:
  assumes "ledger_inv l" "append_audit_locked l t w now uuid = Inr l'"
  shows "ledger_inv l' \<and> l' = append_row l (appended_row l t w now uuid)"
proof -
  let ?r = "appended_row l t w now uuid"
  have e: "l' = append_row l ?r" "\<forall>x \<in> set (led_events l). row_event_id x \<noteq> row_event_id ?r"
    using assms by (auto simp: append_audit_locked_eq Let_def split: if_splits)
  have "ledger_inv (append_row l ?r)"
    using e(2) by (intro append_row_inv [OF assms(1)]) simp_all
  with e show ?thesis by simp
qed

lemma empty_ledger_inv: "ledger_inv empty_ledger"
  by (simp add: ledger_inv_def empty_ledger_def tenant_rows_def head_of_def)

section \<open>Verification\<close>

lemma verify_ok:
  assumes inv: "ledger_inv l" and t: "strip t \<noteq> []" and now: "now \<noteq> []"
  shows "verify_audit_chain l t now = Inr
    \<lparr>cp_tenant_id = t, cp_event_count = length (tenant_rows l t),
     cp_head_event_id = (if tenant_rows l t = [] then [] else row_event_id (last (tenant_rows l t))),
     cp_head_hash = tenant_tip l t, cp_verified_at = now\<rparr>"
proof -
  let ?rows = "tenant_rows l t"
  have l: "rows_linked GENESIS_AUDIT_HASH ?rows" "map_of (led_heads l) t = head_of ?rows"
    using inv by (simp_all add: ledger_inv_def)
  have v: "verify_rows GENESIS_AUDIT_HASH [] ?rows = Inr (tenant_tip l t,
      if ?rows = [] then [] else row_event_id (last ?rows))"
    using l by (simp add: verify_rows_linked tenant_tip_def Let_def)
  have ids: "?rows \<noteq> [] \<Longrightarrow> row_event_id (last ?rows) \<noteq> []"
    using inv last_in_set [of ?rows] by (auto simp: ledger_inv_def tenant_rows_def)
  have "t \<noteq> []" using t by auto
  then show ?thesis
    using t now ids l(2) tenant_tip_sha256 [OF inv, of t]
    by (cases "?rows = []") (simp_all add: verify_audit_chain_def Let_def v require_non_empty_def
        head_of_def make_checkpoint_def check_checkpoint_def tenant_tip_def)
qed

lemma verify_Inr_linked:
  assumes "verify_audit_chain l t now = Inr c"
  shows "rows_linked GENESIS_AUDIT_HASH (tenant_rows l t)
    \<and> cp_event_count c = length (tenant_rows l t) \<and> cp_head_hash c = tenant_tip l t
    \<and> cp_tenant_id c = t \<and> map_of (led_heads l) t = head_of (tenant_rows l t)"
proof -
  obtain h e where v: "verify_rows GENESIS_AUDIT_HASH [] (tenant_rows l t) = Inr (h, e)"
    and rest: "verify_audit_chain l t now = Inr c"
    using assms by (auto simp: verify_audit_chain_def Let_def rbind_Inr_iff)
  have lk: "rows_linked GENESIS_AUDIT_HASH (tenant_rows l t)" "h = tenant_tip l t"
    "e = (if tenant_rows l t = [] then [] else row_event_id (last (tenant_rows l t)))"
    using v by (simp_all add: verify_rows_linked tenant_tip_def Let_def)
  show ?thesis using rest lk v
    by (auto simp: verify_audit_chain_def Let_def rbind_Inr_iff make_checkpoint_def head_of_def
        tenant_tip_def split: if_splits option.splits)
qed

text \<open>Ledgers reachable by appends, in any order and for any tenants.\<close>

inductive ledger_reachable :: "ledger \<Rightarrow> bool" where
  start: "ledger_reachable empty_ledger"
| append: "ledger_reachable l \<Longrightarrow> append_audit l t w now uuid = Inr l' \<Longrightarrow> ledger_reachable l'"

lemma append_audit_Inr:
  "append_audit l t w now uuid = Inr l' \<longleftrightarrow> strip t \<noteq> [] \<and> append_audit_locked l t w now uuid = Inr l'"
  by (auto simp: append_audit_def require_non_empty_def)

lemma reachable_inv: "ledger_reachable l \<Longrightarrow> ledger_inv l"
  by (induction rule: ledger_reachable.induct) (auto simp: empty_ledger_inv append_audit_Inr dest: append_inv)

section \<open>The start-up pass\<close>

abbreviation blank_row :: "audit_row \<Rightarrow> bool" where
  "blank_row r \<equiv> ar_previous_hash r = [] \<and> ar_event_hash r = []"

definition of_tenant :: "string \<Rightarrow> audit_row list \<Rightarrow> audit_row list" where
  "of_tenant t rs = filter (\<lambda>r. row_tenant r = t) rs"

lemma of_tenant_simps [simp]:
  "of_tenant t [] = []" "of_tenant t (r # rs) = (if row_tenant r = t then [r] else []) @ of_tenant t rs"
  "of_tenant t (xs @ ys) = of_tenant t xs @ of_tenant t ys"
  by (simp_all add: of_tenant_def)

definition acc_of :: "audit_row list \<Rightarrow> (string \<times> nat \<times> string) option" where
  "acc_of q = (if q = [] then None else Some (ar_event_hash (last q), length q, row_event_id (last q)))"

text \<open>What the loop has established after the rows \<open>ps\<close>.\<close>

definition scanned :: "audit_row list \<Rightarrow> chain_acc \<Rightarrow> bool" where
  "scanned ps acc \<longleftrightarrow> (\<forall>t. rows_linked GENESIS_AUDIT_HASH (of_tenant t ps)
     \<and> map_of acc t = acc_of (of_tenant t ps))"

lemma scanned_previous:
  assumes "scanned ps acc"
  shows "(case map_of acc t of None \<Rightarrow> (GENESIS_AUDIT_HASH, 0) | Some (p, k, _) \<Rightarrow> (p, k)) =
    ((if of_tenant t ps = [] then GENESIS_AUDIT_HASH else ar_event_hash (last (of_tenant t ps))),
     length (of_tenant t ps))"
  using assms by (simp add: scanned_def acc_of_def)

lemma scanned_snoc:
  assumes "scanned ps acc" and "t = row_tenant r"
    and "ar_previous_hash r = (if of_tenant t ps = [] then GENESIS_AUDIT_HASH
           else ar_event_hash (last (of_tenant t ps)))"
    and "ar_event_hash r = sha256_hex (audit_event_text (ar_content r) (ar_previous_hash r))"
  shows "scanned (ps @ [r]) (dict_set t (ar_event_hash r, length (of_tenant t ps) + 1, row_event_id r) acc)"
  using assms by (simp add: scanned_def rows_linked_snoc acc_of_def)

lemma ensure_rows_step:
  assumes "scanned ps acc" "\<not> blank_row r"
  defines "t \<equiv> row_tenant r"
  defines "p \<equiv> (if of_tenant t ps = [] then GENESIS_AUDIT_HASH else ar_event_hash (last (of_tenant t ps)))"
  shows "ensure_rows (r # rs) l acc =
    (if ar_previous_hash r = p \<and> ar_event_hash r = sha256_hex (audit_event_text (ar_content r) p)
     then ensure_rows rs l (dict_set t (ar_event_hash r, length (of_tenant t ps) + 1, row_event_id r) acc)
     else Inl (AuditIntegrityError ''stored SQLite audit chain failed verification''))"
proof -
  have "is_sha256 p"
    using assms(1) rows_linked_sha256 [of GENESIS_AUDIT_HASH "of_tenant t ps"]
    by (simp add: scanned_def p_def)
  moreover have "(case map_of acc t of None \<Rightarrow> (GENESIS_AUDIT_HASH, 0) | Some (p, k, _) \<Rightarrow> (p, k))
      = (p, length (of_tenant t ps))"
    using scanned_previous [OF assms(1)] by (simp add: p_def)
  ultimately show ?thesis using assms(2)
    by (auto simp: t_def [symmetric] audit_event_hash_def Let_def)
qed

lemma ensure_rows_sound:
  assumes "scanned ps acc" and "\<forall>r \<in> set rs. \<not> blank_row r"
    and "ensure_rows rs l acc = Inr (l', acc')"
  shows "l' = l \<and> scanned (ps @ rs) acc'"
  using assms
proof (induction rs arbitrary: ps acc)
  case (Cons r rs)
  have nb: "\<not> blank_row r" using Cons.prems(2) by simp
  note st = ensure_rows_step [OF Cons.prems(1) nb, of rs l]
  from Cons.prems(3) st have
    h: "ar_previous_hash r = (if of_tenant (row_tenant r) ps = [] then GENESIS_AUDIT_HASH
          else ar_event_hash (last (of_tenant (row_tenant r) ps)))"
      "ar_event_hash r = sha256_hex (audit_event_text (ar_content r) (ar_previous_hash r))"
    and e: "ensure_rows rs l (dict_set (row_tenant r) (ar_event_hash r,
        length (of_tenant (row_tenant r) ps) + 1, row_event_id r) acc) = Inr (l', acc')"
    by (simp_all split: if_splits del: ensure_rows.simps)
  have "l' = l \<and> scanned ((ps @ [r]) @ rs) acc'"
    using Cons.prems(2) by (intro Cons.IH [OF scanned_snoc [OF Cons.prems(1) refl h] _ e]) simp
  then show ?case by simp
qed simp

lemma rows_linked_appendD: "rows_linked p (xs @ ys) \<Longrightarrow> rows_linked p xs"
  by (induction xs arbitrary: p) auto

lemma ensure_rows_complete:
  assumes "scanned ps acc" and "\<forall>r \<in> set rs. \<not> blank_row r"
    and "\<forall>t. rows_linked GENESIS_AUDIT_HASH (of_tenant t (ps @ rs))"
  shows "\<exists>acc'. ensure_rows rs l acc = Inr (l, acc') \<and> scanned (ps @ rs) acc'"
  using assms
proof (induction rs arbitrary: ps acc)
  case (Cons r rs)
  have nb: "\<not> blank_row r" using Cons.prems(2) by simp
  have "rows_linked GENESIS_AUDIT_HASH (of_tenant (row_tenant r) ps @ [r])"
    using Cons.prems(3) [rule_format, of "row_tenant r"]
      rows_linked_appendD [of _ "of_tenant (row_tenant r) ps @ [r]" "of_tenant (row_tenant r) rs"]
    by simp
  then have h: "ar_previous_hash r = (if of_tenant (row_tenant r) ps = [] then GENESIS_AUDIT_HASH
          else ar_event_hash (last (of_tenant (row_tenant r) ps)))"
      "ar_event_hash r = sha256_hex (audit_event_text (ar_content r) (ar_previous_hash r))"
    by (simp_all add: rows_linked_snoc)
  have s: "scanned (ps @ [r]) (dict_set (row_tenant r) (ar_event_hash r,
      length (of_tenant (row_tenant r) ps) + 1, row_event_id r) acc)"
    by (rule scanned_snoc [OF Cons.prems(1) refl h])
  have "\<exists>acc'. ensure_rows rs l (dict_set (row_tenant r) (ar_event_hash r,
      length (of_tenant (row_tenant r) ps) + 1, row_event_id r) acc) = Inr (l, acc')
      \<and> scanned ((ps @ [r]) @ rs) acc'"
    using Cons.prems(2,3) by (intro Cons.IH [OF s]) (simp_all add: append_assoc)
  moreover have "ensure_rows (r # rs) l acc = ensure_rows rs l (dict_set (row_tenant r)
      (ar_event_hash r, length (of_tenant (row_tenant r) ps) + 1, row_event_id r) acc)"
    using ensure_rows_step [OF Cons.prems(1) nb, of rs l] h by presburger
  ultimately show ?case by simp
qed simp

lemma ensure_heads_sound:
  "ensure_heads acc l = Inr l' \<Longrightarrow> led_events l' = led_events l
   \<and> (\<forall>t. map_of (led_heads l') t = (case map_of (led_heads l) t of Some h \<Rightarrow> Some h
        | None \<Rightarrow> map_option (\<lambda>(h, n, e). \<lparr>ah_event_count = n, ah_head_event_id = e, ah_head_hash = h\<rparr>)
                    (map_of acc t)))
   \<and> (\<forall>t h n e s. (t, h, n, e) \<in> set acc \<longrightarrow> map_of (led_heads l) t = Some s \<longrightarrow>
        s = \<lparr>ah_event_count = n, ah_head_event_id = e, ah_head_hash = h\<rparr>)"
proof (induction acc l rule: ensure_heads.induct)
  case (2 t h n e rest l)
  show ?case
  proof (cases "map_of (led_heads l) t")
    case None
    have "ensure_heads rest (l\<lparr>led_heads := led_heads l @
        [(t, \<lparr>ah_event_count = n, ah_head_event_id = e, ah_head_hash = h\<rparr>)]\<rparr>) = Inr l'"
      using 2(3) None by simp
    note ih = 2(1) [OF None this]
    show ?thesis using ih None
      by (auto simp: map_add_def split: option.splits if_splits)
  next
    case (Some s)
    then have "ensure_heads rest l = Inr l'"
      and s: "s = \<lparr>ah_event_count = n, ah_head_event_id = e, ah_head_hash = h\<rparr>"
      using 2(3) by (auto split: if_splits)
    with 2(2) [OF Some] Some s show ?thesis by (auto split: option.splits)
  qed
qed (auto split: option.splits)

lemma ensure_heads_complete:
  "\<forall>(t, h, n, e) \<in> set acc. map_of (led_heads l) t =
     Some \<lparr>ah_event_count = n, ah_head_event_id = e, ah_head_hash = h\<rparr> \<Longrightarrow> ensure_heads acc l = Inr l"
  by (induction acc) auto

lemma of_tenant_sorted:
  "of_tenant t (sort_key row_tenant (sort_key ar_sequence (led_events l))) = tenant_rows l t"
  by (simp add: of_tenant_def tenant_rows_def sort_key_stable filter_sort)

lemma scanned_Nil: "scanned [] []"
  by (simp add: scanned_def acc_of_def)


lemma ensure_rows_distinct:
  "ensure_rows rs l acc = Inr (l', acc') \<Longrightarrow> distinct (map fst acc) \<Longrightarrow> distinct (map fst acc')"
proof (induction rs arbitrary: l acc)
  case (Cons r rs)
  obtain p n where pn: "(case map_of acc (row_tenant r) of
      None \<Rightarrow> (GENESIS_AUDIT_HASH, 0) | Some (p, k, _) \<Rightarrow> (p, k)) = (p, n)" by fastforce
  obtain x where x: "audit_event_hash (ar_content r) p = Inr x"
    using Cons.prems(1) pn by (cases "audit_event_hash (ar_content r) p") simp_all
  let ?acc = "dict_set (row_tenant r) (x, n + 1, row_event_id r) acc"
  have d: "distinct (map fst ?acc)" by (rule distinct_dict_set [OF Cons.prems(2)])
  show ?case
  proof (cases "blank_row r")
    case True
    have "ensure_rows rs (l\<lparr>led_events := sql_update (\<lambda>y. ar_sequence y = ar_sequence r)
        (\<lambda>y. y\<lparr>ar_previous_hash := p, ar_event_hash := x\<rparr>) (led_events l)\<rparr>) ?acc = Inr (l', acc')"
      using Cons.prems(1) pn x True by simp
    then show ?thesis using d by (rule Cons.IH)
  next
    case False
    have "ensure_rows rs l ?acc = Inr (l', acc')"
      using Cons.prems(1) pn x False by (auto simp: Let_def split: if_splits)
    then show ?thesis using d by (rule Cons.IH)
  qed
qed simp

lemma linked_not_blank:
  "rows_linked p rs \<Longrightarrow> r \<in> set rs \<Longrightarrow> \<not> blank_row r"
proof (induction rs arbitrary: p)
  case (Cons x rs)
  have n: "sha256_hex m \<noteq> []" for m using length_sha256_hex [of m] by fastforce
  show ?case
  proof (cases "r = x")
    case True
    then show ?thesis using Cons.prems n [of "audit_event_text (ar_content x) p"] by auto
  next
    case False
    then show ?thesis using Cons by auto
  qed
qed simp

lemma inv_not_blank: "ledger_inv l \<Longrightarrow> r \<in> set (led_events l) \<Longrightarrow> \<not> blank_row r"
  using linked_not_blank [of GENESIS_AUDIT_HASH "tenant_rows l (row_tenant r)" r]
  by (simp add: ledger_inv_def tenant_rows_def)

lemma ensure_inv:
  assumes inv: "ledger_inv l"
  shows "ensure_audit_chain l = Inr l"
proof -
  let ?rs = "sort_key row_tenant (sort_key ar_sequence (led_events l))"
  have "\<forall>t. rows_linked GENESIS_AUDIT_HASH (of_tenant t ([] @ ?rs))"
    using inv of_tenant_sorted by (simp add: ledger_inv_def)
  moreover have "\<forall>r \<in> set ?rs. \<not> blank_row r" using inv_not_blank [OF inv] by simp
  ultimately obtain acc where e: "ensure_rows ?rs l [] = Inr (l, acc)" and s: "scanned ?rs acc"
    using ensure_rows_complete [OF scanned_Nil, of ?rs l] by auto
  have d: "distinct (map fst acc)" using ensure_rows_distinct [OF e] by simp
  have acc: "map_of acc t = acc_of (tenant_rows l t)" for t
    using s by (simp add: scanned_def of_tenant_sorted)
  have heads: "map_of (led_heads l) t = head_of (tenant_rows l t)" for t
    using inv by (simp add: ledger_inv_def)
  have "t \<in> fst ` set acc" if "t \<in> fst ` set (led_heads l)" for t
  proof -
    have "map_of (led_heads l) t \<noteq> None" using that by (simp add: map_of_eq_None_iff)
    then have "map_of acc t \<noteq> None" by (auto simp: heads acc head_of_def acc_of_def split: if_splits)
    then show ?thesis by (simp add: map_of_eq_None_iff)
  qed
  moreover have "map_of (led_heads l) t =
      Some \<lparr>ah_event_count = n, ah_head_event_id = i, ah_head_hash = h\<rparr>"
    if "(t, h, n, i) \<in> set acc" for t h n i
  proof -
    have "map_of acc t = Some (h, n, i)" using that d by simp
    then show ?thesis by (auto simp: heads acc head_of_def acc_of_def split: if_splits)
  qed
  ultimately show ?thesis
    unfolding ensure_audit_chain_def e by (auto intro!: ensure_heads_complete)
qed

section \<open>Properties\<close>

text \<open>C21: every ledger that appends can reach verifies, for every tenant: \<open>verify_audit_chain\<close>
  returns a checkpoint that counts exactly the tenant's events and names its last event and hash.\<close>

theorem reachable_ledger_verifies:
  assumes "ledger_reachable l" and "strip t \<noteq> []" and "now \<noteq> []"
  shows "\<exists>c. verify_audit_chain l t now = Inr c \<and> cp_event_count c = audit_count l t
    \<and> cp_head_hash c = chain_head audit_event_text GENESIS_AUDIT_HASH (map ar_content (tenant_rows l t))"
proof -
  have inv: "ledger_inv l" by (rule reachable_inv [OF assms(1)])
  then have "length (tenant_rows l t) = audit_count l t"
    by (simp add: tenant_rows_def audit_count_def sql_count_def)
  moreover have "tenant_tip l t = chain_head audit_event_text GENESIS_AUDIT_HASH (map ar_content (tenant_rows l t))"
    using inv rows_linked_head [of GENESIS_AUDIT_HASH "tenant_rows l t"]
    by (simp add: ledger_inv_def tenant_tip_def Let_def)
  ultimately show ?thesis using verify_ok [OF inv assms(2,3)] by simp
qed

definition sample_write :: audit_write where
  "sample_write = \<lparr>aw_request_id = ''req-1'', aw_action = ''run.created'', aw_resource_type = ''run'',
     aw_resource_id = ''run-1'', aw_actor = ''operator'', aw_payload = [(''status'', JStr ''queued'')],
     aw_event_id = ''evt-1''\<rparr>"

definition sample_ledger :: ledger where
  "sample_ledger = append_row empty_ledger
     (appended_row empty_ledger ''acme'' sample_write ''2026-07-18T12:00:00+00:00'' ''0'')"

lemma strip_simps:
  "strip (c # s) = [] \<longleftrightarrow> is_space c \<and> strip s = []"
  by (simp add: strip_Nil_iff)

lemma sample_append:
  "append_audit empty_ledger ''acme'' sample_write ''2026-07-18T12:00:00+00:00'' ''0'' = Inr sample_ledger"
proof -
  have "strip ''acme'' \<noteq> []" by (simp add: strip_simps is_space_def)
  then show ?thesis
    unfolding append_audit_Inr append_audit_locked_eq [OF empty_ledger_inv] Let_def sample_ledger_def
    by (simp add: empty_ledger_def)
qed

lemma sample_reachable: "ledger_reachable sample_ledger"
  using ledger_reachable.append [OF ledger_reachable.start sample_append] .

theorem reachable_ledger_verifies_witness:
  "\<exists>c. verify_audit_chain sample_ledger ''acme'' ''now'' = Inr c
     \<and> cp_event_count c = audit_count sample_ledger ''acme''
     \<and> cp_head_hash c = chain_head audit_event_text GENESIS_AUDIT_HASH
         (map ar_content (tenant_rows sample_ledger ''acme''))"
  using reachable_ledger_verifies [OF sample_reachable, of "''acme''" "''now''"]
  by (simp add: strip_simps is_space_def)

text \<open>An append adds one event at the end of its tenant's chain and touches nothing else:
  the earlier events of the tenant and the chains of all other tenants are unchanged, and it
  fails exactly when the event id is already taken by any tenant.\<close>

theorem append_audit_effect:
  assumes "ledger_reachable l" and "strip t \<noteq> []"
  shows "append_audit l t w now uuid =
    (let r = appended_row l t w now uuid in
     if row_event_id r \<in> row_event_id ` set (led_events l) then Inl IntegrityError
     else Inr (append_row l r))
   \<and> (\<forall>l' t'. append_audit l t w now uuid = Inr l' \<longrightarrow> tenant_rows l' t' =
        (if t' = t then tenant_rows l t @ [appended_row l t w now uuid] else tenant_rows l t'))"
proof -
  have inv: "ledger_inv l" by (rule reachable_inv [OF assms(1)])
  have a: "append_audit l t w now uuid = append_audit_locked l t w now uuid"
    using assms(2) by (simp add: append_audit_def require_non_empty_def)
  have r: "tenant_rows (append_row l (appended_row l t w now uuid)) t' =
      (if t' = t then tenant_rows l t @ [appended_row l t w now uuid] else tenant_rows l t')" for t'
    using tenant_rows_append_row [OF inv, of "appended_row l t w now uuid"] by simp
  have "\<forall>l' t'. append_audit l t w now uuid = Inr l' \<longrightarrow> tenant_rows l' t' =
        (if t' = t then tenant_rows l t @ [appended_row l t w now uuid] else tenant_rows l t')"
    using r append_inv [OF inv] a by auto
  moreover have "append_audit l t w now uuid = (let r = appended_row l t w now uuid in
     if row_event_id r \<in> row_event_id ` set (led_events l) then Inl IntegrityError
     else Inr (append_row l r))"
    unfolding a append_audit_locked_eq [OF inv] Let_def by (rule if_cong) (auto simp: image_iff, metis+)
  ultimately show ?thesis by blast
qed

theorem append_audit_effect_witness:
  "append_audit sample_ledger ''acme'' sample_write ''later'' ''1'' = Inl IntegrityError"
  using append_audit_effect [OF sample_reachable, of "''acme''" sample_write "''later''" "''1''"]
  by (simp add: strip_simps is_space_def sample_ledger_def sample_write_def Let_def)

text \<open>C22: the chain is tamper evident: two ledgers that both verify for a tenant with one event
  count and one head hash hold the same events (with their canonical payloads), unless two of
  the hashed event texts are a SHA-256 collision.\<close>

theorem audit_chain_tamper_evident:
  assumes "verify_audit_chain l1 t n1 = Inr c1" and "verify_audit_chain l2 t n2 = Inr c2"
    and "cp_event_count c1 = cp_event_count c2" and "cp_head_hash c1 = cp_head_hash c2"
    and "list_all wf_content (map ar_content (tenant_rows l1 t))"
    and "list_all wf_content (map ar_content (tenant_rows l2 t))"
  shows "map (canonical_content \<circ> ar_content) (tenant_rows l1 t)
       = map (canonical_content \<circ> ar_content) (tenant_rows l2 t)
    \<or> (\<exists>a \<in> set (chain_texts audit_event_text GENESIS_AUDIT_HASH (map ar_content (tenant_rows l1 t))).
       \<exists>b \<in> set (chain_texts audit_event_text GENESIS_AUDIT_HASH (map ar_content (tenant_rows l2 t))).
         sha256_collision a b)"
proof -
  have h: "chain_head audit_event_text GENESIS_AUDIT_HASH (map ar_content (tenant_rows l1 t))
      = chain_head audit_event_text GENESIS_AUDIT_HASH (map ar_content (tenant_rows l2 t))"
    using verify_Inr_linked [OF assms(1)] verify_Inr_linked [OF assms(2)] assms(4)
    by (simp add: tenant_tip_def Let_def rows_linked_head)
  have n: "length (map ar_content (tenant_rows l1 t)) = length (map ar_content (tenant_rows l2 t))"
    using verify_Inr_linked [OF assms(1)] verify_Inr_linked [OF assms(2)] assms(3) by simp
  show ?thesis
    using audit_chain.head_collision [OF n assms(5,6) h] by simp
qed

theorem audit_chain_tamper_evident_witness:
  "map (canonical_content \<circ> ar_content) (tenant_rows sample_ledger ''acme'')
     = map (canonical_content \<circ> ar_content) (tenant_rows sample_ledger ''acme'')
   \<or> (\<exists>a \<in> set (chain_texts audit_event_text GENESIS_AUDIT_HASH (map ar_content (tenant_rows sample_ledger ''acme''))).
       \<exists>b \<in> set (chain_texts audit_event_text GENESIS_AUDIT_HASH (map ar_content (tenant_rows sample_ledger ''acme''))).
         sha256_collision a b)"
proof -
  obtain c where c: "verify_audit_chain sample_ledger ''acme'' ''now'' = Inr c"
    using verify_ok [OF reachable_inv [OF sample_reachable], of "''acme''" "''now''"]
    by (simp add: strip_simps is_space_def)
  have "list_all wf_content (map ar_content (tenant_rows sample_ledger ''acme''))"
    by (simp add: tenant_rows_def sample_ledger_def empty_ledger_def wf_content_def
        appended_content_def canonical_content_def sample_write_def append_row_def)
  then show ?thesis
    using audit_chain_tamper_evident [OF c c refl refl] by blast
qed

text \<open>The start-up pass leaves a valid ledger exactly as it is.\<close>

theorem ensure_accepts_valid: "ledger_reachable l \<Longrightarrow> ensure_audit_chain l = Inr l"
  by (rule ensure_inv) (rule reachable_inv)

theorem ensure_accepts_valid_witness: "ensure_audit_chain sample_ledger = Inr sample_ledger"
  by (rule ensure_accepts_valid [OF sample_reachable])

text \<open>When the start-up pass accepts a ledger without legacy rows, every event is as it was
  stored, every chain is linked from the genesis hash and every head (written or checked) is the
  one its chain ends in.\<close>

theorem ensure_sound:
  assumes "ensure_audit_chain l = Inr l'" and "\<forall>r \<in> set (led_events l). \<not> blank_row r"
  shows "led_events l' = led_events l
    \<and> (\<forall>t. rows_linked GENESIS_AUDIT_HASH (tenant_rows l' t)
         \<and> map_of (led_heads l') t = head_of (tenant_rows l' t))"
proof -
  let ?rs = "sort_key row_tenant (sort_key ar_sequence (led_events l))"
  obtain l1 acc where e: "ensure_rows ?rs l [] = Inr (l1, acc)"
    and known: "\<forall>t \<in> fst ` set (led_heads l1). t \<in> fst ` set acc"
    and h: "ensure_heads acc l1 = Inr l'"
    using assms(1) by (auto simp: ensure_audit_chain_def rbind_Inr_iff split: if_splits)
  have s: "l1 = l" "scanned ?rs acc"
    using ensure_rows_sound [OF scanned_Nil _ e] assms(2) by auto
  have d: "distinct (map fst acc)" using ensure_rows_distinct [OF e] by simp
  have acc: "map_of acc t = acc_of (tenant_rows l t)"
    and lk: "rows_linked GENESIS_AUDIT_HASH (tenant_rows l t)" for t
    using s(2) by (simp_all add: scanned_def of_tenant_sorted)
  note hs = ensure_heads_sound [OF h]
  have ev: "led_events l' = led_events l" using hs s(1) by simp
  then have rows: "tenant_rows l' t = tenant_rows l t" for t by (simp add: tenant_rows_def)
  have "map_of (led_heads l') t = head_of (tenant_rows l t)" for t
  proof (cases "map_of (led_heads l) t")
    case None
    then show ?thesis using hs s(1) acc [of t] by (simp add: acc_of_def head_of_def)
  next
    case (Some x)
    then have "t \<in> fst ` set acc" using known s(1) by (force dest: map_of_SomeD)
    then obtain hh n i where "(t, hh, n, i) \<in> set acc" by force
    moreover from this have "map_of acc t = Some (hh, n, i)" using d by simp
    ultimately show ?thesis using hs s(1) Some acc [of t]
      by (auto simp: acc_of_def head_of_def split: if_splits)
  qed
  with ev rows lk show ?thesis by simp
qed

theorem ensure_sound_witness:
  "rows_linked GENESIS_AUDIT_HASH (tenant_rows sample_ledger ''acme'')"
  using ensure_sound [OF ensure_inv [OF reachable_inv [OF sample_reachable]]]
    inv_not_blank [OF reachable_inv [OF sample_reachable]] by blast

end
