(* ===== verification/EffectLedger.thy ===== *)
theory EffectLedger
  imports Json
begin

text \<open>
  The contract the two outbound-effect authorities rely on (\<open>model_effect.py\<close>,
  \<open>social_publication.py\<close>): a durable table of intents in which a reservation is granted at most
  once per idempotency key and per binding, and whose later steps keep every intent and move its
  status only along the allowed edges. Both stores interpret the locale on their own operations.
\<close>

section \<open>Reservations and steps\<close>

text \<open>The result of \<open>reserve\<close>: the record, whether the caller may execute, whether it is a replay.\<close>

record 'r reservation =
  res_intent :: 'r
  res_executable :: bool
  res_replayed :: bool

text \<open>
  Compare and set: \<open>UPDATE ... WHERE p\<close> that must touch exactly one row; None is the failed
  \<open>cursor.rowcount != 1\<close> test, after which the transaction rolls back.
\<close>

definition cas_update :: "('r \<Rightarrow> bool) \<Rightarrow> ('r \<Rightarrow> 'r) \<Rightarrow> 'r list \<Rightarrow> 'r list option" where
  "cas_update p f rows = (if sql_count p rows \<noteq> 1 then None else Some (sql_update p f rows))"

lemma cas_update_Some:
  "cas_update p f rows = Some rows' \<longleftrightarrow> sql_count p rows = 1 \<and> rows' = sql_update p f rows"
  by (auto simp: cas_update_def)

text \<open>The unique row that passes the test, when one column identifies rows: the update happens,
  rewrites it alone and a later lookup of that key finds the rewritten row.\<close>

lemma cas_update_unique:
  assumes "distinct (map k rows)" and "r \<in> set rows" and "p r" and "\<And>x. p x \<Longrightarrow> k x = k r"
  shows "cas_update p f rows = Some (map (\<lambda>x. if x = r then f r else x) rows)"
proof -
  have "sql_count p rows \<le> 1" using assms(1,4) by (intro sql_count_unique [of k]) auto
  moreover have "0 < sql_count p rows" using assms(2,3) by (auto simp: sql_count_pos)
  moreover have "sql_update p f rows = map (\<lambda>x. if x = r then f r else x) rows"
    unfolding sql_update_def using assms by (intro map_cong) (auto dest: unique_key)
  ultimately show ?thesis by (simp add: cas_update_def)
qed

lemma cas_update_refused: "(\<And>r. r \<in> set rows \<Longrightarrow> \<not> p r) \<Longrightarrow> cas_update p f rows = None"
  by (auto simp: cas_update_def sql_count_def filter_empty_conv)

lemma sql_find_replaced:
  assumes "distinct (map k rows)" and "r \<in> set rows" and "k (f r) = k r" and "p (f r)"
    and "\<And>x. p x \<Longrightarrow> k x = k r"
  shows "sql_find p (map (\<lambda>x. if x = r then f r else x) rows) = Some (f r)"
proof (rule sql_find_unique [of k])
  have "map k (map (\<lambda>x. if x = r then f r else x) rows) = map k rows" using assms(3) by simp
  then show "distinct (map k (map (\<lambda>x. if x = r then f r else x) rows))" using assms(1) by metis
qed (use assms in force)+

section \<open>Receipts\<close>

text \<open>The receipt column: \<open>canonical_json\<close> on the way in, \<open>json.loads\<close> on the way out.\<close>

definition canonical_receipt :: "(string \<times> json) list \<Rightarrow> (string \<times> json) list" where
  "canonical_receipt r = (case to_primitive (JObj r) of JObj d \<Rightarrow> d | _ \<Rightarrow> [])"

lemma jget_canonical_receipt: "jget k (canonical_receipt r) = map_option to_primitive (jget k r)"
  by (simp add: canonical_receipt_def jget_def map_of_sort_key map_of_values)

lemma canonical_receipt_JObj: "to_primitive (JObj r) = JObj (canonical_receipt r)"
  by (simp add: canonical_receipt_def)

lemma canonical_receipt_idem: "canonical_receipt (canonical_receipt r) = canonical_receipt r"
  using to_primitive_idem [of "JObj r"] unfolding canonical_receipt_JObj by simp

section \<open>The status machine\<close>

text \<open>The edges of the status machine.\<close>

definition status_edge :: "string \<Rightarrow> string \<Rightarrow> bool" where
  "status_edge s s' \<longleftrightarrow> s' = s
     \<or> s = ''pending'' \<and> s' \<in> {''succeeded'', ''unknown'', ''failed'', ''revoked''}
     \<or> s = ''unknown'' \<and> s' = ''succeeded''"

definition terminal_status :: "string \<Rightarrow> bool" where
  "terminal_status s = (s \<in> {''succeeded'', ''failed'', ''revoked''})"

lemma status_edge_refl [simp]: "status_edge s s"
  by (simp add: status_edge_def)

lemma terminal_edge: "terminal_status s \<Longrightarrow> status_edge s s' \<Longrightarrow> s' = s"
  by (auto simp: terminal_status_def status_edge_def)

text \<open>
  Histories of a store: the table, and the intents whose reservation was granted for execution,
  in order. \<open>step\<close> is any other successful operation.
\<close>

inductive history ::
  "('r list \<Rightarrow> 'r \<Rightarrow> ('r list \<times> 'r reservation) res) \<Rightarrow> ('r list \<Rightarrow> 'r list \<Rightarrow> bool) \<Rightarrow>
   'r list \<Rightarrow> 'r list \<Rightarrow> bool"
  for reserve step where
  start: "history reserve step [] []"
| granted: "history reserve step rows log \<Longrightarrow> reserve rows i = Inr (rows', v) \<Longrightarrow> res_executable v
    \<Longrightarrow> history reserve step rows' (log @ [res_intent v])"
| refused: "history reserve step rows log \<Longrightarrow> reserve rows i = Inr (rows', v) \<Longrightarrow> \<not> res_executable v
    \<Longrightarrow> history reserve step rows' log"
| stepped: "history reserve step rows log \<Longrightarrow> step rows rows' \<Longrightarrow> history reserve step rows' log"

inductive_cases history_stepE: "history reserve step rows log"

section \<open>The contract\<close>

locale effect_ledger =
  fixes reserve :: "'r list \<Rightarrow> 'r \<Rightarrow> ('r list \<times> 'r reservation) res"
    and step :: "'r list \<Rightarrow> 'r list \<Rightarrow> bool"
    and idem :: "'r \<Rightarrow> string \<times> string"
    and binding :: "'r \<Rightarrow> string \<times> string"
    and stat :: "'r \<Rightarrow> string"
    and stored :: "'r \<Rightarrow> 'r"
  assumes granted_fresh: "reserve rows i = Inr (rows', v) \<Longrightarrow> res_executable v \<Longrightarrow>
      rows' = rows @ [stored i] \<and> res_intent v = i \<and> stat i = ''pending''
      \<and> idem i \<notin> idem ` set rows \<and> binding i \<notin> binding ` set rows"
    and refused_existing: "reserve rows i = Inr (rows', v) \<Longrightarrow> \<not> res_executable v \<Longrightarrow>
      rows' = rows \<and> res_intent v \<in> set rows \<and> binding (res_intent v) = binding i
      \<and> (res_replayed v \<longleftrightarrow> stat (res_intent v) = ''succeeded'')"
    and step_rows: "step rows rows' \<Longrightarrow>
      list_all2 (\<lambda>r r'. idem r' = idem r \<and> binding r' = binding r \<and> status_edge (stat r) (stat r'))
        rows rows'"
    and stored_keys: "idem (stored i) = idem i" "binding (stored i) = binding i" "stat (stored i) = stat i"
begin

lemma step_keys:
  assumes "step rows rows'"
  shows "map idem rows' = map idem rows" and "map binding rows' = map binding rows"
  using step_rows [OF assms] by (induction rule: list_all2_induct) auto

lemma history_keys:
  "history reserve step rows log \<Longrightarrow>
   map idem rows = map idem log \<and> map binding rows = map binding log
   \<and> distinct (map idem log) \<and> distinct (map binding log)"
proof (induction rule: history.induct)
  case (granted rows log i rows' v)
  have g: "rows' = rows @ [stored i]" "res_intent v = i"
    "idem i \<notin> idem ` set rows" "binding i \<notin> binding ` set rows"
    using granted_fresh [OF granted(2,3)] by auto
  have "idem ` set rows = idem ` set log" "binding ` set rows = binding ` set log"
    using granted.IH by (metis list.set_map)+
  then have "idem i \<notin> idem ` set log" "binding i \<notin> binding ` set log" using g by simp_all
  with g granted.IH stored_keys show ?case by simp
next
  case (refused rows log i rows' v)
  then show ?case using refused_existing by blast
next
  case (stepped rows log rows')
  then show ?case using step_keys by simp
qed simp

text \<open>At most one execution per idempotency key and per binding, over every history.\<close>

lemma at_most_once:
  assumes "history reserve step rows log" and "i < length log" and "j < length log"
    and "binding (log ! i) = binding (log ! j) \<or> idem (log ! i) = idem (log ! j)"
  shows "i = j"
  using history_keys [OF assms(1)] assms(2-4) nth_eq_iff_index_eq [of "map binding log" i j]
    nth_eq_iff_index_eq [of "map idem log" i j]
  by auto

text \<open>Once an intent's status is terminal, no later operation changes it.\<close>

lemma step_terminal:
  assumes "step rows rows'" and "n < length rows" and "terminal_status (stat (rows ! n))"
  shows "n < length rows' \<and> stat (rows' ! n) = stat (rows ! n)"
  using step_rows [OF assms(1)] assms(2,3) terminal_edge
  by (auto simp: list_all2_conv_all_nth)

lemma steps_terminal:
  assumes "step\<^sup>*\<^sup>* rows rows'" and "n < length rows" and "terminal_status (stat (rows ! n))"
  shows "n < length rows' \<and> stat (rows' ! n) = stat (rows ! n)"
  using assms by (induction rule: rtranclp_induct) (auto dest: step_terminal)

lemma reserve_terminal:
  assumes "reserve rows i = Inr (rows', v)" and "n < length rows"
  shows "n < length rows' \<and> rows' ! n = rows ! n"
  using assms granted_fresh [OF assms(1)] refused_existing [OF assms(1)]
  by (cases "res_executable v") (auto simp: nth_append)

end

section \<open>Updates that follow the edges\<close>

lemma sql_update_list_all2:
  assumes "\<And>r. p r \<Longrightarrow> R r (f r)" and "\<And>r. R r r"
  shows "list_all2 R rows (sql_update p f rows)"
  using assms by (induction rows) (auto simp: sql_update_def)

end
