(* ===== verification/ModelEffectStore.thy ===== *)
theory ModelEffectStore
  imports EffectLedger
begin

text \<open>
  \<open>backend/agency_runtime/model_effect_store.py\<close>: the SQLite table of model-effect intents, with
  its validation, reservation, fenced transitions, reconciliation and revocation. The table is
  the list of rows; the receipt column keeps the JSON value its text denotes. Timestamps are the
  clock's texts, passed as \<open>now\<close>.
\<close>

section \<open>Intents and validation\<close>

record me_intent =
  me_effect_id :: string
  me_tenant_id :: string
  me_run_id :: string
  me_station :: string
  me_source_artifact_id :: string
  me_source_artifact_hash :: string
  me_instruction_hash :: string
  me_provider_id :: string
  me_model :: string
  me_endpoint_host :: string
  me_request_sha256 :: string
  me_max_output_tokens :: int
  me_max_cost_micros :: int
  me_idempotency_digest :: string
  me_binding_digest :: string
  me_status :: string
  me_fence :: int
  me_output_text :: string
  me_output_sha256 :: string
  me_receipt :: "(string \<times> json) list"
  me_failure_reason :: string
  me_created_at :: string
  me_updated_at :: string
  me_completed_at :: "string option"
  me_revoked_at :: "string option"

definition me_identifier :: "string \<Rightarrow> bool" where
  "me_identifier = fullmatch_class is_alnum
     (\<lambda>c. is_alnum c \<or> c \<in> {CHR ''.'', CHR ''_'', CHR '':'', CHR ''@'', CHR ''/'', CHR ''-''}) 0 255"

definition me_provider :: "string \<Rightarrow> bool" where
  "me_provider = fullmatch_class is_lower
     (\<lambda>c. is_lower c \<or> is_ascii_digit c \<or> c \<in> {CHR ''_'', CHR ''-''}) 1 31"

definition me_model_name :: "string \<Rightarrow> bool" where
  "me_model_name = fullmatch_class is_alnum
     (\<lambda>c. is_alnum c \<or> c \<in> {CHR ''.'', CHR ''_'', CHR '':'', CHR ''/'', CHR ''-''}) 0 127"

definition me_host :: "string \<Rightarrow> bool" where
  "me_host = fullmatch_class (\<lambda>c. is_lower c \<or> is_ascii_digit c)
     (\<lambda>c. is_lower c \<or> is_ascii_digit c \<or> c \<in> {CHR ''.'', CHR ''-''}) 0 252"

definition ME_STATUSES :: "string list" where
  "ME_STATUSES = [''pending'', ''succeeded'', ''unknown'', ''failed'', ''revoked'']"

definition me_validate_identity :: "string \<Rightarrow> string \<Rightarrow> unit res" where
  "me_validate_identity tenant effect = raise_first
     [(\<not> me_identifier tenant \<or> \<not> me_identifier effect, ValueError ''model effect identity is invalid'')]"

definition me_validate_output :: "string \<Rightarrow> unit res" where
  "me_validate_output text = raise_first
     [(text = [] \<or> 1048576 < utf8_len text, ValueError ''model effect output is invalid'')]"

definition me_validate_receipt :: "(string \<times> json) list \<Rightarrow> unit res" where
  "me_validate_receipt r = raise_first
     [(16384 < utf8_len (canonical_json (JObj r)), ValueError ''model effect receipt is too large'')]"

definition me_reason_ok :: "string \<Rightarrow> bool" where
  "me_reason_ok = fullmatch_class (\<lambda>c. is_lower c \<or> is_ascii_digit c)
     (\<lambda>c. is_lower c \<or> is_ascii_digit c \<or> c \<in> {CHR ''_'', CHR ''.'', CHR '':'', CHR ''-''}) 0 255"

definition me_validate_reason :: "string \<Rightarrow> unit res" where
  "me_validate_reason reason = raise_first
     [(reason = [] \<or> 256 < utf8_len reason \<or> \<not> me_reason_ok reason,
         ValueError ''model effect reason is invalid'')]"

definition me_validate_intent :: "me_intent \<Rightarrow> bool \<Rightarrow> unit res" where
  "me_validate_intent i require_pending =
     rbind (raise_first
       [(\<exists>v \<in> set [me_effect_id i, me_tenant_id i, me_run_id i, me_station i, me_source_artifact_id i].
           \<not> me_identifier v, ValueError ''model effect identity is invalid''),
        (\<exists>d \<in> set [me_source_artifact_hash i, me_instruction_hash i, me_request_sha256 i,
           me_idempotency_digest i, me_binding_digest i].
           \<not> is_sha256 d, ValueError ''model effect digest is invalid''),
        (\<not> me_provider (me_provider_id i), ValueError ''model effect provider is invalid''),
        (\<not> me_model_name (me_model i), ValueError ''model effect model is invalid''),
        (\<not> me_host (me_endpoint_host i), ValueError ''model effect endpoint host is invalid''),
        (me_max_output_tokens i < 1 \<or> 8192 < me_max_output_tokens i,
           ValueError ''model effect token cap is invalid''),
        (me_max_cost_micros i < 0 \<or> 10000000000 < me_max_cost_micros i,
           ValueError ''model effect cost cap is invalid''),
        (me_status i \<notin> set ME_STATUSES \<or> require_pending \<and> me_status i \<noteq> ''pending'',
           ValueError ''model effect status is invalid''),
        (me_fence i < 1, ValueError ''model effect fence is invalid'')]) (\<lambda>_.
     rbind (if me_output_text i \<noteq> [] then me_validate_output (me_output_text i) else Inr ()) (\<lambda>_.
     rbind (raise_first [(me_output_sha256 i \<noteq> [] \<and> \<not> is_sha256 (me_output_sha256 i),
              ValueError ''model effect output digest is invalid'')]) (\<lambda>_.
     rbind (me_validate_receipt (me_receipt i)) (\<lambda>_.
       if me_failure_reason i \<noteq> [] then me_validate_reason (me_failure_reason i) else Inr ()))))"

text \<open>\<open>intent_values\<close> then \<open>intent_from_mapping\<close>: what a row holds of an intent.\<close>

definition me_row :: "me_intent \<Rightarrow> me_intent" where
  "me_row i = i\<lparr>me_receipt := canonical_receipt (me_receipt i)\<rparr>"

section \<open>Operations\<close>

type_synonym me_table = "me_intent list"

definition me_find_existing :: "me_table \<Rightarrow> me_intent \<Rightarrow> me_intent option" where
  "me_find_existing rows i =
     (case sql_find (\<lambda>r. me_tenant_id r = me_tenant_id i
                       \<and> me_idempotency_digest r = me_idempotency_digest i) rows of
        Some r \<Rightarrow> Some r
      | None \<Rightarrow> sql_find (\<lambda>r. me_tenant_id r = me_tenant_id i
                       \<and> me_binding_digest r = me_binding_digest i) rows)"

definition me_insert :: "me_table \<Rightarrow> me_intent \<Rightarrow> me_table res" where
  "me_insert rows i =
     (if \<exists>r \<in> set rows. me_effect_id r = me_effect_id i
         \<or> me_tenant_id r = me_tenant_id i \<and> (me_idempotency_digest r = me_idempotency_digest i
             \<or> me_binding_digest r = me_binding_digest i)
      then Inl IntegrityError else Inr (rows @ [me_row i]))"

definition me_reserve :: "me_table \<Rightarrow> me_intent \<Rightarrow> (me_table \<times> me_intent reservation) res" where
  "me_reserve rows i =
     rbind (me_validate_intent i True) (\<lambda>_.
       case me_find_existing rows i of
         Some r \<Rightarrow>
           if me_idempotency_digest r = me_idempotency_digest i \<and> me_binding_digest r \<noteq> me_binding_digest i
           then Inl (ModelEffectConflictError
             ''model effect idempotency key conflicts with a prior binding'')
           else if me_binding_digest r \<noteq> me_binding_digest i
           then Inl (ModelEffectConflictError ''model effect binding conflicts with a prior intent'')
           else Inr (rows, \<lparr>res_intent = r, res_executable = False,
                            res_replayed = (me_status r = ''succeeded'')\<rparr>)
       | None \<Rightarrow> rbind (me_insert rows i) (\<lambda>rows'.
           Inr (rows', \<lparr>res_intent = i, res_executable = True, res_replayed = False\<rparr>)))"

definition me_get :: "me_table \<Rightarrow> string \<Rightarrow> string \<Rightarrow> me_intent res" where
  "me_get rows tenant effect =
     rbind (me_validate_identity tenant effect) (\<lambda>_.
       case sql_find (\<lambda>r. me_tenant_id r = tenant \<and> me_effect_id r = effect) rows of
         None \<Rightarrow> Inl (KeyError ''model effect intent not found'') | Some r \<Rightarrow> Inr r)"

text \<open>The assignments of \<open>_transition\<close>: each optional argument that is given adds its column.\<close>

record me_change =
  mc_status :: string
  mc_output_text :: "string option"
  mc_output_sha256 :: "string option"
  mc_receipt :: "(string \<times> json) list option"
  mc_failure_reason :: string
  mc_completed :: bool

definition me_apply :: "me_change \<Rightarrow> string \<Rightarrow> me_intent \<Rightarrow> me_intent" where
  "me_apply c now r =
     r\<lparr>me_status := mc_status c, me_updated_at := now,
       me_output_text := (case mc_output_text c of None \<Rightarrow> me_output_text r | Some t \<Rightarrow> t),
       me_output_sha256 := (case mc_output_sha256 c of None \<Rightarrow> me_output_sha256 r | Some t \<Rightarrow> t),
       me_receipt := (case mc_receipt c of None \<Rightarrow> me_receipt r | Some x \<Rightarrow> canonical_receipt x),
       me_failure_reason := (if mc_failure_reason c \<noteq> [] \<or> mc_status c = ''succeeded''
                             then mc_failure_reason c else me_failure_reason r),
       me_completed_at := (if mc_completed c then Some now else me_completed_at r)\<rparr>"

definition me_check_change :: "string \<Rightarrow> string \<Rightarrow> int \<Rightarrow> me_change \<Rightarrow> unit res" where
  "me_check_change tenant effect fence c =
     rbind (me_validate_identity tenant effect) (\<lambda>_.
     rbind (raise_first
       [(fence < 1, ValueError ''model effect fence must be positive''),
        (mc_status c \<notin> set ME_STATUSES, ValueError ''model effect status is invalid'')]) (\<lambda>_.
     rbind (case mc_output_text c of None \<Rightarrow> Inr () | Some t \<Rightarrow> me_validate_output t) (\<lambda>_.
     rbind (case mc_output_sha256 c of None \<Rightarrow> Inr () | Some d \<Rightarrow>
              raise_first [(\<not> is_sha256 d, ValueError ''model effect output digest is invalid'')]) (\<lambda>_.
     rbind (case mc_receipt c of None \<Rightarrow> Inr () | Some r \<Rightarrow> me_validate_receipt r) (\<lambda>_.
       if mc_failure_reason c \<noteq> [] then me_validate_reason (mc_failure_reason c) else Inr ())))))"

definition me_transition ::
  "me_table \<Rightarrow> string \<Rightarrow> string \<Rightarrow> int \<Rightarrow> me_change \<Rightarrow> string \<Rightarrow> (me_table \<times> me_intent) res" where
  "me_transition rows tenant effect fence c now =
     rbind (me_check_change tenant effect fence c) (\<lambda>_.
       case cas_update (\<lambda>r. me_tenant_id r = tenant \<and> me_effect_id r = effect
                          \<and> me_status r = ''pending'' \<and> me_fence r = fence) (me_apply c now) rows of
         None \<Rightarrow> Inl (ModelEffectStateError ''model effect intent is not pending for this fence'')
       | Some rows' \<Rightarrow> rbind (me_get rows' tenant effect) (\<lambda>r. Inr (rows', r)))"

definition me_complete ::
  "me_table \<Rightarrow> string \<Rightarrow> string \<Rightarrow> int \<Rightarrow> string \<Rightarrow> (string \<times> json) list \<Rightarrow> string
   \<Rightarrow> (me_table \<times> me_intent) res" where
  "me_complete rows tenant effect fence output receipt now =
     rbind (me_validate_output output) (\<lambda>_.
     rbind (me_validate_receipt receipt) (\<lambda>_.
       me_transition rows tenant effect fence
         \<lparr>mc_status = ''succeeded'', mc_output_text = Some output,
          mc_output_sha256 = Some (sha256_text output), mc_receipt = Some receipt,
          mc_failure_reason = [], mc_completed = True\<rparr> now))"

definition me_failure :: "string \<Rightarrow> string \<Rightarrow> me_change" where
  "me_failure status reason = \<lparr>mc_status = status, mc_output_text = None, mc_output_sha256 = None,
     mc_receipt = None, mc_failure_reason = reason, mc_completed = False\<rparr>"

definition me_mark_unknown ::
  "me_table \<Rightarrow> string \<Rightarrow> string \<Rightarrow> int \<Rightarrow> string \<Rightarrow> string \<Rightarrow> (me_table \<times> me_intent) res" where
  "me_mark_unknown rows tenant effect fence reason now =
     me_transition rows tenant effect fence (me_failure ''unknown'' reason) now"

definition me_mark_failed ::
  "me_table \<Rightarrow> string \<Rightarrow> string \<Rightarrow> int \<Rightarrow> string \<Rightarrow> string \<Rightarrow> (me_table \<times> me_intent) res" where
  "me_mark_failed rows tenant effect fence reason now =
     me_transition rows tenant effect fence (me_failure ''failed'' reason) now"

definition me_reconciliation_matches :: "me_intent \<Rightarrow> string \<Rightarrow> (string \<times> json) list \<Rightarrow> bool" where
  "me_reconciliation_matches i sha receipt =
     (me_status i = ''succeeded'' \<and> me_output_sha256 i = sha
      \<and> (case jget ''reconciliation_binding_digest'' receipt of
           Some (JStr d) \<Rightarrow> is_sha256 d
             \<and> jget ''reconciliation_binding_digest'' (me_receipt i) = Some (JStr d)
         | _ \<Rightarrow> False))"

definition me_reconciled ::
  "string \<Rightarrow> (string \<times> json) list \<Rightarrow> string \<Rightarrow> me_intent \<Rightarrow> me_intent" where
  "me_reconciled output receipt now r =
     r\<lparr>me_status := ''succeeded'', me_output_text := output, me_output_sha256 := sha256_text output,
       me_receipt := canonical_receipt receipt, me_failure_reason := [],
       me_completed_at := Some now, me_updated_at := now\<rparr>"

definition me_reconcile_success ::
  "me_table \<Rightarrow> string \<Rightarrow> string \<Rightarrow> string \<Rightarrow> (string \<times> json) list \<Rightarrow> string
   \<Rightarrow> (me_table \<times> me_intent) res" where
  "me_reconcile_success rows tenant effect output receipt now =
     rbind (me_validate_identity tenant effect) (\<lambda>_.
     rbind (me_validate_output output) (\<lambda>_.
     rbind (me_validate_receipt receipt) (\<lambda>_.
       case cas_update (\<lambda>r. me_tenant_id r = tenant \<and> me_effect_id r = effect
                          \<and> me_status r = ''unknown'') (me_reconciled output receipt now) rows of
         Some rows' \<Rightarrow> rbind (me_get rows' tenant effect) (\<lambda>r. Inr (rows', r))
       | None \<Rightarrow>
           (case sql_find (\<lambda>r. me_tenant_id r = tenant \<and> me_effect_id r = effect) rows of
              Some r \<Rightarrow> if me_reconciliation_matches r (sha256_text output) receipt then Inr (rows, r)
                else Inl (ModelEffectStateError ''only an unknown model effect can be reconciled'')
            | None \<Rightarrow> Inl (ModelEffectStateError ''only an unknown model effect can be reconciled'')))))"

definition me_revoked :: "string \<Rightarrow> string \<Rightarrow> me_intent \<Rightarrow> me_intent" where
  "me_revoked reason now r = r\<lparr>me_status := ''revoked'', me_fence := me_fence r + 1,
     me_failure_reason := reason, me_revoked_at := Some now, me_updated_at := now\<rparr>"

definition me_revoke_unused ::
  "me_table \<Rightarrow> string \<Rightarrow> string \<Rightarrow> string \<Rightarrow> string \<Rightarrow> (me_table \<times> nat) res" where
  "me_revoke_unused rows tenant run reason now =
     rbind (me_validate_identity tenant run) (\<lambda>_.
     rbind (me_validate_reason reason) (\<lambda>_.
       let p = (\<lambda>r. me_tenant_id r = tenant \<and> me_run_id r = run \<and> me_status r = ''pending'')
       in Inr (sql_update p (me_revoked reason now) rows, sql_count p rows)))"

definition me_list_for_run :: "me_table \<Rightarrow> string \<Rightarrow> string \<Rightarrow> me_intent list res" where
  "me_list_for_run rows tenant run =
     rbind (me_validate_identity tenant run) (\<lambda>_.
       Inr (sort_key me_created_at (sort_key me_effect_id
         (filter (\<lambda>r. me_tenant_id r = tenant \<and> me_run_id r = run) rows))))"


section \<open>The store as an effect ledger\<close>

abbreviation me_idem :: "me_intent \<Rightarrow> string \<times> string" where
  "me_idem r \<equiv> (me_tenant_id r, me_idempotency_digest r)"

abbreviation me_binding :: "me_intent \<Rightarrow> string \<times> string" where
  "me_binding r \<equiv> (me_tenant_id r, me_binding_digest r)"

text \<open>Every operation other than \<open>reserve\<close> that changes the table, when it succeeds.\<close>

inductive me_step :: "me_table \<Rightarrow> me_table \<Rightarrow> bool" where
  completed: "me_complete rows t e f out rec now = Inr (rows', r) \<Longrightarrow> me_step rows rows'"
| unknown: "me_mark_unknown rows t e f reason now = Inr (rows', r) \<Longrightarrow> me_step rows rows'"
| failed: "me_mark_failed rows t e f reason now = Inr (rows', r) \<Longrightarrow> me_step rows rows'"
| reconciled: "me_reconcile_success rows t e out rec now = Inr (rows', r) \<Longrightarrow> me_step rows rows'"
| revoked: "me_revoke_unused rows t run reason now = Inr (rows', n) \<Longrightarrow> me_step rows rows'"

abbreviation me_kept :: "me_intent \<Rightarrow> me_intent \<Rightarrow> bool" where
  "me_kept r r' \<equiv> me_idem r' = me_idem r \<and> me_binding r' = me_binding r
     \<and> status_edge (me_status r) (me_status r')"

lemma me_apply_keys [simp]:
  "me_tenant_id (me_apply c now r) = me_tenant_id r" "me_effect_id (me_apply c now r) = me_effect_id r"
  "me_idempotency_digest (me_apply c now r) = me_idempotency_digest r"
  "me_binding_digest (me_apply c now r) = me_binding_digest r"
  "me_status (me_apply c now r) = mc_status c" "me_fence (me_apply c now r) = me_fence r"
  by (simp_all add: me_apply_def)

lemma me_transition_Inr:
  assumes "me_transition rows t e f c now = Inr (rows', r)"
  shows "me_check_change t e f c = Inr ()"
    and "rows' = sql_update (\<lambda>r. me_tenant_id r = t \<and> me_effect_id r = e \<and> me_status r = ''pending''
          \<and> me_fence r = f) (me_apply c now) rows"
    and "sql_count (\<lambda>r. me_tenant_id r = t \<and> me_effect_id r = e \<and> me_status r = ''pending''
          \<and> me_fence r = f) rows = 1"
    and "me_get rows' t e = Inr r"
  using assms
  by (auto simp: me_transition_def rbind_Inr_iff cas_update_def split: option.splits if_splits)

lemma me_transition_kept:
  assumes "me_transition rows t e f c now = Inr (rows', r)"
  shows "list_all2 me_kept rows rows'"
proof -
  have "mc_status c \<in> set ME_STATUSES"
    using me_transition_Inr(1) [OF assms] by (auto simp: me_check_change_def rbind_Inr_iff raise_first_Inr)
  then have "status_edge ''pending'' (mc_status c)" by (auto simp: ME_STATUSES_def status_edge_def)
  then show ?thesis unfolding me_transition_Inr(2) [OF assms]
    by (intro sql_update_list_all2) auto
qed

lemma me_complete_transition:
  "me_complete rows t e f out rec now = Inr x \<Longrightarrow>
   me_transition rows t e f \<lparr>mc_status = ''succeeded'', mc_output_text = Some out,
     mc_output_sha256 = Some (sha256_text out), mc_receipt = Some rec,
     mc_failure_reason = [], mc_completed = True\<rparr> now = Inr x"
  by (auto simp: me_complete_def rbind_Inr_iff)

lemma me_reconcile_Inr:
  assumes "me_reconcile_success rows t e out rec now = Inr (rows', r)"
  obtains (moved) "rows' = sql_update (\<lambda>r. me_tenant_id r = t \<and> me_effect_id r = e
        \<and> me_status r = ''unknown'') (me_reconciled out rec now) rows"
      "sql_count (\<lambda>r. me_tenant_id r = t \<and> me_effect_id r = e \<and> me_status r = ''unknown'') rows = 1"
      "me_get rows' t e = Inr r"
  | (same) "rows' = rows" "me_reconciliation_matches r (sha256_text out) rec"
      "sql_find (\<lambda>r. me_tenant_id r = t \<and> me_effect_id r = e) rows = Some r"
  using assms
  by (auto simp: me_reconcile_success_def rbind_Inr_iff cas_update_def split: option.splits if_splits)

lemma me_step_kept: "me_step rows rows' \<Longrightarrow> list_all2 me_kept rows rows'"
proof (induction rule: me_step.induct)
  case (completed rows t e f out rec now rows' r)
  then show ?case using me_complete_transition me_transition_kept by blast
next
  case (unknown rows t e f reason now rows' r)
  then show ?case unfolding me_mark_unknown_def by (rule me_transition_kept)
next
  case (failed rows t e f reason now rows' r)
  then show ?case unfolding me_mark_failed_def by (rule me_transition_kept)
next
  case (reconciled rows t e out rec now rows' r)
  then show ?case
    by (cases rule: me_reconcile_Inr)
      (auto intro!: sql_update_list_all2 list.rel_refl simp: me_reconciled_def status_edge_def)
next
  case (revoked rows t run reason now rows' n)
  then have "rows' = sql_update (\<lambda>r. me_tenant_id r = t \<and> me_run_id r = run \<and> me_status r = ''pending'')
      (me_revoked reason now) rows"
    by (auto simp: me_revoke_unused_def rbind_Inr_iff Let_def)
  then show ?case by (auto intro!: sql_update_list_all2 simp: me_revoked_def status_edge_def)
qed

lemma me_find_existing_None:
  "me_find_existing rows i = None \<Longrightarrow> me_idem i \<notin> me_idem ` set rows \<and> me_binding i \<notin> me_binding ` set rows"
  by (auto simp: me_find_existing_def sql_find_None split: option.splits)

lemma me_find_existing_Some:
  "me_find_existing rows i = Some r \<Longrightarrow> r \<in> set rows \<and> me_tenant_id r = me_tenant_id i
     \<and> (me_idempotency_digest r = me_idempotency_digest i \<or> me_binding_digest r = me_binding_digest i)"
  by (auto simp: me_find_existing_def dest!: sql_find_Some split: option.splits)

lemma me_validate_pending:
  "me_validate_intent i True = Inr u \<Longrightarrow> me_status i = ''pending''"
  by (auto simp: me_validate_intent_def rbind_Inr_iff raise_first_Inr)

interpretation me_ledger: effect_ledger me_reserve me_step me_idem me_binding me_status me_row
proof
  fix rows rows' i v
  assume r: "me_reserve rows i = Inr (rows', v)" "res_executable v"
  then show "rows' = rows @ [me_row i] \<and> res_intent v = i \<and> me_status i = ''pending''
      \<and> me_idem i \<notin> me_idem ` set rows \<and> me_binding i \<notin> me_binding ` set rows"
    using me_find_existing_None [of rows i]
    by (auto simp: me_reserve_def me_insert_def rbind_Inr_iff me_validate_pending
        split: option.splits if_splits)
next
  fix rows rows' i v
  assume r: "me_reserve rows i = Inr (rows', v)" "\<not> res_executable v"
  then show "rows' = rows \<and> res_intent v \<in> set rows \<and> me_binding (res_intent v) = me_binding i
      \<and> (res_replayed v \<longleftrightarrow> me_status (res_intent v) = ''succeeded'')"
    using me_find_existing_Some [of rows i]
    by (auto simp: me_reserve_def rbind_Inr_iff split: option.splits if_splits)
next
  fix rows rows' assume "me_step rows rows'"
  then show "list_all2 me_kept rows rows'" by (rule me_step_kept)
qed (simp_all add: me_row_def)

section \<open>The table's invariant\<close>

definition me_row_ok :: "me_intent \<Rightarrow> bool" where
  "me_row_ok r \<longleftrightarrow> me_status r \<in> set ME_STATUSES \<and> 1 \<le> me_fence r
     \<and> (me_status r = ''succeeded'' \<longrightarrow> me_output_text r \<noteq> [] \<and> utf8_len (me_output_text r) \<le> 1048576
          \<and> me_output_sha256 r = sha256_text (me_output_text r)
          \<and> me_completed_at r \<noteq> None \<and> me_failure_reason r = [])"

definition me_inv :: "me_table \<Rightarrow> bool" where
  "me_inv rows \<longleftrightarrow> distinct (map me_effect_id rows) \<and> (\<forall>r \<in> set rows. me_row_ok r)"

lemma me_inv_update:
  assumes "me_inv rows" and "\<And>r. p r \<Longrightarrow> me_effect_id (f r) = me_effect_id r"
    and "\<And>r. p r \<Longrightarrow> me_row_ok r \<Longrightarrow> me_row_ok (f r)"
  shows "me_inv (sql_update p f rows)"
  using assms by (auto simp: me_inv_def map_sql_update_key set_sql_update)

lemma me_output_valid: "me_validate_output out = Inr u \<longleftrightarrow> out \<noteq> [] \<and> utf8_len out \<le> 1048576"
  by (auto simp: me_validate_output_def)

lemma me_failure_inv:
  assumes "me_inv rows" and "me_transition rows t e f (me_failure s reason) now = Inr (rows', r)"
    and "s \<in> {''unknown'', ''failed''}"
  shows "me_inv rows'"
  unfolding me_transition_Inr(2) [OF assms(2)] using assms(1,3)
  by (intro me_inv_update) (auto simp: me_row_ok_def me_apply_def me_failure_def ME_STATUSES_def)

lemma me_step_inv: "me_step rows rows' \<Longrightarrow> me_inv rows \<Longrightarrow> me_inv rows'"
proof (induction rule: me_step.induct)
  case (completed rows t e f out rec now rows' r)
  have v: "out \<noteq> []" "utf8_len out \<le> 1048576"
    using completed(1) by (auto simp: me_complete_def rbind_Inr_iff me_output_valid)
  show ?case
    unfolding me_transition_Inr(2) [OF me_complete_transition [OF completed(1)]]
    using completed(2) v by (intro me_inv_update) (auto simp: me_row_ok_def me_apply_def ME_STATUSES_def)
next
  case (unknown rows t e f reason now rows' r)
  then show ?case unfolding me_mark_unknown_def by (blast intro: me_failure_inv)
next
  case (failed rows t e f reason now rows' r)
  then show ?case unfolding me_mark_failed_def by (blast intro: me_failure_inv)
next
  case (reconciled rows t e out rec now rows' r)
  have v: "out \<noteq> []" "utf8_len out \<le> 1048576"
    using reconciled(1) by (auto simp: me_reconcile_success_def rbind_Inr_iff me_output_valid)
  show ?case using reconciled(1)
  proof (cases rule: me_reconcile_Inr)
    case moved
    then show ?thesis unfolding moved(1) using reconciled(2) v
      by (intro me_inv_update) (auto simp: me_row_ok_def me_reconciled_def ME_STATUSES_def)
  qed (use reconciled(2) in simp)
next
  case (revoked rows t run reason now rows' n)
  then have "rows' = sql_update (\<lambda>r. me_tenant_id r = t \<and> me_run_id r = run \<and> me_status r = ''pending'')
      (me_revoked reason now) rows"
    by (auto simp: me_revoke_unused_def rbind_Inr_iff Let_def)
  then show ?case using revoked(2)
    by (auto intro!: me_inv_update simp: me_row_ok_def me_revoked_def ME_STATUSES_def)
qed

lemma me_reserve_inv:
  assumes "me_reserve rows i = Inr (rows', v)" and "me_inv rows"
  shows "me_inv rows'"
proof (cases "res_executable v")
  case True
  have i: "me_insert rows i = Inr rows'" "me_validate_intent i True = Inr ()"
    using assms(1) True by (auto simp: me_reserve_def rbind_Inr_iff split: option.splits if_splits)
  then have "me_status i = ''pending''" "1 \<le> me_fence i"
    by (auto simp: me_validate_intent_def rbind_Inr_iff)
  then have "me_row_ok (me_row i)" by (simp add: me_row_ok_def me_row_def ME_STATUSES_def)
  moreover have "rows' = rows @ [me_row i]" "me_effect_id i \<notin> me_effect_id ` set rows"
    using i(1) by (auto simp: me_insert_def)
  ultimately show ?thesis using assms(2) by (auto simp: me_inv_def me_row_def)
next
  case False
  then show ?thesis using me_ledger.refused_existing [OF assms(1)] assms(2) by simp
qed

lemma me_history_inv: "history me_reserve me_step rows log \<Longrightarrow> me_inv rows"
  by (induction rule: history.induct) (auto simp: me_inv_def [of "[]"] intro: me_reserve_inv me_step_inv)

text \<open>Under the invariant \<open>_transition\<close> succeeds exactly on the pending row of its fence.\<close>

lemma me_transition_ok:
  assumes "me_inv rows" and "me_check_change t e f c = Inr ()" and "r \<in> set rows"
    and "me_tenant_id r = t" "me_effect_id r = e" "me_status r = ''pending''" "me_fence r = f"
  shows "me_transition rows t e f c now =
    Inr (map (\<lambda>x. if x = r then me_apply c now r else x) rows, me_apply c now r)"
proof -
  let ?p = "\<lambda>r. me_tenant_id r = t \<and> me_effect_id r = e \<and> me_status r = ''pending'' \<and> me_fence r = f"
  have d: "distinct (map me_effect_id rows)" using assms(1) by (simp add: me_inv_def)
  have "cas_update ?p (me_apply c now) rows = Some (map (\<lambda>x. if x = r then me_apply c now r else x) rows)"
    by (rule cas_update_unique [OF d assms(3)]) (use assms in auto)
  moreover have "sql_find (\<lambda>r. me_tenant_id r = t \<and> me_effect_id r = e)
      (map (\<lambda>x. if x = r then me_apply c now r else x) rows) = Some (me_apply c now r)"
    by (rule sql_find_replaced [OF d assms(3)]) (use assms in auto)
  moreover have "me_validate_identity t e = Inr ()"
    using assms(2) by (auto simp: me_check_change_def rbind_Inr_iff)
  ultimately show ?thesis using assms(2) by (simp add: me_transition_def me_get_def)
qed

section \<open>Properties\<close>

text \<open>A concrete intent, for the witnesses.\<close>

definition sample_digest :: string where
  "sample_digest = replicate 64 CHR ''a''"

definition sample_intent :: me_intent where
  "sample_intent = \<lparr>me_effect_id = ''effect-1'', me_tenant_id = ''tenant-a'', me_run_id = ''run-1'',
     me_station = ''writer'', me_source_artifact_id = ''artifact-1'', me_source_artifact_hash = sample_digest,
     me_instruction_hash = sample_digest,
     me_provider_id = ''openai'', me_model = ''gpt'', me_endpoint_host = ''api.openai.com'',
     me_request_sha256 = sample_digest,
     me_max_output_tokens = 100, me_max_cost_micros = 5,
     me_idempotency_digest = sample_digest, me_binding_digest = sample_digest, me_status = ''pending'',
     me_fence = 1, me_output_text = [], me_output_sha256 = [], me_receipt = [], me_failure_reason = [],
     me_created_at = ''t0'', me_updated_at = ''t0'', me_completed_at = None, me_revoked_at = None\<rparr>"

lemma sample_intent_valid: "me_validate_intent sample_intent True = Inr ()"
  by code_simp

lemma sample_receipt_valid: "me_validate_receipt [] = Inr ()"
  by code_simp

lemma sample_row: "me_row sample_intent = sample_intent"
  by (simp add: me_row_def sample_intent_def canonical_receipt_def)

lemma sample_reserve:
  "me_reserve [] sample_intent = Inr ([sample_intent],
     \<lparr>res_intent = sample_intent, res_executable = True, res_replayed = False\<rparr>)"
  by (simp add: me_reserve_def sample_intent_valid me_find_existing_def sql_find_def me_insert_def sample_row)

lemma sample_history: "history me_reserve me_step [sample_intent] [sample_intent]"
  using history.granted [where reserve = me_reserve, OF history.start sample_reserve] by simp

lemma sample_identity: "me_validate_identity ''tenant-a'' ''effect-1'' = Inr ()"
  "me_validate_identity ''tenant-a'' ''run-1'' = Inr ()"
  by code_simp+

text \<open>C31: over every history of the model-effect store, the reservations granted for execution
  have pairwise distinct idempotency keys and bindings: no model call is authorised twice.\<close>

theorem me_executes_at_most_once:
  assumes "history me_reserve me_step rows log"
  shows "distinct (map me_binding log) \<and> distinct (map me_idem log)
    \<and> map me_binding log = map me_binding rows \<and> map me_idem log = map me_idem rows"
  using me_ledger.history_keys [OF assms] by simp

theorem me_executes_at_most_once_witness: "distinct (map me_binding [sample_intent])"
  using me_executes_at_most_once [OF sample_history] by blast

text \<open>Completion succeeds exactly when the intent is pending for the fence the caller holds
  (given valid arguments), and then changes that row only: it stores the output with its SHA-256.\<close>

theorem me_complete_exact:
  assumes "history me_reserve me_step rows log" and "me_validate_identity t e = Inr ()" and "1 \<le> f"
    and "out \<noteq> []" and "utf8_len out \<le> 1048576" and "me_validate_receipt rec = Inr ()"
  shows "me_complete rows t e f out rec now =
    (case find (\<lambda>r. me_tenant_id r = t \<and> me_effect_id r = e \<and> me_status r = ''pending'' \<and> me_fence r = f) rows of
       None \<Rightarrow> Inl (ModelEffectStateError ''model effect intent is not pending for this fence'')
     | Some r \<Rightarrow>
        let r' = r\<lparr>me_status := ''succeeded'', me_output_text := out, me_output_sha256 := sha256_text out,
                   me_receipt := canonical_receipt rec, me_failure_reason := [],
                   me_completed_at := Some now, me_updated_at := now\<rparr>
        in Inr (map (\<lambda>x. if x = r then r' else x) rows, r'))"
proof -
  let ?p = "\<lambda>r. me_tenant_id r = t \<and> me_effect_id r = e \<and> me_status r = ''pending'' \<and> me_fence r = f"
  let ?c = "\<lparr>mc_status = ''succeeded'', mc_output_text = Some out, mc_output_sha256 = Some (sha256_text out),
     mc_receipt = Some rec, mc_failure_reason = [], mc_completed = True\<rparr>"
  have inv: "me_inv rows" using assms(1) by (rule me_history_inv)
  have chk: "me_check_change t e f ?c = Inr ()"
    using assms(2-6) me_output_valid [of out "()"] by (simp add: me_check_change_def ME_STATUSES_def)
  have c: "me_complete rows t e f out rec now = me_transition rows t e f ?c now"
    using assms(4-6) me_output_valid [of out "()"] by (simp add: me_complete_def)
  show ?thesis
  proof (cases "find ?p rows")
    case None
    then have "cas_update ?p (me_apply ?c now) rows = None" by (auto simp: find_None_iff cas_update_refused)
    then show ?thesis using None chk by (simp add: c me_transition_def)
  next
    case (Some r)
    then have r: "r \<in> set rows" "?p r" by (auto simp: find_Some_iff)
    show ?thesis using me_transition_ok [OF inv chk r(1)] r(2) Some
      by (simp add: c Let_def me_apply_def)
  qed
qed

lemma sample_fields: "me_tenant_id sample_intent = ''tenant-a''" "me_effect_id sample_intent = ''effect-1''"
  "me_run_id sample_intent = ''run-1''" "me_status sample_intent = ''pending''" "me_fence sample_intent = 1"
  by (simp_all add: sample_intent_def)

theorem me_complete_exact_witness:
  "(\<exists>r. me_complete [sample_intent] ''tenant-a'' ''effect-1'' 1 ''ok'' [] ''t1'' = Inr ([r], r)
      \<and> me_status r = ''succeeded'' \<and> me_output_sha256 r = sha256_text ''ok'')
   \<and> me_complete [sample_intent] ''tenant-a'' ''effect-1'' 2 ''ok'' [] ''t1''
        = Inl (ModelEffectStateError ''model effect intent is not pending for this fence'')"
proof
  have l: "''ok'' \<noteq> []" "utf8_len ''ok'' \<le> 1048576" by (simp_all add: utf8_len_def utf8_def utf8_char_def)
  have f: "(1::int) \<le> 1" "(1::int) \<le> 2" by simp_all
  note c = me_complete_exact [OF sample_history sample_identity(1) _ l sample_receipt_valid]
  show "\<exists>r. me_complete [sample_intent] ''tenant-a'' ''effect-1'' 1 ''ok'' [] ''t1'' = Inr ([r], r)
      \<and> me_status r = ''succeeded'' \<and> me_output_sha256 r = sha256_text ''ok''"
    unfolding c [OF f(1)] by (simp add: sample_fields Let_def)
  show "me_complete [sample_intent] ''tenant-a'' ''effect-1'' 2 ''ok'' [] ''t1''
        = Inl (ModelEffectStateError ''model effect intent is not pending for this fence'')"
    unfolding c [OF f(2)] by (simp add: sample_fields)
qed

text \<open>Revoking the unused intents of a run fences out every executor: afterwards no
  completion or failure mark on an intent of that run succeeds, whatever fence it presents.\<close>

theorem me_revoke_fences:
  assumes "history me_reserve me_step rows log"
    and "me_revoke_unused rows t run reason now = Inr (rows', n)"
    and "r \<in> set rows" and "me_tenant_id r = t" and "me_run_id r = run"
  shows "me_complete rows' t (me_effect_id r) f out rec later \<noteq> Inr x
    \<and> me_mark_failed rows' t (me_effect_id r) f reason' later \<noteq> Inr x
    \<and> me_mark_unknown rows' t (me_effect_id r) f reason' later \<noteq> Inr x"
proof -
  let ?q = "\<lambda>x. me_tenant_id x = t \<and> me_effect_id x = me_effect_id r \<and> me_status x = ''pending'' \<and> me_fence x = f"
  have rows': "rows' = sql_update (\<lambda>r. me_tenant_id r = t \<and> me_run_id r = run \<and> me_status r = ''pending'')
      (me_revoked reason now) rows"
    using assms(2) by (auto simp: me_revoke_unused_def rbind_Inr_iff Let_def)
  have inv: "me_inv rows" using assms(1) by (rule me_history_inv)
  have "x = r" if "x \<in> set rows" "me_effect_id x = me_effect_id r" for x
    using that inv assms(3) by (auto simp: me_inv_def distinct_map dest: inj_onD)
  then have "\<forall>x \<in> set rows'. \<not> ?q x"
    using assms(4,5) unfolding rows' by (auto simp: set_sql_update me_revoked_def)
  then have "sql_count ?q rows' = 0" by (auto simp: sql_count_def filter_empty_conv)
  then have no: "me_transition rows' t (me_effect_id r) f c later \<noteq> Inr y" for c y
    using me_transition_Inr(3) [of rows' t "me_effect_id r" f c later "fst y" "snd y"] by auto
  have "me_complete rows' t (me_effect_id r) f out rec later \<noteq> Inr x"
    using no me_complete_transition by blast
  then show ?thesis using no by (simp add: me_mark_failed_def me_mark_unknown_def)
qed

lemma sample_revoke:
  "me_revoke_unused [sample_intent] ''tenant-a'' ''run-1'' ''stop'' ''t1''
     = Inr ([me_revoked ''stop'' ''t1'' sample_intent], 1)"
proof -
  have "me_validate_reason ''stop'' = Inr ()" by code_simp
  then show ?thesis
    by (simp add: me_revoke_unused_def sample_identity sql_update_def sql_count_def sample_intent_def)
qed

theorem me_revoke_fences_witness:
  "me_complete [me_revoked ''stop'' ''t1'' sample_intent] ''tenant-a'' (me_effect_id sample_intent)
     2 ''ok'' [] ''t2'' \<noteq> Inr ([], sample_intent)"
  using me_revoke_fences [OF sample_history sample_revoke, of sample_intent 2 "''ok''" "[]" "''t2''"]
  by (simp add: sample_fields)

text \<open>Every succeeded row a history can reach carries a non-empty output of at most 1 MiB
  whose SHA-256 is the stored digest, a completion time and no failure reason; effect ids are
  unique.\<close>

theorem me_succeeded_evidence:
  assumes "history me_reserve me_step rows log" and "r \<in> set rows" and "me_status r = ''succeeded''"
  shows "me_output_text r \<noteq> [] \<and> utf8_len (me_output_text r) \<le> 1048576
    \<and> me_output_sha256 r = sha256_text (me_output_text r)
    \<and> me_completed_at r \<noteq> None \<and> me_failure_reason r = []
    \<and> filter (\<lambda>x. me_effect_id x = me_effect_id r) rows = [r]"
proof -
  have inv: "me_inv rows" using assms(1) by (rule me_history_inv)
  have "filter (\<lambda>x. me_effect_id x = me_effect_id r) rows = [r]"
    using inv assms(2) by (intro filter_unique_key) (simp_all add: me_inv_def)
  then show ?thesis using inv assms(2,3) by (auto simp: me_inv_def me_row_ok_def)
qed


definition sample_change :: me_change where
  "sample_change = \<lparr>mc_status = ''succeeded'', mc_output_text = Some ''ok'',
     mc_output_sha256 = Some (sha256_text ''ok''), mc_receipt = Some [], mc_failure_reason = [],
     mc_completed = True\<rparr>"

lemma sample_completed:
  "me_complete [sample_intent] ''tenant-a'' ''effect-1'' 1 ''ok'' [] ''t1''
     = Inr ([me_apply sample_change ''t1'' sample_intent], me_apply sample_change ''t1'' sample_intent)"
proof -
  have v: "me_validate_output ''ok'' = Inr ()"
    by (simp add: me_validate_output_def utf8_len_def utf8_def utf8_char_def)
  then have "me_check_change ''tenant-a'' ''effect-1'' 1 sample_change = Inr ()"
    by (simp add: me_check_change_def sample_change_def sample_identity sample_receipt_valid ME_STATUSES_def)
  then show ?thesis
    using me_transition_ok [OF me_history_inv [OF sample_history], of "''tenant-a''" "''effect-1''" 1 sample_change sample_intent "''t1''"]
    by (simp add: me_complete_def v sample_receipt_valid sample_fields sample_change_def)
qed

theorem me_succeeded_evidence_witness:
  "me_output_sha256 (me_apply sample_change ''t1'' sample_intent)
     = sha256_text (me_output_text (me_apply sample_change ''t1'' sample_intent))"
  using me_succeeded_evidence [OF history.stepped [where reserve = me_reserve, OF sample_history me_step.completed [OF sample_completed]]]
  by (simp add: sample_change_def)

end
