(* ===== verification/Url.thy ===== *)
theory Url
  imports Prelude
begin

text \<open>
  What the source uses of \<open>urllib.parse\<close> and of \<open>str.lower\<close>/\<open>str.upper\<close>, on strings of code points
  U+0000 to U+00FF: \<open>urlsplit\<close> with its \<open>hostname\<close>, \<open>username\<close> and \<open>password\<close> attributes, and
  \<open>quote\<close>. The checks of \<open>urlsplit\<close> that depend on the Python release (the address inside brackets,
  the NFKC form of a non-ASCII host) are left out: no caller relies on them.
\<close>

section \<open>Case\<close>

text \<open>\<open>str.lower\<close>: ASCII and Latin-1 capitals move by 32.\<close>

definition lower_char :: "char \<Rightarrow> char" where
  "lower_char c = (let n = code_point c in
     if is_upper c \<or> 192 \<le> n \<and> n \<le> 222 \<and> n \<noteq> 215 then char_of (n + 32) else c)"

definition str_lower :: "string \<Rightarrow> string" where
  "str_lower s = map lower_char s"

text \<open>\<open>str.upper\<close>: the sharp s becomes two letters; the two characters whose capitals lie beyond
  U+00FF are left, which no comparison with an ASCII constant can tell.\<close>

definition upper_char :: "char \<Rightarrow> string" where
  "upper_char c = (let n = code_point c in
     if n = 223 then ''SS''
     else if is_lower c \<or> 224 \<le> n \<and> n \<le> 254 \<and> n \<noteq> 247 then [char_of (n - 32)] else [c])"

definition str_upper :: "string \<Rightarrow> string" where
  "str_upper s = concat (map upper_char s)"

section \<open>Partitions\<close>

definition before :: "char \<Rightarrow> string \<Rightarrow> string" where
  "before c s = takeWhile (\<lambda>x. x \<noteq> c) s"

definition after :: "char \<Rightarrow> string \<Rightarrow> string" where
  "after c s = drop 1 (dropWhile (\<lambda>x. x \<noteq> c) s)"

definition starts_with :: "string \<Rightarrow> string \<Rightarrow> bool" where
  "starts_with p s = (take (length p) s = p)"

definition ends_with :: "string \<Rightarrow> string \<Rightarrow> bool" where
  "ends_with p s = (length p \<le> length s \<and> drop (length s - length p) s = p)"

lemma before_after: "c \<in> set s \<Longrightarrow> s = before c s @ c # after c s"
proof -
  assume "c \<in> set s"
  then have ne: "dropWhile (\<lambda>x. x \<noteq> c) s \<noteq> []" by (auto simp: dropWhile_eq_Nil_conv)
  then have "dropWhile (\<lambda>x. x \<noteq> c) s = c # after c s"
    using hd_dropWhile [OF ne] by (cases "dropWhile (\<lambda>x. x \<noteq> c) s") (auto simp: after_def)
  then show ?thesis by (metis before_def takeWhile_dropWhile_id)
qed

section \<open>\<open>urlsplit\<close>\<close>

record url =
  url_scheme :: string
  url_netloc :: string
  url_path :: string
  url_query :: string
  url_fragment :: string

definition is_scheme_char :: "char \<Rightarrow> bool" where
  "is_scheme_char c = (is_alnum c \<or> c \<in> {CHR ''+'', CHR ''-'', CHR ''.''})"

definition split_scheme :: "string \<Rightarrow> string \<times> string" where
  "split_scheme s =
     (let p = before CHR '':'' s in
      if CHR '':'' \<in> set s \<and> p \<noteq> [] \<and> (is_lower (hd p) \<or> is_upper (hd p)) \<and> list_all is_scheme_char p
      then (str_lower p, after CHR '':'' s) else ([], s))"

definition split_at :: "char \<Rightarrow> string \<Rightarrow> string \<times> string" where
  "split_at c s = (if c \<in> set s then (before c s, after c s) else (s, []))"

definition urlsplit :: "string \<Rightarrow> url res" where
  "urlsplit raw =
     (let s = filter (\<lambda>c. code_point c \<notin> {9, 10, 13}) (dropWhile (\<lambda>c. code_point c \<le> 32) raw);
          (scheme, rest) = split_scheme s;
          netloc = (if starts_with ''//'' rest
                    then takeWhile (\<lambda>c. c \<notin> {CHR ''/'', CHR ''?'', CHR ''#''}) (drop 2 rest) else []);
          tail = (if starts_with ''//'' rest then drop (2 + length netloc) rest else rest);
          (url, fragment) = split_at CHR ''#'' tail;
          (path, query) = split_at CHR ''?'' url
      in if (CHR ''['' \<in> set netloc) \<noteq> (CHR '']'' \<in> set netloc) then Inl (ValueError ''Invalid IPv6 URL'')
         else Inr \<lparr>url_scheme = scheme, url_netloc = netloc, url_path = path, url_query = query,
                   url_fragment = fragment\<rparr>)"

definition url_hostinfo :: "url \<Rightarrow> string" where
  "url_hostinfo u = rev (before CHR ''@'' (rev (url_netloc u)))"

text \<open>None as the empty string: the callers only test for emptiness.\<close>

definition url_hostname :: "url \<Rightarrow> string" where
  "url_hostname u =
     (let h = url_hostinfo u;
          name = (if CHR ''['' \<in> set h then before CHR '']'' (after CHR ''['' h) else before CHR '':'' h)
      in str_lower (before CHR ''%'' name) @ dropWhile (\<lambda>c. c \<noteq> CHR ''%'') name)"

definition url_has_userinfo :: "url \<Rightarrow> bool" where
  "url_has_userinfo u = (CHR ''@'' \<in> set (url_netloc u))"

section \<open>\<open>quote\<close>\<close>

definition is_unreserved :: "char \<Rightarrow> bool" where
  "is_unreserved c = (is_alnum c \<or> c \<in> {CHR ''_'', CHR ''.'', CHR ''-'', CHR ''~''})"

definition upper_hex :: "nat \<Rightarrow> char" where
  "upper_hex d = (if d < 10 then char_of (48 + d) else char_of (55 + d))"

definition quote_byte :: "char \<Rightarrow> string" where
  "quote_byte c = (if is_unreserved c then [c]
     else [CHR ''%'', upper_hex (code_point c div 16), upper_hex (code_point c mod 16)])"

definition quote :: "string \<Rightarrow> string" where
  "quote s = concat (map quote_byte (utf8 s))"

lemma quote_byte_prefix:
  assumes "quote_byte c @ r = quote_byte d @ s"
  shows "c = d \<and> r = s"
proof -
  have pct: "\<not> is_unreserved CHR ''%''" by code_simp
  have inj: "upper_hex a = upper_hex b \<Longrightarrow> a < 16 \<Longrightarrow> b < 16 \<Longrightarrow> a = b" for a b
  proof -
    assume h: "upper_hex a = upper_hex b" "a < 16" "b < 16"
    have "code_point (upper_hex n) = (if n < 10 then 48 + n else 55 + n)" if "n < 16" for n
      using that by (auto simp: upper_hex_def of_char_of)
    then have "(if a < 10 then 48 + a else 55 + a) = (if b < 10 then 48 + b else 55 + b)"
      using h by metis
    then show "a = b" by (cases "a < 10"; cases "b < 10") simp_all
  qed
  have lt: "code_point c < 256" "code_point d < 256" by (rule of_char_less_256)+
  show ?thesis
  proof (cases "is_unreserved c"; cases "is_unreserved d")
    assume "\<not> is_unreserved c" "\<not> is_unreserved d"
    with assms have "upper_hex (code_point c div 16) = upper_hex (code_point d div 16)"
      "upper_hex (code_point c mod 16) = upper_hex (code_point d mod 16)" "r = s"
      by (auto simp: quote_byte_def)
    moreover have "code_point c div 16 < 16" "code_point d div 16 < 16"
      using lt by (simp_all add: less_mult_imp_div_less)
    ultimately have "code_point c div 16 = code_point d div 16" "code_point c mod 16 = code_point d mod 16"
      "r = s" by (auto intro: inj)
    then have "code_point c = code_point d" by (metis div_mult_mod_eq)
    then show ?thesis using \<open>r = s\<close> by simp
  qed (use assms pct in \<open>auto simp: quote_byte_def\<close>)
qed

text \<open>\<open>quote\<close> loses nothing: two different strings have different encodings.\<close>

lemma quote_inj [simp]: "quote s = quote t \<longleftrightarrow> s = t"
proof -
  have "concat (map quote_byte xs) = concat (map quote_byte ys) \<Longrightarrow> xs = ys" for xs ys
  proof (induction xs arbitrary: ys)
    case Nil
    then show ?case by (cases ys) (auto simp: quote_byte_def split: if_splits)
  next
    case (Cons x xs)
    then obtain y zs where ys: "ys = y # zs" by (cases ys) (auto simp: quote_byte_def split: if_splits)
    with Cons.prems have "x = y \<and> concat (map quote_byte xs) = concat (map quote_byte zs)"
      using quote_byte_prefix [of x _ y] by simp
    with Cons.IH ys show ?case by simp
  qed
  then have "quote s = quote t \<Longrightarrow> utf8 s = utf8 t" unfolding quote_def .
  then show ?thesis unfolding utf8_inj by blast
qed

end
