(* ===== verification/ModelGateway.thy ===== *)
theory ModelGateway
  imports Models Url
begin

text \<open>
  \<open>backend/agency_runtime/model_gateway.py\<close>: request validation, the request digest, the provider
  protocols' bodies, the bounded response reader and the response parsers. What the network and
  \<open>json.loads\<close> yield for one POST is the argument \<open>http\<close>: the status, the sizes of the chunks, the
  parsed body (None when it does not parse) and the headers under lower-case names.
\<close>

section \<open>Requests, policies and results\<close>

record model_request =
  mr_request_id :: string
  mr_user :: string
  mr_system :: string

record model_descriptor =
  md_provider_id :: string
  md_model :: string
  md_endpoint_host :: string
  md_request_sha256 :: string
  md_max_output_tokens :: int

record model_receipt =
  rc_provider_id :: string
  rc_model :: string
  rc_provider_request_id :: string
  rc_input_tokens :: int
  rc_output_tokens :: int
  rc_total_tokens :: int
  rc_request_sha256 :: string
  rc_output_sha256 :: string

definition receipt_public :: "model_receipt \<Rightarrow> (string \<times> json) list" where
  "receipt_public r =
     [(''provider_id'', JStr (rc_provider_id r)), (''model'', JStr (rc_model r)),
      (''provider_request_id'', JStr (rc_provider_request_id r)),
      (''input_tokens'', JInt (rc_input_tokens r)), (''output_tokens'', JInt (rc_output_tokens r)),
      (''total_tokens'', JInt (rc_total_tokens r)), (''request_sha256'', JStr (rc_request_sha256 r)),
      (''output_sha256'', JStr (rc_output_sha256 r))]"

record model_result =
  ms_text :: string
  ms_receipt :: model_receipt

record provider_config =
  pc_provider_id :: string
  pc_protocol :: string
  pc_model :: string
  pc_base_url :: string
  pc_endpoint_host :: string
  pc_credential :: string

record gateway_policy =
  gp_enabled :: bool
  gp_selected_provider :: string
  gp_allowed_hosts :: "string list"
  gp_max_input_chars :: int
  gp_max_output_tokens :: int
  gp_max_response_bytes :: int

text \<open>A gateway is its policy and its provider; the client exists exactly when the provider does.\<close>

record gateway =
  gw_policy :: gateway_policy
  gw_provider :: "provider_config option"

text \<open>\<open>ModelGateway.__init__\<close>; the registry maps an id to its contract's \<open>configured\<close> and its
  execution configuration.\<close>

definition make_gateway ::
  "(string \<Rightarrow> (bool \<times> provider_config) option) \<Rightarrow> gateway_policy \<Rightarrow> gateway res" where
  "make_gateway registry p =
     (if \<not> gp_enabled p then Inr \<lparr>gw_policy = p, gw_provider = None\<rparr>
      else case registry (gp_selected_provider p) of
        None \<Rightarrow> Inl (ModelGatewayConfigurationError ''selected model provider is not supported'')
      | Some (configured, provider) \<Rightarrow>
          rbind (raise_first
            [(\<not> configured, ModelGatewayConfigurationError ''selected model provider is not fully configured''),
             (pc_endpoint_host provider \<notin> set (gp_allowed_hosts p),
                ModelGatewayConfigurationError ''selected model provider host is not allowlisted'')]) (\<lambda>_.
            Inr \<lparr>gw_policy = p, gw_provider = Some provider\<rparr>))"

section \<open>Description\<close>

definition is_request_id :: "string \<Rightarrow> bool" where
  "is_request_id = fullmatch_class is_alnum
     (\<lambda>c. is_alnum c \<or> c \<in> {CHR ''.'', CHR ''_'', CHR '':'', CHR ''-''}) 7 127"

definition validated_request :: "gateway_policy \<Rightarrow> model_request \<Rightarrow> model_request res" where
  "validated_request p r =
     (let request_id = strip (mr_request_id r); system = strip (mr_system r); user = strip (mr_user r) in
      rbind (raise_first
        [(\<not> is_request_id request_id, ModelGatewayConfigurationError ''model request id is invalid''),
         (user = [], ModelGatewayConfigurationError ''model user input must not be empty''),
         (gp_max_input_chars p < int (length system) + int (length user),
            ModelGatewayConfigurationError ''model input exceeded the configured character limit'')]) (\<lambda>_.
        Inr \<lparr>mr_request_id = request_id, mr_user = user, mr_system = system\<rparr>))"

definition request_document :: "gateway_policy \<Rightarrow> provider_config \<Rightarrow> model_request \<Rightarrow> json" where
  "request_document p c r = JObj
     [(''provider_id'', JStr (pc_provider_id c)), (''model'', JStr (pc_model c)),
      (''request_id'', JStr (mr_request_id r)), (''system'', JStr (mr_system r)),
      (''user'', JStr (mr_user r)), (''max_output_tokens'', JInt (gp_max_output_tokens p))]"

definition make_descriptor :: "gateway_policy \<Rightarrow> provider_config \<Rightarrow> model_request \<Rightarrow> model_descriptor" where
  "make_descriptor p c r =
     \<lparr>md_provider_id = pc_provider_id c, md_model = pc_model c, md_endpoint_host = pc_endpoint_host c,
      md_request_sha256 = sha256_text (canonical_json (request_document p c r)),
      md_max_output_tokens = gp_max_output_tokens p\<rparr>"

definition open_gateway :: "gateway \<Rightarrow> provider_config res" where
  "open_gateway g = (case gw_provider g of
     Some c \<Rightarrow> if gp_enabled (gw_policy g) then Inr c
       else Inl (ModelGatewayDisabledError ''model gateway execution is disabled'')
   | None \<Rightarrow> Inl (ModelGatewayDisabledError ''model gateway execution is disabled''))"

definition gw_describe :: "gateway \<Rightarrow> model_request \<Rightarrow> model_descriptor res" where
  "gw_describe g r =
     rbind (open_gateway g) (\<lambda>c.
     rbind (validated_request (gw_policy g) r) (\<lambda>n. Inr (make_descriptor (gw_policy g) c n)))"

section \<open>The provider request\<close>

record http_request =
  hq_url :: string
  hq_headers :: "(string \<times> string) list"
  hq_body :: "(string \<times> json) list"

definition strip_slash_right :: "string \<Rightarrow> string" where
  "strip_slash_right s = rev (dropWhile (\<lambda>c. c = CHR ''/'') (rev s))"

definition join_url :: "string \<Rightarrow> string \<Rightarrow> string res" where
  "join_url base suffix =
     rbind (urlsplit base) (\<lambda>u.
       if url_scheme u \<noteq> ''https'' \<or> url_hostname u = []
       then Inl (ModelGatewayConfigurationError ''model provider base URL is invalid'')
       else Inr (strip_slash_right base @ ''/'' @ dropWhile (\<lambda>c. c = CHR ''/'') suffix))"

definition message :: "string \<Rightarrow> string \<Rightarrow> json" where
  "message role content = JObj [(''role'', JStr role), (''content'', JStr content)]"

definition provider_request :: "gateway_policy \<Rightarrow> provider_config \<Rightarrow> model_request \<Rightarrow> http_request res" where
  "provider_request p c r =
     (let bearer = [(''Content-Type'', ''application/json''), (''Authorization'', ''Bearer '' @ pc_credential c)];
          system = (\<lambda>name. if mr_system r \<noteq> [] then [(name, JStr (mr_system r))] else [])
      in if pc_protocol c = ''openai_responses'' then
           rbind (join_url (pc_base_url c) ''responses'') (\<lambda>url. Inr \<lparr>hq_url = url, hq_headers = bearer,
             hq_body = [(''model'', JStr (pc_model c)), (''input'', JStr (mr_user r)),
               (''max_output_tokens'', JInt (gp_max_output_tokens p))] @ system ''instructions''\<rparr>)
         else if pc_protocol c = ''anthropic_messages'' then
           rbind (join_url (pc_base_url c) ''v1/messages'') (\<lambda>url. Inr \<lparr>hq_url = url,
             hq_headers = [(''Content-Type'', ''application/json''), (''x-api-key'', pc_credential c),
               (''anthropic-version'', ''2023-06-01'')],
             hq_body = [(''model'', JStr (pc_model c)), (''messages'', JList [message ''user'' (mr_user r)]),
               (''max_tokens'', JInt (gp_max_output_tokens p))] @ system ''system''\<rparr>)
         else if pc_protocol c = ''openai_compatible'' then
           rbind (join_url (pc_base_url c) ''chat/completions'') (\<lambda>url. Inr \<lparr>hq_url = url, hq_headers = bearer,
             hq_body = [(''model'', JStr (pc_model c)),
               (''messages'', JList ((if mr_system r \<noteq> [] then [message ''system'' (mr_system r)] else [])
                  @ [message ''user'' (mr_user r)])),
               (''max_tokens'', JInt (gp_max_output_tokens p)), (''stream'', JBool False)]\<rparr>)
         else Inl (ModelGatewayConfigurationError ''unsupported model provider protocol''))"

section \<open>The response\<close>

datatype http_outcome =
    HttpTimeout
  | HttpRequestError
  | HttpResponse int "nat list" "json option" "(string \<times> string) list"

fun within_limit :: "int \<Rightarrow> int \<Rightarrow> nat list \<Rightarrow> bool" where
  "within_limit limit sz [] = True"
| "within_limit limit sz (n # ns) = (sz + int n \<le> limit \<and> within_limit limit (sz + int n) ns)"

definition provider_error :: "string \<Rightarrow> 'a res" where
  "provider_error m = Inl (ModelGatewayProviderError m)"

definition post_json ::
  "gateway_policy \<Rightarrow> http_outcome \<Rightarrow> ((string \<times> json) list \<times> (string \<times> string) list) res" where
  "post_json p http = (case http of
     HttpTimeout \<Rightarrow> provider_error ''model provider request timed out''
   | HttpRequestError \<Rightarrow> provider_error ''model provider request failed''
   | HttpResponse status sizes body headers \<Rightarrow>
       if status < 200 \<or> 300 \<le> status
       then provider_error (''model provider request failed (status='' @ show_int status @ '')'')
       else if \<not> within_limit (gp_max_response_bytes p) 0 sizes
       then provider_error ''model provider response exceeded the configured size limit''
       else (case body of
           Some (JObj payload) \<Rightarrow> Inr (payload, headers)
         | _ \<Rightarrow> provider_error ''model provider returned an invalid response''))"

text \<open>The parsers; None is the \<open>ValueError\<close> (or \<open>TypeError\<close>, \<open>KeyError\<close>) \<open>_parse_response\<close> catches.\<close>

definition token_count :: "json option \<Rightarrow> int option" where
  "token_count v = (case v of
     Some (JInt n) \<Rightarrow> if n < 0 \<or> 100000000 < n then None else Some n | _ \<Rightarrow> None)"

definition usage_of :: "json option \<Rightarrow> string \<Rightarrow> string \<Rightarrow> string option \<Rightarrow> (int \<times> int \<times> int) option" where
  "usage_of raw input_name output_name total_name = (case raw of
     Some (JObj u) \<Rightarrow>
       Option.bind (token_count (jget input_name u)) (\<lambda>i.
       Option.bind (token_count (jget output_name u)) (\<lambda>j.
         case total_name of
           None \<Rightarrow> Some (i, j, i + j)
         | Some t \<Rightarrow> Option.bind (token_count (jget t u)) (\<lambda>n.
             if n < i + j then None else Some (i, j, n))))
   | _ \<Rightarrow> None)"

definition typed_text :: "string \<Rightarrow> json \<Rightarrow> string list" where
  "typed_text kind entry = (case entry of
     JObj e \<Rightarrow> (if jget ''type'' e = Some (JStr kind)
       then (case jget ''text'' e of Some (JStr t) \<Rightarrow> [t] | _ \<Rightarrow> []) else [])
   | _ \<Rightarrow> [])"

definition output_item_texts :: "json \<Rightarrow> string list" where
  "output_item_texts item = (case item of
     JObj i \<Rightarrow> (case jget ''content'' i of
       Some (JList entries) \<Rightarrow> concat (map (typed_text ''output_text'') entries) | _ \<Rightarrow> [])
   | _ \<Rightarrow> [])"

definition openai_response_text :: "(string \<times> json) list \<Rightarrow> string option" where
  "openai_response_text payload =
     (let collected = (case jget ''output'' payload of
            Some (JList items) \<Rightarrow>
              let text = strip (concat (concat (map output_item_texts items)))
              in if text = [] then None else Some text
          | _ \<Rightarrow> None)
      in case jget ''output_text'' payload of
        Some (JStr direct) \<Rightarrow> if strip direct \<noteq> [] then Some (strip direct) else collected
      | _ \<Rightarrow> collected)"

definition chat_text :: "(string \<times> json) list \<Rightarrow> string option" where
  "chat_text payload = (case jget ''choices'' payload of
     Some (JList (JObj first # _)) \<Rightarrow> (case jget ''message'' first of
       Some (JObj m) \<Rightarrow> (case jget ''content'' m of Some (JStr t) \<Rightarrow> Some (strip t) | _ \<Rightarrow> None)
     | _ \<Rightarrow> None)
   | _ \<Rightarrow> None)"

definition parsed_response :: "string \<Rightarrow> (string \<times> json) list \<Rightarrow> (string \<times> int \<times> int \<times> int) option" where
  "parsed_response protocol payload =
     (if protocol = ''openai_responses'' then
        Option.bind (openai_response_text payload) (\<lambda>t.
          map_option (Pair t) (usage_of (jget ''usage'' payload) ''input_tokens'' ''output_tokens'' (Some ''total_tokens'')))
      else if protocol = ''anthropic_messages'' then
        (case jget ''content'' payload of
           Some (JList entries) \<Rightarrow>
             map_option (Pair (strip (concat (concat (map (typed_text ''text'') entries)))))
               (usage_of (jget ''usage'' payload) ''input_tokens'' ''output_tokens'' None)
         | _ \<Rightarrow> None)
      else if protocol = ''openai_compatible'' then
        Option.bind (chat_text payload) (\<lambda>t.
          map_option (Pair t) (usage_of (jget ''usage'' payload) ''prompt_tokens'' ''completion_tokens'' (Some ''total_tokens'')))
      else None)"

definition parse_response :: "string \<Rightarrow> (string \<times> json) list \<Rightarrow> (string \<times> int \<times> int \<times> int) res" where
  "parse_response protocol payload = (case parsed_response protocol payload of
     Some (text, usage) \<Rightarrow> if text = [] then provider_error ''model provider returned an invalid response''
       else Inr (text, usage)
   | None \<Rightarrow> provider_error ''model provider returned an invalid response'')"

text \<open>Truth of a Python value.\<close>

fun truthy :: "json \<Rightarrow> bool" where
  "truthy JNull = False"
| "truthy (JBool b) = b"
| "truthy (JInt i) = (i \<noteq> 0)"
| "truthy (JFloat t) = (t \<noteq> ''0.0'' \<and> t \<noteq> ''-0.0'')"
| "truthy (JStr s) = (s \<noteq> [])"
| "truthy (JList xs) = (xs \<noteq> [])"
| "truthy (JObj kvs) = (kvs \<noteq> [])"

definition provider_request_id :: "(string \<times> string) list \<Rightarrow> (string \<times> json) list \<Rightarrow> string" where
  "provider_request_id headers payload =
     (let header = (\<lambda>k. case map_of headers k of Some v \<Rightarrow> v | None \<Rightarrow> []);
          raw = (if header ''x-request-id'' \<noteq> [] then header ''x-request-id''
                 else if header ''request-id'' \<noteq> [] then header ''request-id''
                 else case jget ''id'' payload of
                   Some v \<Rightarrow> if truthy v then py_str v else [] | None \<Rightarrow> []);
          v = strip raw
      in if is_request_id v then v else ''provider-'' @ take 24 (sha256_text v))"

definition gw_complete :: "gateway \<Rightarrow> model_request \<Rightarrow> http_outcome \<Rightarrow> model_result res" where
  "gw_complete g r http =
     rbind (open_gateway g) (\<lambda>c.
     rbind (validated_request (gw_policy g) r) (\<lambda>n.
       let d = make_descriptor (gw_policy g) c n in
     rbind (provider_request (gw_policy g) c n) (\<lambda>_.
     rbind (post_json (gw_policy g) http) (\<lambda>(payload, headers).
     rbind (parse_response (pc_protocol c) payload) (\<lambda>(text, i, j, k).
       Inr \<lparr>ms_text = text, ms_receipt =
         \<lparr>rc_provider_id = pc_provider_id c, rc_model = pc_model c,
          rc_provider_request_id = provider_request_id headers payload,
          rc_input_tokens = i, rc_output_tokens = j, rc_total_tokens = k,
          rc_request_sha256 = md_request_sha256 d, rc_output_sha256 = sha256_text text\<rparr>\<rparr>)))))"

section \<open>Facts\<close>

lemma within_limit_sum: "within_limit limit sz ns \<Longrightarrow> sz \<le> limit
    \<Longrightarrow> sz + int (sum_list ns) \<le> limit"
proof (induction ns arbitrary: sz)
  case (Cons n ns)
  then have "(sz + int n) + int (sum_list ns) \<le> limit" by simp
  then show ?case by simp
qed simp

lemma token_count_Some: "token_count v = Some n \<Longrightarrow> 0 \<le> n \<and> n \<le> 100000000"
  by (auto simp: token_count_def split: option.splits json.splits if_splits)

lemma usage_bounds:
  "usage_of raw a b t = Some (i, j, k) \<Longrightarrow> 0 \<le> i \<and> i \<le> 100000000 \<and> 0 \<le> j \<and> j \<le> 100000000 \<and> i + j \<le> k"
proof -
  assume u: "usage_of raw a b t = Some (i, j, k)"
  then obtain d where d: "raw = Some (JObj d)" by (auto simp: usage_of_def split: option.splits json.splits)
  with u have "token_count (jget a d) = Some i" "token_count (jget b d) = Some j" "i + j \<le> k"
    by (auto simp: usage_of_def bind_eq_Some_conv split: option.splits if_splits)
  then show ?thesis using token_count_Some by blast
qed

lemma openai_text_strip: "openai_response_text payload = Some t \<Longrightarrow> strip t = t"
  by (auto simp: openai_response_text_def Let_def split: option.splits json.splits if_splits)

lemma chat_text_strip: "chat_text payload = Some t \<Longrightarrow> strip t = t"
  by (auto simp: chat_text_def split: option.splits json.splits list.splits)

lemma parsed_response_Some:
  assumes "parsed_response protocol payload = Some (t, i, j, k)"
  shows "strip t = t \<and> 0 \<le> i \<and> 0 \<le> j \<and> i + j \<le> k"
proof (cases "protocol = ''openai_responses''")
  case True
  with assms show ?thesis
    by (auto simp: parsed_response_def bind_eq_Some_conv dest: usage_bounds openai_text_strip)
next
  case not_responses: False
  show ?thesis
  proof (cases "protocol = ''anthropic_messages''")
    case True
    then obtain entries u where "usage_of u ''input_tokens'' ''output_tokens'' None = Some (i, j, k)"
      "t = strip entries"
      using assms by (auto simp: parsed_response_def split: option.splits json.splits)
    then show ?thesis using usage_bounds by simp
  next
    case False
    with not_responses assms show ?thesis
      by (auto simp: parsed_response_def bind_eq_Some_conv dest: usage_bounds chat_text_strip split: if_splits)
  qed
qed

lemma parse_response_Inr:
  assumes "parse_response protocol payload = Inr (t, i, j, k)"
  shows "t \<noteq> []" and "strip t = t" and "0 \<le> i" and "0 \<le> j" and "i + j \<le> k"
proof -
  have p: "parsed_response protocol payload = Some (t, i, j, k) \<and> t \<noteq> []"
    using assms by (auto simp: parse_response_def provider_error_def split: option.splits if_splits)
  then show "t \<noteq> []" by simp
  show "strip t = t" "0 \<le> i" "0 \<le> j" "i + j \<le> k" using parsed_response_Some p by blast+
qed

lemma gw_complete_cases:
  assumes "gw_complete g r http = Inr m"
  obtains c n payload headers t i j k
  where "open_gateway g = Inr c" "validated_request (gw_policy g) r = Inr n"
    "post_json (gw_policy g) http = Inr (payload, headers)"
    "parse_response (pc_protocol c) payload = Inr (t, i, j, k)"
    "m = \<lparr>ms_text = t, ms_receipt =
         \<lparr>rc_provider_id = pc_provider_id c, rc_model = pc_model c,
          rc_provider_request_id = provider_request_id headers payload,
          rc_input_tokens = i, rc_output_tokens = j, rc_total_tokens = k,
          rc_request_sha256 = md_request_sha256 (make_descriptor (gw_policy g) c n),
          rc_output_sha256 = sha256_text t\<rparr>\<rparr>"
  using assms unfolding gw_complete_def rbind_Inr_iff Let_def by (auto simp: rbind_Inr_iff)

lemma gw_complete_receipt:
  assumes "gw_complete g r http = Inr m"
  shows "\<exists>d. gw_describe g r = Inr d \<and> rc_provider_id (ms_receipt m) = md_provider_id d
    \<and> rc_model (ms_receipt m) = md_model d \<and> rc_request_sha256 (ms_receipt m) = md_request_sha256 d
    \<and> rc_output_sha256 (ms_receipt m) = sha256_text (ms_text m) \<and> ms_text m \<noteq> []"
  using assms
proof (cases rule: gw_complete_cases)
  case (1 c n payload headers t i j k)
  then show ?thesis using parse_response_Inr(1) [OF 1(4)]
    by (simp add: gw_describe_def make_descriptor_def)
qed

section \<open>Properties\<close>

text \<open>A completed model call is bounded and bound to its request: the response body is within
  the policy's byte limit, the text is non-empty and stripped, the token counts are consistent, and
  the receipt carries the digest \<open>describe\<close> computed for the same request.\<close>

theorem gateway_result_bounded:
  assumes "gw_complete g r (HttpResponse status sizes body headers) = Inr m"
    and "0 \<le> gp_max_response_bytes (gw_policy g)"
  shows "200 \<le> status \<and> status < 300 \<and> int (sum_list sizes) \<le> gp_max_response_bytes (gw_policy g)
    \<and> ms_text m \<noteq> [] \<and> strip (ms_text m) = ms_text m
    \<and> 0 \<le> rc_input_tokens (ms_receipt m) \<and> 0 \<le> rc_output_tokens (ms_receipt m)
    \<and> rc_input_tokens (ms_receipt m) + rc_output_tokens (ms_receipt m) \<le> rc_total_tokens (ms_receipt m)
    \<and> rc_output_sha256 (ms_receipt m) = sha256_text (ms_text m)
    \<and> map_option md_request_sha256 (case gw_describe g r of Inr d \<Rightarrow> Some d | Inl e \<Rightarrow> None)
        = Some (rc_request_sha256 (ms_receipt m))"
  using assms(1)
proof (cases rule: gw_complete_cases)
  case (1 c n payload hs t i j k)
  have "200 \<le> status" "status < 300" "within_limit (gp_max_response_bytes (gw_policy g)) 0 sizes"
    using 1(3) by (auto simp: post_json_def provider_error_def split: if_splits)
  then show ?thesis
    using 1 parse_response_Inr [OF 1(4)] within_limit_sum [OF _ assms(2)] by (simp add: gw_describe_def)
qed

definition sample_gateway :: gateway where
  "sample_gateway = \<lparr>gw_policy = \<lparr>gp_enabled = True, gp_selected_provider = ''deepseek'',
       gp_allowed_hosts = [''api.deepseek.com''], gp_max_input_chars = 100, gp_max_output_tokens = 50,
       gp_max_response_bytes = 1000\<rparr>,
     gw_provider = Some \<lparr>pc_provider_id = ''deepseek'', pc_protocol = ''openai_compatible'',
       pc_model = ''chat'', pc_base_url = ''https://api.deepseek.com'',
       pc_endpoint_host = ''api.deepseek.com'', pc_credential = ''k''\<rparr>\<rparr>"

definition sample_request :: model_request where
  "sample_request = \<lparr>mr_request_id = ''request-1'', mr_user = ''hi'', mr_system = []\<rparr>"

definition sample_response :: http_outcome where
  "sample_response = HttpResponse 200 [10, 20] (Some (JObj
     [(''choices'', JList [JObj [(''message'', JObj [(''content'', JStr ''yes'')])]]),
      (''usage'', JObj [(''prompt_tokens'', JInt 1), (''completion_tokens'', JInt 2), (''total_tokens'', JInt 3)])]))
     [(''x-request-id'', ''request-9'')]"

definition sample_result :: model_result where
  "sample_result = \<lparr>ms_text = ''yes'', ms_receipt =
     \<lparr>rc_provider_id = ''deepseek'', rc_model = ''chat'', rc_provider_request_id = ''request-9'',
      rc_input_tokens = 1, rc_output_tokens = 2, rc_total_tokens = 3,
      rc_request_sha256 = md_request_sha256 (make_descriptor (gw_policy sample_gateway)
        (the (gw_provider sample_gateway)) sample_request),
      rc_output_sha256 = sha256_text ''yes''\<rparr>\<rparr>"

lemma sample_validated: "validated_request (gw_policy sample_gateway) sample_request = Inr sample_request"
  by code_simp

lemma sample_open: "open_gateway sample_gateway = Inr (the (gw_provider sample_gateway))"
  by (simp add: open_gateway_def sample_gateway_def)

lemma sample_post: "\<exists>payload. post_json (gw_policy sample_gateway) sample_response = Inr (payload, [(''x-request-id'', ''request-9'')])
    \<and> parse_response (pc_protocol (the (gw_provider sample_gateway))) payload = Inr (''yes'', 1, 2, 3)
    \<and> provider_request_id [(''x-request-id'', ''request-9'')] payload = ''request-9''"
proof -
  have "strip ''request-9'' = ''request-9''" "is_request_id ''request-9''" "strip ''yes'' = ''yes''" by code_simp+
  then show ?thesis
    by (simp add: post_json_def sample_gateway_def sample_response_def parse_response_def parsed_response_def chat_text_def
        usage_of_def token_count_def jget_def provider_request_id_def)
qed

lemma sample_provider_request: "\<exists>q. provider_request (gw_policy sample_gateway) (the (gw_provider sample_gateway)) sample_request = Inr q"
proof -
  have "join_url ''https://api.deepseek.com'' ''chat/completions'' = Inr ''https://api.deepseek.com/chat/completions''"
    by code_simp
  then show ?thesis by (simp add: provider_request_def sample_gateway_def)
qed

lemma sample_complete: "gw_complete sample_gateway sample_request sample_response = Inr sample_result"
proof -
  have c: "pc_provider_id (the (gw_provider sample_gateway)) = ''deepseek''"
    "pc_model (the (gw_provider sample_gateway)) = ''chat''" by (simp_all add: sample_gateway_def)
  show ?thesis using sample_post sample_provider_request
    by (auto simp: gw_complete_def sample_open sample_validated sample_result_def c)
qed

theorem gateway_result_bounded_witness:
  "ms_text sample_result \<noteq> [] \<and> rc_input_tokens (ms_receipt sample_result) \<le> rc_total_tokens (ms_receipt sample_result)"
  using gateway_result_bounded [OF sample_complete [unfolded sample_response_def]]
  by (simp add: sample_gateway_def)

end
