(* ===== verification/ModelEffect.thy ===== *)
theory ModelEffect
  imports ModelEffectStore ModelGateway
begin

text \<open>
  \<open>backend/agency_runtime/model_effect.py\<close>: the authority that reserves a durable intent, calls the
  gateway once for it, and records the outcome. State is the store's table; the network outcome
  \<open>http\<close> and the clock readings (\<open>t0\<close> when the intent is built, \<open>t1\<close> at completion, \<open>t2\<close> at an
  unknown mark) are arguments.
\<close>

section \<open>Commands, results, intents\<close>

record me_command =
  cmd_tenant_id :: string
  cmd_run_id :: string
  cmd_station :: string
  cmd_source_artifact_id :: string
  cmd_source_artifact_hash :: string
  cmd_instruction :: string
  cmd_max_cost_micros :: int
  cmd_idempotency_key :: string
  cmd_request :: model_request

record me_result =
  mer_effect_id :: string
  mer_tenant_id :: string
  mer_run_id :: string
  mer_station :: string
  mer_source_artifact_id :: string
  mer_source_artifact_hash :: string
  mer_provider_id :: string
  mer_model :: string
  mer_status :: string
  mer_fence :: int
  mer_output_text :: string
  mer_output_sha256 :: string
  mer_receipt :: "(string \<times> json) list"
  mer_replayed :: bool

definition result_from_intent :: "me_intent \<Rightarrow> bool \<Rightarrow> me_result" where
  "result_from_intent i replayed =
     \<lparr>mer_effect_id = me_effect_id i, mer_tenant_id = me_tenant_id i, mer_run_id = me_run_id i,
      mer_station = me_station i, mer_source_artifact_id = me_source_artifact_id i,
      mer_source_artifact_hash = me_source_artifact_hash i, mer_provider_id = me_provider_id i,
      mer_model = me_model i, mer_status = me_status i, mer_fence = me_fence i,
      mer_output_text = me_output_text i, mer_output_sha256 = me_output_sha256 i,
      mer_receipt = me_receipt i, mer_replayed = replayed\<rparr>"

definition validate_command :: "me_command \<Rightarrow> me_command res" where
  "validate_command c =
     (let instruction = strip (cmd_instruction c) in
      rbind (raise_first
        [(\<exists>v \<in> set [cmd_tenant_id c, cmd_run_id c, cmd_station c, cmd_source_artifact_id c].
            v = [] \<or> 256 < length v, ValueError ''model effect identity is invalid''),
         (\<not> is_sha256 (cmd_source_artifact_hash c), ValueError ''source artifact hash is invalid''),
         (instruction = [] \<or> 4096 < utf8_len instruction, ValueError ''model effect instruction is invalid''),
         (cmd_max_cost_micros c < 0 \<or> 10000000000 < cmd_max_cost_micros c,
            ValueError ''model effect cost cap is invalid''),
         (length (cmd_idempotency_key c) < 8 \<or> 200 < length (cmd_idempotency_key c),
            ValueError ''model effect idempotency key is invalid'')]) (\<lambda>_.
        Inr (c\<lparr>cmd_instruction := instruction\<rparr>)))"

definition effect_binding :: "me_command \<Rightarrow> model_descriptor \<Rightarrow> json" where
  "effect_binding c d = JObj
     [(''tenant_id'', JStr (cmd_tenant_id c)), (''run_id'', JStr (cmd_run_id c)),
      (''station'', JStr (cmd_station c)), (''source_artifact_id'', JStr (cmd_source_artifact_id c)),
      (''source_artifact_hash'', JStr (cmd_source_artifact_hash c)),
      (''instruction_hash'', JStr (sha256_text (cmd_instruction c))),
      (''provider_id'', JStr (md_provider_id d)), (''model'', JStr (md_model d)),
      (''endpoint_host'', JStr (md_endpoint_host d)), (''request_sha256'', JStr (md_request_sha256 d)),
      (''max_output_tokens'', JInt (md_max_output_tokens d)),
      (''max_cost_micros'', JInt (cmd_max_cost_micros c))]"

definition build_intent :: "me_command \<Rightarrow> model_descriptor \<Rightarrow> string \<Rightarrow> me_intent" where
  "build_intent c d now =
     (let idem = sha256_text (cmd_idempotency_key c) in
      \<lparr>me_effect_id = stable_id ''model-effect-intent'' [JStr (cmd_tenant_id c), JStr idem] 48,
       me_tenant_id = cmd_tenant_id c, me_run_id = cmd_run_id c, me_station = cmd_station c,
       me_source_artifact_id = cmd_source_artifact_id c,
       me_source_artifact_hash = cmd_source_artifact_hash c,
       me_instruction_hash = sha256_text (cmd_instruction c),
       me_provider_id = md_provider_id d, me_model = md_model d, me_endpoint_host = md_endpoint_host d,
       me_request_sha256 = md_request_sha256 d, me_max_output_tokens = md_max_output_tokens d,
       me_max_cost_micros = cmd_max_cost_micros c, me_idempotency_digest = idem,
       me_binding_digest = sha256_text (canonical_json (effect_binding c d)), me_status = ''pending'',
       me_fence = 1, me_output_text = [], me_output_sha256 = [], me_receipt = [], me_failure_reason = [],
       me_created_at = now, me_updated_at = now, me_completed_at = None, me_revoked_at = None\<rparr>)"

section \<open>Execution\<close>

text \<open>\<open>_mark_unknown\<close> ignores the store's state error and lets any other error through.\<close>

definition mark_unknown_quietly ::
  "me_table \<Rightarrow> me_intent \<Rightarrow> string \<Rightarrow> string \<Rightarrow> exn \<Rightarrow> me_table \<times> me_result res" where
  "mark_unknown_quietly rows i reason now e =
     (case me_mark_unknown rows (me_tenant_id i) (me_effect_id i) (me_fence i) reason now of
        Inr (rows', _) \<Rightarrow> (rows', Inl e)
      | Inl (ModelEffectStateError m) \<Rightarrow> (rows, Inl e)
      | Inl e' \<Rightarrow> (rows, Inl e'))"

definition effect_receipt :: "me_intent \<Rightarrow> model_receipt \<Rightarrow> (string \<times> json) list" where
  "effect_receipt i r = dict_update (receipt_public r)
     [(''effect_binding_digest'', JStr (me_binding_digest i)),
      (''execution_fencing_token'', JInt (me_fence i)),
      (''max_cost_micros'', JInt (me_max_cost_micros i))]"

definition receipt_matches :: "model_descriptor \<Rightarrow> model_result \<Rightarrow> bool" where
  "receipt_matches d m =
     (rc_provider_id (ms_receipt m) = md_provider_id d \<and> rc_model (ms_receipt m) = md_model d
      \<and> rc_request_sha256 (ms_receipt m) = md_request_sha256 d
      \<and> rc_output_sha256 (ms_receipt m) = sha256_text (ms_text m))"

text \<open>What follows a granted reservation.\<close>

definition settle ::
  "me_table \<Rightarrow> me_intent \<Rightarrow> model_descriptor \<Rightarrow> model_result res \<Rightarrow> string \<Rightarrow> string
   \<Rightarrow> me_table \<times> me_result res" where
  "settle rows i d outcome t1 t2 = (case outcome of
     Inl (ModelGatewayProviderError m) \<Rightarrow>
       mark_unknown_quietly rows i ''provider_outcome_unknown'' t2
         (ModelEffectUnknownError ''model provider outcome is unknown'')
   | Inl e \<Rightarrow> (rows, Inl e)
   | Inr m \<Rightarrow>
       if \<not> receipt_matches d m
       then mark_unknown_quietly rows i ''provider_receipt_invalid'' t2
         (ModelEffectUnknownError ''model provider receipt is invalid'')
       else (case me_complete rows (me_tenant_id i) (me_effect_id i) (me_fence i) (ms_text m)
                   (effect_receipt i (ms_receipt m)) t1 of
           Inl e \<Rightarrow> mark_unknown_quietly rows i ''result_persistence_uncertain'' t2
             (ModelEffectUnknownError ''model effect result persistence is uncertain'')
         | Inr (rows', r) \<Rightarrow> (rows', Inr (result_from_intent r False))))"

definition describe_or_unavailable :: "gateway \<Rightarrow> model_request \<Rightarrow> model_descriptor res" where
  "describe_or_unavailable g r = (case gw_describe g r of
     Inl (ModelGatewayDisabledError m) \<Rightarrow> Inl (ModelEffectUnavailableError ''model provider execution is unavailable'')
   | Inl (ModelGatewayConfigurationError m) \<Rightarrow> Inl (ModelEffectUnavailableError ''model provider execution is unavailable'')
   | x \<Rightarrow> x)"

definition me_execute ::
  "gateway \<Rightarrow> bool \<Rightarrow> me_table \<Rightarrow> me_command \<Rightarrow> http_outcome \<Rightarrow> string \<Rightarrow> string \<Rightarrow> string
   \<Rightarrow> me_table \<times> me_result res" where
  "me_execute g enabled rows c http t0 t1 t2 =
     (if \<not> enabled then (rows, Inl (ModelEffectUnavailableError ''model effect authority is disabled''))
      else case rbind (validate_command c) (\<lambda>v.
             rbind (describe_or_unavailable g (cmd_request v)) (\<lambda>d.
             rbind (me_reserve rows (build_intent v d t0)) (\<lambda>(rows', rv). Inr (v, d, rows', rv)))) of
        Inl e \<Rightarrow> (rows, Inl e)
      | Inr (v, d, rows', rv) \<Rightarrow>
          if \<not> res_executable rv
          then (rows', if res_replayed rv then Inr (result_from_intent (res_intent rv) True)
                       else Inl (ModelEffectBlockedError (me_status (res_intent rv))))
          else settle rows' (res_intent rv) d (gw_complete g (cmd_request v) http) t1 t2)"

section \<open>Facts\<close>

lemma build_intent_keys [simp]:
  "me_tenant_id (build_intent c d t) = cmd_tenant_id c"
  "me_idempotency_digest (build_intent c d t) = sha256_text (cmd_idempotency_key c)"
  "me_binding_digest (build_intent c d t) = sha256_text (canonical_json (effect_binding c d))"
  "me_status (build_intent c d t) = ''pending''" "me_fence (build_intent c d t) = 1"
  by (simp_all add: build_intent_def Let_def)

lemma build_intent_validate:
  "me_validate_intent (build_intent c d t) b = me_validate_intent (build_intent c d t') b"
  by (simp add: me_validate_intent_def build_intent_def Let_def)

text \<open>The decision of \<open>reserve\<close> on an existing row reads the keys of the intent only.\<close>

lemma reserve_existing:
  assumes "distinct (map me_idem rows)" and "r \<in> set rows" and "me_idem r = me_idem i"
    and "me_binding_digest r = me_binding_digest i" and "me_validate_intent i True = Inr ()"
  shows "me_reserve rows i = Inr (rows, \<lparr>res_intent = r, res_executable = False,
     res_replayed = (me_status r = ''succeeded'')\<rparr>)"
proof -
  have "sql_find (\<lambda>r. me_tenant_id r = me_tenant_id i \<and> me_idempotency_digest r = me_idempotency_digest i) rows = Some r"
    by (rule sql_find_unique [OF assms(1,2)]) (use assms(3) in auto)
  then show ?thesis using assms(4,5) by (simp add: me_reserve_def me_find_existing_def)
qed

lemma reserve_refused_again:
  assumes "me_reserve rows (build_intent c d t) = Inr (rows', v)" and "\<not> res_executable v"
  shows "me_reserve rows (build_intent c d t') = Inr (rows', v)"
proof -
  have "me_find_existing rows (build_intent c d t') = me_find_existing rows (build_intent c d t)"
    by (simp add: me_find_existing_def cong: option.case_cong)
  then show ?thesis using assms build_intent_validate [of c d t' True t]
    by (auto simp: me_reserve_def rbind_Inr_iff split: option.splits if_splits)
qed

text \<open>What a granted reservation leaves: the row is there, pending at fence 1, and can be moved.\<close>

lemma granted_facts:
  assumes "history me_reserve me_step rows log" and "me_reserve rows i = Inr (rows1, v)" and "res_executable v"
  shows "res_intent v = i" and "me_inv rows1" and "distinct (map me_idem rows1)" and "me_row i \<in> set rows1"
    and "me_validate_intent i True = Inr ()" and "me_status i = ''pending''"
    and "me_validate_identity (me_tenant_id i) (me_effect_id i) = Inr ()"
proof -
  have "history me_reserve me_step rows1 (log @ [res_intent v])"
    using assms by (rule history.granted)
  then show "me_inv rows1" "distinct (map me_idem rows1)"
    using me_history_inv me_ledger.history_keys by fastforce+
  show "me_row i \<in> set rows1" "res_intent v = i" "me_status i = ''pending''"
    using me_ledger.granted_fresh [OF assms(2,3)] by auto
  show val: "me_validate_intent i True = Inr ()"
    using assms(2) by (auto simp: me_reserve_def rbind_Inr_iff)
  then show "me_validate_identity (me_tenant_id i) (me_effect_id i) = Inr ()"
    by (auto simp: me_validate_intent_def me_validate_identity_def rbind_Inr_iff)
qed

lemma granted_transition:
  assumes "history me_reserve me_step rows log" and "me_reserve rows i = Inr (rows1, v)" and "res_executable v"
    and "me_check_change (me_tenant_id i) (me_effect_id i) (me_fence i) ch = Inr ()"
  shows "me_transition rows1 (me_tenant_id i) (me_effect_id i) (me_fence i) ch now =
    Inr (map (\<lambda>x. if x = me_row i then me_apply ch now (me_row i) else x) rows1, me_apply ch now (me_row i))"
  using granted_facts [OF assms(1-3)] assms(4)
  by (intro me_transition_ok) (simp_all add: me_row_def)

text \<open>After such a move the same command finds the moved row.\<close>

lemma reserve_after_move:
  assumes "history me_reserve me_step rows log"
    and "me_reserve rows (build_intent c d t) = Inr (rows1, v)" and "res_executable v"
    and "rows' = map (\<lambda>x. if x = me_row (build_intent c d t)
        then me_apply ch now (me_row (build_intent c d t)) else x) rows1"
  shows "me_reserve rows' (build_intent c d t') = Inr (rows', \<lparr>res_intent = me_apply ch now (me_row (build_intent c d t)),
     res_executable = False, res_replayed = (mc_status ch = ''succeeded'')\<rparr>)"
proof -
  let ?i = "build_intent c d t"
  let ?r = "me_apply ch now (me_row ?i)"
  note g = granted_facts [OF assms(1-3)]
  have keys: "me_idem ?r = me_idem ?i" "me_binding_digest ?r = me_binding_digest ?i" "me_status ?r = mc_status ch"
    by (simp_all add: me_row_def)
  have "map me_idem rows' = map me_idem rows1" unfolding assms(4) by (auto simp: me_row_def)
  then have "distinct (map me_idem rows')" using g(3) by metis
  moreover have "?r \<in> set rows'" unfolding assms(4) using g(4) by force
  moreover have "me_validate_intent (build_intent c d t') True = Inr ()"
    using g(5) build_intent_validate by metis
  ultimately show ?thesis using reserve_existing [of rows' ?r "build_intent c d t'"] keys by simp
qed

definition me_prepare :: "gateway \<Rightarrow> me_command \<Rightarrow> (me_command \<times> model_descriptor) res" where
  "me_prepare g c = rbind (validate_command c) (\<lambda>v.
     rbind (describe_or_unavailable g (cmd_request v)) (\<lambda>d. Inr (v, d)))"

lemma me_execute_prepared:
  assumes "me_prepare g c = Inr (v, d)"
  shows "me_execute g True rows c http t0 t1 t2 = (case me_reserve rows (build_intent v d t0) of
      Inl e \<Rightarrow> (rows, Inl e)
    | Inr (rows', rv) \<Rightarrow>
        if \<not> res_executable rv
        then (rows', if res_replayed rv then Inr (result_from_intent (res_intent rv) True)
                     else Inl (ModelEffectBlockedError (me_status (res_intent rv))))
        else settle rows' (res_intent rv) d (gw_complete g (cmd_request v) http) t1 t2)"
  using assms by (auto simp: me_prepare_def me_execute_def rbind_Inr_iff split: sum.splits)

lemma me_execute_unprepared:
  "me_prepare g c = Inl e \<Longrightarrow> me_execute g True rows c http t0 t1 t2 = (rows, Inl e)"
  by (auto simp: me_prepare_def me_execute_def rbind_Inl_iff)

lemma describe_receipt_matches:
  "describe_or_unavailable g r = Inr d \<Longrightarrow> gw_complete g r http = Inr m \<Longrightarrow> receipt_matches d m"
  using gw_complete_receipt [of g r http m]
  by (auto simp: describe_or_unavailable_def receipt_matches_def split: sum.splits exn.splits)


lemma settle_success:
  assumes h: "history me_reserve me_step rows log" and g: "me_reserve rows i = Inr (rows1, v)" "res_executable v"
    and "settle rows1 i d outcome t1 t2 = (rows', Inr res)"
  obtains ch where "mc_status ch = ''succeeded''"
    "rows' = map (\<lambda>x. if x = me_row i then me_apply ch t1 (me_row i) else x) rows1"
    "res = result_from_intent (me_apply ch t1 (me_row i)) False"
proof -
  obtain m r where m: "outcome = Inr m" and c: "me_complete rows1 (me_tenant_id i) (me_effect_id i) (me_fence i)
      (ms_text m) (effect_receipt i (ms_receipt m)) t1 = Inr (rows', r)" and res: "res = result_from_intent r False"
    using assms(4) by (auto simp: settle_def mark_unknown_quietly_def split: sum.splits exn.splits if_splits)
  let ?ch = "\<lparr>mc_status = ''succeeded'', mc_output_text = Some (ms_text m),
     mc_output_sha256 = Some (sha256_text (ms_text m)), mc_receipt = Some (effect_receipt i (ms_receipt m)),
     mc_failure_reason = [], mc_completed = True\<rparr>"
  have t: "me_transition rows1 (me_tenant_id i) (me_effect_id i) (me_fence i) ?ch t1 = Inr (rows', r)"
    using c by (rule me_complete_transition)
  have "me_check_change (me_tenant_id i) (me_effect_id i) (me_fence i) ?ch = Inr ()"
    using me_transition_Inr(1) [OF t] .
  then have "rows' = map (\<lambda>x. if x = me_row i then me_apply ?ch t1 (me_row i) else x) rows1"
    "r = me_apply ?ch t1 (me_row i)"
    using granted_transition [OF h g] t by simp_all
  then show thesis using that [of ?ch] res by simp
qed

definition unknown_reasons :: "string list" where
  "unknown_reasons = [''provider_outcome_unknown'', ''provider_receipt_invalid'', ''result_persistence_uncertain'']"

lemma unknown_reasons_valid: "reason \<in> set unknown_reasons \<Longrightarrow> me_validate_reason reason = Inr ()"
proof -
  have "\<forall>reason \<in> set unknown_reasons. me_validate_reason reason = Inr ()" by code_simp
  then show "reason \<in> set unknown_reasons \<Longrightarrow> me_validate_reason reason = Inr ()" by blast
qed

lemma mark_unknown_granted:
  assumes h: "history me_reserve me_step rows log" and g: "me_reserve rows i = Inr (rows1, v)" "res_executable v"
    and "reason \<in> set unknown_reasons"
  shows "mark_unknown_quietly rows1 i reason t2 e =
    (map (\<lambda>x. if x = me_row i then me_apply (me_failure ''unknown'' reason) t2 (me_row i) else x) rows1, Inl e)"
proof -
  have "1 \<le> me_fence i"
    using granted_facts(5) [OF h g] by (auto simp: me_validate_intent_def rbind_Inr_iff)
  then have "me_check_change (me_tenant_id i) (me_effect_id i) (me_fence i) (me_failure ''unknown'' reason) = Inr ()"
    using granted_facts(7) [OF h g] unknown_reasons_valid [OF assms(4)]
    by (simp add: me_check_change_def me_failure_def ME_STATUSES_def)
  from granted_transition [OF h g this]
  show ?thesis by (simp add: mark_unknown_quietly_def me_mark_unknown_def)
qed

lemma settle_unknown:
  assumes h: "history me_reserve me_step rows log" and g: "me_reserve rows i = Inr (rows1, v)" "res_executable v"
    and "settle rows1 i d outcome t1 t2 = (rows', Inl e)" and "e = ModelEffectUnknownError m"
    and "outcome \<noteq> Inl e"
  obtains reason where
    "rows' = map (\<lambda>x. if x = me_row i then me_apply (me_failure ''unknown'' reason) t2 (me_row i) else x) rows1"
proof -
  note mark = mark_unknown_granted [OF h g]
  have "\<exists>reason \<in> set unknown_reasons. rows' = fst (mark_unknown_quietly rows1 i reason t2 e)"
    using assms(4-6) mark
    by (auto simp: settle_def unknown_reasons_def split: sum.splits exn.splits if_splits)
  then show thesis using that mark by auto
qed


text \<open>The errors of the gateway and of the store are their own: \<open>ModelEffectUnknownError\<close> comes from the
  authority only.\<close>

lemma gateway_no_unknown: "gw_complete g r http \<noteq> Inl (ModelEffectUnknownError m)"
proof -
  have "open_gateway g \<noteq> Inl (ModelEffectUnknownError m)" for g
    by (auto simp: open_gateway_def split: option.splits)
  moreover have "validated_request p r \<noteq> Inl (ModelEffectUnknownError m)" for p
    by (auto simp: validated_request_def Let_def rbind_Inl_iff dest!: raise_first_Inl)
  moreover have "join_url b x \<noteq> Inl (ModelEffectUnknownError m)" for b x
    by (auto simp: join_url_def urlsplit_def Let_def rbind_Inl_iff split: prod.splits if_splits)
  then have "provider_request p c n \<noteq> Inl (ModelEffectUnknownError m)" for p c n
    by (auto simp: provider_request_def Let_def rbind_Inl_iff)
  moreover have "post_json p http \<noteq> Inl (ModelEffectUnknownError m)" for p
    by (auto simp: post_json_def provider_error_def split: http_outcome.splits option.splits json.splits)
  moreover have "parse_response p payload \<noteq> Inl (ModelEffectUnknownError m)" for p payload
    by (auto simp: parse_response_def provider_error_def split: option.splits)
  ultimately show ?thesis by (auto simp: gw_complete_def rbind_Inl_iff Let_def)
qed

lemma store_no_unknown: "me_reserve rows i \<noteq> Inl (ModelEffectUnknownError m)"
proof -
  have "me_validate_intent i b \<noteq> Inl (ModelEffectUnknownError m)" for b
    by (auto simp: me_validate_intent_def me_validate_output_def me_validate_receipt_def me_validate_reason_def
        rbind_Inl_iff split: if_splits dest!: raise_first_Inl)
  then show ?thesis
    by (auto simp: me_reserve_def me_insert_def rbind_Inl_iff split: option.splits if_splits)
qed

lemma prepare_no_unknown: "me_prepare g c \<noteq> Inl (ModelEffectUnknownError m)"
proof -
  have "validate_command c \<noteq> Inl (ModelEffectUnknownError m)"
    by (auto simp: validate_command_def Let_def rbind_Inl_iff dest!: raise_first_Inl)
  moreover have "gw_describe g r \<noteq> Inl (ModelEffectUnknownError m)" for r
    by (auto simp: gw_describe_def open_gateway_def validated_request_def Let_def rbind_Inl_iff
        split: option.splits if_splits dest!: raise_first_Inl)
  then have "describe_or_unavailable g r \<noteq> Inl (ModelEffectUnknownError m)" for r
    by (auto simp: describe_or_unavailable_def split: sum.splits exn.splits)
  ultimately show ?thesis by (auto simp: me_prepare_def rbind_Inl_iff)
qed

section \<open>Properties\<close>

text \<open>C10: a model effect runs once. When an execution returned a result, repeating the command later
  changes nothing and returns that result as a replay, whatever the network would answer: the
  provider is not asked again.\<close>

theorem me_execute_replays:
  assumes "history me_reserve me_step rows log"
    and "me_execute g True rows c http t0 t1 t2 = (rows', Inr r)"
  shows "me_execute g True rows' c http' t0' t1' t2' = (rows', Inr (r\<lparr>mer_replayed := True\<rparr>))"
proof (cases "me_prepare g c")
  case (Inl e)
  then show ?thesis using assms(2) me_execute_unprepared by simp
next
  case (Inr vd)
  obtain v d where p: "me_prepare g c = Inr (v, d)" using Inr by (cases vd) auto
  note ex = me_execute_prepared [OF p]
  obtain rows1 rv where rs: "me_reserve rows (build_intent v d t0) = Inr (rows1, rv)"
    using assms(2) ex by (cases "me_reserve rows (build_intent v d t0)") auto
  show ?thesis
  proof (cases "res_executable rv")
    case False
    have "rows1 = rows" using me_ledger.refused_existing [OF rs False] by simp
    moreover have "rows' = rows1" "res_replayed rv" "r = result_from_intent (res_intent rv) True"
      using assms(2) False by (auto simp: ex rs split: if_splits)
    ultimately show ?thesis using reserve_refused_again [OF rs False] False
      by (simp add: ex result_from_intent_def)
  next
    case True
    have i: "res_intent rv = build_intent v d t0" using granted_facts(1) [OF assms(1) rs True] .
    have "settle rows1 (build_intent v d t0) d (gw_complete g (cmd_request v) http) t1 t2 = (rows', Inr r)"
      using assms(2) True by (simp add: ex rs i)
    then obtain ch where ch: "mc_status ch = ''succeeded''"
      "rows' = map (\<lambda>x. if x = me_row (build_intent v d t0)
          then me_apply ch t1 (me_row (build_intent v d t0)) else x) rows1"
      "r = result_from_intent (me_apply ch t1 (me_row (build_intent v d t0))) False"
      by (rule settle_success [OF assms(1) rs True])
    show ?thesis
      unfolding ex reserve_after_move [OF assms(1) rs True ch(2)]
      by (simp add: ch(1,3) result_from_intent_def)
  qed
qed


text \<open>An idempotency key is bound to one command: when the tenant already used the key for
  different content (another binding digest), execution is refused before the provider is asked and
  nothing changes.\<close>

theorem me_execute_conflict:
  assumes "history me_reserve me_step rows log" and "me_prepare g c = Inr (v, d)"
    and "r \<in> set rows" and "me_idem r = (cmd_tenant_id v, sha256_text (cmd_idempotency_key v))"
    and "me_binding_digest r \<noteq> sha256_text (canonical_json (effect_binding v d))"
    and "me_validate_intent (build_intent v d t0) True = Inr ()"
  shows "me_execute g True rows c http t0 t1 t2 = (rows, Inl (ModelEffectConflictError
    ''model effect idempotency key conflicts with a prior binding''))"
proof -
  have "sql_find (\<lambda>r. me_tenant_id r = cmd_tenant_id v \<and> me_idempotency_digest r = sha256_text (cmd_idempotency_key v)) rows = Some r"
    by (rule sql_find_unique [of me_idem, OF _ assms(3)])
      (use me_ledger.history_keys [OF assms(1)] assms(4) in auto)
  then have "me_reserve rows (build_intent v d t0) = Inl (ModelEffectConflictError
      ''model effect idempotency key conflicts with a prior binding'')"
    using assms(4-6) by (simp add: me_reserve_def me_find_existing_def)
  then show ?thesis by (simp add: me_execute_prepared [OF assms(2)])
qed


section \<open>Witnesses\<close>

definition sample_command :: me_command where
  "sample_command = \<lparr>cmd_tenant_id = ''tenant-a'', cmd_run_id = ''run-1'', cmd_station = ''writer'',
     cmd_source_artifact_id = ''artifact-1'', cmd_source_artifact_hash = sample_digest,
     cmd_instruction = ''draft'', cmd_max_cost_micros = 5, cmd_idempotency_key = ''key-00001'',
     cmd_request = sample_request\<rparr>"

definition sample_descriptor :: model_descriptor where
  "sample_descriptor = make_descriptor (gw_policy sample_gateway) (the (gw_provider sample_gateway)) sample_request"

lemma sample_describe: "gw_describe sample_gateway sample_request = Inr sample_descriptor"
  by (simp add: gw_describe_def sample_open sample_validated sample_descriptor_def)

lemma sample_prepare: "me_prepare sample_gateway sample_command = Inr (sample_command, sample_descriptor)"
proof -
  have "validate_command sample_command = Inr sample_command" by code_simp
  then show ?thesis
    by (simp add: me_prepare_def describe_or_unavailable_def sample_describe sample_command_def)
qed

lemma effect_id_identifier: "me_identifier (stable_id ''model-effect-intent'' vs 48)"
proof -
  let ?x = "sha256_text (canonical_json (JList vs))"
  have "is_sha256 ?x" by simp
  then have "\<forall>c \<in> set (take 48 ?x). is_lower_hex c"
    by (auto simp: is_sha256_def list_all_iff dest: in_set_takeD)
  then have "\<forall>c \<in> set (take 48 ?x). is_alnum c"
    by (auto simp: is_lower_hex_def is_alnum_def is_lower_def is_ascii_digit_def in_range_def)
  moreover have "\<forall>c \<in> set ''odel-effect-intent-''. is_alnum c \<or> c = CHR ''-''" "is_alnum CHR ''m''"
    by code_simp+
  ultimately show ?thesis by (auto simp: me_identifier_def fullmatch_class_def list_all_iff stable_id_def)
qed

lemma build_intent_fields:
  "me_effect_id (build_intent c d t) = stable_id ''model-effect-intent''
     [JStr (cmd_tenant_id c), JStr (sha256_text (cmd_idempotency_key c))] 48"
  "me_run_id (build_intent c d t) = cmd_run_id c" "me_station (build_intent c d t) = cmd_station c"
  "me_source_artifact_id (build_intent c d t) = cmd_source_artifact_id c"
  "me_source_artifact_hash (build_intent c d t) = cmd_source_artifact_hash c"
  "me_instruction_hash (build_intent c d t) = sha256_text (cmd_instruction c)"
  "me_provider_id (build_intent c d t) = md_provider_id d" "me_model (build_intent c d t) = md_model d"
  "me_endpoint_host (build_intent c d t) = md_endpoint_host d"
  "me_request_sha256 (build_intent c d t) = md_request_sha256 d"
  "me_max_output_tokens (build_intent c d t) = md_max_output_tokens d"
  "me_max_cost_micros (build_intent c d t) = cmd_max_cost_micros c"
  "me_output_text (build_intent c d t) = []" "me_output_sha256 (build_intent c d t) = []"
  "me_receipt (build_intent c d t) = []" "me_failure_reason (build_intent c d t) = []"
  by (simp_all add: build_intent_def Let_def)

lemma sample_command_fields:
  "cmd_tenant_id sample_command = ''tenant-a''" "cmd_run_id sample_command = ''run-1''"
  "cmd_station sample_command = ''writer''" "cmd_source_artifact_id sample_command = ''artifact-1''"
  "cmd_source_artifact_hash sample_command = sample_digest" "cmd_max_cost_micros sample_command = 5"
  "cmd_request sample_command = sample_request"
  by (simp_all add: sample_command_def)

lemma sample_descriptor_fields:
  "md_provider_id sample_descriptor = ''deepseek''" "md_model sample_descriptor = ''chat''"
  "md_endpoint_host sample_descriptor = ''api.deepseek.com''" "md_max_output_tokens sample_descriptor = 50"
  "is_sha256 (md_request_sha256 sample_descriptor)"
  by (simp_all add: sample_descriptor_def make_descriptor_def sample_gateway_def)

lemma sample_build_valid: "me_validate_intent (build_intent sample_command sample_descriptor t) True = Inr ()"
proof -
  have n: "me_identifier ''tenant-a''" "me_identifier ''run-1''" "me_identifier ''writer''" "me_identifier ''artifact-1''"
    "me_provider ''deepseek''" "me_model_name ''chat''" "me_host ''api.deepseek.com''" "is_sha256 sample_digest"
    by code_simp+
  show ?thesis
    unfolding me_validate_intent_def build_intent_fields build_intent_keys sample_command_fields sample_descriptor_fields
    by (simp add: n sample_receipt_valid sample_descriptor_fields effect_id_identifier ME_STATUSES_def)
qed

definition sample_effect :: "string \<Rightarrow> me_intent" where
  "sample_effect t = build_intent sample_command sample_descriptor t"

lemma sample_effect_row: "me_row (sample_effect t) = sample_effect t"
  by (simp add: me_row_def sample_effect_def build_intent_def canonical_receipt_def Let_def)

lemma sample_effect_reserve: "me_reserve [] (sample_effect t) = Inr ([sample_effect t],
   \<lparr>res_intent = sample_effect t, res_executable = True, res_replayed = False\<rparr>)"
  using sample_build_valid [of t] sample_effect_row [of t]
  by (simp add: me_reserve_def sample_effect_def me_find_existing_def sql_find_def me_insert_def)

lemma sample_effect_history: "history me_reserve me_step [sample_effect t] [sample_effect t]"
  using history.granted [where reserve = me_reserve, OF history.start sample_effect_reserve] by simp

lemma sample_timeout: "me_execute sample_gateway True [] sample_command HttpTimeout ''t0'' ''t1'' ''t2''
   = ([me_apply (me_failure ''unknown'' ''provider_outcome_unknown'') ''t2'' (sample_effect ''t0'')],
      Inl (ModelEffectUnknownError ''model provider outcome is unknown''))"
proof -
  have "gw_complete sample_gateway (cmd_request sample_command) HttpTimeout
      = Inl (ModelGatewayProviderError ''model provider request timed out'')"
    using sample_provider_request
    by (auto simp: gw_complete_def sample_command_def sample_open sample_validated post_json_def provider_error_def)
  then show ?thesis
    using sample_effect_reserve [of "''t0''"]
      mark_unknown_granted [OF history.start sample_effect_reserve [of "''t0''"]]
    by (simp add: me_execute_prepared [OF sample_prepare] sample_effect_def [symmetric] settle_def
        unknown_reasons_def sample_effect_row)
qed


lemma sample_success: "\<exists>rows r. history me_reserve me_step rows [sample_effect t] \<and>
   me_execute sample_gateway True rows sample_command HttpTimeout ''t3'' ''t4'' ''t5'' = (rows, Inr r)
   \<and> mer_output_text r = ''ok'' \<and> mer_status r = ''succeeded''"
proof -
  let ?i = "sample_effect t"
  have h: "history me_reserve me_step [?i] [?i]" by (rule sample_effect_history)
  let ?ch = "\<lparr>mc_status = ''succeeded'', mc_output_text = Some ''ok'',
     mc_output_sha256 = Some (sha256_text ''ok''), mc_receipt = Some [],
     mc_failure_reason = [], mc_completed = True\<rparr>"
  have l: "me_validate_output ''ok'' = Inr ()"
    by (simp add: me_validate_output_def utf8_len_def utf8_def utf8_char_def)
  have id: "me_validate_identity (me_tenant_id ?i) (me_effect_id ?i) = Inr ()"
    using granted_facts(7) [OF history.start sample_effect_reserve] by simp
  have f: "me_fence ?i = 1" by (simp add: sample_effect_def)
  have "me_check_change (me_tenant_id ?i) (me_effect_id ?i) (me_fence ?i) ?ch = Inr ()"
    by (simp add: me_check_change_def id f ME_STATUSES_def l sample_receipt_valid)
  from granted_transition [OF history.start sample_effect_reserve _ this, of "''t1''"]
  have c: "me_complete [?i] (me_tenant_id ?i) (me_effect_id ?i) (me_fence ?i) ''ok'' [] ''t1''
      = Inr ([me_apply ?ch ''t1'' ?i], me_apply ?ch ''t1'' ?i)"
    by (simp add: me_complete_def l sample_receipt_valid sample_effect_row)
  have hist: "history me_reserve me_step [me_apply ?ch ''t1'' ?i] [?i]"
    using history.stepped [OF h] me_step.completed [OF c] by blast
  have "me_reserve [me_apply ?ch ''t1'' ?i] (build_intent sample_command sample_descriptor ''t3'')
      = Inr ([me_apply ?ch ''t1'' ?i], \<lparr>res_intent = me_apply ?ch ''t1'' ?i, res_executable = False, res_replayed = True\<rparr>)"
    using reserve_after_move [OF history.start sample_effect_reserve [of t, unfolded sample_effect_def], of _ ?ch "''t1''"]
      sample_effect_row [of t] by (simp add: sample_effect_def)
  then have "me_execute sample_gateway True [me_apply ?ch ''t1'' ?i] sample_command HttpTimeout ''t3'' ''t4'' ''t5''
      = ([me_apply ?ch ''t1'' ?i], Inr (result_from_intent (me_apply ?ch ''t1'' ?i) True))"
    by (simp add: me_execute_prepared [OF sample_prepare])
  moreover have "mer_output_text (result_from_intent (me_apply ?ch ''t1'' ?i) True) = ''ok''"
    "mer_status (result_from_intent (me_apply ?ch ''t1'' ?i) True) = ''succeeded''"
    by (simp_all add: result_from_intent_def me_apply_def)
  ultimately show ?thesis using hist by blast
qed

theorem me_execute_replays_witness:
  "\<exists>rows r. me_execute sample_gateway True rows sample_command sample_response ''t6'' ''t7'' ''t8''
      = (rows, Inr (r\<lparr>mer_replayed := True\<rparr>)) \<and> mer_output_text r = ''ok''"
  using sample_success [of "''t0''"] me_execute_replays by blast

text \<open>A digest other than the given one.\<close>

definition other_digest :: "string \<Rightarrow> string" where
  "other_digest x = (if x = sample_digest then replicate 64 CHR ''b'' else sample_digest)"

lemma validate_binding: "me_validate_intent i True = Inr () \<Longrightarrow> is_sha256 d
    \<Longrightarrow> me_validate_intent (i\<lparr>me_binding_digest := d\<rparr>) True = Inr ()"
  by (auto simp: me_validate_intent_def rbind_Inr_iff)

definition sample_other :: "string \<Rightarrow> me_intent" where
  "sample_other t = (sample_effect t)\<lparr>me_binding_digest := other_digest (me_binding_digest (sample_effect t))\<rparr>"

lemma sample_other_history: "history me_reserve me_step [sample_other t] [sample_other t]"
proof -
  have "is_sha256 sample_digest" "is_sha256 (replicate 64 CHR ''b'')" by code_simp+
  then have "me_validate_intent (sample_other t) True = Inr ()"
    using sample_build_valid [of t] by (simp add: validate_binding sample_other_def sample_effect_def other_digest_def)
  moreover have "me_row (sample_other t) = sample_other t"
    by (simp add: me_row_def sample_other_def sample_effect_def build_intent_def canonical_receipt_def Let_def)
  ultimately have "me_reserve [] (sample_other t) = Inr ([sample_other t],
      \<lparr>res_intent = sample_other t, res_executable = True, res_replayed = False\<rparr>)"
    by (simp add: me_reserve_def me_find_existing_def sql_find_def me_insert_def)
  from history.granted [where reserve = me_reserve, OF history.start this] show ?thesis by simp
qed

theorem me_execute_conflict_witness:
  "me_execute sample_gateway True [sample_other ''t0''] sample_command sample_response ''t1'' ''t2'' ''t3''
   = ([sample_other ''t0''], Inl (ModelEffectConflictError
        ''model effect idempotency key conflicts with a prior binding''))"
proof (rule me_execute_conflict [OF sample_other_history sample_prepare _ _ _ sample_build_valid])
  have "sample_digest \<noteq> replicate 64 CHR ''b''" by code_simp
  then show "me_binding_digest (sample_other ''t0'') \<noteq>
      sha256_text (canonical_json (effect_binding sample_command sample_descriptor))"
    by (auto simp: sample_other_def sample_effect_def other_digest_def)
qed (simp_all add: sample_other_def sample_effect_def)


end
