(* ===== verification/PublicationStore.thy ===== *)
theory PublicationStore
  imports EffectLedger
begin

text \<open>
  \<open>backend/agency_runtime/social_publication_store.py\<close>: the SQLite table of publication intents,
  with its validation, reservation, fenced transitions, reconciliation and revocation. Same shape
  as the model-effect store, and a second interpretation of the effect ledger; the differences of
  the code (a container id recorded while pending, a wider revocation filter, a fence that
  revocation leaves alone) are kept.
\<close>

section \<open>Intents and validation\<close>

record sp_intent =
  sp_intent_id :: string
  sp_tenant_id :: string
  sp_channel_id :: string
  sp_account_id :: string
  sp_run_id :: string
  sp_artifact_id :: string
  sp_artifact_hash :: string
  sp_content_hash :: string
  sp_media_url_hash :: "string option"
  sp_media_hash :: "string option"
  sp_confirmation_hash :: "string option"
  sp_greenlight_id :: string
  sp_greenlight_fencing_token :: int
  sp_budget_cents :: int
  sp_idempotency_digest :: string
  sp_binding_digest :: string
  sp_status :: string
  sp_fence :: int
  sp_provider_container_id :: "string option"
  sp_provider_post_id :: "string option"
  sp_receipt :: "(string \<times> json) list"
  sp_failure_reason :: string
  sp_created_at :: string
  sp_updated_at :: string
  sp_completed_at :: "string option"
  sp_revoked_at :: "string option"

definition sp_identifier :: "string \<Rightarrow> bool" where
  "sp_identifier = fullmatch_class is_alnum
     (\<lambda>c. is_alnum c \<or> c \<in> {CHR ''.'', CHR ''_'', CHR '':'', CHR ''@'', CHR ''-''}) 0 255"

definition sp_channel :: "string \<Rightarrow> bool" where
  "sp_channel s = (s = ''x'' \<or> s = ''instagram'')"

definition SP_STATUSES :: "string list" where
  "SP_STATUSES = [''pending'', ''succeeded'', ''unknown'', ''failed'', ''revoked'']"

definition sp_validate_identity :: "string \<Rightarrow> string \<Rightarrow> unit res" where
  "sp_validate_identity tenant ident = raise_first
     [(\<not> sp_identifier tenant \<or> \<not> sp_identifier ident, ValueError ''publication identity is invalid'')]"

definition sp_validate_provider_id :: "string \<Rightarrow> unit res" where
  "sp_validate_provider_id v = raise_first
     [(\<not> sp_identifier v, ValueError ''provider publication ID is invalid'')]"

definition sp_validate_reason :: "string \<Rightarrow> unit res" where
  "sp_validate_reason reason = raise_first
     [(reason = [] \<or> 128 < length reason
         \<or> (\<exists>c \<in> set reason. code_point c < 32 \<or> code_point c = 127),
       ValueError ''publication reason is invalid'')]"

definition sp_validate_receipt :: "(string \<times> json) list \<Rightarrow> unit res" where
  "sp_validate_receipt r = raise_first
     [(8192 < utf8_len (canonical_json (JObj r)), ValueError ''publication receipt is too large'')]"

definition sp_validate_intent :: "sp_intent \<Rightarrow> bool \<Rightarrow> unit res" where
  "sp_validate_intent i require_pending =
     rbind (raise_first
       [(\<exists>v \<in> set [sp_intent_id i, sp_tenant_id i, sp_account_id i, sp_run_id i, sp_artifact_id i,
           sp_greenlight_id i]. \<not> sp_identifier v, ValueError ''publication intent identity is invalid''),
        (\<not> sp_channel (sp_channel_id i), ValueError ''publication channel is invalid''),
        (\<exists>d \<in> set [sp_artifact_hash i, sp_content_hash i, sp_idempotency_digest i, sp_binding_digest i].
           \<not> is_sha256 d, ValueError ''publication digest is invalid''),
        (\<exists>d \<in> set [sp_media_url_hash i, sp_media_hash i, sp_confirmation_hash i].
           case d of None \<Rightarrow> False | Some v \<Rightarrow> \<not> is_sha256 v,
           ValueError ''publication optional digest is invalid''),
        (sp_greenlight_fencing_token i < 0 \<or> sp_budget_cents i < 0,
           ValueError ''publication authority values are invalid''),
        (sp_status i \<notin> set SP_STATUSES, ValueError ''publication status is invalid''),
        (require_pending \<and> (sp_status i \<noteq> ''pending'' \<or> sp_fence i < 1),
           ValueError ''new publication intent must be pending with a positive fence'')]) (\<lambda>_.
       sp_validate_receipt (sp_receipt i))"

definition sp_row :: "sp_intent \<Rightarrow> sp_intent" where
  "sp_row i = i\<lparr>sp_receipt := canonical_receipt (sp_receipt i)\<rparr>"

section \<open>Operations\<close>

type_synonym sp_table = "sp_intent list"

definition sp_find_existing :: "sp_table \<Rightarrow> sp_intent \<Rightarrow> sp_intent option" where
  "sp_find_existing rows i =
     (case sql_find (\<lambda>r. sp_tenant_id r = sp_tenant_id i
                       \<and> sp_idempotency_digest r = sp_idempotency_digest i) rows of
        Some r \<Rightarrow> Some r
      | None \<Rightarrow> sql_find (\<lambda>r. sp_tenant_id r = sp_tenant_id i
                       \<and> sp_binding_digest r = sp_binding_digest i) rows)"

definition sp_insert :: "sp_table \<Rightarrow> sp_intent \<Rightarrow> sp_table res" where
  "sp_insert rows i =
     (if \<exists>r \<in> set rows. sp_intent_id r = sp_intent_id i
         \<or> sp_tenant_id r = sp_tenant_id i \<and> (sp_idempotency_digest r = sp_idempotency_digest i
             \<or> sp_binding_digest r = sp_binding_digest i)
      then Inl IntegrityError else Inr (rows @ [sp_row i]))"

definition sp_reserve :: "sp_table \<Rightarrow> sp_intent \<Rightarrow> (sp_table \<times> sp_intent reservation) res" where
  "sp_reserve rows i =
     rbind (sp_validate_intent i True) (\<lambda>_.
       case sp_find_existing rows i of
         Some r \<Rightarrow>
           if sp_idempotency_digest r = sp_idempotency_digest i \<and> sp_binding_digest r \<noteq> sp_binding_digest i
           then Inl (SocialPublicationConflictError
             ''publication idempotency key conflicts with a prior binding'')
           else if sp_binding_digest r \<noteq> sp_binding_digest i
           then Inl (SocialPublicationConflictError ''publication binding conflicts with a prior intent'')
           else Inr (rows, \<lparr>res_intent = r, res_executable = False,
                            res_replayed = (sp_status r = ''succeeded'')\<rparr>)
       | None \<Rightarrow> rbind (sp_insert rows i) (\<lambda>rows'.
           Inr (rows', \<lparr>res_intent = i, res_executable = True, res_replayed = False\<rparr>)))"

definition sp_get :: "sp_table \<Rightarrow> string \<Rightarrow> string \<Rightarrow> sp_intent res" where
  "sp_get rows tenant ident =
     rbind (sp_validate_identity tenant ident) (\<lambda>_.
       case sql_find (\<lambda>r. sp_tenant_id r = tenant \<and> sp_intent_id r = ident) rows of
         None \<Rightarrow> Inl (KeyError ''social publication intent not found'') | Some r \<Rightarrow> Inr r)"

text \<open>The assignments of \<open>_transition\<close>: each optional argument that is given adds its column.\<close>

record sp_change =
  sc_status :: string
  sc_container_id :: "string option"
  sc_post_id :: "string option"
  sc_receipt :: "(string \<times> json) list option"
  sc_failure_reason :: string
  sc_completed :: bool

definition sp_apply :: "sp_change \<Rightarrow> string \<Rightarrow> sp_intent \<Rightarrow> sp_intent" where
  "sp_apply c now r =
     r\<lparr>sp_status := sc_status c, sp_updated_at := now,
       sp_provider_container_id := (case sc_container_id c of None \<Rightarrow> sp_provider_container_id r | Some v \<Rightarrow> Some v),
       sp_provider_post_id := (case sc_post_id c of None \<Rightarrow> sp_provider_post_id r | Some v \<Rightarrow> Some v),
       sp_receipt := (case sc_receipt c of None \<Rightarrow> sp_receipt r | Some x \<Rightarrow> canonical_receipt x),
       sp_failure_reason := (if sc_failure_reason c \<noteq> [] \<or> sc_status c \<in> {''succeeded'', ''pending''}
                             then sc_failure_reason c else sp_failure_reason r),
       sp_completed_at := (if sc_completed c then Some now else sp_completed_at r)\<rparr>"

definition sp_check_change :: "string \<Rightarrow> string \<Rightarrow> int \<Rightarrow> sp_change \<Rightarrow> unit res" where
  "sp_check_change tenant ident fence c =
     rbind (sp_validate_identity tenant ident) (\<lambda>_.
     rbind (raise_first
       [(fence < 1, ValueError ''publication fence must be positive''),
        (sc_status c \<notin> set SP_STATUSES, ValueError ''publication status is invalid'')]) (\<lambda>_.
     rbind (case sc_container_id c of None \<Rightarrow> Inr () | Some v \<Rightarrow> sp_validate_provider_id v) (\<lambda>_.
     rbind (case sc_post_id c of None \<Rightarrow> Inr () | Some v \<Rightarrow> sp_validate_provider_id v) (\<lambda>_.
     rbind (case sc_receipt c of None \<Rightarrow> Inr () | Some r \<Rightarrow> sp_validate_receipt r) (\<lambda>_.
       if sc_failure_reason c \<noteq> [] then sp_validate_reason (sc_failure_reason c) else Inr ())))))"

definition sp_transition ::
  "sp_table \<Rightarrow> string \<Rightarrow> string \<Rightarrow> int \<Rightarrow> sp_change \<Rightarrow> string \<Rightarrow> (sp_table \<times> sp_intent) res" where
  "sp_transition rows tenant ident fence c now =
     rbind (sp_check_change tenant ident fence c) (\<lambda>_.
       case cas_update (\<lambda>r. sp_tenant_id r = tenant \<and> sp_intent_id r = ident
                          \<and> sp_status r = ''pending'' \<and> sp_fence r = fence) (sp_apply c now) rows of
         None \<Rightarrow> Inl (SocialPublicationStateError ''publication intent is not pending for this fence'')
       | Some rows' \<Rightarrow> rbind (sp_get rows' tenant ident) (\<lambda>r. Inr (rows', r)))"

definition sp_record_container ::
  "sp_table \<Rightarrow> string \<Rightarrow> string \<Rightarrow> int \<Rightarrow> string \<Rightarrow> string \<Rightarrow> (sp_table \<times> sp_intent) res" where
  "sp_record_container rows tenant ident fence container now =
     sp_transition rows tenant ident fence
       \<lparr>sc_status = ''pending'', sc_container_id = Some container, sc_post_id = None, sc_receipt = None,
        sc_failure_reason = [], sc_completed = False\<rparr> now"

definition sp_complete ::
  "sp_table \<Rightarrow> string \<Rightarrow> string \<Rightarrow> int \<Rightarrow> string \<Rightarrow> (string \<times> json) list \<Rightarrow> string
   \<Rightarrow> (sp_table \<times> sp_intent) res" where
  "sp_complete rows tenant ident fence post receipt now =
     sp_transition rows tenant ident fence
       \<lparr>sc_status = ''succeeded'', sc_container_id = None, sc_post_id = Some post, sc_receipt = Some receipt,
        sc_failure_reason = [], sc_completed = True\<rparr> now"

definition sp_failure :: "string \<Rightarrow> string \<Rightarrow> sp_change" where
  "sp_failure status reason = \<lparr>sc_status = status, sc_container_id = None, sc_post_id = None,
     sc_receipt = None, sc_failure_reason = reason, sc_completed = False\<rparr>"

definition sp_mark_unknown ::
  "sp_table \<Rightarrow> string \<Rightarrow> string \<Rightarrow> int \<Rightarrow> string \<Rightarrow> string \<Rightarrow> (sp_table \<times> sp_intent) res" where
  "sp_mark_unknown rows tenant ident fence reason now =
     sp_transition rows tenant ident fence (sp_failure ''unknown'' reason) now"

definition sp_mark_failed ::
  "sp_table \<Rightarrow> string \<Rightarrow> string \<Rightarrow> int \<Rightarrow> string \<Rightarrow> string \<Rightarrow> (sp_table \<times> sp_intent) res" where
  "sp_mark_failed rows tenant ident fence reason now =
     sp_transition rows tenant ident fence (sp_failure ''failed'' reason) now"

definition sp_reconciliation_matches :: "sp_intent \<Rightarrow> string \<Rightarrow> (string \<times> json) list \<Rightarrow> bool" where
  "sp_reconciliation_matches i post receipt =
     (sp_status i = ''succeeded'' \<and> sp_provider_post_id i = Some post
      \<and> (case jget ''reconciliation_binding_digest'' receipt of
           Some (JStr d) \<Rightarrow> is_sha256 d
             \<and> jget ''reconciliation_binding_digest'' (sp_receipt i) = Some (JStr d)
         | _ \<Rightarrow> False))"

definition sp_reconciled ::
  "string \<Rightarrow> (string \<times> json) list \<Rightarrow> string \<Rightarrow> sp_intent \<Rightarrow> sp_intent" where
  "sp_reconciled post receipt now r =
     r\<lparr>sp_status := ''succeeded'', sp_provider_post_id := Some post,
       sp_receipt := canonical_receipt receipt, sp_failure_reason := [],
       sp_completed_at := Some now, sp_updated_at := now\<rparr>"

definition sp_reconcile_success ::
  "sp_table \<Rightarrow> string \<Rightarrow> string \<Rightarrow> string \<Rightarrow> (string \<times> json) list \<Rightarrow> string
   \<Rightarrow> (sp_table \<times> sp_intent) res" where
  "sp_reconcile_success rows tenant ident post receipt now =
     rbind (sp_validate_identity tenant ident) (\<lambda>_.
     rbind (sp_validate_provider_id post) (\<lambda>_.
     rbind (sp_validate_receipt receipt) (\<lambda>_.
       case cas_update (\<lambda>r. sp_tenant_id r = tenant \<and> sp_intent_id r = ident
                          \<and> sp_status r = ''unknown'') (sp_reconciled post receipt now) rows of
         Some rows' \<Rightarrow> rbind (sp_get rows' tenant ident) (\<lambda>r. Inr (rows', r))
       | None \<Rightarrow>
           (case sql_find (\<lambda>r. sp_tenant_id r = tenant \<and> sp_intent_id r = ident) rows of
              Some r \<Rightarrow> if sp_reconciliation_matches r post receipt then Inr (rows, r)
                else Inl (SocialPublicationStateError ''only an unknown publication can be reconciled'')
            | None \<Rightarrow> Inl (SocialPublicationStateError ''only an unknown publication can be reconciled'')))))"

definition sp_revoke_matches ::
  "string \<Rightarrow> string option \<Rightarrow> string option \<Rightarrow> string option \<Rightarrow> sp_intent \<Rightarrow> bool" where
  "sp_revoke_matches tenant channel account run r =
     (sp_tenant_id r = tenant \<and> sp_status r = ''pending''
      \<and> (case channel of None \<Rightarrow> True | Some v \<Rightarrow> sp_channel_id r = v)
      \<and> (case account of None \<Rightarrow> True | Some v \<Rightarrow> sp_account_id r = v)
      \<and> (case run of None \<Rightarrow> True | Some v \<Rightarrow> sp_run_id r = v))"

definition sp_revoked :: "string \<Rightarrow> string \<Rightarrow> sp_intent \<Rightarrow> sp_intent" where
  "sp_revoked reason now r = r\<lparr>sp_status := ''revoked'', sp_failure_reason := reason,
     sp_revoked_at := Some now, sp_updated_at := now\<rparr>"

definition sp_revoke_unused ::
  "sp_table \<Rightarrow> string \<Rightarrow> string option \<Rightarrow> string option \<Rightarrow> string option \<Rightarrow> string \<Rightarrow> string
   \<Rightarrow> (sp_table \<times> nat) res" where
  "sp_revoke_unused rows tenant channel account run reason now =
     rbind (raise_first
       [(\<not> sp_identifier tenant, ValueError ''tenant_id is invalid''),
        (case channel of None \<Rightarrow> False | Some v \<Rightarrow> \<not> sp_channel v, ValueError ''channel_id is invalid''),
        (case account of None \<Rightarrow> False | Some v \<Rightarrow> \<not> sp_identifier v, ValueError ''account_id is invalid''),
        (case run of None \<Rightarrow> False | Some v \<Rightarrow> \<not> sp_identifier v, ValueError ''run_id is invalid'')]) (\<lambda>_.
     rbind (sp_validate_reason reason) (\<lambda>_.
       let p = sp_revoke_matches tenant channel account run
       in Inr (sql_update p (sp_revoked reason now) rows, sql_count p rows)))"

definition sp_list_for_run :: "sp_table \<Rightarrow> string \<Rightarrow> string \<Rightarrow> sp_intent list res" where
  "sp_list_for_run rows tenant run =
     rbind (sp_validate_identity tenant run) (\<lambda>_.
       Inr (sort_key sp_created_at (sort_key sp_intent_id
         (filter (\<lambda>r. sp_tenant_id r = tenant \<and> sp_run_id r = run) rows))))"

section \<open>The store as an effect ledger\<close>

abbreviation sp_idem :: "sp_intent \<Rightarrow> string \<times> string" where
  "sp_idem r \<equiv> (sp_tenant_id r, sp_idempotency_digest r)"

abbreviation sp_binding :: "sp_intent \<Rightarrow> string \<times> string" where
  "sp_binding r \<equiv> (sp_tenant_id r, sp_binding_digest r)"

text \<open>Every operation other than \<open>reserve\<close> that changes the table, when it succeeds.\<close>

inductive sp_step :: "sp_table \<Rightarrow> sp_table \<Rightarrow> bool" where
  contained: "sp_record_container rows t e f c now = Inr (rows', r) \<Longrightarrow> sp_step rows rows'"
| completed: "sp_complete rows t e f post rec now = Inr (rows', r) \<Longrightarrow> sp_step rows rows'"
| unknown: "sp_mark_unknown rows t e f reason now = Inr (rows', r) \<Longrightarrow> sp_step rows rows'"
| failed: "sp_mark_failed rows t e f reason now = Inr (rows', r) \<Longrightarrow> sp_step rows rows'"
| reconciled: "sp_reconcile_success rows t e post rec now = Inr (rows', r) \<Longrightarrow> sp_step rows rows'"
| revoked: "sp_revoke_unused rows t ch ac run reason now = Inr (rows', n) \<Longrightarrow> sp_step rows rows'"

abbreviation sp_kept :: "sp_intent \<Rightarrow> sp_intent \<Rightarrow> bool" where
  "sp_kept r r' \<equiv> sp_idem r' = sp_idem r \<and> sp_binding r' = sp_binding r
     \<and> status_edge (sp_status r) (sp_status r')"

lemma sp_apply_keys [simp]:
  "sp_tenant_id (sp_apply c now r) = sp_tenant_id r" "sp_intent_id (sp_apply c now r) = sp_intent_id r"
  "sp_idempotency_digest (sp_apply c now r) = sp_idempotency_digest r"
  "sp_binding_digest (sp_apply c now r) = sp_binding_digest r"
  "sp_status (sp_apply c now r) = sc_status c" "sp_fence (sp_apply c now r) = sp_fence r"
  by (simp_all add: sp_apply_def)

lemma sp_transition_Inr:
  assumes "sp_transition rows t e f c now = Inr (rows', r)"
  shows "sp_check_change t e f c = Inr ()"
    and "rows' = sql_update (\<lambda>r. sp_tenant_id r = t \<and> sp_intent_id r = e \<and> sp_status r = ''pending''
          \<and> sp_fence r = f) (sp_apply c now) rows"
    and "sql_count (\<lambda>r. sp_tenant_id r = t \<and> sp_intent_id r = e \<and> sp_status r = ''pending''
          \<and> sp_fence r = f) rows = 1"
    and "sp_get rows' t e = Inr r"
  using assms
  by (auto simp: sp_transition_def rbind_Inr_iff cas_update_def split: option.splits if_splits)

lemma sp_transition_kept:
  assumes "sp_transition rows t e f c now = Inr (rows', r)"
  shows "list_all2 sp_kept rows rows'"
proof -
  have "sc_status c \<in> set SP_STATUSES"
    using sp_transition_Inr(1) [OF assms] by (auto simp: sp_check_change_def rbind_Inr_iff)
  then have "status_edge ''pending'' (sc_status c)" by (auto simp: SP_STATUSES_def status_edge_def)
  then show ?thesis unfolding sp_transition_Inr(2) [OF assms]
    by (intro sql_update_list_all2) auto
qed

lemma sp_reconcile_Inr:
  assumes "sp_reconcile_success rows t e post rec now = Inr (rows', r)"
  obtains (moved) "rows' = sql_update (\<lambda>r. sp_tenant_id r = t \<and> sp_intent_id r = e
        \<and> sp_status r = ''unknown'') (sp_reconciled post rec now) rows"
      "sql_count (\<lambda>r. sp_tenant_id r = t \<and> sp_intent_id r = e \<and> sp_status r = ''unknown'') rows = 1"
      "sp_get rows' t e = Inr r"
  | (same) "rows' = rows" "sp_reconciliation_matches r post rec"
      "sql_find (\<lambda>r. sp_tenant_id r = t \<and> sp_intent_id r = e) rows = Some r"
  using assms
  by (auto simp: sp_reconcile_success_def rbind_Inr_iff cas_update_def split: option.splits if_splits)

lemma sp_revoke_rows:
  "sp_revoke_unused rows t ch ac run reason now = Inr (rows', n) \<Longrightarrow>
   rows' = sql_update (sp_revoke_matches t ch ac run) (sp_revoked reason now) rows"
  by (auto simp: sp_revoke_unused_def rbind_Inr_iff Let_def)

lemmas sp_transitions = sp_record_container_def sp_complete_def sp_mark_unknown_def sp_mark_failed_def

lemma sp_step_kept: "sp_step rows rows' \<Longrightarrow> list_all2 sp_kept rows rows'"
proof (induction rule: sp_step.induct)
  case (reconciled rows t e post rec now rows' r)
  then show ?case
    by (cases rule: sp_reconcile_Inr)
      (auto intro!: sql_update_list_all2 list.rel_refl simp: sp_reconciled_def status_edge_def)
next
  case (revoked rows t ch ac run reason now rows' n)
  show ?case unfolding sp_revoke_rows [OF revoked]
    by (auto intro!: sql_update_list_all2 simp: sp_revoked_def sp_revoke_matches_def status_edge_def)
qed (unfold sp_transitions, (erule sp_transition_kept)+)

lemma sp_find_existing_None:
  "sp_find_existing rows i = None \<Longrightarrow> sp_idem i \<notin> sp_idem ` set rows \<and> sp_binding i \<notin> sp_binding ` set rows"
  by (auto simp: sp_find_existing_def sql_find_None split: option.splits)

lemma sp_find_existing_Some:
  "sp_find_existing rows i = Some r \<Longrightarrow> r \<in> set rows \<and> sp_tenant_id r = sp_tenant_id i
     \<and> (sp_idempotency_digest r = sp_idempotency_digest i \<or> sp_binding_digest r = sp_binding_digest i)"
  by (auto simp: sp_find_existing_def dest!: sql_find_Some split: option.splits)

lemma sp_validate_pending:
  "sp_validate_intent i True = Inr u \<Longrightarrow> sp_status i = ''pending'' \<and> 1 \<le> sp_fence i"
  by (auto simp: sp_validate_intent_def rbind_Inr_iff)

interpretation sp_ledger: effect_ledger sp_reserve sp_step sp_idem sp_binding sp_status sp_row
proof
  fix rows rows' i v
  assume r: "sp_reserve rows i = Inr (rows', v)" "res_executable v"
  then show "rows' = rows @ [sp_row i] \<and> res_intent v = i \<and> sp_status i = ''pending''
      \<and> sp_idem i \<notin> sp_idem ` set rows \<and> sp_binding i \<notin> sp_binding ` set rows"
    using sp_find_existing_None [of rows i]
    by (auto simp: sp_reserve_def sp_insert_def rbind_Inr_iff sp_validate_pending
        split: option.splits if_splits)
next
  fix rows rows' i v
  assume r: "sp_reserve rows i = Inr (rows', v)" "\<not> res_executable v"
  then show "rows' = rows \<and> res_intent v \<in> set rows \<and> sp_binding (res_intent v) = sp_binding i
      \<and> (res_replayed v \<longleftrightarrow> sp_status (res_intent v) = ''succeeded'')"
    using sp_find_existing_Some [of rows i]
    by (auto simp: sp_reserve_def rbind_Inr_iff split: option.splits if_splits)
next
  fix rows rows' assume "sp_step rows rows'"
  then show "list_all2 sp_kept rows rows'" by (rule sp_step_kept)
qed (simp_all add: sp_row_def)

section \<open>The table's invariant\<close>

definition sp_row_ok :: "sp_intent \<Rightarrow> bool" where
  "sp_row_ok r \<longleftrightarrow> sp_status r \<in> set SP_STATUSES \<and> 1 \<le> sp_fence r
     \<and> (sp_status r = ''succeeded'' \<longrightarrow> sp_provider_post_id r \<noteq> None
          \<and> sp_completed_at r \<noteq> None \<and> sp_failure_reason r = [])
     \<and> (sp_status r = ''revoked'' \<longrightarrow> sp_failure_reason r \<noteq> [] \<and> sp_revoked_at r \<noteq> None)"

definition sp_inv :: "sp_table \<Rightarrow> bool" where
  "sp_inv rows \<longleftrightarrow> distinct (map sp_intent_id rows) \<and> (\<forall>r \<in> set rows. sp_row_ok r)"

lemma sp_inv_update:
  assumes "sp_inv rows" and "\<And>r. p r \<Longrightarrow> sp_intent_id (f r) = sp_intent_id r"
    and "\<And>r. p r \<Longrightarrow> sp_row_ok r \<Longrightarrow> sp_row_ok (f r)"
  shows "sp_inv (sql_update p f rows)"
  using assms by (auto simp: sp_inv_def map_sql_update_key set_sql_update)

text \<open>A change keeps the invariant when it succeeds with its evidence and does not revoke.\<close>

lemma sp_transition_inv:
  assumes "sp_inv rows" and "sp_transition rows t e f c now = Inr (rows', r)"
    and "sc_status c = ''succeeded'' \<Longrightarrow> sc_post_id c \<noteq> None \<and> sc_completed c \<and> sc_failure_reason c = []"
    and "sc_status c \<noteq> ''revoked''"
  shows "sp_inv rows'"
proof -
  have "sc_status c \<in> set SP_STATUSES"
    using sp_transition_Inr(1) [OF assms(2)] by (auto simp: sp_check_change_def rbind_Inr_iff)
  then show ?thesis unfolding sp_transition_Inr(2) [OF assms(2)] using assms(1,3,4)
    by (intro sp_inv_update) (auto simp: sp_row_ok_def sp_apply_def)
qed

lemma sp_step_inv: "sp_step rows rows' \<Longrightarrow> sp_inv rows \<Longrightarrow> sp_inv rows'"
proof (induction rule: sp_step.induct)
  case (reconciled rows t e post rec now rows' r)
  then show ?case
    by (cases rule: sp_reconcile_Inr)
      (auto intro!: sp_inv_update simp: sp_row_ok_def sp_reconciled_def SP_STATUSES_def)
next
  case (revoked rows t ch ac run reason now rows' n)
  have "reason \<noteq> []"
    using revoked(1) by (auto simp: sp_revoke_unused_def rbind_Inr_iff sp_validate_reason_def)
  then show ?case unfolding sp_revoke_rows [OF revoked(1)] using revoked(2)
    by (auto intro!: sp_inv_update simp: sp_row_ok_def sp_revoked_def SP_STATUSES_def)
qed (unfold sp_transitions, (rule sp_transition_inv, assumption+, simp_all add: sp_failure_def)+)

lemma sp_reserve_inv:
  assumes "sp_reserve rows i = Inr (rows', v)" and "sp_inv rows"
  shows "sp_inv rows'"
proof (cases "res_executable v")
  case True
  have i: "sp_insert rows i = Inr rows'" "sp_validate_intent i True = Inr ()"
    using assms(1) True by (auto simp: sp_reserve_def rbind_Inr_iff split: option.splits if_splits)
  then have "sp_row_ok (sp_row i)"
    using sp_validate_pending [OF i(2)] by (simp add: sp_row_ok_def sp_row_def SP_STATUSES_def)
  moreover have "rows' = rows @ [sp_row i]" "sp_intent_id i \<notin> sp_intent_id ` set rows"
    using i(1) by (auto simp: sp_insert_def)
  ultimately show ?thesis using assms(2) by (auto simp: sp_inv_def sp_row_def)
next
  case False
  then show ?thesis using sp_ledger.refused_existing [OF assms(1)] assms(2) by simp
qed

lemma sp_history_inv: "history sp_reserve sp_step rows log \<Longrightarrow> sp_inv rows"
  by (induction rule: history.induct) (auto simp: sp_inv_def [of "[]"] intro: sp_reserve_inv sp_step_inv)

text \<open>Under the invariant \<open>_transition\<close> succeeds on the pending row of its fence.\<close>

lemma sp_transition_ok:
  assumes "distinct (map sp_intent_id rows)" and "sp_check_change t e f c = Inr ()" and "r \<in> set rows"
    and "sp_tenant_id r = t" "sp_intent_id r = e" "sp_status r = ''pending''" "sp_fence r = f"
  shows "sp_transition rows t e f c now =
    Inr (map (\<lambda>x. if x = r then sp_apply c now r else x) rows, sp_apply c now r)"
proof -
  let ?p = "\<lambda>r. sp_tenant_id r = t \<and> sp_intent_id r = e \<and> sp_status r = ''pending'' \<and> sp_fence r = f"
  have "cas_update ?p (sp_apply c now) rows = Some (map (\<lambda>x. if x = r then sp_apply c now r else x) rows)"
    by (rule cas_update_unique [OF assms(1,3)]) (use assms in auto)
  moreover have "sql_find (\<lambda>r. sp_tenant_id r = t \<and> sp_intent_id r = e)
      (map (\<lambda>x. if x = r then sp_apply c now r else x) rows) = Some (sp_apply c now r)"
    by (rule sql_find_replaced [OF assms(1,3)]) (use assms in auto)
  moreover have "sp_validate_identity t e = Inr ()"
    using assms(2) by (auto simp: sp_check_change_def rbind_Inr_iff)
  ultimately show ?thesis using assms(2) by (simp add: sp_transition_def sp_get_def)
qed

lemma sp_transition_refused:
  assumes "sp_check_change t e f c = Inr ()"
    and "\<And>r. r \<in> set rows \<Longrightarrow> sp_tenant_id r = t \<Longrightarrow> sp_intent_id r = e
        \<Longrightarrow> sp_status r = ''pending'' \<Longrightarrow> sp_fence r \<noteq> f"
  shows "sp_transition rows t e f c now =
    Inl (SocialPublicationStateError ''publication intent is not pending for this fence'')"
proof -
  have "cas_update (\<lambda>r. sp_tenant_id r = t \<and> sp_intent_id r = e \<and> sp_status r = ''pending''
      \<and> sp_fence r = f) (sp_apply c now) rows = None"
    using assms(2) by (intro cas_update_refused) auto
  then show ?thesis using assms(1) by (simp add: sp_transition_def)
qed

section \<open>Properties\<close>

definition sample_hash :: string where
  "sample_hash = replicate 64 CHR ''0''"

definition sample_publication :: sp_intent where
  "sample_publication = \<lparr>sp_intent_id = ''publication-1'', sp_tenant_id = ''tenant-a'', sp_channel_id = ''x'',
     sp_account_id = ''account-1'', sp_run_id = ''run-1'', sp_artifact_id = ''artifact-1'',
     sp_artifact_hash = sample_hash, sp_content_hash = sample_hash, sp_media_url_hash = None,
     sp_media_hash = None, sp_confirmation_hash = None, sp_greenlight_id = ''greenlight-1'',
     sp_greenlight_fencing_token = 0, sp_budget_cents = 0, sp_idempotency_digest = sample_hash,
     sp_binding_digest = sample_hash, sp_status = ''pending'', sp_fence = 1,
     sp_provider_container_id = None, sp_provider_post_id = None, sp_receipt = [],
     sp_failure_reason = [], sp_created_at = ''t0'', sp_updated_at = ''t0'', sp_completed_at = None,
     sp_revoked_at = None\<rparr>"

lemma sample_publication_valid: "sp_validate_intent sample_publication True = Inr ()"
  by code_simp

lemma sample_publication_row: "sp_row sample_publication = sample_publication"
  by (simp add: sp_row_def sample_publication_def canonical_receipt_def)

lemma sample_publication_fields:
  "sp_tenant_id sample_publication = ''tenant-a''" "sp_intent_id sample_publication = ''publication-1''"
  "sp_status sample_publication = ''pending''" "sp_fence sample_publication = 1"
  by (simp_all add: sample_publication_def)

lemma sample_publication_reserve:
  "sp_reserve [] sample_publication = Inr ([sample_publication],
     \<lparr>res_intent = sample_publication, res_executable = True, res_replayed = False\<rparr>)"
  by (simp add: sp_reserve_def sample_publication_valid sp_find_existing_def sql_find_def sp_insert_def
      sample_publication_row)

lemma sample_publication_history: "history sp_reserve sp_step [sample_publication] [sample_publication]"
  using history.granted [where reserve = sp_reserve, OF history.start sample_publication_reserve] by simp

text \<open>C1: over every history of the publication store, the reservations granted for execution have
  pairwise distinct idempotency keys and bindings: no post is authorised twice.\<close>

theorem sp_publishes_at_most_once:
  assumes "history sp_reserve sp_step rows log"
  shows "distinct (map sp_binding log) \<and> distinct (map sp_idem log)
    \<and> map sp_binding log = map sp_binding rows \<and> map sp_idem log = map sp_idem rows"
  using sp_ledger.history_keys [OF assms] by simp

definition sample_second :: sp_intent where
  "sample_second = sample_publication\<lparr>sp_intent_id := ''publication-2'',
     sp_idempotency_digest := replicate 64 CHR ''1'', sp_binding_digest := replicate 64 CHR ''1''\<rparr>"

lemma sample_two_history:
  "history sp_reserve sp_step [sample_publication, sample_second] [sample_publication, sample_second]"
proof -
  have v: "sp_validate_intent sample_second True = Inr ()" by code_simp
  have ne: "sample_hash \<noteq> replicate 64 CHR ''1''" by code_simp
  have "sp_row sample_second = sample_second"
    using sample_publication_row by (simp add: sp_row_def sample_second_def sample_publication_def canonical_receipt_def)
  then have "sp_reserve [sample_publication] sample_second = Inr ([sample_publication, sample_second],
      \<lparr>res_intent = sample_second, res_executable = True, res_replayed = False\<rparr>)"
    using ne v by (simp add: sp_reserve_def sp_find_existing_def sql_find_def sp_insert_def)
      (simp add: sample_second_def sample_publication_def)
  from history.granted [where reserve = sp_reserve, OF sample_publication_history this]
  show ?thesis by simp
qed

theorem sp_publishes_at_most_once_witness:
  "distinct (map sp_binding [sample_publication, sample_second])"
  using sp_publishes_at_most_once [OF sample_two_history] by blast

text \<open>The outcome of a publication is final: once a row is succeeded, failed or revoked, no
  sequence of store operations changes its status or its identity.\<close>

theorem sp_outcome_final:
  assumes "sp_step\<^sup>*\<^sup>* rows rows'" and "n < length rows"
    and "sp_status (rows ! n) \<in> {''succeeded'', ''failed'', ''revoked''}"
  shows "n < length rows' \<and> sp_status (rows' ! n) = sp_status (rows ! n)
    \<and> sp_idem (rows' ! n) = sp_idem (rows ! n) \<and> sp_binding (rows' ! n) = sp_binding (rows ! n)"
proof -
  have "n < length rows' \<and> sp_idem (rows' ! n) = sp_idem (rows ! n) \<and> sp_binding (rows' ! n) = sp_binding (rows ! n)"
    using assms(1,2)
    by (induction rule: rtranclp_induct) (auto dest!: sp_step_kept simp: list_all2_conv_all_nth)
  then show ?thesis
    using sp_ledger.steps_terminal [OF assms(1,2)] assms(3) by (simp add: terminal_status_def)
qed

theorem sp_outcome_final_witness:
  "sp_status ([sample_publication\<lparr>sp_status := ''failed''\<rparr>] ! 0) = ''failed''"
  using sp_outcome_final [of "[sample_publication\<lparr>sp_status := ''failed''\<rparr>]"
      "[sample_publication\<lparr>sp_status := ''failed''\<rparr>]" 0] by simp

text \<open>Reconciliation is idempotent and binding: once an unknown publication was reconciled with a
  receipt that names a binding digest, the same evidence returns the stored intent and changes
  nothing, and any other post id is refused.\<close>

theorem sp_reconcile_idempotent:
  assumes "history sp_reserve sp_step rows log"
    and "sp_reconcile_success rows t e post rec now = Inr (rows', r')"
    and "jget ''reconciliation_binding_digest'' rec = Some (JStr d)" and "is_sha256 d"
  shows "sp_reconcile_success rows' t e post rec later = Inr (rows', r')
    \<and> (sp_validate_provider_id other = Inr () \<and> other \<noteq> post \<longrightarrow>
      sp_reconcile_success rows' t e other rec later
        = Inl (SocialPublicationStateError ''only an unknown publication can be reconciled''))"
proof -
  have v: "sp_validate_identity t e = Inr ()" "sp_validate_provider_id post = Inr ()"
    "sp_validate_receipt rec = Inr ()"
    using assms(2) by (auto simp: sp_reconcile_success_def rbind_Inr_iff)
  have m: "sp_reconciliation_matches r' post rec"
    and f: "sql_find (\<lambda>r. sp_tenant_id r = t \<and> sp_intent_id r = e) rows' = Some r'"
    using assms(2)
  proof (atomize (full), cases rule: sp_reconcile_Inr)
    case moved
    have g: "sql_find (\<lambda>r. sp_tenant_id r = t \<and> sp_intent_id r = e) rows' = Some r'"
      using moved(3) by (auto simp: sp_get_def rbind_Inr_iff split: option.splits)
    obtain x where x: "x \<in> set rows" "sp_tenant_id x = t" "sp_intent_id x = e" "sp_status x = ''unknown''"
      using moved(2) sql_count_pos [of "\<lambda>r. sp_tenant_id r = t \<and> sp_intent_id r = e \<and> sp_status r = ''unknown''" rows]
      by auto
    have d: "distinct (map sp_intent_id rows)" using sp_history_inv [OF assms(1)] by (simp add: sp_inv_def)
    have "sp_reconciled post rec now x \<in> set rows'" unfolding moved(1) using x by (auto simp: set_sql_update)
    moreover have "distinct (map sp_intent_id rows')"
      unfolding moved(1) using d by (simp add: map_sql_update_key sp_reconciled_def)
    moreover have "r' \<in> set rows' \<and> sp_intent_id r' = e" using sql_find_Some [OF g] by blast
    moreover have "sp_intent_id (sp_reconciled post rec now x) = e" using x by (simp add: sp_reconciled_def)
    ultimately have "r' = sp_reconciled post rec now x"
      using unique_key [of sp_intent_id rows' r' "sp_reconciled post rec now x"] by simp
    then show "sp_reconciliation_matches r' post rec \<and>
        sql_find (\<lambda>r. sp_tenant_id r = t \<and> sp_intent_id r = e) rows' = Some r'"
      using g assms(3,4) by (simp add: sp_reconciliation_matches_def sp_reconciled_def jget_canonical_receipt)
  qed simp
  have inv: "sp_inv rows'"
    using sp_step_inv [OF sp_step.reconciled [OF assms(2)]] sp_history_inv [OF assms(1)] by blast
  have "sp_status r' = ''succeeded''" "r' \<in> set rows'" "sp_tenant_id r' = t" "sp_intent_id r' = e"
    using m sql_find_Some [OF f] by (auto simp: sp_reconciliation_matches_def)
  then have "cas_update (\<lambda>r. sp_tenant_id r = t \<and> sp_intent_id r = e \<and> sp_status r = ''unknown'') g rows' = None" for g
    using inv by (intro cas_update_refused) (auto simp: sp_inv_def dest: unique_key)
  note no = this
  have "sp_reconcile_success rows' t e post rec later = Inr (rows', r')"
    using v m f no by (simp add: sp_reconcile_success_def)
  moreover have "sp_reconcile_success rows' t e other rec later
      = Inl (SocialPublicationStateError ''only an unknown publication can be reconciled'')"
    if o: "sp_validate_provider_id other = Inr ()" "other \<noteq> post"
  proof -
    have "sp_provider_post_id r' = Some post" using m by (simp add: sp_reconciliation_matches_def)
    then have "\<not> sp_reconciliation_matches r' other rec" using o by (simp add: sp_reconciliation_matches_def)
    then show ?thesis using v o f no by (simp add: sp_reconcile_success_def)
  qed
  ultimately show ?thesis by blast
qed

definition sample_evidence :: "(string \<times> json) list" where
  "sample_evidence = [(''reconciliation_binding_digest'', JStr sample_hash)]"

definition sample_unknown :: sp_intent where
  "sample_unknown = sp_apply (sp_failure ''unknown'' ''lost'') ''t1'' sample_publication"

lemma sample_unknown_history: "history sp_reserve sp_step [sample_unknown] [sample_publication]"
proof -
  have "sp_check_change ''tenant-a'' ''publication-1'' 1 (sp_failure ''unknown'' ''lost'') = Inr ()"
    by code_simp
  then have "sp_mark_unknown [sample_publication] ''tenant-a'' ''publication-1'' 1 ''lost'' ''t1''
      = Inr ([sample_unknown], sample_unknown)"
    unfolding sp_mark_unknown_def
    using sp_transition_ok [of "[sample_publication]" _ _ _ _ sample_publication]
    by (simp add: sample_publication_fields sample_unknown_def)
  then show ?thesis
    using history.stepped [OF sample_publication_history] sp_step.unknown by blast
qed

lemma sample_reconcile:
  "sp_reconcile_success [sample_unknown] ''tenant-a'' ''publication-1'' ''9'' sample_evidence ''t2''
     = Inr ([sp_reconciled ''9'' sample_evidence ''t2'' sample_unknown],
            sp_reconciled ''9'' sample_evidence ''t2'' sample_unknown)"
proof -
  have "sp_validate_identity ''tenant-a'' ''publication-1'' = Inr ()" "sp_validate_provider_id ''9'' = Inr ()"
    "sp_validate_receipt sample_evidence = Inr ()" by code_simp+
  then show ?thesis
    by (simp add: sp_reconcile_success_def cas_update_def sql_count_def sql_update_def sp_get_def sql_find_def
        sample_unknown_def sp_failure_def sample_publication_fields sp_reconciled_def)
qed

theorem sp_reconcile_idempotent_witness:
  "sp_reconcile_success [sp_reconciled ''9'' sample_evidence ''t2'' sample_unknown] ''tenant-a''
     ''publication-1'' ''10'' sample_evidence ''t3''
   = Inl (SocialPublicationStateError ''only an unknown publication can be reconciled'')"
proof -
  have "jget ''reconciliation_binding_digest'' sample_evidence = Some (JStr sample_hash)"
    by (simp add: sample_evidence_def jget_def)
  moreover have "is_sha256 sample_hash" "sp_validate_provider_id ''10'' = Inr ()" by code_simp+
  ultimately show ?thesis
    using sp_reconcile_idempotent [OF sample_unknown_history sample_reconcile, of sample_hash "''t3''" "''10''"]
    by simp
qed

end
