(* ===== verification/Publication.thy ===== *)
theory Publication
  imports PublicationStore Models Url
begin

text \<open>
  \<open>backend/agency_runtime/social_publication.py\<close>: the authority that reserves a durable intent,
  posts to X or Instagram, verifies the post by reading it back, and records the outcome. The
  state is the store's table and the log of HTTP requests sent so far; the network is a function
  from the number of requests already sent to the reply. What the source takes from elsewhere is
  an argument: the stored connection, the decrypted tokens (None when decryption raises), the clock
  and \<open>datetime.fromisoformat\<close> (None: ValueError; Some None: no time zone; Some (Some t): the instant).
  The OAuth header values, which no decision reads, are not part of the log.
\<close>

section \<open>Commands and results\<close>

record pub_command =
  pcmd_tenant_id :: string
  pcmd_channel_id :: string
  pcmd_account_id :: string
  pcmd_run_id :: string
  pcmd_artifact_id :: string
  pcmd_artifact_hash :: string
  pcmd_content :: string
  pcmd_media_url :: "string option"
  pcmd_media_hash :: "string option"
  pcmd_greenlight_id :: string
  pcmd_greenlight_fencing_token :: int
  pcmd_budget_cents :: int
  pcmd_idempotency_key :: string
  pcmd_confirmation_hash :: "string option"

record pub_result =
  pr_intent_id :: string
  pr_channel_id :: string
  pr_account_id :: string
  pr_run_id :: string
  pr_artifact_id :: string
  pr_artifact_hash :: string
  pr_greenlight_id :: string
  pr_greenlight_fencing_token :: int
  pr_status :: string
  pr_fence :: int
  pr_provider_container_id :: "string option"
  pr_provider_post_id :: "string option"
  pr_receipt :: "(string \<times> json) list"
  pr_replayed :: bool

definition pub_from_intent :: "sp_intent \<Rightarrow> bool \<Rightarrow> pub_result" where
  "pub_from_intent i replayed =
     \<lparr>pr_intent_id = sp_intent_id i, pr_channel_id = sp_channel_id i, pr_account_id = sp_account_id i,
      pr_run_id = sp_run_id i, pr_artifact_id = sp_artifact_id i, pr_artifact_hash = sp_artifact_hash i,
      pr_greenlight_id = sp_greenlight_id i,
      pr_greenlight_fencing_token = sp_greenlight_fencing_token i, pr_status = sp_status i,
      pr_fence = sp_fence i, pr_provider_container_id = sp_provider_container_id i,
      pr_provider_post_id = sp_provider_post_id i, pr_receipt = sp_receipt i, pr_replayed = replayed\<rparr>"

section \<open>Diagnostics of a rejection\<close>

definition safe_numeric_code :: "json option \<Rightarrow> string" where
  "safe_numeric_code v =
     (let rendered = (case v of Some (JInt i) \<Rightarrow> show_int i | Some (JStr s) \<Rightarrow> strip s | _ \<Rightarrow> [])
      in if str_isdigit rendered \<and> length rendered \<le> 32 then rendered else [])"

definition is_token_char :: "char \<Rightarrow> bool" where
  "is_token_char c = (is_alnum c \<or> c \<in> {CHR ''.'', CHR ''_'', CHR ''-''})"

definition safe_diagnostic_token :: "json option \<Rightarrow> string \<Rightarrow> nat \<Rightarrow> string" where
  "safe_diagnostic_token v fallback max_length = (case v of
     Some (JStr s) \<Rightarrow>
       let rendered = strip s in
       if rendered = [] \<or> max_length < length rendered \<or> \<not> list_all is_token_char rendered
       then fallback else rendered
   | _ \<Rightarrow> fallback)"

text \<open>\<open>SocialPublicationProviderRejectedError.__init__\<close>.\<close>

definition provider_rejected :: "string \<Rightarrow> int \<Rightarrow> string \<Rightarrow> string \<Rightarrow> string \<Rightarrow> exn" where
  "provider_rejected phase status code subcode error_type =
     SocialPublicationProviderRejectedError
       (safe_diagnostic_token (Some (JStr phase)) ''provider'' 64)
       (if 100 \<le> status \<and> status \<le> 599 then status else 0)
       (safe_numeric_code (Some (JStr code))) (safe_numeric_code (Some (JStr subcode)))
       (safe_diagnostic_token (Some (JStr error_type)) [] 128)"

definition or_else :: "string \<Rightarrow> string \<Rightarrow> string" where
  "or_else s fallback = (if s = [] then fallback else s)"

definition rejection_reason :: "string \<Rightarrow> int \<Rightarrow> string \<Rightarrow> string \<Rightarrow> string \<Rightarrow> string" where
  "rejection_reason phase status code subcode error_type =
     take 128 (intercalate '':'' [''provider_rejected'', or_else phase ''provider'', show_int status,
       or_else code ''none'', or_else subcode ''none'', or_else error_type ''none''])"

definition rejection_metadata :: "json option \<Rightarrow> string \<times> string \<times> string" where
  "rejection_metadata body = (case body of
     Some (JObj payload) \<Rightarrow> (case jget ''error'' payload of
       Some (JObj e) \<Rightarrow> (safe_numeric_code (jget ''code'' e), safe_numeric_code (jget ''error_subcode'' e),
                        safe_diagnostic_token (jget ''type'' e) [] 128)
     | _ \<Rightarrow> ([], [], []))
   | _ \<Rightarrow> ([], [], []))"

section \<open>Validation and the intent\<close>

type_synonym iso_reader = "string \<Rightarrow> int option option"

definition token_expired :: "iso_reader \<Rightarrow> string option \<Rightarrow> string \<Rightarrow> bool" where
  "token_expired isot expires_at now = (case expires_at of
     None \<Rightarrow> False
   | Some e \<Rightarrow> (case (isot e, isot now) of
       (Some (Some x), Some (Some c)) \<Rightarrow> x \<le> c
     | _ \<Rightarrow> True))"

definition bad_https_url :: "string \<Rightarrow> bool" where
  "bad_https_url s = (case urlsplit s of
     Inl e \<Rightarrow> True
   | Inr u \<Rightarrow> url_scheme u \<noteq> ''https'' \<or> url_hostname u = [] \<or> url_has_userinfo u \<or> url_fragment u \<noteq> [])"

definition pub_validate :: "pub_command \<Rightarrow> pub_command res" where
  "pub_validate c =
     (let content = strip (pcmd_content c) in
      rbind (raise_first
        [(content = [] \<or> 25000 < utf8_len content, ValueError ''publication content is invalid''),
         (pcmd_channel_id c \<notin> {''x'', ''instagram''}, ValueError ''publication channel is invalid''),
         (\<exists>v \<in> set [pcmd_tenant_id c, pcmd_account_id c, pcmd_run_id c, pcmd_artifact_id c, pcmd_greenlight_id c].
            v = [] \<or> 256 < length v, ValueError ''publication identity is invalid''),
         (\<not> is_sha256 (pcmd_artifact_hash c), ValueError ''artifact hash is invalid''),
         (pcmd_greenlight_fencing_token c < 0 \<or> pcmd_budget_cents c < 0,
            ValueError ''publication authority is invalid''),
         (case pcmd_confirmation_hash c of None \<Rightarrow> False | Some h \<Rightarrow> \<not> is_sha256 h,
            ValueError ''publication confirmation hash is invalid''),
         (length (pcmd_idempotency_key c) < 8 \<or> 200 < length (pcmd_idempotency_key c),
            ValueError ''publication idempotency key is invalid''),
         (case pcmd_media_url c of None \<Rightarrow> False | Some u \<Rightarrow> 4096 < utf8_len u,
            ValueError ''publication media URL is invalid''),
         (case pcmd_media_url c of None \<Rightarrow> False | Some u \<Rightarrow> urlsplit u = Inl (ValueError ''Invalid IPv6 URL''),
            ValueError ''Invalid IPv6 URL''),
         (case pcmd_media_url c of None \<Rightarrow> False | Some u \<Rightarrow> bad_https_url u,
            ValueError ''publication media URL is invalid''),
         (case pcmd_media_hash c of None \<Rightarrow> False | Some h \<Rightarrow> \<not> is_sha256 h,
            ValueError ''publication media hash is invalid''),
         (pcmd_channel_id c = ''instagram'' \<and> (pcmd_media_url c = None \<or> pcmd_media_hash c = None),
            ValueError ''Instagram publication requires media URL and hash'')]) (\<lambda>_.
        Inr (c\<lparr>pcmd_content := content\<rparr>)))"

definition pub_binding :: "pub_command \<Rightarrow> json" where
  "pub_binding c = JObj
     [(''tenant_id'', JStr (pcmd_tenant_id c)), (''channel_id'', JStr (pcmd_channel_id c)),
      (''account_id'', JStr (pcmd_account_id c)), (''run_id'', JStr (pcmd_run_id c)),
      (''artifact_id'', JStr (pcmd_artifact_id c)), (''artifact_hash'', JStr (pcmd_artifact_hash c)),
      (''content_hash'', JStr (sha256_text (pcmd_content c))),
      (''media_url_hash'', opt_json (map_option sha256_text (pcmd_media_url c))),
      (''media_hash'', opt_json (pcmd_media_hash c)),
      (''greenlight_id'', JStr (pcmd_greenlight_id c)),
      (''greenlight_fencing_token'', JInt (pcmd_greenlight_fencing_token c)),
      (''budget_cents'', JInt (pcmd_budget_cents c)),
      (''confirmation_hash'', opt_json (pcmd_confirmation_hash c))]"

definition pub_intent :: "pub_command \<Rightarrow> string \<Rightarrow> sp_intent" where
  "pub_intent c now =
     (let idem = sha256_text (pcmd_idempotency_key c) in
      \<lparr>sp_intent_id = stable_id ''social-publication-intent'' [JStr (pcmd_tenant_id c), JStr idem] 48,
       sp_tenant_id = pcmd_tenant_id c, sp_channel_id = pcmd_channel_id c,
       sp_account_id = pcmd_account_id c, sp_run_id = pcmd_run_id c, sp_artifact_id = pcmd_artifact_id c,
       sp_artifact_hash = pcmd_artifact_hash c, sp_content_hash = sha256_text (pcmd_content c),
       sp_media_url_hash = map_option sha256_text (pcmd_media_url c), sp_media_hash = pcmd_media_hash c,
       sp_confirmation_hash = pcmd_confirmation_hash c, sp_greenlight_id = pcmd_greenlight_id c,
       sp_greenlight_fencing_token = pcmd_greenlight_fencing_token c, sp_budget_cents = pcmd_budget_cents c,
       sp_idempotency_digest = idem, sp_binding_digest = sha256_text (canonical_json (pub_binding c)),
       sp_status = ''pending'', sp_fence = 1, sp_provider_container_id = None, sp_provider_post_id = None,
       sp_receipt = [], sp_failure_reason = [], sp_created_at = now, sp_updated_at = now,
       sp_completed_at = None, sp_revoked_at = None\<rparr>)"

section \<open>Actions\<close>

text \<open>An action runs on the table and the request log, and returns or raises; what it wrote stays.\<close>

record pub_request =
  rq_method :: string
  rq_url :: string
  rq_phase :: string
  rq_data :: "(string \<times> string) list"

record pub_state =
  ps_rows :: sp_table
  ps_log :: "pub_request list"

type_synonym 'a action = "pub_state \<Rightarrow> pub_state \<times> 'a res"

definition done_with :: "'a res \<Rightarrow> 'a action" where
  "done_with r = (\<lambda>s. (s, r))"

definition pbind :: "'a action \<Rightarrow> ('a \<Rightarrow> 'b action) \<Rightarrow> 'b action" where
  "pbind m f = (\<lambda>s. case m s of (s', Inl e) \<Rightarrow> (s', Inl e) | (s', Inr v) \<Rightarrow> f v s')"

text \<open>A store operation that is one transaction: on error the table is as before.\<close>

definition transact :: "(sp_table \<Rightarrow> (sp_table \<times> 'a) res) \<Rightarrow> 'a action" where
  "transact f = (\<lambda>s. case f (ps_rows s) of
     Inl e \<Rightarrow> (s, Inl e) | Inr (rows, v) \<Rightarrow> (s\<lparr>ps_rows := rows\<rparr>, Inr v))"

definition unknown_outcome :: "'a res" where
  "unknown_outcome = Inl (SocialPublicationUnknownError ''social publication outcome is unknown'')"

text \<open>\<open>except Exception ... raise SocialPublicationUnknownError\<close>.\<close>

definition or_unknown :: "'a action \<Rightarrow> 'a action" where
  "or_unknown m = (\<lambda>s. case m s of (s', Inl e) \<Rightarrow> (s', unknown_outcome) | r \<Rightarrow> r)"

datatype reply =
    NetError
  | Reply int "nat list" "json option" "(string \<times> string) list"

record response =
  rs_status :: int
  rs_body :: "json option"
  rs_headers :: "(string \<times> string) list"

type_synonym network = "nat \<Rightarrow> reply"

definition read_reply :: "reply \<Rightarrow> string \<Rightarrow> response res" where
  "read_reply r phase = (case r of
     NetError \<Rightarrow> unknown_outcome
   | Reply status sizes body headers \<Rightarrow>
       if 1048576 < sum_list sizes then unknown_outcome
       else if 400 \<le> status \<and> status < 500
       then (case rejection_metadata body of (code, subcode, error_type) \<Rightarrow>
         Inl (provider_rejected phase status code subcode error_type))
       else if status < 200 \<or> 300 \<le> status then unknown_outcome
       else Inr \<lparr>rs_status = status, rs_body = body, rs_headers = headers\<rparr>)"

definition send :: "network \<Rightarrow> string \<Rightarrow> string \<Rightarrow> string \<Rightarrow> (string \<times> string) list \<Rightarrow> response action" where
  "send net meth url phase data = (\<lambda>s.
     (s\<lparr>ps_log := ps_log s @ [\<lparr>rq_method = meth, rq_url = url, rq_phase = phase, rq_data = data\<rparr>]\<rparr>,
      read_reply (net (length (ps_log s))) phase))"

section \<open>Reading replies\<close>

definition json_object :: "response \<Rightarrow> (string \<times> json) list res" where
  "json_object r = (case rs_body r of Some (JObj d) \<Rightarrow> Inr d | _ \<Rightarrow> unknown_outcome)"

text \<open>\<open>isinstance(value, int)\<close> holds of a bool too: \<open>str(True)\<close>.\<close>

definition text_or_int :: "json option \<Rightarrow> string option" where
  "text_or_int v = (case v of
     Some (JInt i) \<Rightarrow> Some (show_int i)
   | Some (JBool b) \<Rightarrow> Some (if b then ''True'' else ''False'')
   | Some (JStr s) \<Rightarrow> Some s
   | _ \<Rightarrow> None)"

definition required_x_post_id :: "(string \<times> json) list \<Rightarrow> string \<Rightarrow> string res" where
  "required_x_post_id payload name = (case text_or_int (jget name payload) of
     Some s \<Rightarrow> if \<not> str_isdigit s \<or> 19 < length s then unknown_outcome else Inr s
   | None \<Rightarrow> unknown_outcome)"

definition required_identifier :: "(string \<times> json) list \<Rightarrow> string \<Rightarrow> string res" where
  "required_identifier payload name = (case text_or_int (jget name payload) of
     Some s \<Rightarrow> if s = [] \<or> 256 < length s \<or> (\<exists>c \<in> set s. code_point c < 32) then unknown_outcome else Inr s
   | None \<Rightarrow> unknown_outcome)"

definition required_secret :: "(string \<times> json) list \<Rightarrow> string \<Rightarrow> string res" where
  "required_secret tokens name = (case jget name tokens of
     Some (JStr s) \<Rightarrow> if s = [] \<or> 8192 < length s
       then Inl (SocialPublicationUnavailableError ''connected social credential is invalid'') else Inr s
   | _ \<Rightarrow> Inl (SocialPublicationUnavailableError ''connected social credential is invalid''))"

text \<open>\<open>hmac.compare_digest\<close> on two \<open>str\<close>: it raises \<open>TypeError\<close> unless both are ASCII.\<close>

definition is_ascii :: "string \<Rightarrow> bool" where
  "is_ascii s = list_all (\<lambda>c. code_point c < 128) s"

definition compare_digest :: "string \<Rightarrow> string \<Rightarrow> bool res" where
  "compare_digest a b =
     (if is_ascii a \<and> is_ascii b then Inr (a = b)
      else Inl (TypeError ''comparing strings with non-ASCII characters is not supported''))"

definition unless_unknown :: "bool \<Rightarrow> string \<Rightarrow> unit res" where
  "unless_unknown ok msg = (if ok then Inr () else Inl (SocialPublicationUnknownError msg))"

definition zulu :: "string \<Rightarrow> string" where
  "zulu s = concat (map (\<lambda>c. if c = CHR ''Z'' then ''+00:00'' else [c]) s)"

definition check_timestamp :: "iso_reader \<Rightarrow> json option \<Rightarrow> string \<Rightarrow> string res" where
  "check_timestamp isot v msg = (case v of
     Some (JStr s) \<Rightarrow>
       if 128 < length s then Inl (SocialPublicationUnknownError msg)
       else (case isot (zulu s) of Some (Some t) \<Rightarrow> Inr s | _ \<Rightarrow> Inl (SocialPublicationUnknownError msg))
   | _ \<Rightarrow> Inl (SocialPublicationUnknownError msg))"

definition header_of :: "response \<Rightarrow> string \<Rightarrow> string" where
  "header_of r name = (case map_of (rs_headers r) name of Some v \<Rightarrow> v | None \<Rightarrow> [])"

definition pub_receipt ::
  "string \<Rightarrow> string \<Rightarrow> response \<Rightarrow> sp_intent \<Rightarrow> string option \<Rightarrow> (string \<times> json) list" where
  "pub_receipt provider post r i container =
     [(''provider'', JStr provider), (''provider_post_id'', JStr post),
      (''provider_container_id'', opt_json container),
      (''provider_request_id'',
         JStr (take 256 (or_else (header_of r ''x-request-id'') (header_of r ''x-fb-trace-id'')))),
      (''artifact_hash'', JStr (sp_artifact_hash i)), (''binding_digest'', JStr (sp_binding_digest i)),
      (''response_status'', JInt (rs_status r))]"

section \<open>The authority\<close>

text \<open>Construction; the two float settings are read by comparison only, in any ordered domain.\<close>

record pub_env =
  pe_enabled :: bool
  pe_consumer_key :: string
  pe_consumer_secret :: string
  pe_poll_attempts :: nat
  pe_graph_base :: string
  pe_iso :: iso_reader

fun split_on :: "char \<Rightarrow> string \<Rightarrow> string list" where
  "split_on c [] = [[]]"
| "split_on c (x # xs) =
     (if x = c then [] # split_on c xs
      else case split_on c xs of [] \<Rightarrow> [[x]] | p # ps \<Rightarrow> (x # p) # ps)"

definition graph_version_ok :: "string \<Rightarrow> bool" where
  "graph_version_ok v =
     (let parts = split_on CHR ''.'' (if starts_with ''v'' v then drop 1 v else v) in
      starts_with ''v'' v \<and> length parts = 2 \<and> list_all str_isdigit parts \<and> length v \<le> 16)"

definition make_authority ::
  "bool \<Rightarrow> string \<Rightarrow> string \<Rightarrow> 'f::linordered_idom \<Rightarrow> int \<Rightarrow> 'f \<Rightarrow> string \<Rightarrow> iso_reader \<Rightarrow> pub_env res" where
  "make_authority enabled key secret timeout attempts interval version isot =
     (let v = str_lower (strip version) in
      rbind (raise_first
        [(timeout < 1 \<or> 120 < timeout, ValueError ''publication timeout must be between 1 and 120 seconds''),
         (attempts < 1 \<or> 120 < attempts, ValueError ''Instagram container poll attempts must be between 1 and 120''),
         (interval < 0 \<or> 60 < interval, ValueError ''Instagram container poll interval must be between 0 and 60 seconds''),
         (\<not> graph_version_ok v, ValueError ''Instagram Graph API version must use the vN.N format'')]) (\<lambda>_.
        Inr \<lparr>pe_enabled = enabled, pe_consumer_key = strip key, pe_consumer_secret = strip secret,
             pe_poll_attempts = nat attempts, pe_graph_base = ''https://graph.instagram.com/'' @ v,
             pe_iso = isot\<rparr>))"

record connection =
  cn_account_id :: string
  cn_username :: string
  cn_token_expires_at :: "string option"

type_synonym clock = "nat \<Rightarrow> string"

text \<open>Readings of the clock: 0 at the expiry check, 1 for the intent, 2 at the container, 3 at
  completion, 4 at a failure mark.\<close>

subsection \<open>X\<close>

definition x_create_url :: string where
  "x_create_url = ''https://api.x.com/2/tweets''"

definition x_lookup_url :: "string \<Rightarrow> string" where
  "x_lookup_url post = x_create_url @ ''/'' @ post @ ''?tweet.fields=author_id%2Ccreated_at''"

definition data_object :: "(string \<times> json) list \<Rightarrow> (string \<times> json) list res" where
  "data_object payload = (case jget ''data'' payload of Some (JObj d) \<Rightarrow> Inr d | _ \<Rightarrow> unknown_outcome)"

definition x_username_ok :: "string \<Rightarrow> bool" where
  "x_username_ok u = (u \<noteq> [] \<and> length u \<le> 64 \<and> list_all (\<lambda>c. is_alnum c \<or> c = CHR ''_'') u)"

definition verify_x ::
  "pub_env \<Rightarrow> pub_command \<Rightarrow> string \<Rightarrow> string \<Rightarrow> response \<Rightarrow> (string \<times> json) list res" where
  "verify_x env c username post r =
     rbind (json_object r) (\<lambda>payload.
     rbind (data_object payload) (\<lambda>d.
     rbind (required_x_post_id d ''id'') (\<lambda>verified.
     rbind (required_identifier d ''author_id'') (\<lambda>author.
     rbind (compare_digest post verified) (\<lambda>same_id.
     rbind (unless_unknown same_id ''X post identity does not match'') (\<lambda>_.
     rbind (unless_unknown (jget ''text'' d = Some (JStr (pcmd_content c))) ''X post content does not match'') (\<lambda>_.
     rbind (compare_digest author (pcmd_account_id c)) (\<lambda>same_author.
     rbind (unless_unknown same_author ''X post account does not match'') (\<lambda>_.
     rbind (check_timestamp (pe_iso env) (jget ''created_at'' d) ''X post timestamp is invalid'') (\<lambda>published.
     rbind (unless_unknown (x_username_ok username) ''X post username is invalid'') (\<lambda>_.
       Inr [(''verification_status'', JStr ''verified''),
            (''verification_request_id'', JStr (take 256 (header_of r ''x-request-id''))),
            (''permalink'', JStr (''https://x.com/'' @ username @ ''/status/'' @ post)),
            (''published_at'', JStr published), (''username'', JStr username), (''author_id'', JStr author),
            (''content_sha256'', JStr (sha256_text (pcmd_content c)))])))))))))))"

definition publish_x ::
  "pub_env \<Rightarrow> network \<Rightarrow> clock \<Rightarrow> pub_command \<Rightarrow> sp_intent \<Rightarrow> (string \<times> json) list \<Rightarrow> string
   \<Rightarrow> sp_intent action" where
  "publish_x env net clk c i tokens username =
     pbind (done_with (required_secret tokens ''access_token'')) (\<lambda>_.
     pbind (done_with (required_secret tokens ''access_token_secret'')) (\<lambda>_.
     pbind (send net ''POST'' x_create_url ''x_post_create'' [(''text'', pcmd_content c)]) (\<lambda>r.
     pbind (done_with (rbind (json_object r) data_object)) (\<lambda>d.
     pbind (done_with (required_x_post_id d ''id'')) (\<lambda>post.
     pbind (send net ''GET'' (x_lookup_url post) ''x_post_verify'' []) (\<lambda>vr.
     pbind (done_with (verify_x env c username post vr)) (\<lambda>extra.
       or_unknown (transact (\<lambda>rows. sp_complete rows (sp_tenant_id i) (sp_intent_id i) (sp_fence i) post
         (dict_update (pub_receipt ''x'' post r i None) extra) (clk 3))))))))))"

subsection \<open>Instagram\<close>

text \<open>One poll: True when the container is finished, False while it is in progress.\<close>

definition poll_verdict :: "response \<Rightarrow> (string \<times> json) list \<Rightarrow> bool res" where
  "poll_verdict r payload = (case jget ''status_code'' payload of
     Some (JStr raw) \<Rightarrow>
       (let code = str_upper (strip raw) in
        if strip raw = [] then Inl (SocialPublicationUnknownError ''Instagram container status is invalid'')
        else if code = ''FINISHED'' then Inr True
        else if code \<in> {''ERROR'', ''EXPIRED''}
        then Inl (provider_rejected ''instagram_container_status'' (rs_status r) [] [] ''container_error'')
        else if code \<noteq> ''IN_PROGRESS''
        then Inl (SocialPublicationUnknownError ''Instagram container status is unknown'')
        else Inr False)
   | _ \<Rightarrow> Inl (SocialPublicationUnknownError ''Instagram container status is invalid''))"

fun wait_for_container :: "network \<Rightarrow> string \<Rightarrow> nat \<Rightarrow> unit action" where
  "wait_for_container net url 0 =
     done_with (Inl (SocialPublicationUnknownError ''Instagram container processing did not finish''))"
| "wait_for_container net url (Suc n) =
     pbind (send net ''GET'' url ''instagram_container_status'' [(''fields'', ''status_code,status'')]) (\<lambda>r.
     pbind (done_with (rbind (json_object r) (poll_verdict r))) (\<lambda>finished.
       if finished then done_with (Inr ()) else wait_for_container net url n))"

definition instagram_permalink_ok :: "url \<Rightarrow> bool" where
  "instagram_permalink_ok u =
     (let host = str_lower (url_hostname u) in
      url_scheme u = ''https'' \<and> host \<noteq> [] \<and> (host = ''instagram.com'' \<or> ends_with ''.instagram.com'' host)
      \<and> \<not> url_has_userinfo u \<and> url_fragment u = [])"

definition verify_instagram ::
  "pub_env \<Rightarrow> pub_command \<Rightarrow> string \<Rightarrow> string \<Rightarrow> response \<Rightarrow> (string \<times> json) list res" where
  "verify_instagram env c username post r =
     rbind (json_object r) (\<lambda>d.
     rbind (required_identifier d ''id'') (\<lambda>observed.
     rbind (unless_unknown (observed = post) ''Instagram media identity does not match'') (\<lambda>_.
     rbind (unless_unknown (case jget ''caption'' d of
              Some (JStr t) \<Rightarrow> sha256_text t = sha256_text (pcmd_content c) | _ \<Rightarrow> False)
            ''Instagram media caption does not match'') (\<lambda>_.
     rbind (unless_unknown (jget ''media_type'' d = Some (JStr ''IMAGE'')) ''Instagram media type does not match'') (\<lambda>_.
     rbind (case jget ''username'' d of Some (JStr u) \<Rightarrow> compare_digest u username | _ \<Rightarrow> Inr False) (\<lambda>same_user.
     rbind (unless_unknown same_user ''Instagram media account does not match'') (\<lambda>_.
     rbind (case jget ''permalink'' d of
              Some (JStr p) \<Rightarrow> if 2048 < length p
                then Inl (SocialPublicationUnknownError ''Instagram media permalink is invalid'')
                else rbind (urlsplit p) (\<lambda>u. if instagram_permalink_ok u then Inr p
                  else Inl (SocialPublicationUnknownError ''Instagram media permalink is invalid''))
            | _ \<Rightarrow> Inl (SocialPublicationUnknownError ''Instagram media permalink is invalid'')) (\<lambda>permalink.
     rbind (check_timestamp (pe_iso env) (jget ''timestamp'' d) ''Instagram media timestamp is invalid'') (\<lambda>published.
     rbind (case pcmd_media_hash c of Some h \<Rightarrow> Inr h
            | None \<Rightarrow> Inl (SocialPublicationUnknownError ''Instagram media hash is unavailable'')) (\<lambda>media.
       Inr [(''verification_status'', JStr ''verified''),
            (''verification_request_id'',
               JStr (take 256 (or_else (header_of r ''x-request-id'') (header_of r ''x-fb-trace-id'')))),
            (''permalink'', JStr permalink), (''published_at'', JStr published),
            (''media_type'', JStr ''IMAGE''), (''username'', JStr username),
            (''caption_sha256'', JStr (sha256_text (pcmd_content c))), (''media_sha256'', JStr media)]))))))))))"

definition publish_instagram ::
  "pub_env \<Rightarrow> network \<Rightarrow> clock \<Rightarrow> pub_command \<Rightarrow> sp_intent \<Rightarrow> (string \<times> json) list \<Rightarrow> string
   \<Rightarrow> sp_intent action" where
  "publish_instagram env net clk c i tokens username =
     (let base = pe_graph_base env @ ''/''; account = base @ quote (pcmd_account_id c) in
      pbind (done_with (required_secret tokens ''access_token'')) (\<lambda>_.
      pbind (done_with (case (pcmd_media_url c, pcmd_media_hash c) of
               (Some u, Some h) \<Rightarrow> Inr u
             | _ \<Rightarrow> Inl (SocialPublicationUnavailableError ''Instagram publication requires governed media''))) (\<lambda>media_url.
      pbind (send net ''POST'' (account @ ''/media'') ''instagram_container_create''
               [(''image_url'', media_url), (''caption'', pcmd_content c)]) (\<lambda>r.
      pbind (done_with (rbind (json_object r) (\<lambda>d. required_identifier d ''id''))) (\<lambda>container.
      pbind (or_unknown (transact (\<lambda>rows. sp_record_container rows (sp_tenant_id i) (sp_intent_id i)
               (sp_fence i) container (clk 2)))) (\<lambda>pending.
      pbind (wait_for_container net (base @ quote container) (pe_poll_attempts env)) (\<lambda>_.
      pbind (send net ''POST'' (account @ ''/media_publish'') ''instagram_media_publish''
               [(''creation_id'', container)]) (\<lambda>pr.
      pbind (done_with (rbind (json_object pr) (\<lambda>d. required_identifier d ''id''))) (\<lambda>post.
      pbind (send net ''GET'' (base @ quote post) ''instagram_media_verify''
               [(''fields'', ''id,caption,media_type,permalink,timestamp,username'')]) (\<lambda>vr.
      pbind (done_with (verify_instagram env c username post vr)) (\<lambda>extra.
        or_unknown (transact (\<lambda>rows. sp_complete rows (sp_tenant_id pending) (sp_intent_id pending)
          (sp_fence pending) post
          (dict_update (pub_receipt ''instagram'' post pr pending (Some container)) extra) (clk 3))))))))))))))"

subsection \<open>Execution\<close>

text \<open>\<open>_mark_failed\<close> and \<open>_mark_unknown\<close>: the store's state error is ignored, any other replaces the
  error being reported.\<close>

definition quietly :: "(sp_table \<Rightarrow> (sp_table \<times> sp_intent) res) \<Rightarrow> exn \<Rightarrow> 'a action" where
  "quietly f e = (\<lambda>s. case f (ps_rows s) of
     Inr (rows, _) \<Rightarrow> (s\<lparr>ps_rows := rows\<rparr>, Inl e)
   | Inl (SocialPublicationStateError m) \<Rightarrow> (s, Inl e)
   | Inl e' \<Rightarrow> (s, Inl e'))"

definition mark_failed_quietly :: "sp_intent \<Rightarrow> string \<Rightarrow> string \<Rightarrow> exn \<Rightarrow> 'a action" where
  "mark_failed_quietly i reason now =
     quietly (\<lambda>rows. sp_mark_failed rows (sp_tenant_id i) (sp_intent_id i) (sp_fence i) reason now)"

definition mark_unknown_silently :: "sp_intent \<Rightarrow> string \<Rightarrow> string \<Rightarrow> exn \<Rightarrow> 'a action" where
  "mark_unknown_silently i reason now =
     quietly (\<lambda>rows. sp_mark_unknown rows (sp_tenant_id i) (sp_intent_id i) (sp_fence i) reason now)"

definition publication_error :: "sp_intent \<Rightarrow> string \<Rightarrow> exn \<Rightarrow> 'a action" where
  "publication_error i now e = (case e of
     SocialPublicationProviderRejectedError phase status code subcode error_type \<Rightarrow>
       mark_failed_quietly i (rejection_reason phase status code subcode error_type) now e
   | SocialPublicationUnknownError m \<Rightarrow> mark_unknown_silently i ''provider_outcome_unknown'' now e
   | HTTPError \<Rightarrow> mark_unknown_silently i ''provider_outcome_unknown'' now
       (SocialPublicationUnknownError ''social publication outcome is unknown'')
   | _ \<Rightarrow> done_with (Inl e))"

definition settle_publication :: "sp_intent \<Rightarrow> string \<Rightarrow> sp_intent action \<Rightarrow> pub_result action" where
  "settle_publication i now publish = (\<lambda>s. case publish s of
     (s', Inr r) \<Rightarrow> (s', Inr (pub_from_intent r False))
   | (s', Inl e) \<Rightarrow> publication_error i now e s')"

text \<open>Everything before the reservation: validation, connection, expiry, application credentials.\<close>

definition pub_prepare :: "pub_env \<Rightarrow> pub_command \<Rightarrow> connection option \<Rightarrow> clock \<Rightarrow> (pub_command \<times> connection) res" where
  "pub_prepare env c con clk =
     (if \<not> pe_enabled env then Inl (SocialPublicationUnavailableError ''social publication authority is disabled'')
      else rbind (pub_validate c) (\<lambda>v. case con of
        None \<Rightarrow> Inl (SocialPublicationUnavailableError ''authorized social account is not connected'')
      | Some k \<Rightarrow> rbind (raise_first
          [(cn_account_id k \<noteq> pcmd_account_id v,
              SocialPublicationUnavailableError ''authorized social account is not connected''),
           (token_expired (pe_iso env) (cn_token_expires_at k) (clk 0),
              SocialPublicationUnavailableError ''connected social credential is expired''),
           (pcmd_channel_id v = ''x'' \<and> (pe_consumer_key env = [] \<or> pe_consumer_secret env = []),
              SocialPublicationUnavailableError ''X application credentials are unavailable'')]) (\<lambda>_.
          Inr (v, k))))"

definition pub_publish ::
  "pub_env \<Rightarrow> network \<Rightarrow> clock \<Rightarrow> pub_command \<Rightarrow> sp_intent \<Rightarrow> (string \<times> json) list \<Rightarrow> string
   \<Rightarrow> sp_intent action" where
  "pub_publish env net clk c i tokens username =
     (if pcmd_channel_id c = ''x'' then publish_x env net clk c i tokens username
      else publish_instagram env net clk c i tokens username)"

definition pub_execute ::
  "pub_env \<Rightarrow> network \<Rightarrow> clock \<Rightarrow> connection option \<Rightarrow> (string \<times> json) list option \<Rightarrow> pub_command
   \<Rightarrow> pub_result action" where
  "pub_execute env net clk con tokens c =
     pbind (done_with (pub_prepare env c con clk)) (\<lambda>(v, k).
     pbind (transact (\<lambda>rows. sp_reserve rows (pub_intent v (clk 1)))) (\<lambda>rv.
       if \<not> res_executable rv
       then done_with (if res_replayed rv then Inr (pub_from_intent (res_intent rv) True)
                       else Inl (SocialPublicationBlockedError (sp_status (res_intent rv))))
       else case tokens of
         None \<Rightarrow> mark_failed_quietly (res_intent rv) ''credential_invalid'' (clk 4)
           (SocialPublicationUnavailableError ''connected social credential is invalid'')
       | Some t \<Rightarrow> settle_publication (res_intent rv) (clk 4)
           (pub_publish env net clk v (res_intent rv) t (cn_username k))))"

end
