(* ===== verification/PublicationLaws.thy ===== *)
theory PublicationLaws
  imports Publication
begin

text \<open>
  The laws of the publication authority: a small Hoare logic for its actions, the pending row every
  publishing step keeps until the outcome is written, and the properties that follow: one attempt
  per command, outcomes that last, verified posts, bounded polling.
\<close>

section \<open>Triples\<close>

definition triple ::
  "(pub_state \<Rightarrow> bool) \<Rightarrow> 'a action \<Rightarrow> ('a \<Rightarrow> pub_state \<Rightarrow> bool) \<Rightarrow> (exn \<Rightarrow> pub_state \<Rightarrow> bool) \<Rightarrow> bool" where
  "triple P m Q E \<longleftrightarrow> (\<forall>s. P s \<longrightarrow> (case m s of (s', Inr v) \<Rightarrow> Q v s' | (s', Inl e) \<Rightarrow> E e s'))"

named_theorems triple_intros \<open>rules for the actions of the authority\<close>

lemma tripleI:
  "(\<And>s s' v. P s \<Longrightarrow> m s = (s', Inr v) \<Longrightarrow> Q v s') \<Longrightarrow>
   (\<And>s s' e. P s \<Longrightarrow> m s = (s', Inl e) \<Longrightarrow> E e s') \<Longrightarrow> triple P m Q E"
  by (auto simp: triple_def split: prod.splits sum.splits)

lemma triple_Inr: "triple P m Q E \<Longrightarrow> P s \<Longrightarrow> m s = (s', Inr v) \<Longrightarrow> Q v s'"
  and triple_Inl: "triple P m Q E \<Longrightarrow> P s \<Longrightarrow> m s = (s', Inl e) \<Longrightarrow> E e s'"
  by (auto simp: triple_def dest!: spec)

lemma pbind_Inr: "pbind m f s = (s', Inr v) \<longleftrightarrow> (\<exists>s1 w. m s = (s1, Inr w) \<and> f w s1 = (s', Inr v))"
  by (auto simp: pbind_def split: prod.splits sum.splits)

lemma pbind_Inl: "pbind m f s = (s', Inl e) \<longleftrightarrow>
    m s = (s', Inl e) \<or> (\<exists>s1 w. m s = (s1, Inr w) \<and> f w s1 = (s', Inl e))"
  by (auto simp: pbind_def split: prod.splits sum.splits)

lemma triple_bind:
  assumes "triple P m R E" and "\<And>v. triple (R v) (f v) Q E"
  shows "triple P (pbind m f) Q E"
proof (rule tripleI)
  fix s s' v assume "P s" "pbind m f s = (s', Inr v)"
  then show "Q v s'" using assms unfolding pbind_Inr by (blast dest: triple_Inr)
next
  fix s s' e assume "P s" "pbind m f s = (s', Inl e)"
  then show "E e s'" using assms unfolding pbind_Inl by (blast dest: triple_Inl triple_Inr)
qed

text \<open>Steps that only compute, and steps that only send, keep any property of the table.\<close>

definition on_rows :: "(sp_table \<Rightarrow> bool) \<Rightarrow> pub_state \<Rightarrow> bool" where
  "on_rows I s \<longleftrightarrow> I (ps_rows s)"

text \<open>Sequencing when the first step keeps the property.\<close>

lemma triple_keep [triple_intros]:
  assumes "triple (on_rows I) m (\<lambda>_. on_rows I) E" and "\<And>v. triple (on_rows I) (f v) Q E"
  shows "triple (on_rows I) (pbind m f) Q E"
  using assms by (rule triple_bind)

lemma triple_done [triple_intros]: "triple (on_rows I) (done_with r) (\<lambda>_. on_rows I) (\<lambda>_. on_rows I)"
  by (rule tripleI) (auto simp: done_with_def on_rows_def)

lemma triple_send [triple_intros]: "triple (on_rows I) (send net m u p d) (\<lambda>_. on_rows I) (\<lambda>_. on_rows I)"
  by (rule tripleI) (auto simp: send_def on_rows_def)

lemma triple_wait [triple_intros]: "triple (on_rows I) (wait_for_container net url n) (\<lambda>_. on_rows I) (\<lambda>_. on_rows I)"
proof (induction n)
  case 0
  show ?case unfolding wait_for_container.simps by (rule triple_done)
next
  case (Suc n)
  show ?case unfolding wait_for_container.simps
    by (intro triple_keep triple_send triple_done)
      (auto intro: triple_done Suc)
qed

lemma triple_or_unknown [triple_intros]:
  "triple P m Q (\<lambda>_. E) \<Longrightarrow> triple P (or_unknown m) Q (\<lambda>_. E)"
proof (rule tripleI)
  fix s s' v assume "triple P m Q (\<lambda>_. E)" "P s" "or_unknown m s = (s', Inr v)"
  then show "Q v s'" by (auto simp: or_unknown_def unknown_outcome_def dest: triple_Inr split: prod.splits sum.splits)
next
  fix s s' e assume "triple P m Q (\<lambda>_. E)" "P s" "or_unknown m s = (s', Inl e)"
  then show "E s'" by (auto simp: or_unknown_def unknown_outcome_def dest: triple_Inl split: prod.splits sum.splits)
qed

section \<open>The pending row\<close>

text \<open>The table holds the intent's row, still pending at the intent's fence.\<close>

definition pending_row :: "sp_intent \<Rightarrow> sp_table \<Rightarrow> bool" where
  "pending_row i rows \<longleftrightarrow> sp_inv rows \<and> distinct (map sp_idem rows) \<and>
     (\<exists>r \<in> set rows. sp_intent_id r = sp_intent_id i \<and> sp_idem r = sp_idem i \<and> sp_binding r = sp_binding i
        \<and> sp_status r = ''pending'' \<and> sp_fence r = sp_fence i)"

text \<open>The table holds the intent's row in another state.\<close>

definition settled_row :: "sp_intent \<Rightarrow> string \<Rightarrow> sp_intent \<Rightarrow> sp_table \<Rightarrow> bool" where
  "settled_row i st r rows \<longleftrightarrow> distinct (map sp_idem rows) \<and> r \<in> set rows \<and> sp_idem r = sp_idem i
     \<and> sp_binding r = sp_binding i \<and> sp_status r = st"

lemma sp_step_idem: "sp_step rows rows' \<Longrightarrow> map sp_idem rows' = map sp_idem rows"
  by (rule sp_ledger.step_keys(1))

lemma pending_transition:
  assumes "pending_row i rows"
    and "sp_transition rows (sp_tenant_id i) (sp_intent_id i) (sp_fence i) c now = Inr (rows', r)"
  shows "r \<in> set rows'" and "sp_idem r = sp_idem i" and "sp_binding r = sp_binding i"
    and "sp_status r = sc_status c" and "sp_intent_id r = sp_intent_id i" and "sp_fence r = sp_fence i"
    and "distinct (map sp_idem rows')"
proof -
  obtain x where x: "x \<in> set rows" "sp_intent_id x = sp_intent_id i" "sp_idem x = sp_idem i" "sp_binding x = sp_binding i"
    "sp_status x = ''pending''" "sp_fence x = sp_fence i" and inv: "sp_inv rows" and d: "distinct (map sp_idem rows)"
    using assms(1) by (auto simp: pending_row_def)
  have t: "sp_transition rows (sp_tenant_id i) (sp_intent_id i) (sp_fence i) c now
      = Inr (map (\<lambda>y. if y = x then sp_apply c now x else y) rows, sp_apply c now x)"
    using inv sp_transition_Inr(1) [OF assms(2)] x by (intro sp_transition_ok) (simp_all add: sp_inv_def)
  then have r: "r = sp_apply c now x" "rows' = map (\<lambda>y. if y = x then sp_apply c now x else y) rows"
    using assms(2) by simp_all
  show "r \<in> set rows'" using x(1) by (force simp: r)
  show "sp_idem r = sp_idem i" "sp_binding r = sp_binding i" "sp_status r = sc_status c"
    "sp_intent_id r = sp_intent_id i" "sp_fence r = sp_fence i"
    using x by (simp_all add: r)
  have "map sp_idem rows' = map sp_idem rows" by (auto simp: r)
  then show "distinct (map sp_idem rows')" using d by metis
qed

lemma pending_record:
  assumes "pending_row i rows"
    and "sp_record_container rows (sp_tenant_id i) (sp_intent_id i) (sp_fence i) cid now = Inr (rows', r)"
  shows "pending_row i rows' \<and> sp_tenant_id r = sp_tenant_id i \<and> sp_intent_id r = sp_intent_id i \<and> sp_fence r = sp_fence i"
proof -
  have "sp_inv rows'"
    using sp_step_inv [OF sp_step.contained [OF assms(2)]] assms(1) by (simp add: pending_row_def)
  then show ?thesis
    using pending_transition [OF assms(1) assms(2) [unfolded sp_record_container_def]]
    by (auto simp: pending_row_def)
qed

lemma triple_transact_complete:
  "triple (on_rows (pending_row i))
     (transact (\<lambda>rows. sp_complete rows (sp_tenant_id i) (sp_intent_id i) (sp_fence i) post rec now))
     (\<lambda>r. on_rows (settled_row i ''succeeded'' r)) (\<lambda>_. on_rows (pending_row i))"
proof (rule tripleI)
  fix s s' r assume "on_rows (pending_row i) s"
    and t: "transact (\<lambda>rows. sp_complete rows (sp_tenant_id i) (sp_intent_id i) (sp_fence i) post rec now) s = (s', Inr r)"
  then have p: "pending_row i (ps_rows s)" by (simp add: on_rows_def)
  obtain rows' where c: "sp_complete (ps_rows s) (sp_tenant_id i) (sp_intent_id i) (sp_fence i) post rec now = Inr (rows', r)"
    and "ps_rows s' = rows'"
    using t by (auto simp: transact_def split: sum.splits)
  then show "on_rows (settled_row i ''succeeded'' r) s'"
    using pending_transition [OF p c [unfolded sp_complete_def]] by (simp add: settled_row_def on_rows_def)
qed (auto simp: transact_def split: sum.splits)

lemma triple_transact_record:
  "triple (on_rows (pending_row i))
     (transact (\<lambda>rows. sp_record_container rows (sp_tenant_id i) (sp_intent_id i) (sp_fence i) cid now))
     (\<lambda>r s. pending_row i (ps_rows s) \<and> sp_tenant_id r = sp_tenant_id i \<and> sp_intent_id r = sp_intent_id i
        \<and> sp_fence r = sp_fence i) (\<lambda>_. on_rows (pending_row i))"
  by (rule tripleI) (auto simp: transact_def on_rows_def split: sum.splits dest: pending_record)

text \<open>Publishing keeps the row pending until it is completed; an error leaves it pending.\<close>

lemma triple_publish_x:
  "triple (on_rows (pending_row i)) (publish_x env net clk c i tokens u)
     (\<lambda>r. on_rows (settled_row i ''succeeded'' r)) (\<lambda>_. on_rows (pending_row i))"
  unfolding publish_x_def
  by (intro triple_keep triple_done triple_send triple_or_unknown triple_transact_complete)

lemma triple_fact: "(\<And>s. P s \<Longrightarrow> F \<and> R s) \<Longrightarrow> (F \<Longrightarrow> triple R m Q E) \<Longrightarrow> triple P m Q E"
  by (auto simp: triple_def)

lemma triple_publish_instagram:
  "triple (on_rows (pending_row i)) (publish_instagram env net clk c i tokens u)
     (\<lambda>r. on_rows (settled_row i ''succeeded'' r)) (\<lambda>_. on_rows (pending_row i))"
proof -
  have tail: "triple (\<lambda>s. pending_row i (ps_rows s) \<and> sp_tenant_id p = sp_tenant_id i
        \<and> sp_intent_id p = sp_intent_id i \<and> sp_fence p = sp_fence i)
     (pbind (wait_for_container net url n) (\<lambda>_.
      pbind (send net m1 u1 p1 d1) (\<lambda>pr.
      pbind (done_with (g pr)) (\<lambda>post.
      pbind (send net m2 (u2 post) p2 d2) (\<lambda>vr.
      pbind (done_with (h post vr)) (\<lambda>extra.
        or_unknown (transact (\<lambda>rows. sp_complete rows (sp_tenant_id p) (sp_intent_id p)
          (sp_fence p) post (k post pr extra) (clk 3)))))))))
     (\<lambda>r. on_rows (settled_row i ''succeeded'' r)) (\<lambda>_. on_rows (pending_row i))"
    for p url n m1 u1 p1 d1 g m2 u2 p2 d2 h k
  proof (rule triple_fact [where R = "on_rows (pending_row i)"])
    assume f: "sp_tenant_id p = sp_tenant_id i \<and> sp_intent_id p = sp_intent_id i \<and> sp_fence p = sp_fence i"
    show "triple (on_rows (pending_row i))
     (pbind (wait_for_container net url n) (\<lambda>_.
      pbind (send net m1 u1 p1 d1) (\<lambda>pr.
      pbind (done_with (g pr)) (\<lambda>post.
      pbind (send net m2 (u2 post) p2 d2) (\<lambda>vr.
      pbind (done_with (h post vr)) (\<lambda>extra.
        or_unknown (transact (\<lambda>rows. sp_complete rows (sp_tenant_id p) (sp_intent_id p)
          (sp_fence p) post (k post pr extra) (clk 3)))))))))
     (\<lambda>r. on_rows (settled_row i ''succeeded'' r)) (\<lambda>_. on_rows (pending_row i))"
      using f by (simp, intro triple_keep triple_done triple_send triple_wait triple_or_unknown triple_transact_complete)
  qed (auto simp: on_rows_def)
  have head: "triple (on_rows (pending_row i)) (pbind (or_unknown (transact (\<lambda>rows. sp_record_container rows
        (sp_tenant_id i) (sp_intent_id i) (sp_fence i) cid (clk 2)))) f)
      (\<lambda>r. on_rows (settled_row i ''succeeded'' r)) (\<lambda>_. on_rows (pending_row i))"
    if "\<And>p. triple (\<lambda>s. pending_row i (ps_rows s) \<and> sp_tenant_id p = sp_tenant_id i
        \<and> sp_intent_id p = sp_intent_id i \<and> sp_fence p = sp_fence i) (f p)
        (\<lambda>r. on_rows (settled_row i ''succeeded'' r)) (\<lambda>_. on_rows (pending_row i))" for cid f
    by (rule triple_bind [OF triple_or_unknown [OF triple_transact_record]]) (rule that)
  show ?thesis unfolding publish_instagram_def Let_def
    by (intro triple_keep triple_done triple_send head tail)
qed

lemma triple_publish:
  "triple (on_rows (pending_row i)) (pub_publish env net clk c i tokens u)
     (\<lambda>r. on_rows (settled_row i ''succeeded'' r)) (\<lambda>_. on_rows (pending_row i))"
  by (simp add: pub_publish_def triple_publish_x triple_publish_instagram)


section \<open>Outcomes\<close>

lemma pending_settled: "pending_row i rows \<Longrightarrow> \<exists>r. settled_row i ''pending'' r rows"
  by (auto simp: pending_row_def settled_row_def)

lemma sp_check_change_errors: "sp_check_change t e f c = Inl err \<Longrightarrow> \<exists>m. err = ValueError m"
proof (rule errors_inD)
  show "errors_in (\<lambda>err. \<exists>m. err = ValueError m) (sp_check_change t e f c)"
    unfolding sp_check_change_def sp_validate_identity_def sp_validate_provider_id_def sp_validate_receipt_def
      sp_validate_reason_def
    by (intro errors_intros) simp_all
qed

lemma pending_transition_ok:
  assumes "pending_row i rows" and "sp_check_change (sp_tenant_id i) (sp_intent_id i) (sp_fence i) c = Inr ()"
  shows "\<exists>y. sp_transition rows (sp_tenant_id i) (sp_intent_id i) (sp_fence i) c now = Inr y"
proof -
  obtain x where "x \<in> set rows" "sp_intent_id x = sp_intent_id i" "sp_tenant_id x = sp_tenant_id i"
    "sp_status x = ''pending''" "sp_fence x = sp_fence i" and "distinct (map sp_intent_id rows)"
    using assms(1) by (auto simp: pending_row_def sp_inv_def)
  then show ?thesis using sp_transition_ok [of rows _ _ _ c x] assms(2) by simp
qed

text \<open>On the pending row a transition fails only on its arguments.\<close>

lemma pending_transition_error:
  assumes "pending_row i rows" and "sp_transition rows (sp_tenant_id i) (sp_intent_id i) (sp_fence i) c now = Inl e"
  shows "\<exists>m. e = ValueError m"
proof (cases "sp_check_change (sp_tenant_id i) (sp_intent_id i) (sp_fence i) c")
  case (Inl e')
  then show ?thesis using assms(2) sp_check_change_errors by (auto simp: sp_transition_def)
next
  case (Inr u)
  then show ?thesis using pending_transition_ok [OF assms(1), of c now] assms(2) by auto
qed

lemma quietly_failure:
  assumes "pending_row i (ps_rows s)"
    and "quietly (\<lambda>rows. sp_transition rows (sp_tenant_id i) (sp_intent_id i) (sp_fence i) (sp_failure st reason) now) e s
      = (s', out)"
  obtains (marked) r where "out = Inl e" "settled_row i st r (ps_rows s')"
  | (refused) m where "out = Inl (ValueError m)" "s' = s"
proof (cases "sp_transition (ps_rows s) (sp_tenant_id i) (sp_intent_id i) (sp_fence i) (sp_failure st reason) now")
  case (Inr x)
  obtain rows' r where x: "x = (rows', r)" by (cases x)
  have "settled_row i st r rows'"
    using pending_transition [OF assms(1) Inr [unfolded x]] by (simp add: settled_row_def sp_failure_def)
  then show thesis using assms(2) Inr x marked by (auto simp: quietly_def)
next
  case (Inl e')
  then obtain m where "e' = ValueError m" using pending_transition_error [OF assms(1)] by blast
  then show thesis using assms(2) Inl refused by (auto simp: quietly_def)
qed

text \<open>What an attempt leaves in the table, by what it returned.\<close>

definition error_status :: "exn \<Rightarrow> string option" where
  "error_status e = (case e of
     SocialPublicationUnknownError m \<Rightarrow> Some ''unknown''
   | SocialPublicationProviderRejectedError a b c d t \<Rightarrow> Some ''failed''
   | _ \<Rightarrow> None)"

definition outcome_row :: "sp_intent \<Rightarrow> pub_result res \<Rightarrow> sp_table \<Rightarrow> bool" where
  "outcome_row i out rows \<longleftrightarrow> (case out of
     Inr res \<Rightarrow> \<exists>r. settled_row i ''succeeded'' r rows \<and> res = pub_from_intent r False
   | Inl e \<Rightarrow> \<exists>st r. settled_row i st r rows \<and> (error_status e = None \<or> error_status e = Some st))"

lemma outcome_row_settled: "outcome_row i out rows \<Longrightarrow> \<exists>st r. settled_row i st r rows"
  by (auto simp: outcome_row_def split: sum.splits)

lemma mark_outcome:
  assumes p: "pending_row i (ps_rows s)"
    and "quietly (\<lambda>rows. sp_transition rows (sp_tenant_id i) (sp_intent_id i) (sp_fence i) (sp_failure st reason) now) e s
      = (s', out)"
    and "error_status e = None \<or> error_status e = Some st"
  shows "outcome_row i out (ps_rows s')"
  using p assms(2)
proof (cases rule: quietly_failure)
  case (marked r)
  then show ?thesis using assms(3) by (auto simp: outcome_row_def)
next
  case (refused m)
  then show ?thesis using pending_settled [OF p] by (auto simp: outcome_row_def error_status_def)
qed

lemma error_status_simps [simp]:
  "error_status (SocialPublicationUnknownError m) = Some ''unknown''"
  "error_status (SocialPublicationProviderRejectedError a b c d t) = Some ''failed''"
  by (simp_all add: error_status_def)

lemma publication_error_cases:
  obtains (marked) st reason e2 where "error_status e2 = Some st" "(publication_error i now e :: pub_result action) =
      quietly (\<lambda>rows. sp_transition rows (sp_tenant_id i) (sp_intent_id i) (sp_fence i) (sp_failure st reason) now) e2"
  | (plain) "error_status e = None" "(publication_error i now e :: pub_result action) = done_with (Inl e)"
proof (cases "error_status e")
  case None
  show thesis
  proof (cases "e = HTTPError")
    case True
    then show thesis
      using marked [of "SocialPublicationUnknownError ''social publication outcome is unknown''" "''unknown''" "''provider_outcome_unknown''"]
      by (simp add: publication_error_def mark_unknown_silently_def sp_mark_unknown_def)
  next
    case False
    with None have "(publication_error i now e :: pub_result action) = done_with (Inl e)"
      by (cases e) (simp_all add: publication_error_def)
    with None show thesis by (rule plain)
  qed
next
  case (Some st)
  then obtain reason where "(publication_error i now e :: pub_result action) =
      quietly (\<lambda>rows. sp_transition rows (sp_tenant_id i) (sp_intent_id i) (sp_fence i) (sp_failure st reason) now) e"
    by (cases e) (auto simp: publication_error_def error_status_def mark_failed_quietly_def mark_unknown_silently_def
        sp_mark_failed_def sp_mark_unknown_def)
  with Some show thesis by (rule marked)
qed

lemma settle_outcome:
  assumes p: "pending_row i (ps_rows s)"
    and st: "settle_publication i now (pub_publish env net clk c i tokens u) s = (s', out)"
  shows "outcome_row i out (ps_rows s')"
proof -
  obtain s1 o1 where pub: "pub_publish env net clk c i tokens u s = (s1, o1)" by (cases "pub_publish env net clk c i tokens u s")
  show ?thesis
  proof (cases o1)
    case (Inr r)
    have "settled_row i ''succeeded'' r (ps_rows s1)"
      using triple_Inr [OF triple_publish] p pub Inr by (fastforce simp: on_rows_def)
    then show ?thesis using st pub Inr by (auto simp: settle_publication_def outcome_row_def)
  next
    case (Inl e)
    have p1: "pending_row i (ps_rows s1)"
      using triple_Inl [OF triple_publish] p pub Inl by (fastforce simp: on_rows_def)
    have err: "publication_error i now e s1 = (s', out)"
      using st pub Inl by (simp add: settle_publication_def)
    show ?thesis
    proof (cases rule: publication_error_cases [of i now e])
      case (marked st reason e2)
      then show ?thesis using mark_outcome [OF p1, of st reason now e2 s' out] err by simp
    next
      case plain
      then have "(s', out) = (s1, Inl e)" using err by (simp add: done_with_def)
      then show ?thesis using pending_settled [OF p1] plain(1) by (auto simp: outcome_row_def)
    qed
  qed
qed

section \<open>The second attempt\<close>

lemma sp_reserve_existing:
  assumes "settled_row i st r rows" and "sp_idem j = sp_idem i" and "sp_binding j = sp_binding i"
    and "sp_validate_intent j True = Inr ()"
  shows "sp_reserve rows j = Inr (rows, \<lparr>res_intent = r, res_executable = False,
     res_replayed = (st = ''succeeded'')\<rparr>)"
proof -
  have r: "distinct (map sp_idem rows)" "r \<in> set rows" "sp_idem r = sp_idem j" "sp_binding r = sp_binding j" "sp_status r = st"
    using assms(1-3) by (auto simp: settled_row_def)
  have "sql_find (\<lambda>r. sp_tenant_id r = sp_tenant_id j \<and> sp_idempotency_digest r = sp_idempotency_digest j) rows = Some r"
    by (rule sql_find_unique [OF r(1,2)]) (use r(3) in auto)
  then show ?thesis using r(4,5) assms(4) by (simp add: sp_reserve_def sp_find_existing_def)
qed

lemma pub_intent_keys [simp]:
  "sp_tenant_id (pub_intent c t) = pcmd_tenant_id c"
  "sp_idempotency_digest (pub_intent c t) = sha256_text (pcmd_idempotency_key c)"
  "sp_binding_digest (pub_intent c t) = sha256_text (canonical_json (pub_binding c))"
  "sp_status (pub_intent c t) = ''pending''" "sp_fence (pub_intent c t) = 1"
  by (simp_all add: pub_intent_def Let_def)

lemma pub_intent_validate:
  "sp_validate_intent (pub_intent c t) b = sp_validate_intent (pub_intent c t') b"
  by (simp add: sp_validate_intent_def pub_intent_def Let_def)

lemma granted_pending:
  assumes h: "history sp_reserve sp_step rows log" and g: "sp_reserve rows i = Inr (rows1, v)" "res_executable v"
  shows "res_intent v = i" and "pending_row i rows1" and "sp_validate_intent i True = Inr ()"
proof -
  have h1: "history sp_reserve sp_step rows1 (log @ [res_intent v])" using h g by (rule history.granted)
  show i: "res_intent v = i" using sp_ledger.granted_fresh [OF g] by simp
  show "sp_validate_intent i True = Inr ()" using g(1) by (auto simp: sp_reserve_def rbind_Inr_iff)
  have "distinct (map sp_idem rows1)" using sp_ledger.history_keys [OF h1] by simp
  moreover have "sp_row i \<in> set rows1" "sp_status i = ''pending''" using sp_ledger.granted_fresh [OF g] by auto
  moreover have "sp_intent_id (sp_row i) = sp_intent_id i" "sp_idem (sp_row i) = sp_idem i"
    "sp_binding (sp_row i) = sp_binding i" "sp_status (sp_row i) = sp_status i" "sp_fence (sp_row i) = sp_fence i"
    by (simp_all add: sp_row_def)
  ultimately show "pending_row i rows1" using sp_history_inv [OF h1] unfolding pending_row_def by metis
qed

lemma pub_prepare_error: "pub_prepare env c con clk = Inl e \<Longrightarrow> error_status e = None"
proof (rule errors_inD)
  show "errors_in (\<lambda>e. error_status e = None) (pub_prepare env c con clk)"
    unfolding pub_prepare_def pub_validate_def Let_def
    by (intro errors_intros) (simp_all add: error_status_def)
qed

lemma sp_reserve_error: "sp_reserve rows i = Inl e \<Longrightarrow> error_status e = None"
proof (rule errors_inD)
  show "errors_in (\<lambda>e. error_status e = None) (sp_reserve rows i)"
    unfolding sp_reserve_def sp_insert_def sp_validate_intent_def sp_validate_receipt_def
    by (intro errors_intros) (simp_all add: error_status_def)
qed

text \<open>What an execution did, once it went past its checks.\<close>

lemma pub_execute_cases:
  assumes h: "history sp_reserve sp_step rows log"
    and ex: "pub_execute env net clk con tokens c \<lparr>ps_rows = rows, ps_log = []\<rparr> = (s', out)"
  obtains (refused) e where "out = Inl e" "s' = \<lparr>ps_rows = rows, ps_log = []\<rparr>"
      "error_status e = None"
  | (replayed) v k r where "pub_prepare env c con clk = Inr (v, k)" "s' = \<lparr>ps_rows = rows, ps_log = []\<rparr>"
      "sp_reserve rows (pub_intent v (clk 1)) = Inr (rows, \<lparr>res_intent = r, res_executable = False, res_replayed = True\<rparr>)"
      "out = Inr (pub_from_intent r True)"
  | (attempted) v k where "pub_prepare env c con clk = Inr (v, k)" "sp_validate_intent (pub_intent v (clk 1)) True = Inr ()"
      "outcome_row (pub_intent v (clk 1)) out (ps_rows s')"
proof -
  let ?s = "\<lparr>ps_rows = rows, ps_log = []\<rparr>"
  show thesis
  proof (cases "pub_prepare env c con clk")
    case (Inl e)
    have "error_status e = None" using pub_prepare_error [OF Inl] .
    then show thesis using refused ex Inl by (auto simp: pub_execute_def pbind_def done_with_def)
  next
    case (Inr vk)
    then obtain v k where vk: "pub_prepare env c con clk = Inr (v, k)" by (cases vk) auto
    let ?i = "pub_intent v (clk 1)"
    show thesis
    proof (cases "sp_reserve rows ?i")
      case (Inl e)
      have "error_status e = None" using sp_reserve_error [OF Inl] .
      then show thesis using refused ex Inl vk by (auto simp: pub_execute_def pbind_def done_with_def transact_def)
    next
      case (Inr x)
      then obtain rows1 rv where rv: "sp_reserve rows ?i = Inr (rows1, rv)" by (cases x) auto
      show thesis
      proof (cases "res_executable rv")
        case False
        have same: "rows1 = rows" using sp_ledger.refused_existing [OF rv False] by simp
        show thesis
        proof (cases "res_replayed rv")
          case True
          have "rv = \<lparr>res_intent = res_intent rv, res_executable = False, res_replayed = True\<rparr>"
            using False True by (cases rv) auto
          then show thesis using replayed [OF vk, of "res_intent rv"] ex vk rv same False True
            by (auto simp: pub_execute_def pbind_def done_with_def transact_def)
        next
          case no: False
          then show thesis using refused ex vk rv same False
            by (auto simp: pub_execute_def pbind_def done_with_def transact_def error_status_def)
        qed
      next
        case True
        note g = granted_pending [OF h rv True]
        have "outcome_row ?i out (ps_rows s')"
        proof (cases tokens)
          case None
          then have "mark_failed_quietly ?i ''credential_invalid'' (clk 4)
              (SocialPublicationUnavailableError ''connected social credential is invalid'')
              \<lparr>ps_rows = rows1, ps_log = []\<rparr> = (s', out)"
            using ex vk rv True g(1) by (simp add: pub_execute_def pbind_def done_with_def transact_def)
          then show ?thesis
            using mark_outcome [where s = "\<lparr>ps_rows = rows1, ps_log = []\<rparr>"] g(2)
            unfolding mark_failed_quietly_def sp_mark_failed_def by (force simp: error_status_def)
        next
          case (Some t)
          then have "settle_publication ?i (clk 4) (pub_publish env net clk v ?i t (cn_username k))
              \<lparr>ps_rows = rows1, ps_log = []\<rparr> = (s', out)"
            using ex vk rv True g(1) by (simp add: pub_execute_def pbind_def done_with_def transact_def)
          then show ?thesis using settle_outcome [where s = "\<lparr>ps_rows = rows1, ps_log = []\<rparr>"] g(2) by simp
        qed
        then show thesis using attempted vk g(3) by blast
      qed
    qed
  qed
qed


section \<open>Requests sent\<close>

lemma done_with_Inr: "done_with r s = (s', Inr v) \<longleftrightarrow> s' = s \<and> r = Inr v"
  by (auto simp: done_with_def)

lemma send_Inr: "send net m u p d s = (s', Inr r) \<longleftrightarrow>
    s' = s\<lparr>ps_log := ps_log s @ [\<lparr>rq_method = m, rq_url = u, rq_phase = p, rq_data = d\<rparr>]\<rparr>
    \<and> read_reply (net (length (ps_log s))) p = Inr r"
  by (auto simp: send_def)

lemma or_unknown_Inr: "or_unknown m s = (s', Inr v) \<longleftrightarrow> m s = (s', Inr v)"
  by (auto simp: or_unknown_def unknown_outcome_def split: prod.splits sum.splits)

lemma transact_Inr: "transact f s = (s', Inr v) \<longleftrightarrow>
    (\<exists>rows. f (ps_rows s) = Inr (rows, v) \<and> s' = s\<lparr>ps_rows := rows\<rparr>)"
  by (auto simp: transact_def split: sum.splits)

text \<open>How often a phase was sent.\<close>

definition sent :: "string \<Rightarrow> pub_state \<Rightarrow> nat" where
  "sent phase s = length (filter (\<lambda>q. rq_phase q = phase) (ps_log s))"

definition at_most :: "string \<Rightarrow> nat \<Rightarrow> pub_state \<Rightarrow> bool" where
  "at_most phase n s \<longleftrightarrow> sent phase s \<le> n"

definition one_if :: "bool \<Rightarrow> nat" where
  "one_if b = (if b then 1 else 0)"

lemma at_most_done: "m \<le> n \<Longrightarrow> n \<le> N \<Longrightarrow> triple (at_most p m) (done_with r) (\<lambda>_. at_most p n) (\<lambda>_. at_most p N)"
  by (rule tripleI) (auto simp: at_most_def done_with_def)

lemma at_most_send: "n + one_if (q = p) \<le> N \<Longrightarrow>
    triple (at_most p n) (send net m u q d) (\<lambda>_. at_most p (n + one_if (q = p))) (\<lambda>_. at_most p N)"
  by (rule tripleI) (auto simp: at_most_def sent_def send_def one_if_def)

lemma at_most_transact: "n \<le> N \<Longrightarrow> triple (at_most p n) (transact f) (\<lambda>_. at_most p n) (\<lambda>_. at_most p N)"
  by (rule tripleI) (auto simp: at_most_def sent_def transact_def split: sum.splits)

lemma at_most_wait: "n + k * one_if (''instagram_container_status'' = p) \<le> N \<Longrightarrow>
    triple (at_most p n) (wait_for_container net url k)
      (\<lambda>_. at_most p (n + k * one_if (''instagram_container_status'' = p))) (\<lambda>_. at_most p N)"
proof (induction k arbitrary: n)
  case 0
  then show ?case unfolding wait_for_container.simps by (intro at_most_done) simp_all
next
  case (Suc k)
  define c where "c = one_if (''instagram_container_status'' = p)"
  define M where "M = n + Suc k * c"
  have le: "n + c \<le> M" "M \<le> N" using Suc.prems by (simp_all add: c_def M_def)
  have again: "triple (at_most p (n + c)) (wait_for_container net url k) (\<lambda>_. at_most p M) (\<lambda>_. at_most p N)"
    using Suc.IH [of "n + c"] le(2) by (simp add: c_def M_def add.assoc)
  have fin: "triple (at_most p (n + c)) (done_with r) (\<lambda>_. at_most p M) (\<lambda>_. at_most p N)" for r
    using le by (intro at_most_done)
  have step: "triple (at_most p n) (send net m u ''instagram_container_status'' d) (\<lambda>_. at_most p (n + c)) (\<lambda>_. at_most p N)" for m u d
    unfolding c_def using le by (intro at_most_send) (simp add: c_def)
  have mid: "triple (at_most p (n + c)) (done_with r) (\<lambda>_. at_most p (n + c)) (\<lambda>_. at_most p N)" for r
    using le by (intro at_most_done) simp_all
  show ?case unfolding wait_for_container.simps c_def [symmetric] M_def [symmetric]
    by (rule triple_bind [OF step], rule triple_bind [OF mid])
      (auto intro: again fin)
qed

lemma at_most_or_unknown: "triple P m Q (\<lambda>_. at_most p N) \<Longrightarrow> triple P (or_unknown m) Q (\<lambda>_. at_most p N)"
  by (rule triple_or_unknown)

text \<open>The budget of each phase.\<close>

definition phase_budget :: "pub_env \<Rightarrow> string \<Rightarrow> nat" where
  "phase_budget env p =
     (if p = ''instagram_container_status'' then pe_poll_attempts env
      else if p \<in> {''x_post_create'', ''x_post_verify'', ''instagram_container_create'',
                   ''instagram_media_publish'', ''instagram_media_verify''} then 1 else 0)"


lemma at_most_keep:
  assumes "triple (at_most p n) m (\<lambda>_. at_most p (n + k)) E" and "\<And>v. triple (at_most p (n + k)) (f v) Q E"
  shows "triple (at_most p n) (pbind m f) Q E"
  using assms by (rule triple_bind)

text \<open>Steps that send nothing, in the same form.\<close>

lemma at_most_pure: "n \<le> N \<Longrightarrow> triple (at_most p n) (done_with r) (\<lambda>_. at_most p (n + 0)) (\<lambda>_. at_most p N)"
  using at_most_done [of n n N] by simp

lemma at_most_store: "n \<le> N \<Longrightarrow>
    triple (at_most p n) (or_unknown (transact f)) (\<lambda>_. at_most p (n + 0)) (\<lambda>_. at_most p N)"
  using at_most_or_unknown [OF at_most_transact] by simp

lemma triple_post: "triple P m Q E \<Longrightarrow> (\<And>v s. Q v s \<Longrightarrow> Q' v s) \<Longrightarrow> triple P m Q' E"
  by (rule tripleI) (blast dest: triple_Inr triple_Inl)+

lemma at_most_mono: "at_most p m s \<Longrightarrow> m \<le> n \<Longrightarrow> at_most p n s"
  by (simp add: at_most_def)

lemma at_most_x:
  assumes "N = phase_budget env p"
  shows "triple (at_most p 0) (publish_x env net clk c i tokens u) (\<lambda>_. at_most p N) (\<lambda>_. at_most p N)"
proof -
  have b: "0 + 0 + 0 + one_if (''x_post_create'' = p) + 0 + 0 + one_if (''x_post_verify'' = p) \<le> N"
    using assms by (auto simp: phase_budget_def one_if_def)
  show ?thesis unfolding publish_x_def
    by (rule triple_post, (rule at_most_keep, (rule at_most_pure at_most_send; use b in simp))+,
        rule at_most_store, use b in simp) (use b in \<open>auto elim!: at_most_mono\<close>)
qed

lemma at_most_instagram:
  assumes "N = phase_budget env p"
  shows "triple (at_most p 0) (publish_instagram env net clk c i tokens u) (\<lambda>_. at_most p N) (\<lambda>_. at_most p N)"
proof -
  have b: "one_if (''instagram_container_create'' = p) + pe_poll_attempts env * one_if (''instagram_container_status'' = p)
      + one_if (''instagram_media_publish'' = p) + one_if (''instagram_media_verify'' = p) \<le> N"
    using assms by (auto simp: phase_budget_def one_if_def)
  show ?thesis unfolding publish_instagram_def Let_def
    by (rule triple_post, (rule at_most_keep, (rule at_most_pure at_most_send at_most_store at_most_wait; use b in simp))+,
        rule at_most_store, use b in simp) (use b in \<open>auto elim!: at_most_mono\<close>)
qed


lemma quietly_log: "quietly f e s = (s', out) \<Longrightarrow> ps_log s' = ps_log s"
  by (auto simp: quietly_def split: sum.splits prod.splits exn.splits)

lemma publication_error_log: "publication_error i now e s = (s', out) \<Longrightarrow> ps_log s' = ps_log s"
  by (auto simp: publication_error_def mark_failed_quietly_def mark_unknown_silently_def done_with_def
      dest: quietly_log split: exn.splits)

lemma publish_budget:
  assumes "pub_publish env net clk c i tokens u s = (s', out)" and "ps_log s = []"
  shows "sent p s' \<le> phase_budget env p"
proof -
  have "triple (at_most p 0) (pub_publish env net clk c i tokens u) (\<lambda>_. at_most p (phase_budget env p))
      (\<lambda>_. at_most p (phase_budget env p))"
    by (simp add: pub_publish_def at_most_x at_most_instagram)
  moreover have "at_most p 0 s" using assms(2) by (simp add: at_most_def sent_def)
  ultimately have "at_most p (phase_budget env p) s'"
    using assms(1) by (cases out) (auto dest: triple_Inr triple_Inl)
  then show ?thesis by (simp add: at_most_def)
qed

lemma pub_prepare_command:
  "pub_prepare env c con clk = Inr (v, k) \<Longrightarrow> pub_validate c = Inr v"
  by (auto simp: pub_prepare_def rbind_Inr_iff split: option.splits if_splits)

lemma pub_prepare_same:
  "pub_prepare env c con clk = Inr (v, k) \<Longrightarrow> pub_prepare env' c con' clk' = Inr (v', k') \<Longrightarrow> v' = v"
  by (drule pub_prepare_command)+ simp

lemma sp_reserve_refused_again:
  assumes "sp_reserve rows (pub_intent c t) = Inr (rows', v)" and "\<not> res_executable v"
  shows "sp_reserve rows (pub_intent c t') = Inr (rows', v)"
proof -
  have "sp_find_existing rows (pub_intent c t') = sp_find_existing rows (pub_intent c t)"
    by (simp add: sp_find_existing_def cong: option.case_cong)
  then show ?thesis using assms pub_intent_validate [of c t' True t]
    by (auto simp: sp_reserve_def rbind_Inr_iff split: option.splits if_splits)
qed

section \<open>Properties\<close>

text \<open>C32: one attempt per command. Once an execution has sent any request for a command, every later
  execution of it (whatever the network, the clock, the connection or the tokens then are) sends no
  request and leaves the table as it is.\<close>

theorem pub_single_attempt:
  assumes "history sp_reserve sp_step rows log"
    and "pub_execute env net clk con tokens c \<lparr>ps_rows = rows, ps_log = []\<rparr> = (s1, out1)"
    and "ps_log s1 \<noteq> []"
    and "pub_execute env' net' clk' con' tokens' c \<lparr>ps_rows = ps_rows s1, ps_log = []\<rparr> = (s2, out2)"
  shows "ps_log s2 = [] \<and> ps_rows s2 = ps_rows s1"
  using assms(1,2)
proof (cases rule: pub_execute_cases)
  case (attempted v k)
  have v: "pub_validate c = Inr v"
    using attempted(1) by (auto simp: pub_prepare_def rbind_Inr_iff split: option.splits if_splits)
  obtain st r where r: "settled_row (pub_intent v (clk 1)) st r (ps_rows s1)"
    using outcome_row_settled [OF attempted(3)] by blast
  show ?thesis
  proof (cases "pub_prepare env' c con' clk'")
    case (Inl e)
    then show ?thesis using assms(4) by (auto simp: pub_execute_def pbind_def done_with_def)
  next
    case (Inr vk)
    then obtain k' where p: "pub_prepare env' c con' clk' = Inr (v, k')"
      using v by (cases vk) (auto simp: pub_prepare_def rbind_Inr_iff split: option.splits if_splits)
    have "sp_reserve (ps_rows s1) (pub_intent v (clk' 1)) = Inr (ps_rows s1, \<lparr>res_intent = r,
        res_executable = False, res_replayed = (st = ''succeeded'')\<rparr>)"
      using sp_reserve_existing [OF r, of "pub_intent v (clk' 1)"] attempted(2) pub_intent_validate [of v "clk 1" True "clk' 1"]
      by simp
    then show ?thesis using assms(4) p by (auto simp: pub_execute_def pbind_def done_with_def transact_def)
  qed
qed (use assms(3) in auto)


text \<open>The requests of one execution are bounded: each phase is sent at most once, the container
  poll at most as often as configured, and nothing else is sent.\<close>

theorem pub_requests_bounded:
  assumes "history sp_reserve sp_step rows log"
    and "pub_execute env net clk con tokens c \<lparr>ps_rows = rows, ps_log = []\<rparr> = (s', out)"
  shows "sent phase s' \<le> phase_budget env phase"
proof -
  let ?s = "\<lparr>ps_rows = rows, ps_log = []\<rparr>"
  show ?thesis
  proof (cases "pub_prepare env c con clk")
    case (Inl e)
    then show ?thesis using assms(2) by (auto simp: pub_execute_def pbind_def done_with_def sent_def)
  next
    case (Inr vk)
    then obtain v k where p: "pub_prepare env c con clk = Inr (v, k)" by (cases vk) auto
    show ?thesis
    proof (cases "sp_reserve rows (pub_intent v (clk 1))")
      case (Inl e)
      then show ?thesis using assms(2) p by (auto simp: pub_execute_def pbind_def done_with_def transact_def sent_def)
    next
      case (Inr x)
      then obtain rows1 rv where r: "sp_reserve rows (pub_intent v (clk 1)) = Inr (rows1, rv)" by (cases x) auto
      let ?s1 = "\<lparr>ps_rows = rows1, ps_log = []\<rparr>"
      show ?thesis
      proof (cases "\<not> res_executable rv \<or> tokens = None")
        case True
        then show ?thesis using assms(2) p r
          by (auto simp: pub_execute_def pbind_def done_with_def transact_def sent_def mark_failed_quietly_def
              dest!: quietly_log split: if_splits)
      next
        case False
        then obtain t where t: "tokens = Some t" by auto
        obtain s2 o2 where pub: "pub_publish env net clk v (res_intent rv) t (cn_username k) ?s1 = (s2, o2)"
          by (cases "pub_publish env net clk v (res_intent rv) t (cn_username k) ?s1")
        have "ps_log s' = ps_log s2"
          using assms(2) p r t pub False
          by (auto simp: pub_execute_def pbind_def done_with_def transact_def settle_publication_def
              dest: publication_error_log split: sum.splits)
        then show ?thesis using publish_budget [OF pub] by (simp add: sent_def)
      qed
    qed
  qed
qed

section \<open>Verified posts\<close>

lemma compare_digest_True: "compare_digest a b = Inr True \<longleftrightarrow> is_ascii a \<and> is_ascii b \<and> a = b"
  by (auto simp: compare_digest_def)

lemma unless_unknown_Inr: "unless_unknown ok m = Inr u \<longleftrightarrow> ok"
  by (simp add: unless_unknown_def)

lemma required_x_post_id_Inr: "required_x_post_id d k = Inr v \<longleftrightarrow>
    text_or_int (jget k d) = Some v \<and> str_isdigit v \<and> length v \<le> 19"
  by (auto simp: required_x_post_id_def unknown_outcome_def split: option.splits)

lemma required_identifier_Inr: "required_identifier d k = Inr v \<Longrightarrow> text_or_int (jget k d) = Some v"
  by (auto simp: required_identifier_def unknown_outcome_def split: option.splits if_splits)

lemma json_object_Inr: "json_object r = Inr d \<longleftrightarrow> rs_body r = Some (JObj d)"
  by (auto simp: json_object_def unknown_outcome_def split: option.splits json.splits)

lemma data_object_Inr: "data_object p = Inr d \<longleftrightarrow> jget ''data'' p = Some (JObj d)"
  by (auto simp: data_object_def unknown_outcome_def split: option.splits json.splits)

lemma verify_x_Inr:
  assumes "verify_x env c username post r = Inr extra"
  shows "\<exists>p d. rs_body r = Some (JObj p) \<and> jget ''data'' p = Some (JObj d)
      \<and> text_or_int (jget ''id'' d) = Some post \<and> jget ''text'' d = Some (JStr (pcmd_content c))
      \<and> text_or_int (jget ''author_id'' d) = Some (pcmd_account_id c)"
    and "jget ''content_sha256'' extra = Some (JStr (sha256_text (pcmd_content c)))"
    and "jget ''verification_status'' extra = Some (JStr ''verified'')"
    and "jget ''binding_digest'' extra = None" and "distinct (map fst extra)"
  using assms
  by (auto simp: verify_x_def rbind_Inr_iff unless_unknown_Inr json_object_Inr data_object_Inr
      compare_digest_True required_x_post_id_Inr jget_def dest: required_identifier_Inr)

lemma map_of_rev_distinct: "distinct (map fst b) \<Longrightarrow> map_of (rev b) = map_of b"
proof
  fix k assume d: "distinct (map fst b)"
  then have "map_of (rev b) k = Some v \<longleftrightarrow> map_of b k = Some v" for v
    by (simp add: map_of_eq_Some_iff rev_map [symmetric])
  then show "map_of (rev b) k = map_of b k" by (metis not_None_eq)
qed

lemma jget_dict_update: "distinct (map fst b) \<Longrightarrow>
    jget k (dict_update a b) = (case jget k b of Some v \<Rightarrow> Some v | None \<Rightarrow> jget k a)"
  by (simp add: jget_def map_of_dict_update map_of_rev_distinct map_add_def split: option.splits)

lemma pending_complete:
  assumes "pending_row i rows"
    and "sp_complete rows (sp_tenant_id i) (sp_intent_id i) (sp_fence i) post rec now = Inr (rows', r)"
  shows "sp_status r = ''succeeded'' \<and> sp_provider_post_id r = Some post \<and> sp_receipt r = canonical_receipt rec"
proof -
  obtain x where "x \<in> set rows" "sp_intent_id x = sp_intent_id i" "sp_tenant_id x = sp_tenant_id i"
    "sp_status x = ''pending''" "sp_fence x = sp_fence i" and "distinct (map sp_intent_id rows)"
    using assms(1) by (auto simp: pending_row_def sp_inv_def)
  then have "r = sp_apply \<lparr>sc_status = ''succeeded'', sc_container_id = None, sc_post_id = Some post,
      sc_receipt = Some rec, sc_failure_reason = [], sc_completed = True\<rparr> now x"
    using sp_transition_ok [OF _ sp_transition_Inr(1) [OF assms(2) [unfolded sp_complete_def]], of rows x now]
      assms(2) unfolding sp_complete_def by simp
  then show ?thesis by (simp add: sp_apply_def)
qed

lemma read_reply_Inr: "read_reply q p = Inr r \<Longrightarrow>
    \<exists>status sizes body hs. q = Reply status sizes body hs \<and> 200 \<le> status \<and> status < 300
      \<and> sum_list sizes \<le> 1048576 \<and> rs_body r = body \<and> rs_status r = status"
  by (auto simp: read_reply_def unknown_outcome_def split: reply.splits if_splits prod.splits)

text \<open>A run of \<open>_publish_x\<close> that returned.\<close>

lemma publish_x_returned:
  assumes "publish_x env net clk c i tokens u s = (s', Inr r)" and "ps_log s = []"
    and "pending_row i (ps_rows s)"
  shows "\<exists>post status sizes p d hs.
      net 1 = Reply status sizes (Some (JObj p)) hs \<and> jget ''data'' p = Some (JObj d)
      \<and> text_or_int (jget ''id'' d) = Some post \<and> jget ''text'' d = Some (JStr (pcmd_content c))
      \<and> text_or_int (jget ''author_id'' d) = Some (pcmd_account_id c)
      \<and> ps_log s' = [\<lparr>rq_method = ''POST'', rq_url = x_create_url, rq_phase = ''x_post_create'',
                       rq_data = [(''text'', pcmd_content c)]\<rparr>,
                     \<lparr>rq_method = ''GET'', rq_url = x_lookup_url post, rq_phase = ''x_post_verify'', rq_data = []\<rparr>]
      \<and> sp_provider_post_id r = Some post
      \<and> jget ''content_sha256'' (sp_receipt r) = Some (JStr (sha256_text (pcmd_content c)))
      \<and> jget ''binding_digest'' (sp_receipt r) = Some (JStr (sp_binding_digest i))"
proof -
  obtain rs d post vr extra rows' where
    create: "read_reply (net 0) ''x_post_create'' = Inr rs"
    and look: "read_reply (net 1) ''x_post_verify'' = Inr vr"
    and ver: "verify_x env c u post vr = Inr extra"
    and comp: "sp_complete (ps_rows s) (sp_tenant_id i) (sp_intent_id i) (sp_fence i) post
        (dict_update (pub_receipt ''x'' post rs i None) extra) (clk 3) = Inr (rows', r)"
    and s': "s' = \<lparr>ps_rows = rows', ps_log = [\<lparr>rq_method = ''POST'', rq_url = x_create_url, rq_phase = ''x_post_create'',
                       rq_data = [(''text'', pcmd_content c)]\<rparr>,
                     \<lparr>rq_method = ''GET'', rq_url = x_lookup_url post, rq_phase = ''x_post_verify'', rq_data = []\<rparr>]\<rparr>"
    using assms(1,2)
    by (cases s) (auto simp: publish_x_def pbind_Inr done_with_Inr send_Inr or_unknown_Inr transact_Inr)
  obtain status sizes body hs where n1: "net 1 = Reply status sizes body hs" "rs_body vr = body"
    using read_reply_Inr [OF look] by blast
  note v = verify_x_Inr [OF ver]
  note fin = pending_complete [OF assms(3) comp]
  have "jget ''content_sha256'' (sp_receipt r) = Some (JStr (sha256_text (pcmd_content c)))"
    using fin v(2,5) by (simp add: jget_canonical_receipt jget_dict_update)
  moreover have "jget ''binding_digest'' (sp_receipt r) = Some (JStr (sp_binding_digest i))"
  proof -
    have "jget ''binding_digest'' (pub_receipt ''x'' post rs i None) = Some (JStr (sp_binding_digest i))"
      by (simp add: pub_receipt_def jget_def)
    then show ?thesis using fin v(4,5) by (simp add: jget_canonical_receipt jget_dict_update)
  qed
  ultimately show ?thesis using v(1) n1 fin s' by auto
qed

lemma settle_returned:
  assumes "settle_publication i now m s = (s', Inr res)"
  obtains r where "m s = (s', Inr r)" "res = pub_from_intent r False"
proof (cases "m s")
  case (Pair s1 o1)
  have "\<exists>e'. out = Inl e'" if "publication_error i now e s1 = (s2, out :: pub_result res)" for e s2 out
    using that by (auto simp: publication_error_def mark_failed_quietly_def mark_unknown_silently_def
        quietly_def done_with_def split: exn.splits sum.splits prod.splits)
  then show thesis using assms that Pair by (fastforce simp: settle_publication_def split: sum.splits)
qed

text \<open>A first execution that returned a fresh result went through \<open>pub_publish\<close> on the pending row.\<close>

lemma execute_published:
  assumes h: "history sp_reserve sp_step rows log"
    and ex: "pub_execute env net clk con tokens c \<lparr>ps_rows = rows, ps_log = []\<rparr> = (s', Inr res)"
    and fresh: "\<not> pr_replayed res"
  obtains v k t rows1 r where "pub_prepare env c con clk = Inr (v, k)" "tokens = Some t"
    "pending_row (pub_intent v (clk 1)) rows1"
    "pub_publish env net clk v (pub_intent v (clk 1)) t (cn_username k) \<lparr>ps_rows = rows1, ps_log = []\<rparr> = (s', Inr r)"
    "res = pub_from_intent r False"
proof -
  obtain v k where p: "pub_prepare env c con clk = Inr (v, k)"
    using ex by (auto simp: pub_execute_def pbind_Inr done_with_Inr)
  let ?i = "pub_intent v (clk 1)"
  obtain rows1 rv where rv: "sp_reserve rows ?i = Inr (rows1, rv)"
    using ex p by (auto simp: pub_execute_def pbind_Inr done_with_Inr transact_Inr)
  have x: "res_executable rv"
  proof (rule ccontr)
    assume "\<not> res_executable rv"
    then have "res = pub_from_intent (res_intent rv) True"
      using ex p rv by (auto simp: pub_execute_def pbind_def done_with_def transact_def split: if_splits)
    then show False using fresh by (simp add: pub_from_intent_def)
  qed
  note g = granted_pending [OF h rv x]
  obtain t where t: "tokens = Some t"
  proof (cases tokens)
    case None
    then have "\<exists>e. snd (pub_execute env net clk con tokens c \<lparr>ps_rows = rows, ps_log = []\<rparr>) = Inl e"
      using p rv x by (auto simp: pub_execute_def pbind_def done_with_def transact_def mark_failed_quietly_def
          quietly_def split: sum.splits prod.splits exn.splits)
    then show thesis using ex by simp
  qed
  have "settle_publication ?i (clk 4) (pub_publish env net clk v ?i t (cn_username k))
      \<lparr>ps_rows = rows1, ps_log = []\<rparr> = (s', Inr res)"
    using ex p rv x g(1) t by (simp add: pub_execute_def pbind_def done_with_def transact_def)
  then show thesis using settle_returned that p t g(2) by metis
qed

text \<open>C33: a fresh result for X is a verified post: exactly two requests were sent, the post of the
  approved text and a lookup of the id it returned; the lookup's reply holds that id, exactly the
  approved text and the connected account; the stored receipt carries the text's SHA-256 and the
  binding digest of the reserved intent.\<close>

theorem x_result_verified:
  assumes "history sp_reserve sp_step rows log"
    and "pub_execute env net clk con tokens c \<lparr>ps_rows = rows, ps_log = []\<rparr> = (s', Inr res)"
    and "\<not> pr_replayed res" and "pcmd_channel_id c = ''x''"
  shows "\<exists>post status sizes p d hs v. pub_validate c = Inr v
      \<and> net 1 = Reply status sizes (Some (JObj p)) hs \<and> jget ''data'' p = Some (JObj d)
      \<and> text_or_int (jget ''id'' d) = Some post \<and> jget ''text'' d = Some (JStr (strip (pcmd_content c)))
      \<and> text_or_int (jget ''author_id'' d) = Some (pcmd_account_id c)
      \<and> ps_log s' = [\<lparr>rq_method = ''POST'', rq_url = x_create_url, rq_phase = ''x_post_create'',
                       rq_data = [(''text'', strip (pcmd_content c))]\<rparr>,
                     \<lparr>rq_method = ''GET'', rq_url = x_lookup_url post, rq_phase = ''x_post_verify'', rq_data = []\<rparr>]
      \<and> pr_provider_post_id res = Some post
      \<and> jget ''content_sha256'' (pr_receipt res) = Some (JStr (sha256_text (strip (pcmd_content c))))
      \<and> jget ''binding_digest'' (pr_receipt res) = Some (JStr (sha256_text (canonical_json (pub_binding v))))"
  using assms(1-3)
proof (cases rule: execute_published)
  case (1 v k t rows1 r)
  have v: "pub_validate c = Inr v" using pub_prepare_command [OF 1(1)] .
  then have c: "v = c\<lparr>pcmd_content := strip (pcmd_content c)\<rparr>"
    by (auto simp: pub_validate_def Let_def rbind_Inr_iff simp del: raise_first.simps)
  have "publish_x env net clk v (pub_intent v (clk 1)) t (cn_username k) \<lparr>ps_rows = rows1, ps_log = []\<rparr> = (s', Inr r)"
    using 1(4) assms(4) c by (simp add: pub_publish_def)
  from publish_x_returned [OF this] 1(3,5) v c show ?thesis by (simp add: pub_from_intent_def)
qed


definition poll_request :: "string \<Rightarrow> pub_request" where
  "poll_request url = \<lparr>rq_method = ''GET'', rq_url = url, rq_phase = ''instagram_container_status'',
     rq_data = [(''fields'', ''status_code,status'')]\<rparr>"

text \<open>The reply that ends the wait.\<close>

definition says_finished :: "reply \<Rightarrow> bool" where
  "says_finished q \<longleftrightarrow> (case q of
     Reply status sizes (Some (JObj p)) hs \<Rightarrow> (case jget ''status_code'' p of
       Some (JStr raw) \<Rightarrow> str_upper (strip raw) = ''FINISHED'' | _ \<Rightarrow> False)
   | _ \<Rightarrow> False)"

lemma poll_verdict_True: "poll_verdict r p = Inr True \<Longrightarrow>
    (case jget ''status_code'' p of Some (JStr raw) \<Rightarrow> str_upper (strip raw) = ''FINISHED'' | _ \<Rightarrow> False)"
  by (auto simp: poll_verdict_def Let_def split: option.splits json.splits if_splits)

lemma wait_finished:
  "wait_for_container net url k s = (s', Inr u) \<Longrightarrow>
   \<exists>n. 1 \<le> n \<and> n \<le> k \<and> s' = s\<lparr>ps_log := ps_log s @ replicate n (poll_request url)\<rparr>
     \<and> says_finished (net (length (ps_log s) + n - 1))"
proof (induction k arbitrary: s)
  case 0
  then show ?case by (simp add: done_with_def)
next
  case (Suc k)
  let ?s1 = "s\<lparr>ps_log := ps_log s @ [poll_request url]\<rparr>"
  obtain r p fin where r: "read_reply (net (length (ps_log s))) ''instagram_container_status'' = Inr r"
    and p: "rs_body r = Some (JObj p)" and verdict: "poll_verdict r p = Inr fin"
    and rest: "if fin then s' = ?s1 else wait_for_container net url k ?s1 = (s', Inr u)"
    using Suc.prems
    by (auto simp: pbind_Inr send_Inr done_with_Inr rbind_Inr_iff json_object_Inr poll_request_def split: if_splits)
  show ?case
  proof (cases fin)
    case True
    obtain status sizes hs where "net (length (ps_log s)) = Reply status sizes (Some (JObj p)) hs"
      using read_reply_Inr [OF r] p by auto
    then have "says_finished (net (length (ps_log s)))"
      using verdict True by (simp add: says_finished_def poll_verdict_True)
    then show ?thesis using rest True by (intro exI [of _ 1]) simp
  next
    case False
    then have "wait_for_container net url k ?s1 = (s', Inr u)" using rest by simp
    from Suc.IH [OF this] obtain n where n: "1 \<le> n" "n \<le> k"
      "s' = ?s1\<lparr>ps_log := ps_log ?s1 @ replicate n (poll_request url)\<rparr>"
      "says_finished (net (length (ps_log ?s1) + n - 1))" by blast
    then show ?thesis by (intro exI [of _ "Suc n"]) (simp add: replicate_append_same)
  qed
qed

lemma verify_instagram_Inr:
  assumes "verify_instagram env c username post r = Inr extra"
  shows "\<exists>d t. rs_body r = Some (JObj d) \<and> text_or_int (jget ''id'' d) = Some post
      \<and> jget ''caption'' d = Some (JStr t) \<and> sha256_text t = sha256_text (pcmd_content c)
      \<and> jget ''media_type'' d = Some (JStr ''IMAGE'') \<and> jget ''username'' d = Some (JStr username)"
proof -
  obtain d observed same where d: "json_object r = Inr d" "required_identifier d ''id'' = Inr observed"
    and id: "observed = post"
    and cap: "case jget ''caption'' d of Some (JStr t) \<Rightarrow> sha256_text t = sha256_text (pcmd_content c) | _ \<Rightarrow> False"
    and ty: "jget ''media_type'' d = Some (JStr ''IMAGE'')"
    and user: "(case jget ''username'' d of Some (JStr u) \<Rightarrow> compare_digest u username | _ \<Rightarrow> Inr False) = Inr same"
    and "same"
    using assms unfolding verify_instagram_def rbind_Inr_iff unless_unknown_Inr by blast
  from cap obtain t where "jget ''caption'' d = Some (JStr t)" "sha256_text t = sha256_text (pcmd_content c)"
    by (auto split: option.splits json.splits)
  moreover from user \<open>same\<close> have "jget ''username'' d = Some (JStr username)"
    by (auto simp: compare_digest_def split: option.splits json.splits if_splits)
  ultimately show ?thesis using d id ty required_identifier_Inr by (auto simp: json_object_Inr)
qed

lemma record_row:
  assumes "pending_row i rows"
    and "sp_record_container rows (sp_tenant_id i) (sp_intent_id i) (sp_fence i) cid now = Inr (rows', r)"
  shows "pending_row i rows'" and "sp_tenant_id r = sp_tenant_id i" and "sp_intent_id r = sp_intent_id i"
    and "sp_fence r = sp_fence i"
  using pending_record [OF assms] by auto

lemma publish_instagram_returned:
  assumes "publish_instagram env net clk c i tokens u s = (s', Inr r)" and "ps_log s = []"
    and "pending_row i (ps_rows s)"
  shows "\<exists>n container media post d t status sizes hs.
      pcmd_media_url c = Some media \<and> 1 \<le> n \<and> n \<le> pe_poll_attempts env \<and> says_finished (net n)
      \<and> net (n + 2) = Reply status sizes (Some (JObj d)) hs \<and> text_or_int (jget ''id'' d) = Some post
      \<and> jget ''caption'' d = Some (JStr t) \<and> sha256_text t = sha256_text (pcmd_content c)
      \<and> jget ''media_type'' d = Some (JStr ''IMAGE'') \<and> jget ''username'' d = Some (JStr u)
      \<and> map rq_phase (ps_log s') = [''instagram_container_create''] @ replicate n ''instagram_container_status''
          @ [''instagram_media_publish'', ''instagram_media_verify'']
      \<and> rq_data (ps_log s' ! 0) = [(''image_url'', media), (''caption'', pcmd_content c)]
      \<and> rq_data (ps_log s' ! (n + 1)) = [(''creation_id'', container)]
      \<and> sp_provider_post_id r = Some post"
proof -
  let ?base = "pe_graph_base env @ ''/''"
  obtain media r0 container rows1 pending s2 pr post vr extra rows3 where
    media: "pcmd_media_url c = Some media"
    and rec: "sp_record_container (ps_rows s) (sp_tenant_id i) (sp_intent_id i) (sp_fence i) container (clk 2)
        = Inr (rows1, pending)"
    and wait: "wait_for_container net (?base @ quote container) (pe_poll_attempts env)
        \<lparr>ps_rows = rows1, ps_log = [\<lparr>rq_method = ''POST'', rq_url = ?base @ quote (pcmd_account_id c) @ ''/media'',
           rq_phase = ''instagram_container_create'', rq_data = [(''image_url'', media), (''caption'', pcmd_content c)]\<rparr>]\<rparr>
        = (s2, Inr ())"
    and look: "read_reply (net (length (ps_log s2) + 1)) ''instagram_media_verify'' = Inr vr"
    and ver: "verify_instagram env c u post vr = Inr extra"
    and comp: "sp_complete (ps_rows s2) (sp_tenant_id pending) (sp_intent_id pending) (sp_fence pending) post
        (dict_update (pub_receipt ''instagram'' post pr pending (Some container)) extra) (clk 3) = Inr (rows3, r)"
    and s': "s' = \<lparr>ps_rows = rows3, ps_log = ps_log s2 @ [\<lparr>rq_method = ''POST'',
           rq_url = ?base @ quote (pcmd_account_id c) @ ''/media_publish'', rq_phase = ''instagram_media_publish'',
           rq_data = [(''creation_id'', container)]\<rparr>,
         \<lparr>rq_method = ''GET'', rq_url = ?base @ quote post, rq_phase = ''instagram_media_verify'',
           rq_data = [(''fields'', ''id,caption,media_type,permalink,timestamp,username'')]\<rparr>]\<rparr>"
    using assms(1,2)
    by (cases s) (auto simp: publish_instagram_def Let_def pbind_Inr done_with_Inr send_Inr or_unknown_Inr
        transact_Inr split: option.splits)
  note p = record_row [OF assms(3) rec]
  obtain n where n: "1 \<le> n" "n \<le> pe_poll_attempts env" "ps_rows s2 = rows1"
    "ps_log s2 = \<lparr>rq_method = ''POST'', rq_url = ?base @ quote (pcmd_account_id c) @ ''/media'',
       rq_phase = ''instagram_container_create'', rq_data = [(''image_url'', media), (''caption'', pcmd_content c)]\<rparr>
       # replicate n (poll_request (?base @ quote container))"
    "says_finished (net n)"
    using wait_finished [OF wait] by auto
  obtain status sizes body hs where v: "net (n + 2) = Reply status sizes body hs" "rs_body vr = body"
    using read_reply_Inr [OF look] n(4) by auto
  have "sp_provider_post_id r = Some post"
    using pending_complete [of i "ps_rows s2"] comp p n(3) by simp
  moreover have "map rq_phase (ps_log s') = [''instagram_container_create''] @ replicate n ''instagram_container_status''
          @ [''instagram_media_publish'', ''instagram_media_verify'']"
    by (simp add: s' n(4) poll_request_def)
  moreover have "rq_data (ps_log s' ! 0) = [(''image_url'', media), (''caption'', pcmd_content c)]"
    "rq_data (ps_log s' ! (n + 1)) = [(''creation_id'', container)]"
    by (simp_all add: s' n(4) nth_append)
  moreover obtain d t where "body = Some (JObj d)" "text_or_int (jget ''id'' d) = Some post"
      "jget ''caption'' d = Some (JStr t)" "sha256_text t = sha256_text (pcmd_content c)"
      "jget ''media_type'' d = Some (JStr ''IMAGE'')" "jget ''username'' d = Some (JStr u)"
    using verify_instagram_Inr [OF ver] v(2) by auto
  ultimately show ?thesis using v(1) n(1,2,5) media by blast
qed

text \<open>C34: a fresh result for Instagram is a verified post: one container with the approved media and
  caption, polled at most as often as configured until a reply says FINISHED, one publication of that
  container, and one read of the published media, whose reply carries the published id, an image, the
  connected account's name and a caption with the digest of the approved text.\<close>

theorem instagram_result_verified:
  assumes "history sp_reserve sp_step rows log"
    and "pub_execute env net clk (Some k) tokens c \<lparr>ps_rows = rows, ps_log = []\<rparr> = (s', Inr res)"
    and "\<not> pr_replayed res" and "pcmd_channel_id c = ''instagram''"
  shows "\<exists>n container media post d t status sizes hs.
      pcmd_media_url c = Some media \<and> 1 \<le> n \<and> n \<le> pe_poll_attempts env \<and> says_finished (net n)
      \<and> net (n + 2) = Reply status sizes (Some (JObj d)) hs \<and> text_or_int (jget ''id'' d) = Some post
      \<and> jget ''caption'' d = Some (JStr t) \<and> sha256_text t = sha256_text (strip (pcmd_content c))
      \<and> jget ''media_type'' d = Some (JStr ''IMAGE'') \<and> jget ''username'' d = Some (JStr (cn_username k))
      \<and> map rq_phase (ps_log s') = [''instagram_container_create''] @ replicate n ''instagram_container_status''
          @ [''instagram_media_publish'', ''instagram_media_verify'']
      \<and> rq_data (ps_log s' ! 0) = [(''image_url'', media), (''caption'', strip (pcmd_content c))]
      \<and> rq_data (ps_log s' ! (n + 1)) = [(''creation_id'', container)]
      \<and> pr_provider_post_id res = Some post"
  using assms(1-3)
proof (cases rule: execute_published)
  case (1 v k' t rows1 r)
  have v: "pub_validate c = Inr v" using pub_prepare_command [OF 1(1)] .
  then have c: "v = c\<lparr>pcmd_content := strip (pcmd_content c)\<rparr>"
    by (auto simp: pub_validate_def Let_def rbind_Inr_iff simp del: raise_first.simps)
  have k: "k' = k" using 1(1) by (auto simp: pub_prepare_def rbind_Inr_iff split: if_splits)
  have "publish_instagram env net clk v (pub_intent v (clk 1)) t (cn_username k) \<lparr>ps_rows = rows1, ps_log = []\<rparr> = (s', Inr r)"
    using 1(4) assms(4) c k by (simp add: pub_publish_def)
  from publish_instagram_returned [OF this] 1(3,5) c show ?thesis by (simp add: pub_from_intent_def)
qed

section \<open>Rejections are recorded\<close>

definition printable :: "char \<Rightarrow> bool" where
  "printable c \<longleftrightarrow> \<not> (code_point c < 32 \<or> code_point c = 127)"

lemma printable_classes: "is_py_digit c \<Longrightarrow> printable c" "is_token_char c \<Longrightarrow> printable c" "is_ascii_digit c \<Longrightarrow> printable c"
  by (auto simp: printable_def is_py_digit_def is_token_char_def is_alnum_def is_ascii_digit_def is_lower_def
      is_upper_def in_range_def)

lemma safe_numeric_code_printable: "list_all printable (safe_numeric_code v)"
  by (simp add: safe_numeric_code_def Let_def str_isdigit_def) (auto simp: list_all_iff intro: printable_classes)

lemma take_printable: "list_all printable s \<Longrightarrow> list_all printable (take n s)"
  by (auto simp: list_all_iff dest: in_set_takeD)

lemma safe_diagnostic_token_printable:
  "list_all printable fallback \<Longrightarrow> list_all printable (safe_diagnostic_token v fallback n)"
  by (auto simp: safe_diagnostic_token_def Let_def list_all_iff intro: printable_classes split: option.splits json.splits)

lemma or_else_printable: "list_all printable s \<Longrightarrow> list_all printable t \<Longrightarrow> list_all printable (or_else s t)"
  by (simp add: or_else_def)

lemma intercalate_printable: "list_all (list_all printable) xs \<Longrightarrow> printable CHR '':'' \<Longrightarrow> list_all printable (intercalate '':'' xs)"
  by (induction "'':''" xs rule: intercalate.induct) auto

lemma rejection_reason_valid:
  assumes "provider_rejected phase status code subcode error_type = SocialPublicationProviderRejectedError a b c d e"
  shows "sp_validate_reason (rejection_reason a b c d e) = Inr ()"
proof -
  have lit: "list_all printable ''provider_rejected''" "list_all printable ''provider''" "list_all printable ''none''"
    "printable CHR '':''" "printable CHR ''-''"
    by code_simp+
  have n: "list_all printable (show_int b)"
    using show_int_text [of b] show_nat_digits [of "nat \<bar>b\<bar>"] lit(5)
    by (auto simp: show_int_def list_all_iff intro: printable_classes)
  have "list_all printable a" "list_all printable c" "list_all printable d" "list_all printable e"
    using assms lit by (auto simp: provider_rejected_def safe_numeric_code_printable intro: safe_diagnostic_token_printable)
  then have "list_all printable (intercalate '':'' [''provider_rejected'', or_else a ''provider'', show_int b,
       or_else c ''none'', or_else d ''none'', or_else e ''none''])"
    using lit n by (intro intercalate_printable) (simp_all add: or_else_printable)
  then have "list_all printable (rejection_reason a b c d e)"
    unfolding rejection_reason_def by (rule take_printable)
  moreover have "rejection_reason a b c d e \<noteq> []" by (simp add: rejection_reason_def)
  moreover have "length (rejection_reason a b c d e) \<le> 128" by (simp add: rejection_reason_def)
  ultimately show ?thesis by (auto simp: sp_validate_reason_def list_all_iff printable_def)
qed

text \<open>C36: a provider rejection is always recorded: on the pending row of a valid intent the rejection
  handler re-raises exactly the provider's error and leaves the row failed, whatever phase, status and
  texts the provider sent.\<close>

theorem pub_rejection_recorded:
  assumes "pending_row i (ps_rows s)" and "sp_validate_intent i True = Inr ()"
    and "e = provider_rejected phase status code subcode error_type"
  shows "\<exists>s' r. (publication_error i now e :: pub_result action) s = (s', Inl e) \<and> settled_row i ''failed'' r (ps_rows s')
    \<and> ps_log s' = ps_log s"
proof -
  obtain a b c d t where e: "e = SocialPublicationProviderRejectedError a b c d t"
    using assms(3) by (simp add: provider_rejected_def)
  have ok: "sp_validate_reason (rejection_reason a b c d t) = Inr ()"
    using rejection_reason_valid assms(3) e by metis
  have "sp_identifier (sp_tenant_id i)" "sp_identifier (sp_intent_id i)" "1 \<le> sp_fence i"
    using assms(2) by (auto simp: sp_validate_intent_def rbind_Inr_iff)
  then have "sp_check_change (sp_tenant_id i) (sp_intent_id i) (sp_fence i) (sp_failure ''failed'' (rejection_reason a b c d t)) = Inr ()"
    using ok by (simp add: sp_check_change_def sp_validate_identity_def sp_failure_def SP_STATUSES_def)
  from pending_transition_ok [OF assms(1) this, of now] obtain rows r where
    tr: "sp_transition (ps_rows s) (sp_tenant_id i) (sp_intent_id i) (sp_fence i)
      (sp_failure ''failed'' (rejection_reason a b c d t)) now = Inr (rows, r)" by auto
  have "settled_row i ''failed'' r rows"
    using pending_transition [OF assms(1) tr] by (simp add: settled_row_def sp_failure_def)
  then show ?thesis using tr
    by (intro exI [of _ "s\<lparr>ps_rows := rows\<rparr>"] exI [of _ r])
      (simp add: e publication_error_def mark_failed_quietly_def sp_mark_failed_def quietly_def)
qed

section \<open>An attempt that raises before its first request\<close>

text \<open>A connected account without its access token is not rolled back: the reserved intent stays
  pending, no request is sent, and every later execution of the command, whatever its tokens, is
  blocked as pending.\<close>

theorem pub_missing_token_blocks:
  assumes "history sp_reserve sp_step rows log"
    and "pub_prepare env c con clk = Inr (v, k)"
    and "sp_reserve rows (pub_intent v (clk 1)) = Inr (rows1, rv)" and "res_executable rv"
    and "required_secret t ''access_token'' = Inl e"
    and "pub_prepare env' c con' clk' = Inr w"
  shows "pub_execute env net clk con (Some t) c \<lparr>ps_rows = rows, ps_log = []\<rparr> = (\<lparr>ps_rows = rows1, ps_log = []\<rparr>, Inl e)
    \<and> pub_execute env' net' clk' con' tokens' c \<lparr>ps_rows = rows1, ps_log = []\<rparr>
      = (\<lparr>ps_rows = rows1, ps_log = []\<rparr>, Inl (SocialPublicationBlockedError ''pending''))"
proof
  note g = granted_pending [OF assms(1,3,4)]
  have e: "\<exists>m. e = SocialPublicationUnavailableError m"
    using assms(5) by (auto simp: required_secret_def split: option.splits json.splits if_splits)
  have "pub_publish env net clk v (res_intent rv) t (cn_username k) \<lparr>ps_rows = rows1, ps_log = []\<rparr>
      = (\<lparr>ps_rows = rows1, ps_log = []\<rparr>, Inl e)"
    using assms(5) by (simp add: pub_publish_def publish_x_def publish_instagram_def Let_def pbind_def done_with_def)
  then show "pub_execute env net clk con (Some t) c \<lparr>ps_rows = rows, ps_log = []\<rparr> = (\<lparr>ps_rows = rows1, ps_log = []\<rparr>, Inl e)"
    using assms(2-4) e
    by (auto simp: pub_execute_def pbind_def done_with_def transact_def settle_publication_def publication_error_def)
  obtain k' where w: "pub_prepare env' c con' clk' = Inr (v, k')"
    using assms(6) pub_prepare_same [OF assms(2)] by (cases w) auto
  obtain r where r: "settled_row (pub_intent v (clk 1)) ''pending'' r rows1" using pending_settled [OF g(2)] by blast
  have "sp_reserve rows1 (pub_intent v (clk' 1)) = Inr (rows1, \<lparr>res_intent = r, res_executable = False, res_replayed = False\<rparr>)"
    using sp_reserve_existing [OF r, of "pub_intent v (clk' 1)"] g(3) pub_intent_validate [of v "clk 1" True "clk' 1"] by simp
  moreover have "sp_status r = ''pending''" using r by (simp add: settled_row_def)
  ultimately show "pub_execute env' net' clk' con' tokens' c \<lparr>ps_rows = rows1, ps_log = []\<rparr>
      = (\<lparr>ps_rows = rows1, ps_log = []\<rparr>, Inl (SocialPublicationBlockedError ''pending''))"
    using w by (simp add: pub_execute_def pbind_def done_with_def transact_def)
qed

end
