(* ===== verification/PublicationSamples.thy ===== *)
theory PublicationSamples
  imports PublicationLaws
begin

text \<open>
  Concrete runs of the publication authority (a post to X that is verified, one whose reply is lost,
  an Instagram image finished at the second poll) and the properties applied to them.
\<close>

section \<open>A concrete publication\<close>

definition sample_cmd :: pub_command where
  "sample_cmd = \<lparr>pcmd_tenant_id = ''t'', pcmd_channel_id = ''x'', pcmd_account_id = ''12'',
     pcmd_run_id = ''r'', pcmd_artifact_id = ''a'', pcmd_artifact_hash = replicate 64 CHR ''a'',
     pcmd_content = '' hello '', pcmd_media_url = None, pcmd_media_hash = None, pcmd_greenlight_id = ''g'',
     pcmd_greenlight_fencing_token = 0, pcmd_budget_cents = 0, pcmd_idempotency_key = ''12345678'',
     pcmd_confirmation_hash = None\<rparr>"

definition sample_valid_cmd :: pub_command where
  "sample_valid_cmd = sample_cmd\<lparr>pcmd_content := ''hello''\<rparr>"

definition sample_env :: pub_env where
  "sample_env = \<lparr>pe_enabled = True, pe_consumer_key = ''k'', pe_consumer_secret = ''s'', pe_poll_attempts = 3,
     pe_graph_base = ''https://graph.instagram.com/v24.0'', pe_iso = (\<lambda>s. Some (Some 0))\<rparr>"

definition sample_con :: connection where
  "sample_con = \<lparr>cn_account_id = ''12'', cn_username = ''user'', cn_token_expires_at = None\<rparr>"

definition sample_clock :: clock where
  "sample_clock n = ''2026-01-01T00:00:00+00:00''"

definition sample_tokens :: "(string \<times> json) list" where
  "sample_tokens = [(''access_token'', JStr ''at''), (''access_token_secret'', JStr ''ats'')]"

lemma sample_cmd_fields:
  "pcmd_tenant_id sample_cmd = ''t''" "pcmd_channel_id sample_cmd = ''x''"
  "pcmd_account_id sample_cmd = ''12''" "pcmd_run_id sample_cmd = ''r''" "pcmd_artifact_id sample_cmd = ''a''"
  "pcmd_artifact_hash sample_cmd = replicate 64 CHR ''a''" "pcmd_content sample_cmd = '' hello ''"
  "pcmd_media_url sample_cmd = None" "pcmd_media_hash sample_cmd = None" "pcmd_greenlight_id sample_cmd = ''g''"
  "pcmd_greenlight_fencing_token sample_cmd = 0" "pcmd_budget_cents sample_cmd = 0"
  "pcmd_idempotency_key sample_cmd = ''12345678''" "pcmd_confirmation_hash sample_cmd = None"
  by (simp_all add: sample_cmd_def)

lemma sample_validate: "pub_validate sample_cmd = Inr sample_valid_cmd"
proof -
  have s: "strip '' hello '' = ''hello''" "utf8_len ''hello'' = 5" "is_sha256 (replicate 64 CHR ''a'')"
    by code_simp+
  show ?thesis by (simp add: pub_validate_def Let_def s sample_cmd_fields sample_valid_cmd_def)
qed

lemma sample_pub_prepare: "pub_prepare sample_env sample_cmd (Some sample_con) clk = Inr (sample_valid_cmd, sample_con)"
proof -
  have f: "pe_enabled sample_env" "pe_consumer_key sample_env = ''k''" "pe_consumer_secret sample_env = ''s''"
    "cn_account_id sample_con = ''12''" "cn_token_expires_at sample_con = None"
    "pcmd_account_id sample_valid_cmd = ''12''" "pcmd_channel_id sample_valid_cmd = ''x''"
    by (simp_all add: sample_env_def sample_con_def sample_valid_cmd_def sample_cmd_def)
  show ?thesis unfolding pub_prepare_def sample_validate by (simp add: f token_expired_def)
qed

lemma intent_id_identifier: "sp_identifier (stable_id ''social-publication-intent'' vs 48)"
proof -
  let ?x = "sha256_text (canonical_json (JList vs))"
  have "is_sha256 ?x" by simp
  then have "\<forall>c \<in> set (take 48 ?x). is_lower_hex c"
    by (auto simp: is_sha256_def list_all_iff dest: in_set_takeD)
  then have "\<forall>c \<in> set (take 48 ?x). is_alnum c"
    by (auto simp: is_lower_hex_def is_alnum_def is_lower_def is_ascii_digit_def in_range_def)
  moreover have "\<forall>c \<in> set ''ocial-publication-intent-''. is_alnum c \<or> c = CHR ''-''" "is_alnum CHR ''s''"
    by code_simp+
  ultimately show ?thesis by (auto simp: sp_identifier_def fullmatch_class_def list_all_iff stable_id_def)
qed

definition sample_i :: sp_intent where
  "sample_i = pub_intent sample_valid_cmd (sample_clock 1)"

lemma sample_i_fields:
  "sp_intent_id sample_i = stable_id ''social-publication-intent'' [JStr ''t'', JStr (sha256_text ''12345678'')] 48"
  "sp_tenant_id sample_i = ''t''" "sp_channel_id sample_i = ''x''" "sp_account_id sample_i = ''12''"
  "sp_run_id sample_i = ''r''" "sp_artifact_id sample_i = ''a''" "sp_artifact_hash sample_i = replicate 64 CHR ''a''"
  "sp_content_hash sample_i = sha256_text ''hello''" "sp_media_url_hash sample_i = None"
  "sp_media_hash sample_i = None" "sp_confirmation_hash sample_i = None" "sp_greenlight_id sample_i = ''g''"
  "sp_greenlight_fencing_token sample_i = 0" "sp_budget_cents sample_i = 0"
  "sp_idempotency_digest sample_i = sha256_text ''12345678''"
  "sp_binding_digest sample_i = sha256_text (canonical_json (pub_binding sample_valid_cmd))"
  "sp_status sample_i = ''pending''" "sp_fence sample_i = 1" "sp_receipt sample_i = []"
  by (simp_all add: sample_i_def pub_intent_def sample_valid_cmd_def sample_cmd_def Let_def)

lemma sample_i_valid: "sp_validate_intent sample_i True = Inr ()"
proof -
  have n: "sp_identifier ''t''" "sp_identifier ''12''" "sp_identifier ''r''" "sp_identifier ''a''"
    "sp_identifier ''g''" "sp_channel ''x''" "is_sha256 (replicate 64 CHR ''a'')"
    by code_simp+
  have "sp_validate_receipt [] = Inr ()" by code_simp
  then show ?thesis
    unfolding sp_validate_intent_def sample_i_fields
    by (simp add: n intent_id_identifier SP_STATUSES_def)
qed

lemma sample_i_reserve: "sp_reserve [] sample_i = Inr ([sample_i],
   \<lparr>res_intent = sample_i, res_executable = True, res_replayed = False\<rparr>)"
proof -
  have "sp_row sample_i = sample_i" by (simp add: sp_row_def sample_i_fields canonical_receipt_def)
  then show ?thesis
    using sample_i_valid by (simp add: sp_reserve_def sp_find_existing_def sql_find_def sp_insert_def)
qed

lemma pub_execute_granted:
  assumes "pub_prepare env c con clk = Inr (v, k)"
    and "sp_reserve (ps_rows s) (pub_intent v (clk 1)) = Inr (rows1, rv)" and "res_executable rv"
  shows "pub_execute env net clk con (Some t) c s =
    settle_publication (res_intent rv) (clk 4) (pub_publish env net clk v (res_intent rv) t (cn_username k))
      (s\<lparr>ps_rows := rows1\<rparr>)"
  using assms by (simp add: pub_execute_def pbind_def done_with_def transact_def)

lemma sample_execute: "pub_execute sample_env net sample_clock (Some sample_con) (Some sample_tokens) sample_cmd \<lparr>ps_rows = [], ps_log = []\<rparr>
   = settle_publication sample_i (sample_clock 4)
       (publish_x sample_env net sample_clock sample_valid_cmd sample_i sample_tokens ''user'')
       \<lparr>ps_rows = [sample_i], ps_log = []\<rparr>"
proof -
  have "sp_reserve [] (pub_intent sample_valid_cmd (sample_clock 1)) = Inr ([sample_i],
      \<lparr>res_intent = sample_i, res_executable = True, res_replayed = False\<rparr>)"
    using sample_i_reserve by (simp add: sample_i_def)
  moreover have "pcmd_channel_id sample_valid_cmd = ''x''" "cn_username sample_con = ''user''"
    by (simp_all add: sample_valid_cmd_def sample_cmd_def sample_con_def)
  ultimately show ?thesis
    using pub_execute_granted [OF sample_pub_prepare, of "\<lparr>ps_rows = [], ps_log = []\<rparr>" sample_clock]
    by (simp add: pub_publish_def)
qed

lemma sample_pending: "pending_row sample_i [sample_i]"
  using granted_pending(2) [OF history.start sample_i_reserve] by simp

text \<open>The provider does not answer.\<close>

lemma sample_lost: "pub_execute sample_env (\<lambda>n. NetError) sample_clock (Some sample_con) (Some sample_tokens) sample_cmd
     \<lparr>ps_rows = [], ps_log = []\<rparr>
   = (\<lparr>ps_rows = [sp_apply (sp_failure ''unknown'' ''provider_outcome_unknown'') (sample_clock 4) sample_i],
       ps_log = [\<lparr>rq_method = ''POST'', rq_url = x_create_url, rq_phase = ''x_post_create'',
                   rq_data = [(''text'', ''hello'')]\<rparr>]\<rparr>,
      Inl (SocialPublicationUnknownError ''social publication outcome is unknown''))"
proof -
  have sec: "required_secret sample_tokens ''access_token'' = Inr ''at''"
    "required_secret sample_tokens ''access_token_secret'' = Inr ''ats''"
    by (simp_all add: required_secret_def sample_tokens_def jget_def)
  have "sp_check_change ''t'' (sp_intent_id sample_i) 1 (sp_failure ''unknown'' ''provider_outcome_unknown'') = Inr ()"
  proof -
    have "sp_identifier ''t''" "sp_validate_reason ''provider_outcome_unknown'' = Inr ()" by code_simp+
    then show ?thesis by (simp add: sp_check_change_def sp_validate_identity_def sample_i_fields intent_id_identifier
          sp_failure_def SP_STATUSES_def)
  qed
  then have "sp_transition [sample_i] ''t'' (sp_intent_id sample_i) 1 (sp_failure ''unknown'' ''provider_outcome_unknown'') (sample_clock 4)
     = Inr ([sp_apply (sp_failure ''unknown'' ''provider_outcome_unknown'') (sample_clock 4) sample_i],
            sp_apply (sp_failure ''unknown'' ''provider_outcome_unknown'') (sample_clock 4) sample_i)"
    using sp_transition_ok [of "[sample_i]" "''t''" "sp_intent_id sample_i" 1 _ sample_i] by (simp add: sample_i_fields)
  moreover have "pcmd_content sample_valid_cmd = ''hello''" by (simp add: sample_valid_cmd_def)
  ultimately show ?thesis unfolding sample_execute
    by (simp add: settle_publication_def publish_x_def pbind_def done_with_def sec send_def read_reply_def
        unknown_outcome_def publication_error_def mark_unknown_silently_def quietly_def sp_mark_unknown_def
        sample_i_fields(2,18))
qed

text \<open>X accepts the post and shows it.\<close>

definition sample_x_net :: network where
  "sample_x_net n = (if n = 0
     then Reply 201 [20] (Some (JObj [(''data'', JObj [(''id'', JStr ''77'')])])) []
     else Reply 200 [90] (Some (JObj [(''data'', JObj [(''id'', JStr ''77''), (''text'', JStr ''hello''),
       (''author_id'', JStr ''12''), (''created_at'', JStr ''2026-01-01T00:00:00Z'')])])) [])"

definition sample_x_receipt :: "(string \<times> json) list" where
  "sample_x_receipt = dict_update
     (pub_receipt ''x'' ''77'' \<lparr>rs_status = 201, rs_body = Some (JObj [(''data'', JObj [(''id'', JStr ''77'')])]), rs_headers = []\<rparr>
        sample_i None)
     [(''verification_status'', JStr ''verified''), (''verification_request_id'', JStr []),
      (''permalink'', JStr ''https://x.com/user/status/77''), (''published_at'', JStr ''2026-01-01T00:00:00Z''),
      (''username'', JStr ''user''), (''author_id'', JStr ''12''), (''content_sha256'', JStr (sha256_text ''hello''))]"

lemma sample_x_verify: "verify_x sample_env sample_valid_cmd ''user'' ''77''
    \<lparr>rs_status = 200, rs_body = Some (JObj [(''data'', JObj [(''id'', JStr ''77''), (''text'', JStr ''hello''),
       (''author_id'', JStr ''12''), (''created_at'', JStr ''2026-01-01T00:00:00Z'')])]), rs_headers = []\<rparr>
   = Inr [(''verification_status'', JStr ''verified''), (''verification_request_id'', JStr []),
      (''permalink'', JStr ''https://x.com/user/status/77''), (''published_at'', JStr ''2026-01-01T00:00:00Z''),
      (''username'', JStr ''user''), (''author_id'', JStr ''12''), (''content_sha256'', JStr (sha256_text ''hello''))]"
proof -
  have "compare_digest ''77'' ''77'' = Inr True" "compare_digest ''12'' ''12'' = Inr True"
    "str_isdigit ''77''" "x_username_ok ''user''" "(\<exists>c \<in> set ''12''. code_point c < 32) = False" by code_simp+
  then show ?thesis
    by (simp add: verify_x_def json_object_def data_object_def jget_def required_x_post_id_def text_or_int_def
        required_identifier_def unless_unknown_def check_timestamp_def sample_env_def header_of_def
        sample_valid_cmd_def sample_cmd_def)
qed

lemma sample_x_fits: "sp_validate_receipt sample_x_receipt = Inr ()"
proof -
  have "json_size (JObj sample_x_receipt) \<le> 8192"
    by (simp add: sample_x_receipt_def pub_receipt_def dict_update_def dict_set_def header_of_def or_else_def sample_i_fields
        opt_json_def show_int_def show_nat.simps sha256_text_def)
  then have "utf8_len (canonical_json (JObj sample_x_receipt)) \<le> 8192"
    using canonical_json_size le_trans by blast
  then show ?thesis by (simp add: sp_validate_receipt_def)
qed

lemma sample_x_returned: "\<exists>s' res. pub_execute sample_env sample_x_net sample_clock (Some sample_con) (Some sample_tokens) sample_cmd
     \<lparr>ps_rows = [], ps_log = []\<rparr> = (s', Inr res) \<and> \<not> pr_replayed res \<and> pr_provider_post_id res = Some ''77''
     \<and> ps_log s' \<noteq> []"
proof -
  have sec: "required_secret sample_tokens ''access_token'' = Inr ''at''"
    "required_secret sample_tokens ''access_token_secret'' = Inr ''ats''"
    by (simp_all add: required_secret_def sample_tokens_def jget_def)
  let ?ch = "\<lparr>sc_status = ''succeeded'', sc_container_id = None, sc_post_id = Some ''77'',
      sc_receipt = Some sample_x_receipt, sc_failure_reason = [], sc_completed = True\<rparr>"
  have "sp_check_change ''t'' (sp_intent_id sample_i) 1 ?ch = Inr ()"
  proof -
    have "sp_identifier ''t''" "sp_validate_provider_id ''77'' = Inr ()" by code_simp+
    then show ?thesis using sample_x_fits by (simp add: sp_check_change_def sp_validate_identity_def sample_i_fields
        intent_id_identifier SP_STATUSES_def)
  qed
  then have "sp_complete [sample_i] ''t'' (sp_intent_id sample_i) 1 ''77'' sample_x_receipt (sample_clock 3)
     = Inr ([sp_apply ?ch (sample_clock 3) sample_i], sp_apply ?ch (sample_clock 3) sample_i)"
    using sp_transition_ok [of "[sample_i]" "''t''" "sp_intent_id sample_i" 1 _ sample_i]
    by (simp add: sp_complete_def sample_i_fields)
  moreover have "pcmd_content sample_valid_cmd = ''hello''" by (simp add: sample_valid_cmd_def)
  moreover have "str_isdigit ''77''" by code_simp
  ultimately show ?thesis unfolding sample_execute
    using sample_x_verify
    by (simp add: settle_publication_def publish_x_def pbind_def done_with_def sec send_def read_reply_def
        sample_x_net_def json_object_def data_object_def jget_def required_x_post_id_def text_or_int_def
        or_unknown_def transact_def sample_x_receipt_def [symmetric] sample_i_fields(2,18) pub_from_intent_def sp_apply_def)
qed

text \<open>An Instagram publication, finished at the second poll.\<close>

definition sample_ig_cmd :: pub_command where
  "sample_ig_cmd = sample_cmd\<lparr>pcmd_channel_id := ''instagram'', pcmd_content := ''hello'',
     pcmd_media_url := Some ''https://m/a'', pcmd_media_hash := Some (replicate 64 CHR ''b'')\<rparr>"

definition sample_ig :: sp_intent where
  "sample_ig = pub_intent sample_ig_cmd (sample_clock 1)"

definition sample_ig_net :: network where
  "sample_ig_net n = Reply 200 [40] (Some (JObj (
     if n = 0 then [(''id'', JStr ''c1'')]
     else if n = 1 then [(''status_code'', JStr ''IN_PROGRESS'')]
     else if n = 2 then [(''status_code'', JStr ''FINISHED'')]
     else if n = 3 then [(''id'', JStr ''p1'')]
     else [(''id'', JStr ''p1''), (''caption'', JStr ''hello''), (''media_type'', JStr ''IMAGE''),
           (''username'', JStr ''user''), (''permalink'', JStr ''https://www.instagram.com/p/1''),
           (''timestamp'', JStr ''2026-01-01T00:00:00Z'')]))) []"

lemma sample_ig_cmd_fields:
  "pcmd_tenant_id sample_ig_cmd = ''t''" "pcmd_channel_id sample_ig_cmd = ''instagram''"
  "pcmd_account_id sample_ig_cmd = ''12''" "pcmd_run_id sample_ig_cmd = ''r''" "pcmd_artifact_id sample_ig_cmd = ''a''"
  "pcmd_artifact_hash sample_ig_cmd = replicate 64 CHR ''a''" "pcmd_content sample_ig_cmd = ''hello''"
  "pcmd_media_url sample_ig_cmd = Some ''https://m/a''" "pcmd_media_hash sample_ig_cmd = Some (replicate 64 CHR ''b'')"
  "pcmd_greenlight_id sample_ig_cmd = ''g''" "pcmd_greenlight_fencing_token sample_ig_cmd = 0"
  "pcmd_budget_cents sample_ig_cmd = 0" "pcmd_idempotency_key sample_ig_cmd = ''12345678''"
  "pcmd_confirmation_hash sample_ig_cmd = None"
  by (simp_all add: sample_ig_cmd_def sample_cmd_def)

lemma sample_ig_prepare: "pub_prepare sample_env sample_ig_cmd (Some sample_con) clk = Inr (sample_ig_cmd, sample_con)"
proof -
  have s: "strip ''hello'' = ''hello''" "utf8_len ''hello'' = 5" "is_sha256 (replicate 64 CHR ''a'')"
    "is_sha256 (replicate 64 CHR ''b'')" "utf8_len ''https://m/a'' = 11" "\<not> bad_https_url ''https://m/a''"
    "urlsplit ''https://m/a'' \<noteq> Inl (ValueError ''Invalid IPv6 URL'')"
    by code_simp+
  have "sample_ig_cmd\<lparr>pcmd_content := ''hello''\<rparr> = sample_ig_cmd" by (simp add: sample_ig_cmd_def)
  then have v: "pub_validate sample_ig_cmd = Inr sample_ig_cmd"
    by (simp add: pub_validate_def Let_def s sample_ig_cmd_fields)
  have "pe_enabled sample_env" "cn_account_id sample_con = ''12''" "cn_token_expires_at sample_con = None"
    by (simp_all add: sample_env_def sample_con_def)
  then show ?thesis unfolding pub_prepare_def v by (simp add: sample_ig_cmd_fields token_expired_def)
qed

lemma sample_ig_fields:
  "sp_intent_id sample_ig = stable_id ''social-publication-intent'' [JStr ''t'', JStr (sha256_text ''12345678'')] 48"
  "sp_tenant_id sample_ig = ''t''" "sp_channel_id sample_ig = ''instagram''" "sp_account_id sample_ig = ''12''"
  "sp_run_id sample_ig = ''r''" "sp_artifact_id sample_ig = ''a''" "sp_artifact_hash sample_ig = replicate 64 CHR ''a''"
  "sp_content_hash sample_ig = sha256_text ''hello''" "sp_media_url_hash sample_ig = Some (sha256_text ''https://m/a'')"
  "sp_media_hash sample_ig = Some (replicate 64 CHR ''b'')" "sp_confirmation_hash sample_ig = None"
  "sp_greenlight_id sample_ig = ''g''" "sp_greenlight_fencing_token sample_ig = 0" "sp_budget_cents sample_ig = 0"
  "sp_idempotency_digest sample_ig = sha256_text ''12345678''"
  "sp_binding_digest sample_ig = sha256_text (canonical_json (pub_binding sample_ig_cmd))"
  "sp_status sample_ig = ''pending''" "sp_fence sample_ig = 1" "sp_receipt sample_ig = []"
  by (simp_all add: sample_ig_def pub_intent_def Let_def sample_ig_cmd_fields)

lemma sample_ig_reserve: "sp_reserve [] sample_ig = Inr ([sample_ig],
   \<lparr>res_intent = sample_ig, res_executable = True, res_replayed = False\<rparr>)"
proof -
  have n: "sp_identifier ''t''" "sp_identifier ''12''" "sp_identifier ''r''" "sp_identifier ''a''"
    "sp_identifier ''g''" "sp_channel ''instagram''" "is_sha256 (replicate 64 CHR ''a'')" "is_sha256 (replicate 64 CHR ''b'')"
    "sp_validate_receipt [] = Inr ()"
    by code_simp+
  have "sp_validate_intent sample_ig True = Inr ()"
    unfolding sp_validate_intent_def sample_ig_fields
    by (simp add: n intent_id_identifier SP_STATUSES_def)
  moreover have "sp_row sample_ig = sample_ig" by (simp add: sp_row_def sample_ig_fields canonical_receipt_def)
  ultimately show ?thesis by (simp add: sp_reserve_def sp_find_existing_def sql_find_def sp_insert_def)
qed

definition sample_ig_pending :: sp_intent where
  "sample_ig_pending = sp_apply \<lparr>sc_status = ''pending'', sc_container_id = Some ''c1'', sc_post_id = None, sc_receipt = None,
        sc_failure_reason = [], sc_completed = False\<rparr> (sample_clock 2) sample_ig"

lemma sample_ig_record: "sp_record_container [sample_ig] ''t'' (sp_intent_id sample_ig) 1 ''c1'' (sample_clock 2)
   = Inr ([sample_ig_pending], sample_ig_pending)"
proof -
  have "sp_identifier ''t''" "sp_validate_provider_id ''c1'' = Inr ()" by code_simp+
  then have "sp_check_change ''t'' (sp_intent_id sample_ig) 1 \<lparr>sc_status = ''pending'', sc_container_id = Some ''c1'', sc_post_id = None, sc_receipt = None,
        sc_failure_reason = [], sc_completed = False\<rparr> = Inr ()"
    by (simp add: sp_check_change_def sp_validate_identity_def sample_ig_fields intent_id_identifier SP_STATUSES_def)
  then show ?thesis
    using sp_transition_ok [of "[sample_ig]" "''t''" "sp_intent_id sample_ig" 1 _ sample_ig]
    by (simp add: sp_record_container_def sample_ig_fields sample_ig_pending_def)
qed

definition sample_ig_receipt :: "(string \<times> json) list" where
  "sample_ig_receipt = dict_update
     (pub_receipt ''instagram'' ''p1'' \<lparr>rs_status = 200, rs_body = Some (JObj [(''id'', JStr ''p1'')]), rs_headers = []\<rparr>
        sample_ig_pending (Some ''c1''))
     [(''verification_status'', JStr ''verified''), (''verification_request_id'', JStr []),
      (''permalink'', JStr ''https://www.instagram.com/p/1''), (''published_at'', JStr ''2026-01-01T00:00:00Z''),
      (''media_type'', JStr ''IMAGE''), (''username'', JStr ''user''),
      (''caption_sha256'', JStr (sha256_text ''hello'')), (''media_sha256'', JStr (replicate 64 CHR ''b''))]"

lemma sample_ig_pending_fields:
  "sp_intent_id sample_ig_pending = sp_intent_id sample_ig" "sp_tenant_id sample_ig_pending = ''t''"
  "sp_fence sample_ig_pending = 1" "sp_artifact_hash sample_ig_pending = replicate 64 CHR ''a''"
  "sp_binding_digest sample_ig_pending = sha256_text (canonical_json (pub_binding sample_ig_cmd))"
  "sp_status sample_ig_pending = ''pending''"
  by (simp_all add: sample_ig_pending_def sp_apply_def sample_ig_fields)

lemma sample_ig_complete: "\<exists>r. sp_complete [sample_ig_pending] ''t'' (sp_intent_id sample_ig) 1 ''p1'' sample_ig_receipt (sample_clock 3)
   = Inr ([r], r) \<and> sp_provider_post_id r = Some ''p1''"
proof -
  have "json_size (JObj sample_ig_receipt) \<le> 8192"
    by (simp add: sample_ig_receipt_def pub_receipt_def dict_update_def dict_set_def header_of_def or_else_def
        sample_ig_pending_fields opt_json_def show_int_def show_nat.simps sha256_text_def)
  then have "utf8_len (canonical_json (JObj sample_ig_receipt)) \<le> 8192"
    using canonical_json_size le_trans by blast
  then have fits: "sp_validate_receipt sample_ig_receipt = Inr ()" by (simp add: sp_validate_receipt_def)
  let ?ch = "\<lparr>sc_status = ''succeeded'', sc_container_id = None, sc_post_id = Some ''p1'',
      sc_receipt = Some sample_ig_receipt, sc_failure_reason = [], sc_completed = True\<rparr>"
  have "sp_identifier ''t''" "sp_validate_provider_id ''p1'' = Inr ()" by code_simp+
  then have "sp_check_change ''t'' (sp_intent_id sample_ig) 1 ?ch = Inr ()"
    using fits by (simp add: sp_check_change_def sp_validate_identity_def sample_ig_fields intent_id_identifier SP_STATUSES_def)
  then have "sp_complete [sample_ig_pending] ''t'' (sp_intent_id sample_ig) 1 ''p1'' sample_ig_receipt (sample_clock 3)
     = Inr ([sp_apply ?ch (sample_clock 3) sample_ig_pending], sp_apply ?ch (sample_clock 3) sample_ig_pending)"
    using sp_transition_ok [of "[sample_ig_pending]" "''t''" "sp_intent_id sample_ig" 1 _ sample_ig_pending]
    by (simp add: sp_complete_def sample_ig_pending_fields)
  then show ?thesis by (simp add: sp_apply_def)
qed

lemma sample_ig_verify: "verify_instagram sample_env sample_ig_cmd ''user'' ''p1''
    \<lparr>rs_status = 200, rs_body = Some (JObj [(''id'', JStr ''p1''), (''caption'', JStr ''hello''), (''media_type'', JStr ''IMAGE''),
           (''username'', JStr ''user''), (''permalink'', JStr ''https://www.instagram.com/p/1''),
           (''timestamp'', JStr ''2026-01-01T00:00:00Z'')]), rs_headers = []\<rparr>
   = Inr [(''verification_status'', JStr ''verified''), (''verification_request_id'', JStr []),
      (''permalink'', JStr ''https://www.instagram.com/p/1''), (''published_at'', JStr ''2026-01-01T00:00:00Z''),
      (''media_type'', JStr ''IMAGE''), (''username'', JStr ''user''),
      (''caption_sha256'', JStr (sha256_text ''hello'')), (''media_sha256'', JStr (replicate 64 CHR ''b''))]"
proof -
  have link: "rbind (urlsplit ''https://www.instagram.com/p/1'') (\<lambda>u. if instagram_permalink_ok u then Inr ''https://www.instagram.com/p/1''
      else Inl (SocialPublicationUnknownError ''Instagram media permalink is invalid'')) = Inr ''https://www.instagram.com/p/1''"
    "compare_digest ''user'' ''user'' = Inr True" "(\<exists>c \<in> set ''p1''. code_point c < 32) = False" by code_simp+
  then show ?thesis
    by (simp add: verify_instagram_def json_object_def jget_def required_identifier_def text_or_int_def
        unless_unknown_def check_timestamp_def sample_env_def header_of_def or_else_def sample_ig_cmd_fields)
qed

lemma sample_ig_required:
  "required_secret sample_tokens ''access_token'' = Inr ''at''"
  "required_identifier [(''id'', JStr ''c1'')] ''id'' = Inr ''c1''"
  "required_identifier [(''id'', JStr ''p1'')] ''id'' = Inr ''p1''"
proof -
  show "required_secret sample_tokens ''access_token'' = Inr ''at''"
    by (simp add: required_secret_def sample_tokens_def jget_def)
  have "(\<exists>c \<in> set ''c1''. code_point c < 32) = False" "(\<exists>c \<in> set ''p1''. code_point c < 32) = False" by code_simp+
  then show "required_identifier [(''id'', JStr ''c1'')] ''id'' = Inr ''c1''"
    "required_identifier [(''id'', JStr ''p1'')] ''id'' = Inr ''p1''"
    by (simp_all add: required_identifier_def text_or_int_def jget_def)
qed

lemma sample_ig_wait: "length (ps_log s) = 1 \<Longrightarrow>
   wait_for_container sample_ig_net u 3 s = (s\<lparr>ps_log := ps_log s @ [poll_request u, poll_request u]\<rparr>, Inr ())"
proof -
  assume l: "length (ps_log s) = 1"
  then have ne: "ps_log s \<noteq> []" by auto
  have v: "poll_verdict \<lparr>rs_status = 200, rs_body = b, rs_headers = []\<rparr> [(''status_code'', JStr ''IN_PROGRESS'')] = Inr False"
    "poll_verdict \<lparr>rs_status = 200, rs_body = b, rs_headers = []\<rparr> [(''status_code'', JStr ''FINISHED'')] = Inr True" for b
  proof -
    have s: "strip ''IN_PROGRESS'' = ''IN_PROGRESS''" "strip ''FINISHED'' = ''FINISHED''" "str_upper ''IN_PROGRESS'' = ''IN_PROGRESS''" "str_upper ''FINISHED'' = ''FINISHED''"
      by code_simp+
    show "poll_verdict \<lparr>rs_status = 200, rs_body = b, rs_headers = []\<rparr> [(''status_code'', JStr ''IN_PROGRESS'')] = Inr False"
    "poll_verdict \<lparr>rs_status = 200, rs_body = b, rs_headers = []\<rparr> [(''status_code'', JStr ''FINISHED'')] = Inr True"
      by (simp_all add: poll_verdict_def jget_def s)
  qed
  show ?thesis
    by (simp add: numeral_3_eq_3 pbind_def send_def done_with_def read_reply_def sample_ig_net_def l ne json_object_def v
        poll_request_def)
qed

lemma sample_ig_returned: "\<exists>s' res. pub_execute sample_env sample_ig_net sample_clock (Some sample_con) (Some sample_tokens) sample_ig_cmd
     \<lparr>ps_rows = [], ps_log = []\<rparr> = (s', Inr res) \<and> \<not> pr_replayed res \<and> pr_provider_post_id res = Some ''p1''"
proof -
  have ex: "pub_execute sample_env sample_ig_net sample_clock (Some sample_con) (Some sample_tokens) sample_ig_cmd
      \<lparr>ps_rows = [], ps_log = []\<rparr>
    = settle_publication sample_ig (sample_clock 4)
       (publish_instagram sample_env sample_ig_net sample_clock sample_ig_cmd sample_ig sample_tokens ''user'')
       \<lparr>ps_rows = [sample_ig], ps_log = []\<rparr>"
  proof -
    have "sp_reserve [] (pub_intent sample_ig_cmd (sample_clock 1)) = Inr ([sample_ig],
      \<lparr>res_intent = sample_ig, res_executable = True, res_replayed = False\<rparr>)"
      using sample_ig_reserve by (simp add: sample_ig_def)
    moreover have "pcmd_channel_id sample_ig_cmd = ''instagram''" "cn_username sample_con = ''user''"
      by (simp_all add: sample_ig_cmd_fields sample_con_def)
    ultimately show ?thesis
      using pub_execute_granted [OF sample_ig_prepare, of "\<lparr>ps_rows = [], ps_log = []\<rparr>" sample_clock]
      by (simp add: pub_publish_def)
  qed
  obtain r where r: "sp_complete [sample_ig_pending] ''t'' (sp_intent_id sample_ig) 1 ''p1'' sample_ig_receipt (sample_clock 3)
   = Inr ([r], r)" "sp_provider_post_id r = Some ''p1''" using sample_ig_complete by blast
  have poll: "pe_poll_attempts sample_env = 3" by (simp add: sample_env_def)
  have net: "sample_ig_net 0 = Reply 200 [40] (Some (JObj [(''id'', JStr ''c1'')])) []"
    "sample_ig_net (Suc (Suc (Suc 0))) = Reply 200 [40] (Some (JObj [(''id'', JStr ''p1'')])) []"
    "sample_ig_net (Suc (Suc (Suc (Suc 0)))) = Reply 200 [40] (Some (JObj [(''id'', JStr ''p1''), (''caption'', JStr ''hello''), (''media_type'', JStr ''IMAGE''),
           (''username'', JStr ''user''), (''permalink'', JStr ''https://www.instagram.com/p/1''),
           (''timestamp'', JStr ''2026-01-01T00:00:00Z'')])) []"
    by (simp_all add: sample_ig_net_def)
  show ?thesis unfolding ex
    using r sample_ig_record sample_ig_verify
    by (simp add: settle_publication_def publish_instagram_def Let_def pbind_def done_with_def sample_ig_required send_def
        read_reply_def net json_object_def transact_def or_unknown_def sample_ig_fields(2,18) sample_ig_cmd_fields
        sample_ig_wait poll sample_ig_pending_fields sample_ig_receipt_def [symmetric] pub_from_intent_def)
qed


section \<open>Witnesses\<close>

theorem x_result_verified_witness:
  "\<exists>s' res. pub_execute sample_env sample_x_net sample_clock (Some sample_con) (Some sample_tokens) sample_cmd
     \<lparr>ps_rows = [], ps_log = []\<rparr> = (s', Inr res)
   \<and> jget ''content_sha256'' (pr_receipt res) = Some (JStr (sha256_text (strip (pcmd_content sample_cmd))))"
proof -
  obtain s' res where r: "pub_execute sample_env sample_x_net sample_clock (Some sample_con) (Some sample_tokens) sample_cmd
      \<lparr>ps_rows = [], ps_log = []\<rparr> = (s', Inr res)" "\<not> pr_replayed res" using sample_x_returned by blast
  have "pcmd_channel_id sample_cmd = ''x''" by (simp add: sample_cmd_def)
  from x_result_verified [OF history.start r this] r(1) show ?thesis by blast
qed

theorem instagram_result_verified_witness:
  "\<exists>s' res. pub_execute sample_env sample_ig_net sample_clock (Some sample_con) (Some sample_tokens) sample_ig_cmd
     \<lparr>ps_rows = [], ps_log = []\<rparr> = (s', Inr res)
   \<and> (\<exists>n. 1 \<le> n \<and> n \<le> pe_poll_attempts sample_env \<and> says_finished (sample_ig_net n))"
proof -
  obtain s' res where r: "pub_execute sample_env sample_ig_net sample_clock (Some sample_con) (Some sample_tokens) sample_ig_cmd
      \<lparr>ps_rows = [], ps_log = []\<rparr> = (s', Inr res)" "\<not> pr_replayed res" using sample_ig_returned by blast
  from instagram_result_verified [OF history.start r sample_ig_cmd_fields(2)] r(1) show ?thesis by blast
qed

theorem pub_requests_bounded_witness:
  "\<exists>s' out. pub_execute sample_env sample_ig_net sample_clock (Some sample_con) (Some sample_tokens) sample_ig_cmd
     \<lparr>ps_rows = [], ps_log = []\<rparr> = (s', out) \<and> sent ''instagram_media_publish'' s' \<le> 1"
proof -
  obtain s' out where r: "pub_execute sample_env sample_ig_net sample_clock (Some sample_con) (Some sample_tokens) sample_ig_cmd
     \<lparr>ps_rows = [], ps_log = []\<rparr> = (s', out)" by (rule prod.exhaust)
  have "phase_budget sample_env ''instagram_media_publish'' = 1" by (simp add: phase_budget_def)
  then have "sent ''instagram_media_publish'' s' \<le> 1"
    using pub_requests_bounded [OF history.start r, of "''instagram_media_publish''"] by (simp only:)
  with r show ?thesis by (intro exI conjI)
qed

theorem pub_single_attempt_witness:
  "\<exists>s1 out1 s2 out2. pub_execute sample_env sample_x_net sample_clock (Some sample_con) (Some sample_tokens) sample_cmd
     \<lparr>ps_rows = [], ps_log = []\<rparr> = (s1, out1) \<and> ps_log s1 \<noteq> []
   \<and> pub_execute sample_env sample_x_net sample_clock (Some sample_con) (Some sample_tokens) sample_cmd
     \<lparr>ps_rows = ps_rows s1, ps_log = []\<rparr> = (s2, out2) \<and> ps_log s2 = []"
proof -
  obtain s1 res where r: "pub_execute sample_env sample_x_net sample_clock (Some sample_con) (Some sample_tokens) sample_cmd
      \<lparr>ps_rows = [], ps_log = []\<rparr> = (s1, Inr res)" "ps_log s1 \<noteq> []" using sample_x_returned by blast
  obtain s2 out2 where t: "pub_execute sample_env sample_x_net sample_clock (Some sample_con) (Some sample_tokens) sample_cmd
      \<lparr>ps_rows = ps_rows s1, ps_log = []\<rparr> = (s2, out2)" by (rule prod.exhaust)
  from pub_single_attempt [OF history.start r t] r t show ?thesis by blast
qed


theorem pub_rejection_recorded_witness:
  "\<exists>s' r. (publication_error sample_i ''now'' (provider_rejected ''x_post_create'' 403 ''187'' [] ''dup'') :: pub_result action)
      \<lparr>ps_rows = [sample_i], ps_log = []\<rparr>
     = (s', Inl (provider_rejected ''x_post_create'' 403 ''187'' [] ''dup'')) \<and> settled_row sample_i ''failed'' r (ps_rows s')"
  using pub_rejection_recorded [of sample_i "\<lparr>ps_rows = [sample_i], ps_log = []\<rparr>", OF _ sample_i_valid refl] sample_pending
  by (metis pub_state.select_convs(1))

theorem pub_missing_token_blocks_witness:
  "pub_execute sample_env sample_x_net sample_clock (Some sample_con) (Some sample_tokens) sample_cmd
     \<lparr>ps_rows = [sample_i], ps_log = []\<rparr>
   = (\<lparr>ps_rows = [sample_i], ps_log = []\<rparr>, Inl (SocialPublicationBlockedError ''pending''))"
proof -
  have r: "sp_reserve [] (pub_intent sample_valid_cmd (sample_clock 1)) = Inr ([sample_i],
      \<lparr>res_intent = sample_i, res_executable = True, res_replayed = False\<rparr>)"
    using sample_i_reserve by (simp add: sample_i_def)
  have t: "required_secret [] ''access_token'' = Inl (SocialPublicationUnavailableError ''connected social credential is invalid'')"
    by (simp add: required_secret_def jget_def)
  show ?thesis
    using pub_missing_token_blocks [where clk = sample_clock and clk' = sample_clock,
        OF history.start sample_pub_prepare r _ t sample_pub_prepare] by simp
qed

end
