(* ===== verification/Effects.thy ===== *)
theory Effects
  imports Prelude
begin

text \<open>
  Code that mutates state and may raise: a step returns the state it leaves and the value or the
  exception, so what was written before a \<open>raise\<close> stays written. The rules below carry the
  invariants of the components through sequences, loops over lists and branches.
\<close>

section \<open>Steps\<close>

type_synonym ('s, 'a) step = "'s \<Rightarrow> 's \<times> 'a res"

definition sret :: "'a \<Rightarrow> ('s, 'a) step" where
  "sret v = (\<lambda>s. (s, Inr v))"

definition slift :: "'a res \<Rightarrow> ('s, 'a) step" where
  "slift r = (\<lambda>s. (s, r))"

definition sget :: "('s \<Rightarrow> 'a) \<Rightarrow> ('s, 'a) step" where
  "sget f = (\<lambda>s. (s, Inr (f s)))"

definition sput :: "('s \<Rightarrow> 's) \<Rightarrow> ('s, unit) step" where
  "sput f = (\<lambda>s. (f s, Inr ()))"

definition sbind :: "('s, 'a) step \<Rightarrow> ('a \<Rightarrow> ('s, 'b) step) \<Rightarrow> ('s, 'b) step" where
  "sbind m f = (\<lambda>s. case m s of (s', Inl e) \<Rightarrow> (s', Inl e) | (s', Inr v) \<Rightarrow> f v s')"

definition sthen :: "('s, unit) step \<Rightarrow> ('s, 'b) step \<Rightarrow> ('s, 'b) step" where
  "sthen m n = sbind m (\<lambda>_. n)"

fun seach :: "('a \<Rightarrow> ('s, unit) step) \<Rightarrow> 'a list \<Rightarrow> ('s, unit) step" where
  "seach f [] = sret ()"
| "seach f (x # xs) = sthen (f x) (seach f xs)"

named_theorems step_simps \<open>unfolding rules of steps\<close>
named_theorems keep_intros \<open>rules for what a step keeps\<close>

lemma step_apply [step_simps]:
  "sret v s = (s, Inr v)" "slift r s = (s, r)" "sget g s = (s, Inr (g s))" "sput h s = (h s, Inr ())"
  by (simp_all add: sret_def slift_def sget_def sput_def)

lemma sbind_Inr: "m s = (s1, Inr v) \<Longrightarrow> sbind m f s = f v s1"
  and sbind_Inl: "m s = (s1, Inl e) \<Longrightarrow> sbind m f s = (s1, Inl e)"
  by (simp_all add: sbind_def)

lemma sthen_Inr: "m s = (s1, Inr u) \<Longrightarrow> sthen m n s = n s1"
  and sthen_Inl: "m s = (s1, Inl e) \<Longrightarrow> sthen m n s = (s1, Inl e)"
  by (simp_all add: sthen_def sbind_def)

lemma sbind_eq_Inr: "sbind m f s = (s', Inr w) \<longleftrightarrow> (\<exists>s1 v. m s = (s1, Inr v) \<and> f v s1 = (s', Inr w))"
  by (auto simp: sbind_def split: prod.splits sum.splits)

lemma sthen_eq_Inr: "sthen m n s = (s', Inr w) \<longleftrightarrow> (\<exists>s1 u. m s = (s1, Inr u) \<and> n s1 = (s', Inr w))"
  by (simp add: sthen_def sbind_eq_Inr)

text \<open>Steps whose first part only computes.\<close>

lemma sbind_pure [step_simps]:
  "sbind (sret v) f s = f v s" "sbind (slift (Inr v)) f s = f v s" "sbind (slift (Inl e)) f s = (s, Inl e)"
  "sbind (sget g) f s = f (g s) s" "sthen (sput h) n s = n (h s)"
  by (simp_all add: sret_def slift_def sget_def sput_def sbind_def sthen_def)

section \<open>What a step keeps\<close>

text \<open>The relation holds between the state before and the state after, whether the step returned or raised.\<close>

definition keeps :: "('s \<Rightarrow> 's \<Rightarrow> bool) \<Rightarrow> ('s, 'a) step \<Rightarrow> bool" where
  "keeps R m \<longleftrightarrow> (\<forall>s. R s (fst (m s)))"

definition preorder_rel :: "('s \<Rightarrow> 's \<Rightarrow> bool) \<Rightarrow> bool" where
  "preorder_rel R \<longleftrightarrow> (\<forall>s. R s s) \<and> (\<forall>a b c. R a b \<longrightarrow> R b c \<longrightarrow> R a c)"

lemma keepsD: "keeps R m \<Longrightarrow> m s = (s', r) \<Longrightarrow> R s s'"
  unfolding keeps_def by (metis fst_conv)

lemma keeps_pure [keep_intros]:
  "preorder_rel R \<Longrightarrow> keeps R (sret v)" "preorder_rel R \<Longrightarrow> keeps R (slift r)" "preorder_rel R \<Longrightarrow> keeps R (sget f)"
  by (simp_all add: keeps_def preorder_rel_def step_simps)

lemma keeps_sput: "(\<And>s. R s (f s)) \<Longrightarrow> keeps R (sput f)"
  by (simp add: keeps_def step_simps)

lemma keeps_sbind [keep_intros]:
  assumes "preorder_rel R" and "keeps R m" and "\<And>v. keeps R (f v)"
  shows "keeps R (sbind m f)"
  unfolding keeps_def
proof
  fix s
  obtain s1 r where m: "m s = (s1, r)" by (cases "m s")
  have first: "R s s1" using assms(2) m by (rule keepsD)
  show "R s (fst (sbind m f s))"
  proof (cases r)
    case (Inl e)
    then show ?thesis using first m by (simp add: sbind_def)
  next
    case (Inr v)
    have "R s1 (fst (f v s1))" using assms(3) by (simp add: keeps_def)
    then have "R s (fst (f v s1))" using assms(1) first unfolding preorder_rel_def by blast
    then show ?thesis using m Inr by (simp add: sbind_def)
  qed
qed

lemma keeps_sthen [keep_intros]:
  "preorder_rel R \<Longrightarrow> keeps R m \<Longrightarrow> keeps R n \<Longrightarrow> keeps R (sthen m n)"
  unfolding sthen_def by (rule keeps_sbind)

lemma keeps_seach [keep_intros]:
  "preorder_rel R \<Longrightarrow> (\<And>x. keeps R (f x)) \<Longrightarrow> keeps R (seach f xs)"
  by (induction xs) (auto intro: keep_intros)

lemma keeps_if [keep_intros]: "keeps R m \<Longrightarrow> keeps R n \<Longrightarrow> keeps R (if b then m else n)"
  by simp

section \<open>Lists of results\<close>

fun rmap :: "('a \<Rightarrow> 'b res) \<Rightarrow> 'a list \<Rightarrow> 'b list res" where
  "rmap f [] = Inr []"
| "rmap f (x # xs) = rbind (f x) (\<lambda>y. rbind (rmap f xs) (\<lambda>ys. Inr (y # ys)))"

lemma rmap_Inr: "rmap f xs = Inr ys \<longleftrightarrow> list_all2 (\<lambda>x y. f x = Inr y) xs ys"
  by (induction xs arbitrary: ys) (auto simp: rbind_Inr_iff list_all2_Cons1)

lemma rmap_total: "(\<And>x. x \<in> set xs \<Longrightarrow> f x = Inr (g x)) \<Longrightarrow> rmap f xs = Inr (map g xs)"
  by (induction xs) auto

lemma rmap_length: "rmap f xs = Inr ys \<Longrightarrow> length ys = length xs"
  by (auto simp: rmap_Inr dest: list_all2_lengthD)

end
