(* ===== verification/SemanticText.thy ===== *)
theory SemanticText
  imports Url Models Effects
begin

text \<open>
  The text rules of \<open>backend/agency_runtime/semantic_evals.py\<close>: \<open>normalize_text\<close>,
  \<open>find_text_risks\<close> and \<open>unsupported_numeric_tokens\<close>, with the string operations they use.
  \<open>unicodedata.normalize("NFKC", v).casefold()\<close> is an argument (\<open>fold_case\<close>): the Unicode tables are
  data of the interpreter.
\<close>

section \<open>Strings and JSON values\<close>

text \<open>\<open>needle in text\<close>.\<close>

fun contains :: "string \<Rightarrow> string \<Rightarrow> bool" where
  "contains p [] = (p = [])"
| "contains p (c # s) = (starts_with p (c # s) \<or> contains p s)"

lemma starts_with_append: "starts_with p (p @ s)"
  by (simp add: starts_with_def)

lemma contains_append: "contains p (a @ p @ b)"
proof (induction a)
  case Nil
  show ?case using starts_with_append [of p b] by (cases "p @ b") auto
qed auto

text \<open>\<open>str.split()\<close>.\<close>

function py_split :: "string \<Rightarrow> string list" where
  "py_split s = (let t = dropWhile is_space s in
     if t = [] then []
     else takeWhile (\<lambda>c. \<not> is_space c) t # py_split (dropWhile (\<lambda>c. \<not> is_space c) t))"
  by pat_completeness auto

termination
proof (relation "measure length", simp)
  fix s t :: string assume t: "t = dropWhile is_space s" "t \<noteq> []"
  then have h: "\<not> is_space (hd t)" using hd_dropWhile by blast
  have "length (dropWhile (\<lambda>c. \<not> is_space c) t) < length t"
    using t(2) h length_dropWhile_le [of "\<lambda>c. \<not> is_space c" "tl t"] by (cases t) auto
  also have "length t \<le> length s" using t(1) by (simp add: length_dropWhile_le)
  finally show "(dropWhile (\<lambda>c. \<not> is_space c) t, s) \<in> measure length" by simp
qed

declare py_split.simps [simp del]

text \<open>Truth of a value, \<open>value.get(k, d)\<close>, \<open>value[k]\<close> and iteration, with the errors of other types.\<close>

fun truthy :: "json \<Rightarrow> bool" where
  "truthy JNull = False"
| "truthy (JBool b) = b"
| "truthy (JInt i) = (i \<noteq> 0)"
| "truthy (JFloat t) = (t \<notin> {''0.0'', ''-0.0''})"
| "truthy (JStr s) = (s \<noteq> [])"
| "truthy (JList xs) = (xs \<noteq> [])"
| "truthy (JObj kvs) = (kvs \<noteq> [])"

definition dget :: "json \<Rightarrow> string \<Rightarrow> json \<Rightarrow> json res" where
  "dget v k d = (case v of JObj kvs \<Rightarrow> Inr (get_or kvs k d) | _ \<Rightarrow> Inl (AttributeError ''get''))"

definition dindex :: "json \<Rightarrow> string \<Rightarrow> json res" where
  "dindex v k = (case v of
     JObj kvs \<Rightarrow> (case jget k kvs of Some w \<Rightarrow> Inr w | None \<Rightarrow> Inl (KeyError k))
   | _ \<Rightarrow> Inl (TypeError ''value is not subscriptable by a string''))"

definition items_of :: "json \<Rightarrow> json list res" where
  "items_of v = (case v of
     JList xs \<Rightarrow> Inr xs
   | JObj kvs \<Rightarrow> Inr (map (\<lambda>p. JStr (fst p)) kvs)
   | JStr s \<Rightarrow> Inr (map (\<lambda>c. JStr [c]) s)
   | _ \<Rightarrow> Inl (TypeError ''object is not iterable''))"

text \<open>\<open>all(... for ...)\<close>: stops at the first False.\<close>

fun rall :: "('a \<Rightarrow> bool res) \<Rightarrow> 'a list \<Rightarrow> bool res" where
  "rall f [] = Inr True"
| "rall f (x # xs) = rbind (f x) (\<lambda>b. if b then rall f xs else Inr False)"

lemma rall_Inr_True: "rall f xs = Inr True \<longleftrightarrow> (\<forall>x \<in> set xs. f x = Inr True)"
  by (induction xs) (auto simp: rbind_Inr_iff)

lemma rall_total: "(\<And>x. x \<in> set xs \<Longrightarrow> \<exists>b. f x = Inr b) \<Longrightarrow> \<exists>b. rall f xs = Inr b"
  by (induction xs) (auto, metis list.set_intros(1) list.set_intros(2) rbind_simps(2))

section \<open>Risks\<close>

definition normalize_text :: "(string \<Rightarrow> string) \<Rightarrow> string \<Rightarrow> string" where
  "normalize_text fold_case v = intercalate '' '' (py_split (fold_case v))"

definition INJECTION_PATTERNS :: "string list" where
  "INJECTION_PATTERNS =
     [''ignore previous instructions'', ''ignore all previous instructions'', ''reveal the system prompt'',
      ''show the system prompt'', ''developer message'', ''system message'', ''execute this command'',
      ''call the tool'', ''exfiltrate'', ''ignora las instrucciones anteriores'',
      ''ignora todas las instrucciones'', ''muestra el prompt del sistema'', ''revela el prompt del sistema'',
      ''mensaje del desarrollador'', ''mensaje del sistema'', ''ejecuta este comando'',
      ''llama a la herramienta'', ''extrae los secretos'', ''<system>'', ''</system>'']"

definition OVERCLAIM_PATTERNS :: "string list" where
  "OVERCLAIM_PATTERNS =
     [''garantizado'', ''garantiza'', ''el mejor'', ''sin duda'', ''100%'', ''resultados garantizados'',
      ''resultado garantizado'', ''garantiza la victoria'', ''garantiza el resultado'', ''todos apoyan'',
      ''todo el mundo apoya'', ''100% de apoyo'', ''cumple con todas las leyes'',
      ''legalmente aprobado en todas partes'', (''sin ning'' @ [CHR 0xFA] @ ''n riesgo legal''), ''no legal risk'',
      ''complies with every law'', ''guaranteed victory'', ''everyone supports'']"

definition find_text_risks :: "(string \<Rightarrow> string) \<Rightarrow> string \<Rightarrow> string list" where
  "find_text_risks fold_case v =
     (let text = normalize_text fold_case v in
      (if list_ex (\<lambda>p. contains p text) INJECTION_PATTERNS then [''instruction_injection''] else [])
      @ (if list_ex (\<lambda>p. contains p text) OVERCLAIM_PATTERNS then [''unsupported_overclaim''] else []))"

section \<open>Numbers in the text\<close>

text \<open>\<open>(?<![\w])\d+(?:[.,]\d+)?%?\<close> with \<open>findall\<close>.\<close>

definition is_word_char :: "char \<Rightarrow> bool" where
  "is_word_char c = (let n = code_point c in
     is_alnum c \<or> n \<in> {95, 170, 178, 179, 181, 185, 186, 188, 189, 190} \<or> 192 \<le> n \<and> n \<noteq> 215 \<and> n \<noteq> 247)"

definition number_body :: "string \<Rightarrow> string \<times> string" where
  "number_body s =
     (let d = takeWhile is_ascii_digit s; r = dropWhile is_ascii_digit s in
      case r of
        c # t \<Rightarrow> if c \<in> {CHR ''.'', CHR '',''} \<and> t \<noteq> [] \<and> is_ascii_digit (hd t)
          then (d @ c # takeWhile is_ascii_digit t, dropWhile is_ascii_digit t) else (d, r)
      | [] \<Rightarrow> (d, []))"

definition number_token :: "string \<Rightarrow> string \<times> string" where
  "number_token s = (case number_body s of (d, r) \<Rightarrow> if r \<noteq> [] \<and> hd r = CHR ''%'' then (d @ ''%'', tl r) else (d, r))"

lemma number_body_split: "number_body s = (d, r) \<Longrightarrow> d @ r = s"
  by (auto simp: number_body_def Let_def split: list.splits if_splits) (metis takeWhile_dropWhile_id)+

lemma number_token_split: "number_token s = (d, r) \<Longrightarrow> d @ r = s"
  by (cases "number_body s") (auto simp: number_token_def dest: number_body_split split: if_splits,
      metis append.assoc append_Cons append_Nil hd_Cons_tl number_body_split)

lemma number_token_shorter:
  assumes "s \<noteq> []" and "is_ascii_digit (hd s)"
  shows "length (snd (number_token s)) < length s"
proof -
  obtain b r where b: "number_body s = (b, r)" by (cases "number_body s")
  have "b \<noteq> []" using b assms by (cases s) (auto simp: number_body_def Let_def split: list.splits if_splits)
  moreover have "length b + length r = length s" using number_body_split [OF b] by (metis length_append)
  moreover have "length (snd (number_token s)) \<le> length r" using b by (auto simp: number_token_def)
  ultimately show ?thesis by (cases b) auto
qed

function numbers_in :: "bool \<Rightarrow> string \<Rightarrow> string list" where
  "numbers_in after_word [] = []"
| "numbers_in after_word (c # s) =
     (if \<not> after_word \<and> is_ascii_digit c
      then (let (d, r) = number_token (c # s) in d # numbers_in (is_word_char (last d)) r)
      else numbers_in (is_word_char c) s)"
  by pat_completeness auto

termination
proof (relation "measure (\<lambda>(b, s). length s)"; clarsimp)
  fix c s d r assume "is_ascii_digit c" "(d, r) = number_token (c # s)"
  then show "length r < Suc (length s)" using number_token_shorter [of "c # s"] by (metis length_Cons list.discI list.sel(1) snd_conv)
qed

definition claim_texts :: "json list \<Rightarrow> string list res" where
  "claim_texts claims = rbind (rmap (\<lambda>c. rmap (\<lambda>f. rbind (dget c f (JStr [])) (\<lambda>v. Inr (py_str v)))
     [''statement'', ''source'', ''locator'']) claims) (\<lambda>xss. Inr (concat xss))"

definition unsupported_numeric_tokens ::
  "(string \<Rightarrow> string) \<Rightarrow> string \<Rightarrow> json list \<Rightarrow> string list res" where
  "unsupported_numeric_tokens fold_case rendered claims =
     rbind (claim_texts claims) (\<lambda>ts.
       let shown = numbers_in False (normalize_text fold_case rendered);
           known = numbers_in False (normalize_text fold_case (intercalate '' '' ts))
       in Inr (sort (remdups (filter (\<lambda>n. n \<notin> set known) shown))))"

end
