(* ===== verification/Campaign.thy ===== *)
theory Campaign
  imports SemanticText
begin

text \<open>
  \<open>backend/agency_runtime/campaign_intelligence.py\<close>: the payloads of the stations. Claims and
  variants come back from stored artifacts, so they are JSON values and every access of another
  shape raises as Python does. A literal dict is its item list.
\<close>

section \<open>Claims\<close>

definition claim_text :: "json \<Rightarrow> string \<Rightarrow> string res" where
  "claim_text claim k = rbind (dindex claim k) (\<lambda>v. Inr (strip (py_str v)))"

definition claim_entry :: "string \<Rightarrow> json \<Rightarrow> json res" where
  "claim_entry rid claim =
     rbind (claim_text claim ''statement'') (\<lambda>statement.
     rbind (claim_text claim ''source'') (\<lambda>source.
     rbind (claim_text claim ''locator'') (\<lambda>locator.
     rbind (dget claim ''verification_status'' (JStr ''unverified'')) (\<lambda>status.
     rbind (dget claim ''reviewed_by'' (JStr [])) (\<lambda>reviewed.
       Inr (JObj
         [(''claim_id'', JStr (stable_id ''claim'' [JStr rid, JStr statement, JStr source, JStr locator] 24)),
          (''statement'', JStr statement), (''source'', JStr source), (''locator'', JStr locator),
          (''verification_status'', JStr (py_str status)), (''reviewed_by'', JStr (strip (py_str reviewed))),
          (''supported'', JBool (py_str status = ''verified'' \<and> strip (py_str reviewed) \<noteq> []))]))))))"

definition claim_ledger :: "brief \<Rightarrow> string \<Rightarrow> json list res" where
  "claim_ledger b rid = rmap (claim_entry rid) (evidence_claims b)"

section \<open>Strategy and growth\<close>

definition strategy_payload :: "brief \<Rightarrow> (string \<times> json) list" where
  "strategy_payload b =
     (if campaign_type b = ''political'' then
        [(''pillars'', jstrs
           [(''Problema: describir la tensi'' @ [CHR 0xF3] @ ''n local sin exageraci'' @ [CHR 0xF3] @ ''n''),
            (''Propuesta: explicar una acci'' @ [CHR 0xF3] @ ''n dentro de las competencias del cargo''),
            (''Prueba: mostrar fuente y locator de cada afirmaci'' @ [CHR 0xF3] @ ''n''),
            (''Acci'' @ [CHR 0xF3] @ ''n: invitar a consultar el plan y formular preguntas'')]),
         (''message_architecture'', JObj
           [(''audience_tension'', JStr (problem b)), (''campaign_thesis'', JStr (proposal b)),
            (''office_relevance'', JStr (office b @ ('' '' @ [CHR 0xB7] @ '' '') @ locality b)),
            (''proof_strategy'', JStr ''claim ledger visible y revisable''),
            (''desired_action'', JStr (desired_action b))])]
      else
        [(''pillars'', jstrs
           [(''Evidencia: partir de una tensi'' @ [CHR 0xF3] @ ''n verificable''),
            (''Expresi'' @ [CHR 0xF3] @ ''n: adaptar el ritmo a cada plataforma''),
            (''Acci'' @ [CHR 0xF3] @ ''n: mantener una llamada a la acci'' @ [CHR 0xF3] @ ''n medible'')]),
         (''message_architecture'', JObj
           [(''audience_tension'', JStr (objective b)), (''campaign_thesis'', JStr (title b)),
            (''proof_strategy'', JStr (''revisi'' @ [CHR 0xF3] @ ''n humana de afirmaciones'')),
            (''desired_action'', JStr ''Conoce la propuesta y participa.'')])])"

definition growth_payload :: "brief \<Rightarrow> (string \<times> json) list \<Rightarrow> (string \<times> json) list" where
  "growth_payload b fixture =
     (if campaign_type b \<noteq> ''political'' then fixture
      else [(''mode'', JStr ''organic_only''), (''primary_metric'', JStr ''qualified_replies_and_plan_views''),
            (''guardrails'', jstrs [''no paid activation'', ''no inferred voter targeting'',
               ''no fabricated reach or conversion forecast'',
               ''stop on legal, factual or account-scope uncertainty'']),
            (''forecast_status'', JStr ''not_claimed_without_live_authorized_data''),
            (''synthetic_fixture'', JObj fixture)])"

section \<open>Copy\<close>

text \<open>\<open>[str(item["claim_id"]) for item in claims if item.get("supported") is True and item.get("claim_id")]\<close>.\<close>

definition supported_claim_id :: "json \<Rightarrow> string list res" where
  "supported_claim_id item =
     rbind (dget item ''supported'' JNull) (\<lambda>s.
       if s \<noteq> JBool True then Inr []
       else rbind (dget item ''claim_id'' JNull) (\<lambda>c. if truthy c then Inr [py_str c] else Inr []))"

definition supported_claim_ids :: "json list \<Rightarrow> string list res" where
  "supported_claim_ids claims = rbind (rmap supported_claim_id claims) (\<lambda>xss. Inr (concat xss))"

definition source_line :: "json \<Rightarrow> string res" where
  "source_line claim =
     rbind (dindex claim ''source'') (\<lambda>s. rbind (dindex claim ''locator'') (\<lambda>l.
       Inr (''Fuente: '' @ py_str s @ '' ('' @ py_str l @ '').'')))"

definition municipal_subject :: "string \<Rightarrow> string" where
  "municipal_subject loc =
     (if starts_with ''municipio'' (str_lower loc) then ''el '' @ loc else ''el municipio de '' @ loc)"

definition political_hook :: "brief \<Rightarrow> string" where
  "political_hook b =
     (let o' = str_lower (strip (office b)) in
      if o' = ''alcalde'' then ([CHR 0xBF] @ ''C'' @ [CHR 0xF3] @ ''mo puede '') @ municipal_subject (strip (locality b))
        @ ('' rendir cuentas con informaci'' @ [CHR 0xF3] @ ''n clara?'')
      else if o' = ''diputado'' then
        ''Una propuesta legislativa verificable para representar y fiscalizar en '' @ locality b @ ''.''
      else ''Una propuesta verificable para '' @ strip (office b) @ '' en '' @ locality b @ ''.'')"

definition political_body :: "brief \<Rightarrow> string list \<Rightarrow> string" where
  "political_body b sources =
     strip (candidate_name b) @ '' propone: '' @ strip (proposal b) @ [CHR 0x0A, CHR 0x0A]
       @ intercalate '' '' sources @ [CHR 0x0A, CHR 0x0A] @ strip (disclosure b)"

definition political_variant :: "brief \<Rightarrow> string list \<Rightarrow> string list \<Rightarrow> json" where
  "political_variant b supported sources = JObj
     [(''hook'', JStr (political_hook b)), (''body'', JStr (political_body b sources)),
      (''cta'', JStr (strip (desired_action b))), (''claim_map'', jstrs supported),
      (''language'', JStr (brief_locale b)), (''candidate'', JStr (candidate_name b)),
      (''office'', JStr (office b))]"

definition commercial_variant :: "brief \<Rightarrow> string list \<Rightarrow> json" where
  "commercial_variant b supported = JObj
     [(''hook'', JStr (title b @ '': una propuesta clara para '' @ audience b @ ''.'')),
      (''body'', JStr (objective b)), (''cta'', JStr ''Conoce la propuesta y participa.''),
      (''claim_map'', jstrs supported), (''language'', JStr (brief_locale b))]"

definition variants_for :: "platform list \<Rightarrow> json \<Rightarrow> (string \<times> json) list" where
  "variants_for plats v = fold (\<lambda>p d. dict_set (platform_value p) v d) plats []"

definition copy_payload :: "brief \<Rightarrow> json \<Rightarrow> (string \<times> json) list res" where
  "copy_payload b claims =
     rbind (items_of claims) (\<lambda>items.
     rbind (supported_claim_ids items) (\<lambda>supported.
       if campaign_type b = ''political'' then
         rbind (rmap source_line (evidence_claims b)) (\<lambda>sources.
           Inr [(''variants'', JObj (variants_for (platforms b) (political_variant b supported sources))),
                (''claims_status'', JStr ''grounded_requires_human_review''),
                (''prohibited_claims'', jstrs [''resultados garantizados'',
                   ''encuestas o respaldos no documentados'', ''ataques personales'',
                   ''urgencia o miedo artificial''])])
       else Inr [(''variants'', JObj (variants_for (platforms b) (commercial_variant b supported))),
                 (''claims_status'', JStr ''draft_requires_human_review''), (''prohibited_claims'', JList [])]))"

section \<open>Media\<close>

definition source_note :: "json \<Rightarrow> string res" where
  "source_note claim =
     rbind (dindex claim ''source'') (\<lambda>s. rbind (dindex claim ''locator'') (\<lambda>l.
       Inr (py_str s @ '' ('' @ py_str l @ '')'')))"

definition slide :: "int \<Rightarrow> string \<Rightarrow> string \<Rightarrow> json" where
  "slide index purpose copy = JObj [(''index'', JInt index), (''purpose'', JStr purpose), (''copy'', JStr copy)]"

definition media_payload ::
  "brief \<Rightarrow> (string \<times> json) list \<Rightarrow> (string \<times> json) list \<Rightarrow> (string \<times> json) list res" where
  "media_payload b video motion =
     (let payload = [(''video'', JObj video), (''image_to_video'', JObj motion),
            (''source_asset_read'', JBool False), (''media_rendered'', JBool False)]
      in if campaign_type b = ''political'' then
           rbind (rmap source_note (evidence_claims b)) (\<lambda>notes.
             Inr (dict_set ''instagram'' (JObj
               [(''format'', JStr ''carousel''),
                (''dimensions'', JObj [(''width'', JInt 1080), (''height'', JInt 1350)]),
                (''slides'', JList
                  [slide 1 ''problema'' (problem b), slide 2 ''propuesta'' (proposal b),
                   slide 3 ''evidencia'' (''Fuentes: '' @ intercalate ''; '' notes),
                   slide 4 (''acci'' @ [CHR 0xF3] @ ''n'') (desired_action b)]),
                (''alt_text'', JStr (''Carrusel sobre una propuesta de '' @ office b @ '' en '' @ locality b
                   @ (''; presenta problema, propuesta, fuentes y llamada a la participaci'' @ [CHR 0xF3] @ ''n.''))),
                (''rights_status'', JStr ''operator_must_confirm'')]) payload))
         else Inr payload)"

section \<open>Critique\<close>

text \<open>\<open>variants.values()\<close>, of which the mappings.\<close>

definition dict_values :: "json \<Rightarrow> json list res" where
  "dict_values v = (case v of JObj kvs \<Rightarrow> Inr (map snd kvs) | _ \<Rightarrow> Inl (AttributeError ''values''))"

definition is_object :: "json \<Rightarrow> bool" where
  "is_object v = (case v of JObj _ \<Rightarrow> True | _ \<Rightarrow> False)"

definition mapped_claim_ids :: "json list \<Rightarrow> string list res" where
  "mapped_claim_ids vs =
     rbind (rmap (\<lambda>v. rbind (dget v ''claim_map'' (JList [])) (\<lambda>m.
       rbind (items_of m) (\<lambda>xs. Inr (map py_str xs)))) vs) (\<lambda>xss. Inr (concat xss))"

definition rendered_text :: "json list \<Rightarrow> string res" where
  "rendered_text vs =
     rbind (rmap (\<lambda>v. rmap (\<lambda>k. rbind (dget v k (JStr [])) (\<lambda>x. Inr (py_str x))) [''hook'', ''body'', ''cta'']) vs)
       (\<lambda>xss. Inr (str_lower (intercalate '' '' (concat xss))))"

definition office_alignment :: "string \<Rightarrow> string \<Rightarrow> bool" where
  "office_alignment office_name rendered =
     (if office_name = ''alcalde'' then list_ex (\<lambda>t. contains t rendered) [''municipio'', ''municipal'']
      else if office_name = ''diputado'' then list_ex (\<lambda>t. contains t rendered)
        [''legislativa'', ''legislativo'', ''congreso'', ''fiscalizar'', (''fiscalizaci'' @ [CHR 0xF3] @ ''n'')]
      else contains office_name rendered)"

definition claim_uninjected :: "(string \<Rightarrow> string) \<Rightarrow> json \<Rightarrow> bool res" where
  "claim_uninjected fold_case claim = rall (\<lambda>k. rbind (dget claim k (JStr [])) (\<lambda>v.
     Inr (''instruction_injection'' \<notin> set (find_text_risks fold_case (py_str v)))))
     [''statement'', ''source'', ''locator'']"

definition political_checks ::
  "(string \<Rightarrow> string) \<Rightarrow> brief \<Rightarrow> json list \<Rightarrow> json list \<Rightarrow> (string \<times> bool) list res" where
  "political_checks fold_case b claims vs =
     rbind (supported_claim_ids claims) (\<lambda>supported.
     rbind (mapped_claim_ids vs) (\<lambda>mapped.
     rbind (rendered_text vs) (\<lambda>rendered.
     rbind (rall (\<lambda>c. rbind (claim_text c ''source'') (\<lambda>s. Inr (contains (str_lower s) rendered)))
       (evidence_claims b)) (\<lambda>source_visible.
     rbind (rall (\<lambda>v. rbind (dget v ''body'' (JStr [])) (\<lambda>x.
       Inr (contains (str_lower (strip (disclosure b))) (str_lower (py_str x))))) vs) (\<lambda>disclosure_visible.
     rbind (if ''instruction_injection'' \<in> set (find_text_risks fold_case rendered) then Inr False
            else rall (claim_uninjected fold_case) claims) (\<lambda>uninjected.
     rbind (unsupported_numeric_tokens fold_case rendered claims) (\<lambda>numbers.
       Inr [(''language_consistency'', starts_with ''es'' (str_lower (brief_locale b))),
            (''office_message_alignment'', office_alignment (str_lower (strip (office b))) rendered),
            (''evidence_verified'', length (remdups supported) = length (evidence_claims b)),
            (''evidence_coverage'', supported \<noteq> [] \<and> set mapped = set supported),
            (''source_visibility'', source_visible),
            (''office_relevance'', strip (office b) \<noteq> [] \<and> strip (locality b) \<noteq> []),
            (''disclosure_present'', disclosure_visible),
            (''legal_review_approved'', legal_review_status b = ''approved'' \<and> strip (legal_reviewed_by b) \<noteq> []),
            (''instruction_injection_absent'', uninjected),
            (''unsupported_promotion_absent'',
               ''unsupported_overclaim'' \<notin> set (find_text_risks fold_case rendered)),
            (''unsupported_numeric_claim_absent'', numbers = []),
            (''legal_review_gate_present'', True)])))))))"

definition BASE_CHECKS :: "(string \<times> bool) list" where
  "BASE_CHECKS = [(''sandbox_only'', True), (''human_greenlight_required'', True), (''publisher_not_run'', True),
     (''media_not_rendered'', True)]"

definition check_json :: "string \<times> bool \<Rightarrow> json" where
  "check_json c = JObj [(''name'', JStr (fst c)), (''passed'', JBool (snd c))]"

definition critique_payload ::
  "(string \<Rightarrow> string) \<Rightarrow> brief \<Rightarrow> json \<Rightarrow> json \<Rightarrow> (string \<times> json) list res" where
  "critique_payload fold_case b claims variants =
     (let political = (campaign_type b = ''political'') in
      rbind (if political then
               rbind (items_of claims) (\<lambda>items. rbind (dict_values variants) (\<lambda>vs.
                 political_checks fold_case b items (filter is_object vs)))
             else Inr []) (\<lambda>extra.
        let eligible = list_all snd extra; checks = BASE_CHECKS @ extra; passed = list_all snd checks
        in Inr [(''passed'', JBool passed), (''publication_eligible'', JBool eligible),
                (''decision'', JStr (if passed \<and> eligible then ''pass'' else ''revise'')),
                (''checks'', JList (map check_json checks)), (''human_greenlight_required'', JBool True),
                (''legal_review_required'', JBool political),
                (''limitations'', if political then jstrs
                   [''language_consistency validates the declared locale and deterministic copy rules; it is not full linguistic review'',
                    ''source visibility does not independently prove source authenticity'',
                    ''jurisdiction-specific legal review remains an external human gate'']
                  else JList [])]))"

end
