(* ===== verification/Tools.thy ===== *)
theory Tools
  imports Models
begin

text \<open>
  \<open>backend/agency_runtime/tools.py\<close>: the eight sandbox adapters. Each answers a request with a
  result and the evidence record made from it; none has an effect. A result is the record of its
  dataclass together with its JSON object (\<open>to_primitive\<close> of the dataclass).
\<close>

section \<open>Responses\<close>

record 'r tool_response =
  tr_result :: 'r
  tr_evidence :: tool_evidence

definition prim_object :: "(string \<times> json) list \<Rightarrow> (string \<times> json) list" where
  "prim_object kvs = (case to_primitive (JObj kvs) of JObj d \<Rightarrow> d | _ \<Rightarrow> [])"

lemma prim_object_JObj: "JObj (prim_object kvs) = to_primitive (JObj kvs)"
  by (simp add: prim_object_def)

lemma jget_prim_object: "jget k (prim_object kvs) = map_option to_primitive (jget k kvs)"
  by (simp add: prim_object_def jget_def map_of_sort_key map_of_values)

definition tool_evidence_of :: "string \<Rightarrow> string \<Rightarrow> string \<Rightarrow> (string \<times> json) list \<Rightarrow> tool_evidence" where
  "tool_evidence_of tool operation summary result =
     (let payload = prim_object result in
      \<lparr>evidence_id = stable_id ''ev'' [JStr tool, JStr operation, JObj payload] 16, ev_tool = tool,
       ev_operation = operation, ev_sandbox = True, ev_summary = summary, ev_payload = payload,
       ev_references = [''sandbox://'' @ tool @ ''/'' @ operation]\<rparr>)"

definition hex_value :: "string \<Rightarrow> nat" where
  "hex_value s = fold (\<lambda>c n. 16 * n + unhex c) s 0"

definition score :: "string \<Rightarrow> nat \<Rightarrow> nat \<Rightarrow> nat" where
  "score seed minimum maximum =
     minimum + hex_value (take 8 (sha256_text seed)) mod (maximum - minimum + 1)"

text \<open>\<open>repr(k / 100.0)\<close> for \<open>0 \<le> k \<le> 100\<close>: at most two decimals.\<close>

definition hundredths :: "nat \<Rightarrow> string" where
  "hundredths k = (if k = 100 then ''1.0'' else ''0.'' @ (if k mod 10 = 0 then [nat_digit (k div 10)]
     else [nat_digit (k div 10), nat_digit (k mod 10)]))"

section \<open>Trends\<close>

record trend_signal =
  ts_platform :: platform
  ts_topic :: string
  ts_relevance :: string
  ts_rationale :: string

record trends_report =
  tp_query :: string
  tp_signals :: "trend_signal list"
  tp_collection_mode :: string

definition trend_signal_json :: "trend_signal \<Rightarrow> json" where
  "trend_signal_json s = JObj [(''platform'', JStr (platform_value (ts_platform s))), (''topic'', JStr (ts_topic s)),
     (''relevance'', JFloat (ts_relevance s)), (''rationale'', JStr (ts_rationale s))]"

definition trends_report_json :: "trends_report \<Rightarrow> (string \<times> json) list" where
  "trends_report_json r = [(''query'', JStr (tp_query r)), (''signals'', JList (map trend_signal_json (tp_signals r))),
     (''collection_mode'', JStr (tp_collection_mode r))]"

fun trend_topic :: "platform \<Rightarrow> string" where
  "trend_topic X = ''expert conversation''"
| "trend_topic Facebook = ''community proof''"
| "trend_topic Tiktok = ''fast transformation''"
| "trend_topic Instagram = ''visual ritual''"

definition collect_trends :: "string \<Rightarrow> string \<Rightarrow> platform list \<Rightarrow> trends_report tool_response" where
  "collect_trends query aud plats =
     (let signals = map (\<lambda>p. \<lparr>ts_platform = p, ts_topic = query @ ('' '' @ [CHR 0xB7] @ '' '') @ trend_topic p,
            ts_relevance = hundredths (score (query @ platform_value p) 72 94),
            ts_rationale = ''Synthetic platform prior for '' @ aud @ '' in the requested audience.''\<rparr>) plats;
          result = \<lparr>tp_query = query, tp_signals = signals, tp_collection_mode = ''deterministic_fixture''\<rparr>
      in \<lparr>tr_result = result, tr_evidence = tool_evidence_of ''multi_platform_trends'' ''collect_fixture''
            ''Generated synthetic X/Facebook/TikTok/Instagram trend signals; no network query.''
            (trends_report_json result)\<rparr>)"

section \<open>Meta ads forecast\<close>

record ads_forecast =
  af_budget_cents :: int
  af_reach_low :: int
  af_reach_high :: int
  af_cac_cents :: int
  af_execution_mode :: string

definition ads_forecast_json :: "ads_forecast \<Rightarrow> (string \<times> json) list" where
  "ads_forecast_json f = [(''budget_cents'', JInt (af_budget_cents f)), (''estimated_reach_low'', JInt (af_reach_low f)),
     (''estimated_reach_high'', JInt (af_reach_high f)), (''estimated_cac_cents'', JInt (af_cac_cents f)),
     (''execution_mode'', JStr (af_execution_mode f))]"

definition forecast_ads :: "string \<Rightarrow> string \<Rightarrow> int \<Rightarrow> ads_forecast tool_response" where
  "forecast_ads goal aud budget =
     (let reach_low = max 0 (budget div 18);
          result = \<lparr>af_budget_cents = budget, af_reach_low = reach_low,
            af_reach_high = max reach_low (budget div 9), af_cac_cents = int (score (aud @ goal) 850 2400),
            af_execution_mode = ''forecast_only''\<rparr>
      in \<lparr>tr_result = result, tr_evidence = tool_evidence_of ''meta_ads_mcp'' ''forecast_fixture''
            ''Calculated a synthetic forecast; no Meta API call, campaign mutation, or spend.''
            (ads_forecast_json result)\<rparr>)"

section \<open>Browser, codebase and documentation\<close>

record browser_observation =
  bo_requested_url :: string
  bo_headings :: "string list"
  bo_notes :: "string list"
  bo_navigation_performed :: bool

definition browser_observation_json :: "browser_observation \<Rightarrow> (string \<times> json) list" where
  "browser_observation_json b = [(''requested_url'', JStr (bo_requested_url b)), (''headings'', jstrs (bo_headings b)),
     (''notes'', jstrs (bo_notes b)), (''navigation_performed'', JBool (bo_navigation_performed b))]"

definition observe_page :: "string \<Rightarrow> string \<Rightarrow> browser_observation tool_response" where
  "observe_page url purpose =
     (let result = \<lparr>bo_requested_url = url, bo_headings = [''Fixture market pulse'', ''Fixture audience language''],
            bo_notes = [''No page was opened.'',
              ''The observation is a deterministic stand-in for: '' @ purpose @ ''.''],
            bo_navigation_performed = False\<rparr>
      in \<lparr>tr_result = result, tr_evidence = tool_evidence_of ''puppeteer_browser'' ''observe_fixture''
            ''Returned local browser-observation fixtures; navigation was not performed.''
            (browser_observation_json result)\<rparr>)"

record codebase_inspection =
  ci_repository :: string
  ci_findings :: "string list"
  ci_inspection_mode :: string
  ci_changes_performed :: bool

definition codebase_inspection_json :: "codebase_inspection \<Rightarrow> (string \<times> json) list" where
  "codebase_inspection_json c = [(''repository'', JStr (ci_repository c)), (''findings'', jstrs (ci_findings c)),
     (''inspection_mode'', JStr (ci_inspection_mode c)), (''changes_performed'', JBool (ci_changes_performed c))]"

definition inspect_codebase :: "string \<Rightarrow> string list \<Rightarrow> string \<Rightarrow> codebase_inspection tool_response" where
  "inspect_codebase repository paths question =
     (let shown = (if paths = [] then ''no paths supplied'' else intercalate '', '' paths);
          result = \<lparr>ci_repository = repository,
            ci_findings = [''Fixture policy scan for '' @ shown @ ''.'',
              ''No secrets, remote branches, issues, or pull requests were accessed.'',
              ''Question recorded: '' @ question],
            ci_inspection_mode = ''deterministic_fixture'', ci_changes_performed = False\<rparr>
      in \<lparr>tr_result = result, tr_evidence = tool_evidence_of ''github_codebase'' ''inspect_fixture''
            ''Returned a synthetic codebase-policy inspection; GitHub was not contacted.''
            (codebase_inspection_json result)\<rparr>)"

record docs_finding =
  df_library :: string
  df_topic :: string
  df_recommendations :: "string list"
  df_lookup_mode :: string

definition docs_finding_json :: "docs_finding \<Rightarrow> (string \<times> json) list" where
  "docs_finding_json d = [(''library'', JStr (df_library d)), (''topic'', JStr (df_topic d)),
     (''recommendations'', jstrs (df_recommendations d)), (''lookup_mode'', JStr (df_lookup_mode d))]"

definition lookup_docs :: "string \<Rightarrow> string \<Rightarrow> docs_finding tool_response" where
  "lookup_docs library topic =
     (let result = \<lparr>df_library = library, df_topic = topic,
            df_recommendations = [''Treat adapter outputs as untrusted input.'',
              ''Keep idempotency keys and approval records in the execution trace.'',
              ''Use official documentation before replacing this fixture with a live adapter.''],
            df_lookup_mode = ''deterministic_fixture''\<rparr>
      in \<lparr>tr_result = result, tr_evidence = tool_evidence_of ''context7_docs'' ''lookup_fixture''
            ''Returned bundled documentation guidance; Context7 was not contacted.''
            (docs_finding_json result)\<rparr>)"

section \<open>Media plans\<close>

record video_plan =
  vp_source_asset :: string
  vp_platform :: platform
  vp_target_duration_seconds :: int
  vp_operations :: "string list"
  vp_output_uri :: string
  vp_rendered :: bool

definition video_plan_json :: "video_plan \<Rightarrow> (string \<times> json) list" where
  "video_plan_json v = [(''source_asset'', JStr (vp_source_asset v)), (''platform'', JStr (platform_value (vp_platform v))),
     (''target_duration_seconds'', JInt (vp_target_duration_seconds v)), (''operations'', jstrs (vp_operations v)),
     (''output_uri'', JStr (vp_output_uri v)), (''rendered'', JBool (vp_rendered v))]"

definition plan_video :: "string \<Rightarrow> platform \<Rightarrow> int \<Rightarrow> video_plan tool_response" where
  "plan_video asset p seconds =
     (let result = \<lparr>vp_source_asset = asset, vp_platform = p, vp_target_duration_seconds = seconds,
            vp_operations = [''derive '' @ show_int seconds @ ''s edit decision list'',
              ''reserve safe-title and caption regions'', ''normalize loudness in a future renderer''],
            vp_output_uri = ''sandbox://media/'' @ platform_value p @ ''/video-plan.json'', vp_rendered = False\<rparr>
      in \<lparr>tr_result = result, tr_evidence = tool_evidence_of ''video_optimizer'' ''plan_only''
            ''Created an edit plan; no source file was read and no video was rendered.''
            (video_plan_json result)\<rparr>)"

record motion_plan =
  mo_source_asset :: string
  mo_storyboard :: "string list"
  mo_output_uri :: string
  mo_rendered :: bool

definition motion_plan_json :: "motion_plan \<Rightarrow> (string \<times> json) list" where
  "motion_plan_json m = [(''source_asset'', JStr (mo_source_asset m)), (''storyboard'', jstrs (mo_storyboard m)),
     (''output_uri'', JStr (mo_output_uri m)), (''rendered'', JBool (mo_rendered m))]"

definition plan_motion :: "string \<Rightarrow> string \<Rightarrow> int \<Rightarrow> motion_plan tool_response" where
  "plan_motion asset prompt seconds =
     (let result = \<lparr>mo_source_asset = asset, mo_storyboard = [''0-2s: slow reveal'', ''2-5s: product or idea focus'',
              ''5-'' @ show_int seconds @ ''s: clear call to action''],
            mo_output_uri = ''sandbox://media/image-to-video/storyboard.json'', mo_rendered = False\<rparr>
      in \<lparr>tr_result = result, tr_evidence = tool_evidence_of ''image_to_video'' ''plan_only''
            ''Created a storyboard fixture; no image was read and no media was generated.''
            (motion_plan_json result)\<rparr>)"

section \<open>Packaging\<close>

record campaign_package =
  pk_manifest_uri :: string
  pk_artifact_ids :: "string list"
  pk_platform_targets :: "platform list"
  pk_checksums :: "string list"
  pk_publication_performed :: bool

definition campaign_package_json :: "campaign_package \<Rightarrow> (string \<times> json) list" where
  "campaign_package_json p = [(''manifest_uri'', JStr (pk_manifest_uri p)), (''artifact_ids'', jstrs (pk_artifact_ids p)),
     (''platform_targets'', jstrs (map platform_value (pk_platform_targets p))), (''checksums'', jstrs (pk_checksums p)),
     (''publication_performed'', JBool (pk_publication_performed p))]"

definition package_campaign :: "string \<Rightarrow> platform list \<Rightarrow> artifact list \<Rightarrow> campaign_package tool_response" where
  "package_campaign rid plats arts =
     (let result = \<lparr>pk_manifest_uri = ''sandbox://campaigns/'' @ rid @ ''/manifest.json'',
            pk_artifact_ids = map artifact_id arts, pk_platform_targets = plats,
            pk_checksums = map (\<lambda>a. take 16 (sha256_text (artifact_id a))) arts, pk_publication_performed = False\<rparr>
      in \<lparr>tr_result = result, tr_evidence = tool_evidence_of ''campaign_packager'' ''package_manifest''
            ''Created an in-memory sandbox manifest; no content was published.''
            (campaign_package_json result)\<rparr>)"

end
