(* ===== verification/Serialization.thy ===== *)
theory Serialization
  imports Campaign Tools
begin

text \<open>
  \<open>backend/agency_runtime/serialization.py\<close>: the document of a run and the run of a document. A
  document is the JSON value that \<open>json.loads\<close> returns. \<open>int()\<close> of a float is an argument. The
  model's records hold strings, event numbers from 0 and a state for every station, so a document
  with an id that is not a string, a negative event number or a missing station is refused here
  where the code keeps the value and fails, if at all, when it is used.
\<close>

section \<open>To a document\<close>

definition agent_state_json :: "agent_state \<Rightarrow> json" where
  "agent_state_json s = JObj [(''role'', JStr (role_value (as_role s))), (''status'', JStr (agent_status_value (as_status s))),
     (''progress'', JInt (as_progress s)), (''detail'', JStr (as_detail s)), (''artifact_ids'', jstrs (as_artifact_ids s))]"

definition evidence_json :: "tool_evidence \<Rightarrow> json" where
  "evidence_json e = JObj [(''evidence_id'', JStr (evidence_id e)), (''tool'', JStr (ev_tool e)),
     (''operation'', JStr (ev_operation e)), (''sandbox'', JBool (ev_sandbox e)), (''summary'', JStr (ev_summary e)),
     (''payload'', JObj (ev_payload e)), (''references'', jstrs (ev_references e))]"

definition event_json :: "trace_event \<Rightarrow> json" where
  "event_json e = JObj [(''sequence'', JInt (int (te_sequence e))), (''timestamp'', JStr (te_timestamp e)),
     (''role'', JStr (role_value (te_role e))), (''action'', JStr (te_action e)), (''status'', JStr (te_status e)),
     (''detail'', JStr (te_detail e)), (''artifact_ids'', jstrs (te_artifact_ids e)),
     (''evidence_ids'', jstrs (te_evidence_ids e))]"

definition greenlight_json :: "greenlight \<Rightarrow> json" where
  "greenlight_json g = JObj [(''greenlight_id'', JStr (greenlight_id g)), (''run_id'', JStr (gl_run_id g)),
     (''decision'', JStr (decision_value (gl_decision g))), (''reviewer'', JStr (gl_reviewer g)), (''note'', JStr (gl_note g)),
     (''decided_at'', JStr (gl_decided_at g)), (''approved_artifact_ids'', jstrs (approved_artifact_ids g)),
     (''approved_artifact_hashes'', jstrs (approved_artifact_hashes g)),
     (''authorized_channels'', jstrs (map platform_value (authorized_channels g))),
     (''authorized_budget_cents'', JInt (authorized_budget_cents g)), (''fencing_token'', JInt (gl_fencing_token g)),
     (''revoked_at'', opt_json (gl_revoked_at g)), (''revoked_by'', JStr (gl_revoked_by g)),
     (''revocation_reason'', JStr (gl_revocation_reason g))]"

definition execution_json :: "run_execution \<Rightarrow> json" where
  "execution_json x = JObj [(''state'', JStr (ex_state x)), (''next_station'', JStr (ex_next_station x)),
     (''lease_owner'', JStr (ex_lease_owner x)), (''lease_expires_at'', opt_json (ex_lease_expires_at x)),
     (''fencing_token'', JInt (ex_fencing_token x)), (''attempts'', JInt (ex_attempts x)),
     (''checkpointed_at'', opt_json (ex_checkpointed_at x)), (''failure_detail'', JStr (ex_failure_detail x))]"

definition run_fields :: "run \<Rightarrow> (string \<times> json) list" where
  "run_fields r = [(''run_id'', JStr (run_id r)), (''brief'', brief_json (run_brief r)),
     (''status'', JStr (run_status_value (run_status r))), (''started_at'', JStr (started_at r)),
     (''agent_states'', JObj (map (\<lambda>x. (role_value x, agent_state_json (state_for r x))) AGENT_SEQUENCE)),
     (''artifacts'', JList (map artifact_json (artifacts r))), (''evidence'', JList (map evidence_json (evidence r))),
     (''trace'', JList (map event_json (trace r))),
     (''greenlight'', case run_greenlight r of None \<Rightarrow> JNull | Some g \<Rightarrow> greenlight_json g),
     (''completed_at'', opt_json (completed_at r)), (''execution'', execution_json (execution r))]"

definition execution_run_to_document :: "run \<Rightarrow> json" where
  "execution_run_to_document r = to_primitive (JObj (run_fields r))"

section \<open>Reading values\<close>

definition mapping :: "json \<Rightarrow> json res" where
  "mapping v = (if is_object v then Inr v else Inl (ValueError ''persisted runtime document contains a non-object value''))"

text \<open>\<open>int(value)\<close>: of a text, an optional sign and digits with single underscores between them.\<close>

fun digit_groups :: "bool \<Rightarrow> string \<Rightarrow> string option" where
  "digit_groups after_digit [] = (if after_digit then Some [] else None)"
| "digit_groups after_digit (c # s) =
     (if is_ascii_digit c then map_option ((#) c) (digit_groups True s)
      else if c = CHR ''_'' \<and> after_digit then digit_groups False s else None)"

definition int_of_text :: "string \<Rightarrow> int res" where
  "int_of_text t =
     (let s = strip t; (neg, body) = (case s of c # r \<Rightarrow> if c = CHR ''-'' then (True, r) else if c = CHR ''+'' then (False, r) else (False, s)
         | [] \<Rightarrow> (False, s))
      in case digit_groups False body of
           Some ds \<Rightarrow> Inr (if neg then - int (digits_value 0 ds) else int (digits_value 0 ds))
         | None \<Rightarrow> Inl (ValueError ''invalid literal for int()''))"

fun py_int :: "(string \<Rightarrow> int res) \<Rightarrow> json \<Rightarrow> int res" where
  "py_int int_of_float (JInt i) = Inr i"
| "py_int int_of_float (JBool b) = Inr (if b then 1 else 0)"
| "py_int int_of_float (JStr s) = int_of_text s"
| "py_int int_of_float (JFloat t) = int_of_float t"
| "py_int int_of_float _ = Inl (TypeError ''int() argument must be a string or a number'')"

definition text_at :: "json \<Rightarrow> string \<Rightarrow> string res" where
  "text_at d k = rbind (dindex d k) (\<lambda>v. Inr (py_str v))"

definition text_or :: "json \<Rightarrow> string \<Rightarrow> string \<Rightarrow> string res" where
  "text_or d k dflt = rbind (dget d k (JStr dflt)) (\<lambda>v. Inr (py_str v))"

definition optional_text :: "json \<Rightarrow> string \<Rightarrow> string option res" where
  "optional_text d k = rbind (dget d k JNull) (\<lambda>v. Inr (if v = JNull then None else Some (py_str v)))"

fun string_item :: "json \<Rightarrow> string res" where
  "string_item (JStr s) = Inr s"
| "string_item _ = Inl (TypeError ''identifier is not a string'')"

definition texts_or_empty :: "json \<Rightarrow> string \<Rightarrow> string list res" where
  "texts_or_empty d k = rbind (dget d k (JList [])) (\<lambda>v. rbind (items_of v) (rmap string_item))"

definition enum_of :: "('e \<Rightarrow> string) \<Rightarrow> 'e list \<Rightarrow> string \<Rightarrow> string \<Rightarrow> 'e res" where
  "enum_of value_of members class_name s = (case find (\<lambda>e. value_of e = s) members of
     Some e \<Rightarrow> Inr e | None \<Rightarrow> Inl (ValueError (repr_str s @ '' is not a valid '' @ class_name)))"

definition role_of :: "string \<Rightarrow> agent_role res" where
  "role_of s = enum_of role_value AGENT_SEQUENCE ''AgentRole'' s"

definition agent_status_of :: "string \<Rightarrow> agent_status res" where
  "agent_status_of s = enum_of agent_status_value [Standby, Processing, Ready, WaitingGreenlight, Blocked, Attention] ''AgentStatus'' s"

definition run_status_of :: "string \<Rightarrow> run_status res" where
  "run_status_of s = enum_of run_status_value
     [Queued, Running, AwaitingGreenlight, Completed, RunRejected, Revoked, Failed] ''RunStatus'' s"

definition decision_of :: "string \<Rightarrow> decision res" where
  "decision_of s = enum_of decision_value [Approved, Rejected] ''GreenlightDecision'' s"

definition platform_of :: "json \<Rightarrow> platform res" where
  "platform_of v = (case v of JStr s \<Rightarrow> enum_of platform_value [X, Facebook, Tiktok, Instagram] ''Platform'' s
     | _ \<Rightarrow> Inl (ValueError (py_repr v @ '' is not a valid Platform'')))"

definition payload_at :: "json \<Rightarrow> string \<Rightarrow> (string \<times> json) list res" where
  "payload_at d k = rbind (dindex d k) (\<lambda>v. rbind (mapping v) (\<lambda>v. Inr (case v of JObj kvs \<Rightarrow> kvs | _ \<Rightarrow> [])))"

section \<open>From a document\<close>

text \<open>One evidence claim, with every field as text.\<close>

definition claim_of :: "json \<Rightarrow> json res" where
  "claim_of item =
     rbind (mapping item) (\<lambda>c.
     rbind (text_or c ''statement'' []) (\<lambda>statement.
     rbind (text_or c ''source'' []) (\<lambda>source.
     rbind (text_or c ''locator'' []) (\<lambda>locator.
     rbind (text_or c ''verification_status'' ''unverified'') (\<lambda>status.
     rbind (text_or c ''reviewed_by'' []) (\<lambda>reviewed.
       Inr (JObj [(''statement'', JStr statement), (''source'', JStr source), (''locator'', JStr locator),
         (''verification_status'', JStr status), (''reviewed_by'', JStr reviewed)])))))))"

definition brief_of :: "(string \<Rightarrow> int res) \<Rightarrow> json \<Rightarrow> brief res" where
  "brief_of iof d =
     rbind (text_at d ''title'') (\<lambda>title_text.
     rbind (text_at d ''objective'') (\<lambda>objective_text.
     rbind (text_at d ''audience'') (\<lambda>audience_text.
     rbind (rbind (dindex d ''platforms'') (\<lambda>v. rbind (items_of v) (rmap platform_of))) (\<lambda>plats.
     rbind (rbind (dget d ''budget_cents'' (JInt 0)) (py_int iof)) (\<lambda>budget.
     rbind (text_or d ''source_asset'' ''sandbox://brief/no-external-asset'') (\<lambda>asset.
     rbind (text_or d ''campaign_goal'' ''awareness'') (\<lambda>goal.
     rbind (text_or d ''campaign_type'' ''commercial'') (\<lambda>ctype.
     rbind (text_or d ''publication_mode'' ''organic'') (\<lambda>mode.
     rbind (text_or d ''locale'' ''es-GT'') (\<lambda>loc.
     rbind (text_or d ''jurisdiction'' []) (\<lambda>jur.
     rbind (text_or d ''office'' []) (\<lambda>office_text.
     rbind (text_or d ''candidate_name'' []) (\<lambda>candidate.
     rbind (text_or d ''locality'' []) (\<lambda>locality_text.
     rbind (text_or d ''problem'' []) (\<lambda>problem_text.
     rbind (text_or d ''proposal'' []) (\<lambda>proposal_text.
     rbind (text_or d ''desired_action'' []) (\<lambda>desired.
     rbind (text_or d ''disclosure'' []) (\<lambda>disclosure_text.
     rbind (text_or d ''legal_review_status'' ''pending'') (\<lambda>legal.
     rbind (text_or d ''legal_reviewed_by'' []) (\<lambda>legal_by.
     rbind (rbind (dget d ''evidence_claims'' (JList [])) (\<lambda>v. rbind (items_of v) (rmap claim_of))) (\<lambda>claims.
       let b = \<lparr>title = title_text, objective = objective_text, audience = audience_text, platforms = plats,
            budget_cents = budget, source_asset = asset, campaign_goal = goal, campaign_type = ctype,
            publication_mode = mode, brief_locale = loc, jurisdiction = jur, office = office_text,
            candidate_name = candidate, locality = locality_text, problem = problem_text, proposal = proposal_text,
            desired_action = desired, disclosure = disclosure_text, legal_review_status = legal,
            legal_reviewed_by = legal_by, evidence_claims = claims\<rparr>
       in rbind (check_brief b) (\<lambda>_. Inr b))))))))))))))))))))))"

definition agent_state_of :: "(string \<Rightarrow> int res) \<Rightarrow> string \<times> json \<Rightarrow> (agent_role \<times> agent_state) res" where
  "agent_state_of iof entry =
     rbind (mapping (snd entry)) (\<lambda>d.
     rbind (role_of (fst entry)) (\<lambda>role.
     rbind (rbind (text_at d ''status'') agent_status_of) (\<lambda>status.
     rbind (rbind (dindex d ''progress'') (py_int iof)) (\<lambda>progress.
     rbind (text_at d ''detail'') (\<lambda>detail.
     rbind (texts_or_empty d ''artifact_ids'') (\<lambda>ids.
       Inr (role, \<lparr>as_role = role, as_status = status, as_progress = progress, as_detail = detail,
         as_artifact_ids = ids\<rparr>)))))))"

definition states_of :: "(string \<Rightarrow> int res) \<Rightarrow> json \<Rightarrow> (agent_role \<Rightarrow> agent_state) res" where
  "states_of iof d = (case d of JObj kvs \<Rightarrow>
       rbind (rmap (agent_state_of iof) kvs) (\<lambda>entries.
       rbind (raise_first (map (\<lambda>x. (map_of entries x = None, KeyError (role_value x))) AGENT_SEQUENCE)) (\<lambda>_.
         Inr (\<lambda>x. case map_of entries x of Some s \<Rightarrow> s | None \<Rightarrow> new_agent_state x)))
     | _ \<Rightarrow> Inl (ValueError ''persisted runtime document contains a non-object value''))"

definition artifact_of :: "json \<Rightarrow> artifact res" where
  "artifact_of value =
     rbind (mapping value) (\<lambda>d.
     rbind (text_at d ''artifact_id'') (\<lambda>ident.
     rbind (text_at d ''kind'') (\<lambda>kind.
     rbind (text_at d ''title'') (\<lambda>heading.
     rbind (rbind (text_at d ''created_by'') role_of) (\<lambda>role.
     rbind (payload_at d ''payload'') (\<lambda>payload.
     rbind (texts_or_empty d ''evidence_ids'') (\<lambda>eids.
       Inr \<lparr>artifact_id = ident, art_kind = kind, art_title = heading, created_by = role, art_payload = payload,
         art_evidence_ids = eids\<rparr>)))))))"

definition evidence_of :: "json \<Rightarrow> tool_evidence res" where
  "evidence_of value =
     rbind (mapping value) (\<lambda>d.
     rbind (text_at d ''evidence_id'') (\<lambda>ident.
     rbind (text_at d ''tool'') (\<lambda>tool.
     rbind (text_at d ''operation'') (\<lambda>operation.
     rbind (dindex d ''sandbox'') (\<lambda>sandbox.
     rbind (text_at d ''summary'') (\<lambda>summary.
     rbind (payload_at d ''payload'') (\<lambda>payload.
     rbind (texts_or_empty d ''references'') (\<lambda>refs.
       Inr \<lparr>evidence_id = ident, ev_tool = tool, ev_operation = operation, ev_sandbox = truthy sandbox,
         ev_summary = summary, ev_payload = payload, ev_references = refs\<rparr>))))))))"

definition event_of :: "(string \<Rightarrow> int res) \<Rightarrow> json \<Rightarrow> trace_event res" where
  "event_of iof value =
     rbind (mapping value) (\<lambda>d.
     rbind (rbind (dindex d ''sequence'') (py_int iof)) (\<lambda>sequence.
     rbind (text_at d ''timestamp'') (\<lambda>timestamp.
     rbind (rbind (text_at d ''role'') role_of) (\<lambda>role.
     rbind (text_at d ''action'') (\<lambda>action.
     rbind (text_at d ''status'') (\<lambda>status.
     rbind (text_at d ''detail'') (\<lambda>detail.
     rbind (texts_or_empty d ''artifact_ids'') (\<lambda>aids.
     rbind (texts_or_empty d ''evidence_ids'') (\<lambda>eids.
       if sequence < 0 then Inl (ValueError ''event sequence is negative'')
       else Inr \<lparr>te_sequence = nat sequence, te_timestamp = timestamp, te_role = role, te_action = action,
         te_status = status, te_detail = detail, te_artifact_ids = aids, te_evidence_ids = eids\<rparr>)))))))))"

definition greenlight_of :: "(string \<Rightarrow> int res) \<Rightarrow> json \<Rightarrow> greenlight res" where
  "greenlight_of iof value =
     rbind (mapping value) (\<lambda>d.
     rbind (text_at d ''greenlight_id'') (\<lambda>ident.
     rbind (text_at d ''run_id'') (\<lambda>rid.
     rbind (rbind (text_at d ''decision'') decision_of) (\<lambda>dec.
     rbind (text_at d ''reviewer'') (\<lambda>reviewer.
     rbind (text_or d ''note'' []) (\<lambda>remark.
     rbind (text_at d ''decided_at'') (\<lambda>decided.
     rbind (texts_or_empty d ''approved_artifact_ids'') (\<lambda>ids.
     rbind (texts_or_empty d ''approved_artifact_hashes'') (\<lambda>hashes.
     rbind (rbind (dget d ''authorized_channels'' (JList [])) (\<lambda>v. rbind (items_of v) (rmap platform_of))) (\<lambda>channels.
     rbind (rbind (dget d ''authorized_budget_cents'' (JInt 0)) (py_int iof)) (\<lambda>budget.
     rbind (rbind (dget d ''fencing_token'' (JInt 1)) (py_int iof)) (\<lambda>fence.
     rbind (optional_text d ''revoked_at'') (\<lambda>revoked.
     rbind (text_or d ''revoked_by'' []) (\<lambda>revoker.
     rbind (text_or d ''revocation_reason'' []) (\<lambda>reason.
       let g = \<lparr>greenlight_id = ident, gl_run_id = rid, gl_decision = dec, gl_reviewer = reviewer, gl_note = remark,
            gl_decided_at = decided, approved_artifact_ids = ids, approved_artifact_hashes = hashes,
            authorized_channels = channels, authorized_budget_cents = budget, gl_fencing_token = fence,
            gl_revoked_at = revoked, gl_revoked_by = revoker, gl_revocation_reason = reason\<rparr>
       in rbind (check_greenlight g) (\<lambda>_. Inr g))))))))))))))))"

text \<open>The defaults of \<open>RunExecution()\<close>.\<close>

definition default_execution :: run_execution where
  "default_execution = \<lparr>ex_state = ''inline'', ex_next_station = ''ceo'', ex_lease_owner = [], ex_lease_expires_at = None,
     ex_fencing_token = 0, ex_attempts = 0, ex_checkpointed_at = None, ex_failure_detail = []\<rparr>"

definition execution_of :: "(string \<Rightarrow> int res) \<Rightarrow> json \<Rightarrow> run_execution res" where
  "execution_of iof value =
     rbind (mapping value) (\<lambda>d.
     rbind (text_or d ''state'' ''inline'') (\<lambda>st.
     rbind (text_or d ''next_station'' ''ceo'') (\<lambda>station.
     rbind (text_or d ''lease_owner'' []) (\<lambda>owner.
     rbind (optional_text d ''lease_expires_at'') (\<lambda>expiry.
     rbind (rbind (dget d ''fencing_token'' (JInt 0)) (py_int iof)) (\<lambda>fence.
     rbind (rbind (dget d ''attempts'' (JInt 0)) (py_int iof)) (\<lambda>attempts.
     rbind (optional_text d ''checkpointed_at'') (\<lambda>checkpointed.
     rbind (text_or d ''failure_detail'' []) (\<lambda>failure.
       let x = \<lparr>ex_state = st, ex_next_station = station, ex_lease_owner = owner, ex_lease_expires_at = expiry,
            ex_fencing_token = fence, ex_attempts = attempts, ex_checkpointed_at = checkpointed, ex_failure_detail = failure\<rparr>
       in rbind (check_execution x) (\<lambda>_. Inr x))))))))))"

definition optional_greenlight :: "(string \<Rightarrow> int res) \<Rightarrow> json \<Rightarrow> greenlight option res" where
  "optional_greenlight iof v = (if v = JNull then Inr None else rbind (greenlight_of iof v) (\<lambda>g. Inr (Some g)))"

definition optional_execution :: "(string \<Rightarrow> int res) \<Rightarrow> json \<Rightarrow> run_execution res" where
  "optional_execution iof v = (if v = JNull then Inr default_execution else execution_of iof v)"

definition list_or_empty :: "json \<Rightarrow> string \<Rightarrow> (json \<Rightarrow> 'a res) \<Rightarrow> 'a list res" where
  "list_or_empty d k f = rbind (dget d k (JList [])) (\<lambda>v. rbind (items_of v) (rmap f))"

definition execution_run_from_document :: "(string \<Rightarrow> int res) \<Rightarrow> json \<Rightarrow> run res" where
  "execution_run_from_document iof doc =
     rbind (rbind (rbind (dindex doc ''brief'') mapping) (brief_of iof)) (\<lambda>b.
     rbind (rbind (rbind (dindex doc ''agent_states'') mapping) (states_of iof)) (\<lambda>states.
     rbind (list_or_empty doc ''artifacts'' artifact_of) (\<lambda>arts.
     rbind (list_or_empty doc ''evidence'' evidence_of) (\<lambda>evs.
     rbind (list_or_empty doc ''trace'' (event_of iof)) (\<lambda>events.
     rbind (rbind (dget doc ''greenlight'' JNull) (optional_greenlight iof)) (\<lambda>green.
     rbind (rbind (dget doc ''execution'' JNull) (optional_execution iof)) (\<lambda>ex.
     rbind (text_at doc ''run_id'') (\<lambda>rid.
     rbind (rbind (text_at doc ''status'') run_status_of) (\<lambda>st.
     rbind (text_at doc ''started_at'') (\<lambda>started.
     rbind (optional_text doc ''completed_at'') (\<lambda>completed.
       Inr \<lparr>run_id = rid, run_brief = b, run_status = st, started_at = started, agent_states = states,
         artifacts = arts, evidence = evs, trace = events, run_greenlight = green, completed_at = completed,
         execution = ex\<rparr>)))))))))))"

section \<open>Reading what was written\<close>

lemma dindex_prim: "dindex (to_primitive (JObj kvs)) k = (case jget k kvs of Some v \<Rightarrow> Inr (to_primitive v) | None \<Rightarrow> Inl (KeyError k))"
  unfolding prim_object_JObj [symmetric] by (simp add: dindex_def jget_prim_object split: option.split)

lemma dget_prim: "dget (to_primitive (JObj kvs)) k d = Inr (case jget k kvs of Some v \<Rightarrow> to_primitive v | None \<Rightarrow> d)"
  unfolding prim_object_JObj [symmetric] by (simp add: dget_def get_or_def jget_prim_object split: option.split)

lemma mapping_prim: "mapping (to_primitive (JObj kvs)) = Inr (to_primitive (JObj kvs))"
  unfolding prim_object_JObj [symmetric] by (simp add: mapping_def is_object_def)

lemmas reading = dindex_prim dget_prim mapping_prim text_at_def text_or_def optional_text_def

lemma enum_of_value:
  assumes "inj f" and "x \<in> set xs"
  shows "enum_of f xs n (f x) = Inr x"
proof -
  have "find (\<lambda>e. f e = f x) xs = Some x" using assms by (induction xs) (auto simp: inj_eq)
  then show ?thesis by (simp add: enum_of_def)
qed

lemma reads_role [simp]: "role_of (role_value x) = Inr x"
  unfolding role_of_def by (rule enum_of_value) (simp_all add: inj_def agent_sequence_all)

lemma reads_agent_status [simp]: "agent_status_of (agent_status_value x) = Inr x"
  unfolding agent_status_of_def by (cases x) (simp_all add: enum_of_def)

lemma reads_run_status [simp]: "run_status_of (run_status_value x) = Inr x"
  unfolding run_status_of_def by (cases x) (simp_all add: enum_of_def)

lemma reads_decision [simp]: "decision_of (decision_value x) = Inr x"
  unfolding decision_of_def by (cases x) (simp_all add: enum_of_def)

lemma reads_platform [simp]: "platform_of (JStr (platform_value x)) = Inr x"
  unfolding platform_of_def by (cases x) (simp_all add: enum_of_def)

lemma rmap_items: "(\<And>x. x \<in> set xs \<Longrightarrow> f (g x) = Inr (h x)) \<Longrightarrow> rmap f (map g xs) = Inr (map h xs)"
  by (induction xs) auto

end
