(* ===== verification/RunStore.thy ===== *)
theory RunStore
  imports AuditLedger Serialization "HOL-Library.Product_Lexorder"
begin

text \<open>
  The runs and the browser sessions of \<open>SQLiteRunStore\<close> (\<open>backend/agency_runtime/persistence.py\<close>), beside
  the audit ledger in one database. An operation that writes is one transaction: it returns the
  database it leaves, or the exception, and then the database is the one before. The clock readings,
  the random tokens and the uuids are arguments. A session's times are compared as dates, so they are
  seconds here and \<open>at_time\<close> writes them; the row of a run holds the value its document text parses to.
\<close>

section \<open>The database\<close>

record run_row =
  rr_tenant_id :: string
  rr_run_id :: string
  rr_status :: string
  rr_document :: json
  rr_created_at :: string
  rr_updated_at :: string

record session_row =
  ss_session_id :: string
  ss_tenant_id :: string
  ss_session_token_hash :: string
  ss_csrf_token_hash :: string
  ss_credential_fingerprint :: string
  ss_subject_id :: string
  ss_role :: string
  ss_key_id :: string
  ss_created_at :: int
  ss_expires_at :: int
  ss_revoked_at :: "int option"

record run_db =
  db_runs :: "run_row list"
  db_ledger :: ledger
  db_sessions :: "session_row list"

text \<open>What a command brings to its audit event besides the event: the clock reading and the uuid.\<close>

record stamp =
  st_clock :: string
  st_uuid :: string

definition audited :: "run_db \<Rightarrow> string \<Rightarrow> audit_write \<Rightarrow> stamp \<Rightarrow> run_db res" where
  "audited db tenant w s =
     rbind (append_audit_locked (db_ledger db) tenant w (st_clock s) (st_uuid s)) (\<lambda>l. Inr (db\<lparr>db_ledger := l\<rparr>))"

definition audited_if :: "run_db \<Rightarrow> string \<Rightarrow> audit_write option \<Rightarrow> stamp \<Rightarrow> run_db res" where
  "audited_if db tenant ow s = (case ow of None \<Rightarrow> Inr db | Some w \<Rightarrow> audited db tenant w s)"

section \<open>Runs\<close>

definition run_key :: "string \<Rightarrow> string \<Rightarrow> run_row \<Rightarrow> bool" where
  "run_key tenant rid x \<longleftrightarrow> rr_tenant_id x = tenant \<and> rr_run_id x = rid"

text \<open>The handlers of \<open>sqlite3.IntegrityError\<close>: the receipt is looked up in the database before the
  transaction; \<open>otherwise\<close> is what is raised when there is none.\<close>

definition integrity_error :: "run_db \<Rightarrow> string \<Rightarrow> audit_write option \<Rightarrow> exn \<Rightarrow> run_db res" where
  "integrity_error db tenant ow otherwise = (case ow of
     Some w \<Rightarrow> if aw_event_id w = [] then Inl otherwise else
       rbind (audit_event (db_ledger db) tenant (aw_event_id w)) (\<lambda>found.
         if found \<noteq> None then Inl (AuditEventConflictError ''command receipt already exists'') else Inl otherwise)
   | None \<Rightarrow> Inl otherwise)"

definition on_integrity_error :: "run_db res \<Rightarrow> run_db res \<Rightarrow> run_db res" where
  "on_integrity_error attempt h = (if attempt = Inl IntegrityError then h else attempt)"

definition run_create :: "run_db \<Rightarrow> string \<Rightarrow> run \<Rightarrow> audit_write option \<Rightarrow> string \<Rightarrow> stamp \<Rightarrow> run_db res" where
  "run_create db tenant r ow timestamp s =
     on_integrity_error
       (if list_ex (run_key tenant (run_id r)) (db_runs db) then Inl IntegrityError
        else audited_if (db\<lparr>db_runs := db_runs db @
           [\<lparr>rr_tenant_id = tenant, rr_run_id = run_id r, rr_status = run_status_value (run_status r),
             rr_document = execution_run_to_document r, rr_created_at = timestamp, rr_updated_at = timestamp\<rparr>]\<rparr>)
           tenant ow s)
       (integrity_error db tenant ow (ValueError (''run already exists for tenant: '' @ run_id r)))"

text \<open>The \<open>WHERE\<close> clause of the update, with or without the expected status.\<close>

definition save_matches :: "string \<Rightarrow> string \<Rightarrow> string option \<Rightarrow> run_row \<Rightarrow> bool" where
  "save_matches tenant rid expected x \<longleftrightarrow>
     run_key tenant rid x \<and> (case expected of None \<Rightarrow> True | Some st \<Rightarrow> rr_status x = st)"

definition run_save ::
  "run_db \<Rightarrow> string \<Rightarrow> run \<Rightarrow> audit_write option \<Rightarrow> string option \<Rightarrow> string \<Rightarrow> stamp \<Rightarrow> run_db res" where
  "run_save db tenant r ow expected timestamp s =
     (let hit = save_matches tenant (run_id r) expected;
          db' = db\<lparr>db_runs := sql_update hit (\<lambda>x. x\<lparr>rr_status := run_status_value (run_status r),
                  rr_document := execution_run_to_document r, rr_updated_at := timestamp\<rparr>) (db_runs db)\<rparr>
      in on_integrity_error
       (if sql_count hit (db_runs db) \<noteq> 1 then
          (if sql_find (run_key tenant (run_id r)) (db_runs db') = None
           then Inl (KeyError (''run not found: '' @ run_id r))
           else Inl (RunStateConflictError (''run state changed before persistence: '' @ run_id r)))
        else audited_if db' tenant ow s)
       (integrity_error db tenant ow IntegrityError))"

definition run_get :: "(string \<Rightarrow> int res) \<Rightarrow> run_db \<Rightarrow> string \<Rightarrow> string \<Rightarrow> run res" where
  "run_get iof db tenant rid = (case sql_find (run_key tenant rid) (db_runs db) of
     None \<Rightarrow> Inl (KeyError (''run not found: '' @ rid))
   | Some x \<Rightarrow> execution_run_from_document iof (rr_document x))"

definition run_exists :: "run_db \<Rightarrow> string \<Rightarrow> string \<Rightarrow> bool" where
  "run_exists db tenant rid = (sql_find (run_key tenant rid) (db_runs db) \<noteq> None)"

definition run_count :: "run_db \<Rightarrow> string \<Rightarrow> nat" where
  "run_count db tenant = sql_count (\<lambda>x. rr_tenant_id x = tenant) (db_runs db)"

definition executable_runs :: "run_db \<Rightarrow> int \<Rightarrow> (string \<times> string) list res" where
  "executable_runs db limit =
     (if limit < 1 \<or> 1000 < limit then Inl (ValueError ''limit must be between 1 and 1000'')
      else Inr (take (nat limit) (map (\<lambda>x. (rr_tenant_id x, rr_run_id x))
        (sort_key (\<lambda>x. (rr_updated_at x, rr_tenant_id x, rr_run_id x))
          (filter (\<lambda>x. rr_status x = ''queued'' \<or> rr_status x = ''running'') (db_runs db))))))"

section \<open>Sessions\<close>

record session_issue =
  si_session_id :: string
  si_session_token :: string
  si_csrf_token :: string
  si_tenant_id :: string
  si_subject_id :: string
  si_role :: string
  si_key_id :: string
  si_credential_fingerprint :: string
  si_expires_at :: int

record session_record =
  sr_session_id :: string
  sr_tenant_id :: string
  sr_subject_id :: string
  sr_role :: string
  sr_key_id :: string
  sr_credential_fingerprint :: string
  sr_created_at :: int
  sr_expires_at :: int
  sr_revoked_at :: "int option"

definition session_record_of :: "session_row \<Rightarrow> session_record" where
  "session_record_of x = \<lparr>sr_session_id = ss_session_id x, sr_tenant_id = ss_tenant_id x,
     sr_subject_id = ss_subject_id x, sr_role = ss_role x, sr_key_id = ss_key_id x,
     sr_credential_fingerprint = ss_credential_fingerprint x, sr_created_at = ss_created_at x,
     sr_expires_at = ss_expires_at x, sr_revoked_at = ss_revoked_at x\<rparr>"

definition session_issue_of :: "session_row \<Rightarrow> string \<Rightarrow> string \<Rightarrow> session_issue" where
  "session_issue_of x token csrf = \<lparr>si_session_id = ss_session_id x, si_session_token = token, si_csrf_token = csrf,
     si_tenant_id = ss_tenant_id x, si_subject_id = ss_subject_id x, si_role = ss_role x, si_key_id = ss_key_id x,
     si_credential_fingerprint = ss_credential_fingerprint x, si_expires_at = ss_expires_at x\<rparr>"

text \<open>The random parts of a session: the uuid of its id and the two tokens.\<close>

record session_seed =
  sd_uuid :: string
  sd_session_token :: string
  sd_csrf_token :: string

definition checked_audited :: "run_db \<Rightarrow> string \<Rightarrow> audit_write \<Rightarrow> stamp \<Rightarrow> run_db res" where
  "checked_audited db tenant w s = rbind (check_audit_write w) (\<lambda>_. audited db tenant w s)"

definition new_session ::
  "string \<Rightarrow> string \<Rightarrow> int \<Rightarrow> string \<Rightarrow> string \<Rightarrow> string \<Rightarrow> int \<Rightarrow> session_seed \<Rightarrow> session_row" where
  "new_session tenant fingerprint ttl subject role key created seed = \<lparr>ss_session_id = ''session-'' @ sd_uuid seed,
     ss_tenant_id = tenant, ss_session_token_hash = sha256_text (sd_session_token seed),
     ss_csrf_token_hash = sha256_text (sd_csrf_token seed), ss_credential_fingerprint = fingerprint,
     ss_subject_id = (if subject = [] then ''tenant:'' @ tenant else subject), ss_role = role,
     ss_key_id = (if key = [] then ''legacy:'' @ tenant else key), ss_created_at = created,
     ss_expires_at = created + ttl, ss_revoked_at = None\<rparr>"

definition session_created_event :: "(int \<Rightarrow> string) \<Rightarrow> session_row \<Rightarrow> string \<Rightarrow> string \<Rightarrow> audit_write" where
  "session_created_event at_time x request actor = \<lparr>aw_request_id = request, aw_action = ''session.created'',
     aw_resource_type = ''browser_session'', aw_resource_id = ss_session_id x, aw_actor = actor,
     aw_payload = [(''auth_method'', JStr ''http_only_cookie''), (''subject_id'', JStr (ss_subject_id x)),
       (''role'', JStr (ss_role x)), (''key_id'', JStr (ss_key_id x)), (''expires_at'', JStr (at_time (ss_expires_at x)))],
     aw_event_id = []\<rparr>"

definition create_session ::
  "(int \<Rightarrow> string) \<Rightarrow> run_db \<Rightarrow> string \<Rightarrow> string \<Rightarrow> int \<Rightarrow> string \<Rightarrow> string \<Rightarrow> string \<Rightarrow> string \<Rightarrow> string
    \<Rightarrow> int \<Rightarrow> session_seed \<Rightarrow> stamp \<Rightarrow> (run_db \<times> session_issue) res" where
  "create_session at_time db tenant fingerprint ttl request actor subject role key created seed s =
     (if ttl < 300 \<or> 86400 < ttl then Inl (ValueError ''session ttl must be between 300 and 86400 seconds'')
      else let x = new_session tenant fingerprint ttl subject role key created seed in
       if list_ex (\<lambda>y. ss_session_id y = ss_session_id x \<or> ss_session_token_hash y = ss_session_token_hash x) (db_sessions db)
       then Inl IntegrityError
       else rbind (checked_audited (db\<lparr>db_sessions := db_sessions db @ [x]\<rparr>) tenant (session_created_event at_time x request actor) s)
         (\<lambda>db'. Inr (db', session_issue_of x (sd_session_token seed) (sd_csrf_token seed))))"

definition authenticate_session :: "run_db \<Rightarrow> string \<Rightarrow> int \<Rightarrow> session_record res" where
  "authenticate_session db token clk =
     (if token = [] then Inl (SessionAuthenticationError ''browser session is missing'')
      else case sql_find (\<lambda>x. ss_session_token_hash x = sha256_text token) (db_sessions db) of
        None \<Rightarrow> Inl (SessionAuthenticationError ''browser session is invalid'')
      | Some x \<Rightarrow>
          if ss_session_token_hash x \<noteq> sha256_text token then Inl (SessionAuthenticationError ''browser session is invalid'')
          else if ss_revoked_at x \<noteq> None then Inl (SessionAuthenticationError ''browser session is revoked'')
          else if ss_expires_at x \<le> clk then Inl (SessionAuthenticationError ''browser session is expired'')
          else Inr (session_record_of x))"

definition rotate_session_csrf :: "run_db \<Rightarrow> string \<Rightarrow> string \<Rightarrow> int \<Rightarrow> (run_db \<times> session_issue) res" where
  "rotate_session_csrf db sid csrf clk =
     (case sql_find (\<lambda>x. ss_session_id x = sid) (db_sessions db) of
        None \<Rightarrow> Inl (SessionAuthenticationError ''browser session is not active'')
      | Some x \<Rightarrow>
          if ss_revoked_at x \<noteq> None then Inl (SessionAuthenticationError ''browser session is not active'')
          else if ss_expires_at x \<le> clk then Inl (SessionAuthenticationError ''browser session is expired'')
          else Inr (db\<lparr>db_sessions := sql_update (\<lambda>y. ss_session_id y = sid)
              (\<lambda>y. y\<lparr>ss_csrf_token_hash := sha256_text csrf\<rparr>) (db_sessions db)\<rparr>, session_issue_of x [] csrf))"

definition verify_session_csrf :: "run_db \<Rightarrow> string \<Rightarrow> string \<Rightarrow> int \<Rightarrow> unit res" where
  "verify_session_csrf db sid csrf clk =
     (if csrf = [] then Inl (SessionCsrfError ''CSRF token is required'')
      else case sql_find (\<lambda>x. ss_session_id x = sid) (db_sessions db) of
        None \<Rightarrow> Inl (SessionCsrfError ''browser session is not active'')
      | Some x \<Rightarrow>
          if ss_revoked_at x \<noteq> None then Inl (SessionCsrfError ''browser session is not active'')
          else if ss_expires_at x \<le> clk then Inl (SessionCsrfError ''browser session is expired'')
          else if sha256_text csrf \<noteq> ss_csrf_token_hash x then Inl (SessionCsrfError ''CSRF token is invalid'')
          else Inr ())"

definition session_revoked_event :: "(int \<Rightarrow> string) \<Rightarrow> string \<Rightarrow> string \<Rightarrow> string \<Rightarrow> int \<Rightarrow> audit_write" where
  "session_revoked_event at_time sid request actor revoked = \<lparr>aw_request_id = request, aw_action = ''session.revoked'',
     aw_resource_type = ''browser_session'', aw_resource_id = sid, aw_actor = actor,
     aw_payload = [(''revoked_at'', JStr (at_time revoked))], aw_event_id = []\<rparr>"

definition revoke_session ::
  "(int \<Rightarrow> string) \<Rightarrow> run_db \<Rightarrow> string \<Rightarrow> string \<Rightarrow> string \<Rightarrow> string \<Rightarrow> int \<Rightarrow> stamp \<Rightarrow> run_db res" where
  "revoke_session at_time db tenant sid request actor revoked s =
     (let hit = (\<lambda>x. ss_tenant_id x = tenant \<and> ss_session_id x = sid \<and> ss_revoked_at x = None) in
      if sql_count hit (db_sessions db) \<noteq> 1 then Inl (KeyError ''active browser session not found'')
      else checked_audited (db\<lparr>db_sessions := sql_update hit (\<lambda>x. x\<lparr>ss_revoked_at := Some revoked\<rparr>) (db_sessions db)\<rparr>)
        tenant (session_revoked_event at_time sid request actor revoked) s)"

definition session_count :: "run_db \<Rightarrow> string \<Rightarrow> bool \<Rightarrow> int \<Rightarrow> nat" where
  "session_count db tenant include_revoked clk = sql_count
     (\<lambda>x. ss_tenant_id x = tenant \<and> (include_revoked \<or> ss_revoked_at x = None \<and> clk < ss_expires_at x)) (db_sessions db)"

text \<open>The backfill at start-up: sessions written before they named a subject and a key.\<close>

definition ensure_session_identity :: "session_row list \<Rightarrow> session_row list" where
  "ensure_session_identity xs =
     sql_update (\<lambda>x. ss_key_id x = []) (\<lambda>x. x\<lparr>ss_key_id := ''legacy:'' @ ss_tenant_id x\<rparr>)
       (sql_update (\<lambda>x. ss_subject_id x = []) (\<lambda>x. x\<lparr>ss_subject_id := ''tenant:'' @ ss_tenant_id x\<rparr>) xs)"

end
