(* ===== verification/MemoryStore.thy ===== *)
theory MemoryStore
  imports Tools Url Effects
begin

text \<open>
  \<open>backend/agency_runtime/memory.py\<close>: observations and the \<open>memories\<close> table of \<open>SQLiteMemory\<close>.
  A confidence is a number of hundredths, the values the runtime passes; search, whose ranking is
  float arithmetic, is left out. The clock's text is an argument.
\<close>

section \<open>Records\<close>

record observation =
  ob_observation_id :: string
  ob_content :: string
  ob_provenance :: provenance
  ob_confidence :: int
  ob_tags :: "string list"
  ob_observed_at :: string

record memory_row =
  mm_memory_id :: string
  mm_observation_id :: string
  mm_content :: string
  mm_provenance :: provenance
  mm_confidence :: int
  mm_tags :: "string list"
  mm_observed_at :: string
  mm_stored_at :: string
  mm_namespace :: string

record memory =
  mem_namespace :: string
  mem_rows :: "memory_row list"

definition make_memory :: "string \<Rightarrow> memory_row list \<Rightarrow> memory res" where
  "make_memory ns rows =
     (let n = str_lower (strip ns) in
      if n = [] then Inl (ValueError ''namespace must not be empty'')
      else Inr \<lparr>mem_namespace = n, mem_rows = rows\<rparr>)"

definition require_confidence :: "int \<Rightarrow> unit res" where
  "require_confidence c = raise_first
     [(c < 0 \<or> 100 < c, ValueError ''confidence must be between 0.0 and 1.0'')]"

definition provenance_json :: "provenance \<Rightarrow> json" where
  "provenance_json p = JObj [(''source'', JStr (prov_source p)), (''locator'', JStr (prov_locator p)),
     (''observed_at'', JStr (prov_observed_at p)), (''tool'', JStr (prov_tool p)), (''trace_id'', JStr (prov_trace_id p))]"

section \<open>Operations\<close>

text \<open>\<open>sorted({tag.strip().lower() for tag in tags if tag and tag.strip()})\<close>.\<close>

definition normal_tags :: "string list \<Rightarrow> string list" where
  "normal_tags tags = sort (remdups (map (\<lambda>t. str_lower (strip t)) (filter (\<lambda>t. strip t \<noteq> []) tags)))"

definition observe :: "memory \<Rightarrow> string \<Rightarrow> provenance \<Rightarrow> int \<Rightarrow> string list \<Rightarrow> string \<Rightarrow> observation res" where
  "observe m content prov conf tags now =
     rbind (require_confidence conf) (\<lambda>_.
       let text = strip content; ts = normal_tags tags
       in if text = [] then Inl (ValueError ''content must not be empty'')
          else Inr \<lparr>ob_observation_id = stable_id ''obs'' [JStr (mem_namespace m), JStr text, provenance_json prov,
                      JFloat (hundredths (nat conf)), jstrs ts, JStr now] 16,
                    ob_content = text, ob_provenance = prov, ob_confidence = conf, ob_tags = ts,
                    ob_observed_at = now\<rparr>)"

definition memory_id_of :: "memory \<Rightarrow> observation \<Rightarrow> string" where
  "memory_id_of m obs = stable_id ''mem'' [JStr (mem_namespace m), JStr (ob_observation_id obs)] 16"

definition memory_recall :: "memory \<Rightarrow> string \<Rightarrow> memory_row res" where
  "memory_recall m mid =
     (case sql_find (\<lambda>r. mm_namespace r = mem_namespace m \<and> mm_memory_id r = mid) (mem_rows m) of
        Some r \<Rightarrow> Inr r | None \<Rightarrow> Inl (KeyError (''memory not found: '' @ mid)))"

text \<open>\<open>INSERT OR IGNORE\<close>: a taken memory id or observation id leaves the table alone.\<close>

definition memory_insert :: "memory \<Rightarrow> observation \<Rightarrow> string \<Rightarrow> memory" where
  "memory_insert m obs now =
     (if \<exists>r \<in> set (mem_rows m). mm_memory_id r = memory_id_of m obs
         \<or> mm_observation_id r = ob_observation_id obs then m
      else m\<lparr>mem_rows := mem_rows m @
        [\<lparr>mm_memory_id = memory_id_of m obs, mm_observation_id = ob_observation_id obs,
          mm_content = ob_content obs, mm_provenance = ob_provenance obs, mm_confidence = ob_confidence obs,
          mm_tags = ob_tags obs, mm_observed_at = ob_observed_at obs, mm_stored_at = now,
          mm_namespace = mem_namespace m\<rparr>]\<rparr>)"

definition memory_store :: "memory \<Rightarrow> observation \<Rightarrow> string \<Rightarrow> memory \<times> memory_row res" where
  "memory_store m obs now =
     (let m' = memory_insert m obs now in (m', memory_recall m' (memory_id_of m obs)))"

definition memory_count :: "memory \<Rightarrow> nat" where
  "memory_count m = sql_count (\<lambda>r. mm_namespace r = mem_namespace m) (mem_rows m)"

section \<open>Facts\<close>

lemma memory_insert_namespace [simp]: "mem_namespace (memory_insert m obs now) = mem_namespace m"
  by (simp add: memory_insert_def)

text \<open>No stored row has the ids of the observation.\<close>

definition memory_fresh :: "memory \<Rightarrow> observation \<Rightarrow> bool" where
  "memory_fresh m obs \<longleftrightarrow> (\<forall>r \<in> set (mem_rows m). mm_memory_id r \<noteq> memory_id_of m obs
     \<and> mm_observation_id r \<noteq> ob_observation_id obs)"

lemma memory_store_fresh:
  assumes "memory_fresh m obs"
  shows "\<exists>row. memory_store m obs now = (m\<lparr>mem_rows := mem_rows m @ [row]\<rparr>, Inr row)
    \<and> mm_memory_id row = memory_id_of m obs \<and> mm_content row = ob_content obs
    \<and> mm_provenance row = ob_provenance obs \<and> mm_confidence row = ob_confidence obs
    \<and> mm_tags row = ob_tags obs \<and> mm_observed_at row = ob_observed_at obs \<and> mm_stored_at row = now"
proof -
  have "sql_find (\<lambda>r. mm_namespace r = mem_namespace m \<and> mm_memory_id r = memory_id_of m obs) (mem_rows m) = None"
    using assms by (auto simp: sql_find_None memory_fresh_def)
  moreover have "\<not> (\<exists>r \<in> set (mem_rows m). mm_memory_id r = memory_id_of m obs \<or> mm_observation_id r = ob_observation_id obs)"
    using assms by (auto simp: memory_fresh_def)
  ultimately show ?thesis
    by (simp add: memory_store_def memory_insert_def memory_recall_def sql_find_append)
      (simp add: sql_find_def)
qed

lemma memory_insert_again: "memory_insert (memory_insert m obs now) obs now' = memory_insert m obs now"
  by (auto simp: memory_insert_def memory_id_of_def)

text \<open>Storing a fresh observation adds one row, the record it returns, which recall then finds with the
  observation's content, provenance, confidence and tags; storing it again, at any later time, changes
  nothing and returns the same record.\<close>

theorem memory_store_recall:
  assumes "memory_fresh m obs" and "memory_store m obs now = (m', r)"
  shows "\<exists>row. r = Inr row \<and> mem_rows m' = mem_rows m @ [row] \<and> memory_recall m' (mm_memory_id row) = Inr row
    \<and> mm_content row = ob_content obs \<and> mm_provenance row = ob_provenance obs
    \<and> mm_confidence row = ob_confidence obs \<and> mm_tags row = ob_tags obs
    \<and> memory_store m' obs now' = (m', Inr row) \<and> memory_count m' = Suc (memory_count m)"
proof -
  obtain row where row: "memory_store m obs now = (m\<lparr>mem_rows := mem_rows m @ [row]\<rparr>, Inr row)"
    "mm_memory_id row = memory_id_of m obs" "mm_content row = ob_content obs"
    "mm_provenance row = ob_provenance obs" "mm_confidence row = ob_confidence obs" "mm_tags row = ob_tags obs"
    using memory_store_fresh [OF assms(1)] by blast
  have m': "m' = memory_insert m obs now" "r = memory_recall m' (memory_id_of m obs)"
    using assms(2) by (auto simp: memory_store_def Let_def)
  have rows: "mem_rows m' = mem_rows m @ [row]" "r = Inr row" using row(1) assms(2) by auto
  have "memory_store m' obs now' = (m', Inr row)"
    using m' rows(2) memory_insert_again [of m obs now now'] by (simp add: memory_store_def Let_def memory_id_of_def)
  moreover have "mm_namespace row = mem_namespace m"
    using m'(1) rows(1) assms(1) by (auto simp: memory_insert_def memory_fresh_def split: if_splits)
  then have "memory_count m' = Suc (memory_count m)" using rows(1) m'(1) by (simp add: memory_count_def sql_count_def)
  ultimately show ?thesis using rows m' row by simp
qed

theorem memory_store_recall_witness:
  "\<exists>row. memory_recall (fst (memory_store \<lparr>mem_namespace = ''a'', mem_rows = []\<rparr>
      \<lparr>ob_observation_id = ''obs-1'', ob_content = ''c'', ob_provenance = \<lparr>prov_source = ''s'', prov_locator = ''l'',
        prov_observed_at = ''t'', prov_tool = ''human'', prov_trace_id = ''''\<rparr>, ob_confidence = 84, ob_tags = [''t''],
        ob_observed_at = ''t''\<rparr> ''now'')) (mm_memory_id row) = Inr row \<and> mm_content row = ''c''"
proof -
  let ?m = "\<lparr>mem_namespace = ''a'', mem_rows = []\<rparr>"
  let ?o = "\<lparr>ob_observation_id = ''obs-1'', ob_content = ''c'', ob_provenance = \<lparr>prov_source = ''s'', prov_locator = ''l'',
        prov_observed_at = ''t'', prov_tool = ''human'', prov_trace_id = ''''\<rparr>, ob_confidence = 84, ob_tags = [''t''],
        ob_observed_at = ''t''\<rparr>"
  have "memory_fresh ?m ?o" by (simp add: memory_fresh_def)
  from memory_store_recall [OF this, of "''now''" "fst (memory_store ?m ?o ''now'')" "snd (memory_store ?m ?o ''now'')" "''x''"]
  show ?thesis by (metis observation.select_convs(2) prod.collapse)
qed

end
