(* ===== verification/Orchestrator.thy ===== *)
theory Orchestrator
  imports Campaign MemoryStore
begin

text \<open>
  \<open>backend/agency_runtime/orchestrator.py\<close>: the sequential eight-station runtime. A handler is a
  step on the run being worked on, the count of clock readings and the memory, so a run mutated
  before a raise stays mutated, as in the code. Clock readings are functions of their count.
\<close>

section \<open>State\<close>

record orch_env =
  oe_clock :: "nat \<Rightarrow> string"
  oe_memory_clock :: "nat \<Rightarrow> string"
  oe_fold_case :: "string \<Rightarrow> string"

record work =
  wk_run :: run
  wk_tick :: nat
  wk_memory :: memory

type_synonym 'a handler = "(work, 'a) step"

definition now :: "orch_env \<Rightarrow> string handler" where
  "now env = (\<lambda>w. (w\<lparr>wk_tick := Suc (wk_tick w)\<rparr>, Inr (oe_clock env (wk_tick w))))"

definition memory_now :: "orch_env \<Rightarrow> string handler" where
  "memory_now env = (\<lambda>w. (w\<lparr>wk_tick := Suc (wk_tick w)\<rparr>, Inr (oe_memory_clock env (wk_tick w))))"

definition the_run :: "run handler" where
  "the_run = sget wk_run"

definition change_run :: "(run \<Rightarrow> run) \<Rightarrow> unit handler" where
  "change_run f = sput (\<lambda>w. w\<lparr>wk_run := f (wk_run w)\<rparr>)"

section \<open>Events, stations and artifacts\<close>

definition add_event ::
  "orch_env \<Rightarrow> agent_role \<Rightarrow> string \<Rightarrow> string \<Rightarrow> string \<Rightarrow> string list \<Rightarrow> string list \<Rightarrow> unit handler" where
  "add_event env role action status detail aids eids =
     sbind the_run (\<lambda>r. sbind (now env) (\<lambda>t.
       change_run (\<lambda>r. r\<lparr>trace := trace r @
         [\<lparr>te_sequence = length (trace r) + 1, te_timestamp = t, te_role = role, te_action = action,
           te_status = status, te_detail = detail, te_artifact_ids = aids, te_evidence_ids = eids\<rparr>]\<rparr>)))"

definition update_agent :: "agent_role \<Rightarrow> agent_status \<Rightarrow> int \<Rightarrow> string \<Rightarrow> unit handler" where
  "update_agent role status progress detail =
     sbind the_run (\<lambda>r. sbind (slift (agent_state_update (state_for r role) status progress detail)) (\<lambda>st.
       change_run (\<lambda>r. set_state r role st)))"

definition begin_agent :: "orch_env \<Rightarrow> agent_role \<Rightarrow> string \<Rightarrow> unit handler" where
  "begin_agent env role detail =
     sthen (update_agent role Processing 10 detail)
       (add_event env role ''agent_started'' (agent_status_value Processing) detail [] [])"

definition add_evidence :: "tool_evidence list \<Rightarrow> run \<Rightarrow> run" where
  "add_evidence evs r = fold (\<lambda>e r. if list_all (\<lambda>x. evidence_id x \<noteq> evidence_id e) (evidence r)
     then r\<lparr>evidence := evidence r @ [e]\<rparr> else r) evs r"

definition station_artifact ::
  "string \<Rightarrow> agent_role \<Rightarrow> string \<Rightarrow> string \<Rightarrow> (string \<times> json) list \<Rightarrow> tool_evidence list \<Rightarrow> artifact" where
  "station_artifact rid role kind heading payload evs =
     \<lparr>artifact_id = stable_id ''art'' [JStr rid, JStr (role_value role), JStr kind, JObj payload] 16,
      art_kind = kind, art_title = heading, created_by = role, art_payload = payload,
      art_evidence_ids = map evidence_id evs\<rparr>"

definition complete_agent ::
  "orch_env \<Rightarrow> agent_role \<Rightarrow> string \<Rightarrow> string \<Rightarrow> (string \<times> json) list \<Rightarrow> tool_evidence list \<Rightarrow> string
   \<Rightarrow> artifact handler" where
  "complete_agent env role kind heading payload evs detail =
     sbind the_run (\<lambda>r. let a = station_artifact (run_id r) role kind heading payload evs in
       sthen (change_run (add_evidence evs))
      (sthen (change_run (\<lambda>r. add_artifact r a))
      (sthen (update_agent role Ready 100 detail)
      (sthen (add_event env role ''artifact_ready'' (agent_status_value Ready) detail [artifact_id a] (art_evidence_ids a))
        (sret a)))))"

definition remember ::
  "orch_env \<Rightarrow> agent_role \<Rightarrow> string \<Rightarrow> int \<Rightarrow> string list \<Rightarrow> artifact \<Rightarrow> tool_evidence option \<Rightarrow> unit handler" where
  "remember env role content confidence tags a ev =
     sbind the_run (\<lambda>r.
     sbind (now env) (\<lambda>t.
       let trace_id = (if trace r = [] then 0 else te_sequence (last (trace r)));
           prov = \<lparr>prov_source = ''agency_run'',
             prov_locator = ''sandbox://runs/'' @ run_id r @ ''/artifacts/'' @ artifact_id a, prov_observed_at = t,
             prov_tool = (case ev of Some e \<Rightarrow> ev_tool e | None \<Rightarrow> ''agency_runtime''),
             prov_trace_id = run_id r @ '':'' @ show_nat trace_id\<rparr> in
     sbind (slift (check_provenance prov)) (\<lambda>_.
     sbind (memory_now env) (\<lambda>t1.
     sbind (sget wk_memory) (\<lambda>m.
     sbind (slift (observe m content prov confidence (tags @ [role_value role]) t1)) (\<lambda>obs.
     sbind (memory_now env) (\<lambda>t2. \<lambda>w.
       case memory_store m obs t2 of (m', res) \<Rightarrow>
         (w\<lparr>wk_memory := m'\<rparr>, rbind res (\<lambda>_. Inr ())))))))))"

section \<open>Stations\<close>

definition run_ceo :: "orch_env \<Rightarrow> unit handler" where
  "run_ceo env = sbind the_run (\<lambda>r. let b = run_brief r in
     sbind (complete_agent env CEO ''mission_charter'' ''Mission charter''
       [(''title'', JStr (title b)), (''objective'', JStr (objective b)), (''audience'', JStr (audience b)),
        (''platforms'', jstrs (map platform_value (platforms b))), (''budget_cents'', JInt (budget_cents b)),
        (''campaign_type'', JStr (campaign_type b)), (''locale'', JStr (brief_locale b)),
        (''jurisdiction'', JStr (jurisdiction b)), (''office'', JStr (office b)),
        (''candidate_name'', JStr (candidate_name b)), (''locality'', JStr (locality b)),
        (''legal_review_status'', JStr (legal_review_status b)), (''legal_reviewed_by'', JStr (legal_reviewed_by b)),
        (''constraints'', jstrs [''sandbox adapters only'', ''manual Greenlight before Publisher'',
           ''no external side effects''])]
       [] ''Mission chartered with sandbox and approval constraints.'') (\<lambda>_. sret ()))"

definition run_research :: "orch_env \<Rightarrow> unit handler" where
  "run_research env = sbind the_run (\<lambda>r.
     let b = run_brief r; trends = collect_trends (objective b) (audience b) (platforms b);
         browser = observe_page ''sandbox://market-pulse/fixture'' ''audience language and category framing'' in
     sbind (slift (claim_ledger b (run_id r))) (\<lambda>claims.
     sbind (complete_agent env Research ''research_dossier'' (''Dossier de investigaci'' @ [CHR 0xF3] @ ''n y afirmaciones'')
       [(''trends'', JObj (prim_object (trends_report_json (tr_result trends)))),
        (''browser_observation'', JObj (prim_object (browser_observation_json (tr_result browser)))),
        (''claim_ledger'', JList claims),
        (''scholar'', JObj
          [(''reencuadre_cognitivo'', JStr (''Convertir una propuesta verificable en una decisi'' @ [CHR 0xF3] @ ''n comprensible.'')),
           (''tension_del_trade_off'', JStr (''La claridad no puede simplificar una afirmaci'' @ [CHR 0xF3] @ ''n m'' @ [CHR 0xE1] @ ''s all'' @ [CHR 0xE1] @ '' de su fuente.'')),
           (''resolucion_operativa'', JStr ''Mapear claims, adaptar el canal y mantener Critique y Greenlight.'')]),
        (''live_sources_contacted'', JBool False)]
       [tr_evidence trends, tr_evidence browser] (''Afirmaciones y fuentes consolidadas sin navegaci'' @ [CHR 0xF3] @ ''n externa.'')) (\<lambda>a.
       remember env Research (''Research mapped '' @ show_nat (length claims) @ '' claims for '' @ audience b @ ''.'')
         (if claims = [] then 72 else 84) [''research'', ''claims'', campaign_goal b] a (Some (tr_evidence trends)))))"

definition run_strategist :: "orch_env \<Rightarrow> unit handler" where
  "run_strategist env = sbind the_run (\<lambda>r.
     let b = run_brief r; docs = lookup_docs ''sandbox-adapter-contracts'' ''idempotent approval-gated orchestration'';
         pillars = (case jget ''pillars'' (strategy_payload b) of Some (JList xs) \<Rightarrow> length xs | _ \<Rightarrow> 0);
         payload = dict_set ''documentation_guardrails'' (jstrs (df_recommendations (tr_result docs)))
           (dict_set ''platforms'' (jstrs (map platform_value (platforms b))) (strategy_payload b)) in
     sbind (complete_agent env Strategist ''channel_strategy'' ''Arquitectura de mensaje por canal'' payload
       [tr_evidence docs] (''Estrategia basada en problema, propuesta, prueba y acci'' @ [CHR 0xF3] @ ''n.'')) (\<lambda>a.
       remember env Strategist (''Strategy prepared '' @ show_nat pillars @ '' governed message pillars.'')
         (if campaign_type b = ''political'' then 90 else 83) [''strategy'', ''pillars''] a (Some (tr_evidence docs))))"

definition run_growth :: "orch_env \<Rightarrow> unit handler" where
  "run_growth env = sbind the_run (\<lambda>r.
     let b = run_brief r; political = (campaign_type b = ''political'');
         forecast = forecast_ads (campaign_goal b) (audience b) (budget_cents b) in
     sbind (complete_agent env Growth ''growth_forecast''
       (if political then (''Plan de distribuci'' @ [CHR 0xF3] @ ''n org'' @ [CHR 0xE1] @ ''nica'') else ''Synthetic growth forecast'')
       (growth_payload b (prim_object (ads_forecast_json (tr_result forecast)))) [tr_evidence forecast]
       (if political then (''M'' @ [CHR 0xE9] @ ''tricas y guardrails definidos sin afirmar alcance electoral.'')
        else ''Forecast calculated without ad-account access or spend.'')) (\<lambda>a.
       remember env Growth ''Growth plan remains synthetic and external spend is disabled.''
         (if political then 82 else 58) [''growth'', ''organic'', ''synthetic''] a (Some (tr_evidence forecast))))"

definition run_writer :: "orch_env \<Rightarrow> unit handler" where
  "run_writer env = sbind the_run (\<lambda>r. let b = run_brief r in
     sbind (slift (find_artifact r ''research_dossier'')) (\<lambda>research.
     sbind (slift (copy_payload b (get_or (art_payload research) ''claim_ledger'' (JList [])))) (\<lambda>payload.
     sbind (complete_agent env Writer ''copy_deck'' ''Copy gobernado por plataforma'' payload []
       (''Variantes listas para cr'' @ [CHR 0xED] @ ''tica factual y revisi'' @ [CHR 0xF3] @ ''n humana.'')) (\<lambda>a.
       let n = (case jget ''variants'' payload of Some (JObj vs) \<Rightarrow> length vs | _ \<Rightarrow> 0) in
       remember env Writer (''Drafted '' @ show_nat n @ '' platform variants with explicit claim mapping.'')
         93 [''copy'', ''draft'', brief_locale b] a None))))"

definition run_media :: "orch_env \<Rightarrow> unit handler" where
  "run_media env = sbind the_run (\<lambda>r. let b = run_brief r in
     case platforms b of
       [] \<Rightarrow> slift (Inl (IndexError ''tuple index out of range''))
     | p # ps \<Rightarrow>
       (let video = plan_video (source_asset b) p 15; motion = plan_motion (source_asset b) (''Motion study for '' @ title b) 8 in
        sbind (slift (media_payload b (prim_object (video_plan_json (tr_result video)))
                 (prim_object (motion_plan_json (tr_result motion))))) (\<lambda>payload.
        sbind (complete_agent env Media ''media_plan'' ''Plan de medios accesible'' payload
          [tr_evidence video, tr_evidence motion] (''Plan editorial creado; no se renderiz'' @ [CHR 0xF3] @ '' ni public'' @ [CHR 0xF3] @ '' media.'')) (\<lambda>a.
          remember env Media ''Media plan is accessible, non-rendered and publication-blocking.''
            96 [''media'', ''plan'', ''sandbox''] a (Some (tr_evidence video))))))"

definition run_risk :: "orch_env \<Rightarrow> unit handler" where
  "run_risk env = sbind the_run (\<lambda>r.
     let b = run_brief r; inspection = inspect_codebase ''sandbox://local/agency-runtime''
           [''policy/claims'', ''policy/platforms''] ''Does the sandbox package preserve the Greenlight boundary?'' in
     sbind (slift (find_artifact r ''research_dossier'')) (\<lambda>research.
     sbind (slift (find_artifact r ''copy_deck'')) (\<lambda>writer.
     sbind (slift (critique_payload (oe_fold_case env) b (get_or (art_payload research) ''claim_ledger'' (JList []))
              (get_or (art_payload writer) ''variants'' (JObj [])))) (\<lambda>payload0.
       let payload = dict_set ''codebase_inspection''
             (JObj (prim_object (codebase_inspection_json (tr_result inspection)))) payload0;
           checks = (case jget ''checks'' payload of Some (JList xs) \<Rightarrow> length xs | _ \<Rightarrow> 0) in
     sbind (complete_agent env Risk ''risk_report'' (''Cr'' @ [CHR 0xED] @ ''tica pre-Greenlight'') payload [tr_evidence inspection]
       (''Cr'' @ [CHR 0xED] @ ''tica factual y de canal completada; Greenlight humano sigue siendo obligatorio.'')) (\<lambda>a.
       remember env Risk (''Critique evaluated '' @ show_nat checks @ '' checks; publication_eligible=''
           @ py_str (get_or payload ''publication_eligible'' JNull) @ ''.'')
         100 [''risk'', ''critique'', ''greenlight''] a (Some (tr_evidence inspection)))))))"

fun start_detail :: "agent_role \<Rightarrow> string" where
  "start_detail CEO = ''Interpreting mission constraints''"
| "start_detail Research = ''Collecting synthetic market evidence''"
| "start_detail Strategist = ''Designing channel strategy''"
| "start_detail Growth = ''Forecasting sandbox acquisition envelope''"
| "start_detail Writer = ''Writing platform variants''"
| "start_detail Media = ''Planning video and motion assets''"
| "start_detail Risk = ''Auditing release constraints''"
| "start_detail Publisher = []"

text \<open>The dispatch table has no Publisher: \<open>KeyError\<close>.\<close>

fun execute_role :: "orch_env \<Rightarrow> agent_role \<Rightarrow> unit handler" where
  "execute_role env CEO = run_ceo env"
| "execute_role env Research = run_research env"
| "execute_role env Strategist = run_strategist env"
| "execute_role env Growth = run_growth env"
| "execute_role env Writer = run_writer env"
| "execute_role env Media = run_media env"
| "execute_role env Risk = run_risk env"
| "execute_role env Publisher = slift (Inl (KeyError ''publisher''))"

section \<open>The gate\<close>

definition says_true :: "artifact \<Rightarrow> string \<Rightarrow> bool" where
  "says_true a k \<longleftrightarrow> jget k (art_payload a) = Some (JBool True)"

definition set_execution :: "(run_execution \<Rightarrow> run_execution) \<Rightarrow> run \<Rightarrow> run" where
  "set_execution f r = r\<lparr>execution := f (execution r)\<rparr>"

definition await_greenlight :: "orch_env \<Rightarrow> unit handler" where
  "await_greenlight env = sbind the_run (\<lambda>r.
     if run_status r = AwaitingGreenlight then sret ()
     else sbind (slift (find_artifact r ''risk_report'')) (\<lambda>report.
       let revise = (\<not> says_true report ''passed''
             \<or> campaign_type (run_brief r) = ''political'' \<and> \<not> says_true report ''publication_eligible'');
           st = (if revise then Attention else WaitingGreenlight) in
       sthen (update_agent Publisher st 0
         (if revise then ''Critique requires revision; Greenlight and publication are blocked.''
          else ''Risk passed; manual Greenlight is required before packaging.''))
      (sthen (change_run (\<lambda>r. r\<lparr>run_status := AwaitingGreenlight\<rparr>))
      (sthen (change_run (set_execution (\<lambda>x. x\<lparr>ex_state := ''awaiting_greenlight'',
                ex_next_station := role_value Publisher\<rparr>)))
        (add_event env Publisher (if revise then ''critique_revision_required'' else ''approval_gate'')
          (agent_status_value st)
          (if revise then ''The run is reviewable, but it cannot receive Greenlight.''
           else ''No packaging or publication has occurred.'') [] [])))))"

definition EXECUTABLE :: "agent_role list" where
  "EXECUTABLE = butlast AGENT_SEQUENCE"

definition next_station :: "agent_role list \<Rightarrow> agent_role" where
  "next_station rest = (case rest of [] \<Rightarrow> Publisher | r # _ \<Rightarrow> r)"

text \<open>The loop of \<open>advance\<close> over the stations from the given one on.\<close>

fun advance_stations :: "orch_env \<Rightarrow> agent_role list \<Rightarrow> unit handler" where
  "advance_stations env [] = await_greenlight env"
| "advance_stations env (role # rest) = sbind the_run (\<lambda>r.
     let st = as_status (state_for r role) in
     if st = Ready then advance_stations env rest
     else sthen (change_run (set_execution (\<lambda>x. x\<lparr>ex_next_station := role_value role\<rparr>)))
       (if st = Standby then begin_agent env role (start_detail role)
        else if st = Processing then
          sthen (execute_role env role)
         (sthen (change_run (set_execution (\<lambda>x. x\<lparr>ex_next_station := role_value (next_station rest)\<rparr>)))
           (if role = Risk then await_greenlight env else sret ()))
        else slift (Inl (RuntimeError ''run contains an invalid station state''))))"

definition advance_work :: "orch_env \<Rightarrow> unit handler" where
  "advance_work env = sbind the_run (\<lambda>r.
     sthen (if run_status r = Queued
            then sthen (change_run (\<lambda>r. r\<lparr>run_status := Running\<rparr>))
                   (change_run (set_execution (\<lambda>x. x\<lparr>ex_state := ''running''\<rparr>)))
            else sret ())
      (sbind the_run (\<lambda>r. if run_status r \<noteq> Running then sret () else advance_stations env EXECUTABLE)))"

section \<open>The decision\<close>

text \<open>The compliance record of a political approval.\<close>

definition claim_contract :: "json \<Rightarrow> (string \<times> json) list res" where
  "claim_contract claim =
     rbind (dget claim ''statement'' (JStr [])) (\<lambda>statement.
     rbind (dget claim ''source'' (JStr [])) (\<lambda>source.
     rbind (dget claim ''locator'' (JStr [])) (\<lambda>locator.
     rbind (dget claim ''verification_status'' (JStr ''unverified'')) (\<lambda>status.
     rbind (dget claim ''reviewed_by'' (JStr [])) (\<lambda>reviewed.
       Inr [(''statement'', JStr (strip (py_str statement))), (''source'', JStr (strip (py_str source))),
            (''locator'', JStr (strip (py_str locator))), (''verification_status'', JStr (py_str status)),
            (''reviewed_by'', JStr (strip (py_str reviewed)))])))))"

definition contract_hashes :: "(string \<times> json) list \<Rightarrow> json" where
  "contract_hashes c =
     (let text = (\<lambda>k. py_str (get_or c k (JStr []))) in JObj
       [(''claim_sha256'', JStr (sha256_text (canonical_json (JObj c)))),
        (''source_sha256'', JStr (sha256_text (text ''source''))),
        (''locator_sha256'', JStr (sha256_text (text ''locator'')))])"

definition compliance_payload :: "brief \<Rightarrow> string \<Rightarrow> (string \<times> json) list res" where
  "compliance_payload b approver =
     rbind (rmap claim_contract (evidence_claims b)) (\<lambda>cs.
       Inr [(''jurisdiction'', JStr (strip (jurisdiction b))), (''publication_mode'', JStr (publication_mode b)),
            (''disclosure_sha256'', JStr (sha256_text (strip (disclosure b)))),
            (''legal_reviewer'', JStr (strip (legal_reviewed_by b))), (''greenlight_approver'', JStr approver),
            (''claim_source_hashes'', JList (map contract_hashes cs)),
            (''retention_state'', JStr ''durable_until_governed_deletion'')])"

definition compliance_record :: "orch_env \<Rightarrow> string \<Rightarrow> unit handler" where
  "compliance_record env approver = sbind the_run (\<lambda>r.
     sbind (slift (compliance_payload (run_brief r) approver)) (\<lambda>payload.
       change_run (\<lambda>r. add_artifact r
         \<lparr>artifact_id = stable_id ''political-compliance-record'' [JStr (run_id r), JObj payload] 48,
          art_kind = ''political_compliance_record'', art_title = ''Political compliance approval record'',
          created_by = Risk, art_payload = payload, art_evidence_ids = []\<rparr>)))"

definition artifact_digest :: "artifact \<Rightarrow> string" where
  "artifact_digest a = stable_id ''sha256'' [JStr (canonical_json (artifact_json a))] 64"

definition make_greenlight :: "run \<Rightarrow> decision \<Rightarrow> string \<Rightarrow> string \<Rightarrow> string \<Rightarrow> greenlight" where
  "make_greenlight r d reviewer note decided_at =
     (let ids = map artifact_id (artifacts r); hashes = map artifact_digest (artifacts r) in
      \<lparr>greenlight_id = stable_id ''greenlight'' [JStr (run_id r), JStr (decision_value d), JStr (strip reviewer),
          JStr (strip note), JStr decided_at, jstrs ids, jstrs hashes] 16,
       gl_run_id = run_id r, gl_decision = d, gl_reviewer = strip reviewer, gl_note = strip note,
       gl_decided_at = decided_at, approved_artifact_ids = ids, approved_artifact_hashes = hashes,
       authorized_channels = platforms (run_brief r), authorized_budget_cents = budget_cents (run_brief r),
       gl_fencing_token = 1, gl_revoked_at = None, gl_revoked_by = [], gl_revocation_reason = []\<rparr>)"

definition check_decision :: "run \<Rightarrow> string \<Rightarrow> decision \<Rightarrow> unit res" where
  "check_decision r reviewer d =
     (if run_status r \<noteq> AwaitingGreenlight then
        Inl (GreenlightError (''run '' @ run_id r @ '' is not awaiting Greenlight (status='' @ run_status_value (run_status r) @ '')''))
      else rbind (find_artifact r ''risk_report'') (\<lambda>report. raise_first
        [(\<not> says_true report ''passed'', GreenlightError ''Risk must pass before a Greenlight decision''),
         (campaign_type (run_brief r) = ''political'' \<and> \<not> says_true report ''publication_eligible'',
            GreenlightError ''Political critique must pass before Greenlight''),
         (strip reviewer = [], GreenlightError ''reviewer must not be empty''),
         (d = Approved \<and> campaign_type (run_brief r) = ''political''
            \<and> strip (legal_reviewed_by (run_brief r)) = strip reviewer,
            PoliticalReviewerSeparationError ''political legal reviewer and Greenlight approver must be distinct'')]))"

definition reject_run :: "orch_env \<Rightarrow> string \<Rightarrow> unit handler" where
  "reject_run env decided_at =
     sthen (change_run (\<lambda>r. r\<lparr>run_status := RunRejected\<rparr>))
    (sthen (change_run (set_execution (\<lambda>x. x\<lparr>ex_state := ''completed''\<rparr>)))
    (sthen (change_run (\<lambda>r. r\<lparr>completed_at := Some decided_at\<rparr>))
    (sthen (update_agent Publisher Blocked 0 ''Greenlight rejected; sandbox package was not created.'')
      (add_event env Publisher ''greenlight_rejected'' (agent_status_value Blocked)
        ''Reviewer rejected release. No packaging or publication occurred.'' [] []))))"

definition publish_package :: "orch_env \<Rightarrow> greenlight \<Rightarrow> unit handler" where
  "publish_package env g =
     sthen (update_agent Publisher Processing 50 ''Greenlight recorded; creating local sandbox manifest.'')
    (sthen (add_event env Publisher ''greenlight_approved'' (agent_status_value Processing)
        ''Approval recorded locally; publication remains disabled.'' [] [])
    (sbind the_run (\<lambda>r. let response = package_campaign (run_id r) (platforms (run_brief r)) (artifacts r);
                           package = tr_result response in
     sbind (complete_agent env Publisher ''campaign_package'' ''Sandbox campaign manifest''
       (prim_object (campaign_package_json package)) [tr_evidence response]
       ''Manifest packaged locally; external publication was not performed.'') (\<lambda>a.
     sthen (change_run (\<lambda>r. r\<lparr>run_status := Completed\<rparr>))
    (sthen (change_run (set_execution (\<lambda>x. x\<lparr>ex_state := ''completed'', ex_next_station := role_value Publisher\<rparr>)))
    (sbind (now env) (\<lambda>t.
     sthen (change_run (\<lambda>r. r\<lparr>completed_at := Some t\<rparr>))
       (remember env Publisher (''Greenlight '' @ greenlight_id g @ '' produced sandbox manifest ''
           @ pk_manifest_uri package @ '' with publication_performed=false.'')
         100 [''greenlight'', ''publisher'', ''sandbox''] a (Some (tr_evidence response))))))))))"

definition decide_work :: "orch_env \<Rightarrow> string \<Rightarrow> decision \<Rightarrow> string \<Rightarrow> unit handler" where
  "decide_work env reviewer d note = sbind the_run (\<lambda>r.
     sbind (slift (check_decision r reviewer d)) (\<lambda>_.
     sbind (now env) (\<lambda>decided_at.
     sthen (if d = Approved \<and> campaign_type (run_brief r) = ''political''
            then compliance_record env (strip reviewer) else sret ())
    (sbind the_run (\<lambda>r'. let g = make_greenlight r' d reviewer note decided_at in
     sbind (slift (check_greenlight g)) (\<lambda>_.
     sthen (change_run (\<lambda>r. r\<lparr>run_greenlight := Some g\<rparr>))
       (if d = Rejected then reject_run env decided_at else publish_package env g)))))))"

definition revoke_work :: "orch_env \<Rightarrow> string \<Rightarrow> string \<Rightarrow> unit handler" where
  "revoke_work env reviewer reason = sbind the_run (\<lambda>r. case run_greenlight r of
     None \<Rightarrow> slift (Inl (GreenlightError ''Greenlight is not active''))
   | Some g \<Rightarrow>
     sbind (slift (raise_first
       [(run_status r \<noteq> Completed \<or> \<not> greenlight_active g, GreenlightError ''Greenlight is not active''),
        (strip reviewer = [], GreenlightError ''reviewer must not be empty''),
        (strip reason = [], GreenlightError ''revocation reason must not be empty'')])) (\<lambda>_.
     sbind (now env) (\<lambda>t. let g' = g\<lparr>gl_fencing_token := gl_fencing_token g + 1, gl_revoked_at := Some t,
         gl_revoked_by := strip reviewer, gl_revocation_reason := strip reason\<rparr> in
     sbind (slift (check_greenlight g')) (\<lambda>_.
     sthen (change_run (\<lambda>r. r\<lparr>run_greenlight := Some g'\<rparr>))
    (sthen (change_run (\<lambda>r. r\<lparr>run_status := Revoked\<rparr>))
    (sthen (change_run (set_execution (\<lambda>x. x\<lparr>ex_state := ''completed''\<rparr>)))
    (sthen (update_agent Publisher Blocked 100 ''Greenlight revoked; all prior effect tokens are fenced.'')
      (add_event env Publisher ''greenlight_revoked'' (agent_status_value Blocked)
        ''Approval revoked locally; publication remains disabled.'' [] []))))))))"

section \<open>The orchestrator\<close>

record orchestrator =
  or_runs :: "string \<Rightarrow> run option"
  or_tick :: nat
  or_memory :: memory

definition on_run :: "string \<Rightarrow> unit handler \<Rightarrow> (orchestrator, run) step" where
  "on_run rid m = (\<lambda>h. case or_runs h rid of
     None \<Rightarrow> (h, Inl (KeyError (''run not found: '' @ rid)))
   | Some r \<Rightarrow> (case m \<lparr>wk_run = r, wk_tick = or_tick h, wk_memory = or_memory h\<rparr> of (w, res) \<Rightarrow>
       (\<lparr>or_runs = (or_runs h)(rid \<mapsto> wk_run w), or_tick = wk_tick w, or_memory = wk_memory w\<rparr>,
        rbind res (\<lambda>_. Inr (wk_run w)))))"

definition create_run :: "orch_env \<Rightarrow> brief \<Rightarrow> bool \<Rightarrow> (orchestrator, run) step" where
  "create_run env b asynchronous = (\<lambda>h.
     let rid = stable_id ''run'' [brief_json b] 16 in
     if or_runs h rid \<noteq> None
     then (h, Inl (ValueError (''run already exists in this orchestrator: '' @ rid)))
     else (let t = oe_clock env (or_tick h);
               ex = \<lparr>ex_state = (if asynchronous then ''queued'' else ''inline''), ex_next_station = role_value CEO,
                     ex_lease_owner = [], ex_lease_expires_at = None, ex_fencing_token = 0, ex_attempts = 0,
                     ex_checkpointed_at = Some t, ex_failure_detail = []\<rparr>;
               r = \<lparr>run_id = rid, run_brief = b, run_status = (if asynchronous then Queued else Running),
                    started_at = t, agent_states = new_agent_state, artifacts = [], evidence = [], trace = [],
                    run_greenlight = None, completed_at = None, execution = ex\<rparr>;
               h' = h\<lparr>or_tick := Suc (or_tick h)\<rparr>
           in case check_execution ex of
                Inl e \<Rightarrow> (h', Inl e)
              | Inr _ \<Rightarrow> (h'\<lparr>or_runs := (or_runs h)(rid \<mapsto> r)\<rparr>, Inr r)))"

definition advance :: "orch_env \<Rightarrow> string \<Rightarrow> (orchestrator, run) step" where
  "advance env rid = on_run rid (advance_work env)"

definition approve :: "orch_env \<Rightarrow> string \<Rightarrow> string \<Rightarrow> string \<Rightarrow> (orchestrator, run) step" where
  "approve env rid reviewer note = on_run rid (decide_work env reviewer Approved note)"

definition reject :: "orch_env \<Rightarrow> string \<Rightarrow> string \<Rightarrow> string \<Rightarrow> (orchestrator, run) step" where
  "reject env rid reviewer note = on_run rid (decide_work env reviewer Rejected note)"

definition revoke :: "orch_env \<Rightarrow> string \<Rightarrow> string \<Rightarrow> string \<Rightarrow> (orchestrator, run) step" where
  "revoke env rid reviewer reason = on_run rid (revoke_work env reviewer reason)"

definition get_run :: "string \<Rightarrow> (orchestrator, run) step" where
  "get_run rid = on_run rid (sret ())"

definition restore_run :: "run \<Rightarrow> (orchestrator, run) step" where
  "restore_run r = (\<lambda>h. (h\<lparr>or_runs := (or_runs h)(run_id r \<mapsto> r)\<rparr>, Inr r))"

text \<open>The loop of \<open>start\<close>: it may not end, so it is an option.\<close>

partial_function (option) drive :: "orch_env \<Rightarrow> string \<Rightarrow> orchestrator \<Rightarrow> (orchestrator \<times> run res) option" where
  "drive env rid h = (case or_runs h rid of
     None \<Rightarrow> Some (h, Inl (KeyError (''run not found: '' @ rid)))
   | Some r \<Rightarrow> if run_status r \<in> {Queued, Running}
       then (case advance env rid h of
           (h1, Inl e) \<Rightarrow> Some (h1, Inl e)
         | (h1, Inr _) \<Rightarrow> drive env rid h1)
       else Some (h, Inr r))"

definition start :: "orch_env \<Rightarrow> brief \<Rightarrow> orchestrator \<Rightarrow> (orchestrator \<times> run res) option" where
  "start env b h = (case create_run env b False h of
     (h1, Inl e) \<Rightarrow> Some (h1, Inl e)
   | (h1, Inr r) \<Rightarrow> drive env (run_id r) h1)"

end
