(* ===== verification/OrchestratorSteps.thy ===== *)
theory OrchestratorSteps
  imports Orchestrator
begin

text \<open>
  What the building blocks of a run's lifecycle do to the run: the equations of the agent, event
  and artifact updates, the fields each of them leaves alone, and the outcome of one station: either
  an error or exactly the station's one artifact.
\<close>

section \<open>What the building blocks do\<close>

definition with_agent :: "agent_role \<Rightarrow> agent_status \<Rightarrow> int \<Rightarrow> string \<Rightarrow> run \<Rightarrow> run" where
  "with_agent role st p d r = set_state r role ((state_for r role)\<lparr>as_status := st, as_progress := p, as_detail := d\<rparr>)"

definition with_event ::
  "string \<Rightarrow> agent_role \<Rightarrow> string \<Rightarrow> string \<Rightarrow> string \<Rightarrow> string list \<Rightarrow> string list \<Rightarrow> run \<Rightarrow> run" where
  "with_event t role action status detail aids eids r = r\<lparr>trace := trace r @
     [\<lparr>te_sequence = length (trace r) + 1, te_timestamp = t, te_role = role, te_action = action,
       te_status = status, te_detail = detail, te_artifact_ids = aids, te_evidence_ids = eids\<rparr>]\<rparr>"

definition station_done ::
  "agent_role \<Rightarrow> string \<Rightarrow> string \<Rightarrow> (string \<times> json) list \<Rightarrow> tool_evidence list \<Rightarrow> string \<Rightarrow> string \<Rightarrow> run \<Rightarrow> run" where
  "station_done role kind heading payload evs detail t r =
     (let a = station_artifact (run_id r) role kind heading payload evs in
      with_event t role ''artifact_ready'' (agent_status_value Ready) detail [artifact_id a] (art_evidence_ids a)
        (with_agent role Ready 100 detail (add_artifact (add_evidence evs r) a)))"

lemma change_run_eq [step_simps]: "change_run f w = (w\<lparr>wk_run := f (wk_run w)\<rparr>, Inr ())"
  by (simp add: change_run_def step_simps)

lemma the_run_eq [step_simps]: "the_run w = (w, Inr (wk_run w))"
  by (simp add: the_run_def step_simps)

lemma the_run_bind [step_simps]: "sbind the_run f w = f (wk_run w) w"
  by (simp add: sbind_def step_simps)

lemma now_bind [step_simps]: "sbind (now env) f w = f (oe_clock env (wk_tick w)) (w\<lparr>wk_tick := Suc (wk_tick w)\<rparr>)"
  by (simp add: sbind_def now_def)

lemma memory_now_bind [step_simps]:
  "sbind (memory_now env) f w = f (oe_memory_clock env (wk_tick w)) (w\<lparr>wk_tick := Suc (wk_tick w)\<rparr>)"
  by (simp add: sbind_def memory_now_def)

lemma change_run_then [step_simps]: "sthen (change_run f) n w = n (w\<lparr>wk_run := f (wk_run w)\<rparr>)"
  by (simp add: sthen_def sbind_def step_simps)

lemma update_agent_eq [step_simps]:
  "0 \<le> p \<Longrightarrow> p \<le> 100 \<Longrightarrow> update_agent role st p d w = (w\<lparr>wk_run := with_agent role st p d (wk_run w)\<rparr>, Inr ())"
  by (simp add: update_agent_def step_simps agent_state_update_def with_agent_def)

lemma update_agent_then [step_simps]:
  "0 \<le> p \<Longrightarrow> p \<le> 100 \<Longrightarrow> sthen (update_agent role st p d) n w = n (w\<lparr>wk_run := with_agent role st p d (wk_run w)\<rparr>)"
  by (simp add: sthen_def sbind_def step_simps)

lemma add_event_eq [step_simps]: "add_event env role action status detail aids eids w =
   (w\<lparr>wk_run := with_event (oe_clock env (wk_tick w)) role action status detail aids eids (wk_run w),
      wk_tick := Suc (wk_tick w)\<rparr>, Inr ())"
  by (simp add: add_event_def step_simps with_event_def)

lemma add_event_then [step_simps]: "sthen (add_event env role action status detail aids eids) n w =
   n (w\<lparr>wk_run := with_event (oe_clock env (wk_tick w)) role action status detail aids eids (wk_run w),
      wk_tick := Suc (wk_tick w)\<rparr>)"
  by (simp add: sthen_def sbind_def step_simps)

lemma begin_agent_eq: "begin_agent env role detail w =
   (w\<lparr>wk_run := with_event (oe_clock env (wk_tick w)) role ''agent_started'' (agent_status_value Processing) detail [] []
        (with_agent role Processing 10 detail (wk_run w)), wk_tick := Suc (wk_tick w)\<rparr>, Inr ())"
  by (simp add: begin_agent_def step_simps)

lemma complete_agent_eq: "complete_agent env role kind heading payload evs detail w =
   (w\<lparr>wk_run := station_done role kind heading payload evs detail (oe_clock env (wk_tick w)) (wk_run w),
      wk_tick := Suc (wk_tick w)\<rparr>, Inr (station_artifact (run_id (wk_run w)) role kind heading payload evs))"
  by (simp add: complete_agent_def Let_def step_simps station_done_def)

lemma complete_agent_bind: "sbind (complete_agent env role kind heading payload evs detail) f w =
   f (station_artifact (run_id (wk_run w)) role kind heading payload evs)
     (w\<lparr>wk_run := station_done role kind heading payload evs detail (oe_clock env (wk_tick w)) (wk_run w),
      wk_tick := Suc (wk_tick w)\<rparr>)"
  by (rule sbind_Inr) (rule complete_agent_eq)

lemma keeps_now [keep_intros]:
  "(\<And>w n. R w (w\<lparr>wk_tick := n\<rparr>)) \<Longrightarrow> keeps R (now env)"
  "(\<And>w n. R w (w\<lparr>wk_tick := n\<rparr>)) \<Longrightarrow> keeps R (memory_now env)"
  by (simp_all add: keeps_def now_def memory_now_def)

lemma keeps_the_run [keep_intros]: "preorder_rel R \<Longrightarrow> keeps R the_run"
  unfolding the_run_def by (rule keep_intros)

definition same_run :: "work \<Rightarrow> work \<Rightarrow> bool" where
  "same_run w w' \<longleftrightarrow> wk_run w' = wk_run w"

lemma same_run_preorder: "preorder_rel same_run"
  by (simp add: preorder_rel_def same_run_def)

lemma remember_keeps: "keeps same_run (remember env role content conf tags a ev)"
proof -
  have store: "keeps same_run (\<lambda>w. case memory_store m obs t of (m', res) \<Rightarrow> (w\<lparr>wk_memory := m'\<rparr>, rbind res (\<lambda>_. Inr ())))" for m obs t
    by (simp add: keeps_def same_run_def split: prod.splits)
  show ?thesis unfolding remember_def Let_def
    by (intro keep_intros same_run_preorder store) (simp_all add: same_run_def)
qed

lemma remember_run: "wk_run (fst (remember env role content conf tags a ev w)) = wk_run w"
  using remember_keeps [of env role content conf tags a ev] by (simp add: keeps_def same_run_def)

text \<open>Fields the building blocks leave alone.\<close>

named_theorems run_frame \<open>fields of a run after a building block\<close>

lemma with_agent_frame [run_frame]:
  "run_id (with_agent ro st p d r) = run_id r" "run_brief (with_agent ro st p d r) = run_brief r"
  "run_status (with_agent ro st p d r) = run_status r" "artifacts (with_agent ro st p d r) = artifacts r"
  "evidence (with_agent ro st p d r) = evidence r" "trace (with_agent ro st p d r) = trace r"
  "run_greenlight (with_agent ro st p d r) = run_greenlight r" "execution (with_agent ro st p d r) = execution r"
  "completed_at (with_agent ro st p d r) = completed_at r" "started_at (with_agent ro st p d r) = started_at r"
  by (simp_all add: with_agent_def set_state_def)

lemma with_agent_state [run_frame]: "as_status (state_for (with_agent ro st p d r) x) = (if x = ro then st else as_status (state_for r x))"
  "as_progress (state_for (with_agent ro st p d r) x) = (if x = ro then p else as_progress (state_for r x))"
  by (simp_all add: with_agent_def)

lemma with_event_frame [run_frame]:
  "run_id (with_event t ro ac st d ai ei r) = run_id r" "run_brief (with_event t ro ac st d ai ei r) = run_brief r"
  "run_status (with_event t ro ac st d ai ei r) = run_status r" "artifacts (with_event t ro ac st d ai ei r) = artifacts r"
  "evidence (with_event t ro ac st d ai ei r) = evidence r"
  "run_greenlight (with_event t ro ac st d ai ei r) = run_greenlight r" "execution (with_event t ro ac st d ai ei r) = execution r"
  "completed_at (with_event t ro ac st d ai ei r) = completed_at r" "started_at (with_event t ro ac st d ai ei r) = started_at r"
  "state_for (with_event t ro ac st d ai ei r) = state_for r"
  by (simp_all add: with_event_def state_for_def fun_eq_iff)

lemma add_artifact_frame [run_frame]:
  "run_id (add_artifact r a) = run_id r" "run_brief (add_artifact r a) = run_brief r"
  "run_status (add_artifact r a) = run_status r" "artifacts (add_artifact r a) = artifacts r @ [a]"
  "evidence (add_artifact r a) = evidence r" "trace (add_artifact r a) = trace r"
  "run_greenlight (add_artifact r a) = run_greenlight r" "execution (add_artifact r a) = execution r"
  "completed_at (add_artifact r a) = completed_at r" "started_at (add_artifact r a) = started_at r"
  "as_status (state_for (add_artifact r a) x) = as_status (state_for r x)"
  "as_progress (state_for (add_artifact r a) x) = as_progress (state_for r x)"
  by (simp_all add: add_artifact_def Let_def set_state_def state_for_def)

lemma add_evidence_frame [run_frame]:
  "run_id (add_evidence evs r) = run_id r \<and> run_brief (add_evidence evs r) = run_brief r
   \<and> run_status (add_evidence evs r) = run_status r \<and> artifacts (add_evidence evs r) = artifacts r
   \<and> trace (add_evidence evs r) = trace r \<and> run_greenlight (add_evidence evs r) = run_greenlight r
   \<and> execution (add_evidence evs r) = execution r \<and> completed_at (add_evidence evs r) = completed_at r
   \<and> started_at (add_evidence evs r) = started_at r \<and> state_for (add_evidence evs r) = state_for r"
proof (induction evs arbitrary: r)
  case Nil
  then show ?case by (simp add: add_evidence_def)
next
  case (Cons e evs)
  define r' where "r' = (if list_all (\<lambda>x. evidence_id x \<noteq> evidence_id e) (evidence r) then r\<lparr>evidence := evidence r @ [e]\<rparr> else r)"
  have "add_evidence (e # evs) r = add_evidence evs r'" by (simp add: add_evidence_def r'_def)
  moreover have "run_id r' = run_id r" "run_brief r' = run_brief r" "run_status r' = run_status r" "artifacts r' = artifacts r"
    "trace r' = trace r" "run_greenlight r' = run_greenlight r" "execution r' = execution r"
    "completed_at r' = completed_at r" "started_at r' = started_at r" "state_for r' = state_for r"
    by (simp_all add: r'_def state_for_def fun_eq_iff)
  ultimately show ?case using Cons.IH [of r'] by (simp only:)
qed

lemma set_execution_frame [run_frame]:
  "run_id (set_execution f r) = run_id r" "run_brief (set_execution f r) = run_brief r"
  "run_status (set_execution f r) = run_status r" "artifacts (set_execution f r) = artifacts r"
  "evidence (set_execution f r) = evidence r" "trace (set_execution f r) = trace r"
  "run_greenlight (set_execution f r) = run_greenlight r" "completed_at (set_execution f r) = completed_at r"
  "started_at (set_execution f r) = started_at r" "state_for (set_execution f r) = state_for r"
  by (simp_all add: set_execution_def state_for_def fun_eq_iff)

lemma station_done_frame [run_frame]:
  "run_id (station_done ro k he pl ev d t r) = run_id r" "run_brief (station_done ro k he pl ev d t r) = run_brief r"
  "run_status (station_done ro k he pl ev d t r) = run_status r"
  "artifacts (station_done ro k he pl ev d t r) = artifacts r @ [station_artifact (run_id r) ro k he pl ev]"
  "run_greenlight (station_done ro k he pl ev d t r) = run_greenlight r"
  "completed_at (station_done ro k he pl ev d t r) = completed_at r" "started_at (station_done ro k he pl ev d t r) = started_at r"
  "as_status (state_for (station_done ro k he pl ev d t r) x) = (if x = ro then Ready else as_status (state_for r x))"
  "as_progress (state_for (station_done ro k he pl ev d t r) x) = (if x = ro then 100 else as_progress (state_for r x))"
  by (simp_all add: station_done_def Let_def run_frame)

section \<open>What a station does to the run\<close>

fun station_kind :: "agent_role \<Rightarrow> string" where
  "station_kind CEO = ''mission_charter''"
| "station_kind Research = ''research_dossier''"
| "station_kind Strategist = ''channel_strategy''"
| "station_kind Growth = ''growth_forecast''"
| "station_kind Writer = ''copy_deck''"
| "station_kind Media = ''media_plan''"
| "station_kind Risk = ''risk_report''"
| "station_kind Publisher = ''campaign_package''"

lemma station_kind_inj [simp]: "station_kind a = station_kind b \<longleftrightarrow> a = b"
  by (cases a; cases b) simp_all

text \<open>Either nothing but an error, or the station's one artifact.\<close>

definition station_outcome :: "agent_role \<Rightarrow> work \<Rightarrow> work \<times> unit res \<Rightarrow> bool" where
  "station_outcome role w out \<longleftrightarrow> (wk_run (fst out) = wk_run w \<and> (\<exists>e. snd out = Inl e))
     \<or> (\<exists>he pl ev d t. wk_run (fst out) = station_done role (station_kind role) he pl ev d t (wk_run w))"

lemma outcome_lift: "(\<And>v. x = Inr v \<Longrightarrow> station_outcome role w (f v w)) \<Longrightarrow> station_outcome role w (sbind (slift x) f w)"
  by (cases x) (auto simp: step_simps station_outcome_def)

lemma outcome_run: "station_outcome role w (f (wk_run w) w) \<Longrightarrow> station_outcome role w (sbind the_run f w)"
  by (simp add: step_simps)

lemma outcome_complete:
  assumes "\<And>a. keeps same_run (g a)" and "k = station_kind role"
  shows "station_outcome role w (sbind (complete_agent env role k he pl ev d) g w)"
proof -
  have "wk_run (fst (g a w')) = wk_run w'" for a w' using assms(1) by (simp add: keeps_def same_run_def)
  then show ?thesis unfolding complete_agent_bind station_outcome_def assms(2) by (intro disjI2) (simp, blast)
qed

lemma sret_keeps: "keeps same_run (sret v)"
  by (rule keep_intros) (rule same_run_preorder)

lemma outcome_error: "station_outcome role w (slift (Inl e) w)"
  by (simp add: station_outcome_def step_simps)

lemma outcome_platforms:
  "(\<And>p ps. xs = p # ps \<Longrightarrow> station_outcome role w (f p ps w)) \<Longrightarrow> station_outcome role w (e w) \<Longrightarrow>
   station_outcome role w ((case xs of [] \<Rightarrow> e | p # ps \<Rightarrow> f p ps) w)"
  by (cases xs) simp_all

lemmas outcome_intros = outcome_run outcome_platforms outcome_lift outcome_complete outcome_error remember_keeps sret_keeps

lemma execute_role_outcome: "role \<noteq> Publisher \<Longrightarrow> station_outcome role w (execute_role env role w)"
proof (cases role)
  case CEO
  show ?thesis unfolding CEO execute_role.simps run_ceo_def Let_def by (intro outcome_intros) simp
next
  case Research
  show ?thesis unfolding Research execute_role.simps run_research_def Let_def by (intro outcome_intros) simp
next
  case Strategist
  show ?thesis unfolding Strategist execute_role.simps run_strategist_def Let_def by (intro outcome_intros) simp
next
  case Growth
  show ?thesis unfolding Growth execute_role.simps run_growth_def Let_def by (intro outcome_intros) simp
next
  case Writer
  show ?thesis unfolding Writer execute_role.simps run_writer_def Let_def by (intro outcome_intros) simp
next
  case Media
  show ?thesis unfolding Media execute_role.simps run_media_def Let_def by (intro outcome_intros) simp
next
  case Risk
  show ?thesis unfolding Risk execute_role.simps run_risk_def Let_def by (intro outcome_intros) simp
qed simp

section \<open>Cases of an advance\<close>

lemma advance_stations_cases:
  obtains (gate) "\<forall>x \<in> set roles. as_status (state_for (wk_run w) x) = Ready" "advance_stations env roles w = await_greenlight env w"
  | (station) pre role rest where "roles = pre @ role # rest"
      "\<forall>x \<in> set pre. as_status (state_for (wk_run w) x) = Ready" "as_status (state_for (wk_run w) role) \<noteq> Ready"
      "advance_stations env roles w = advance_stations env (role # rest) w"
proof (induction roles arbitrary: thesis)
  case Nil
  then show ?case by simp
next
  case (Cons x xs)
  show ?case
  proof (cases "as_status (state_for (wk_run w) x) = Ready")
    case True
    then have eq: "advance_stations env (x # xs) w = advance_stations env xs w" by (simp add: step_simps)
    show ?thesis
    proof (rule Cons.IH)
      assume "\<forall>y \<in> set xs. as_status (state_for (wk_run w) y) = Ready" "advance_stations env xs w = await_greenlight env w"
      then show ?thesis using Cons.prems(1) True eq by simp
    next
      fix pre role rest assume "xs = pre @ role # rest"
        "\<forall>y \<in> set pre. as_status (state_for (wk_run w) y) = Ready" "as_status (state_for (wk_run w) role) \<noteq> Ready"
        "advance_stations env xs w = advance_stations env (role # rest) w"
      then show ?thesis using Cons.prems(2) [of "x # pre" role rest] True eq by simp
    qed
  next
    case False
    then show ?thesis using Cons.prems(2) [of "[]" x xs] by simp
  qed
qed

lemma execution_only [simp]: "state_for (set_execution f r) = state_for r"
  by (simp add: run_frame)

text \<open>The gate: it needs the risk report; it opens it or blocks it.\<close>

definition cleared :: "run \<Rightarrow> bool" where
  "cleared r \<longleftrightarrow> (case find_artifact r ''risk_report'' of
     Inr a \<Rightarrow> says_true a ''passed'' \<and> (campaign_type (run_brief r) = ''political'' \<longrightarrow> says_true a ''publication_eligible'')
   | Inl e \<Rightarrow> False)"

lemma await_cases:
  obtains (idle) "run_status (wk_run w) = AwaitingGreenlight" "await_greenlight env w = (w, Inr ())"
  | (missing) e where "find_artifact (wk_run w) ''risk_report'' = Inl e" "run_status (wk_run w) \<noteq> AwaitingGreenlight"
      "await_greenlight env w = (w, Inl e)"
  | (opened) a d t ac st' dt f where "find_artifact (wk_run w) ''risk_report'' = Inr a" "run_status (wk_run w) \<noteq> AwaitingGreenlight"
      "await_greenlight env w = (w\<lparr>wk_run := with_event t Publisher ac st' dt [] []
         (set_execution f ((with_agent Publisher (if cleared (wk_run w) then WaitingGreenlight else Attention) 0 d (wk_run w))
            \<lparr>run_status := AwaitingGreenlight\<rparr>)), wk_tick := Suc (wk_tick w)\<rparr>, Inr ())"
proof (cases "run_status (wk_run w) = AwaitingGreenlight")
  case True
  then show thesis using idle by (simp add: await_greenlight_def step_simps)
next
  case status: False
  show thesis
  proof (cases "find_artifact (wk_run w) ''risk_report''")
    case (Inl e)
    then show thesis using missing status by (simp add: await_greenlight_def step_simps)
  next
    case (Inr a)
    have c: "cleared (wk_run w) \<longleftrightarrow> \<not> (\<not> says_true a ''passed''
        \<or> campaign_type (run_brief (wk_run w)) = ''political'' \<and> \<not> says_true a ''publication_eligible'')"
      by (auto simp: cleared_def Inr)
    show thesis
    proof (cases "cleared (wk_run w)")
      case True
      then have "(\<not> says_true a ''passed''
        \<or> campaign_type (run_brief (wk_run w)) = ''political'' \<and> \<not> says_true a ''publication_eligible'') = False"
        using c by blast
      then show thesis
        by (intro opened [OF Inr status]) (simp only: await_greenlight_def the_run_bind status Inr sbind_pure Let_def True
            if_True if_False, simp add: step_simps)
    next
      case False
      then have "(\<not> says_true a ''passed''
        \<or> campaign_type (run_brief (wk_run w)) = ''political'' \<and> \<not> says_true a ''publication_eligible'') = True"
        using c by blast
      then show thesis
        by (intro opened [OF Inr status]) (simp only: await_greenlight_def the_run_bind status Inr sbind_pure Let_def False
            if_True if_False, simp add: step_simps)
    qed
  qed
qed

end
