(* ===== verification/Pipeline.thy ===== *)
theory Pipeline
  imports OrchestratorSteps
begin

text \<open>
  The abstract pipeline of a run (status, station states, produced kinds, cleared risk gate,
  Greenlight state) as a step relation, and the refinement: every operation of the orchestrator, on
  every branch and also when it raises, is a sequence of pipeline steps.
\<close>

section \<open>The abstract pipeline\<close>

text \<open>What a run promises, without payloads, times and texts: the status, the stations' states, the kinds
  of the artifacts in order, the verdict of the risk report and the decision with its activity.\<close>

record pipeline =
  pl_status :: run_status
  pl_agents :: "agent_role \<Rightarrow> agent_status"
  pl_kinds :: "string list"
  pl_cleared :: bool
  pl_green :: "(decision \<times> bool) option"

inductive pipeline_step :: "pipeline \<Rightarrow> pipeline \<Rightarrow> bool" where
  opened: "pl_status p = Queued \<Longrightarrow> pipeline_step p (p\<lparr>pl_status := Running\<rparr>)"
| begun: "pl_status p = Running \<Longrightarrow> EXECUTABLE = pre @ role # rest \<Longrightarrow> \<forall>x \<in> set pre. pl_agents p x = Ready
    \<Longrightarrow> pl_agents p role = Standby \<Longrightarrow> pipeline_step p (p\<lparr>pl_agents := (pl_agents p)(role := Processing)\<rparr>)"
| finished: "pl_status p = Running \<Longrightarrow> EXECUTABLE = pre @ role # rest \<Longrightarrow> \<forall>x \<in> set pre. pl_agents p x = Ready
    \<Longrightarrow> pl_agents p role = Processing \<Longrightarrow> (role \<noteq> Risk \<Longrightarrow> c = pl_cleared p)
    \<Longrightarrow> pipeline_step p (p\<lparr>pl_agents := (pl_agents p)(role := Ready), pl_kinds := pl_kinds p @ [station_kind role],
          pl_cleared := c\<rparr>)"
| gated: "pl_status p = Running \<Longrightarrow> \<forall>x \<in> set EXECUTABLE. pl_agents p x = Ready
    \<Longrightarrow> pipeline_step p (p\<lparr>pl_status := AwaitingGreenlight,
          pl_agents := (pl_agents p)(Publisher := if pl_cleared p then WaitingGreenlight else Attention)\<rparr>)"
| recorded: "pl_status p = AwaitingGreenlight \<Longrightarrow> pl_cleared p
    \<Longrightarrow> pipeline_step p (p\<lparr>pl_kinds := pl_kinds p @ [''political_compliance_record'']\<rparr>)"
| rejected: "pl_status p = AwaitingGreenlight \<Longrightarrow> pl_cleared p
    \<Longrightarrow> pipeline_step p (p\<lparr>pl_status := RunRejected, pl_agents := (pl_agents p)(Publisher := Blocked),
          pl_green := Some (Rejected, True)\<rparr>)"
| approved: "pl_status p = AwaitingGreenlight \<Longrightarrow> pl_cleared p
    \<Longrightarrow> pipeline_step p (p\<lparr>pl_status := Completed, pl_agents := (pl_agents p)(Publisher := Ready),
          pl_kinds := pl_kinds p @ [''campaign_package''], pl_green := Some (Approved, True)\<rparr>)"
| revoked: "pl_status p = Completed \<Longrightarrow> pl_green p = Some (Approved, True)
    \<Longrightarrow> pipeline_step p (p\<lparr>pl_status := Revoked, pl_agents := (pl_agents p)(Publisher := Blocked),
          pl_green := Some (Approved, False)\<rparr>)"

inductive_cases pipeline_stepE: "pipeline_step p q"

definition pipeline_of :: "run \<Rightarrow> pipeline" where
  "pipeline_of r = \<lparr>pl_status = run_status r, pl_agents = (\<lambda>x. as_status (state_for r x)),
     pl_kinds = map art_kind (artifacts r), pl_cleared = cleared r,
     pl_green = map_option (\<lambda>g. (gl_decision g, gl_revoked_at g = None)) (run_greenlight r)\<rparr>"

section \<open>Frames of the abstraction\<close>

lemma find_artifact_other:
  "art_kind a \<noteq> kind \<Longrightarrow> artifacts r' = artifacts r @ [a] \<Longrightarrow> find_artifact r' kind = find_artifact r kind"
  by (simp add: find_artifact_def)

lemma find_artifact_new:
  "art_kind a = kind \<Longrightarrow> artifacts r' = artifacts r @ [a] \<Longrightarrow> find_artifact r' kind = Inr a"
  by (simp add: find_artifact_def)

lemma cleared_same: "artifacts r' = artifacts r \<Longrightarrow> run_brief r' = run_brief r \<Longrightarrow> cleared r' = cleared r"
  by (simp add: cleared_def find_artifact_def split: option.splits)

lemma cleared_other:
  "art_kind a \<noteq> ''risk_report'' \<Longrightarrow> artifacts r' = artifacts r @ [a] \<Longrightarrow> run_brief r' = run_brief r
   \<Longrightarrow> cleared r' = cleared r"
  by (simp add: cleared_def find_artifact_other [of a "''risk_report''" r' r] split: sum.splits)

lemma station_artifact_kind [simp]: "art_kind (station_artifact rid ro k he pl ev) = k"
  by (simp add: station_artifact_def)

lemma cleared_frames [run_frame]:
  "cleared (with_agent ro st p d r) = cleared r" "cleared (with_event t ro ac s d ai ei r) = cleared r"
  "cleared (set_execution f r) = cleared r" "cleared (r\<lparr>run_status := rst\<rparr>) = cleared r"
  "cleared (r\<lparr>run_greenlight := g\<rparr>) = cleared r" "cleared (r\<lparr>completed_at := ca\<rparr>) = cleared r"
  by (rule cleared_same; simp add: run_frame)+

lemma station_done_cleared: "k \<noteq> ''risk_report'' \<Longrightarrow> cleared (station_done ro k he pl ev d t r) = cleared r"
  by (rule cleared_other [where a = "station_artifact (run_id r) ro k he pl ev"]) (simp_all add: run_frame)

lemma pipeline_of_eq: "pipeline_of r = pipeline_of r' \<longleftrightarrow> run_status r = run_status r'
    \<and> (\<forall>x. as_status (state_for r x) = as_status (state_for r' x)) \<and> map art_kind (artifacts r) = map art_kind (artifacts r')
    \<and> cleared r = cleared r' \<and> map_option (\<lambda>g. (gl_decision g, gl_revoked_at g = None)) (run_greenlight r)
      = map_option (\<lambda>g. (gl_decision g, gl_revoked_at g = None)) (run_greenlight r')"
  by (auto simp: pipeline_of_def fun_eq_iff)

lemma pipeline_frames [run_frame]:
  "pipeline_of (with_event t ro ac s d ai ei r) = pipeline_of r" "pipeline_of (set_execution f r) = pipeline_of r"
  "pipeline_of (r\<lparr>completed_at := ca\<rparr>) = pipeline_of r"
  by (simp_all add: pipeline_of_def run_frame, simp_all add: state_for_def)

lemma pipeline_agent [run_frame]:
  "pipeline_of (with_agent ro st p d r) = (pipeline_of r)\<lparr>pl_agents := (pl_agents (pipeline_of r))(ro := st)\<rparr>"
  by (auto simp: pipeline_of_def run_frame fun_eq_iff)

lemma pipeline_status [run_frame]: "pipeline_of (r\<lparr>run_status := st\<rparr>) = (pipeline_of r)\<lparr>pl_status := st\<rparr>"
  by (simp add: pipeline_of_def run_frame state_for_def)

lemma pipeline_green [run_frame]: "pipeline_of (r\<lparr>run_greenlight := g\<rparr>) = (pipeline_of r)\<lparr>pl_green :=
    map_option (\<lambda>g. (gl_decision g, gl_revoked_at g = None)) g\<rparr>"
  by (simp add: pipeline_of_def run_frame state_for_def)

lemma pipeline_order:
  "p\<lparr>pl_agents := a, pl_status := s\<rparr> = p\<lparr>pl_status := s, pl_agents := a\<rparr>"
  by simp

lemma pipeline_station_done: "pipeline_of (station_done ro k he pl ev d t r) =
   (pipeline_of r)\<lparr>pl_agents := (pl_agents (pipeline_of r))(ro := Ready), pl_kinds := pl_kinds (pipeline_of r) @ [k],
      pl_cleared := cleared (station_done ro k he pl ev d t r)\<rparr>"
  by (auto simp: pipeline_of_def run_frame fun_eq_iff)

lemma pipeline_fields [simp]:
  "pl_status (pipeline_of r) = run_status r" "pl_agents (pipeline_of r) x = as_status (state_for r x)"
  "pl_kinds (pipeline_of r) = map art_kind (artifacts r)" "pl_cleared (pipeline_of r) = cleared r"
  "pl_green (pipeline_of r) = map_option (\<lambda>g. (gl_decision g, gl_revoked_at g = None)) (run_greenlight r)"
  by (simp_all add: pipeline_of_def)

section \<open>Advancing refines the pipeline\<close>

abbreviation pipeline_steps :: "pipeline \<Rightarrow> pipeline \<Rightarrow> bool" where
  "pipeline_steps \<equiv> pipeline_step\<^sup>*\<^sup>*"

lemma executable_not_publisher: "EXECUTABLE = pre @ role # rest \<Longrightarrow> role \<noteq> Publisher"
proof
  assume "EXECUTABLE = pre @ role # rest" "role = Publisher"
  then have "Publisher \<in> set EXECUTABLE" by (metis in_set_conv_decomp)
  then show False by (simp add: EXECUTABLE_def AGENT_SEQUENCE_def)
qed

lemma executable_set: "set EXECUTABLE = UNIV - {Publisher}"
  using agent_sequence_all by (auto simp: EXECUTABLE_def AGENT_SEQUENCE_def)

lemma await_refines:
  assumes "run_status (wk_run w) = Running \<or> run_status (wk_run w) = AwaitingGreenlight"
    and "\<forall>x \<in> set EXECUTABLE. as_status (state_for (wk_run w) x) = Ready"
  shows "pipeline_steps (pipeline_of (wk_run w)) (pipeline_of (wk_run (fst (await_greenlight env w))))"
proof (cases rule: await_cases [of w env])
  case (opened a d t ac st' dt f)
  have "pipeline_step (pipeline_of (wk_run w)) (pipeline_of (wk_run (fst (await_greenlight env w))))"
    using pipeline_step.gated [of "pipeline_of (wk_run w)"] assms opened(2)
    by (cases "cleared (wk_run w)") (simp_all add: opened(3) run_frame pipeline_order)
  then show ?thesis by blast
qed simp_all

lemma station_refines:
  assumes run: "run_status (wk_run w) = Running" and ex: "EXECUTABLE = pre @ role # rest"
    and pre: "\<forall>x \<in> set pre. as_status (state_for (wk_run w) x) = Ready"
    and busy: "as_status (state_for (wk_run w) role) = Processing"
    and out: "execute_role env role w = (w1, res)"
  shows "pipeline_steps (pipeline_of (wk_run w)) (pipeline_of (wk_run w1)) \<and> run_status (wk_run w1) = Running
    \<and> (res = Inr () \<longrightarrow> as_status (state_for (wk_run w1) role) = Ready \<and>
        (\<forall>x. x \<noteq> role \<longrightarrow> as_status (state_for (wk_run w1) x) = as_status (state_for (wk_run w) x)))"
  using execute_role_outcome [OF executable_not_publisher [OF ex], of w env] unfolding station_outcome_def
proof (elim disjE exE conjE)
  fix e assume "wk_run (fst (execute_role env role w)) = wk_run w" "snd (execute_role env role w) = Inl e"
  then show ?thesis using run out by simp
next
  fix he pl ev d t
  assume "wk_run (fst (execute_role env role w)) = station_done role (station_kind role) he pl ev d t (wk_run w)"
  then have w1: "wk_run w1 = station_done role (station_kind role) he pl ev d t (wk_run w)" using out by simp
  have "role \<noteq> Risk \<Longrightarrow> station_kind role \<noteq> ''risk_report''"
    using station_kind_inj [of role Risk] by simp
  then have "pipeline_step (pipeline_of (wk_run w)) (pipeline_of (wk_run w1))"
    unfolding w1 pipeline_station_done
    using pipeline_step.finished [of "pipeline_of (wk_run w)" pre role rest
        "cleared (station_done role (station_kind role) he pl ev d t (wk_run w))"] run ex pre busy
    by (simp add: station_done_cleared)
  then show ?thesis using w1 run by (auto simp: run_frame)
qed

lemma advance_stations_refines:
  assumes run: "run_status (wk_run w) = Running"
  shows "pipeline_steps (pipeline_of (wk_run w)) (pipeline_of (wk_run (fst (advance_stations env EXECUTABLE w))))"
proof (cases rule: advance_stations_cases [of EXECUTABLE w env])
  case gate
  then show ?thesis using await_refines [of w env] run by simp
next
  case (station pre role rest)
  let ?w = "w\<lparr>wk_run := set_execution (\<lambda>x. x\<lparr>ex_next_station := role_value role\<rparr>) (wk_run w)\<rparr>"
  have same: "pipeline_of (wk_run ?w) = pipeline_of (wk_run w)" by (simp add: run_frame)
  consider "as_status (state_for (wk_run w) role) = Standby" | "as_status (state_for (wk_run w) role) = Processing"
    | "as_status (state_for (wk_run w) role) \<notin> {Ready, Standby, Processing}" using station(3) by blast
  then show ?thesis
  proof cases
    case 1
    have "pipeline_step (pipeline_of (wk_run w)) ((pipeline_of (wk_run w))\<lparr>pl_agents := (pl_agents (pipeline_of (wk_run w)))(role := Processing)\<rparr>)"
      using pipeline_step.begun [of "pipeline_of (wk_run w)" pre role rest] run station 1 by simp
    then show ?thesis using station(4) 1 by (simp add: step_simps begin_agent_eq run_frame)
  next
    case 2
    obtain w1 res where out: "execute_role env role ?w = (w1, res)" by (cases "execute_role env role ?w")
    have st: "pipeline_steps (pipeline_of (wk_run w)) (pipeline_of (wk_run w1))" "run_status (wk_run w1) = Running"
      "res = Inr () \<Longrightarrow> as_status (state_for (wk_run w1) role) = Ready"
      "\<And>x. res = Inr () \<Longrightarrow> x \<noteq> role \<Longrightarrow> as_status (state_for (wk_run w1) x) = as_status (state_for (wk_run w) x)"
      using station_refines [of ?w pre role rest env w1 res] run station(1,2) 2 out by (auto simp: run_frame)
    show ?thesis
    proof (cases res)
      case (Inl e)
      then have "advance_stations env EXECUTABLE w = (w1, Inl e)"
        using station(4) 2 out by (simp add: step_simps sthen_def sbind_def)
      then show ?thesis using st(1) by simp
    next
      case (Inr u)
      let ?w2 = "w1\<lparr>wk_run := set_execution (\<lambda>x. x\<lparr>ex_next_station := role_value (next_station rest)\<rparr>) (wk_run w1)\<rparr>"
      have eq: "advance_stations env EXECUTABLE w = (if role = Risk then await_greenlight env else sret ()) ?w2"
        using station(4) 2 out Inr by (simp add: step_simps sthen_def [of "execute_role env role"] sbind_def)
      show ?thesis
      proof (cases "role = Risk")
        case True
        have pre: "set pre = set EXECUTABLE - {Risk}"
          using station(1) True by (auto simp: EXECUTABLE_def AGENT_SEQUENCE_def Cons_eq_append_conv)
        have "\<forall>x \<in> set EXECUTABLE. as_status (state_for (wk_run ?w2) x) = Ready"
        proof
          fix x assume "x \<in> set EXECUTABLE"
          then show "as_status (state_for (wk_run ?w2) x) = Ready"
            using st(3,4) Inr True station(2) pre
            by (cases "x = Risk") (simp_all add: run_frame)
        qed
        then have "pipeline_steps (pipeline_of (wk_run ?w2)) (pipeline_of (wk_run (fst (await_greenlight env ?w2))))"
          using await_refines [of ?w2 env] st(2) by (simp add: run_frame)
        then show ?thesis using st(1) True eq by (simp add: run_frame)
      next
        case False
        then show ?thesis using st(1) eq by (simp add: step_simps run_frame)
      qed
    qed
  qed (use station(4) in \<open>simp add: step_simps run_frame\<close>)
qed

lemma advance_work_refines:
  "pipeline_steps (pipeline_of (wk_run w)) (pipeline_of (wk_run (fst (advance_work env w))))"
proof -
  consider "run_status (wk_run w) = Queued" | "run_status (wk_run w) = Running"
    | "run_status (wk_run w) \<notin> {Queued, Running}" by blast
  then show ?thesis
  proof cases
    case 1
    let ?w = "w\<lparr>wk_run := set_execution (\<lambda>x. x\<lparr>ex_state := ''running''\<rparr>) ((wk_run w)\<lparr>run_status := Running\<rparr>)\<rparr>"
    have eq: "advance_work env w = advance_stations env EXECUTABLE ?w"
      using 1 by (simp add: advance_work_def step_simps sthen_def sbind_def) (simp add: run_frame)
    have "pipeline_step (pipeline_of (wk_run w)) (pipeline_of (wk_run ?w))"
      using pipeline_step.opened [of "pipeline_of (wk_run w)"] 1 by (simp add: run_frame)
    then show ?thesis unfolding eq using advance_stations_refines [of ?w env]
      by (simp add: run_frame converse_rtranclp_into_rtranclp)
  next
    case 2
    then have "advance_work env w = advance_stations env EXECUTABLE w"
      by (simp add: advance_work_def step_simps sthen_def sbind_def)
    then show ?thesis using advance_stations_refines [OF 2] by simp
  next
    case 3
    then have "advance_work env w = (w, Inr ())"
      by (simp add: advance_work_def step_simps sthen_def sbind_def)
    then show ?thesis by simp
  qed
qed

section \<open>The decision, case by case\<close>

lemma sthen_assoc_run [step_simps]: "sthen (sret ()) n w = n w"
  by (simp add: sthen_def sbind_def step_simps)

definition packaged :: "run \<Rightarrow> campaign_package tool_response" where
  "packaged r = package_campaign (run_id r) (platforms (run_brief r)) (artifacts r)"

text \<open>The run after the Publisher's work, up to clock readings.\<close>

definition published :: "string \<Rightarrow> string \<Rightarrow> string \<Rightarrow> run \<Rightarrow> run" where
  "published t1 t2 t3 r =
     (let r1 = with_event t1 Publisher ''greenlight_approved'' (agent_status_value Processing)
            ''Approval recorded locally; publication remains disabled.'' [] []
            (with_agent Publisher Processing 50 ''Greenlight recorded; creating local sandbox manifest.'' r)
      in (set_execution (\<lambda>x. x\<lparr>ex_state := ''completed'', ex_next_station := role_value Publisher\<rparr>)
           ((station_done Publisher ''campaign_package'' ''Sandbox campaign manifest''
              (prim_object (campaign_package_json (tr_result (packaged r)))) [tr_evidence (packaged r)]
              ''Manifest packaged locally; external publication was not performed.'' t2 r1)\<lparr>run_status := Completed\<rparr>))
         \<lparr>completed_at := Some t3\<rparr>)"

lemma publish_package_run: "\<exists>t1 t2 t3. wk_run (fst (publish_package env g w)) = published t1 t2 t3 (wk_run w)"
proof -
  have p: "package_campaign (run_id (with_event t ro ac s d ai ei (with_agent ro' st pr dt r)))
      (platforms (run_brief (with_event t ro ac s d ai ei (with_agent ro' st pr dt r))))
      (artifacts (with_event t ro ac s d ai ei (with_agent ro' st pr dt r))) = packaged r" for t ro ac s d ai ei ro' st pr dt r
    by (simp add: packaged_def run_frame)
  show ?thesis
    by (intro exI) (simp add: publish_package_def Let_def step_simps complete_agent_bind remember_run p published_def)
qed

definition rejected_run :: "string \<Rightarrow> string \<Rightarrow> run \<Rightarrow> run" where
  "rejected_run decided_at t r =
     with_event t Publisher ''greenlight_rejected'' (agent_status_value Blocked)
       ''Reviewer rejected release. No packaging or publication occurred.'' [] []
       (with_agent Publisher Blocked 0 ''Greenlight rejected; sandbox package was not created.''
         ((set_execution (\<lambda>x. x\<lparr>ex_state := ''completed''\<rparr>) (r\<lparr>run_status := RunRejected\<rparr>))\<lparr>completed_at := Some decided_at\<rparr>))"

lemma reject_run_eq: "reject_run env t w =
   (w\<lparr>wk_run := rejected_run t (oe_clock env (wk_tick w)) (wk_run w), wk_tick := Suc (wk_tick w)\<rparr>, Inr ())"
  by (simp add: reject_run_def step_simps rejected_run_def)

text \<open>The artifacts a decision binds: those of the run, with the compliance record before a political approval.\<close>

inductive decides_on :: "run \<Rightarrow> string \<Rightarrow> decision \<Rightarrow> run \<Rightarrow> bool" for r reviewer d where
  plain: "d = Rejected \<or> campaign_type (run_brief r) \<noteq> ''political'' \<Longrightarrow> decides_on r reviewer d r"
| compliance: "d = Approved \<Longrightarrow> campaign_type (run_brief r) = ''political''
    \<Longrightarrow> compliance_payload (run_brief r) (strip reviewer) = Inr payload
    \<Longrightarrow> art_kind a = ''political_compliance_record'' \<Longrightarrow> art_payload a = payload \<Longrightarrow> created_by a = Risk
    \<Longrightarrow> decides_on r reviewer d (add_artifact r a)"

inductive_cases decides_onE: "decides_on r reviewer d r'"

lemma decides_on_frame: "decides_on r reviewer d r' \<Longrightarrow> run_id r' = run_id r \<and> run_brief r' = run_brief r
    \<and> run_status r' = run_status r \<and> trace r' = trace r \<and> run_greenlight r' = run_greenlight r \<and> cleared r' = cleared r"
  by (erule decides_onE) (auto simp: run_frame intro!: cleared_other [OF _ add_artifact_frame(4)])

lemma check_decision_Inr:
  assumes "check_decision r reviewer d = Inr u"
  shows "run_status r = AwaitingGreenlight" and "cleared r" and "strip reviewer \<noteq> []"
    and "d = Approved \<Longrightarrow> campaign_type (run_brief r) = ''political'' \<Longrightarrow> strip (legal_reviewed_by (run_brief r)) \<noteq> strip reviewer"
  using assms by (auto simp: check_decision_def rbind_Inr_iff cleared_def split: if_splits)

lemma decide_work_cases:
  assumes "decide_work env reviewer d note w = (w', res)"
  obtains (refused) e where "res = Inl e" "wk_run w' = wk_run w"
  | (broken) e r1 where "res = Inl e" "check_decision (wk_run w) reviewer d = Inr ()" "decides_on (wk_run w) reviewer d r1" "wk_run w' = r1"
  | (rejected) r1 t t2 where "d = Rejected" "check_decision (wk_run w) reviewer d = Inr ()" "decides_on (wk_run w) reviewer d r1"
      "check_greenlight (make_greenlight r1 d reviewer note t) = Inr ()" "res = Inr ()"
      "wk_run w' = rejected_run t t2 (r1\<lparr>run_greenlight := Some (make_greenlight r1 d reviewer note t)\<rparr>)"
  | (approved) r1 t t1 t2 t3 where "d = Approved" "check_decision (wk_run w) reviewer d = Inr ()" "decides_on (wk_run w) reviewer d r1"
      "check_greenlight (make_greenlight r1 d reviewer note t) = Inr ()"
      "wk_run w' = published t1 t2 t3 (r1\<lparr>run_greenlight := Some (make_greenlight r1 d reviewer note t)\<rparr>)"
proof (cases "check_decision (wk_run w) reviewer d")
  case (Inl e)
  then show thesis using refused [of e] assms by (simp add: decide_work_def step_simps)
next
  case (Inr u)
  then have Inr': "check_decision (wk_run w) reviewer d = Inr ()" by simp
  let ?t = "oe_clock env (wk_tick w)" and ?w = "w\<lparr>wk_tick := Suc (wk_tick w)\<rparr>"
  let ?pre = "if d = Approved \<and> campaign_type (run_brief (wk_run w)) = ''political''
            then compliance_record env (strip reviewer) else sret ()"
  let ?rest = "sbind the_run (\<lambda>r'. let g = make_greenlight r' d reviewer note ?t in
     sbind (slift (check_greenlight g)) (\<lambda>_.
     sthen (change_run (\<lambda>r. r\<lparr>run_greenlight := Some g\<rparr>))
       (if d = Rejected then reject_run env ?t else publish_package env g)))"
  have eq: "sthen ?pre ?rest ?w = (w', res)" using assms Inr by (simp add: decide_work_def step_simps)
  have tail: thesis if w1: "sthen ?pre ?rest ?w = ?rest w1" and on: "decides_on (wk_run w) reviewer d (wk_run w1)" for w1
  proof (cases "check_greenlight (make_greenlight (wk_run w1) d reviewer note ?t)")
    case (Inl e)
    then show thesis using broken [of e "wk_run w1"] eq w1 Inr on by (simp add: step_simps Let_def)
  next
    case (Inr u')
    then have ok: "check_greenlight (make_greenlight (wk_run w1) d reviewer note ?t) = Inr ()" by simp
    let ?g = "make_greenlight (wk_run w1) d reviewer note ?t"
    let ?w2 = "w1\<lparr>wk_run := (wk_run w1)\<lparr>run_greenlight := Some ?g\<rparr>\<rparr>"
    have fin: "(if d = Rejected then reject_run env ?t else publish_package env ?g) ?w2 = (w', res)"
      using eq w1 ok by (simp add: step_simps Let_def)
    show thesis
    proof (cases "d = Rejected")
      case True
      have "reject_run env ?t ?w2 = (w', res)" using fin by (simp only: True simp_thms if_True)
      then have "w' = ?w2\<lparr>wk_run := rejected_run ?t (oe_clock env (wk_tick ?w2)) (wk_run ?w2), wk_tick := Suc (wk_tick ?w2)\<rparr>"
        and "res = Inr ()"
        unfolding reject_run_eq by simp_all
      then show thesis
        by (intro rejected [OF True Inr' on ok, of "oe_clock env (wk_tick ?w2)"]) simp_all
    next
      case False
      then have d: "d = Approved" by (cases d) simp_all
      have "publish_package env ?g ?w2 = (w', res)" using fin False by (simp only: if_False)
      then obtain t1 t2 t3 where "wk_run w' = published t1 t2 t3 (wk_run ?w2)"
        using publish_package_run [of env ?g ?w2] by (metis fst_conv)
      then show thesis by (intro approved [OF d Inr' on ok, of t1 t2 t3]) simp
    qed
  qed
  show thesis
  proof (cases "d = Approved \<and> campaign_type (run_brief (wk_run w)) = ''political''")
    case True
    show thesis
    proof (cases "compliance_payload (run_brief (wk_run w)) (strip reviewer)")
      case (Inl e)
      have "sthen ?pre ?rest ?w = (?w, Inl e)"
        using True Inl by (intro sthen_Inl) (simp add: compliance_record_def step_simps)
      then show thesis using refused [of e] eq by simp
    next
      case (Inr payload)
      let ?a = "\<lparr>artifact_id = stable_id ''political-compliance-record'' [JStr (run_id (wk_run w)), JObj payload] 48,
          art_kind = ''political_compliance_record'', art_title = ''Political compliance approval record'',
          created_by = Risk, art_payload = payload, art_evidence_ids = []\<rparr>"
      have "sthen ?pre ?rest ?w = ?rest (?w\<lparr>wk_run := add_artifact (wk_run w) ?a\<rparr>)"
        using True Inr by (intro sthen_Inr) (simp add: compliance_record_def step_simps)
      moreover have "decides_on (wk_run w) reviewer d (add_artifact (wk_run w) ?a)"
        using True Inr by (intro decides_on.compliance) simp_all
      ultimately show thesis by (intro tail [of "?w\<lparr>wk_run := add_artifact (wk_run w) ?a\<rparr>"]) simp_all
    qed
  next
    case False
    then have "sthen ?pre ?rest ?w = ?rest ?w" by (auto simp: step_simps)
    moreover have "decides_on (wk_run w) reviewer d (wk_run w)" using False by (cases d) (auto intro: decides_on.plain)
    ultimately show thesis by (intro tail [of ?w]) simp_all
  qed
qed

section \<open>Decisions and revocations refine the pipeline\<close>

lemma plain_state [run_frame]:
  "state_for (r\<lparr>run_status := rst\<rparr>) = state_for r" "state_for (r\<lparr>run_greenlight := g\<rparr>) = state_for r"
  "state_for (r\<lparr>completed_at := ca\<rparr>) = state_for r"
  by (simp_all add: state_for_def fun_eq_iff)

lemma published_pipeline: "pipeline_of (published t1 t2 t3 r) =
   (pipeline_of r)\<lparr>pl_status := Completed, pl_agents := (pl_agents (pipeline_of r))(Publisher := Ready),
      pl_kinds := pl_kinds (pipeline_of r) @ [''campaign_package'']\<rparr>"
  by (auto simp: published_def Let_def run_frame pipeline_station_done station_done_cleared pipeline_of_def fun_eq_iff)

lemma rejected_pipeline: "pipeline_of (rejected_run t t2 r) =
   (pipeline_of r)\<lparr>pl_status := RunRejected, pl_agents := (pl_agents (pipeline_of r))(Publisher := Blocked)\<rparr>"
  by (simp add: rejected_run_def run_frame)

lemma make_greenlight_fields:
  "gl_decision (make_greenlight r d reviewer note t) = d" "gl_revoked_at (make_greenlight r d reviewer note t) = None"
  "gl_reviewer (make_greenlight r d reviewer note t) = strip reviewer"
  "approved_artifact_ids (make_greenlight r d reviewer note t) = map artifact_id (artifacts r)"
  "approved_artifact_hashes (make_greenlight r d reviewer note t) = map artifact_digest (artifacts r)"
  "authorized_channels (make_greenlight r d reviewer note t) = platforms (run_brief r)"
  "authorized_budget_cents (make_greenlight r d reviewer note t) = budget_cents (run_brief r)"
  "gl_fencing_token (make_greenlight r d reviewer note t) = 1" "gl_run_id (make_greenlight r d reviewer note t) = run_id r"
  by (simp_all add: make_greenlight_def Let_def)

lemma decides_on_refines:
  assumes "decides_on r reviewer d r'" and "run_status r = AwaitingGreenlight" and "cleared r"
  shows "pipeline_steps (pipeline_of r) (pipeline_of r')"
  using assms(1)
proof (cases rule: decides_on.cases)
  case (compliance payload a)
  have "pipeline_of (add_artifact r a) = (pipeline_of r)\<lparr>pl_kinds := pl_kinds (pipeline_of r) @ [''political_compliance_record'']\<rparr>"
    using decides_on_frame [OF assms(1)] compliance(1,5) by (simp add: pipeline_of_def run_frame)
  then show ?thesis
    using pipeline_step.recorded [of "pipeline_of r"] assms(2,3) compliance(1) by auto
qed simp

lemma decide_work_refines:
  "pipeline_steps (pipeline_of (wk_run w)) (pipeline_of (wk_run (fst (decide_work env reviewer d note w))))"
proof -
  obtain w' res where eq: "decide_work env reviewer d note w = (w', res)" by (cases "decide_work env reviewer d note w")
  show ?thesis using eq
  proof (cases rule: decide_work_cases)
    case (refused e)
    then show ?thesis using eq by simp
  next
    case (broken e r1)
    then show ?thesis using eq decides_on_refines [OF broken(3)] check_decision_Inr [OF broken(2)] by simp
  next
    case (rejected r1 t t2)
    have on: "pipeline_steps (pipeline_of (wk_run w)) (pipeline_of r1)"
      using decides_on_refines [OF rejected(3)] check_decision_Inr [OF rejected(2)] by simp
    have "pipeline_of (wk_run w') = (pipeline_of r1)\<lparr>pl_status := RunRejected,
        pl_agents := (pl_agents (pipeline_of r1))(Publisher := Blocked), pl_green := Some (Rejected, True)\<rparr>"
      using rejected(1) by (simp add: rejected(6) rejected_pipeline run_frame make_greenlight_fields fun_eq_iff)
    then have "pipeline_step (pipeline_of r1) (pipeline_of (wk_run w'))"
      using pipeline_step.rejected [of "pipeline_of r1"] decides_on_frame [OF rejected(3)] check_decision_Inr [OF rejected(2)]
      by simp
    then show ?thesis using on eq by (simp add: rtranclp.rtrancl_into_rtrancl)
  next
    case (approved r1 t t1 t2 t3)
    have on: "pipeline_steps (pipeline_of (wk_run w)) (pipeline_of r1)"
      using decides_on_refines [OF approved(3)] check_decision_Inr [OF approved(2)] by simp
    have "pipeline_of (wk_run w') = (pipeline_of r1)\<lparr>pl_status := Completed,
        pl_agents := (pl_agents (pipeline_of r1))(Publisher := Ready),
        pl_kinds := pl_kinds (pipeline_of r1) @ [''campaign_package''], pl_green := Some (Approved, True)\<rparr>"
      using approved(1) by (simp add: approved(5) published_pipeline run_frame make_greenlight_fields fun_eq_iff)
    then have "pipeline_step (pipeline_of r1) (pipeline_of (wk_run w'))"
      using pipeline_step.approved [of "pipeline_of r1"] decides_on_frame [OF approved(3)] check_decision_Inr [OF approved(2)]
      by simp
    then show ?thesis using on eq by (simp add: rtranclp.rtrancl_into_rtrancl)
  qed
qed

definition revoked_greenlight :: "greenlight \<Rightarrow> string \<Rightarrow> string \<Rightarrow> string \<Rightarrow> greenlight" where
  "revoked_greenlight g t reviewer reason = g\<lparr>gl_fencing_token := gl_fencing_token g + 1, gl_revoked_at := Some t,
         gl_revoked_by := strip reviewer, gl_revocation_reason := strip reason\<rparr>"

definition revoked_run :: "greenlight \<Rightarrow> string \<Rightarrow> run \<Rightarrow> run" where
  "revoked_run g t r = with_event t Publisher ''greenlight_revoked'' (agent_status_value Blocked)
     ''Approval revoked locally; publication remains disabled.'' [] []
     (with_agent Publisher Blocked 100 ''Greenlight revoked; all prior effect tokens are fenced.''
       (set_execution (\<lambda>x. x\<lparr>ex_state := ''completed''\<rparr>) (r\<lparr>run_greenlight := Some g, run_status := Revoked\<rparr>)))"

lemma revoke_work_cases:
  assumes "revoke_work env reviewer reason w = (w', res)"
  obtains (refused) e where "res = Inl e" "wk_run w' = wk_run w"
  | (revoked) g t t2 where "run_greenlight (wk_run w) = Some g" "run_status (wk_run w) = Completed" "greenlight_active g"
      "strip reviewer \<noteq> []" "strip reason \<noteq> []" "res = Inr ()"
      "wk_run w' = revoked_run (revoked_greenlight g t reviewer reason) t2 (wk_run w)"
proof (cases "run_greenlight (wk_run w)")
  case None
  then show thesis using refused [of "GreenlightError ''Greenlight is not active''"] assms by (simp add: revoke_work_def step_simps)
next
  case (Some g)
  let ?checks = "[(run_status (wk_run w) \<noteq> Completed \<or> \<not> greenlight_active g, GreenlightError ''Greenlight is not active''),
        (strip reviewer = [], GreenlightError ''reviewer must not be empty''),
        (strip reason = [], GreenlightError ''revocation reason must not be empty'')]"
  show thesis
  proof (cases "raise_first ?checks")
    case (Inl e)
    then show thesis using refused [of e] assms Some by (simp add: revoke_work_def step_simps del: raise_first.simps)
  next
    case (Inr u)
    have ok: "run_status (wk_run w) = Completed" "greenlight_active g" "strip reviewer \<noteq> []" "strip reason \<noteq> []"
      using Inr by (auto simp: raise_first_Inr simp del: raise_first.simps)
    let ?t = "oe_clock env (wk_tick w)"
    show thesis
    proof (cases "check_greenlight (revoked_greenlight g ?t reviewer reason)")
      case (Inl e)
      then show thesis using refused [of e] assms Some ok
        by (auto simp add: revoke_work_def step_simps revoked_greenlight_def)
    next
      case (Inr u)
      then show thesis using revoked [of g ?t "oe_clock env (Suc (wk_tick w))"] assms Some ok
        by (auto simp add: revoke_work_def step_simps revoked_greenlight_def revoked_run_def)
    qed
  qed
qed

lemma revoke_work_refines:
  "pipeline_steps (pipeline_of (wk_run w)) (pipeline_of (wk_run (fst (revoke_work env reviewer reason w))))"
proof -
  obtain w' res where eq: "revoke_work env reviewer reason w = (w', res)" by (cases "revoke_work env reviewer reason w")
  show ?thesis using eq
  proof (cases rule: revoke_work_cases)
    case (refused e)
    then show ?thesis using eq by simp
  next
    case (revoked g t t2)
    have "pipeline_of (wk_run w') = (pipeline_of (wk_run w))\<lparr>pl_status := Revoked,
        pl_agents := (pl_agents (pipeline_of (wk_run w)))(Publisher := Blocked), pl_green := Some (Approved, False)\<rparr>"
      using revoked(3) by (auto simp: revoked(7) revoked_run_def pipeline_of_def run_frame revoked_greenlight_def
          greenlight_active_def fun_eq_iff state_for_def with_agent_def set_state_def set_execution_def
          cleared_def find_artifact_def with_event_def split: option.splits)
    then have "pipeline_step (pipeline_of (wk_run w)) (pipeline_of (wk_run w'))"
      using pipeline_step.revoked [of "pipeline_of (wk_run w)"] revoked(1-3) by (simp add: greenlight_active_def)
    then show ?thesis using eq by auto
  qed
qed

section \<open>Commands\<close>

datatype command =
    Advance string
  | Approve string string string
  | Reject string string string
  | Revoke string string string

fun perform :: "orch_env \<Rightarrow> command \<Rightarrow> (orchestrator, run) step" where
  "perform env (Advance rid) = advance env rid"
| "perform env (Approve rid reviewer note) = approve env rid reviewer note"
| "perform env (Reject rid reviewer note) = reject env rid reviewer note"
| "perform env (Revoke rid reviewer reason) = revoke env rid reviewer reason"

fun target :: "command \<Rightarrow> string" where
  "target (Advance rid) = rid" | "target (Approve rid a b) = rid" | "target (Reject rid a b) = rid" | "target (Revoke rid a b) = rid"

lemma on_run_run:
  assumes "or_runs h rid = Some r"
  shows "\<exists>n m' r'. or_runs (fst (on_run rid m h)) = (or_runs h)(rid \<mapsto> r')
    \<and> r' = wk_run (fst (m \<lparr>wk_run = r, wk_tick = or_tick h, wk_memory = or_memory h\<rparr>))"
  using assms by (simp add: on_run_def split: prod.split)

lemma on_run_missing: "or_runs h rid = None \<Longrightarrow> fst (on_run rid m h) = h"
  by (simp add: on_run_def)

lemma perform_on_run:
  obtains m where "perform env c = on_run (target c) m"
    and "\<And>w. pipeline_steps (pipeline_of (wk_run w)) (pipeline_of (wk_run (fst (m w))))"
  using advance_work_refines decide_work_refines revoke_work_refines
  by (cases c) (simp_all add: advance_def approve_def reject_def revoke_def)

lemma perform_refines:
  assumes "or_runs h rid = Some r"
  shows "\<exists>r'. or_runs (fst (perform env c h)) rid = Some r' \<and> pipeline_steps (pipeline_of r) (pipeline_of r')
    \<and> (rid \<noteq> target c \<longrightarrow> r' = r)"
proof (rule perform_on_run [of env c])
  fix m assume p: "perform env c = on_run (target c) m"
    and ref: "\<And>w. pipeline_steps (pipeline_of (wk_run w)) (pipeline_of (wk_run (fst (m w))))"
  show ?thesis
  proof (cases "or_runs h (target c)")
    case None
    then show ?thesis using assms p on_run_missing [OF None, of m] by auto
  next
    case (Some r0)
    obtain r' where r': "or_runs (fst (on_run (target c) m h)) = (or_runs h)(target c \<mapsto> r')"
      "r' = wk_run (fst (m \<lparr>wk_run = r0, wk_tick = or_tick h, wk_memory = or_memory h\<rparr>))"
      using on_run_run [OF Some, of m] by auto
    have "pipeline_steps (pipeline_of r0) (pipeline_of r')"
      using ref [of "\<lparr>wk_run = r0, wk_tick = or_tick h, wk_memory = or_memory h\<rparr>"] r'(2) by simp
    then show ?thesis using assms p r'(1) Some by (cases "rid = target c") auto
  qed
qed

text \<open>C18: every command refines the abstract pipeline: whatever the clock, the memory and the reviewer's
  texts, and whether it returns or raises, the run it leaves is reached from the run it found by steps
  of the pipeline, and no other run is touched.\<close>

theorem orchestrator_refines:
  assumes "or_runs h rid = Some r"
  shows "\<exists>r'. or_runs (fst (perform env c h)) rid = Some r' \<and> pipeline_steps (pipeline_of r) (pipeline_of r')
    \<and> (rid \<noteq> target c \<longrightarrow> r' = r)"
  using perform_refines [OF assms] .

end
