(* ===== verification/OrchestratorLaws.thy ===== *)
theory OrchestratorLaws
  imports Pipeline
begin

text \<open>
  What the orchestrator promises: the Greenlight boundary, the order of the stations, what an
  approval and a revocation bind, that no command rewrites a run's history, and that \<open>start\<close>
  returns.
\<close>

section \<open>Invariants of the pipeline\<close>

definition fresh_pipeline :: "run_status \<Rightarrow> pipeline" where
  "fresh_pipeline st = \<lparr>pl_status = st, pl_agents = (\<lambda>_. Standby), pl_kinds = [], pl_cleared = False, pl_green = None\<rparr>"

text \<open>The stations work in order: a prefix is ready, at most the next one works, and the artifacts are
  those of the prefix, in order.\<close>

definition stations_in_order :: "pipeline \<Rightarrow> bool" where
  "stations_in_order p \<longleftrightarrow> (\<exists>n \<le> length EXECUTABLE.
     (\<forall>i < length EXECUTABLE. pl_agents p (EXECUTABLE ! i) =
        (if i < n then Ready else if i = n then pl_agents p (EXECUTABLE ! n) else Standby))
     \<and> (n < length EXECUTABLE \<longrightarrow> pl_agents p (EXECUTABLE ! n) \<in> {Standby, Processing})
     \<and> pl_kinds p = map station_kind (take n EXECUTABLE))"

definition gate_inv :: "pipeline \<Rightarrow> bool" where
  "gate_inv p \<longleftrightarrow> pl_status p \<noteq> Failed
   \<and> (pl_status p \<in> {Queued, Running} \<longrightarrow> stations_in_order p \<and> pl_green p = None)
   \<and> (pl_status p \<notin> {Queued, Running} \<longrightarrow> (\<forall>x \<in> set EXECUTABLE. pl_agents p x = Ready)
        \<and> (\<exists>k. pl_kinds p = map station_kind EXECUTABLE @ replicate k ''political_compliance_record''
             @ (if pl_status p \<in> {Completed, Revoked} then [''campaign_package''] else [])))
   \<and> (pl_status p = AwaitingGreenlight \<longrightarrow> pl_green p = None)
   \<and> (pl_status p \<in> {RunRejected, Completed, Revoked} \<longrightarrow> pl_cleared p)
   \<and> (pl_status p = RunRejected \<longrightarrow> pl_green p = Some (Rejected, True))
   \<and> (pl_status p = Completed \<longrightarrow> pl_green p = Some (Approved, True))
   \<and> (pl_status p = Revoked \<longrightarrow> pl_green p = Some (Approved, False))"

lemma executable_length [simp]: "length EXECUTABLE = 7"
  by (simp add: EXECUTABLE_def AGENT_SEQUENCE_def)

lemma executable_distinct: "distinct EXECUTABLE"
  by (simp add: EXECUTABLE_def AGENT_SEQUENCE_def)

lemma fresh_gate: "st \<in> {Queued, Running} \<Longrightarrow> gate_inv (fresh_pipeline st)"
  by (auto simp: gate_inv_def fresh_pipeline_def stations_in_order_def intro!: exI [of _ 0])

text \<open>The station after a ready prefix is the next one in order.\<close>

lemma next_in_order:
  assumes "stations_in_order p" and "EXECUTABLE = pre @ role # rest" and "\<forall>x \<in> set pre. pl_agents p x = Ready"
    and "pl_agents p role \<noteq> Ready"
  obtains "length pre < 7" "role = EXECUTABLE ! length pre"
    "\<forall>i < 7. pl_agents p (EXECUTABLE ! i) = (if i < length pre then Ready else if i = length pre then pl_agents p role else Standby)"
    "pl_kinds p = map station_kind (take (length pre) EXECUTABLE)"
proof -
  obtain n where n: "n \<le> 7" "\<forall>i < 7. pl_agents p (EXECUTABLE ! i) =
        (if i < n then Ready else if i = n then pl_agents p (EXECUTABLE ! n) else Standby)"
    "n < 7 \<longrightarrow> pl_agents p (EXECUTABLE ! n) \<in> {Standby, Processing}"
    "pl_kinds p = map station_kind (take n EXECUTABLE)"
    using assms(1) unfolding stations_in_order_def executable_length by blast
  have len: "length pre < 7" using arg_cong [OF assms(2), of length] by simp
  have role: "EXECUTABLE ! length pre = role" unfolding assms(2) by simp
  have pre: "\<And>i. i < length pre \<Longrightarrow> EXECUTABLE ! i \<in> set pre" unfolding assms(2) by (simp add: nth_append)
  have "n = length pre"
  proof (cases n "length pre" rule: linorder_cases)
    case less
    then have "pl_agents p (EXECUTABLE ! n) = Ready" using pre assms(3) by blast
    then show ?thesis using n(3) less len by auto
  next
    case greater
    then have "pl_agents p role = Ready" using n(2) len role by auto
    then show ?thesis using assms(4) by simp
  qed
  then show thesis using that len role n by simp
qed

lemma in_order_begun:
  assumes "stations_in_order p" and "EXECUTABLE = pre @ role # rest" and "\<forall>x \<in> set pre. pl_agents p x = Ready"
    and "pl_agents p role = Standby"
  shows "stations_in_order (p\<lparr>pl_agents := (pl_agents p)(role := Processing)\<rparr>)"
proof (rule next_in_order [OF assms(1-3)])
  show "pl_agents p role \<noteq> Ready" using assms(4) by simp
next
  assume a: "length pre < 7" "role = EXECUTABLE ! length pre"
    "\<forall>i < 7. pl_agents p (EXECUTABLE ! i) = (if i < length pre then Ready else if i = length pre then pl_agents p role else Standby)"
    "pl_kinds p = map station_kind (take (length pre) EXECUTABLE)"
  have "EXECUTABLE ! i = role \<longleftrightarrow> i = length pre" if "i < 7" for i
    using that a(1,2) executable_distinct by (simp add: nth_eq_iff_index_eq)
  then show ?thesis using a by (auto simp: stations_in_order_def intro!: exI [of _ "length pre"])
qed

lemma in_order_finished:
  assumes "stations_in_order p" and "EXECUTABLE = pre @ role # rest" and "\<forall>x \<in> set pre. pl_agents p x = Ready"
    and "pl_agents p role = Processing"
  shows "stations_in_order (p\<lparr>pl_agents := (pl_agents p)(role := Ready), pl_kinds := pl_kinds p @ [station_kind role], pl_cleared := c\<rparr>)"
proof (rule next_in_order [OF assms(1-3)])
  show "pl_agents p role \<noteq> Ready" using assms(4) by simp
next
  assume a: "length pre < 7" "role = EXECUTABLE ! length pre"
    "\<forall>i < 7. pl_agents p (EXECUTABLE ! i) = (if i < length pre then Ready else if i = length pre then pl_agents p role else Standby)"
    "pl_kinds p = map station_kind (take (length pre) EXECUTABLE)"
  have "EXECUTABLE ! i = role \<longleftrightarrow> i = length pre" if "i < 7" for i
    using that a(1,2) executable_distinct by (simp add: nth_eq_iff_index_eq)
  moreover have "map station_kind (take (Suc (length pre)) EXECUTABLE) = pl_kinds p @ [station_kind role]"
    using a(1,2,4) by (simp add: take_Suc_conv_app_nth)
  ultimately show ?thesis using a by (auto simp: stations_in_order_def intro!: exI [of _ "Suc (length pre)"])
qed

lemma in_order_all_ready:
  assumes "stations_in_order p" and "\<forall>x \<in> set EXECUTABLE. pl_agents p x = Ready"
  shows "pl_kinds p = map station_kind EXECUTABLE"
proof -
  obtain n where n: "n \<le> 7" "n < 7 \<longrightarrow> pl_agents p (EXECUTABLE ! n) \<in> {Standby, Processing}"
    "pl_kinds p = map station_kind (take n EXECUTABLE)"
    using assms(1) unfolding stations_in_order_def executable_length by blast
  have "\<not> n < 7" using n(2) assms(2) by auto
  then show ?thesis using n by simp
qed

lemma gate_step: "pipeline_step p q \<Longrightarrow> gate_inv p \<Longrightarrow> gate_inv q"
proof (induction rule: pipeline_step.induct)
  case (opened p)
  then show ?case by (auto simp: gate_inv_def stations_in_order_def)
next
  case (begun p pre role rest)
  then show ?case using in_order_begun [of p pre role rest] by (auto simp: gate_inv_def)
next
  case (finished p pre role rest c)
  then show ?case using in_order_finished [of p pre role rest c] by (auto simp: gate_inv_def)
next
  case (gated p)
  then have "pl_kinds p = map station_kind EXECUTABLE" using in_order_all_ready by (auto simp: gate_inv_def)
  then show ?case using gated executable_set by (auto simp: gate_inv_def intro!: exI [of _ 0])
next
  case (recorded p)
  then obtain k where "pl_kinds p = map station_kind EXECUTABLE @ replicate k ''political_compliance_record''"
    by (auto simp: gate_inv_def)
  then show ?case using recorded by (auto simp: gate_inv_def replicate_append_same intro!: exI [of _ "Suc k"])
next
  case (rejected p)
  then show ?case using executable_set by (auto simp: gate_inv_def)
next
  case (approved p)
  then show ?case using executable_set by (auto simp: gate_inv_def)
next
  case (revoked p)
  then show ?case using executable_set by (auto simp: gate_inv_def)
qed

lemma gate_steps: "pipeline_steps p q \<Longrightarrow> gate_inv p \<Longrightarrow> gate_inv q"
  by (induction rule: rtranclp_induct) (auto dest: gate_step)

section \<open>Reachable orchestrators\<close>

text \<open>From an empty one by creating runs, by commands, and by restoring a run another one reached.\<close>

inductive reachable :: "orchestrator \<Rightarrow> bool" where
  empty: "or_runs h = (\<lambda>_. None) \<Longrightarrow> reachable h"
| created: "reachable h \<Longrightarrow> reachable (fst (create_run env b asynchronous h))"
| commanded: "reachable h \<Longrightarrow> reachable (fst (perform env c h))"
| restored: "reachable h \<Longrightarrow> reachable k \<Longrightarrow> or_runs k rid = Some r \<Longrightarrow> reachable (fst (restore_run r h))"

lemma create_run_runs:
  "or_runs (fst (create_run env b asynchronous h)) rid = Some r \<Longrightarrow> or_runs h rid = Some r
    \<or> (rid = stable_id ''run'' [brief_json b] 16 \<and> or_runs h rid = None \<and> snd (create_run env b asynchronous h) = Inr r
       \<and> run_id r = rid \<and> run_brief r = b \<and> pipeline_of r = fresh_pipeline (if asynchronous then Queued else Running)
       \<and> trace r = [] \<and> artifacts r = [] \<and> agent_states r = new_agent_state)"
  by (auto simp: create_run_def Let_def pipeline_of_def fresh_pipeline_def cleared_def find_artifact_def state_for_def
      new_agent_state_def fun_eq_iff check_execution_def EXECUTION_STATES_def split: if_splits sum.splits)

lemma reachable_gate: "reachable h \<Longrightarrow> or_runs h rid = Some r \<Longrightarrow> gate_inv (pipeline_of r)"
proof (induction arbitrary: rid r rule: reachable.induct)
  case (created h env b asynchronous)
  then show ?case using create_run_runs [OF created.prems] fresh_gate by (auto split: if_splits)
next
  case (commanded h env c)
  show ?case
  proof (cases "or_runs h rid")
    case None
    have "or_runs (fst (perform env c h)) rid = None"
    proof (rule perform_on_run [of env c])
      fix m assume "perform env c = on_run (target c) m"
      then show ?thesis using None by (auto simp: on_run_def split: option.splits prod.splits)
    qed
    then show ?thesis using commanded.prems by simp
  next
    case (Some r0)
    then show ?thesis using perform_refines [OF Some, of env c] commanded gate_steps by fastforce
  qed
next
  case (restored h k rid' r')
  then show ?case by (auto simp: restore_run_def split: if_splits)
qed simp


section \<open>Properties of reachable runs\<close>

lemma gate_done:
  assumes "gate_inv p" and "pl_status p \<in> {Completed, Revoked}"
  shows "pl_cleared p" and "\<forall>x \<in> set EXECUTABLE. pl_agents p x = Ready"
    and "\<exists>b. pl_green p = Some (Approved, b)"
    and "\<exists>k. pl_kinds p = map station_kind EXECUTABLE @ replicate k ''political_compliance_record'' @ [''campaign_package'']"
proof -
  have n: "pl_status p \<notin> {Queued, Running}" using assms(2) by auto
  show "pl_cleared p" "\<forall>x \<in> set EXECUTABLE. pl_agents p x = Ready" "\<exists>b. pl_green p = Some (Approved, b)"
    using assms n unfolding gate_inv_def by blast+
  show "\<exists>k. pl_kinds p = map station_kind EXECUTABLE @ replicate k ''political_compliance_record'' @ [''campaign_package'']"
  proof -
    have i: "(if pl_status p \<in> {Completed, Revoked} then [''campaign_package''] else []) = [''campaign_package'']"
      using assms(2) by simp
    have "\<exists>k. pl_kinds p = map station_kind EXECUTABLE @ replicate k ''political_compliance_record''
        @ (if pl_status p \<in> {Completed, Revoked} then [''campaign_package''] else [])"
      using assms(1) n unfolding gate_inv_def by blast
    then show ?thesis unfolding i .
  qed
qed

lemma gate_before:
  assumes "gate_inv p" and "pl_status p \<notin> {Completed, Revoked}"
  obtains (working) n where "pl_kinds p = map station_kind (take n EXECUTABLE)"
  | (gated) k where "pl_kinds p = map station_kind EXECUTABLE @ replicate k ''political_compliance_record''"
proof (cases "pl_status p \<in> {Queued, Running}")
  case True
  then have "stations_in_order p" using assms(1) unfolding gate_inv_def by blast
  then show thesis using working unfolding stations_in_order_def by blast
next
  case False
  have i: "(if pl_status p \<in> {Completed, Revoked} then [''campaign_package''] else []) = []"
    using assms(2) by simp
  have "\<exists>k. pl_kinds p = map station_kind EXECUTABLE @ replicate k ''political_compliance_record''
      @ (if pl_status p \<in> {Completed, Revoked} then [''campaign_package''] else [])"
    using assms(1) False unfolding gate_inv_def by blast
  then show thesis using gated unfolding i by auto
qed

text \<open>C17: the approval boundary. In every reachable orchestrator, a run that holds a campaign package
  was approved: its Greenlight is an approval (possibly revoked since), its risk report passed (and
  is publication-eligible when political), every station before the Publisher is ready and the
  package is its last artifact.\<close>

theorem package_needs_greenlight:
  assumes "reachable h" and "or_runs h rid = Some r" and "a \<in> set (artifacts r)" and "art_kind a = ''campaign_package''"
  shows "\<exists>g. run_greenlight r = Some g \<and> gl_decision g = Approved \<and> run_status r \<in> {Completed, Revoked} \<and> cleared r
    \<and> (\<forall>x. x \<noteq> Publisher \<longrightarrow> as_status (state_for r x) = Ready) \<and> art_kind (last (artifacts r)) = ''campaign_package''"
proof -
  note inv = reachable_gate [OF assms(1,2)]
  have k: "''campaign_package'' \<in> set (pl_kinds (pipeline_of r))" using assms(3,4) by force
  have no: "''campaign_package'' \<notin> set (map station_kind xs)" if "set xs \<subseteq> set EXECUTABLE" for xs
    using that station_kind_inj [of Publisher] by (auto simp: executable_set)
  have st: "run_status r \<in> {Completed, Revoked}"
  proof (rule ccontr)
    assume "run_status r \<notin> {Completed, Revoked}"
    then have "pl_status (pipeline_of r) \<notin> {Completed, Revoked}" by simp
    with inv show False
    proof (cases rule: gate_before)
      case (working n)
      then show False using k no [of "take n EXECUTABLE"] set_take_subset [of n EXECUTABLE] by simp
    next
      case (gated j)
      then show False using k no [of EXECUTABLE] by auto
    qed
  qed
  then have "pl_status (pipeline_of r) \<in> {Completed, Revoked}" by simp
  note fin = gate_done [OF inv this]
  obtain j where j: "map art_kind (artifacts r) = (map station_kind EXECUTABLE @ replicate j ''political_compliance_record'')
      @ [''campaign_package'']" using fin(4) by auto
  have "last (map art_kind (artifacts r)) = ''campaign_package''" unfolding j by (rule last_snoc)
  moreover have "artifacts r \<noteq> []" using assms(3) by auto
  ultimately have "art_kind (last (artifacts r)) = ''campaign_package''" by (simp add: last_map)
  moreover have "cleared r" using fin(1) by simp
  moreover have "\<forall>x. x \<noteq> Publisher \<longrightarrow> as_status (state_for r x) = Ready" using fin(2) by (simp add: executable_set)
  moreover have "\<exists>g. run_greenlight r = Some g \<and> gl_decision g = Approved" using fin(3) by auto
  ultimately show ?thesis using st by blast
qed

text \<open>C29: the stations work strictly in order: while a run is queued or running, the ready stations are a
  prefix of the sequence, at most the next one works, the later ones are untouched, and the artifacts
  are exactly those of the prefix, one per station, in order; no decision exists yet.\<close>

theorem stations_work_in_order:
  assumes "reachable h" and "or_runs h rid = Some r" and "run_status r \<in> {Queued, Running}"
  shows "stations_in_order (pipeline_of r) \<and> run_greenlight r = None"
  using reachable_gate [OF assms(1,2)] assms(3) by (auto simp: gate_inv_def)

section \<open>What an approval binds\<close>

text \<open>C27: an approval that returns found the run awaiting Greenlight with a passed (and, when political,
  eligible) risk report and a reviewer who is not blank nor, when political, the legal reviewer. The
  Greenlight it stores is active, carries fence 1, the brief's channels and budget, and the ids and
  SHA-256 digests of exactly the artifacts the run had (with the compliance record first added to a
  political one); the package is the one artifact added after, and says nothing was published.\<close>

theorem approve_binds:
  assumes "or_runs h rid = Some r" and "approve env rid reviewer note h = (h', Inr r')"
  shows "\<exists>r1 g pkg. run_status r = AwaitingGreenlight \<and> cleared r \<and> strip reviewer \<noteq> []
    \<and> (campaign_type (run_brief r) = ''political'' \<longrightarrow> strip (legal_reviewed_by (run_brief r)) \<noteq> strip reviewer)
    \<and> decides_on r reviewer Approved r1 \<and> or_runs h' rid = Some r' \<and> run_status r' = Completed
    \<and> run_greenlight r' = Some g \<and> greenlight_active g \<and> gl_fencing_token g = 1 \<and> gl_reviewer g = strip reviewer
    \<and> approved_artifact_ids g = map artifact_id (artifacts r1)
    \<and> approved_artifact_hashes g = map artifact_digest (artifacts r1)
    \<and> authorized_channels g = platforms (run_brief r) \<and> authorized_budget_cents g = budget_cents (run_brief r)
    \<and> artifacts r' = artifacts r1 @ [pkg] \<and> created_by pkg = Publisher
    \<and> jget ''publication_performed'' (art_payload pkg) = Some (JBool False)"
proof -
  let ?w = "\<lparr>wk_run = r, wk_tick = or_tick h, wk_memory = or_memory h\<rparr>"
  obtain w' res where d: "decide_work env reviewer Approved note ?w = (w', res)" by (cases "decide_work env reviewer Approved note ?w")
  have res: "res = Inr ()" "r' = wk_run w'" "or_runs h' rid = Some r'"
    using assms d by (auto simp: approve_def on_run_def rbind_Inr_iff)
  show ?thesis using d
  proof (cases rule: decide_work_cases)
    case (approved r1 t t1 t2 t3)
    let ?g = "make_greenlight r1 Approved reviewer note t" and ?rg = "r1\<lparr>run_greenlight := Some (make_greenlight r1 Approved reviewer note t)\<rparr>"
    have r': "r' = published t1 t2 t3 ?rg" using approved(5) res(2) by simp
    have p: "jget ''publication_performed'' (prim_object (campaign_package_json (tr_result (packaged q)))) = Some (JBool False)" for q
      unfolding jget_prim_object by (simp add: campaign_package_json_def packaged_def package_campaign_def jget_def)
    have "artifacts r' = artifacts r1 @ [station_artifact (run_id r1) Publisher ''campaign_package'' ''Sandbox campaign manifest''
        (prim_object (campaign_package_json (tr_result (packaged ?rg)))) [tr_evidence (packaged ?rg)]]"
      "run_greenlight r' = Some ?g" "run_status r' = Completed"
      by (simp_all add: r' published_def Let_def run_frame)
    moreover have "run_brief r1 = run_brief r" using decides_on_frame [OF approved(3)] by simp
    moreover have "greenlight_active ?g" by (simp add: greenlight_active_def make_greenlight_fields)
    ultimately show ?thesis
      using check_decision_Inr [OF approved(2)] approved(3) res(3)
      by (intro exI [of _ r1] exI [of _ ?g]) (auto simp: make_greenlight_fields station_artifact_def p)
  qed (use res in auto)
qed


section \<open>Histories grow, runs stay well formed\<close>

definition run_ext :: "run \<Rightarrow> run \<Rightarrow> bool" where
  "run_ext r r' \<longleftrightarrow> run_id r' = run_id r \<and> run_brief r' = run_brief r \<and> started_at r' = started_at r
     \<and> (\<exists>ts. trace r' = trace r @ ts \<and> map te_sequence ts = [Suc (length (trace r))..<Suc (length (trace r'))])
     \<and> (\<exists>as. artifacts r' = artifacts r @ as) \<and> (\<exists>es. evidence r' = evidence r @ es)"

definition run_wf :: "run \<Rightarrow> bool" where
  "run_wf r \<longleftrightarrow> (\<forall>x. as_role (state_for r x) = x \<and> 0 \<le> as_progress (state_for r x) \<and> as_progress (state_for r x) \<le> 100
       \<and> as_artifact_ids (state_for r x) = map artifact_id (filter (\<lambda>a. created_by a = x) (artifacts r)))
     \<and> map te_sequence (trace r) = [1..<Suc (length (trace r))] \<and> distinct (map evidence_id (evidence r))"

lemma run_ext_refl [simp]: "run_ext r r"
  by (simp add: run_ext_def)

lemma run_ext_trans:
  assumes "run_ext a b" and "run_ext b c"
  shows "run_ext a c"
proof -
  obtain ts us where ts: "trace b = trace a @ ts" "map te_sequence ts = [Suc (length (trace a))..<Suc (length (trace b))]"
    and us: "trace c = trace b @ us" "map te_sequence us = [Suc (length (trace b))..<Suc (length (trace c))]"
    using assms by (auto simp: run_ext_def)
  have "trace c = trace a @ (ts @ us)" using ts(1) us(1) by simp
  moreover have "map te_sequence (ts @ us) = [Suc (length (trace a))..<Suc (length (trace c))]"
  proof -
    have "[Suc (length (trace a))..<Suc (length (trace b)) + length us]
        = [Suc (length (trace a))..<Suc (length (trace b))] @ [Suc (length (trace b))..<Suc (length (trace b)) + length us]"
      by (rule upt_add_eq_append) (simp add: ts(1))
    moreover have "Suc (length (trace c)) = Suc (length (trace b)) + length us" using us(1) by simp
    ultimately show ?thesis using ts(2) us(2) by (simp del: upt_Suc)
  qed
  ultimately show ?thesis using assms by (auto simp: run_ext_def)
qed

definition grows :: "work \<Rightarrow> work \<Rightarrow> bool" where
  "grows w w' \<longleftrightarrow> run_ext (wk_run w) (wk_run w') \<and> (run_wf (wk_run w) \<longrightarrow> run_wf (wk_run w'))"

lemma grows_preorder: "preorder_rel grows"
  by (auto simp: preorder_rel_def grows_def intro: run_ext_trans)

lemma keeps_change_run: "(\<And>r. run_ext r (f r) \<and> (run_wf r \<longrightarrow> run_wf (f r))) \<Longrightarrow> keeps grows (change_run f)"
  unfolding change_run_def by (rule keeps_sput) (simp add: grows_def)

lemma same_run_grows: "keeps same_run m \<Longrightarrow> keeps grows m"
  by (auto simp: keeps_def same_run_def grows_def)

lemma grows_tick: "grows w (w\<lparr>wk_tick := n\<rparr>)"
  by (simp add: grows_def)

text \<open>Changes that leave the history and the stations alone.\<close>

lemma frame_grows:
  assumes "run_id (f r) = run_id r" "run_brief (f r) = run_brief r" "started_at (f r) = started_at r" "trace (f r) = trace r"
    "artifacts (f r) = artifacts r" "evidence (f r) = evidence r" "state_for (f r) = state_for r"
  shows "run_ext r (f r) \<and> (run_wf r \<longrightarrow> run_wf (f r))"
  using assms by (simp add: run_ext_def run_wf_def)

lemma grows_status: "keeps grows (change_run (\<lambda>r. r\<lparr>run_status := rst\<rparr>))"
  by (intro keeps_change_run frame_grows) (simp_all add: run_frame)

lemma grows_greenlight: "keeps grows (change_run (\<lambda>r. r\<lparr>run_greenlight := g\<rparr>))"
  by (intro keeps_change_run frame_grows) (simp_all add: run_frame)

lemma grows_completed: "keeps grows (change_run (\<lambda>r. r\<lparr>completed_at := ca\<rparr>))"
  by (intro keeps_change_run frame_grows) (simp_all add: run_frame)

lemma grows_execution: "keeps grows (change_run (set_execution f))"
  by (intro keeps_change_run frame_grows) (simp_all add: run_frame)

lemma grows_update: "keeps grows (update_agent role st p d)"
proof -
  have "grows w (fst (update_agent role st p d w))" for w
  proof (cases "0 \<le> p \<and> p \<le> 100")
    case True
    have "run_wf (wk_run w) \<longrightarrow> run_wf (with_agent role st p d (wk_run w))"
      using True by (auto simp: run_wf_def run_frame) (simp_all add: with_agent_def)
    then show ?thesis using True by (simp add: step_simps grows_def run_ext_def run_frame)
  next
    case False
    then have "fst (update_agent role st p d w) = w"
      by (auto simp: update_agent_def step_simps agent_state_update_def)
    then show ?thesis by (simp add: grows_def)
  qed
  then show ?thesis by (simp add: keeps_def)
qed

lemma grows_event: "keeps grows (add_event env role action status detail aids eids)"
proof -
  have "run_ext r (with_event t role action status detail aids eids r)
     \<and> (run_wf r \<longrightarrow> run_wf (with_event t role action status detail aids eids r))" for t r
    by (simp add: run_ext_def run_wf_def run_frame) (simp add: with_event_def)
  then show ?thesis by (simp add: keeps_def step_simps grows_def)
qed

lemma grows_artifact: "keeps grows (change_run (\<lambda>r. add_artifact r (f r)))"
proof (rule keeps_change_run)
  fix r
  have "as_role (state_for (add_artifact r a) x) = as_role (state_for r x)"
    "as_artifact_ids (state_for (add_artifact r a) x) =
      as_artifact_ids (state_for r x) @ (if x = created_by a then [artifact_id a] else [])" for x a
    by (simp_all add: add_artifact_def Let_def state_for_def set_state_def)
  then show "run_ext r (add_artifact r (f r)) \<and> (run_wf r \<longrightarrow> run_wf (add_artifact r (f r)))"
    by (auto simp: run_ext_def run_wf_def run_frame)
qed

lemma grows_evidence: "keeps grows (change_run (add_evidence evs))"
proof (rule keeps_change_run)
  fix r
  show "run_ext r (add_evidence evs r) \<and> (run_wf r \<longrightarrow> run_wf (add_evidence evs r))"
  proof (induction evs arbitrary: r)
    case Nil
    then show ?case by (simp add: add_evidence_def)
  next
    case (Cons e evs)
    define r' where "r' = (if list_all (\<lambda>x. evidence_id x \<noteq> evidence_id e) (evidence r) then r\<lparr>evidence := evidence r @ [e]\<rparr> else r)"
    have "add_evidence (e # evs) r = add_evidence evs r'" by (simp add: add_evidence_def r'_def)
    moreover have "run_ext r r' \<and> (run_wf r \<longrightarrow> run_wf r')"
      by (auto simp: r'_def run_ext_def run_wf_def list_all_iff state_for_def)
    ultimately show ?case using Cons.IH [of r'] run_ext_trans by metis
  qed
qed

lemma grows_remember: "keeps grows (remember env role content conf tags a ev)"
  by (rule same_run_grows) (rule remember_keeps)

lemma grows_complete: "keeps grows (complete_agent env role kind he pl ev d)"
  unfolding complete_agent_def Let_def
  by (intro keep_intros grows_preorder grows_evidence grows_artifact grows_update grows_event)

lemma keeps_platforms: "keeps R e \<Longrightarrow> (\<And>p ps. keeps R (f p ps)) \<Longrightarrow> keeps R (case xs of [] \<Rightarrow> e | p # ps \<Rightarrow> f p ps)"
  by (cases xs) simp_all

lemmas grows_intros = keep_intros keeps_platforms grows_preorder grows_tick grows_status grows_greenlight grows_completed grows_execution
  grows_update grows_event grows_artifact grows_evidence grows_remember grows_complete

lemma grows_role: "keeps grows (execute_role env role)"
proof (cases role)
  case CEO
  show ?thesis unfolding CEO execute_role.simps run_ceo_def Let_def by (intro grows_intros)
next
  case Research
  show ?thesis unfolding Research execute_role.simps run_research_def Let_def by (intro grows_intros)
next
  case Strategist
  show ?thesis unfolding Strategist execute_role.simps run_strategist_def Let_def by (intro grows_intros)
next
  case Growth
  show ?thesis unfolding Growth execute_role.simps run_growth_def Let_def by (intro grows_intros)
next
  case Writer
  show ?thesis unfolding Writer execute_role.simps run_writer_def Let_def by (intro grows_intros)
next
  case Media
  show ?thesis unfolding Media execute_role.simps run_media_def Let_def by (intro grows_intros)
next
  case Risk
  show ?thesis unfolding Risk execute_role.simps run_risk_def Let_def by (intro grows_intros)
next
  case Publisher
  show ?thesis unfolding Publisher execute_role.simps by (intro grows_intros)
qed

lemma grows_await: "keeps grows (await_greenlight env)"
  unfolding await_greenlight_def Let_def by (intro grows_intros)

lemma grows_stations: "keeps grows (advance_stations env roles)"
proof (induction roles)
  case Nil
  show ?case by (simp add: grows_await)
next
  case (Cons role rest)
  show ?case unfolding advance_stations.simps Let_def begin_agent_def
    by (intro grows_intros grows_role grows_await Cons.IH)
qed

lemma grows_advance: "keeps grows (advance_work env)"
  unfolding advance_work_def by (intro grows_intros grows_stations)

lemma grows_decide: "keeps grows (decide_work env reviewer d note)"
  unfolding decide_work_def Let_def compliance_record_def reject_run_def publish_package_def by (intro grows_intros)

lemma keeps_option: "keeps R e \<Longrightarrow> (\<And>v. keeps R (f v)) \<Longrightarrow> keeps R (case x of None \<Rightarrow> e | Some v \<Rightarrow> f v)"
  by (cases x) simp_all

lemma keeps_option_apply: "(\<And>g. keeps R (\<lambda>w. f g w)) \<Longrightarrow> keeps R e \<Longrightarrow>
    keeps R (case x of None \<Rightarrow> e | Some g \<Rightarrow> f g)"
  by (cases x) simp_all

lemma grows_revoke: "keeps grows (revoke_work env reviewer reason)"
  unfolding revoke_work_def Let_def by (intro grows_intros keeps_option)

lemma perform_grows:
  obtains m where "perform env c = on_run (target c) m" and "keeps grows m"
  using grows_advance grows_decide grows_revoke
  by (cases c) (simp_all add: advance_def approve_def reject_def revoke_def)

lemma perform_ext:
  assumes "or_runs h rid = Some r"
  shows "\<exists>r'. or_runs (fst (perform env c h)) rid = Some r' \<and> run_ext r r' \<and> (run_wf r \<longrightarrow> run_wf r')"
proof (rule perform_grows [of env c])
  fix m assume p: "perform env c = on_run (target c) m" and g: "keeps grows m"
  show ?thesis
  proof (cases "or_runs h (target c)")
    case None
    then show ?thesis using assms p on_run_missing [OF None, of m] by auto
  next
    case (Some r0)
    let ?w = "\<lparr>wk_run = r0, wk_tick = or_tick h, wk_memory = or_memory h\<rparr>"
    obtain r' where r': "or_runs (fst (on_run (target c) m h)) = (or_runs h)(target c \<mapsto> r')" "r' = wk_run (fst (m ?w))"
      using on_run_run [OF Some, of m] by auto
    have "run_ext r0 r' \<and> (run_wf r0 \<longrightarrow> run_wf r')" using g r'(2) by (auto simp: keeps_def grows_def dest!: spec [of _ ?w])
    then show ?thesis using assms p r'(1) Some by (cases "rid = target c") auto
  qed
qed

text \<open>No command rewrites history. Whatever it returns or raises, the run keeps its id, brief and start,
  and its trace, artifacts and evidence are extended at the end only, the new events numbered on.\<close>

theorem history_only_grows:
  assumes "or_runs h rid = Some r"
  shows "\<exists>r'. or_runs (fst (perform env c h)) rid = Some r' \<and> run_ext r r'"
  using perform_ext [OF assms] by blast

text \<open>C30: every reachable run is well formed: each station's state names its station, has progress within 0
  and 100 and lists exactly the ids of the artifacts that station created, in order; the events are
  numbered 1, 2, ...; no two evidence records share an id.\<close>

theorem reachable_run_wf:
  assumes "reachable h" and "or_runs h rid = Some r"
  shows "run_wf r"
  using assms
proof (induction arbitrary: rid r rule: reachable.induct)
  case (created h env b asynchronous)
  have new: "run_wf r" if "snd (create_run env b asynchronous h) = Inr r" for r
    using that by (auto simp: create_run_def Let_def run_wf_def state_for_def new_agent_state_def split: if_splits sum.splits)
  show ?case using create_run_runs [OF created.prems] created.IH new by blast
next
  case (commanded h env c)
  show ?case
  proof (cases "or_runs h rid")
    case None
    have "or_runs (fst (perform env c h)) rid = None"
    proof (rule perform_on_run [of env c])
      fix m assume "perform env c = on_run (target c) m"
      then show ?thesis using None by (auto simp: on_run_def split: option.splits prod.splits)
    qed
    then show ?thesis using commanded.prems by simp
  next
    case (Some r0)
    show ?thesis using perform_ext [OF Some, of env c] commanded.prems commanded.IH [OF Some] by auto
  qed
next
  case (restored h k rid' r')
  then show ?case by (auto simp: restore_run_def split: if_splits)
qed simp

section \<open>The loop of start ends\<close>

fun station_weight :: "agent_status \<Rightarrow> nat" where
  "station_weight Standby = 2" | "station_weight Processing = 1" | "station_weight _ = 0"

definition work_left :: "run \<Rightarrow> nat" where
  "work_left r = sum_list (map (\<lambda>x. station_weight (as_status (state_for r x))) EXECUTABLE)"

lemma sum_list_drop_one:
  fixes f g :: "'a \<Rightarrow> nat"
  assumes "\<And>x. x \<noteq> a \<Longrightarrow> g x = f x" and "g a < f a" and "a \<in> set xs"
  shows "sum_list (map g xs) < sum_list (map f xs)"
proof -
  have le: "sum_list (map g ys) \<le> sum_list (map f ys)" for ys
    using assms(1,2) by (intro sum_list_mono) (metis less_or_eq_imp_le order_refl)
  show ?thesis using assms(3)
  proof (induction xs)
    case (Cons x xs)
    show ?case
    proof (cases "x = a")
      case True
      then show ?thesis using assms(2) le [of xs] by simp
    next
      case False
      then show ?thesis using Cons assms(1) by simp
    qed
  qed simp
qed

lemma work_left_less:
  assumes "EXECUTABLE = pre @ role # rest" and "\<And>x. x \<noteq> role \<Longrightarrow> as_status (state_for r' x) = as_status (state_for r x)"
    and "station_weight (as_status (state_for r' role)) < station_weight (as_status (state_for r role))"
  shows "work_left r' < work_left r"
  unfolding work_left_def
proof (rule sum_list_drop_one [where a = role])
  show "role \<in> set EXECUTABLE" unfolding assms(1) by simp
qed (use assms in simp_all)

lemma work_left_same: "(\<And>x. as_status (state_for r' x) = as_status (state_for r x)) \<Longrightarrow> work_left r' = work_left r"
  by (simp add: work_left_def)

lemma stations_progress:
  assumes run: "run_status (wk_run w) = Running" and adv: "advance_stations env EXECUTABLE w = (w', Inr u)"
  shows "run_status (wk_run w') = AwaitingGreenlight \<or> run_status (wk_run w') = Running \<and> work_left (wk_run w') < work_left (wk_run w)"
proof (cases rule: advance_stations_cases [of EXECUTABLE w env])
  case gate
  then show ?thesis using adv run by (cases rule: await_cases [of w env]) (auto simp: run_frame)
next
  case (station pre role rest)
  let ?w = "w\<lparr>wk_run := set_execution (\<lambda>x. x\<lparr>ex_next_station := role_value role\<rparr>) (wk_run w)\<rparr>"
  consider "as_status (state_for (wk_run w) role) = Standby" | "as_status (state_for (wk_run w) role) = Processing"
    | "as_status (state_for (wk_run w) role) \<notin> {Ready, Standby, Processing}" using station(3) by blast
  then show ?thesis
  proof cases
    case 1
    then have w': "w' = ?w\<lparr>wk_run := with_event (oe_clock env (wk_tick ?w)) role ''agent_started'' (agent_status_value Processing)
        (start_detail role) [] [] (with_agent role Processing 10 (start_detail role) (wk_run ?w)), wk_tick := Suc (wk_tick ?w)\<rparr>"
      using station(4) adv by (simp add: step_simps begin_agent_eq)
    have "work_left (wk_run w') < work_left (wk_run w)"
      by (rule work_left_less [OF station(1)]) (simp_all add: w' run_frame 1)
    then show ?thesis using run by (simp add: w' run_frame)
  next
    case 2
    obtain w1 res where out: "execute_role env role ?w = (w1, res)" by (cases "execute_role env role ?w")
    have st: "run_status (wk_run w1) = Running"
      "res = Inr () \<Longrightarrow> as_status (state_for (wk_run w1) role) = Ready"
      "\<And>x. res = Inr () \<Longrightarrow> x \<noteq> role \<Longrightarrow> as_status (state_for (wk_run w1) x) = as_status (state_for (wk_run w) x)"
      using station_refines [of ?w pre role rest env w1 res] run station(1,2) 2 out by (auto simp: run_frame)
    have res: "res = Inr ()"
      using station(4) 2 out adv by (cases res) (simp_all add: step_simps sthen_def sbind_def)
    let ?w2 = "w1\<lparr>wk_run := set_execution (\<lambda>x. x\<lparr>ex_next_station := role_value (next_station rest)\<rparr>) (wk_run w1)\<rparr>"
    have eq: "(if role = Risk then await_greenlight env else sret ()) ?w2 = (w', Inr u)"
      using station(4) 2 out res adv by (simp add: step_simps sthen_def [of "execute_role env role"] sbind_def)
    show ?thesis
    proof (cases "role = Risk")
      case True
      then show ?thesis using eq st(1) by (cases rule: await_cases [of ?w2 env]) (auto simp: run_frame)
    next
      case False
      then have w': "w' = ?w2" using eq by (simp add: step_simps)
      have "work_left (wk_run w') < work_left (wk_run w)"
        by (rule work_left_less [OF station(1)]) (simp_all add: w' run_frame 2 st(2,3) res)
      then show ?thesis using st(1) by (simp add: w' run_frame)
    qed
  qed (use station(4) adv in \<open>simp add: step_simps\<close>)
qed

lemma advance_progress:
  assumes st: "run_status (wk_run w) \<in> {Queued, Running}" and adv: "advance_work env w = (w', Inr u)"
  shows "run_status (wk_run w') = AwaitingGreenlight \<or> run_status (wk_run w') = Running \<and> work_left (wk_run w') < work_left (wk_run w)"
proof (cases "run_status (wk_run w) = Queued")
  case True
  let ?w = "w\<lparr>wk_run := set_execution (\<lambda>x. x\<lparr>ex_state := ''running''\<rparr>) ((wk_run w)\<lparr>run_status := Running\<rparr>)\<rparr>"
  have "advance_stations env EXECUTABLE ?w = (w', Inr u)"
    using True adv by (simp add: advance_work_def step_simps sthen_def sbind_def) (simp add: run_frame)
  moreover have "work_left (wk_run ?w) = work_left (wk_run w)" by (rule work_left_same) (simp add: run_frame)
  ultimately show ?thesis using stations_progress [of ?w env w' u] by (simp add: run_frame)
next
  case False
  then have r: "run_status (wk_run w) = Running" using st by simp
  then have "advance_stations env EXECUTABLE w = (w', Inr u)"
    using adv by (simp add: advance_work_def step_simps sthen_def sbind_def)
  then show ?thesis using stations_progress [OF r] by blast
qed

lemma drive_returns: "\<exists>out. drive env rid h = Some out"
proof (cases "or_runs h rid")
  case None
  then show ?thesis by (simp add: drive.simps [of env rid h])
next
  case (Some r)
  then show ?thesis
  proof (induction "work_left r" arbitrary: h r rule: less_induct)
    case less
    show ?case
    proof (cases "run_status r \<in> {Queued, Running}")
      case False
      then show ?thesis using less.prems by (simp add: drive.simps [of env rid h])
    next
      case True
      let ?w = "\<lparr>wk_run = r, wk_tick = or_tick h, wk_memory = or_memory h\<rparr>"
      obtain w' res where adv: "advance_work env ?w = (w', res)" by (cases "advance_work env ?w")
      let ?h1 = "\<lparr>or_runs = (or_runs h)(rid \<mapsto> wk_run w'), or_tick = wk_tick w', or_memory = wk_memory w'\<rparr>"
      have step: "advance env rid h = (?h1, rbind res (\<lambda>_. Inr (wk_run w')))"
        using less.prems adv by (simp add: advance_def on_run_def)
      show ?thesis
      proof (cases res)
        case (Inl e)
        then show ?thesis using less.prems True step by (auto simp: drive.simps [of env rid h])
      next
        case (Inr u)
        have d: "drive env rid h = drive env rid ?h1"
          using less.prems True step Inr by (auto simp: drive.simps [of env rid h])
        consider "run_status (wk_run w') = AwaitingGreenlight" | "work_left (wk_run w') < work_left r"
          using advance_progress [of ?w env w' u] True adv Inr by auto
        then show ?thesis
        proof cases
          case 1
          then show ?thesis unfolding d by (simp add: drive.simps [of env rid ?h1])
        next
          case 2
          then show ?thesis unfolding d by (rule less.hyps) simp
        qed
      qed
    qed
  qed
qed

text \<open>\<open>start\<close> always returns: for every brief, valid or not, every clock and every memory, its loop of
  advances ends, with the run it leaves or with the exception it met.\<close>

theorem start_terminates: "\<exists>h' res. start env b h = Some (h', res)"
proof (cases "create_run env b False h")
  case (Pair h1 res)
  then show ?thesis using drive_returns by (cases res) (auto simp: start_def)
qed

end
