(* ===== verification/StationTotality.thy ===== *)
theory StationTotality
  imports OrchestratorLaws
begin

text \<open>
  No station of a valid brief raises: the memory accepts every observation, the claim ledger, the copy
  deck, the media plan and the critique exist, and each station's step succeeds on a run whose
  artifacts the stations wrote.
\<close>

section \<open>The memory never refuses a station\<close>

text \<open>The clock's texts are not blank; the memory's rows are those it wrote itself.\<close>

definition clocks_ok :: "orch_env \<Rightarrow> bool" where
  "clocks_ok env \<longleftrightarrow> (\<forall>n. strip (oe_clock env n) \<noteq> [])"

definition memory_ok :: "memory \<Rightarrow> bool" where
  "memory_ok m \<longleftrightarrow> (\<forall>r \<in> set (mem_rows m). mm_namespace r = mem_namespace m
     \<and> mm_memory_id r = stable_id ''mem'' [JStr (mem_namespace m), JStr (mm_observation_id r)] 16)"

lemma memory_insert_ok: "memory_ok m \<Longrightarrow> memory_ok (memory_insert m obs t)"
  by (auto simp: memory_ok_def memory_insert_def memory_id_of_def)

lemma memory_insert_has:
  assumes "memory_ok m"
  shows "\<exists>r \<in> set (mem_rows (memory_insert m obs t)). mm_namespace r = mem_namespace m \<and> mm_memory_id r = memory_id_of m obs"
proof (cases "\<exists>r \<in> set (mem_rows m). mm_memory_id r = memory_id_of m obs \<or> mm_observation_id r = ob_observation_id obs")
  case True
  then obtain r where r: "r \<in> set (mem_rows m)" "mm_memory_id r = memory_id_of m obs \<or> mm_observation_id r = ob_observation_id obs"
    by blast
  have "mm_namespace r = mem_namespace m"
    "mm_memory_id r = stable_id ''mem'' [JStr (mem_namespace m), JStr (mm_observation_id r)] 16"
    using assms r(1) by (simp_all add: memory_ok_def)
  then show ?thesis using True r by (intro bexI [of _ r]) (auto simp: memory_insert_def memory_id_of_def)
next
  case False
  then show ?thesis by (simp add: memory_insert_def)
qed

lemma memory_store_ok:
  assumes "memory_ok m"
  shows "\<exists>r. snd (memory_store m obs t) = Inr r" and "memory_ok (fst (memory_store m obs t))"
proof -
  have "sql_find (\<lambda>r. mm_namespace r = mem_namespace m \<and> mm_memory_id r = memory_id_of m obs)
      (mem_rows (memory_insert m obs t)) \<noteq> None"
    using memory_insert_has [OF assms, of obs t] by (auto simp: sql_find_None)
  then show "\<exists>r. snd (memory_store m obs t) = Inr r"
    by (auto simp: memory_store_def Let_def memory_recall_def)
  show "memory_ok (fst (memory_store m obs t))"
    using memory_insert_ok [OF assms] by (simp add: memory_store_def Let_def)
qed

lemma strip_visible: "c \<in> set s \<Longrightarrow> \<not> is_space c \<Longrightarrow> strip s \<noteq> []"
  by (auto simp: strip_Nil_iff)

lemma strip_Cons: "\<not> is_space c \<Longrightarrow> strip (c # s) \<noteq> []"
  by (simp add: strip_Nil_iff)

lemma remember_ok:
  assumes clk: "clocks_ok env" and mem: "memory_ok (wk_memory w)" and content: "strip content \<noteq> []"
    and conf: "0 \<le> conf" "conf \<le> 100" and ev: "\<And>e. ev = Some e \<Longrightarrow> strip (ev_tool e) \<noteq> []"
  obtains w' where "remember env role content conf tags a ev w = (w', Inr ())" "wk_run w' = wk_run w" "memory_ok (wk_memory w')"
proof -
  have prov: "check_provenance \<lparr>prov_source = ''agency_run'', prov_locator = CHR ''s'' # x, prov_observed_at = oe_clock env n,
      prov_tool = (case ev of Some e \<Rightarrow> ev_tool e | None \<Rightarrow> ''agency_runtime''), prov_trace_id = z\<rparr> = Inr ()" for x n z
    using clk ev by (cases ev) (simp_all add: check_provenance_def require_non_empty_def clocks_ok_def
        strip_Cons is_space_def)
  obtain ob where obs: "\<And>prov ts t. observe (wk_memory w) content prov conf ts t = Inr (ob prov ts t)"
    using content conf by (auto simp: observe_def require_confidence_def Let_def)
  obtain w' res where r: "remember env role content conf tags a ev w = (w', res)" by (cases "remember env role content conf tags a ev w")
  have "res = Inr () \<and> memory_ok (wk_memory w')"
    using r by (auto simp: remember_def Let_def step_simps prov obs split: prod.splits)
      (metis memory_store_ok [OF mem] rbind_simps(2) snd_conv, metis memory_store_ok(2) [OF mem] fst_conv)
  moreover have "wk_run w' = wk_run w" using remember_run [of env role content conf tags a ev w] r by simp
  ultimately show thesis using that r by blast
qed

section \<open>The payloads of a valid brief exist\<close>

definition has_fields :: "string list \<Rightarrow> json \<Rightarrow> bool" where
  "has_fields ks c \<longleftrightarrow> (\<exists>d. c = JObj d \<and> (\<forall>k \<in> set ks. jget k d \<noteq> None))"

abbreviation claim_ok :: "json \<Rightarrow> bool" where
  "claim_ok \<equiv> has_fields [''statement'', ''source'', ''locator'']"

lemma check_claims_ok: "check_claims cs = Inr u \<Longrightarrow> c \<in> set cs \<Longrightarrow> claim_ok c"
proof (induction cs)
  case (Cons x xs)
  have "claim_ok x" if "check_claim x = Inr u'" for u'
    using that by (auto simp: check_claim_def has_fields_def blank_field_def Let_def split: json.splits option.splits if_splits)
  then show ?case using Cons by (auto simp: rbind_Inr_iff)
qed simp

lemma brief_claims_ok: "check_brief b = Inr u \<Longrightarrow> c \<in> set (evidence_claims b) \<Longrightarrow> claim_ok c"
  by (auto simp: check_brief_def rbind_Inr_iff dest: check_claims_ok)

lemma object_dget: "is_object c \<Longrightarrow> \<exists>v. dget c k d = Inr v"
  by (auto simp: is_object_def dget_def split: json.splits)

lemma claim_object: "has_fields ks c \<Longrightarrow> is_object c"
  by (auto simp: has_fields_def is_object_def)

lemma claim_dindex: "has_fields ks c \<Longrightarrow> k \<in> set ks \<Longrightarrow> \<exists>v. dindex c k = Inr v"
  by (auto simp: has_fields_def dindex_def)

text \<open>Computations that return on every element.\<close>

definition returns :: "'a res \<Rightarrow> bool" where
  "returns r \<longleftrightarrow> (\<exists>v. r = Inr v)"

named_theorems returns_intros \<open>which computations return\<close>

lemma returns_Inr [returns_intros]: "returns (Inr v)"
  by (simp add: returns_def)

lemma returns_rbind [returns_intros]: "returns m \<Longrightarrow> (\<And>v. m = Inr v \<Longrightarrow> returns (f v)) \<Longrightarrow> returns (rbind m f)"
  by (auto simp: returns_def)

lemma returns_rmap [returns_intros]: "(\<And>x. x \<in> set xs \<Longrightarrow> returns (f x)) \<Longrightarrow> returns (rmap f xs)"
  by (induction xs) (auto intro!: returns_intros)

lemma returns_rall [returns_intros]: "(\<And>x. x \<in> set xs \<Longrightarrow> returns (f x)) \<Longrightarrow> returns (rall f xs)"
  unfolding returns_def by (rule rall_total)

lemma returns_if [returns_intros]: "(b \<Longrightarrow> returns m) \<Longrightarrow> (\<not> b \<Longrightarrow> returns n) \<Longrightarrow> returns (if b then m else n)"
  by simp

lemma returns_dget [returns_intros]: "is_object c \<Longrightarrow> returns (dget c k d)"
  unfolding returns_def by (rule object_dget)

lemma returns_items [returns_intros]: "returns (items_of (JList xs))"
  by (simp add: items_of_def returns_def)

lemma returns_text: "has_fields ks c \<Longrightarrow> k \<in> set ks \<Longrightarrow> returns (claim_text c k)"
  unfolding claim_text_def using claim_dindex by (intro returns_intros) (auto simp: returns_def)

definition yields :: "('a \<Rightarrow> bool) \<Rightarrow> 'a res \<Rightarrow> bool" where
  "yields P r \<longleftrightarrow> (\<forall>v. r = Inr v \<longrightarrow> P v)"

lemma yields_Inr: "P v \<Longrightarrow> yields P (Inr v)"
  by (simp add: yields_def)

lemma yields_rbind: "(\<And>v. yields P (f v)) \<Longrightarrow> yields P (rbind m f)"
  by (auto simp: yields_def rbind_Inr_iff)

lemma claim_entry_object: "yields is_object (claim_entry rid c)"
  unfolding claim_entry_def by (intro yields_rbind yields_Inr) (simp add: is_object_def)

lemma claim_entry_returns: "claim_ok c \<Longrightarrow> returns (claim_entry rid c)"
  unfolding claim_entry_def
  by (intro returns_intros; (rule returns_text | rule claim_object)?; assumption?) simp_all

lemma rmap_set: "rmap f xs = Inr ys \<Longrightarrow> y \<in> set ys \<Longrightarrow> \<exists>x \<in> set xs. f x = Inr y"
  by (induction xs arbitrary: ys) (auto simp: rbind_Inr_iff)

lemma claim_ledger_ok:
  assumes "check_brief b = Inr ()"
  obtains cs where "claim_ledger b rid = Inr cs" "\<forall>c \<in> set cs. is_object c"
proof -
  have "returns (claim_ledger b rid)" unfolding claim_ledger_def
    by (intro returns_intros claim_entry_returns brief_claims_ok [OF assms])
  then obtain cs where cs: "claim_ledger b rid = Inr cs" by (auto simp: returns_def)
  have "is_object c" if "c \<in> set cs" for c
  proof -
    obtain x where "claim_entry rid x = Inr c"
      using rmap_set [OF cs [unfolded claim_ledger_def] \<open>c \<in> set cs\<close>] by blast
    then show ?thesis using claim_entry_object [of rid x] by (simp add: yields_def)
  qed
  then show thesis using that cs by blast
qed

text \<open>The copy deck's variants are objects whose claim map is a list.\<close>

definition variant_ok :: "json \<Rightarrow> bool" where
  "variant_ok v \<longleftrightarrow> (\<exists>d xs. v = JObj d \<and> jget ''claim_map'' d = Some (JList xs))"

lemma variant_object: "variant_ok v \<Longrightarrow> is_object v"
  by (auto simp: variant_ok_def is_object_def)

lemma dict_set_values: "\<forall>p \<in> set d. P (snd p) \<Longrightarrow> P v \<Longrightarrow> \<forall>p \<in> set (dict_set k v d). P (snd p)"
  by (auto simp: dict_set_def)

lemma variants_for_values: "P v \<Longrightarrow> \<forall>p \<in> set (variants_for plats v). P (snd p)"
proof -
  assume v: "P v"
  have step: "\<forall>p \<in> set (fold (\<lambda>p d. dict_set (platform_value p) v d) plats d). P (snd p)" if "\<forall>p \<in> set d. P (snd p)" for d
    using that
  proof (induction plats arbitrary: d)
    case (Cons p ps)
    show ?case using Cons.IH [OF dict_set_values [OF Cons.prems v]] by simp
  qed simp
  show ?thesis using step [of "[]"] by (simp add: variants_for_def)
qed

lemma returns_supported [returns_intros]: "\<forall>c \<in> set cs. is_object c \<Longrightarrow> returns (supported_claim_ids cs)"
  unfolding supported_claim_ids_def supported_claim_id_def by (intro returns_intros) auto

lemma returns_sources: "check_brief b = Inr () \<Longrightarrow> returns (rmap source_line (evidence_claims b))"
  and returns_notes: "check_brief b = Inr () \<Longrightarrow> returns (rmap source_note (evidence_claims b))"
proof -
  assume b: "check_brief b = Inr ()"
  have d: "returns (dindex c k)" if "c \<in> set (evidence_claims b)" "k \<in> {''source'', ''locator''}" for c k
    using claim_dindex [OF brief_claims_ok [OF b that(1)], of k] that(2) by (auto simp: returns_def)
  show "returns (rmap source_line (evidence_claims b))" "returns (rmap source_note (evidence_claims b))"
    unfolding source_line_def source_note_def by (intro returns_intros d; simp)+
qed

definition deck_ok :: "(string \<times> json) list \<Rightarrow> bool" where
  "deck_ok payload \<longleftrightarrow> (\<exists>vs. jget ''variants'' payload = Some (JObj vs) \<and> (\<forall>p \<in> set vs. variant_ok (snd p)))"

lemma copy_payload_ok:
  assumes "check_brief b = Inr ()" and "\<forall>c \<in> set cs. is_object c"
  obtains payload where "copy_payload b (JList cs) = Inr payload" "deck_ok payload"
proof -
  have "returns (copy_payload b (JList cs))" unfolding copy_payload_def
    by (intro returns_intros returns_sources [OF assms(1)]) (simp_all add: items_of_def assms(2))
  then obtain payload where p: "copy_payload b (JList cs) = Inr payload" by (auto simp: returns_def)
  have v: "variant_ok (political_variant b sup src)" "variant_ok (commercial_variant b sup)" for sup src
    by (simp_all add: variant_ok_def political_variant_def commercial_variant_def jget_def)
  have deck: "deck_ok ((''variants'', JObj (variants_for pl x)) # rest)" if "variant_ok x" for pl x rest
    using variants_for_values [of variant_ok, OF that] by (simp add: deck_ok_def jget_def)
  have "yields deck_ok (copy_payload b (JList cs))"
    unfolding copy_payload_def if_distrib [of "yields deck_ok"]
    by (intro yields_rbind, cases "campaign_type b = ''political''")
      (simp_all only: if_True if_False simp_thms, intro yields_rbind yields_Inr deck v, intro yields_Inr deck v)
  then show thesis using that p by (simp add: yields_def)
qed

lemma media_payload_ok: "check_brief b = Inr () \<Longrightarrow> returns (media_payload b v m)"
  unfolding media_payload_def Let_def by (intro returns_intros returns_notes)

lemma returns_values: "returns (dict_values (JObj kvs))"
  by (simp add: dict_values_def returns_def)

lemma returns_mapped: "\<forall>v \<in> set vs. variant_ok v \<Longrightarrow> returns (mapped_claim_ids vs)"
  unfolding mapped_claim_ids_def
proof (intro returns_intros)
  fix v m assume vs: "\<forall>v \<in> set vs. variant_ok v" "v \<in> set vs" "dget v ''claim_map'' (JList []) = Inr m"
  obtain d xs where d: "v = JObj d" "jget ''claim_map'' d = Some (JList xs)" using vs(1,2) unfolding variant_ok_def by blast
  then have "m = JList xs" using vs(3) by (simp add: dget_def get_or_def)
  then show "returns (items_of m)" by (simp add: returns_intros)
qed (auto intro: variant_object)

lemma returns_rendered: "\<forall>v \<in> set vs. is_object v \<Longrightarrow> returns (rendered_text vs)"
  unfolding rendered_text_def by (intro returns_intros) auto

lemma returns_numeric: "\<forall>c \<in> set cs. is_object c \<Longrightarrow> returns (unsupported_numeric_tokens fold_case rendered cs)"
  unfolding unsupported_numeric_tokens_def claim_texts_def Let_def by (intro returns_intros) auto

lemma returns_uninjected: "is_object c \<Longrightarrow> returns (claim_uninjected fold_case c)"
  unfolding claim_uninjected_def by (intro returns_intros)

lemma political_checks_ok:
  assumes "check_brief b = Inr ()" and "\<forall>c \<in> set cs. is_object c" and "\<forall>v \<in> set vs. variant_ok v"
  shows "returns (political_checks fold_case b cs vs)"
  unfolding political_checks_def
proof (intro returns_intros returns_mapped returns_rendered returns_numeric assms(2,3))
  show "\<forall>v \<in> set vs. is_object v" using assms(3) variant_object by blast
next
  fix c assume "c \<in> set (evidence_claims b)"
  then show "returns (claim_text c ''source'')"
    by (intro returns_text [OF brief_claims_ok [OF assms(1)]]) simp_all
next
  fix v assume "v \<in> set vs"
  then show "is_object v" using assms(3) variant_object by blast
next
  fix c assume "c \<in> set cs"
  then show "returns (claim_uninjected fold_case c)" using assms(2) returns_uninjected by blast
qed

text \<open>The report of a brief that is not political passes.\<close>

definition report_ok :: "brief \<Rightarrow> (string \<times> json) list \<Rightarrow> bool" where
  "report_ok b payload \<longleftrightarrow> campaign_type b \<noteq> ''political'' \<longrightarrow> jget ''passed'' payload = Some (JBool True)"

lemma filter_objects: "\<forall>v \<in> set vs. variant_ok v \<Longrightarrow> filter is_object vs = vs"
  using variant_object by (induction vs) auto

lemma critique_payload_ok:
  assumes "check_brief b = Inr ()" and "\<forall>c \<in> set cs. is_object c" and "\<forall>p \<in> set vs. variant_ok (snd p)"
  obtains payload where "critique_payload fold_case b (JList cs) (JObj vs) = Inr payload" "report_ok b payload"
proof -
  have v: "\<forall>v \<in> set (map snd vs). variant_ok v" using assms(3) by simp
  have "returns (critique_payload fold_case b (JList cs) (JObj vs))"
    unfolding critique_payload_def Let_def
    by (intro returns_intros returns_values)
      (use political_checks_ok [OF assms(1,2) v] filter_objects [OF v] in \<open>auto simp: items_of_def dict_values_def\<close>)
  then obtain payload where p: "critique_payload fold_case b (JList cs) (JObj vs) = Inr payload" by (auto simp: returns_def)
  have "report_ok b payload"
  proof (cases "campaign_type b = ''political''")
    case False
    then have "critique_payload fold_case b (JList cs) (JObj vs) = Inr payload \<Longrightarrow> jget ''passed'' payload = Some (JBool True)"
      by (auto simp: critique_payload_def Let_def BASE_CHECKS_def jget_def)
    then show ?thesis using p by (simp add: report_ok_def)
  qed (simp add: report_ok_def)
  then show thesis using that p by blast
qed

section \<open>Every station succeeds\<close>

definition ledger_ok :: "(string \<times> json) list \<Rightarrow> bool" where
  "ledger_ok payload \<longleftrightarrow> (\<exists>cs. jget ''claim_ledger'' payload = Some (JList cs) \<and> (\<forall>c \<in> set cs. is_object c))"

definition payload_ok :: "brief \<Rightarrow> string \<Rightarrow> (string \<times> json) list \<Rightarrow> bool" where
  "payload_ok b kind payload \<longleftrightarrow> (kind = ''research_dossier'' \<longrightarrow> ledger_ok payload)
     \<and> (kind = ''copy_deck'' \<longrightarrow> deck_ok payload) \<and> (kind = ''risk_report'' \<longrightarrow> report_ok b payload)"

definition run_ok :: "run \<Rightarrow> bool" where
  "run_ok r \<longleftrightarrow> check_brief (run_brief r) = Inr ()
     \<and> (\<forall>a \<in> set (artifacts r). payload_ok (run_brief r) (art_kind a) (art_payload a))"

definition work_ok :: "work \<Rightarrow> bool" where
  "work_ok w \<longleftrightarrow> memory_ok (wk_memory w) \<and> run_ok (wk_run w)"

definition succeeds :: "unit handler \<Rightarrow> work \<Rightarrow> bool" where
  "succeeds m w \<longleftrightarrow> (\<exists>w'. m w = (w', Inr ()) \<and> work_ok w')"

lemma succeeds_run: "succeeds (f (wk_run w)) w \<Longrightarrow> succeeds (sbind the_run f) w"
  by (simp add: succeeds_def step_simps)

lemma succeeds_lift: "returns m \<Longrightarrow> (\<And>v. m = Inr v \<Longrightarrow> succeeds (f v) w) \<Longrightarrow> succeeds (sbind (slift m) f) w"
  by (auto simp: returns_def succeeds_def step_simps)

lemma succeeds_lift_eq: "m = Inr v \<Longrightarrow> succeeds (f v) w \<Longrightarrow> succeeds (sbind (slift m) f) w"
  by (auto intro: succeeds_lift simp: returns_def)

lemma run_ok_frame: "run_brief r' = run_brief r \<Longrightarrow> artifacts r' = artifacts r \<Longrightarrow> run_ok r' = run_ok r"
  by (simp add: run_ok_def)

lemma station_done_ok: "run_ok r \<Longrightarrow> payload_ok (run_brief r) k pl \<Longrightarrow> run_ok (station_done ro k he pl ev d t r)"
  by (simp add: run_ok_def run_frame station_artifact_def)

lemma succeeds_complete:
  "work_ok w \<Longrightarrow> payload_ok (run_brief (wk_run w)) k pl \<Longrightarrow> (\<And>a w1. work_ok w1 \<Longrightarrow> succeeds (f a) w1)
    \<Longrightarrow> succeeds (sbind (complete_agent env ro k he pl ev d) f) w"
  unfolding succeeds_def complete_agent_bind by (simp add: work_ok_def station_done_ok)

lemma succeeds_ret: "work_ok w \<Longrightarrow> succeeds (sret ()) w"
  by (simp add: succeeds_def step_simps)

lemma succeeds_remember:
  "clocks_ok env \<Longrightarrow> work_ok w \<Longrightarrow> strip content \<noteq> [] \<Longrightarrow> 0 \<le> conf \<Longrightarrow> conf \<le> 100
   \<Longrightarrow> (case ev of None \<Rightarrow> True | Some e \<Rightarrow> strip (ev_tool e) \<noteq> []) \<Longrightarrow> succeeds (remember env role content conf tags a ev) w"
  unfolding succeeds_def work_ok_def by (cases ev) (simp_all, metis remember_ok option.distinct(1), metis remember_ok option.inject)

lemma tool_names:
  "ev_tool (tr_evidence (collect_trends a b c)) = ''multi_platform_trends''"
  "ev_tool (tr_evidence (lookup_docs a d)) = ''context7_docs''"
  "ev_tool (tr_evidence (forecast_ads a b n)) = ''meta_ads_mcp''"
  "ev_tool (tr_evidence (plan_video a p n)) = ''video_optimizer''"
  "ev_tool (tr_evidence (inspect_codebase a ps d)) = ''github_codebase''"
  "ev_tool (tr_evidence (package_campaign a pls as)) = ''campaign_packager''"
  by (simp_all add: collect_trends_def lookup_docs_def forecast_ads_def plan_video_def inspect_codebase_def
      package_campaign_def tool_evidence_of_def Let_def)

lemma has_artifact: "\<exists>a \<in> set (artifacts r). art_kind a = kind \<Longrightarrow> returns (find_artifact r kind)"
  by (auto simp: find_artifact_def returns_def find_None_iff split: option.splits)

lemma found_ok: "run_ok r \<Longrightarrow> find_artifact r kind = Inr a \<Longrightarrow> payload_ok (run_brief r) kind (art_payload a)"
  using find_artifact_Inr [of r kind a] by (auto simp: run_ok_def)

lemma run_ok_brief: "work_ok w \<Longrightarrow> check_brief (run_brief (wk_run w)) = Inr ()"
  by (simp add: work_ok_def run_ok_def)

lemma spoken: "strip (''R'' @ s) \<noteq> []" "strip (''S'' @ s) \<noteq> []" "strip (''D'' @ s) \<noteq> []" "strip (''G'' @ s) \<noteq> []"
    "strip (''M'' @ s) \<noteq> []"
  by (simp_all add: strip_Cons is_space_def)

lemma ceo_succeeds: "work_ok w \<Longrightarrow> succeeds (run_ceo env) w"
  unfolding run_ceo_def Let_def
  by (intro succeeds_run succeeds_complete succeeds_ret) (simp_all add: payload_ok_def)

lemma research_succeeds:
  assumes "clocks_ok env" and "work_ok w"
  shows "succeeds (run_research env) w"
proof -
  obtain cs where cs: "claim_ledger (run_brief (wk_run w)) (run_id (wk_run w)) = Inr cs" "\<forall>c \<in> set cs. is_object c"
    using claim_ledger_ok [OF run_ok_brief [OF assms(2)]] .
  show ?thesis unfolding run_research_def Let_def
  proof (intro succeeds_run succeeds_lift succeeds_complete succeeds_remember assms)
    show "returns (claim_ledger (run_brief (wk_run w)) (run_id (wk_run w)))" using cs by (simp add: returns_def)
  qed (use cs in \<open>simp_all add: payload_ok_def ledger_ok_def jget_def tool_names strip_Cons is_space_def\<close>)
qed

lemma strategist_succeeds: "clocks_ok env \<Longrightarrow> work_ok w \<Longrightarrow> succeeds (run_strategist env) w"
  unfolding run_strategist_def Let_def
  by (intro succeeds_run succeeds_complete succeeds_remember)
    (simp_all add: payload_ok_def tool_names strip_Cons is_space_def)

lemma growth_succeeds: "clocks_ok env \<Longrightarrow> work_ok w \<Longrightarrow> succeeds (run_growth env) w"
  unfolding run_growth_def Let_def
  by (intro succeeds_run succeeds_complete succeeds_remember)
    (simp_all add: payload_ok_def tool_names strip_Cons is_space_def)

lemma writer_succeeds:
  assumes "clocks_ok env" and "work_ok w" and "returns (find_artifact (wk_run w) ''research_dossier'')"
  shows "succeeds (run_writer env) w"
proof -
  obtain a where a: "find_artifact (wk_run w) ''research_dossier'' = Inr a" using assms(3) by (auto simp: returns_def)
  have "ledger_ok (art_payload a)" using found_ok [OF _ a] assms(2) by (simp add: work_ok_def payload_ok_def)
  then obtain cs where cs: "jget ''claim_ledger'' (art_payload a) = Some (JList cs)" "\<forall>c \<in> set cs. is_object c"
    unfolding ledger_ok_def by blast
  obtain payload where p: "copy_payload (run_brief (wk_run w)) (JList cs) = Inr payload" "deck_ok payload"
    using copy_payload_ok [OF run_ok_brief [OF assms(2)] cs(2)] .
  have g: "get_or (art_payload a) ''claim_ledger'' (JList []) = JList cs" using cs(1) by (simp add: get_or_def)
  show ?thesis unfolding run_writer_def Let_def
    by (intro succeeds_run succeeds_lift_eq [OF a] succeeds_lift_eq [OF p(1) [folded g]] succeeds_complete succeeds_remember assms)
      (simp_all add: p(2) payload_ok_def strip_Cons is_space_def)
qed

lemma media_succeeds:
  assumes "clocks_ok env" and "work_ok w"
  shows "succeeds (run_media env) w"
proof -
  have b: "check_brief (run_brief (wk_run w)) = Inr ()" using run_ok_brief [OF assms(2)] .
  then obtain p ps where ps: "platforms (run_brief (wk_run w)) = p # ps"
    by (cases "platforms (run_brief (wk_run w))") (auto simp: check_brief_def rbind_Inr_iff)
  show ?thesis unfolding run_media_def Let_def
    by (rule succeeds_run, unfold ps list.case)
      (intro succeeds_lift succeeds_complete succeeds_remember assms media_payload_ok [OF b];
        simp add: payload_ok_def tool_names strip_Cons is_space_def)
qed

lemma risk_succeeds:
  assumes "clocks_ok env" and "work_ok w" and "returns (find_artifact (wk_run w) ''research_dossier'')"
    and "returns (find_artifact (wk_run w) ''copy_deck'')"
  shows "succeeds (run_risk env) w"
proof -
  obtain a where a: "find_artifact (wk_run w) ''research_dossier'' = Inr a" using assms(3) by (auto simp: returns_def)
  obtain c where c: "find_artifact (wk_run w) ''copy_deck'' = Inr c" using assms(4) by (auto simp: returns_def)
  have "ledger_ok (art_payload a)" "deck_ok (art_payload c)"
    using found_ok [OF _ a] found_ok [OF _ c] assms(2) by (simp_all add: work_ok_def payload_ok_def)
  then obtain cs vs where cs: "jget ''claim_ledger'' (art_payload a) = Some (JList cs)" "\<forall>c \<in> set cs. is_object c"
    and vs: "jget ''variants'' (art_payload c) = Some (JObj vs)" "\<forall>p \<in> set vs. variant_ok (snd p)"
    unfolding ledger_ok_def deck_ok_def by blast
  obtain payload where p: "critique_payload (oe_fold_case env) (run_brief (wk_run w)) (JList cs) (JObj vs) = Inr payload"
    "report_ok (run_brief (wk_run w)) payload"
    using critique_payload_ok [OF run_ok_brief [OF assms(2)] cs(2) vs(2)] .
  have g: "get_or (art_payload a) ''claim_ledger'' (JList []) = JList cs" "get_or (art_payload c) ''variants'' (JObj []) = JObj vs"
    using cs(1) vs(1) by (simp_all add: get_or_def)
  show ?thesis unfolding run_risk_def Let_def
    by (intro succeeds_run succeeds_lift_eq [OF a] succeeds_lift_eq [OF c] succeeds_lift_eq [OF p(1) [folded g]]
        succeeds_complete succeeds_remember assms)
      (use p(2) in \<open>simp_all add: payload_ok_def report_ok_def tool_names strip_Cons is_space_def\<close>)
qed

end
