(* ===== verification/CampaignCompletion.thy ===== *)
theory CampaignCompletion
  imports StationTotality
begin

text \<open>
  Total correctness of a campaign: \<open>start\<close> on a valid brief reaches the gate, an approval there
  completes the run, and the recorded digests bind the artifacts.
\<close>

section \<open>A valid brief reaches the gate\<close>

lemma before_writer: "EXECUTABLE = pre @ Writer # rest \<Longrightarrow> Research \<in> set pre"
  and before_risk: "EXECUTABLE = pre @ Risk # rest \<Longrightarrow> Research \<in> set pre \<and> Writer \<in> set pre"
  unfolding EXECUTABLE_def AGENT_SEQUENCE_def by (auto simp: Cons_eq_append_conv)

lemma produced: "station_kind x \<in> set (pl_kinds (pipeline_of r)) \<Longrightarrow> returns (find_artifact r (station_kind x))"
  by (rule has_artifact) auto

lemma execute_succeeds:
  assumes "clocks_ok env" and "work_ok w" and "EXECUTABLE = pre @ role # rest"
    and kinds: "pl_kinds (pipeline_of (wk_run w)) = map station_kind pre"
  shows "succeeds (execute_role env role) w"
proof -
  have found: "returns (find_artifact (wk_run w) (station_kind x))" if "x \<in> set pre" for x
    using that by (intro produced) (simp only: kinds set_map imageI)
  show ?thesis
  proof (cases role)
    case Writer
    then show ?thesis using writer_succeeds [OF assms(1,2)] found [of Research] before_writer assms(3) by simp
  next
    case Risk
    then show ?thesis using risk_succeeds [OF assms(1,2)] found [of Research] found [of Writer] before_risk assms(3) by simp
  next
    case Publisher
    then show ?thesis using executable_not_publisher [OF assms(3)] by simp
  qed (use assms in \<open>simp_all add: ceo_succeeds research_succeeds strategist_succeeds growth_succeeds media_succeeds\<close>)
qed

lemma await_succeeds:
  assumes "work_ok w" and "returns (find_artifact (wk_run w) ''risk_report'')"
  shows "succeeds (await_greenlight env) w"
proof (cases rule: await_cases [of w env])
  case (opened a d t ac st' dt f)
  then show ?thesis using assms(1) by (simp add: succeeds_def work_ok_def run_ok_def run_frame)
qed (use assms in \<open>auto simp: succeeds_def returns_def\<close>)

lemma station_in_order:
  assumes ord: "stations_in_order p" and e: "EXECUTABLE = pre @ role # rest" and pre: "\<forall>x \<in> set pre. pl_agents p x = Ready"
    and role: "pl_agents p role \<noteq> Ready"
  shows "pl_agents p role \<in> {Standby, Processing}" and "pl_kinds p = map station_kind pre"
proof -
  have len: "length pre < 7" using arg_cong [OF e, of length] by simp
  have at: "EXECUTABLE ! length pre = role" and take: "take (length pre) EXECUTABLE = pre" unfolding e by simp_all
  obtain n where n: "\<forall>i < 7. pl_agents p (EXECUTABLE ! i) =
      (if i < n then Ready else if i = n then pl_agents p (EXECUTABLE ! n) else Standby)"
    "n < 7 \<longrightarrow> pl_agents p (EXECUTABLE ! n) \<in> {Standby, Processing}"
    using ord unfolding stations_in_order_def executable_length by blast
  show "pl_agents p role \<in> {Standby, Processing}"
    using n(1) [rule_format, OF len] n(2) len at role by (auto split: if_splits)
  show "pl_kinds p = map station_kind pre"
    by (rule next_in_order [OF ord e pre role]) (simp add: take)
qed

lemma stations_succeed:
  assumes env: "clocks_ok env" and w: "work_ok w" and ord: "stations_in_order (pipeline_of (wk_run w))"
  shows "succeeds (advance_stations env EXECUTABLE) w"
proof (cases rule: advance_stations_cases [of EXECUTABLE w env])
  case gate
  then have "pl_kinds (pipeline_of (wk_run w)) = map station_kind EXECUTABLE" by (intro in_order_all_ready [OF ord]) simp
  then have "returns (find_artifact (wk_run w) (station_kind Risk))"
    by (intro produced) (simp only: set_map, simp add: executable_set del: station_kind.simps)
  then show ?thesis using await_succeeds [OF w] gate(2) by (simp add: succeeds_def)
next
  case (station pre role rest)
  have st: "as_status (state_for (wk_run w) role) \<in> {Standby, Processing}" and kinds: "pl_kinds (pipeline_of (wk_run w)) = map station_kind pre"
    using station_in_order [OF ord station(1)] station(2,3) by simp_all
  let ?w = "w\<lparr>wk_run := set_execution (\<lambda>x. x\<lparr>ex_next_station := role_value role\<rparr>) (wk_run w)\<rparr>"
  have w1: "work_ok ?w" using w by (simp add: work_ok_def run_ok_def run_frame)
  show ?thesis
  proof (cases "as_status (state_for (wk_run w) role) = Standby")
    case True
    then have "advance_stations env EXECUTABLE w = begin_agent env role (start_detail role) ?w"
      using station(4) by (simp add: step_simps)
    then show ?thesis using w1 by (simp add: succeeds_def begin_agent_eq work_ok_def run_ok_def run_frame)
  next
    case False
    then have "as_status (state_for (wk_run w) role) = Processing" using st by simp
    then have eq: "advance_stations env EXECUTABLE w = sthen (execute_role env role)
         (sthen (change_run (set_execution (\<lambda>x. x\<lparr>ex_next_station := role_value (next_station rest)\<rparr>)))
           (if role = Risk then await_greenlight env else sret ())) ?w"
      using station(4) by (simp add: step_simps)
    have "succeeds (execute_role env role) ?w"
      by (rule execute_succeeds [OF env w1 station(1)]) (use kinds in \<open>simp add: run_frame\<close>)
    then obtain w2 where w2: "execute_role env role ?w = (w2, Inr ())" "work_ok w2" unfolding succeeds_def by blast
    let ?w3 = "w2\<lparr>wk_run := set_execution (\<lambda>x. x\<lparr>ex_next_station := role_value (next_station rest)\<rparr>) (wk_run w2)\<rparr>"
    have w3: "work_ok ?w3" using w2(2) by (simp add: work_ok_def run_ok_def run_frame)
    have eq: "advance_stations env EXECUTABLE w = (if role = Risk then await_greenlight env else sret ()) ?w3"
      using eq w2(1) by (simp add: step_simps sthen_Inr)
    show ?thesis
    proof (cases "role = Risk")
      case True
      have "station_outcome role ?w (execute_role env role ?w)"
        by (rule execute_role_outcome) (use executable_not_publisher [OF station(1)] in simp)
      then obtain he pl ev d t where "wk_run w2 = station_done role (station_kind role) he pl ev d t (wk_run ?w)"
        using w2(1) unfolding station_outcome_def by auto
      then have "returns (find_artifact (wk_run ?w3) ''risk_report'')"
        using True by (intro has_artifact) (simp add: run_frame)
      then show ?thesis using await_succeeds [OF w3, of env] eq True by (simp add: succeeds_def)
    next
      case False
      then show ?thesis using eq w3 by (simp add: succeeds_def step_simps)
    qed
  qed
qed

lemma advance_succeeds:
  assumes "clocks_ok env" and "work_ok w" and "run_status (wk_run w) = Running" and "gate_inv (pipeline_of (wk_run w))"
  shows "succeeds (advance_work env) w"
proof -
  have "stations_in_order (pipeline_of (wk_run w))" using assms(3,4) by (simp add: gate_inv_def)
  moreover have "advance_work env w = advance_stations env EXECUTABLE w"
    using assms(3) by (simp add: advance_work_def step_simps sthen_def sbind_def)
  ultimately show ?thesis using stations_succeed [OF assms(1,2)] by (simp add: succeeds_def)
qed

text \<open>The run that opens the gate holds one artifact per station.\<close>

lemma opened_kinds:
  assumes ord: "stations_in_order (pipeline_of (wk_run w))" and run: "run_status (wk_run w) = Running"
    and adv: "advance_stations env EXECUTABLE w = (w', Inr u)" and gate: "run_status (wk_run w') = AwaitingGreenlight"
  shows "pl_kinds (pipeline_of (wk_run w')) = map station_kind EXECUTABLE"
proof (cases rule: advance_stations_cases [of EXECUTABLE w env])
  case gate
  then have "pl_kinds (pipeline_of (wk_run w)) = map station_kind EXECUTABLE" by (intro in_order_all_ready [OF ord]) simp
  then show ?thesis using gate(2) adv by (cases rule: await_cases [of w env]) (auto simp: run_frame)
next
  case (station pre role rest)
  let ?w = "w\<lparr>wk_run := set_execution (\<lambda>x. x\<lparr>ex_next_station := role_value role\<rparr>) (wk_run w)\<rparr>"
  have st: "as_status (state_for (wk_run w) role) \<in> {Standby, Processing}" and kinds: "pl_kinds (pipeline_of (wk_run w)) = map station_kind pre"
    using station_in_order [OF ord station(1)] station(2,3) by simp_all
  have "as_status (state_for (wk_run w) role) \<noteq> Standby"
  proof
    assume "as_status (state_for (wk_run w) role) = Standby"
    then have "run_status (wk_run w') = run_status (wk_run w)" using station(4) adv by (auto simp: step_simps begin_agent_eq run_frame)
    then show False using run gate by simp
  qed
  then have proc: "as_status (state_for (wk_run w) role) = Processing" using st by simp
  obtain w1 res where out: "execute_role env role ?w = (w1, res)" by (cases "execute_role env role ?w")
  have res: "res = Inr ()" using station(4) proc out adv by (cases res) (simp_all add: step_simps sthen_def sbind_def)
  have "station_outcome role ?w (execute_role env role ?w)"
    by (rule execute_role_outcome) (use executable_not_publisher [OF station(1)] in simp)
  then obtain he pl ev d t where w1: "wk_run w1 = station_done role (station_kind role) he pl ev d t (wk_run ?w)"
    using out res unfolding station_outcome_def by auto
  let ?w2 = "w1\<lparr>wk_run := set_execution (\<lambda>x. x\<lparr>ex_next_station := role_value (next_station rest)\<rparr>) (wk_run w1)\<rparr>"
  have eq: "(if role = Risk then await_greenlight env else sret ()) ?w2 = (w', Inr u)"
    using station(4) proc out res adv by (simp add: step_simps sthen_def [of "execute_role env role"] sbind_def)
  have st2: "run_status (wk_run ?w2) = Running" and k2: "map art_kind (artifacts (wk_run ?w2)) = map station_kind pre @ [station_kind role]"
    using run kinds by (simp_all add: w1 run_frame)
  have risk: "role = Risk" using eq gate st2 by (cases "role = Risk") (auto simp: step_simps)
  then have "rest = []" using station(1) by (auto simp: EXECUTABLE_def AGENT_SEQUENCE_def Cons_eq_append_conv)
  then have e: "map station_kind EXECUTABLE = map station_kind pre @ [station_kind role]" unfolding station(1) by simp
  have "map art_kind (artifacts (wk_run ?w2)) = map station_kind EXECUTABLE" unfolding e by (rule k2)
  then show ?thesis using eq risk by (cases rule: await_cases [of ?w2 env]) (auto simp: run_frame)
qed

text \<open>What \<open>start\<close> leaves of a valid brief.\<close>

definition at_gate :: "run \<Rightarrow> bool" where
  "at_gate r \<longleftrightarrow> run_status r = AwaitingGreenlight \<and> gate_inv (pipeline_of r) \<and> run_ok r
     \<and> pl_kinds (pipeline_of r) = map station_kind EXECUTABLE"

lemma drive_reaches:
  assumes "clocks_ok env" and "or_runs h rid = Some r" and "memory_ok (or_memory h)" and "run_ok r" and "gate_inv (pipeline_of r)"
    and "run_status r = Running \<or> at_gate r"
  shows "\<exists>h' r'. drive env rid h = Some (h', Inr r') \<and> or_runs h' rid = Some r' \<and> memory_ok (or_memory h') \<and> at_gate r' \<and> run_ext r r'"
  using assms(2-)
proof (induction "work_left r" arbitrary: h r rule: less_induct)
  case less
  show ?case
  proof (cases "run_status r = Running")
    case False
    then show ?thesis using less.prems by (auto simp: drive.simps [of env rid h] at_gate_def)
  next
    case True
    let ?w = "\<lparr>wk_run = r, wk_tick = or_tick h, wk_memory = or_memory h\<rparr>"
    have w: "work_ok ?w" using less.prems by (simp add: work_ok_def)
    obtain w' where w': "advance_work env ?w = (w', Inr ())" "work_ok w'"
      using advance_succeeds [OF assms(1) w] True less.prems by (auto simp: succeeds_def)
    let ?h1 = "\<lparr>or_runs = (or_runs h)(rid \<mapsto> wk_run w'), or_tick = wk_tick w', or_memory = wk_memory w'\<rparr>"
    have step: "advance env rid h = (?h1, Inr (wk_run w'))"
      using less.prems w'(1) by (simp add: advance_def on_run_def)
    have d: "drive env rid h = drive env rid ?h1"
      using less.prems True step by (simp add: drive.simps [of env rid h])
    have g: "gate_inv (pipeline_of (wk_run w'))"
      using gate_steps [OF advance_work_refines [of ?w env]] w'(1) less.prems by simp
    have k: "run_status (wk_run w') = AwaitingGreenlight \<Longrightarrow> pl_kinds (pipeline_of (wk_run w')) = map station_kind EXECUTABLE"
    proof (rule opened_kinds)
      show "advance_stations env EXECUTABLE ?w = (w', Inr ())"
        using w'(1) True by (simp add: advance_work_def step_simps sthen_def sbind_def)
    qed (use less.prems True in \<open>simp_all add: gate_inv_def\<close>)
    have ext: "run_ext r (wk_run w')"
      using grows_advance [of env] w'(1) by (auto simp: keeps_def grows_def dest!: spec [of _ ?w])
    have ok: "or_runs ?h1 rid = Some (wk_run w')" "memory_ok (or_memory ?h1)" "run_ok (wk_run w')"
      using w'(2) by (simp_all add: work_ok_def)
    consider "run_status (wk_run w') = AwaitingGreenlight" | "run_status (wk_run w') = Running" "work_left (wk_run w') < work_left r"
      using advance_progress [of ?w env w' "()"] True w'(1) by auto
    then show ?thesis
    proof cases
      case 1
      then show ?thesis unfolding d using ok g ext k by (simp add: drive.simps [of env rid ?h1] at_gate_def)
    next
      case 2
      then show ?thesis unfolding d using less.hyps [OF 2(2) ok(1,2,3) g disjI1 [OF 2(1)]] run_ext_trans [OF ext] by blast
    qed
  qed
qed

lemma start_at_gate:
  assumes "check_brief b = Inr ()" and "clocks_ok env" and "memory_ok (or_memory h)"
    and "or_runs h (stable_id ''run'' [brief_json b] 16) = None"
  shows "\<exists>h' r. start env b h = Some (h', Inr r) \<and> or_runs h' (run_id r) = Some r \<and> run_brief r = b
    \<and> memory_ok (or_memory h') \<and> at_gate r \<and> run_id r = stable_id ''run'' [brief_json b] 16"
proof -
  let ?rid = "stable_id ''run'' [brief_json b] 16"
  obtain h1 r1 where c: "create_run env b False h = (h1, Inr r1)" "or_runs h1 ?rid = Some r1" "run_id r1 = ?rid" "run_brief r1 = b"
    "or_memory h1 = or_memory h" "artifacts r1 = []" "run_status r1 = Running"
    using assms(4) by (auto simp: create_run_def Let_def check_execution_def EXECUTION_STATES_def)
  have g: "gate_inv (pipeline_of r1)"
    using create_run_runs [of env b False h ?rid r1] c assms(4) fresh_gate by simp
  obtain h' r' where "drive env ?rid h1 = Some (h', Inr r')" "or_runs h' ?rid = Some r'" "memory_ok (or_memory h')" "at_gate r'" "run_ext r1 r'"
    using drive_reaches [OF assms(2) c(2) _ _ g] c assms(1,3) by (auto simp: run_ok_def)
  then show ?thesis using c by (intro exI [of _ h'] exI [of _ r']) (simp add: start_def run_ext_def)
qed

section \<open>An approval at the gate completes the campaign\<close>

lemma succeeds_eq: "m w = n w' \<Longrightarrow> succeeds n w' \<Longrightarrow> succeeds m w"
  by (simp add: succeeds_def)

lemma publish_succeeds:
  assumes "clocks_ok env" and "work_ok w"
  shows "succeeds (publish_package env g) w"
proof -
  have frame: "work_ok w1" if "wk_memory w1 = wk_memory w2" "run_brief (wk_run w1) = run_brief (wk_run w2)"
      "artifacts (wk_run w1) = artifacts (wk_run w2)" "work_ok w2" for w1 w2
    using that by (simp add: work_ok_def run_ok_def)
  show ?thesis unfolding publish_package_def
    apply (rule succeeds_eq [OF update_agent_then], simp, simp)
    apply (rule succeeds_eq [OF add_event_then])
    apply (rule succeeds_run)
    apply (unfold Let_def)
    apply (rule succeeds_complete)
      apply (rule frame [OF _ _ _ assms(2)]; simp add: run_frame)
     apply (simp add: payload_ok_def)
    apply (rule succeeds_eq [OF change_run_then], rule succeeds_eq [OF change_run_then], rule succeeds_eq [OF now_bind],
        rule succeeds_eq [OF change_run_then])
    apply (rule succeeds_remember [OF assms(1)])
        apply (rule frame; (assumption | simp add: run_frame))
       apply (simp_all add: strip_Cons is_space_def tool_names)
    done
qed

definition may_approve :: "run \<Rightarrow> string \<Rightarrow> bool" where
  "may_approve r reviewer \<longleftrightarrow> cleared r \<and> strip reviewer \<noteq> []
     \<and> (campaign_type (run_brief r) = ''political'' \<longrightarrow> strip (legal_reviewed_by (run_brief r)) \<noteq> strip reviewer)"

lemma approval_checks:
  assumes "run_status r = AwaitingGreenlight" and "may_approve r reviewer"
  shows "check_decision r reviewer Approved = Inr ()"
proof (cases "find_artifact r ''risk_report''")
  case (Inl e)
  then show ?thesis using assms(2) by (simp add: may_approve_def cleared_def)
next
  case (Inr a)
  then show ?thesis using assms by (auto simp: may_approve_def cleared_def check_decision_def)
qed

lemma compliance_returns: "check_brief b = Inr () \<Longrightarrow> returns (compliance_payload b reviewer)"
  unfolding compliance_payload_def claim_contract_def
  by (intro returns_intros) (auto dest: brief_claims_ok claim_object)

lemma brief_budget: "check_brief b = Inr () \<Longrightarrow> 0 \<le> budget_cents b"
  by (auto simp: check_brief_def rbind_Inr_iff)

lemma greenlight_checks:
  assumes "clocks_ok env" and "strip reviewer \<noteq> []" and "check_brief (run_brief r) = Inr ()"
  shows "check_greenlight (make_greenlight r d reviewer note (oe_clock env n)) = Inr ()"
  using assms brief_budget [of "run_brief r"]
  by (simp add: check_greenlight_def make_greenlight_def Let_def clocks_ok_def)

lemma approval_succeeds:
  assumes env: "clocks_ok env" and w: "work_ok w" and st: "run_status (wk_run w) = AwaitingGreenlight"
    and may: "may_approve (wk_run w) reviewer"
  shows "succeeds (decide_work env reviewer Approved note) w"
proof -
  let ?pre = "if Approved = Approved \<and> campaign_type (run_brief (wk_run w)) = ''political''
            then compliance_record env (strip reviewer) else sret ()"
  let ?rest = "sbind the_run (\<lambda>r'. let g = make_greenlight r' Approved reviewer note (oe_clock env (wk_tick w)) in
     sbind (slift (check_greenlight g)) (\<lambda>_.
     sthen (change_run (\<lambda>r. r\<lparr>run_greenlight := Some g\<rparr>))
       (if Approved = Rejected then reject_run env (oe_clock env (wk_tick w)) else publish_package env g)))"
  let ?w = "w\<lparr>wk_tick := Suc (wk_tick w)\<rparr>"
  have b: "check_brief (run_brief (wk_run w)) = Inr ()" using run_ok_brief [OF w] .
  have w1: "work_ok ?w" using w by (simp add: work_ok_def)
  have rest: "succeeds ?rest w2" if w2: "work_ok w2" for w2
  proof (rule succeeds_run, unfold Let_def, rule succeeds_lift_eq)
    show "check_greenlight (make_greenlight (wk_run w2) Approved reviewer note (oe_clock env (wk_tick w))) = Inr ()"
      using may run_ok_brief [OF w2] by (intro greenlight_checks [OF env]) (simp_all add: may_approve_def)
    have "work_ok (w2\<lparr>wk_run := (wk_run w2)\<lparr>run_greenlight := g\<rparr>\<rparr>)" for g using w2 by (simp add: work_ok_def run_ok_def)
    then show "succeeds (sthen (change_run (\<lambda>r. r\<lparr>run_greenlight := Some (make_greenlight (wk_run w2) Approved reviewer note (oe_clock env (wk_tick w)))\<rparr>))
        (if Approved = Rejected then reject_run env (oe_clock env (wk_tick w))
         else publish_package env (make_greenlight (wk_run w2) Approved reviewer note (oe_clock env (wk_tick w))))) w2"
      by (simp only: decision.distinct if_False) (rule succeeds_eq [OF change_run_then], rule publish_succeeds [OF env], simp)
  qed
  have eq: "decide_work env reviewer Approved note w = sthen ?pre ?rest ?w"
    using approval_checks [OF st may] by (simp add: decide_work_def step_simps)
  show ?thesis
  proof (cases "campaign_type (run_brief (wk_run w)) = ''political''")
    case False
    then have "sthen ?pre ?rest ?w = ?rest ?w" by (simp add: step_simps)
    then show ?thesis using rest [OF w1] eq by (simp add: succeeds_def)
  next
    case True
    obtain payload where p: "compliance_payload (run_brief (wk_run w)) (strip reviewer) = Inr payload"
      using compliance_returns [OF b, of "strip reviewer"] by (auto simp: returns_def)
    obtain w2 where w2: "compliance_record env (strip reviewer) ?w = (w2, Inr ())" "work_ok w2"
      using w p by (auto simp: compliance_record_def step_simps work_ok_def run_ok_def run_frame payload_ok_def)
    have "sthen ?pre ?rest ?w = ?rest w2" using True w2(1) by (intro sthen_Inr) simp
    then show ?thesis using rest [OF w2(2)] eq by (simp add: succeeds_def)
  qed
qed

lemma approve_at_gate:
  assumes env: "clocks_ok env" and r: "or_runs h rid = Some r" and mem: "memory_ok (or_memory h)" and gate: "at_gate r"
    and may: "may_approve r reviewer"
  shows "\<exists>h' r' g. approve env rid reviewer note h = (h', Inr r') \<and> or_runs h' rid = Some r' \<and> run_status r' = Completed
    \<and> run_greenlight r' = Some g \<and> greenlight_active g \<and> check_greenlight g = Inr () \<and> artifacts r' \<noteq> [] \<and> art_kind (last (artifacts r')) = ''campaign_package''"
proof -
  let ?w = "\<lparr>wk_run = r, wk_tick = or_tick h, wk_memory = or_memory h\<rparr>"
  have w: "work_ok ?w" using mem gate by (simp add: work_ok_def at_gate_def)
  obtain w' where w': "decide_work env reviewer Approved note ?w = (w', Inr ())"
    using approval_succeeds [OF env w] gate may by (auto simp: succeeds_def at_gate_def)
  let ?h = "\<lparr>or_runs = (or_runs h)(rid \<mapsto> wk_run w'), or_tick = wk_tick w', or_memory = wk_memory w'\<rparr>"
  have a: "approve env rid reviewer note h = (?h, Inr (wk_run w'))" using r w' by (simp add: approve_def on_run_def)
  show ?thesis using w'
  proof (cases rule: decide_work_cases)
    case (approved r1 t t1 t2 t3)
    let ?g = "make_greenlight r1 Approved reviewer note t"
    have "run_status (wk_run w') = Completed" "run_greenlight (wk_run w') = Some ?g" "artifacts (wk_run w') \<noteq> []"
      "art_kind (last (artifacts (wk_run w'))) = ''campaign_package''"
      unfolding approved(5) by (simp_all add: published_def Let_def run_frame)
    moreover have "greenlight_active ?g" by (simp add: greenlight_active_def make_greenlight_fields)
    ultimately show ?thesis using a approved(4) by (intro exI [of _ ?h] exI [of _ "wk_run w'"] exI [of _ ?g]) simp
  qed simp_all
qed

lemma gate_cleared:
  assumes "at_gate r" and "campaign_type (run_brief r) \<noteq> ''political''"
  shows "cleared r"
proof -
  have "station_kind Risk \<in> set (pl_kinds (pipeline_of r))"
    using assms(1) by (simp add: at_gate_def executable_set del: station_kind.simps pipeline_fields)
  then obtain a where a: "find_artifact r ''risk_report'' = Inr a" using produced [of Risk r] by (auto simp: returns_def)
  have "payload_ok (run_brief r) ''risk_report'' (art_payload a)" using found_ok [OF _ a] assms(1) by (simp add: at_gate_def)
  then show ?thesis using a assms(2) by (simp add: cleared_def payload_ok_def report_ok_def says_true_def)
qed

text \<open>C20: a valid brief always reaches the gate. Whatever the clock says (as long as it says something),
  \<open>start\<close> returns the new run: it awaits Greenlight, each of the seven stations has left its artifact,
  in order, nothing is decided, and unless the brief is political its risk report is cleared.\<close>

theorem start_reaches_gate:
  assumes "check_brief b = Inr ()" and "clocks_ok env" and "memory_ok (or_memory h)"
    and "or_runs h (stable_id ''run'' [brief_json b] 16) = None"
  shows "\<exists>h' r. start env b h = Some (h', Inr r) \<and> or_runs h' (run_id r) = Some r \<and> run_brief r = b
    \<and> run_status r = AwaitingGreenlight \<and> map art_kind (artifacts r) = map station_kind EXECUTABLE \<and> run_greenlight r = None
    \<and> (campaign_type b \<noteq> ''political'' \<longrightarrow> cleared r)"
proof -
  obtain h' r where s: "start env b h = Some (h', Inr r)" "or_runs h' (run_id r) = Some r" "run_brief r = b" "at_gate r"
    using start_at_gate [OF assms] by blast
  have "map art_kind (artifacts r) = map station_kind EXECUTABLE" "run_status r = AwaitingGreenlight" "run_greenlight r = None"
    using s(4) by (simp_all add: at_gate_def gate_inv_def)
  then show ?thesis using s gate_cleared [OF s(4)] by blast
qed

text \<open>C16: the whole campaign. For a valid brief \<open>start\<close> followed by the approval of a reviewer who is named and
  (for a political brief, whose critique must have passed) is not the legal reviewer returns a completed
  run with an active Greenlight whose last artifact is the campaign package.\<close>

theorem approved_campaign_completes:
  assumes "check_brief b = Inr ()" and "clocks_ok env" and "memory_ok (or_memory h)"
    and "or_runs h (stable_id ''run'' [brief_json b] 16) = None"
    and "start env b h = Some (h1, Inr r)" and "may_approve r reviewer"
  shows "\<exists>h2 r2 g. approve env (run_id r) reviewer note h1 = (h2, Inr r2) \<and> or_runs h2 (run_id r) = Some r2
    \<and> run_status r2 = Completed \<and> run_greenlight r2 = Some g \<and> greenlight_active g
    \<and> art_kind (last (artifacts r2)) = ''campaign_package''"
proof -
  have "or_runs h1 (run_id r) = Some r" "memory_ok (or_memory h1)" "at_gate r"
    using start_at_gate [OF assms(1-4)] assms(5) by auto
  then show ?thesis using approve_at_gate [OF assms(2) _ _ _ assms(6), of h1 "run_id r" "note"] by blast
qed

section \<open>Approved digests bind the artifacts\<close>

definition same_artifact :: "artifact \<Rightarrow> artifact \<Rightarrow> bool" where
  "same_artifact a b \<longleftrightarrow> artifact_id a = artifact_id b \<and> art_kind a = art_kind b \<and> art_title a = art_title b
     \<and> created_by a = created_by b \<and> to_primitive (JObj (art_payload a)) = to_primitive (JObj (art_payload b))
     \<and> art_evidence_ids a = art_evidence_ids b"

text \<open>The two texts hashed for an artifact: the document, and the list that names it.\<close>

definition hashed_text :: "artifact \<Rightarrow> string" where
  "hashed_text a = utf8 (canonical_json (JList [JStr (canonical_json (artifact_json a))]))"

lemma artifact_digest_eq:
  assumes "wf_json (JObj (art_payload a))" and "wf_json (JObj (art_payload b))" and "artifact_digest a = artifact_digest b"
  shows "same_artifact a b \<or> sha256_collision (hashed_text a) (hashed_text b)"
proof -
  have wf: "wf_json (artifact_json x)" if "wf_json (JObj (art_payload x))" for x
    using that by (simp add: artifact_json_def list_all_iff)
  have "sha256_text (canonical_json (JList [JStr (canonical_json (artifact_json a))]))
      = sha256_text (canonical_json (JList [JStr (canonical_json (artifact_json b))]))"
    using assms(3) by (simp add: artifact_digest_def stable_id_def sha256_text_def)
  then consider "to_primitive (JList [JStr (canonical_json (artifact_json a))]) = to_primitive (JList [JStr (canonical_json (artifact_json b))])"
    | "sha256_collision (hashed_text a) (hashed_text b)"
    using canonical_digest_eq [of "JList [JStr (canonical_json (artifact_json a))]" "JList [JStr (canonical_json (artifact_json b))]"]
    by (auto simp: hashed_text_def)
  then show ?thesis
  proof cases
    case 1
    then have "canonical_json (artifact_json a) = canonical_json (artifact_json b)" by simp
    then have "to_primitive (artifact_json a) = to_primitive (artifact_json b)"
      by (rule canonical_json_inj [OF wf wf, OF assms(1,2)])
    then show ?thesis using artifact_json_inj unfolding same_artifact_def by blast
  qed simp
qed

text \<open>The digests a Greenlight records bind the artifacts' content: two sequences of artifacts with the same
  digests agree in every field of every artifact (payloads up to the order of keys), unless two of the
  hashed texts collide under SHA-256.\<close>

theorem approved_hashes_bind:
  assumes "\<forall>a \<in> set as \<union> set bs. wf_json (JObj (art_payload a))" and "map artifact_digest as = map artifact_digest bs"
  shows "list_all2 same_artifact as bs \<or> (\<exists>a \<in> set as. \<exists>b \<in> set bs. sha256_collision (hashed_text a) (hashed_text b))"
proof (rule disjCI)
  assume no: "\<not> (\<exists>a \<in> set as. \<exists>b \<in> set bs. sha256_collision (hashed_text a) (hashed_text b))"
  have len: "length as = length bs" using assms(2) by (rule map_eq_imp_length_eq)
  have "same_artifact (as ! i) (bs ! i)" if i: "i < length as" for i
  proof -
    have "artifact_digest (as ! i) = artifact_digest (bs ! i)" using assms(2) i len by (metis nth_map)
    moreover have "as ! i \<in> set as" "bs ! i \<in> set bs" using i len by simp_all
    ultimately show ?thesis using artifact_digest_eq [of "as ! i" "bs ! i"] assms(1) no by auto
  qed
  then show "list_all2 same_artifact as bs" using len by (simp add: list_all2_conv_all_nth)
qed

end
