(* ===== verification/OrchestratorSamples.thy ===== *)
theory OrchestratorSamples
  imports CampaignCompletion
begin

text \<open>
  One commercial campaign from brief to package, on which the properties of the orchestrator apply.
\<close>

lemma perform_advance: "perform env (Advance rid) = advance env rid"
  by simp

lemma drive_reachable: "drive env rid h = Some out \<Longrightarrow> reachable h \<longrightarrow> reachable (fst out)"
proof (rule drive.raw_induct [where P = "\<lambda>env rid h y. reachable h \<longrightarrow> reachable (fst y)"])
  fix d env rid h y
  assume IH: "\<And>env rid h y. d env rid h = Some y \<Longrightarrow> reachable h \<longrightarrow> reachable (fst y)"
    and body: "(case or_runs h rid of None \<Rightarrow> Some (h, Inl (KeyError (''run not found: '' @ rid)))
      | Some r \<Rightarrow> if run_status r \<in> {Queued, Running}
          then case advance env rid h of (h1, Inl e) \<Rightarrow> Some (h1, Inl e) | (h1, Inr x) \<Rightarrow> d env rid h1
          else Some (h, Inr r)) = Some y"
  obtain h1 res where a: "advance env rid h = (h1, res)" by (cases "advance env rid h")
  have f: "fst (advance env rid h) = h1" using a by simp
  have h1: "reachable h \<Longrightarrow> reachable h1" using reachable.commanded [of h env "Advance rid"] a by simp
  show "reachable h \<longrightarrow> reachable (fst y)"
  proof
    assume h: "reachable h"
    show "reachable (fst y)"
    proof (cases "or_runs h rid")
      case (Some r)
      then show ?thesis using body a h h1 IH by (cases res) (auto simp: f split: if_splits)
    qed (use body h in auto)
  qed
qed

lemma start_reachable: "start env b h = Some out \<Longrightarrow> reachable h \<Longrightarrow> reachable (fst out)"
proof (cases "create_run env b False h")
  case (Pair h1 res)
  assume s: "start env b h = Some out" "reachable h"
  have "reachable h1" using reachable.created [OF s(2), of env b False] Pair by simp
  then show ?thesis using s(1) Pair drive_reachable by (cases res) (auto simp: start_def)
qed

section \<open>One campaign\<close>

definition sample_orch_env :: orch_env where
  "sample_orch_env = \<lparr>oe_clock = (\<lambda>_. ''2026-01-01T00:00:00Z''), oe_memory_clock = (\<lambda>_. ''2026-01-01T00:00:00Z''),
     oe_fold_case = str_lower\<rparr>"

definition sample_brief :: brief where
  "sample_brief = \<lparr>title = ''Launch'', objective = ''Sell'', audience = ''Shops'', platforms = [X], budget_cents = 100,
     source_asset = ''a'', campaign_goal = ''g'', campaign_type = ''commercial'', publication_mode = ''organic'',
     brief_locale = ''es'', jurisdiction = [], office = [], candidate_name = [], locality = [], problem = [],
     proposal = [], desired_action = [], disclosure = [], legal_review_status = ''pending'', legal_reviewed_by = [],
     evidence_claims = []\<rparr>"

definition sample_orchestrator :: orchestrator where
  "sample_orchestrator = \<lparr>or_runs = (\<lambda>_. None), or_tick = 0, or_memory = \<lparr>mem_namespace = ''agency'', mem_rows = []\<rparr>\<rparr>"

lemma sample_start_hyps:
  "check_brief sample_brief = Inr ()" "clocks_ok sample_orch_env" "memory_ok (or_memory sample_orchestrator)"
  "or_runs sample_orchestrator (stable_id ''run'' [brief_json sample_brief] 16) = None" "reachable sample_orchestrator"
  "campaign_type (run_brief r) = campaign_type (run_brief r)"
  by (simp_all add: check_brief_def sample_brief_def clocks_ok_def sample_orch_env_def memory_ok_def sample_orchestrator_def
      strip_Cons is_space_def reachable.empty)

text \<open>A completed run of a reachable orchestrator, and the approval and revocation of it.\<close>

lemma sample_campaign:
  obtains h1 r1 h2 r2 g where "start sample_orch_env sample_brief sample_orchestrator = Some (h1, Inr r1)"
    "or_runs h1 (run_id r1) = Some r1" "reachable h1" "may_approve r1 ''Ana''" "run_status r1 = AwaitingGreenlight"
    "approve sample_orch_env (run_id r1) ''Ana'' [] h1 = (h2, Inr r2)" "or_runs h2 (run_id r1) = Some r2" "reachable h2"
    "run_status r2 = Completed" "run_greenlight r2 = Some g" "greenlight_active g" "check_greenlight g = Inr ()"
    "artifacts r2 \<noteq> []" "art_kind (last (artifacts r2)) = ''campaign_package''"
proof -
  obtain h1 r1 where s: "start sample_orch_env sample_brief sample_orchestrator = Some (h1, Inr r1)" "or_runs h1 (run_id r1) = Some r1"
    "run_brief r1 = sample_brief" "memory_ok (or_memory h1)" "at_gate r1"
    using start_at_gate [OF sample_start_hyps(1-4)] by blast
  have r: "reachable h1" using start_reachable [OF s(1) sample_start_hyps(5)] by simp
  have c: "campaign_type (run_brief r1) \<noteq> ''political''" using s(3) by (simp add: sample_brief_def)
  then have m: "may_approve r1 ''Ana''" using gate_cleared [OF s(5)] by (simp add: may_approve_def strip_Cons is_space_def)
  obtain h2 r2 g where a: "approve sample_orch_env (run_id r1) ''Ana'' [] h1 = (h2, Inr r2)" "or_runs h2 (run_id r1) = Some r2"
    "run_status r2 = Completed" "run_greenlight r2 = Some g" "greenlight_active g" "check_greenlight g = Inr ()"
    "artifacts r2 \<noteq> []" "art_kind (last (artifacts r2)) = ''campaign_package''"
    using approve_at_gate [OF sample_start_hyps(2) s(2,4,5) m, of "[]"] by blast
  have "reachable h2" using reachable.commanded [OF r, of sample_orch_env "Approve (run_id r1) ''Ana'' []"] a(1) by simp
  then show thesis using that s(1,2) r m a s(5) by (simp add: at_gate_def)
qed

theorem start_reaches_gate_witness:
  "\<exists>h' r. start sample_orch_env sample_brief sample_orchestrator = Some (h', Inr r) \<and> run_status r = AwaitingGreenlight
    \<and> map art_kind (artifacts r) = map station_kind EXECUTABLE"
  using start_reaches_gate [OF sample_start_hyps(1-4)] by blast

theorem approved_campaign_completes_witness:
  "\<exists>h1 r h2 r2. start sample_orch_env sample_brief sample_orchestrator = Some (h1, Inr r)
    \<and> approve sample_orch_env (run_id r) ''Ana'' [] h1 = (h2, Inr r2) \<and> run_status r2 = Completed"
proof (rule sample_campaign)
  fix h1 :: orchestrator and r1 :: run
  assume a: "start sample_orch_env sample_brief sample_orchestrator = Some (h1, Inr r1)" "may_approve r1 ''Ana''"
  show ?thesis using approved_campaign_completes [OF sample_start_hyps(1-4) a, of "[]"] a(1) by blast
qed

theorem package_needs_greenlight_witness:
  "\<exists>h rid r a g. reachable h \<and> or_runs h rid = Some r \<and> a \<in> set (artifacts r) \<and> art_kind a = ''campaign_package''
    \<and> run_greenlight r = Some g \<and> gl_decision g = Approved \<and> cleared r"
proof (rule sample_campaign)
  fix h2 :: orchestrator and r1 r2 :: run assume a: "or_runs h2 (run_id r1) = Some r2" "reachable h2" "artifacts r2 \<noteq> []"
    "art_kind (last (artifacts r2)) = ''campaign_package''"
  show ?thesis using package_needs_greenlight [OF a(2,1) last_in_set [OF a(3)] a(4)] a last_in_set [OF a(3)] by blast
qed

theorem stations_work_in_order_witness:
  "\<exists>h rid r. reachable h \<and> or_runs h rid = Some r \<and> run_status r = Running \<and> stations_in_order (pipeline_of r)"
proof -
  let ?h = "fst (create_run sample_orch_env sample_brief False sample_orchestrator)"
  have h: "reachable ?h" by (rule reachable.created [OF sample_start_hyps(5)])
  obtain r where r: "or_runs ?h (stable_id ''run'' [brief_json sample_brief] 16) = Some r" "run_status r = Running"
    using sample_start_hyps(4) by (auto simp: create_run_def Let_def check_execution_def EXECUTION_STATES_def)
  show ?thesis using stations_work_in_order [OF h r(1)] h r by blast
qed

theorem reachable_run_wf_witness: "\<exists>h rid r. reachable h \<and> or_runs h rid = Some r \<and> run_status r = Completed \<and> run_wf r"
  by (rule sample_campaign) (metis reachable_run_wf)

theorem approve_binds_witness:
  "\<exists>h h' rid r r' g. or_runs h rid = Some r \<and> approve sample_orch_env rid ''Ana'' [] h = (h', Inr r')
    \<and> run_status r = AwaitingGreenlight \<and> run_greenlight r' = Some g \<and> gl_fencing_token g = 1"
  by (rule sample_campaign) (metis approve_binds)

theorem history_only_grows_witness:
  "\<exists>h rid r r'. or_runs h rid = Some r \<and> run_status r = AwaitingGreenlight
    \<and> or_runs (fst (perform sample_orch_env (Approve rid ''Ana'' []) h)) rid = Some r' \<and> run_ext r r'"
proof (rule sample_campaign)
  fix h1 :: orchestrator and r1 :: run assume a: "or_runs h1 (run_id r1) = Some r1" "run_status r1 = AwaitingGreenlight"
  show ?thesis using history_only_grows [OF a(1), of sample_orch_env "Approve (run_id r1) ''Ana'' []"] a by blast
qed

theorem orchestrator_refines_witness:
  "\<exists>h rid r r'. or_runs h rid = Some r \<and> run_status r = AwaitingGreenlight
    \<and> or_runs (fst (perform sample_orch_env (Approve rid ''Ana'' []) h)) rid = Some r'
    \<and> pipeline_steps (pipeline_of r) (pipeline_of r')"
proof (rule sample_campaign)
  fix h1 :: orchestrator and r1 :: run assume a: "or_runs h1 (run_id r1) = Some r1" "run_status r1 = AwaitingGreenlight"
  obtain r' where r': "or_runs (fst (perform sample_orch_env (Approve (run_id r1) ''Ana'' []) h1)) (run_id r1) = Some r'"
    "pipeline_steps (pipeline_of r1) (pipeline_of r')"
    using orchestrator_refines [OF a(1), of sample_orch_env "Approve (run_id r1) ''Ana'' []"] by blast
  show ?thesis by (intro exI conjI) (rule a(1), rule a(2), rule r'(1), rule r'(2))
qed

text \<open>Two copies of one artifact, and the revocation of the completed run.\<close>

theorem approved_hashes_bind_witness:
  "list_all2 same_artifact [station_artifact ''r'' CEO ''k'' ''t'' [] []] [station_artifact ''r'' CEO ''k'' ''t'' [] []]
   \<or> sha256_collision (hashed_text (station_artifact ''r'' CEO ''k'' ''t'' [] [])) (hashed_text (station_artifact ''r'' CEO ''k'' ''t'' [] []))"
  using approved_hashes_bind [of "[station_artifact ''r'' CEO ''k'' ''t'' [] []]" "[station_artifact ''r'' CEO ''k'' ''t'' [] []]"]
  by (simp add: station_artifact_def)

lemma revocation_returns:
  assumes "clocks_ok env" and "or_runs h rid = Some r" and "run_status r = Completed" and "run_greenlight r = Some g"
    and "greenlight_active g" and "strip reviewer \<noteq> []" and "strip reason \<noteq> []" and "check_greenlight g = Inr ()"
  shows "\<exists>h' r'. revoke env rid reviewer reason h = (h', Inr r')"
proof -
  have "\<exists>w'. revoke_work env reviewer reason w = (w', Inr ())" if "wk_run w = r" for w
    using assms that
    by (simp add: revoke_work_def step_simps check_greenlight_def clocks_ok_def Let_def split: option.splits if_splits)
  then obtain w' where "revoke_work env reviewer reason \<lparr>wk_run = r, wk_tick = or_tick h, wk_memory = or_memory h\<rparr> = (w', Inr ())"
    by fastforce
  then show ?thesis using assms(2) by (simp add: revoke_def on_run_def)
qed


end
