(* ===== verification/SerializationLaws.thy ===== *)
theory SerializationLaws
  imports Serialization OrchestratorSamples
begin

text \<open>
  Reading back what was written: each part of a document, then the whole run.
\<close>

section \<open>Each part is read back\<close>

declare to_primitive.simps(2) [simp del]

lemma py_str_text [simp]: "py_str (JStr s) = s"
  by (simp add: py_str_def)

lemma items_texts [simp]: "items_of (to_primitive (JList (map JStr xs))) = Inr (map JStr xs)"
  by (simp add: items_of_def comp_def)

lemma rmap_texts [simp]: "rmap string_item (map JStr xs) = Inr xs"
  using rmap_items [of xs string_item JStr "\<lambda>x. x"] by simp

lemma to_primitive_opt [simp]: "to_primitive (opt_json t) = opt_json t"
  by (cases t) (simp_all add: opt_json_def)

lemma optional_prim: "jget k kvs = Some (opt_json t) \<Longrightarrow> optional_text (to_primitive (JObj kvs)) k = Inr t"
  by (cases t) (simp_all add: optional_text_def dget_prim opt_json_def)

definition plain_artifact :: "artifact \<Rightarrow> artifact" where
  "plain_artifact a = a\<lparr>art_payload := prim_object (art_payload a)\<rparr>"

definition plain_evidence :: "tool_evidence \<Rightarrow> tool_evidence" where
  "plain_evidence e = e\<lparr>ev_payload := prim_object (ev_payload e)\<rparr>"

lemma payload_prim: "jget k kvs = Some (JObj p) \<Longrightarrow> payload_at (to_primitive (JObj kvs)) k = Inr (prim_object p)"
  by (simp add: payload_at_def reading prim_object_def)

lemma texts_prim: "jget k kvs = Some (JList (map JStr xs)) \<Longrightarrow> texts_or_empty (to_primitive (JObj kvs)) k = Inr xs"
  by (simp add: texts_or_empty_def dget_prim del: to_primitive.simps)

lemma text_at_prim: "jget k kvs = Some (JStr s) \<Longrightarrow> text_at (to_primitive (JObj kvs)) k = Inr s"
  and text_or_prim: "jget k kvs = Some (JStr s) \<Longrightarrow> text_or (to_primitive (JObj kvs)) k d = Inr s"
  by (simp_all add: reading)

lemmas parts = text_at_prim text_or_prim texts_prim payload_prim optional_prim mapping_prim dindex_prim dget_prim

lemma reads_artifact: "artifact_of (to_primitive (artifact_json a)) = Inr (plain_artifact a)"
  unfolding artifact_of_def artifact_json_def by (simp add: parts jget_def plain_artifact_def)

lemma reads_evidence: "evidence_of (to_primitive (evidence_json e)) = Inr (plain_evidence e)"
  unfolding evidence_of_def evidence_json_def by (simp add: parts jget_def plain_evidence_def)

lemma reads_event: "event_of iof (to_primitive (event_json e)) = Inr e"
  unfolding event_of_def event_json_def by (simp add: parts jget_def)

lemma reads_agent_state: "agent_state_of iof (role_value (as_role s), to_primitive (agent_state_json s)) = Inr (as_role s, s)"
  unfolding agent_state_of_def agent_state_json_def by (simp add: parts jget_def)

lemma rmap_platforms [simp]: "rmap platform_of (map (\<lambda>p. JStr (platform_value p)) ps) = Inr ps"
  using rmap_items [of ps platform_of "\<lambda>p. JStr (platform_value p)" "\<lambda>p. p"] by simp

lemma reads_greenlight: "check_greenlight g = Inr () \<Longrightarrow> greenlight_of iof (to_primitive (greenlight_json g)) = Inr g"
  unfolding greenlight_of_def greenlight_json_def by (cases g) (simp add: parts jget_def Let_def items_of_def comp_def)

lemma reads_execution: "check_execution x = Inr () \<Longrightarrow> execution_of iof (to_primitive (execution_json x)) = Inr x"
  unfolding execution_of_def execution_json_def by (cases x) (simp add: parts jget_def Let_def)

text \<open>Claims are mappings from texts to texts, as their annotation says.\<close>

definition text_claim :: "json \<Rightarrow> bool" where
  "text_claim c \<longleftrightarrow> (\<exists>d. c = JObj d \<and> (\<forall>(k, v) \<in> set d. \<exists>s. v = JStr s))"

definition claim_field :: "json \<Rightarrow> string \<Rightarrow> string \<Rightarrow> string" where
  "claim_field c k dflt = (case c of JObj d \<Rightarrow> py_str (get_or d k (JStr dflt)) | _ \<Rightarrow> dflt)"

definition plain_claim :: "json \<Rightarrow> json" where
  "plain_claim c = JObj [(''statement'', JStr (claim_field c ''statement'' [])), (''source'', JStr (claim_field c ''source'' [])),
     (''locator'', JStr (claim_field c ''locator'' [])),
     (''verification_status'', JStr (claim_field c ''verification_status'' ''unverified'')),
     (''reviewed_by'', JStr (claim_field c ''reviewed_by'' []))]"

lemma reads_claim: "text_claim c \<Longrightarrow> claim_of (to_primitive c) = Inr (plain_claim c)"
proof -
  assume "text_claim c"
  then obtain d where d: "c = JObj d" "\<And>k v. jget k d = Some v \<Longrightarrow> \<exists>s. v = JStr s"
    by (fastforce simp: text_claim_def jget_def dest: map_of_SomeD)
  have t: "text_or (to_primitive (JObj d)) k dflt = Inr (claim_field (JObj d) k dflt)" for k dflt
    using d(2) [of k] by (cases "jget k d") (auto simp: text_or_def dget_prim claim_field_def get_or_def)
  show ?thesis unfolding claim_of_def d(1) by (simp add: mapping_prim t plain_claim_def)
qed

definition plain_brief :: "brief \<Rightarrow> brief" where
  "plain_brief b = b\<lparr>evidence_claims := map plain_claim (evidence_claims b)\<rparr>"

lemma reads_brief:
  assumes "list_all text_claim (evidence_claims b)" and "check_brief (plain_brief b) = Inr ()"
  shows "brief_of iof (to_primitive (brief_json b)) = Inr (plain_brief b)"
proof -
  have claims: "rmap claim_of (map to_primitive (evidence_claims b)) = Inr (map plain_claim (evidence_claims b))"
    by (rule rmap_items) (use assms(1) in \<open>simp add: reads_claim list_all_iff\<close>)
  show ?thesis unfolding brief_of_def brief_json_def
    using assms(2) claims by (cases b) (simp add: parts jget_def Let_def items_of_def comp_def plain_brief_def)
qed

lemma claim_text_field:
  assumes "text_claim c" shows "claim_field c k dflt = (case c of JObj d \<Rightarrow> (case jget k d of Some (JStr s) \<Rightarrow> s | _ \<Rightarrow> dflt) | _ \<Rightarrow> dflt)"
proof -
  obtain d where d: "c = JObj d" "\<And>k v. jget k d = Some v \<Longrightarrow> \<exists>s. v = JStr s"
    using assms by (fastforce simp: text_claim_def jget_def dest: map_of_SomeD)
  show ?thesis using d(2) [of k] by (cases "jget k d") (auto simp: d(1) claim_field_def get_or_def)
qed

lemma plain_claim_checks: "text_claim c \<Longrightarrow> check_claim c = Inr () \<Longrightarrow> check_claim (plain_claim c) = Inr ()"
  by (cases c) (auto simp: check_claim_def plain_claim_def claim_field_def blank_field_def jget_def get_or_def Let_def
      split: if_splits option.splits json.splits)

lemma plain_brief_checks:
  assumes "list_all text_claim (evidence_claims b)" and "check_brief b = Inr ()"
  shows "check_brief (plain_brief b) = Inr ()"
proof -
  have claims: "list_all text_claim cs \<Longrightarrow> check_claims cs = Inr () \<Longrightarrow> check_claims (map plain_claim cs) = Inr ()" for cs
    by (induction cs) (auto simp: rbind_Inr_iff plain_claim_checks)
  have "check_claims (evidence_claims b) = Inr ()" using assms(2) by (auto simp: check_brief_def rbind_Inr_iff)
  then have c: "check_claims (map plain_claim (evidence_claims b)) = Inr ()" using claims assms(1) by blast
  have rp: "required_political (plain_brief b) = required_political b" by (simp add: required_political_def plain_brief_def)
  show ?thesis using assms(2) c unfolding check_brief_def rp by (simp add: plain_brief_def rbind_Inr_iff split: if_splits)
qed

lemma reads_states:
  assumes "\<And>x. as_role (s x) = x"
  shows "states_of iof (to_primitive (JObj (map (\<lambda>x. (role_value x, agent_state_json (s x))) AGENT_SEQUENCE))) = Inr s"
proof -
  let ?h = "\<lambda>x. (role_value x, to_primitive (agent_state_json (s x)))"
  let ?es = "sort_key fst (map ?h AGENT_SEQUENCE)"
  have prim: "to_primitive (JObj (map (\<lambda>x. (role_value x, agent_state_json (s x))) AGENT_SEQUENCE)) = JObj ?es"
    by (simp add: to_primitive.simps(2) comp_def)
  have "\<forall>e \<in> set ?es. \<exists>x. e = ?h x" by auto
  then obtain xs where xs: "?es = map ?h xs" using ex_map_conv [of ?es ?h] by blast
  have "?h ` set xs = ?h ` set AGENT_SEQUENCE" using arg_cong [OF xs, of set] by simp
  moreover have "inj ?h" by (rule injI) simp
  ultimately have all: "set xs = UNIV" by (metis agent_sequence_all(1) inj_image_eq_iff)
  have entry: "agent_state_of iof (?h x) = Inr (x, s x)" for x using reads_agent_state [of iof "s x"] assms [of x] by simp
  have r: "rmap (agent_state_of iof) ?es = Inr (map (\<lambda>x. (x, s x)) xs)" unfolding xs by (rule rmap_items) (rule entry)
  have m: "map_of (map (\<lambda>x. (x, s x)) xs) = (\<lambda>x. Some (s x))" by (simp add: map_of_map_restrict all fun_eq_iff)
  have none: "raise_first (map (\<lambda>x. (False, KeyError (role_value x))) ys) = Inr ()" for ys by (induction ys) simp_all
  show ?thesis unfolding prim states_of_def json.case r rbind_simps m by (simp add: none)
qed

definition plain_run :: "run \<Rightarrow> run" where
  "plain_run r = r\<lparr>run_brief := plain_brief (run_brief r), artifacts := map plain_artifact (artifacts r),
     evidence := map plain_evidence (evidence r)\<rparr>"

text \<open>What a run satisfies that the code wrote: valid brief, Greenlight and execution, claims of texts, and
  each station's state under its own name.\<close>

definition storable :: "run \<Rightarrow> bool" where
  "storable r \<longleftrightarrow> check_brief (run_brief r) = Inr () \<and> list_all text_claim (evidence_claims (run_brief r))
     \<and> (\<forall>x. as_role (state_for r x) = x) \<and> (\<forall>g. run_greenlight r = Some g \<longrightarrow> check_greenlight g = Inr ())
     \<and> check_execution (execution r) = Inr ()"

lemma reads_list: "(\<And>x. x \<in> set xs \<Longrightarrow> f (to_primitive (g x)) = Inr (h x)) \<Longrightarrow> jget k kvs = Some (JList (map g xs)) \<Longrightarrow>
    list_or_empty (to_primitive (JObj kvs)) k f = Inr (map h xs)"
  using rmap_items [of xs f "\<lambda>x. to_primitive (g x)" h] by (simp add: list_or_empty_def dget_prim items_of_def comp_def)

lemma not_null: "to_primitive (greenlight_json g) \<noteq> JNull" "to_primitive (execution_json x) \<noteq> JNull"
  by (simp_all add: greenlight_json_def execution_json_def to_primitive.simps(2))

lemma reads_optional_greenlight:
  "(\<forall>g. og = Some g \<longrightarrow> check_greenlight g = Inr ()) \<Longrightarrow>
   optional_greenlight iof (case og of None \<Rightarrow> JNull | Some g \<Rightarrow> to_primitive (greenlight_json g)) = Inr og"
  by (cases og) (simp_all add: optional_greenlight_def not_null reads_greenlight)

lemma document_is_object: "is_object (to_primitive (brief_json b))" "mapping (to_primitive (brief_json b)) = Inr (to_primitive (brief_json b))"
  by (simp_all add: brief_json_def mapping_prim) (simp add: is_object_def to_primitive.simps(2))

lemma reads_run:
  assumes "storable r"
  shows "execution_run_from_document iof (execution_run_to_document r) = Inr (plain_run r)"
proof -
  have st: "states_of iof (to_primitive (JObj (map (\<lambda>x. (role_value x, agent_state_json (state_for r x))) AGENT_SEQUENCE))) = Inr (state_for r)"
    using assms by (intro reads_states) (simp add: storable_def)
  have b: "brief_of iof (to_primitive (brief_json (run_brief r))) = Inr (plain_brief (run_brief r))"
    using assms plain_brief_checks by (intro reads_brief) (simp_all add: storable_def)
  have g: "optional_greenlight iof (to_primitive (case run_greenlight r of None \<Rightarrow> JNull | Some g \<Rightarrow> greenlight_json g)) = Inr (run_greenlight r)"
    using reads_optional_greenlight [of "run_greenlight r" iof] assms by (simp add: storable_def split: option.splits)
  have x: "optional_execution iof (to_primitive (execution_json (execution r))) = Inr (execution r)"
    using assms by (simp add: optional_execution_def not_null reads_execution storable_def)
  note lists = reads_list [where f = artifact_of and g = artifact_json and h = plain_artifact, OF reads_artifact]
    reads_list [where f = evidence_of and g = evidence_json and h = plain_evidence, OF reads_evidence]
    reads_list [where f = "event_of iof" and g = event_json and h = "\<lambda>e. e", OF reads_event]
  have eta: "state_for r = agent_states r" by (rule ext) (simp add: state_for_def)
  show ?thesis unfolding execution_run_from_document_def execution_run_to_document_def run_fields_def
    by (simp add: parts jget_def document_is_object b st g x lists) (simp add: plain_run_def eta)
qed

lemma plain_artifact_digest: "artifact_digest (plain_artifact a) = artifact_digest a"
proof -
  have "to_primitive (JObj (prim_object (art_payload a))) = to_primitive (JObj (art_payload a))"
    using to_primitive_idem [of "JObj (art_payload a)"] by (simp add: prim_object_def to_primitive.simps(2))
  then have "to_primitive (artifact_json (plain_artifact a)) = to_primitive (artifact_json a)"
    by (simp add: artifact_json_def plain_artifact_def to_primitive.simps(2))
  then show ?thesis by (simp add: artifact_digest_def canonical_json_def)
qed

lemma sample_storable:
  obtains r where "storable r" and "run_status r = Running" and "run_brief r = sample_brief"
proof -
  let ?h = "fst (create_run sample_orch_env sample_brief False sample_orchestrator)"
  obtain r where "or_runs ?h (stable_id ''run'' [brief_json sample_brief] 16) = Some r" "run_status r = Running" "storable r"
      "run_brief r = sample_brief"
    using sample_start_hyps(1,4)
    by (auto simp: create_run_def Let_def check_execution_def EXECUTION_STATES_def storable_def state_for_def new_agent_state_def)
      (simp add: sample_brief_def)
  then show ?thesis using that by blast
qed

text \<open>C38: a run that is written as a document and read back is the same run, but for the payloads, which
  come back with their keys sorted, and the evidence claims, which come back with five fields. Its
  artifacts keep their digests, so a Greenlight binds them as before.\<close>

theorem document_roundtrip:
  assumes "storable r"
  shows "execution_run_from_document iof (execution_run_to_document r) = Inr (plain_run r)
    \<and> map artifact_digest (artifacts (plain_run r)) = map artifact_digest (artifacts r)
    \<and> run_greenlight (plain_run r) = run_greenlight r"
  using reads_run [OF assms] by (simp add: plain_run_def comp_def plain_artifact_digest)

theorem document_roundtrip_witness:
  "\<exists>r. storable r \<and> run_status r = Running \<and> run_brief r = sample_brief
     \<and> execution_run_from_document (\<lambda>_. Inr 0) (execution_run_to_document r) = Inr (plain_run r)"
proof -
  obtain r where r: "storable r" "run_status r = Running" "run_brief r = sample_brief" by (rule sample_storable)
  show ?thesis using document_roundtrip [OF r(1), of "\<lambda>_. Inr 0"] r by blast
qed

end
