(* ===== verification/RunStoreLaws.thy ===== *)
theory RunStoreLaws
  imports RunStore SerializationLaws
begin

text \<open>
  What the store promises: keys, token hashes and the audit chains stay consistent over every sequence of
  operations, a saved run is read back, a save with an expected status is a compare-and-swap, and a
  session authenticates its token until it expires or is revoked.
\<close>

section \<open>The invariant\<close>

definition run_row_ok :: "run_row \<Rightarrow> bool" where
  "run_row_ok x \<longleftrightarrow> (\<exists>r. rr_document x = execution_run_to_document r \<and> rr_run_id x = run_id r
     \<and> rr_status x = run_status_value (run_status r))"

definition session_row_ok :: "session_row \<Rightarrow> bool" where
  "session_row_ok x \<longleftrightarrow> ss_created_at x + 300 \<le> ss_expires_at x \<and> ss_expires_at x \<le> ss_created_at x + 86400"

definition db_inv :: "run_db \<Rightarrow> bool" where
  "db_inv db \<longleftrightarrow> ledger_inv (db_ledger db)
     \<and> distinct (map (\<lambda>x. (rr_tenant_id x, rr_run_id x)) (db_runs db)) \<and> list_all run_row_ok (db_runs db)
     \<and> distinct (map ss_session_id (db_sessions db)) \<and> distinct (map ss_session_token_hash (db_sessions db))
     \<and> list_all session_row_ok (db_sessions db)"

definition empty_db :: run_db where
  "empty_db = \<lparr>db_runs = [], db_ledger = empty_ledger, db_sessions = []\<rparr>"

text \<open>One operation that returned.\<close>

inductive db_step :: "(int \<Rightarrow> string) \<Rightarrow> run_db \<Rightarrow> run_db \<Rightarrow> bool" for at_time where
  created: "run_create db t r ow ts s = Inr db' \<Longrightarrow> db_step at_time db db'"
| saved: "run_save db t r ow ex ts s = Inr db' \<Longrightarrow> db_step at_time db db'"
| appended: "append_audit (db_ledger db) t w tm uuid = Inr l \<Longrightarrow> db_step at_time db (db\<lparr>db_ledger := l\<rparr>)"
| session_created: "create_session at_time db t fp ttl rq ac sub ro k cr seed s = Inr (db', i) \<Longrightarrow> db_step at_time db db'"
| csrf_rotated: "rotate_session_csrf db sid csrf clk = Inr (db', i) \<Longrightarrow> db_step at_time db db'"
| session_revoked: "revoke_session at_time db t sid rq ac rv s = Inr db' \<Longrightarrow> db_step at_time db db'"

text \<open>The databases a history of operations leads to.\<close>

abbreviation db_history :: "(int \<Rightarrow> string) \<Rightarrow> run_db \<Rightarrow> run_db \<Rightarrow> bool" where
  "db_history at_time \<equiv> (db_step at_time)\<^sup>*\<^sup>*"

section \<open>Successful operations\<close>

lemma audited_Inr:
  "audited db t w s = Inr db' \<longleftrightarrow> (\<exists>l. append_audit_locked (db_ledger db) t w (st_clock s) (st_uuid s) = Inr l
     \<and> db' = db\<lparr>db_ledger := l\<rparr>)"
  by (auto simp: audited_def rbind_Inr_iff)

lemma integrity_error_Inl: "integrity_error db t ow e \<noteq> Inr db'"
  by (auto simp: integrity_error_def rbind_Inr_iff split: option.splits if_splits)

lemma on_integrity_error_Inr: "on_integrity_error a (integrity_error db t ow e) = Inr db' \<longleftrightarrow> a = Inr db'"
  by (simp add: on_integrity_error_def integrity_error_Inl)

text \<open>The ledger after an audited step, and that nothing else changes.\<close>

definition audit_of :: "run_db \<Rightarrow> string \<Rightarrow> audit_write option \<Rightarrow> stamp \<Rightarrow> run_db \<Rightarrow> bool" where
  "audit_of db t ow s db' \<longleftrightarrow> (case ow of None \<Rightarrow> db_ledger db' = db_ledger db
     | Some w \<Rightarrow> append_audit_locked (db_ledger db) t w (st_clock s) (st_uuid s) = Inr (db_ledger db'))"

lemma audited_if_Inr:
  "audited_if db t ow s = Inr db' \<longleftrightarrow> audit_of db t ow s db' \<and> db_runs db' = db_runs db \<and> db_sessions db' = db_sessions db"
  by (cases ow) (auto simp: audited_if_def audit_of_def audited_Inr)

lemma audit_of_other_tables [simp]:
  "audit_of (db\<lparr>db_runs := xs\<rparr>) = audit_of db" "audit_of (db\<lparr>db_sessions := ys\<rparr>) = audit_of db"
  by (auto simp: audit_of_def fun_eq_iff split: option.splits)

lemma audit_of_Some: "audit_of db t (Some w) s db' \<longleftrightarrow> append_audit_locked (db_ledger db) t w (st_clock s) (st_uuid s) = Inr (db_ledger db')"
  by (simp add: audit_of_def)

definition created_row :: "string \<Rightarrow> run \<Rightarrow> string \<Rightarrow> run_row" where
  "created_row t r ts = \<lparr>rr_tenant_id = t, rr_run_id = run_id r, rr_status = run_status_value (run_status r),
     rr_document = execution_run_to_document r, rr_created_at = ts, rr_updated_at = ts\<rparr>"

lemma run_create_Inr:
  "run_create db t r ow ts s = Inr db' \<longleftrightarrow>
     \<not> list_ex (run_key t (run_id r)) (db_runs db) \<and> db_runs db' = db_runs db @ [created_row t r ts]
     \<and> audit_of db t ow s db' \<and> db_sessions db' = db_sessions db"
  unfolding run_create_def on_integrity_error_Inr by (auto simp: audited_if_Inr created_row_def)

definition saved_row :: "run \<Rightarrow> string \<Rightarrow> run_row \<Rightarrow> run_row" where
  "saved_row r ts x = x\<lparr>rr_status := run_status_value (run_status r), rr_document := execution_run_to_document r,
     rr_updated_at := ts\<rparr>"

lemma run_save_Inr:
  "run_save db t r ow ex ts s = Inr db' \<longleftrightarrow>
     sql_count (save_matches t (run_id r) ex) (db_runs db) = 1
     \<and> db_runs db' = sql_update (save_matches t (run_id r) ex) (saved_row r ts) (db_runs db)
     \<and> audit_of db t ow s db' \<and> db_sessions db' = db_sessions db"
  unfolding run_save_def Let_def on_integrity_error_Inr
  by (auto simp: audited_if_Inr saved_row_def [abs_def])

lemma create_session_Inr:
  "create_session at_time db t fp ttl rq ac sub ro k cr seed s = Inr (db', i) \<longleftrightarrow>
     (let x = new_session t fp ttl sub ro k cr seed in 300 \<le> ttl \<and> ttl \<le> 86400
     \<and> (\<forall>y \<in> set (db_sessions db). ss_session_id y \<noteq> ss_session_id x \<and> ss_session_token_hash y \<noteq> ss_session_token_hash x)
     \<and> check_audit_write (session_created_event at_time x rq ac) = Inr ()
     \<and> audit_of db t (Some (session_created_event at_time x rq ac)) s db'
     \<and> db_sessions db' = db_sessions db @ [x] \<and> db_runs db' = db_runs db
     \<and> i = session_issue_of x (sd_session_token seed) (sd_csrf_token seed))"
  by (auto simp: create_session_def Let_def checked_audited_def rbind_Inr_iff audited_Inr audit_of_Some list_ex_iff)

lemma rotate_Inr:
  "rotate_session_csrf db sid csrf clk = Inr (db', i) \<longleftrightarrow>
     (\<exists>x. sql_find (\<lambda>x. ss_session_id x = sid) (db_sessions db) = Some x \<and> ss_revoked_at x = None \<and> clk < ss_expires_at x
     \<and> i = session_issue_of x [] csrf \<and> db' = db\<lparr>db_sessions := sql_update (\<lambda>y. ss_session_id y = sid)
         (\<lambda>y. y\<lparr>ss_csrf_token_hash := sha256_text csrf\<rparr>) (db_sessions db)\<rparr>)"
  by (auto simp: rotate_session_csrf_def split: option.splits)

definition active_session :: "string \<Rightarrow> string \<Rightarrow> session_row \<Rightarrow> bool" where
  "active_session t sid x \<longleftrightarrow> ss_tenant_id x = t \<and> ss_session_id x = sid \<and> ss_revoked_at x = None"

lemma revoke_session_Inr:
  "revoke_session at_time db t sid rq ac rv s = Inr db' \<longleftrightarrow>
     sql_count (active_session t sid) (db_sessions db) = 1
     \<and> check_audit_write (session_revoked_event at_time sid rq ac rv) = Inr ()
     \<and> audit_of db t (Some (session_revoked_event at_time sid rq ac rv)) s db'
     \<and> db_sessions db' = sql_update (active_session t sid) (\<lambda>x. x\<lparr>ss_revoked_at := Some rv\<rparr>) (db_sessions db)
     \<and> db_runs db' = db_runs db"
  by (auto simp: revoke_session_def Let_def checked_audited_def rbind_Inr_iff audited_Inr audit_of_Some active_session_def [abs_def])

lemmas store_success = run_create_Inr run_save_Inr create_session_Inr rotate_Inr revoke_session_Inr

section \<open>Every step keeps the invariant\<close>

lemma audit_of_inv: "audit_of db t ow s db' \<Longrightarrow> ledger_inv (db_ledger db) \<Longrightarrow> ledger_inv (db_ledger db')"
  by (cases ow) (auto simp: audit_of_def dest: append_inv)

lemma sessions_updated:
  assumes "\<And>x. ss_session_id (f x) = ss_session_id x \<and> ss_session_token_hash (f x) = ss_session_token_hash x
      \<and> ss_created_at (f x) = ss_created_at x \<and> ss_expires_at (f x) = ss_expires_at x"
  shows "map ss_session_id (sql_update p f xs) = map ss_session_id xs"
    and "map ss_session_token_hash (sql_update p f xs) = map ss_session_token_hash xs"
    and "list_all session_row_ok (sql_update p f xs) = list_all session_row_ok xs"
proof -
  have "(session_row_ok \<circ> (\<lambda>x. if p x then f x else x)) = session_row_ok" using assms by (auto simp: session_row_ok_def fun_eq_iff)
  then show "list_all session_row_ok (sql_update p f xs) = list_all session_row_ok xs" by (simp add: sql_update_def list.pred_map)
qed (use assms in \<open>auto simp: sql_update_def\<close>)

lemma runs_saved:
  "map (\<lambda>x. (rr_tenant_id x, rr_run_id x)) (sql_update p (saved_row r ts) xs) = map (\<lambda>x. (rr_tenant_id x, rr_run_id x)) xs"
  "list_all run_row_ok xs \<Longrightarrow> list_all run_row_ok (sql_update (save_matches t (run_id r) ex) (saved_row r ts) xs)"
  by (auto simp: sql_update_def list_all_iff saved_row_def run_row_ok_def save_matches_def run_key_def)

lemma db_step_inv: "db_step at_time db db' \<Longrightarrow> db_inv db \<Longrightarrow> db_inv db'"
proof (induction rule: db_step.induct)
  case (created db t r ow ts s db')
  then show ?case
    by (auto simp: db_inv_def run_create_Inr list_ex_iff run_key_def created_row_def run_row_ok_def dest: audit_of_inv)
next
  case (saved db t r ow ex ts s db')
  then show ?case by (auto simp: db_inv_def run_save_Inr runs_saved dest: audit_of_inv)
next
  case (appended db t w tm uuid l)
  then show ?case by (auto simp: db_inv_def append_audit_Inr dest: append_inv)
next
  case (session_created db t fp ttl rq ac sub ro k cr seed s db' i)
  then show ?case
    by (auto simp: db_inv_def create_session_Inr Let_def new_session_def session_row_ok_def dest: audit_of_inv)
next
  case (csrf_rotated db sid csrf clk db' i)
  then show ?case by (auto simp: db_inv_def rotate_Inr sessions_updated)
next
  case (session_revoked db t sid rq ac rv s db')
  then show ?case by (auto simp: db_inv_def revoke_session_Inr sessions_updated dest: audit_of_inv)
qed

lemma db_history_inv: "db_history at_time db db' \<Longrightarrow> db_inv db \<Longrightarrow> db_inv db'"
  by (induction rule: rtranclp_induct) (auto dest: db_step_inv)

lemma empty_db_inv: "db_inv empty_db"
  by (simp add: db_inv_def empty_db_def empty_ledger_inv)

section \<open>Runs\<close>

lemma run_row_unique:
  assumes "db_inv db" and "x \<in> set (db_runs db)" and "run_key t rid x"
  shows "sql_find (run_key t rid) (db_runs db) = Some x"
    and "sql_count (save_matches t rid ex) (db_runs db) = (if save_matches t rid ex x then 1 else 0)"
proof -
  let ?k = "\<lambda>x. (rr_tenant_id x, rr_run_id x)"
  have d: "distinct (map ?k (db_runs db))" using assms(1) by (simp add: db_inv_def)
  show "sql_find (run_key t rid) (db_runs db) = Some x"
    by (rule sql_find_unique [where k = ?k and p = "run_key t rid", OF d assms(2,3)]) (use assms(3) in \<open>simp add: run_key_def\<close>)
  have one: "y = x" if "y \<in> set (db_runs db)" "run_key t rid y" for y
    using unique_key [where k = ?k, OF d that(1) assms(2)] that(2) assms(3) by (simp add: run_key_def)
  have "sql_count (save_matches t rid ex) (db_runs db) \<le> 1"
    by (rule sql_count_unique [where k = ?k, OF d]) (auto simp: save_matches_def run_key_def)
  moreover have "0 < sql_count (save_matches t rid ex) (db_runs db) \<longleftrightarrow> save_matches t rid ex x"
    unfolding sql_count_pos using assms(2) one by (auto simp: save_matches_def)
  ultimately show "sql_count (save_matches t rid ex) (db_runs db) = (if save_matches t rid ex x then 1 else 0)" by auto
qed

text \<open>A save that returned wrote the one row of the run.\<close>

lemma run_save_row:
  assumes "db_inv db" and "run_save db t r ow ex ts s = Inr db'"
  obtains x where "x \<in> set (db_runs db)" and "save_matches t (run_id r) ex x"
    and "sql_find (run_key t (run_id r)) (db_runs db') = Some (saved_row r ts x)"
proof -
  have c: "sql_count (save_matches t (run_id r) ex) (db_runs db) = 1" using assms(2) by (simp add: run_save_Inr)
  then have "0 < sql_count (save_matches t (run_id r) ex) (db_runs db)" by simp
  then obtain x where x: "x \<in> set (db_runs db)" "save_matches t (run_id r) ex x" unfolding sql_count_pos by blast
  have inv: "db_inv db'" by (rule db_step_inv [OF db_step.saved [OF assms(2)] assms(1)])
  have "saved_row r ts x \<in> set (db_runs db')" "run_key t (run_id r) (saved_row r ts x)"
    using assms(2) x by (auto simp: run_save_Inr sql_update_def save_matches_def run_key_def saved_row_def)
  then show ?thesis using that [OF x] run_row_unique(1) [OF inv] by blast
qed

lemma other_run_find:
  assumes "(t', rid) \<noteq> (t, run_id r)" and "run_save db t r ow ex ts s = Inr db'"
  shows "sql_find (run_key t' rid) (db_runs db') = sql_find (run_key t' rid) (db_runs db)"
proof -
  have u: "sql_find (run_key t' rid) (sql_update p (saved_row r ts) xs) = sql_find (run_key t' rid) xs"
    if "\<And>x. p x \<Longrightarrow> \<not> run_key t' rid x" for p xs
    using that by (induction xs) (auto simp: sql_find_def sql_update_def run_key_def saved_row_def)
  show ?thesis using assms by (auto simp: run_save_Inr save_matches_def run_key_def intro!: u)
qed

text \<open>C26: a save that returned is read back: the run of the key is the saved one, up to the order of
  payload keys and the five claim fields, and every other run of every tenant reads as before.\<close>

theorem saved_run_read_back:
  assumes "db_history at_time empty_db db" and "storable r" and "run_save db t r ow ex ts s = Inr db'"
  shows "run_get iof db' t (run_id r) = Inr (plain_run r)
    \<and> ((t', rid) \<noteq> (t, run_id r) \<longrightarrow> run_get iof db' t' rid = run_get iof db t' rid)"
proof -
  have inv: "db_inv db" using db_history_inv [OF assms(1) empty_db_inv] .
  obtain x where x: "sql_find (run_key t (run_id r)) (db_runs db') = Some (saved_row r ts x)"
    using run_save_row [OF inv assms(3)] by blast
  have "run_get iof db' t (run_id r) = Inr (plain_run r)"
    using reads_run [OF assms(2)] by (simp add: run_get_def x saved_row_def)
  moreover have "(t', rid) \<noteq> (t, run_id r) \<Longrightarrow> run_get iof db' t' rid = run_get iof db t' rid"
    using other_run_find [OF _ assms(3)] by (simp add: run_get_def)
  ultimately show ?thesis by blast
qed


section \<open>Sessions\<close>

lemma session_unique:
  assumes "db_inv db" and "x \<in> set (db_sessions db)"
  shows "sql_find (\<lambda>y. ss_session_id y = ss_session_id x) (db_sessions db) = Some x"
    and "sql_find (\<lambda>y. ss_session_token_hash y = ss_session_token_hash x) (db_sessions db) = Some x"
  using assms by (auto simp: db_inv_def intro: sql_find_unique [where k = ss_session_id] sql_find_unique [where k = ss_session_token_hash])

lemma authenticate_Inr:
  "authenticate_session db token clk = Inr rec \<longleftrightarrow> token \<noteq> [] \<and>
     (\<exists>x. sql_find (\<lambda>x. ss_session_token_hash x = sha256_text token) (db_sessions db) = Some x \<and> ss_revoked_at x = None
       \<and> clk < ss_expires_at x \<and> rec = session_record_of x)"
  by (auto simp: authenticate_session_def split: option.splits dest: sql_find_Some)

text \<open>C23: a session that was created authenticates its token and accepts its CSRF token exactly until it
  expires, and then names the tenant, the subject and the role it was created for.\<close>

theorem session_authenticates:
  assumes "db_history at_time empty_db db"
    and "create_session at_time db t fp ttl rq ac sub ro k cr seed s = Inr (db', i)"
    and "sd_session_token seed \<noteq> []" and "sd_csrf_token seed \<noteq> []"
  shows "if clk < cr + ttl
     then verify_session_csrf db' (si_session_id i) (si_csrf_token i) clk = Inr ()
       \<and> authenticate_session db' (si_session_token i) clk = Inr \<lparr>sr_session_id = si_session_id i, sr_tenant_id = t,
           sr_subject_id = (if sub = [] then ''tenant:'' @ t else sub), sr_role = ro,
           sr_key_id = (if k = [] then ''legacy:'' @ t else k), sr_credential_fingerprint = fp,
           sr_created_at = cr, sr_expires_at = cr + ttl, sr_revoked_at = None\<rparr>
     else authenticate_session db' (si_session_token i) clk = Inl (SessionAuthenticationError ''browser session is expired'')
       \<and> verify_session_csrf db' (si_session_id i) (si_csrf_token i) clk = Inl (SessionCsrfError ''browser session is expired'')"
proof -
  define x where "x = new_session t fp ttl sub ro k cr seed"
  have inv: "db_inv db'"
    using db_history_inv [OF assms(1) empty_db_inv] db_step_inv [OF db_step.session_created [OF assms(2)]] by simp
  have x: "x \<in> set (db_sessions db')" and i: "i = session_issue_of x (sd_session_token seed) (sd_csrf_token seed)"
    using assms(2) by (simp_all add: create_session_Inr Let_def x_def)
  have f: "sql_find (\<lambda>y. ss_session_id y = si_session_id i) (db_sessions db') = Some x"
    "sql_find (\<lambda>y. ss_session_token_hash y = sha256_text (si_session_token i)) (db_sessions db') = Some x"
    using session_unique [OF inv x] by (simp_all add: i session_issue_of_def x_def new_session_def)
  show ?thesis unfolding authenticate_session_def verify_session_csrf_def f using assms(3,4)
    by (simp add: i session_issue_of_def session_record_of_def x_def new_session_def)
qed

definition revoked_among :: "string \<Rightarrow> session_row list \<Rightarrow> bool" where
  "revoked_among sid xs \<longleftrightarrow> (\<exists>x \<in> set xs. ss_session_id x = sid \<and> ss_revoked_at x \<noteq> None)"

abbreviation revoked_in :: "run_db \<Rightarrow> string \<Rightarrow> bool" where
  "revoked_in db sid \<equiv> revoked_among sid (db_sessions db)"

lemma revoked_sql_update:
  assumes "\<And>x. ss_session_id (f x) = ss_session_id x" "\<And>x. ss_revoked_at x \<noteq> None \<Longrightarrow> ss_revoked_at (f x) \<noteq> None"
    and "revoked_among sid xs"
  shows "revoked_among sid (sql_update p f xs)"
proof -
  obtain x where "x \<in> set xs" "ss_session_id x = sid" "ss_revoked_at x \<noteq> None" using assms(3) by (auto simp: revoked_among_def)
  then show ?thesis using assms(1,2) [of x] unfolding revoked_among_def
    by (intro bexI [of _ "if p x then f x else x"]) (auto simp: sql_update_def)
qed

lemma revoked_append: "revoked_among sid xs \<Longrightarrow> revoked_among sid (xs @ ys)"
  by (auto simp: revoked_among_def)

lemma db_step_revoked: "db_step at_time db db' \<Longrightarrow> revoked_in db sid \<Longrightarrow> revoked_in db' sid"
  by (induction rule: db_step.induct)
    (auto simp: store_success Let_def intro!: revoked_sql_update intro: revoked_append)

lemma db_history_revoked: "db_history at_time db db' \<Longrightarrow> revoked_in db sid \<Longrightarrow> revoked_in db' sid"
  by (induction rule: rtranclp_induct) (auto dest: db_step_revoked)

lemma revoked_refused:
  assumes "db_inv db" and "revoked_in db sid"
  shows "authenticate_session db token clk = Inr rec \<Longrightarrow> sr_session_id rec \<noteq> sid"
    and "verify_session_csrf db sid csrf clk \<noteq> Inr ()" and "rotate_session_csrf db sid csrf clk \<noteq> Inr di"
proof -
  obtain x where x: "x \<in> set (db_sessions db)" "ss_session_id x = sid" "ss_revoked_at x \<noteq> None"
    using assms(2) by (auto simp: revoked_among_def)
  have f: "sql_find (\<lambda>y. ss_session_id y = sid) (db_sessions db) = Some x" using session_unique(1) [OF assms(1) x(1)] x(2) by simp
  show "verify_session_csrf db sid csrf clk \<noteq> Inr ()" "rotate_session_csrf db sid csrf clk \<noteq> Inr di"
    using x(3) by (simp_all add: verify_session_csrf_def rotate_session_csrf_def f)
  assume "authenticate_session db token clk = Inr rec"
  then obtain y where y: "y \<in> set (db_sessions db)" "ss_revoked_at y = None" "rec = session_record_of y"
    by (auto simp: authenticate_Inr dest: sql_find_Some)
  show "sr_session_id rec \<noteq> sid"
  proof
    assume "sr_session_id rec = sid"
    then have "ss_session_id y = ss_session_id x" using y(3) x(2) by (simp add: session_record_of_def)
    then have "y = x" using assms(1) unique_key [where k = ss_session_id, OF _ y(1) x(1)] by (simp add: db_inv_def)
    then show False using x(3) y(2) by simp
  qed
qed

text \<open>C24: revocation is final. After a session was revoked, no sequence of operations lets any token
  authenticate it, any CSRF token pass for it or its CSRF token be rotated, at any time.\<close>

theorem session_revocation_final:
  assumes "db_history at_time empty_db db" and "revoke_session at_time db t sid rq ac rv s = Inr db1"
    and "db_history at_time db1 db2"
  shows "(\<forall>token clk rec. authenticate_session db2 token clk = Inr rec \<longrightarrow> sr_session_id rec \<noteq> sid)
    \<and> (\<forall>csrf clk. verify_session_csrf db2 sid csrf clk \<noteq> Inr ())
    \<and> (\<forall>csrf clk di. rotate_session_csrf db2 sid csrf clk \<noteq> Inr di)"
proof -
  have "0 < sql_count (active_session t sid) (db_sessions db)" using assms(2) by (simp add: revoke_session_Inr)
  then obtain x where "x \<in> set (db_sessions db)" "active_session t sid x" unfolding sql_count_pos by blast
  then have "x\<lparr>ss_revoked_at := Some rv\<rparr> \<in> set (db_sessions db1)" "ss_session_id (x\<lparr>ss_revoked_at := Some rv\<rparr>) = sid"
    using assms(2) by (auto simp: revoke_session_Inr sql_update_def active_session_def)
  then have "revoked_in db1 sid" unfolding revoked_among_def by (intro bexI) simp_all
  then have r: "revoked_in db2 sid" by (rule db_history_revoked [OF assms(3)])
  have "db_history at_time empty_db db2"
    using assms(1) db_step.session_revoked [OF assms(2)] assms(3) by (meson rtranclp.rtrancl_into_rtrancl rtranclp_trans)
  then have "db_inv db2" by (rule db_history_inv [OF _ empty_db_inv])
  then show ?thesis using revoked_refused [OF _ r] by blast
qed

text \<open>The audit event of a session in its tenant's chain.\<close>

definition session_event :: "ledger \<Rightarrow> string \<Rightarrow> session_row \<Rightarrow> bool" where
  "session_event l act x \<longleftrightarrow> (\<exists>e \<in> set (led_events l). row_tenant e = ss_tenant_id x \<and> ac_action (ar_content e) = act
     \<and> ac_resource_type (ar_content e) = ''browser_session'' \<and> ac_resource_id (ar_content e) = ss_session_id x)"

definition session_audited :: "ledger \<Rightarrow> session_row \<Rightarrow> bool" where
  "session_audited l x \<longleftrightarrow> session_event l ''session.created'' x
     \<and> (ss_revoked_at x \<noteq> None \<longrightarrow> session_event l ''session.revoked'' x)"

lemma appended_content_fields [simp]:
  "ac_action (appended_content t w tm uuid) = aw_action w"
  "ac_resource_type (appended_content t w tm uuid) = aw_resource_type w"
  "ac_resource_id (appended_content t w tm uuid) = aw_resource_id w"
  by (simp_all add: appended_content_def canonical_content_def)

lemma audit_of_events:
  assumes "audit_of db t ow s db'" and "ledger_inv (db_ledger db)"
  shows "led_events (db_ledger db') = led_events (db_ledger db)
     @ (case ow of None \<Rightarrow> [] | Some w \<Rightarrow> [appended_row (db_ledger db) t w (st_clock s) (st_uuid s)])"
  using assms append_inv by (cases ow) (fastforce simp: audit_of_def)+

lemma audited_mono: "session_audited l x \<Longrightarrow> set (led_events l) \<subseteq> set (led_events l') \<Longrightarrow> session_audited l' x"
  by (fastforce simp: session_audited_def session_event_def)

lemma audited_updated:
  assumes "session_audited l x" and "ss_session_id y = ss_session_id x" "ss_tenant_id y = ss_tenant_id x"
    and "ss_revoked_at y = ss_revoked_at x \<or> session_event l ''session.revoked'' y"
  shows "session_audited l y"
  using assms by (auto simp: session_audited_def session_event_def)

lemma events_grow: "db_step at_time db db' \<Longrightarrow> ledger_inv (db_ledger db) \<Longrightarrow> set (led_events (db_ledger db)) \<subseteq> set (led_events (db_ledger db'))"
  by (induction rule: db_step.induct)
    (auto simp: store_success Let_def append_audit_Inr audit_of_events dest: append_inv)

lemma db_step_audited:
  assumes "db_step at_time db db'" and "db_inv db" and "\<forall>x \<in> set (db_sessions db). session_audited (db_ledger db) x"
  shows "\<forall>x \<in> set (db_sessions db'). session_audited (db_ledger db') x"
proof -
  have l: "ledger_inv (db_ledger db)" using assms(2) by (simp add: db_inv_def)
  have old: "session_audited (db_ledger db') x" if "x \<in> set (db_sessions db)" for x
    using audited_mono events_grow [OF assms(1) l] assms(3) that by blast
  from assms(1) show ?thesis
  proof cases
    case (session_created t fp ttl rq ac sub ro k cr seed s i)
    then have new: "session_audited (db_ledger db') (new_session t fp ttl sub ro k cr seed)"
      using audit_of_events [OF _ l]
      by (auto simp: create_session_Inr Let_def session_audited_def session_event_def session_created_event_def new_session_def)
    then show ?thesis using session_created old by (auto simp: create_session_Inr Let_def)
  next
    case (session_revoked t sid rq ac rv s)
    have ev: "session_event (db_ledger db') ''session.revoked'' (x\<lparr>ss_revoked_at := Some rv\<rparr>)" if "active_session t sid x" for x
      using audit_of_events [OF _ l] session_revoked that
      by (auto simp: revoke_session_Inr session_event_def session_revoked_event_def active_session_def)
    show ?thesis
    proof
      fix y assume "y \<in> set (db_sessions db')"
      then obtain x where x: "x \<in> set (db_sessions db)" "y = (if active_session t sid x then x\<lparr>ss_revoked_at := Some rv\<rparr> else x)"
        using session_revoked by (auto simp: revoke_session_Inr sql_update_def)
      show "session_audited (db_ledger db') y"
        by (rule audited_updated [OF old [OF x(1)]]) (use ev [of x] in \<open>auto simp: x(2)\<close>)
    qed
  next
    case (csrf_rotated sid csrf clk i)
    show ?thesis
    proof
      fix y assume "y \<in> set (db_sessions db')"
      then obtain x where x: "x \<in> set (db_sessions db)"
          "y = (if ss_session_id x = sid then x\<lparr>ss_csrf_token_hash := sha256_text csrf\<rparr> else x)"
        using csrf_rotated by (auto simp: rotate_Inr sql_update_def)
      show "session_audited (db_ledger db') y"
        by (rule audited_updated [OF old [OF x(1)]]) (auto simp: x(2))
    qed
  qed (use old in \<open>simp_all add: run_create_Inr run_save_Inr\<close>)
qed

text \<open>No session without its audit trail. Over every history each stored session has its creation event
  in its tenant's chain and, if it is revoked, its revocation event, and that chain verifies.\<close>

theorem sessions_audited:
  assumes "db_history at_time empty_db db" and "x \<in> set (db_sessions db)"
    and "strip (ss_tenant_id x) \<noteq> []" and "tm \<noteq> []"
  shows "session_audited (db_ledger db) x \<and> (\<exists>c. verify_audit_chain (db_ledger db) (ss_tenant_id x) tm = Inr c)"
proof -
  have "db_inv db \<and> (\<forall>x \<in> set (db_sessions db). session_audited (db_ledger db) x)"
    using assms(1) by (induction rule: rtranclp_induct) (use db_step_audited db_step_inv empty_db_inv in \<open>auto simp: empty_db_def\<close>)
  then show ?thesis using verify_ok [OF _ assms(3,4)] assms(2) by (auto simp: db_inv_def)
qed

section \<open>Samples\<close>

definition sample_seed :: session_seed where
  "sample_seed = \<lparr>sd_uuid = ''1'', sd_session_token = ''tok'', sd_csrf_token = ''csrf''\<rparr>"

abbreviation sample_stamp :: "string \<Rightarrow> stamp" where
  "sample_stamp u \<equiv> \<lparr>st_clock = ''2026-01-01T00:00:00+00:00'', st_uuid = u\<rparr>"

abbreviation sample_time :: "int \<Rightarrow> string" where
  "sample_time \<equiv> \<lambda>_. ''2026-01-01T00:05:00+00:00''"

lemma sample_session:
  obtains db i x where "create_session sample_time empty_db ''acme'' ''fp'' 300 ''rq'' ''ann'' [] ''admin'' [] 100 sample_seed
      (sample_stamp ''0'') = Inr (db, i)"
    and "db_sessions db = [x]" and "ss_session_id x = ''session-1''" and "ss_tenant_id x = ''acme''" and "ss_revoked_at x = None"
    and "db_inv db" and "map row_event_id (led_events (db_ledger db)) = [''audit-0'']"
proof -
  let ?x = "new_session ''acme'' ''fp'' 300 [] ''admin'' [] 100 sample_seed"
  let ?w = "session_created_event sample_time ?x ''rq'' ''ann''"
  let ?l = "append_row empty_ledger (appended_row empty_ledger ''acme'' ?w ''2026-01-01T00:00:00+00:00'' ''0'')"
  let ?db = "\<lparr>db_runs = [], db_ledger = ?l, db_sessions = [?x]\<rparr>"
  have w: "check_audit_write ?w = Inr ()"
    by (simp add: check_audit_write_def session_created_event_def new_session_def sample_seed_def strip_simps is_space_def)
  have a: "audit_of empty_db ''acme'' (Some ?w) (sample_stamp ''0'') ?db"
    unfolding audit_of_Some empty_db_def run_db.simps stamp.simps append_audit_locked_eq [OF empty_ledger_inv]
    by (simp add: empty_ledger_def Let_def)
  have c: "create_session sample_time empty_db ''acme'' ''fp'' 300 ''rq'' ''ann'' [] ''admin'' [] 100 sample_seed
      (sample_stamp ''0'') = Inr (?db, session_issue_of ?x ''tok'' ''csrf'')"
    unfolding create_session_Inr Let_def using w a by (simp add: empty_db_def sample_seed_def)
  have inv: "db_inv ?db" by (rule db_step_inv [OF db_step.session_created [OF c] empty_db_inv])
  show ?thesis
    by (rule that [of ?db _ ?x, OF c _ _ _ _ inv]) (simp_all add: new_session_def sample_seed_def session_created_event_def empty_ledger_def)
qed

theorem session_authenticates_witness:
  "\<exists>db i. create_session sample_time empty_db ''acme'' ''fp'' 300 ''rq'' ''ann'' [] ''admin'' [] 100 sample_seed (sample_stamp ''0'') = Inr (db, i)
     \<and> verify_session_csrf db (si_session_id i) (si_csrf_token i) 399 = Inr ()
     \<and> authenticate_session db (si_session_token i) 400 = Inl (SessionAuthenticationError ''browser session is expired'')"
proof -
  obtain db i where c: "create_session sample_time empty_db ''acme'' ''fp'' 300 ''rq'' ''ann'' [] ''admin'' [] 100 sample_seed
      (sample_stamp ''0'') = Inr (db, i)" by (rule sample_session)
  have s: "sd_session_token sample_seed \<noteq> []" "sd_csrf_token sample_seed \<noteq> []" by (simp_all add: sample_seed_def)
  note h = session_authenticates [OF rtranclp.rtrancl_refl c s]
  show ?thesis using c h [of 399] h [of 400] by simp
qed

theorem sessions_audited_witness:
  "\<exists>(db :: run_db) x. db_sessions db = [x] \<and> session_audited (db_ledger db) x \<and> ss_tenant_id x = ''acme''"
proof -
  obtain db i x where c: "create_session sample_time empty_db ''acme'' ''fp'' 300 ''rq'' ''ann'' [] ''admin'' [] 100 sample_seed
      (sample_stamp ''0'') = Inr (db, i)" and x: "db_sessions db = [x]" "ss_tenant_id x = ''acme''" by (rule sample_session)
  have h: "db_history sample_time empty_db db" using db_step.session_created [OF c] by blast
  have t: "strip (ss_tenant_id x) \<noteq> []" by (simp add: x strip_simps is_space_def)
  have m: "x \<in> set (db_sessions db)" by (simp add: x)
  have "session_audited (db_ledger db) x" using sessions_audited [OF h m t, of "''t''"] by simp
  then show ?thesis using x by blast
qed

theorem session_revocation_final_witness:
  "\<exists>db db1. db_history sample_time empty_db db \<and> (\<exists>s. revoke_session sample_time db ''acme'' ''session-1'' ''rq'' ''ann'' 200 s = Inr db1)
     \<and> (\<forall>token clk rec. authenticate_session db1 token clk = Inr rec \<longrightarrow> sr_session_id rec \<noteq> ''session-1'')"
proof -
  obtain db i x where c: "create_session sample_time empty_db ''acme'' ''fp'' 300 ''rq'' ''ann'' [] ''admin'' [] 100 sample_seed
      (sample_stamp ''0'') = Inr (db, i)"
    and x: "db_sessions db = [x]" "ss_session_id x = ''session-1''" "ss_tenant_id x = ''acme''" "ss_revoked_at x = None"
    and inv: "db_inv db" and ev: "map row_event_id (led_events (db_ledger db)) = [''audit-0'']" by (rule sample_session)
  have h: "db_history sample_time empty_db db" using db_step.session_created [OF c] by blast
  let ?w = "session_revoked_event sample_time ''session-1'' ''rq'' ''ann'' 200"
  let ?l = "append_row (db_ledger db) (appended_row (db_ledger db) ''acme'' ?w ''2026-01-01T00:00:00+00:00'' ''2'')"
  let ?db1 = "db\<lparr>db_ledger := ?l, db_sessions := sql_update (active_session ''acme'' ''session-1'') (\<lambda>x. x\<lparr>ss_revoked_at := Some 200\<rparr>) [x]\<rparr>"
  have fresh: "\<forall>e \<in> set (led_events (db_ledger db)). row_event_id e = ''audit-0''" using ev by (cases "led_events (db_ledger db)") auto
  have li: "ledger_inv (db_ledger db)" using inv by (simp add: db_inv_def)
  have a: "audit_of db ''acme'' (Some ?w) (sample_stamp ''2'') ?db1"
    unfolding audit_of_Some stamp.simps append_audit_locked_eq [OF li] using fresh by (simp add: Let_def session_revoked_event_def)
  have w: "check_audit_write ?w = Inr ()"
    by (simp add: check_audit_write_def session_revoked_event_def strip_simps is_space_def)
  have r: "revoke_session sample_time db ''acme'' ''session-1'' ''rq'' ''ann'' 200 (sample_stamp ''2'') = Inr ?db1"
    unfolding revoke_session_Inr using a w x by (simp add: sql_count_def active_session_def)
  show ?thesis using session_revocation_final [OF h r rtranclp.rtrancl_refl] h r by blast
qed

lemma sample_run_saved:
  obtains r db where "storable r" and "run_status r = Running" and "db_history sample_time empty_db db"
    and "db_runs db = [created_row ''acme'' r ''t'']"
proof -
  obtain r where r: "storable r" "run_status r = Running" using sample_storable by blast
  let ?db = "empty_db\<lparr>db_runs := [created_row ''acme'' r ''t'']\<rparr>"
  have c: "run_create empty_db ''acme'' r None ''t'' s = Inr ?db" for s
    unfolding run_create_Inr by (simp add: empty_db_def audit_of_def)
  have h: "db_history sample_time empty_db ?db" using db_step.created [OF c] by blast
  show ?thesis by (rule that [OF r h]) simp
qed

lemma sample_save:
  assumes "db_runs db = [created_row ''acme'' r ''t'']" and "run_status r = Running" and "run_id r' = run_id r"
  shows "\<exists>db'. run_save db ''acme'' r' None (Some ''running'') ''u'' (sample_stamp ''0'') = Inr db'"
proof (intro exI)
  show "run_save db ''acme'' r' None (Some ''running'') ''u'' (sample_stamp ''0'')
      = Inr (db\<lparr>db_runs := sql_update (save_matches ''acme'' (run_id r') (Some ''running'')) (saved_row r' ''u'') (db_runs db)\<rparr>)"
    unfolding run_save_Inr
    using assms by (simp add: sql_count_def save_matches_def run_key_def created_row_def audit_of_def)
qed

theorem saved_run_read_back_witness:
  "\<exists>r db db'. run_status r = Running \<and> run_save db ''acme'' r None (Some ''running'') ''u'' (sample_stamp ''0'') = Inr db'
     \<and> run_get (\<lambda>_. Inr 0) db' ''acme'' (run_id r) = Inr (plain_run r)"
proof -
  obtain r db where r: "storable r" "run_status r = Running" "db_history sample_time empty_db db"
    "db_runs db = [created_row ''acme'' r ''t'']" by (rule sample_run_saved)
  obtain db' where s: "run_save db ''acme'' r None (Some ''running'') ''u'' (sample_stamp ''0'') = Inr db'"
    using sample_save [OF r(4,2), of r] by blast
  show ?thesis using saved_run_read_back [OF r(3,1) s, of "\<lambda>_. Inr 0"] r(2) s by blast
qed


end
