(* ===== verification/RateLimits.thy ===== *)
theory RateLimits
  imports Prelude "HOL-Library.Product_Lexorder"
begin

text \<open>
  The two rate limits of \<open>SQLiteRunStore\<close> (\<open>backend/agency_runtime/persistence.py\<close>): the sliding window
  of authentication failures and the fixed window of authenticated requests. The clock (\<open>utc_now\<close>)
  writes whole seconds in UTC, so a stored time is its number of seconds and the order of the texts is
  the order of the numbers. A raise inside the transaction rolls it back, so an operation returns the
  table it leaves or the exception.
\<close>

section \<open>Failed authentications\<close>

type_synonym failures = "(string \<times> int) list"
type_synonym bucket_limits = "(string \<times> int) list"

definition check_failure_limits :: "bucket_limits \<Rightarrow> int \<Rightarrow> unit res" where
  "check_failure_limits bl window = raise_first
     [(bl = [], ValueError ''at least one authentication bucket is required''),
      (list_ex (\<lambda>(b, m). m < 1) bl, ValueError ''max_failures must be positive''),
      (window < 1, ValueError ''window_seconds must be positive'')]"

definition drop_before :: "int \<Rightarrow> failures \<Rightarrow> failures" where
  "drop_before cutoff fs = sql_delete (\<lambda>(b, t). t < cutoff) fs"

text \<open>\<open>SELECT occurred_at ... WHERE bucket_hash = ? AND occurred_at >= ? ORDER BY occurred_at ASC\<close>.\<close>

definition failures_since :: "string \<Rightarrow> int \<Rightarrow> failures \<Rightarrow> int list" where
  "failures_since bucket cutoff fs = sort (map snd (filter (\<lambda>(b, t). b = bucket \<and> cutoff \<le> t) fs))"

definition retry_after :: "int \<Rightarrow> int \<Rightarrow> int \<Rightarrow> int" where
  "retry_after earliest window clk = max 1 (earliest + window - clk + 1)"

fun check_failures :: "bucket_limits \<Rightarrow> int \<Rightarrow> int \<Rightarrow> failures \<Rightarrow> unit res" where
  "check_failures [] window clk fs = Inr ()"
| "check_failures ((b, m) # bl) window clk fs =
     (let rows = failures_since b (clk - window) fs in
      if m \<le> int (length rows) then Inl (AuthenticationRateLimitError (retry_after (hd rows) window clk))
      else check_failures bl window clk fs)"

definition enforce_authentication_rate_limit :: "bucket_limits \<Rightarrow> int \<Rightarrow> int \<Rightarrow> failures \<Rightarrow> failures res" where
  "enforce_authentication_rate_limit bl window clk fs =
     rbind (check_failure_limits bl window) (\<lambda>_. let kept = drop_before (clk - window) fs in
     rbind (check_failures bl window clk kept) (\<lambda>_. Inr kept))"

definition record_authentication_failure :: "bucket_limits \<Rightarrow> int \<Rightarrow> int \<Rightarrow> failures \<Rightarrow> failures res" where
  "record_authentication_failure bl window clk fs =
     rbind (check_failure_limits bl window) (\<lambda>_. let kept = drop_before (clk - window) fs in
     rbind (check_failures (sort bl) window clk kept) (\<lambda>_. Inr (kept @ map (\<lambda>(b, m). (b, clk)) (sort bl))))"

definition authentication_failure_count :: "string \<Rightarrow> failures \<Rightarrow> nat" where
  "authentication_failure_count bucket fs = sql_count (\<lambda>(b, t). b = bucket) fs"

section \<open>Authenticated requests\<close>

record quota_row =
  qr_bucket_hash :: string
  qr_window_started_at :: int
  qr_request_count :: int

type_synonym quotas = "quota_row list"

definition check_quota_limits :: "bucket_limits \<Rightarrow> int \<Rightarrow> unit res" where
  "check_quota_limits bl window = raise_first
     [(bl = [], ValueError ''at least one authenticated request bucket is required''),
      (list_ex (\<lambda>(b, m). b = []) bl, ValueError ''authenticated request bucket hash is required''),
      (\<not> distinct (map fst bl), ValueError ''authenticated request bucket hashes must be unique''),
      (list_ex (\<lambda>(b, m). m < 1) bl, ValueError ''max authenticated requests must be positive''),
      (window < 1, ValueError ''authenticated request window must be positive'')]"

definition quota_find :: "string \<Rightarrow> quotas \<Rightarrow> quota_row option" where
  "quota_find bucket qs = sql_find (\<lambda>r. qr_bucket_hash r = bucket) qs"

text \<open>The row of one bucket after the request, or the exception.\<close>

definition quota_update :: "string \<Rightarrow> int \<Rightarrow> int \<Rightarrow> int \<Rightarrow> quotas \<Rightarrow> quota_row res" where
  "quota_update b m window clk qs =
     (let fresh = \<lparr>qr_bucket_hash = b, qr_window_started_at = clk, qr_request_count = 1\<rparr> in
      case quota_find b qs of
        None \<Rightarrow> Inr fresh
      | Some r \<Rightarrow>
          if qr_window_started_at r + window \<le> clk then Inr fresh
          else if m \<le> qr_request_count r
          then Inl (AuthenticatedRequestRateLimitError (retry_after (qr_window_started_at r) window clk))
          else Inr (r\<lparr>qr_bucket_hash := b, qr_request_count := qr_request_count r + 1\<rparr>))"

fun quota_updates :: "bucket_limits \<Rightarrow> int \<Rightarrow> int \<Rightarrow> quotas \<Rightarrow> quota_row list res" where
  "quota_updates [] window clk qs = Inr []"
| "quota_updates ((b, m) # bl) window clk qs =
     rbind (quota_update b m window clk qs) (\<lambda>u. rbind (quota_updates bl window clk qs) (\<lambda>us. Inr (u # us)))"

text \<open>\<open>INSERT ... ON CONFLICT(bucket_hash) DO UPDATE\<close>.\<close>

definition quota_upsert :: "quota_row \<Rightarrow> quotas \<Rightarrow> quotas" where
  "quota_upsert u qs =
     (if \<exists>r \<in> set qs. qr_bucket_hash r = qr_bucket_hash u
      then sql_update (\<lambda>r. qr_bucket_hash r = qr_bucket_hash u)
        (\<lambda>r. r\<lparr>qr_window_started_at := qr_window_started_at u, qr_request_count := qr_request_count u\<rparr>) qs
      else qs @ [u])"

definition consume_authenticated_request_quota :: "bucket_limits \<Rightarrow> int \<Rightarrow> int \<Rightarrow> quotas \<Rightarrow> quotas res" where
  "consume_authenticated_request_quota bl window clk qs =
     rbind (check_quota_limits bl window) (\<lambda>_.
       let kept = sql_delete (\<lambda>r. qr_window_started_at r < clk - window) qs in
     rbind (quota_updates (sort bl) window clk kept) (\<lambda>us. Inr (fold quota_upsert us kept)))"

definition authenticated_request_quota_count :: "string \<Rightarrow> quotas \<Rightarrow> int" where
  "authenticated_request_quota_count bucket qs =
     (case quota_find bucket qs of None \<Rightarrow> 0 | Some r \<Rightarrow> qr_request_count r)"

end
