(* ===== verification/RateLimitLaws.thy ===== *)
theory RateLimitLaws
  imports RateLimits
begin

text \<open>
  The sliding window of failed authentications and the fixed window of request quotas: how many calls
  one bucket gets, and when a refused caller may come back.
\<close>

section \<open>The sliding window\<close>

lemma failures_since_length: "length (failures_since b c fs) = length (filter (\<lambda>(b', t). b' = b \<and> c \<le> t) fs)"
  by (simp add: failures_since_def)

lemma drop_before_filter: "drop_before c fs = filter (\<lambda>(b, t). c \<le> t) fs"
  by (simp add: drop_before_def sql_delete_def case_prod_unfold not_less)

lemma failures_since_kept: "c \<le> c' \<Longrightarrow> failures_since b c' (drop_before c fs) = failures_since b c' fs"
  by (simp add: failures_since_def drop_before_filter) (rule arg_cong [of _ _ "\<lambda>xs. sort (map snd xs)"], rule filter_cong, auto)

lemma check_failures_Inr:
  "check_failures bl w t fs = Inr u \<longleftrightarrow> (\<forall>(b, m) \<in> set bl. int (length (failures_since b (t - w) fs)) < m)"
  by (induction bl w t fs rule: check_failures.induct) (auto simp: Let_def not_le)

lemma record_Inr:
  assumes "record_authentication_failure bl w t fs = Inr fs'"
  shows "fs' = drop_before (t - w) fs @ map (\<lambda>(b, m). (b, t)) (sort bl)" and "1 \<le> w"
    and "\<And>b m. (b, m) \<in> set bl \<Longrightarrow> int (length (failures_since b (t - w) fs)) < m"
  using assms
  by (auto simp: record_authentication_failure_def check_failure_limits_def Let_def rbind_Inr_iff check_failures_Inr
      failures_since_kept split: if_splits)

lemma enforce_Inr:
  "enforce_authentication_rate_limit bl w t fs = Inr fs' \<Longrightarrow> fs' = drop_before (t - w) fs \<and> 1 \<le> w"
  by (auto simp: enforce_authentication_rate_limit_def check_failure_limits_def Let_def rbind_Inr_iff split: if_splits)

text \<open>Histories: the failures accepted so far, the table, and the last clock reading. Every call gives a
  bucket at most its limit, and each bucket once.\<close>

inductive failure_history :: "int \<Rightarrow> (string \<Rightarrow> nat) \<Rightarrow> failures \<Rightarrow> failures \<Rightarrow> int \<Rightarrow> bool" for window limit where
  started: "failure_history window limit [] [] t"
| recorded: "failure_history window limit hs fs t \<Longrightarrow> t \<le> t' \<Longrightarrow> distinct (map fst bl)
    \<Longrightarrow> (\<And>b m. (b, m) \<in> set bl \<Longrightarrow> m \<le> int (limit b))
    \<Longrightarrow> record_authentication_failure bl window t' fs = Inr fs'
    \<Longrightarrow> failure_history window limit (hs @ map (\<lambda>(b, m). (b, t')) (sort bl)) fs' t'"
| enforced: "failure_history window limit hs fs t \<Longrightarrow> t \<le> t' \<Longrightarrow> enforce_authentication_rate_limit bl window t' fs = Inr fs'
    \<Longrightarrow> failure_history window limit hs fs' t'"

definition within :: "string \<Rightarrow> int \<Rightarrow> int \<Rightarrow> failures \<Rightarrow> nat" where
  "within b u w hs = length (filter (\<lambda>(b', t). b' = b \<and> u \<le> t \<and> t \<le> u + w) hs)"

lemma history_table:
  "failure_history w l hs fs t \<Longrightarrow> fs = drop_before (t - w) hs \<and> (\<forall>(b, s) \<in> set hs. s \<le> t)"
proof (induction rule: failure_history.induct)
  case (recorded hs fs t t' bl fs')
  have old: "drop_before (t' - w) fs = drop_before (t' - w) hs"
    using recorded.IH recorded.hyps(2) by (simp add: drop_before_filter case_prod_unfold) (rule filter_cong, auto)
  have new: "drop_before (t' - w) (map (\<lambda>(b, m). (b, t')) xs) = map (\<lambda>(b, m). (b, t')) xs" for xs
    using record_Inr(2) [OF recorded.hyps(5)] by (induction xs) (auto simp: drop_before_filter)
  have "fs' = drop_before (t' - w) (hs @ map (\<lambda>(b, m). (b, t')) (sort bl))"
    using record_Inr(1) [OF recorded.hyps(5)] old new [of "sort bl"] by (simp add: drop_before_filter)
  moreover have "\<forall>(b, s) \<in> set (hs @ map (\<lambda>(b, m). (b, t')) (sort bl)). s \<le> t'"
    using recorded.IH recorded.hyps(2) by auto
  ultimately show ?case by blast
next
  case (enforced hs fs t t' bl fs')
  then show ?case using enforce_Inr [OF enforced.hyps(3)]
    by (auto simp: drop_before_filter case_prod_unfold intro!: filter_cong)
qed (simp add: drop_before_filter)

lemma new_entries:
  assumes "distinct (map fst bl)"
  shows "length (filter (\<lambda>(b', t). b' = b \<and> P t) (map (\<lambda>(b, m). (b, t')) bl)) = (if b \<in> fst ` set bl \<and> P t' then 1 else 0)"
  using assms by (induction bl) (auto simp: case_prod_unfold filter_empty_conv)

lemma history_within: "failure_history w l hs fs t \<Longrightarrow> within b u w hs \<le> l b"
proof (induction rule: failure_history.induct)
  case (recorded hs fs t t' bl fs')
  have tab: "fs = drop_before (t - w) hs" "\<forall>(b, s) \<in> set hs. s \<le> t" using history_table [OF recorded.hyps(1)] by auto
  have dist: "distinct (map fst (sort bl))" using recorded.hyps(3) by (simp add: distinct_map)
  have split: "within b u w (hs @ map (\<lambda>(b, m). (b, t')) (sort bl))
      = within b u w hs + (if b \<in> fst ` set bl \<and> u \<le> t' \<and> t' \<le> u + w then 1 else 0)"
    using new_entries [OF dist, of b "\<lambda>t. u \<le> t \<and> t \<le> u + w" t'] by (simp add: within_def)
  show ?case
  proof (cases "b \<in> fst ` set bl \<and> u \<le> t' \<and> t' \<le> u + w")
    case False
    then show ?thesis using recorded.IH split by auto
  next
    case True
    then obtain m where m: "(b, m) \<in> set bl" by force
    have le: "within b u w hs \<le> length (failures_since b (t' - w) fs)"
    proof -
      have "filter (\<lambda>(b', t). b' = b \<and> u \<le> t \<and> t \<le> u + w) hs
          = filter (\<lambda>(b', s). b' = b \<and> u \<le> s \<and> s \<le> u + w) (filter (\<lambda>(b', s). b' = b \<and> t' - w \<le> s) fs)"
        using True recorded.hyps(2) unfolding tab(1) drop_before_filter filter_filter by (intro filter_cong) auto
      then show ?thesis unfolding within_def failures_since_length by (simp only: length_filter_le)
    qed
    have "int (length (failures_since b (t' - w) fs)) < m" using record_Inr(3) [OF recorded.hyps(5) m] .
    then show ?thesis using le split True recorded.hyps(4) [OF m] by simp
  qed
qed (simp_all add: within_def)

text \<open>The sliding window holds. Whatever buckets the calls name and however the clock moves on, of the
  failures accepted for a bucket no closed interval as long as the window contains more than the
  bucket's limit.\<close>

theorem failures_bounded:
  assumes "failure_history window limit hs fs t"
  shows "within b u window hs \<le> limit b"
  using history_within [OF assms] .

section \<open>Waiting as long as told\<close>

lemma sorted_first: "x \<in> set xs \<Longrightarrow> hd (sort xs) \<le> (x :: int)"
proof (cases "sort xs")
  case (Cons y ys)
  assume "x \<in> set xs"
  then have "x \<in> set (y # ys)" using Cons by (metis set_sort)
  moreover have "sorted (y # ys)" using Cons by (metis sorted_sort)
  ultimately show "hd (sort xs) \<le> x" using Cons by auto
qed (metis length_sort length_0_conv list.set_cases list.discI)

text \<open>The wait a refused authentication is told is exact: a caller whose bucket holds as many failures as
  its limit is refused again before that many seconds have passed and admitted from then on, as long
  as no further failure is recorded.\<close>

theorem retry_after_exact:
  assumes "enforce_authentication_rate_limit [(b, m)] w t fs = Inl (AuthenticationRateLimitError n)"
    and "int (length (failures_since b (t - w) fs)) = m" and "\<forall>(b', s) \<in> set fs. s \<le> t" and "t \<le> t'"
  shows "(\<exists>fs'. enforce_authentication_rate_limit [(b, m)] w t' fs = Inr fs') \<longleftrightarrow> t + n \<le> t'"
proof -
  let ?rows = "failures_since b (t - w) fs"
  have lim: "check_failure_limits [(b, m)] w = Inr ()"
    using assms(1) by (cases "check_failure_limits [(b, m)] w") (auto simp: enforce_authentication_rate_limit_def check_failure_limits_def split: if_splits)
  then have w: "1 \<le> w" "1 \<le> m" by (auto simp: check_failure_limits_def split: if_splits)
  have n: "n = retry_after (hd ?rows) w t"
    using assms(1) lim by (auto simp: enforce_authentication_rate_limit_def Let_def failures_since_kept split: if_splits)
  have ne: "?rows \<noteq> []" using assms(2) w(2) by auto
  have early: "t - w \<le> hd ?rows" using ne hd_in_set [OF ne] by (auto simp: failures_since_def)
  then have n': "n = hd ?rows + w - t + 1" using n by (simp add: retry_after_def)
  have admitted: "(\<exists>fs'. enforce_authentication_rate_limit [(b, m)] w t' fs = Inr fs') \<longleftrightarrow> int (length (failures_since b (t' - w) fs)) < m"
    using lim by (simp add: enforce_authentication_rate_limit_def Let_def failures_since_kept)
  have sub: "length (failures_since b (t' - w) fs) = length (filter (\<lambda>s. t' - w \<le> s) ?rows)"
  proof -
    have "filter (\<lambda>(b', s). b' = b \<and> t' - w \<le> s) fs
        = filter (\<lambda>(b', s). t' - w \<le> s) (filter (\<lambda>(b', s). b' = b \<and> t - w \<le> s) fs)"
      using assms(4) unfolding filter_filter by (intro filter_cong) auto
    then show ?thesis unfolding failures_since_def filter_sort length_sort filter_map length_map
      by (simp add: comp_def case_prod_unfold)
  qed
  show ?thesis
  proof (cases "t' - w \<le> hd ?rows")
    case True
    then have "filter (\<lambda>s. t' - w \<le> s) ?rows = ?rows"
      unfolding filter_id_conv failures_since_def set_sort using sorted_first order_trans by blast
    then show ?thesis using admitted sub assms(2) n' True by simp
  next
    case False
    then have "length (filter (\<lambda>s. t' - w \<le> s) ?rows) < length ?rows"
      by (rule length_filter_less [OF hd_in_set [OF ne]])
    then show ?thesis using admitted sub assms(2) n' False by simp
  qed
qed

section \<open>The fixed window\<close>

lemma quota_find_upsert: "quota_find b (quota_upsert u qs) = (if b = qr_bucket_hash u then Some u else quota_find b qs)"
proof -
  have upd: "sql_find (\<lambda>r. qr_bucket_hash r = c) (sql_update (\<lambda>r. qr_bucket_hash r = qr_bucket_hash u)
      (\<lambda>r. r\<lparr>qr_window_started_at := qr_window_started_at u, qr_request_count := qr_request_count u\<rparr>) qs)
    = (if c = qr_bucket_hash u then (if \<exists>r \<in> set qs. qr_bucket_hash r = c then Some u else None)
       else sql_find (\<lambda>r. qr_bucket_hash r = c) qs)" for c
    by (induction qs) (auto simp: sql_find_def sql_update_def)
  have app: "sql_find p (xs @ [u]) = (case sql_find p xs of Some r \<Rightarrow> Some r | None \<Rightarrow> if p u then Some u else None)" for p xs
    by (induction xs) (auto simp: sql_find_def)
  have none: "\<not> (\<exists>r \<in> set qs. qr_bucket_hash r = c) \<Longrightarrow> sql_find (\<lambda>r. qr_bucket_hash r = c) qs = None" for c
    by (auto simp: sql_find_None)
  show ?thesis
  proof (cases "\<exists>r \<in> set qs. qr_bucket_hash r = qr_bucket_hash u")
    case True
    then show ?thesis by (cases "b = qr_bucket_hash u") (simp_all add: quota_find_def quota_upsert_def upd)
  next
    case False
    then have "quota_upsert u qs = qs @ [u]" by (simp only: quota_upsert_def if_False)
    then show ?thesis using none [OF False]
      by (cases "b = qr_bucket_hash u") (simp_all add: quota_find_def app split: option.split)
  qed
qed

lemma quota_upsert_keys: "distinct (map qr_bucket_hash qs) \<Longrightarrow> distinct (map qr_bucket_hash (quota_upsert u qs))"
proof -
  have "map qr_bucket_hash (sql_update p (\<lambda>r. r\<lparr>qr_window_started_at := x, qr_request_count := y\<rparr>) qs) = map qr_bucket_hash qs" for p x y
    by (simp add: sql_update_def)
  then show "distinct (map qr_bucket_hash qs) \<Longrightarrow> ?thesis" by (auto simp: quota_upsert_def)
qed

lemma quota_find_upserts:
  "distinct (map qr_bucket_hash us) \<Longrightarrow> u \<in> set us \<Longrightarrow> quota_find (qr_bucket_hash u) (fold quota_upsert us qs) = Some u"
  "b \<notin> qr_bucket_hash ` set us \<Longrightarrow> quota_find b (fold quota_upsert us qs) = quota_find b qs"
proof -
  show other: "quota_find b (fold quota_upsert us qs) = quota_find b qs" if "b \<notin> qr_bucket_hash ` set us" for b us qs
    using that by (induction us arbitrary: qs) (auto simp: quota_find_upsert)
  show "distinct (map qr_bucket_hash us) \<Longrightarrow> u \<in> set us \<Longrightarrow> quota_find (qr_bucket_hash u) (fold quota_upsert us qs) = Some u"
    by (induction us arbitrary: qs) (auto simp: quota_find_upsert other)
qed

lemma quota_upserts_keys: "distinct (map qr_bucket_hash qs) \<Longrightarrow> distinct (map qr_bucket_hash (fold quota_upsert us qs))"
  by (induction us arbitrary: qs) (simp_all add: quota_upsert_keys)

lemma quota_find_delete:
  "distinct (map qr_bucket_hash qs) \<Longrightarrow> quota_find b (sql_delete p qs) = (case quota_find b qs of Some r \<Rightarrow> if p r then None else Some r | None \<Rightarrow> None)"
proof (induction qs)
  case (Cons r qs)
  show ?case
  proof (cases "qr_bucket_hash r = b")
    case True
    then have "quota_find b qs = None" using Cons.prems by (auto simp: quota_find_def sql_find_None) (metis image_eqI)
    then show ?thesis using True Cons by (simp add: quota_find_def sql_find_def sql_delete_def)
  next
    case False
    then show ?thesis using Cons by (simp add: quota_find_def sql_find_def sql_delete_def)
  qed
qed (simp add: quota_find_def sql_find_def sql_delete_def)

lemma quota_update_bucket: "quota_update b m w t qs = Inr u \<Longrightarrow> qr_bucket_hash u = b"
  by (auto simp: quota_update_def Let_def split: option.splits if_splits)

lemma quota_updates_Inr:
  "quota_updates bl w t qs = Inr us \<Longrightarrow> map qr_bucket_hash us = map fst bl
    \<and> (\<forall>(b, m) \<in> set bl. \<exists>u \<in> set us. quota_update b m w t qs = Inr u)"
  by (induction bl arbitrary: us) (fastforce simp: rbind_Inr_iff quota_update_bucket)+

text \<open>The row of each bucket after a request that was admitted.\<close>

lemma consume_Inr:
  assumes "consume_authenticated_request_quota bl w t qs = Inr qs'" and keys: "distinct (map qr_bucket_hash qs)"
  obtains "1 \<le> w" "distinct (map fst bl)" "distinct (map qr_bucket_hash qs')"
    "\<And>b. b \<notin> fst ` set bl \<Longrightarrow> quota_find b qs' = quota_find b (sql_delete (\<lambda>r. qr_window_started_at r < t - w) qs)"
    "\<And>b m. (b, m) \<in> set bl \<Longrightarrow> \<exists>u. quota_find b qs' = Some u
        \<and> quota_update b m w t (sql_delete (\<lambda>r. qr_window_started_at r < t - w) qs) = Inr u"
proof -
  let ?kept = "sql_delete (\<lambda>r. qr_window_started_at r < t - w) qs"
  obtain us where us: "quota_updates (sort bl) w t ?kept = Inr us" "qs' = fold quota_upsert us ?kept"
    and lim: "1 \<le> w" "distinct (map fst bl)"
    using assms(1) by (auto simp: consume_authenticated_request_quota_def check_quota_limits_def Let_def rbind_Inr_iff split: if_splits)
  note u = quota_updates_Inr [OF us(1)]
  have kept: "distinct (map qr_bucket_hash ?kept)" using keys by (simp add: sql_delete_def distinct_map inj_on_def)
  have dist: "distinct (map qr_bucket_hash us)" using u lim(2) by (simp add: distinct_map)
  have set_us: "qr_bucket_hash ` set us = fst ` set bl" using u by (metis list.set_map set_sort)
  show thesis
  proof (rule that)
    show "distinct (map qr_bucket_hash qs')" unfolding us(2) by (rule quota_upserts_keys [OF kept])
    show "quota_find b qs' = quota_find b ?kept" if "b \<notin> fst ` set bl" for b
      unfolding us(2) by (rule quota_find_upserts(2)) (use that set_us in simp)
    show "\<exists>u. quota_find b qs' = Some u \<and> quota_update b m w t ?kept = Inr u" if m: "(b, m) \<in> set bl" for b m
    proof -
      obtain x where x: "x \<in> set us" "quota_update b m w t ?kept = Inr x" using u m by auto
      then show ?thesis using quota_find_upserts(1) [OF dist x(1)] quota_update_bucket [OF x(2)] us(2) by auto
    qed
  qed (use lim in auto)
qed

text \<open>Histories of admitted requests: the bucket, the start of the window that counted it, and the time.\<close>

definition window_of :: "quotas \<Rightarrow> string \<Rightarrow> int" where
  "window_of qs b = (case quota_find b qs of Some r \<Rightarrow> qr_window_started_at r | None \<Rightarrow> 0)"

inductive quota_history :: "int \<Rightarrow> (string \<Rightarrow> nat) \<Rightarrow> (string \<times> int \<times> int) list \<Rightarrow> quotas \<Rightarrow> int \<Rightarrow> bool" for window limit where
  started: "quota_history window limit [] [] t"
| admitted: "quota_history window limit hs qs t \<Longrightarrow> t \<le> t' \<Longrightarrow> (\<And>b m. (b, m) \<in> set bl \<Longrightarrow> m \<le> int (limit b))
    \<Longrightarrow> consume_authenticated_request_quota bl window t' qs = Inr qs'
    \<Longrightarrow> quota_history window limit (hs @ map (\<lambda>(b, m). (b, window_of qs' b, t')) bl) qs' t'"

definition entries :: "string \<Rightarrow> (string \<times> int \<times> int) list \<Rightarrow> (int \<times> int) list" where
  "entries b hs = map snd (filter (\<lambda>h. fst h = b) hs)"

definition counted :: "int \<Rightarrow> (int \<times> int) list \<Rightarrow> nat" where
  "counted ws es = length (filter (\<lambda>e. fst e = ws) es)"

text \<open>One bucket: its admitted requests and its row.\<close>

definition bucket_inv :: "int \<Rightarrow> nat \<Rightarrow> (int \<times> int) list \<Rightarrow> quota_row option \<Rightarrow> int \<Rightarrow> bool" where
  "bucket_inv w l es row t \<longleftrightarrow>
     (\<forall>(ws, s) \<in> set es. ws \<le> s \<and> s < ws + w \<and> ws \<le> t)
   \<and> (\<forall>ws. counted ws es \<le> l)
   \<and> (\<forall>(ws, s) \<in> set es. \<forall>(ws', s') \<in> set es. ws < ws' \<longrightarrow> ws + w \<le> ws')
   \<and> (case row of
        Some r \<Rightarrow> int (counted (qr_window_started_at r) es) = qr_request_count r \<and> qr_window_started_at r \<le> t
          \<and> (\<forall>(ws, s) \<in> set es. ws = qr_window_started_at r \<or> ws + w \<le> qr_window_started_at r)
      | None \<Rightarrow> \<forall>(ws, s) \<in> set es. ws + w \<le> t)"

lemma counted_absent: "\<forall>(ws', s) \<in> set es. ws' \<noteq> ws \<Longrightarrow> counted ws es = 0"
  by (auto simp: counted_def filter_empty_conv)

lemma counted_snoc: "counted ws (es @ [(a, s)]) = counted ws es + (if a = ws then 1 else 0)"
  by (simp add: counted_def)

lemma bucket_later: "bucket_inv w l es row t \<Longrightarrow> t \<le> t' \<Longrightarrow> bucket_inv w l es row t'"
  by (fastforce simp: bucket_inv_def split: option.splits)

lemma bucket_expired:
  assumes "bucket_inv w l es (Some r) t" and "qr_window_started_at r + w \<le> t" and "1 \<le> w"
  shows "bucket_inv w l es None t"
  using assms by (fastforce simp: bucket_inv_def)

lemma bucket_fresh:
  assumes inv: "bucket_inv w l es None t" and "1 \<le> w" and "1 \<le> l"
  shows "bucket_inv w l (es @ [(t, t)]) (Some \<lparr>qr_bucket_hash = b, qr_window_started_at = t, qr_request_count = 1\<rparr>) t"
proof -
  have old: "\<forall>(ws, s) \<in> set es. ws + w \<le> t" using inv unfolding bucket_inv_def option.case by blast
  then have "counted t es = 0" using assms(2) by (intro counted_absent) fastforce
  then show ?thesis using inv old assms(2,3) by (auto simp: bucket_inv_def counted_snoc)
qed

lemma bucket_next:
  assumes inv: "bucket_inv w l es (Some r) t" and "t < qr_window_started_at r + w" and "qr_request_count r < int l"
  shows "bucket_inv w l (es @ [(qr_window_started_at r, t)]) (Some (r\<lparr>qr_bucket_hash := b, qr_request_count := qr_request_count r + 1\<rparr>)) t"
proof -
  have "counted (qr_window_started_at r) es < l" using inv assms(3) by (simp add: bucket_inv_def)
  then show ?thesis using inv assms(2) by (auto simp: bucket_inv_def counted_snoc)
qed

lemma entries_new:
  assumes "distinct (map fst bl)"
  shows "entries b (map (\<lambda>(b, m). (b, f b, t)) bl) = (if b \<in> fst ` set bl then [(f b, t)] else [])"
  using assms
proof (induction bl)
  case (Cons p bl)
  have "entries b (map (\<lambda>(b, m). (b, f b, t)) bl) = []" if "b \<notin> fst ` set bl" for b
    using that by (auto simp: entries_def filter_empty_conv case_prod_unfold)
  then show ?case using Cons by (cases p) (auto simp: entries_def)
qed (simp add: entries_def)

lemma quota_step:
  assumes inv: "bucket_inv w l (entries b hs) (quota_find b qs) t" and keys: "distinct (map qr_bucket_hash qs)"
    and "t \<le> t'" and lim: "\<And>m. (b, m) \<in> set bl \<Longrightarrow> m \<le> int l"
    and c: "consume_authenticated_request_quota bl w t' qs = Inr qs'"
  shows "bucket_inv w l (entries b (hs @ map (\<lambda>(b, m). (b, window_of qs' b, t')) bl)) (quota_find b qs') t'"
proof (rule consume_Inr [OF c keys])
  assume w: "1 \<le> w" and dist: "distinct (map fst bl)"
    and other: "\<And>b. b \<notin> fst ` set bl \<Longrightarrow> quota_find b qs' = quota_find b (sql_delete (\<lambda>r. qr_window_started_at r < t' - w) qs)"
    and mine: "\<And>b m. (b, m) \<in> set bl \<Longrightarrow> \<exists>u. quota_find b qs' = Some u
        \<and> quota_update b m w t' (sql_delete (\<lambda>r. qr_window_started_at r < t' - w) qs) = Inr u"
  let ?kept = "sql_delete (\<lambda>r. qr_window_started_at r < t' - w) qs"
  have now: "bucket_inv w l (entries b hs) (quota_find b qs) t'" using bucket_later [OF inv assms(3)] .
  have kept: "bucket_inv w l (entries b hs) (quota_find b ?kept) t'"
    using now bucket_expired [of w l "entries b hs" _ t'] w
    by (auto simp: quota_find_delete [OF keys] split: option.splits)
  have app: "entries b (hs @ map (\<lambda>(b, m). (b, window_of qs' b, t')) bl)
      = entries b hs @ (if b \<in> fst ` set bl then [(window_of qs' b, t')] else [])"
    using entries_new [OF dist, of b "window_of qs'" t'] by (simp add: entries_def)
  show ?thesis
  proof (cases "b \<in> fst ` set bl")
    case False
    then show ?thesis using kept other app by simp
  next
    case True
    then obtain m where m: "(b, m) \<in> set bl" by force
    have pos: "1 \<le> m" using c m by (auto simp: consume_authenticated_request_quota_def check_quota_limits_def list_ex_iff split: if_splits)
    obtain u where u: "quota_find b qs' = Some u" "quota_update b m w t' ?kept = Inr u" using mine [OF m] by blast
    have win: "window_of qs' b = qr_window_started_at u" using u(1) by (simp add: window_of_def)
    have l1: "1 \<le> l" "m \<le> int l" using pos lim [OF m] by simp_all
    have fresh: "bucket_inv w l (entries b hs @ [(qr_window_started_at u, t')]) (Some u) t'"
      if "bucket_inv w l (entries b hs) None t'" "u = \<lparr>qr_bucket_hash = b, qr_window_started_at = t', qr_request_count = 1\<rparr>"
      using bucket_fresh [OF that(1) w l1(1), of b] that(2) by simp
    have "bucket_inv w l (entries b hs @ [(qr_window_started_at u, t')]) (Some u) t'"
    proof (cases "quota_find b ?kept")
      case None
      then show ?thesis using u(2) kept by (intro fresh) (simp_all add: quota_update_def)
    next
      case (Some r)
      show ?thesis
      proof (cases "qr_window_started_at r + w \<le> t'")
        case True
        then show ?thesis using u(2) kept Some bucket_expired [of w l "entries b hs" r t'] w
          by (intro fresh) (simp_all add: quota_update_def)
      next
        case False
        then have "u = r\<lparr>qr_bucket_hash := b, qr_request_count := qr_request_count r + 1\<rparr>" "qr_request_count r < m"
          using u(2) Some by (auto simp: quota_update_def Let_def split: if_splits)
        then show ?thesis using bucket_next [of w l "entries b hs" r t' b] kept Some False l1(2) by simp
      qed
    qed
    then show ?thesis using app True win u(1) by simp
  qed
qed

lemma quota_inv: "quota_history w limit hs qs t \<Longrightarrow> distinct (map qr_bucket_hash qs)
    \<and> (\<forall>b. bucket_inv w (limit b) (entries b hs) (quota_find b qs) t)"
proof (induction rule: quota_history.induct)
  case (started t)
  show ?case by (simp add: bucket_inv_def entries_def counted_def quota_find_def sql_find_def)
next
  case (admitted hs qs t t' bl qs')
  have "distinct (map qr_bucket_hash qs')" by (rule consume_Inr [OF admitted.hyps(4)]) (use admitted.IH in auto)
  then show ?case using quota_step [OF _ _ admitted.hyps(2) admitted.hyps(3) admitted.hyps(4)] admitted.IH by blast
qed

text \<open>At most two windows meet an interval no longer than a window.\<close>

lemma two_windows: "\<forall>x \<in> set xs. f x = a \<or> f x = b \<Longrightarrow> length xs \<le> length (filter (\<lambda>x. f x = a) xs) + length (filter (\<lambda>x. f x = b) xs)"
  by (induction xs) auto

lemma filter_twice_le: "length (filter p (filter q xs)) \<le> length (filter p xs)"
  by (induction xs) auto

lemma entries_bound:
  assumes inv: "bucket_inv w l es row t" and "1 \<le> w"
  shows "length (filter (\<lambda>(ws, s). u \<le> s \<and> s < u + w) es) \<le> 2 * l"
proof (cases "filter (\<lambda>(ws, s). u \<le> s \<and> s < u + w) es = []")
  case False
  let ?F = "filter (\<lambda>(ws, s). u \<le> s \<and> s < u + w) es"
  let ?a = "Min (fst ` set ?F)" and ?z = "Max (fst ` set ?F)"
  have fin: "finite (fst ` set ?F)" "fst ` set ?F \<noteq> {}" using False by (simp_all only: finite_imageI finite_set image_is_empty set_empty simp_thms)
  have near: "u - w < ws \<and> ws < u + w" if "ws \<in> fst ` set ?F" for ws
    using inv that unfolding bucket_inv_def by fastforce
  have apart: "x + w \<le> y" if "x \<in> fst ` set ?F" "y \<in> fst ` set ?F" "x < y" for x y
    using inv that unfolding bucket_inv_def by fastforce
  have az: "?a \<in> fst ` set ?F" "?z \<in> fst ` set ?F" using Min_in [OF fin] Max_in [OF fin] .
  have "fst x = ?a \<or> fst x = ?z" if x: "x \<in> set ?F" for x
  proof (rule ccontr)
    assume no: "\<not> (fst x = ?a \<or> fst x = ?z)"
    have fx: "fst x \<in> fst ` set ?F" using x by (rule imageI)
    have "?a < fst x" "fst x < ?z" using no Min_le [OF fin(1) fx] Max_ge [OF fin(1) fx] by simp_all
    then show False using apart [OF az(1) fx] apart [OF fx az(2)] near [OF az(1)] near [OF az(2)] by linarith
  qed
  then have "length ?F \<le> length (filter (\<lambda>x. fst x = ?a) ?F) + length (filter (\<lambda>x. fst x = ?z) ?F)" by (intro two_windows) blast
  also have "\<dots> \<le> counted ?a es + counted ?z es"
    unfolding counted_def by (intro add_mono filter_twice_le)
  also have "\<dots> \<le> 2 * l" using inv unfolding bucket_inv_def by (simp add: add_mono mult_2)
  finally show ?thesis .
qed simp

text \<open>C39: the request quota holds. A fixed window admits at most its limit, so of the requests admitted for a
  bucket no half-open interval as long as the window contains more than twice the limit, however the
  calls mix buckets and the clock moves on.\<close>

theorem quota_bounded:
  assumes "quota_history window limit hs qs t" and "1 \<le> window"
  shows "length (filter (\<lambda>(b', ws, s). b' = b \<and> u \<le> s \<and> s < u + window) hs) \<le> 2 * limit b
    \<and> authenticated_request_quota_count b qs \<le> int (limit b)"
proof
  have inv: "bucket_inv window (limit b) (entries b hs) (quota_find b qs) t" using quota_inv [OF assms(1)] by blast
  have "filter (\<lambda>(b', ws, s). b' = b \<and> u \<le> s \<and> s < u + window) hs
      = filter (\<lambda>h. case snd h of (ws, s) \<Rightarrow> u \<le> s \<and> s < u + window) (filter (\<lambda>h. fst h = b) hs)"
    unfolding filter_filter by (intro filter_cong) auto
  then have "length (filter (\<lambda>(b', ws, s). b' = b \<and> u \<le> s \<and> s < u + window) hs)
      = length (filter (\<lambda>(ws, s). u \<le> s \<and> s < u + window) (entries b hs))"
    by (simp add: entries_def filter_map comp_def)
  then show "length (filter (\<lambda>(b', ws, s). b' = b \<and> u \<le> s \<and> s < u + window) hs) \<le> 2 * limit b"
    using entries_bound [OF inv assms(2), of u] by simp
  show "authenticated_request_quota_count b qs \<le> int (limit b)"
    using inv by (auto simp: authenticated_request_quota_count_def bucket_inv_def split: option.splits)
      (metis of_nat_le_iff)
qed

section \<open>Witnesses\<close>

theorem failures_bounded_witness:
  "\<exists>fs. record_authentication_failure [(''k'', 1)] 60 100 [] = Inr fs \<and> within ''k'' 40 60 [(''k'', 100)] \<le> 1"
proof -
  have r: "record_authentication_failure [(''k'', 1)] 60 100 [] = Inr [(''k'', 100)]"
    by (simp add: record_authentication_failure_def check_failure_limits_def drop_before_def sql_delete_def failures_since_def)
  have "failure_history 60 (\<lambda>_. 1) [(''k'', 100)] [(''k'', 100)] 100"
    using failure_history.recorded [OF failure_history.started [of 60 "\<lambda>_. 1" 0] _ _ _ r] by simp
  then show ?thesis using failures_bounded [of 60 "\<lambda>_. 1" "[(''k'', 100)]"] r by blast
qed

theorem retry_after_exact_witness:
  "enforce_authentication_rate_limit [(''k'', 1)] 60 130 [(''k'', 100)] = Inl (AuthenticationRateLimitError 31)
   \<and> (\<exists>fs. enforce_authentication_rate_limit [(''k'', 1)] 60 161 [(''k'', 100)] = Inr fs)"
proof -
  have e: "enforce_authentication_rate_limit [(''k'', 1)] 60 130 [(''k'', 100)] = Inl (AuthenticationRateLimitError 31)"
    by (simp add: enforce_authentication_rate_limit_def check_failure_limits_def drop_before_def sql_delete_def failures_since_def
        retry_after_def)
  show ?thesis using retry_after_exact [OF e, of 161] e by (simp add: failures_since_def)
qed

theorem quota_bounded_witness:
  "\<exists>qs. consume_authenticated_request_quota [(''k'', 5)] 60 100 [] = Inr qs \<and> authenticated_request_quota_count ''k'' qs \<le> 5"
proof -
  let ?q = "[\<lparr>qr_bucket_hash = ''k'', qr_window_started_at = 100, qr_request_count = 1\<rparr>]"
  have c: "consume_authenticated_request_quota [(''k'', 5)] 60 100 [] = Inr ?q"
    by (simp add: consume_authenticated_request_quota_def check_quota_limits_def sql_delete_def quota_update_def quota_find_def
        sql_find_def quota_upsert_def)
  have "quota_history 60 (\<lambda>_. 5) (map (\<lambda>(b, m). (b, window_of ?q b, 100)) [(''k'', 5 :: int)]) ?q 100"
    using quota_history.admitted [OF quota_history.started [of 60 "\<lambda>_. 5" 0] _ _ c] by simp
  then show ?thesis using quota_bounded [of 60 "\<lambda>_. 5" _ ?q 100 "''k''"] c by (intro exI [of _ ?q]) auto
qed

end
