(* ===== verification/MediaStore.thy ===== *)
theory MediaStore
  imports PublicationStore AuditIntegrity
begin

text \<open>
  \<open>publication_media_store.py\<close> and \<open>publication_media_signing.py\<close> of \<open>backend/agency_runtime\<close>: the table of
  immutable publication images with their bytes, and the keyring that signs the public link of one.
  Bytes are a string of characters; \<open>datetime.fromisoformat\<close> is an argument that gives seconds.
\<close>

section \<open>The signing keyring\<close>

definition is_media_key_id :: "string \<Rightarrow> bool" where
  "is_media_key_id = fullmatch_class is_alnum
     (\<lambda>c. is_alnum c \<or> c \<in> {CHR ''.'', CHR ''_'', CHR ''-''}) 0 63"

definition media_key_error :: "string \<Rightarrow> 'a res" where
  "media_key_error m = Inl (PublicMediaSigningConfigurationError m)"

definition media_key_length :: "string \<Rightarrow> nat list \<Rightarrow> bool" where
  "media_key_length k raw \<longleftrightarrow> length raw = 32 \<or> k = ''legacy'' \<and> 32 \<le> length raw \<and> length raw \<le> 4096"

fun check_media_keys :: "(string \<times> nat list) list \<Rightarrow> unit res" where
  "check_media_keys [] = Inr ()"
| "check_media_keys ((k, raw) # rest) = rbind (raise_first
     [(\<not> is_media_key_id k, PublicMediaSigningConfigurationError ''public media signing key identifier is invalid''),
      (\<not> media_key_length k raw, PublicMediaSigningConfigurationError ''public media signing keys must contain exactly 32 bytes'')])
     (\<lambda>_. check_media_keys rest)"

definition make_media_keyring :: "(string \<times> nat list) list \<Rightarrow> string \<Rightarrow> keyring res" where
  "make_media_keyring keys active =
     (if keys = [] \<or> 16 < length keys then media_key_error ''public media signing keyring must contain 1..16 keys''
      else rbind (check_media_keys keys) (\<lambda>_.
        if active \<notin> fst ` set keys then media_key_error ''active public media signing key is absent from the keyring''
        else Inr \<lparr>kr_keys = keys, kr_active = active\<rparr>))"

text \<open>A value may keep its padding here; it is compared without it.\<close>

definition rstrip_padding :: "string \<Rightarrow> string" where
  "rstrip_padding v = rev (dropWhile (\<lambda>c. c = CHR ''='') (rev v))"

text \<open>\<open>b64decode(value + "=" * (-len(value) % 4), validate=True)\<close>: what is left after the padding has to be
  padded to a multiple of four, and has no padding inside.\<close>

definition decode_padded :: "string \<Rightarrow> nat list option" where
  "decode_padded v = (let body = rstrip_padding v; pad = length v - length body; fill = (4 - length v mod 4) mod 4 in
     if pad + fill = (4 - length body mod 4) mod 4 then b64url_decode body else None)"

fun decode_media_keys :: "(string \<times> json) list \<Rightarrow> (string \<times> nat list) list res" where
  "decode_media_keys [] = Inr []"
| "decode_media_keys ((k, JStr v) # rest) =
     (if \<not> matches_base64url v then media_key_error ''public media signing key material is not canonical base64url''
      else case decode_padded v of
        None \<Rightarrow> media_key_error ''public media signing key material is invalid''
      | Some raw \<Rightarrow>
          if rstrip_padding v \<noteq> b64url_encode raw
          then media_key_error ''public media signing key material is not canonical base64url''
          else rbind (decode_media_keys rest) (\<lambda>ds. Inr ((k, raw) # ds)))"
| "decode_media_keys ((k, _) # rest) = media_key_error ''public media signing key material is not canonical base64url''"

definition media_keyring_from_environment ::
  "string option \<Rightarrow> string option \<Rightarrow> string option \<Rightarrow> (string \<Rightarrow> parsed) \<Rightarrow> keyring option res" where
  "media_keyring_from_environment raw_keys_json active_key_id legacy_key loads =
     (let raw_keys = strip (case raw_keys_json of None \<Rightarrow> [] | Some s \<Rightarrow> s);
          active = strip (case active_key_id of None \<Rightarrow> [] | Some s \<Rightarrow> s);
          legacy = (case legacy_key of None \<Rightarrow> [] | Some s \<Rightarrow> s)
      in if legacy \<noteq> [] \<and> (raw_keys \<noteq> [] \<or> active \<noteq> []) then
           media_key_error ''legacy and keyring public media signing configuration are mutually exclusive''
         else if legacy \<noteq> [] then
           (if utf8_len legacy < 32 \<or> 4096 < utf8_len legacy
            then media_key_error ''legacy public media signing key must contain 32..4096 bytes''
            else rbind (make_media_keyring [(''legacy'', bytes_of (utf8 legacy))] ''legacy'') (\<lambda>k. Inr (Some k)))
         else if raw_keys = [] \<and> active = [] then Inr None
         else if raw_keys = [] \<or> active = [] then
           media_key_error ''public media signing keyring and active key ID must be configured together''
         else case loads raw_keys of
           NotJson \<Rightarrow> media_key_error ''public media signing keyring JSON is invalid''
         | NotObject \<Rightarrow> media_key_error ''public media signing keyring must be a JSON object''
         | Pairs kvs \<Rightarrow>
             if \<not> distinct (map fst kvs) then media_key_error ''public media signing keyring contains a duplicate key ID''
             else rbind (decode_media_keys kvs) (\<lambda>keys. rbind (make_media_keyring keys active) (\<lambda>k. Inr (Some k))))"

definition media_sign :: "keyring \<Rightarrow> string \<Rightarrow> string \<Rightarrow> string \<Rightarrow> string res" where
  "media_sign kr key_id media_id expires_at = (case map_of (kr_keys kr) key_id of
     None \<Rightarrow> Inl (PublicMediaSigningKeyUnavailableError ''required public media signing key is unavailable'')
   | Some key \<Rightarrow> Inr (b64url_encode (hmac_sha256 key (bytes_of (utf8 (canonical_json
       (JList [JStr ''publication-media'', JStr media_id, JStr expires_at])))))))"

definition media_sign_active :: "keyring \<Rightarrow> string \<Rightarrow> string \<Rightarrow> (string \<times> string) res" where
  "media_sign_active kr media_id expires_at =
     rbind (media_sign kr (kr_active kr) media_id expires_at) (\<lambda>token. Inr (kr_active kr, token))"

section \<open>Records\<close>

record media =
  md_media_id :: string
  md_tenant_id :: string
  md_run_id :: string
  md_channel_id :: string
  md_content_type :: string
  md_byte_size :: int
  md_sha256 :: string
  md_width :: int
  md_height :: int
  md_alt_text :: string
  md_rights_attested_by :: string
  md_public_token_digest :: string
  md_public_signing_key_id :: string
  md_created_at :: string
  md_expires_at :: string
  md_revoked_at :: "string option"
  md_idempotency_digest :: string
  md_binding_digest :: string
  md_revocation_reason :: string

record media_row =
  mr_media :: media
  mr_content :: string

type_synonym media_table = "media_row list"

record media_reservation =
  mv_record :: media
  mv_created :: bool
  mv_replayed :: bool

definition validate_media_identity :: "string \<Rightarrow> string \<Rightarrow> unit res" where
  "validate_media_identity tenant mid = raise_first
     [(\<not> sp_identifier tenant \<or> \<not> sp_identifier mid, ValueError ''publication media identity is invalid'')]"

definition validate_media :: "(string \<Rightarrow> int res) \<Rightarrow> media \<Rightarrow> string \<Rightarrow> unit res" where
  "validate_media seconds m content =
     rbind (validate_media_identity (md_tenant_id m) (md_media_id m)) (\<lambda>_.
     rbind (raise_first
       [(\<not> sp_identifier (md_run_id m), ValueError ''run_id is invalid''),
        (\<not> sp_identifier (md_rights_attested_by m), ValueError ''rights_attested_by is invalid''),
        (md_channel_id m \<noteq> ''instagram'', ValueError ''publication media channel is invalid''),
        (md_content_type m \<noteq> ''image/jpeg'', ValueError ''publication media content type is invalid''),
        (content = [] \<or> 8 * 1024 * 1024 < length content \<or> md_byte_size m \<noteq> int (length content),
          ValueError ''publication media byte size is invalid''),
        (\<not> is_sha256 (md_sha256 m) \<or> sha256_hex content \<noteq> md_sha256 m, ValueError ''publication media hash is invalid''),
        (\<not> is_sha256 (md_public_token_digest m), ValueError ''publication media token digest is invalid''),
        (\<not> sp_identifier (md_public_signing_key_id m), ValueError ''publication media signing key identifier is invalid''),
        (\<exists>d \<in> set [md_idempotency_digest m, md_binding_digest m]. d \<noteq> [] \<and> \<not> is_sha256 d,
          ValueError ''publication media command digest is invalid''),
        (md_width m \<le> 0 \<or> md_height m \<le> 0, ValueError ''publication media dimensions are invalid''),
        (strip (md_alt_text m) = [] \<or> 2000 < utf8_len (md_alt_text m), ValueError ''publication media alt text is invalid'')]) (\<lambda>_.
     rbind (seconds (md_created_at m)) (\<lambda>created.
     rbind (seconds (md_expires_at m)) (\<lambda>expires.
       if expires \<le> created then Inl (ValueError ''publication media expiry is invalid'')
       else case md_revoked_at m of None \<Rightarrow> Inr () | Some t \<Rightarrow> rbind (seconds t) (\<lambda>_. Inr ())))))"

section \<open>Operations\<close>

text \<open>The primary key and the unique constraints; an empty command digest is stored as NULL.\<close>

definition media_clash :: "media \<Rightarrow> media \<Rightarrow> bool" where
  "media_clash a b \<longleftrightarrow> md_media_id a = md_media_id b \<or> md_public_token_digest a = md_public_token_digest b
     \<or> md_tenant_id a = md_tenant_id b
       \<and> (md_idempotency_digest a = md_idempotency_digest b \<and> md_idempotency_digest a \<noteq> []
         \<or> md_binding_digest a = md_binding_digest b \<and> md_binding_digest a \<noteq> []
         \<or> md_run_id a = md_run_id b \<and> md_channel_id a = md_channel_id b \<and> md_sha256 a = md_sha256 b)"

definition media_insert :: "media_table \<Rightarrow> media \<Rightarrow> string \<Rightarrow> media_table res" where
  "media_insert rows m content =
     (if \<exists>r \<in> set rows. media_clash (mr_media r) m then Inl IntegrityError
      else Inr (rows @ [\<lparr>mr_media = m, mr_content = content\<rparr>]))"

definition media_create :: "(string \<Rightarrow> int res) \<Rightarrow> media_table \<Rightarrow> media \<Rightarrow> string \<Rightarrow> media_table res" where
  "media_create seconds rows m content =
     rbind (validate_media seconds m content) (\<lambda>_. case media_insert rows m content of
       Inr rows' \<Rightarrow> Inr rows'
     | Inl _ \<Rightarrow> Inl (PublicationMediaConflictError ''publication media conflicts with existing durable state''))"

definition media_find_existing :: "media_table \<Rightarrow> media \<Rightarrow> media_row option" where
  "media_find_existing rows m = sql_find (\<lambda>r. md_media_id (mr_media r) = md_media_id m
     \<or> md_idempotency_digest m \<noteq> [] \<and> md_tenant_id (mr_media r) = md_tenant_id m
       \<and> md_idempotency_digest (mr_media r) = md_idempotency_digest m
     \<or> md_binding_digest m \<noteq> [] \<and> md_tenant_id (mr_media r) = md_tenant_id m
       \<and> md_binding_digest (mr_media r) = md_binding_digest m) rows"

definition media_content_for :: "media_table \<Rightarrow> string \<Rightarrow> string res" where
  "media_content_for rows mid = (case sql_find (\<lambda>r. md_media_id (mr_media r) = mid) rows of
     None \<Rightarrow> Inl (KeyError ''publication media not found'') | Some r \<Rightarrow> Inr (mr_content r))"

definition media_reserve ::
  "(string \<Rightarrow> int res) \<Rightarrow> media_table \<Rightarrow> media \<Rightarrow> string \<Rightarrow> (media_table \<times> media_reservation) res" where
  "media_reserve seconds rows m content =
     rbind (validate_media seconds m content) (\<lambda>_. case media_find_existing rows m of
       Some r \<Rightarrow>
         if md_binding_digest (mr_media r) \<noteq> md_binding_digest m
         then Inl (PublicationMediaConflictError ''publication media idempotency key conflicts with prior input'')
         else rbind (media_content_for rows (md_media_id (mr_media r))) (\<lambda>stored.
           if stored \<noteq> content then Inl (PublicationMediaConflictError ''publication media bytes conflict with durable binding'')
           else Inr (rows, \<lparr>mv_record = mr_media r, mv_created = False, mv_replayed = True\<rparr>))
     | None \<Rightarrow> (case media_insert rows m content of
           Inr rows' \<Rightarrow> Inr (rows', \<lparr>mv_record = m, mv_created = True, mv_replayed = False\<rparr>)
         | Inl _ \<Rightarrow> (case media_find_existing rows m of
               None \<Rightarrow> Inl (PublicationMediaConflictError ''publication media conflicts with existing durable state'')
             | Some r \<Rightarrow>
                 if md_binding_digest (mr_media r) \<noteq> md_binding_digest m
                 then Inl (PublicationMediaConflictError ''publication media conflicts with existing durable state'')
                 else rbind (media_content_for rows (md_media_id (mr_media r))) (\<lambda>stored.
                   if stored \<noteq> content
                   then Inl (PublicationMediaConflictError ''publication media bytes conflict with durable binding'')
                   else Inr (rows, \<lparr>mv_record = mr_media r, mv_created = False, mv_replayed = True\<rparr>)))))"

definition media_get :: "media_table \<Rightarrow> string \<Rightarrow> string \<Rightarrow> media option res" where
  "media_get rows tenant mid =
     rbind (validate_media_identity tenant mid) (\<lambda>_. Inr (map_option mr_media
       (sql_find (\<lambda>r. md_tenant_id (mr_media r) = tenant \<and> md_media_id (mr_media r) = mid) rows)))"

definition media_get_content :: "media_table \<Rightarrow> string \<Rightarrow> string \<Rightarrow> string res" where
  "media_get_content rows tenant mid =
     rbind (media_get rows tenant mid) (\<lambda>found.
       if found = None then Inl (KeyError ''publication media not found'') else media_content_for rows mid)"

text \<open>The public lookup compares the stored expiry with the clock as texts.\<close>

definition media_get_public :: "media_table \<Rightarrow> string \<Rightarrow> string \<Rightarrow> (media \<times> string) res" where
  "media_get_public rows digest clk =
     (if \<not> is_sha256 digest then Inl (KeyError ''publication media not found'')
      else case sql_find (\<lambda>r. md_public_token_digest (mr_media r) = digest \<and> md_revoked_at (mr_media r) = None
           \<and> clk < md_expires_at (mr_media r)) rows of
        None \<Rightarrow> Inl (KeyError ''publication media not found'')
      | Some r \<Rightarrow>
          if sha256_hex (mr_content r) \<noteq> md_sha256 (mr_media r)
          then Inl (PublicationMediaStoreError ''publication media bytes do not match durable hash'')
          else Inr (mr_media r, mr_content r))"

definition media_revoke :: "media_table \<Rightarrow> string \<Rightarrow> string \<Rightarrow> string \<Rightarrow> string \<Rightarrow> media_table res" where
  "media_revoke rows tenant mid reason clk =
     rbind (validate_media_identity tenant mid) (\<lambda>_.
     rbind (raise_first [(reason = [] \<or> 512 < utf8_len reason, ValueError ''publication media revocation reason is invalid'')]) (\<lambda>_.
       let hit = (\<lambda>r. md_tenant_id (mr_media r) = tenant \<and> md_media_id (mr_media r) = mid \<and> md_revoked_at (mr_media r) = None) in
       if sql_count hit rows \<noteq> 1 then Inl (KeyError ''publication media not found'')
       else Inr (sql_update hit (\<lambda>r. r\<lparr>mr_media := (mr_media r)\<lparr>md_revoked_at := Some clk, md_revocation_reason := reason\<rparr>\<rparr>) rows)))"

end
