(* ===== verification/OAuthStore.thy ===== *)
theory OAuthStore
  imports PublicationStore
begin

text \<open>
  \<open>SQLiteSocialOAuthStore\<close> (\<open>backend/agency_runtime/social_oauth_store.py\<close>): pending OAuth authorizations,
  each consumed at most once, and the connected accounts with their encrypted tokens.
  \<open>datetime.fromisoformat\<close> is an argument that gives seconds.
\<close>

section \<open>Records\<close>

record encrypted =
  ec_key_id :: string
  ec_ciphertext :: string

record oauth_state =
  os_state_id :: string
  os_tenant_id :: string
  os_session_id :: string
  os_channel_id :: string
  os_state_digest :: string
  os_provider_token_digest :: "string option"
  os_encrypted_payload :: encrypted
  os_created_at :: string
  os_expires_at :: string
  os_consumed_at :: "string option"

record social_connection =
  sn_tenant_id :: string
  sn_channel_id :: string
  sn_account_id :: string
  sn_account_username :: string
  sn_encrypted_tokens :: encrypted
  sn_scopes :: "string list"
  sn_token_expires_at :: "string option"
  sn_connected_at :: string
  sn_updated_at :: string

type_synonym oauth_states = "oauth_state list"
type_synonym connections = "social_connection list"

section \<open>Validation\<close>

definition oauth_validate_lookup :: "string \<Rightarrow> string \<Rightarrow> string \<Rightarrow> string \<Rightarrow> string option \<Rightarrow> unit res" where
  "oauth_validate_lookup tenant session channel digest token_digest = raise_first
     [(\<not> sp_identifier tenant \<or> \<not> sp_identifier session, ValueError ''social OAuth identity is invalid''),
      (\<not> sp_channel channel \<or> \<not> is_sha256 digest, ValueError ''social OAuth state lookup is invalid''),
      (case token_digest of None \<Rightarrow> False | Some d \<Rightarrow> \<not> is_sha256 d, ValueError ''provider token digest is invalid'')]"

definition oauth_validate_state :: "(string \<Rightarrow> int res) \<Rightarrow> oauth_state \<Rightarrow> unit res" where
  "oauth_validate_state seconds s =
     rbind (oauth_validate_lookup (os_tenant_id s) (os_session_id s) (os_channel_id s) (os_state_digest s)
       (os_provider_token_digest s)) (\<lambda>_.
     rbind (raise_first
       [(\<not> sp_identifier (os_state_id s), ValueError ''state_id is invalid''),
        (ec_ciphertext (os_encrypted_payload s) = [] \<or> \<not> sp_identifier (ec_key_id (os_encrypted_payload s)),
          ValueError ''encrypted OAuth payload is invalid'')]) (\<lambda>_.
     rbind (seconds (os_created_at s)) (\<lambda>created.
     rbind (seconds (os_expires_at s)) (\<lambda>expires.
       if expires \<le> created \<or> os_consumed_at s \<noteq> None
       then Inl (ValueError ''social OAuth state lifetime is invalid'') else Inr ()))))"

definition validate_tenant_channel :: "string \<Rightarrow> string \<Rightarrow> unit res" where
  "validate_tenant_channel tenant channel = raise_first
     [(\<not> sp_identifier tenant \<or> \<not> sp_channel channel, ValueError ''social connection identity is invalid'')]"

definition validate_connection :: "(string \<Rightarrow> int res) \<Rightarrow> social_connection \<Rightarrow> unit res" where
  "validate_connection seconds c =
     rbind (validate_tenant_channel (sn_tenant_id c) (sn_channel_id c)) (\<lambda>_.
     rbind (raise_first
       [(\<not> sp_identifier (sn_account_id c), ValueError ''account_id is invalid''),
        (\<not> sp_identifier (sn_account_username c), ValueError ''account_username is invalid''),
        (ec_ciphertext (sn_encrypted_tokens c) = [] \<or> \<not> sp_identifier (ec_key_id (sn_encrypted_tokens c)),
          ValueError ''encrypted social tokens are invalid''),
        (sn_scopes c = [] \<or> 32 < length (sn_scopes c) \<or> list_ex (\<lambda>s. s = [] \<or> 128 < length s) (sn_scopes c),
          ValueError ''social scopes are invalid'')]) (\<lambda>_.
     rbind (seconds (sn_connected_at c)) (\<lambda>_.
     rbind (seconds (sn_updated_at c)) (\<lambda>_.
       case sn_token_expires_at c of None \<Rightarrow> Inr () | Some t \<Rightarrow> rbind (seconds t) (\<lambda>_. Inr ())))))"

section \<open>Authorizations in progress\<close>

text \<open>A new authorization replaces the session's unfinished one for the channel.\<close>

definition oauth_create_state :: "(string \<Rightarrow> int res) \<Rightarrow> oauth_states \<Rightarrow> oauth_state \<Rightarrow> oauth_states res" where
  "oauth_create_state seconds rows s =
     rbind (oauth_validate_state seconds s) (\<lambda>_.
       let kept = sql_delete (\<lambda>r. os_tenant_id r = os_tenant_id s \<and> os_session_id r = os_session_id s
             \<and> os_channel_id r = os_channel_id s \<and> os_consumed_at r = None) rows in
       if \<exists>r \<in> set kept. os_state_id r = os_state_id s \<or> os_state_digest r = os_state_digest s
       then Inl (SocialOAuthStoreError ''social OAuth state could not be created'')
       else Inr (kept @ [s\<lparr>os_consumed_at := None\<rparr>]))"

definition oauth_consume_state ::
  "oauth_states \<Rightarrow> string \<Rightarrow> string \<Rightarrow> string \<Rightarrow> string \<Rightarrow> string option \<Rightarrow> string \<Rightarrow> (oauth_states \<times> oauth_state) res" where
  "oauth_consume_state rows tenant session channel digest token_digest clk =
     rbind (oauth_validate_lookup tenant session channel digest token_digest) (\<lambda>_.
     case sql_find (\<lambda>r. os_tenant_id r = tenant \<and> os_session_id r = session \<and> os_channel_id r = channel
         \<and> os_state_digest r = digest \<and> os_provider_token_digest r = token_digest
         \<and> os_consumed_at r = None \<and> clk < os_expires_at r) rows of
       None \<Rightarrow> Inl (SocialOAuthStateUnavailableError ''social OAuth state is unavailable'')
     | Some x \<Rightarrow>
         (let hit = (\<lambda>r. os_state_id r = os_state_id x \<and> os_consumed_at r = None) in
          if sql_count hit rows \<noteq> 1 then Inl (SocialOAuthStateUnavailableError ''social OAuth state is unavailable'')
          else Inr (sql_update hit (\<lambda>r. r\<lparr>os_consumed_at := Some clk\<rparr>) rows, x\<lparr>os_consumed_at := Some clk\<rparr>)))"

section \<open>Connections\<close>

definition connection_key :: "string \<Rightarrow> string \<Rightarrow> social_connection \<Rightarrow> bool" where
  "connection_key tenant channel c \<longleftrightarrow> sn_tenant_id c = tenant \<and> sn_channel_id c = channel"

definition upsert_connection :: "(string \<Rightarrow> int res) \<Rightarrow> connections \<Rightarrow> social_connection \<Rightarrow> connections res" where
  "upsert_connection seconds rows c =
     rbind (validate_connection seconds c) (\<lambda>_.
       if \<exists>r \<in> set rows. connection_key (sn_tenant_id c) (sn_channel_id c) r
       then Inr (sql_update (connection_key (sn_tenant_id c) (sn_channel_id c)) (\<lambda>_. c) rows)
       else Inr (rows @ [c]))"

definition get_connection :: "connections \<Rightarrow> string \<Rightarrow> string \<Rightarrow> social_connection option res" where
  "get_connection rows tenant channel =
     rbind (validate_tenant_channel tenant channel) (\<lambda>_. Inr (sql_find (connection_key tenant channel) rows))"

definition list_connections :: "connections \<Rightarrow> string \<Rightarrow> connections res" where
  "list_connections rows tenant =
     (if \<not> sp_identifier tenant then Inl (ValueError ''tenant_id is invalid'')
      else Inr (sort_key sn_channel_id (filter (\<lambda>r. sn_tenant_id r = tenant) rows)))"

text \<open>The tokens are overwritten before the row is deleted; both happen in one transaction.\<close>

definition delete_connection :: "connections \<Rightarrow> string \<Rightarrow> string \<Rightarrow> string \<Rightarrow> (connections \<times> bool) res" where
  "delete_connection rows tenant channel clk =
     rbind (validate_tenant_channel tenant channel) (\<lambda>_.
     case sql_find (connection_key tenant channel) rows of
       None \<Rightarrow> Inr (rows, False)
     | Some x \<Rightarrow>
         (let wiped = sql_update (connection_key tenant channel) (\<lambda>r. r\<lparr>
                sn_encrypted_tokens := (sn_encrypted_tokens r)\<lparr>ec_ciphertext :=
                  replicate (max 32 (length (ec_ciphertext (sn_encrypted_tokens x)))) (CHR ''0'')\<rparr>,
                sn_account_id := ''deleted-account'', sn_account_username := ''deleted-account'', sn_scopes := [],
                sn_token_expires_at := None, sn_updated_at := clk\<rparr>) rows
          in Inr (sql_delete (connection_key tenant channel) wiped, sql_count (connection_key tenant channel) wiped = 1)))"

definition connection_count :: "connections \<Rightarrow> string \<Rightarrow> nat res" where
  "connection_count rows tenant =
     (if \<not> sp_identifier tenant then Inl (ValueError ''tenant_id is invalid'')
      else Inr (sql_count (\<lambda>r. sn_tenant_id r = tenant) rows))"

end
