(* ===== verification/Service.thy ===== *)
theory Service
  imports RunStore Orchestrator ModelEffect Publication MediaStore OAuthStore
begin

text \<open>
  \<open>RuntimeService\<close> (\<open>backend/agency_runtime/api.py\<close>) on SQLite: the commands of the runtime over the run
  store, one orchestrator per tenant, the model-effect, media and connection stores. A command is a step:
  it returns the service it leaves and its result or exception. The store's lock, which every command
  and the worker hold, makes each of them atomic, so the lock itself is not modelled. Clock readings,
  uuids and the reading of dates are arguments.
\<close>

section \<open>State\<close>

record service =
  sv_lease_seconds :: int
  sv_db :: run_db
  sv_runtimes :: "string \<Rightarrow> orchestrator option"
  sv_memories :: "memory_row list"
  sv_effects :: me_table
  sv_media :: media_table
  sv_connections :: connections

type_synonym 'a command = "(service, 'a) step"

text \<open>What a command reads from its surroundings: the orchestrator's clocks, \<open>int()\<close> of a float, dates as
  seconds and back, the store's clock, the stamp of its audit event, \<open>utc_now()\<close> as text and, in the
  worker's loop, per run of the queue, and at a checkpoint.\<close>

record service_env =
  se_orch :: orch_env
  se_float :: "string \<Rightarrow> int res"
  se_seconds :: "string \<Rightarrow> int res"
  se_at_time :: "int \<Rightarrow> string"
  se_clock :: string
  se_stamp :: stamp
  se_utc :: string
  se_now :: "nat \<Rightarrow> int"
  se_checkpoint :: string

record principal =
  pn_tenant_id :: string
  pn_subject_id :: string
  pn_role :: string
  pn_key_id :: string
  pn_credential_fingerprint :: string
  pn_entitlements :: "string list"
  pn_auth_method :: string
  pn_session_id :: string

text \<open>The exclusions of \<open>RuntimeService.__init__\<close> for SQLite.\<close>

definition make_service ::
  "int \<Rightarrow> run_db \<Rightarrow> memory_row list \<Rightarrow> me_table \<Rightarrow> media_table \<Rightarrow> connections \<Rightarrow> service res" where
  "make_service lease db memories effects media conns =
     (if lease < 5 \<or> 300 < lease then Inl (ValueError ''run lease must be between 5 and 300 seconds'')
      else Inr \<lparr>sv_lease_seconds = lease, sv_db = db, sv_runtimes = (\<lambda>_. None), sv_memories = memories,
             sv_effects = effects, sv_media = media, sv_connections = conns\<rparr>)"

section \<open>Building blocks\<close>

text \<open>\<open>try: m except Exception as e: h e\<close>; a handler re-raises what it does not catch.\<close>

definition scatch :: "('s, 'a) step \<Rightarrow> (exn \<Rightarrow> ('s, 'a) step) \<Rightarrow> ('s, 'a) step" where
  "scatch m h = (\<lambda>s. case m s of (s', Inl e) \<Rightarrow> h e s' | (s', Inr v) \<Rightarrow> (s', Inr v))"

definition on_db :: "(run_db \<Rightarrow> run_db res) \<Rightarrow> unit command" where
  "on_db f = (\<lambda>s. case f (sv_db s) of Inl e \<Rightarrow> (s, Inl e) | Inr db \<Rightarrow> (s\<lparr>sv_db := db\<rparr>, Inr ()))"

definition from_db :: "(run_db \<Rightarrow> 'a res) \<Rightarrow> 'a command" where
  "from_db f = (\<lambda>s. (s, f (sv_db s)))"

definition store_append :: "service_env \<Rightarrow> string \<Rightarrow> audit_write \<Rightarrow> unit command" where
  "store_append env tenant w = sthen (slift (check_audit_write w))
     (on_db (\<lambda>db. rbind (append_audit (db_ledger db) tenant w (st_clock (se_stamp env)) (st_uuid (se_stamp env)))
        (\<lambda>l. Inr (db\<lparr>db_ledger := l\<rparr>))))"

definition store_create :: "service_env \<Rightarrow> string \<Rightarrow> run \<Rightarrow> audit_write \<Rightarrow> unit command" where
  "store_create env tenant r w = sthen (slift (check_audit_write w))
     (on_db (\<lambda>db. run_create db tenant r (Some w) (se_clock env) (se_stamp env)))"

definition store_save :: "service_env \<Rightarrow> string \<Rightarrow> run \<Rightarrow> run_status \<Rightarrow> audit_write \<Rightarrow> unit command" where
  "store_save env tenant r expected w = sthen (slift (check_audit_write w))
     (on_db (\<lambda>db. run_save db tenant r (Some w) (Some (run_status_value expected)) (se_clock env) (se_stamp env)))"

definition store_get :: "service_env \<Rightarrow> string \<Rightarrow> string \<Rightarrow> run command" where
  "store_get env tenant rid = from_db (\<lambda>db. run_get (se_float env) db tenant rid)"

definition runtime_for :: "string \<Rightarrow> orchestrator command" where
  "runtime_for tenant = (\<lambda>s. case sv_runtimes s tenant of
     Some h \<Rightarrow> (s, Inr h)
   | None \<Rightarrow> (case make_memory tenant (sv_memories s) of
       Inl e \<Rightarrow> (s, Inl e)
     | Inr m \<Rightarrow> (let h = \<lparr>or_runs = (\<lambda>_. None), or_tick = 0, or_memory = m\<rparr> in
         (s\<lparr>sv_runtimes := (sv_runtimes s)(tenant \<mapsto> h)\<rparr>, Inr h))))"

definition in_runtime :: "string \<Rightarrow> (orchestrator, 'a) step \<Rightarrow> 'a command" where
  "in_runtime tenant m = sbind (runtime_for tenant) (\<lambda>h s. case m h of
     (h', r) \<Rightarrow> (s\<lparr>sv_runtimes := (sv_runtimes s)(tenant \<mapsto> h')\<rparr>, r))"

text \<open>\<open>orchestrator.start\<close> returns for every brief (\<open>OrchestratorLaws\<close>), so the last branch is never taken.\<close>

definition start_step :: "orch_env \<Rightarrow> brief \<Rightarrow> (orchestrator, run) step" where
  "start_step env b = (\<lambda>h. case start env b h of Some out \<Rightarrow> out | None \<Rightarrow> (h, Inl (RuntimeError ''start does not return'')))"

section \<open>Command receipts\<close>

definition command_event_id :: "string \<Rightarrow> string \<Rightarrow> string \<Rightarrow> string" where
  "command_event_id tenant operation key =
     stable_id ''command'' [JStr tenant, JStr operation, JStr (sha256_text key)] 48"

definition command_fingerprint :: "string \<Rightarrow> string \<Rightarrow> string \<Rightarrow> json \<Rightarrow> string" where
  "command_fingerprint operation subject resource payload =
     stable_id ''request'' [JStr operation, JStr subject, JStr resource, payload] 64"

definition command_payload :: "string \<Rightarrow> string \<Rightarrow> run \<Rightarrow> json" where
  "command_payload operation fingerprint r = JObj [(''operation'', JStr operation),
     (''request_fingerprint'', JStr fingerprint), (''response_document'', execution_run_to_document r)]"

definition replay_of :: "(string \<Rightarrow> int res) \<Rightarrow> string \<Rightarrow> string \<Rightarrow> audit_row \<Rightarrow> run res" where
  "replay_of iof operation fingerprint e =
     (let raw = get_or (ac_payload (ar_content e)) ''idempotency'' JNull in
      case raw of
        JObj d \<Rightarrow>
          if get_or d ''operation'' JNull \<noteq> JStr operation \<or> get_or d ''request_fingerprint'' JNull \<noteq> JStr fingerprint
          then Inl (IdempotencyConflictError ''idempotency key conflicts with a prior request'')
          else (case get_or d ''response_document'' JNull of
              JObj doc \<Rightarrow> execution_run_from_document iof (JObj doc)
            | _ \<Rightarrow> Inl (RuntimeError ''command receipt is missing its response document''))
      | _ \<Rightarrow> Inl (RuntimeError ''command receipt is missing idempotency metadata''))"

definition command_replay :: "service_env \<Rightarrow> string \<Rightarrow> string \<Rightarrow> string \<Rightarrow> string \<Rightarrow> run option command" where
  "command_replay env tenant event_id operation fingerprint = from_db (\<lambda>db.
     rbind (audit_event (db_ledger db) tenant event_id) (\<lambda>found. case found of
       None \<Rightarrow> Inr None
     | Some e \<Rightarrow> rbind (replay_of (se_float env) operation fingerprint e) (\<lambda>r. Inr (Some r))))"

text \<open>The handler of \<open>AuditEventConflictError\<close>: another writer left the receipt.\<close>

definition or_replay ::
  "service_env \<Rightarrow> string \<Rightarrow> string \<Rightarrow> string \<Rightarrow> string \<Rightarrow> (run \<times> bool) command \<Rightarrow> (run \<times> bool) command" where
  "or_replay env tenant event_id operation fingerprint m = scatch m (\<lambda>e. case e of
     AuditEventConflictError _ \<Rightarrow> sbind (command_replay env tenant event_id operation fingerprint) (\<lambda>found. case found of
       None \<Rightarrow> slift (Inl e) | Some r \<Rightarrow> sret (r, True))
   | _ \<Rightarrow> slift (Inl e))"

text \<open>The receipt first: a command that was executed before is answered from its receipt.\<close>

definition replay_first ::
  "service_env \<Rightarrow> string \<Rightarrow> string \<Rightarrow> string \<Rightarrow> string \<Rightarrow> (run \<times> bool) command \<Rightarrow> (run \<times> bool) command" where
  "replay_first env tenant event_id operation fingerprint m =
     sbind (command_replay env tenant event_id operation fingerprint) (\<lambda>found. case found of
       Some r \<Rightarrow> sret (r, True) | None \<Rightarrow> m)"

section \<open>Starting a run\<close>

definition start_payload :: "run \<Rightarrow> bool \<Rightarrow> string \<Rightarrow> string \<Rightarrow> (string \<times> json) list" where
  "start_payload r reused operation fingerprint =
     [(''status'', JStr (run_status_value (run_status r))), (''artifact_ids'', jstrs (map artifact_id (artifacts r))),
      (''platforms'', jstrs (map platform_value (platforms (run_brief r)))),
      (''budget_cents'', JInt (budget_cents (run_brief r)))]
     @ (if reused then [(''reused_existing'', JBool True)] else [])
     @ [(''idempotency'', command_payload operation fingerprint r)]"

definition run_event ::
  "string \<Rightarrow> string \<Rightarrow> string \<Rightarrow> string \<Rightarrow> (string \<times> json) list \<Rightarrow> string \<Rightarrow> audit_write" where
  "run_event request_id act rid actor payload event_id = \<lparr>aw_request_id = request_id, aw_action = act,
     aw_resource_type = ''execution_run'', aw_resource_id = rid, aw_actor = actor, aw_payload = payload,
     aw_event_id = event_id\<rparr>"

text \<open>A request carries the brief's fields, so it is a brief that is not checked yet.\<close>

definition svc_start ::
  "service_env \<Rightarrow> string \<Rightarrow> brief \<Rightarrow> string \<Rightarrow> string \<Rightarrow> string \<Rightarrow> string \<Rightarrow> bool \<Rightarrow> (run \<times> bool) command" where
  "svc_start env tenant request request_id actor subject key asynchronous =
     sthen (slift (check_brief request))
     (let rid = stable_id ''run'' [brief_json request] 16; operation = ''run.create'';
          event_id = command_event_id tenant operation key;
          fp = command_fingerprint operation subject rid (brief_json request) in
      replay_first env tenant event_id operation fp
      (sbind (sget (\<lambda>s. run_exists (sv_db s) tenant rid)) (\<lambda>exists.
        if exists then
          sbind (store_get env tenant rid) (\<lambda>existing.
            or_replay env tenant event_id operation fp
              (sthen (store_append env tenant (run_event request_id ''run.reused'' (run_id existing) actor
                  (start_payload existing True operation fp) event_id))
                (sret (existing, True))))
        else
          sbind (in_runtime tenant (if asynchronous then create_run (se_orch env) request True
              else start_step (se_orch env) request)) (\<lambda>r.
            or_replay env tenant event_id operation fp
              (sthen (store_create env tenant r (run_event request_id ''run.created'' (run_id r) actor
                  (start_payload r False operation fp) event_id))
                (sret (r, False)))))))"

section \<open>Deciding and revoking\<close>

definition model_effects_ready :: "me_table \<Rightarrow> string \<Rightarrow> run \<Rightarrow> unit res" where
  "model_effects_ready effects tenant r =
     rbind (me_list_for_run effects tenant (run_id r)) (\<lambda>es. raise_first
       ((list_ex (\<lambda>e. me_status e = ''pending'' \<or> me_status e = ''unknown'') es,
           GreenlightError ''model effect outcome is unresolved'')
        # map (\<lambda>e. (me_status e = ''succeeded''
             \<and> stable_id ''artifact'' [JStr ''model-completion'', JStr (me_effect_id e)] 48 \<notin> artifact_id ` set (artifacts r),
             GreenlightError ''model effect output is not attached to the run'')) es))"

definition decision_payload :: "greenlight \<Rightarrow> string \<Rightarrow> string \<Rightarrow> run \<Rightarrow> (string \<times> json) list" where
  "decision_payload g operation fingerprint r =
     [(''greenlight_id'', JStr (greenlight_id g)), (''decision'', JStr (decision_value (gl_decision g))),
      (''reviewer'', JStr (gl_reviewer g)), (''note'', JStr (gl_note g)),
      (''approved_artifact_ids'', jstrs (approved_artifact_ids g)),
      (''approved_artifact_hashes'', jstrs (approved_artifact_hashes g)),
      (''authorized_channels'', jstrs (map platform_value (authorized_channels g))),
      (''authorized_budget_cents'', JInt (authorized_budget_cents g)),
      (''fencing_token'', JInt (gl_fencing_token g)), (''idempotency'', command_payload operation fingerprint r)]"

text \<open>The handler of \<open>RunStateConflictError\<close>.\<close>

definition or_greenlight_error :: "string \<Rightarrow> 'a command \<Rightarrow> 'a command" where
  "or_greenlight_error m c = scatch c (\<lambda>e. case e of
     RunStateConflictError _ \<Rightarrow> slift (Inl (GreenlightError m)) | _ \<Rightarrow> slift (Inl e))"

definition svc_decide ::
  "service_env \<Rightarrow> string \<Rightarrow> string \<Rightarrow> string \<Rightarrow> string \<Rightarrow> string \<Rightarrow> string \<Rightarrow> string \<Rightarrow> string \<Rightarrow> decision
    \<Rightarrow> (run \<times> bool) command" where
  "svc_decide env tenant rid reviewer note request_id actor subject key d =
     (let operation = ''greenlight.'' @ decision_value d; event_id = command_event_id tenant operation key;
          fp = command_fingerprint operation subject rid (JObj [(''reviewer'', JStr reviewer), (''note'', JStr note)]) in
      replay_first env tenant event_id operation fp
      (sbind (runtime_for tenant) (\<lambda>_.
       sbind (store_get env tenant rid) (\<lambda>current.
       sthen (if d = Approved then (\<lambda>s. (s, model_effects_ready (sv_effects s) tenant current)) else sret ())
      (sbind (in_runtime tenant (restore_run current)) (\<lambda>_.
       sbind (in_runtime tenant (if d = Approved then approve (se_orch env) rid subject note
           else reject (se_orch env) rid subject note)) (\<lambda>r.
         case run_greenlight r of
           None \<Rightarrow> slift (Inl (GreenlightError ''Greenlight decision was not recorded''))
         | Some g \<Rightarrow> or_greenlight_error ''Greenlight was already decided by another request''
             (or_replay env tenant event_id operation fp
               (sthen (store_save env tenant r AwaitingGreenlight (run_event request_id operation (run_id r) actor
                   (decision_payload g operation fp r) event_id))
                 (sret (r, False)))))))))))"

definition svc_approve ::
  "service_env \<Rightarrow> string \<Rightarrow> string \<Rightarrow> string \<Rightarrow> string \<Rightarrow> string \<Rightarrow> string \<Rightarrow> string \<Rightarrow> string \<Rightarrow> (run \<times> bool) command" where
  "svc_approve env tenant rid reviewer note request_id actor subject key =
     svc_decide env tenant rid reviewer note request_id actor subject key Approved"

definition svc_reject ::
  "service_env \<Rightarrow> string \<Rightarrow> string \<Rightarrow> string \<Rightarrow> string \<Rightarrow> string \<Rightarrow> string \<Rightarrow> string \<Rightarrow> string \<Rightarrow> (run \<times> bool) command" where
  "svc_reject env tenant rid reviewer note request_id actor subject key =
     svc_decide env tenant rid reviewer note request_id actor subject key Rejected"

definition svc_revoke_greenlight ::
  "service_env \<Rightarrow> string \<Rightarrow> string \<Rightarrow> string \<Rightarrow> string \<Rightarrow> string \<Rightarrow> string \<Rightarrow> string \<Rightarrow> string \<Rightarrow> (run \<times> bool) command" where
  "svc_revoke_greenlight env tenant rid reviewer reason request_id actor subject key =
     (let operation = ''greenlight.revoked''; event_id = command_event_id tenant operation key;
          fp = command_fingerprint operation subject rid (JObj [(''reviewer'', JStr reviewer), (''reason'', JStr reason)]) in
      replay_first env tenant event_id operation fp
      (sbind (runtime_for tenant) (\<lambda>_.
       sbind (store_get env tenant rid) (\<lambda>current.
       sbind (in_runtime tenant (restore_run current)) (\<lambda>_.
       sbind (in_runtime tenant (revoke (se_orch env) rid subject reason)) (\<lambda>r.
         case run_greenlight r of
           None \<Rightarrow> slift (Inl (GreenlightError ''Greenlight revocation was not recorded''))
         | Some g \<Rightarrow> or_greenlight_error ''Greenlight is not active''
             (or_replay env tenant event_id operation fp
               (sthen (store_save env tenant r Completed (run_event request_id operation (run_id r) actor
                   [(''greenlight_id'', JStr (greenlight_id g)), (''fencing_token'', JInt (gl_fencing_token g)),
                    (''reviewer'', JStr (gl_revoked_by g)), (''reason'', JStr (gl_revocation_reason g)),
                    (''idempotency'', command_payload operation fp r)] event_id))
                 (sret (r, False))))))))))"

end
