(* ===== verification/ServiceWork.thy ===== *)
theory ServiceWork
  imports Service
begin

text \<open>
  The rest of \<open>RuntimeService\<close>: the worker's queue, the authority checks before an external effect, publication
  media, model effects and the audit events of the HTTP layer.
\<close>

section \<open>The worker\<close>

text \<open>\<open>type(error).__name__\<close>.\<close>

fun exn_class :: "exn \<Rightarrow> string" where
  "exn_class (ValueError _) = ''ValueError''"
| "exn_class (KeyError _) = ''KeyError''"
| "exn_class (RuntimeError _) = ''RuntimeError''"
| "exn_class (TypeError _) = ''TypeError''"
| "exn_class (AttributeError _) = ''AttributeError''"
| "exn_class (IndexError _) = ''IndexError''"
| "exn_class IntegrityError = ''IntegrityError''"
| "exn_class (AuditIntegrityError _) = ''AuditIntegrityError''"
| "exn_class (AuditCheckpointSigningConfigurationError _) = ''AuditCheckpointSigningConfigurationError''"
| "exn_class (AuditCheckpointSigningKeyUnavailableError _) = ''AuditCheckpointSigningKeyUnavailableError''"
| "exn_class (RunStateConflictError _) = ''RunStateConflictError''"
| "exn_class (AuditEventConflictError _) = ''AuditEventConflictError''"
| "exn_class (SessionAuthenticationError _) = ''SessionAuthenticationError''"
| "exn_class (SessionCsrfError _) = ''SessionCsrfError''"
| "exn_class (AuthenticationRateLimitError _) = ''AuthenticationRateLimitError''"
| "exn_class (AuthenticatedRequestRateLimitError _) = ''AuthenticatedRequestRateLimitError''"
| "exn_class (GreenlightError _) = ''GreenlightError''"
| "exn_class (PoliticalReviewerSeparationError _) = ''PoliticalReviewerSeparationError''"
| "exn_class (ModelEffectConflictError _) = ''ModelEffectConflictError''"
| "exn_class (ModelEffectStateError _) = ''ModelEffectStateError''"
| "exn_class (ModelEffectUnavailableError _) = ''ModelEffectUnavailableError''"
| "exn_class (ModelEffectBlockedError _) = ''ModelEffectBlockedError''"
| "exn_class (ModelEffectUnknownError _) = ''ModelEffectUnknownError''"
| "exn_class (SocialPublicationConflictError _) = ''SocialPublicationConflictError''"
| "exn_class (SocialPublicationStateError _) = ''SocialPublicationStateError''"
| "exn_class (SocialPublicationUnavailableError _) = ''SocialPublicationUnavailableError''"
| "exn_class (SocialPublicationBlockedError _) = ''SocialPublicationBlockedError''"
| "exn_class (SocialPublicationProviderRejectedError _ _ _ _ _) = ''SocialPublicationProviderRejectedError''"
| "exn_class (SocialPublicationUnknownError _) = ''SocialPublicationUnknownError''"
| "exn_class (PublicationMediaConflictError _) = ''PublicationMediaConflictError''"
| "exn_class (PublicationMediaStoreError _) = ''PublicationMediaStoreError''"
| "exn_class (ModelGatewayDisabledError _) = ''ModelGatewayDisabledError''"
| "exn_class (ModelGatewayConfigurationError _) = ''ModelGatewayConfigurationError''"
| "exn_class (ModelGatewayProviderError _) = ''ModelGatewayProviderError''"
| "exn_class HTTPError = ''HTTPError''"
| "exn_class (IdempotencyConflictError _) = ''IdempotencyConflictError''"
| "exn_class StopIteration = ''StopIteration''"
| "exn_class (AuthConfigurationError _) = ''AuthConfigurationError''"
| "exn_class (AuthenticationError _) = ''AuthenticationError''"
| "exn_class (AuthorizationError _) = ''AuthorizationError''"
| "exn_class (PublicMediaSigningConfigurationError _) = ''PublicMediaSigningConfigurationError''"
| "exn_class (PublicMediaSigningKeyUnavailableError _) = ''PublicMediaSigningKeyUnavailableError''"
| "exn_class (PublicationMediaValidationError _) = ''PublicationMediaValidationError''"
| "exn_class (SocialOAuthStoreError _) = ''SocialOAuthStoreError''"
| "exn_class (SocialOAuthStateUnavailableError _) = ''SocialOAuthStateUnavailableError''"

text \<open>A lease held by another worker that has not expired.\<close>

definition leased_elsewhere :: "run_execution \<Rightarrow> string \<Rightarrow> int option \<Rightarrow> int \<Rightarrow> bool" where
  "leased_elsewhere x worker expires clk \<longleftrightarrow> ex_lease_owner x \<noteq> [] \<and> ex_lease_owner x \<noteq> worker
     \<and> (case expires of None \<Rightarrow> False | Some t \<Rightarrow> clk < t)"

definition lease_run :: "string \<Rightarrow> string \<Rightarrow> run \<Rightarrow> run" where
  "lease_run worker expires r = set_execution (\<lambda>x. x\<lparr>ex_lease_owner := worker, ex_lease_expires_at := Some expires,
     ex_fencing_token := ex_fencing_token x + 1, ex_attempts := ex_attempts x + 1, ex_state := ''leased''\<rparr>) r"

definition release_run :: "string \<Rightarrow> run \<Rightarrow> run" where
  "release_run checkpoint r = set_execution (\<lambda>x. x\<lparr>ex_lease_owner := [], ex_lease_expires_at := None,
     ex_checkpointed_at := Some checkpoint,
     ex_state := (if run_status r \<in> {Queued, Running} then ''running'' else ex_state x)\<rparr>) r"

definition fail_run :: "string \<Rightarrow> exn \<Rightarrow> run \<Rightarrow> run" where
  "fail_run checkpoint e r = (set_execution (\<lambda>x. x\<lparr>ex_state := ''failed'', ex_failure_detail := exn_class e,
     ex_lease_owner := [], ex_lease_expires_at := None, ex_checkpointed_at := Some checkpoint\<rparr>) r)\<lparr>run_status := Failed\<rparr>"

definition checkpoint_payload :: "run \<Rightarrow> int \<Rightarrow> (string \<times> json) list" where
  "checkpoint_payload r fence = [(''status'', JStr (run_status_value (run_status r))),
     (''station'', JStr (ex_next_station (execution r))), (''fencing_token'', JInt fence),
     (''attempt'', JInt (ex_attempts (execution r))), (''artifact_ids'', jstrs (map artifact_id (artifacts r)))]"

definition failure_payload :: "run \<Rightarrow> int \<Rightarrow> exn \<Rightarrow> (string \<times> json) list" where
  "failure_payload r fence e = [(''status'', JStr (run_status_value (run_status r))),
     (''station'', JStr (ex_next_station (execution r))), (''fencing_token'', JInt fence),
     (''attempt'', JInt (ex_attempts (execution r))), (''failure_type'', JStr (exn_class e))]"

definition checkpoint_event ::
  "string \<Rightarrow> string \<Rightarrow> string \<Rightarrow> string \<Rightarrow> int \<Rightarrow> (string \<times> json) list \<Rightarrow> audit_write" where
  "checkpoint_event act worker tenant rid fence payload = \<lparr>
     aw_request_id = stable_id ''request'' [JStr ''run-worker'', JStr tenant, JStr rid, JInt fence] 32,
     aw_action = act, aw_resource_type = ''execution_run'', aw_resource_id = rid, aw_actor = ''system:'' @ worker,
     aw_payload = payload, aw_event_id = stable_id ''run-checkpoint'' [JStr tenant, JStr rid, JInt fence] 48\<rparr>"

text \<open>The advance of a leased run. The orchestrator works on the run object itself, so a run that raised is
  the one it left behind.\<close>

definition advance_leased :: "service_env \<Rightarrow> string \<Rightarrow> string \<Rightarrow> run \<Rightarrow> (run \<times> exn option) command" where
  "advance_leased env tenant rid r =
     sbind (in_runtime tenant (restore_run r)) (\<lambda>_.
       scatch (sbind (in_runtime tenant (advance (se_orch env) rid)) (\<lambda>r'. sret (release_run (se_checkpoint env) r', None)))
         (\<lambda>e. sbind (in_runtime tenant (sget (\<lambda>h. case or_runs h rid of Some r' \<Rightarrow> r' | None \<Rightarrow> r))) (\<lambda>r'.
            sret (fail_run (se_checkpoint env) e r', Some e))))"

definition execute_run :: "service_env \<Rightarrow> string \<Rightarrow> int \<Rightarrow> string \<Rightarrow> string \<Rightarrow> bool command" where
  "execute_run env worker clk tenant rid =
     sbind (runtime_for tenant) (\<lambda>_.
     sbind (store_get env tenant rid) (\<lambda>r.
       if run_status r \<notin> {Queued, Running} then sret False
       else sbind (slift (case ex_lease_expires_at (execution r) of None \<Rightarrow> Inr None
              | Some t \<Rightarrow> rbind (se_seconds env t) (\<lambda>n. Inr (Some n)))) (\<lambda>expires.
         if leased_elsewhere (execution r) worker expires clk then sret False
         else sbind (sget sv_lease_seconds) (\<lambda>lease.
           let r1 = lease_run worker (se_at_time env (clk + lease)) r; fence = ex_fencing_token (execution r1) in
           sthen (on_db (\<lambda>db. run_save db tenant r1 None (Some (run_status_value (run_status r))) (se_clock env) (se_stamp env)))
          (sbind (advance_leased env tenant rid r1) (\<lambda>(r2, failure).
             sthen (in_runtime tenant (sbind (restore_run r2) (\<lambda>_. sret ())))
            (sthen (store_save env tenant r2 (run_status r) (case failure of
                 None \<Rightarrow> checkpoint_event ''run.checkpointed'' worker tenant rid fence (checkpoint_payload r2 fence)
               | Some e \<Rightarrow> checkpoint_event ''run.failed'' worker tenant rid fence (failure_payload r2 fence e)))
              (sret True))))))))"

fun execute_each :: "service_env \<Rightarrow> string \<Rightarrow> nat \<Rightarrow> (string \<times> string) list \<Rightarrow> bool command" where
  "execute_each env worker k [] = sret False"
| "execute_each env worker k ((tenant, rid) # rest) =
     sbind (execute_run env worker (se_now env k) tenant rid) (\<lambda>worked.
       if worked then sret True else execute_each env worker (Suc k) rest)"

definition execute_one_queued_run :: "service_env \<Rightarrow> string \<Rightarrow> bool command" where
  "execute_one_queued_run env worker =
     sbind (from_db (\<lambda>db. executable_runs db 100)) (execute_each env worker 0)"

section \<open>Authority for external effects\<close>

definition effect_authorized ::
  "run \<Rightarrow> string \<Rightarrow> int \<Rightarrow> string list \<Rightarrow> string list \<Rightarrow> string \<Rightarrow> int \<Rightarrow> unit res" where
  "effect_authorized r gid fence ids hashes channel budget = (case run_greenlight r of
     None \<Rightarrow> Inl (GreenlightError ''Greenlight is not active'')
   | Some g \<Rightarrow> raise_first
       [(run_status r \<noteq> Completed \<or> \<not> greenlight_active g, GreenlightError ''Greenlight is not active''),
        (greenlight_id g \<noteq> gid, GreenlightError ''Greenlight identity does not match''),
        (gl_fencing_token g \<noteq> fence, GreenlightError ''Greenlight fencing token is stale''),
        (approved_artifact_ids g \<noteq> ids \<or> approved_artifact_hashes g \<noteq> hashes,
          GreenlightError ''Greenlight artifact envelope does not match''),
        (channel \<notin> set (map platform_value (authorized_channels g)), GreenlightError ''Greenlight channel is not authorized''),
        (budget < 0 \<or> authorized_budget_cents g < budget, GreenlightError ''Greenlight budget is not authorized'')])"

definition assert_greenlight_effect_authorized ::
  "service_env \<Rightarrow> string \<Rightarrow> string \<Rightarrow> string \<Rightarrow> int \<Rightarrow> string list \<Rightarrow> string list \<Rightarrow> string \<Rightarrow> int \<Rightarrow> unit command" where
  "assert_greenlight_effect_authorized env tenant rid gid fence ids hashes channel budget =
     sbind (store_get env tenant rid) (\<lambda>r. slift (effect_authorized r gid fence ids hashes channel budget))"

record publication_request =
  pq_artifact_id :: string
  pq_media_artifact_id :: "string option"
  pq_greenlight_id :: string
  pq_greenlight_fencing_token :: int

text \<open>\<open>{item.artifact_id: item for item in run.artifacts}.get(id)\<close>: the last artifact of an id.\<close>

definition artifact_by_id :: "run \<Rightarrow> string \<Rightarrow> artifact option" where
  "artifact_by_id r aid = find (\<lambda>a. artifact_id a = aid) (rev (artifacts r))"

definition first_of_kind :: "run \<Rightarrow> string \<Rightarrow> artifact option" where
  "first_of_kind r kind = find (\<lambda>a. art_kind a = kind) (artifacts r)"

text \<open>\<open>approved_artifact_hashes[approved_artifact_ids.index(id)]\<close>.\<close>

fun approved_hash :: "string list \<Rightarrow> string list \<Rightarrow> string \<Rightarrow> exn \<Rightarrow> string res" where
  "approved_hash [] hashes aid e = Inl e"
| "approved_hash (i # ids) hashes aid e =
     (if i = aid then (case hashes of [] \<Rightarrow> Inl (IndexError ''tuple index out of range'') | h # _ \<Rightarrow> Inr h)
      else approved_hash ids (tl hashes) aid e)"

definition variant_parts :: "json \<Rightarrow> string list" where
  "variant_parts v = concat (map (\<lambda>f. case (case v of JObj d \<Rightarrow> get_or d f JNull | _ \<Rightarrow> JNull) of
     JStr t \<Rightarrow> if strip t \<noteq> [] then [strip t] else [] | _ \<Rightarrow> []) [''hook'', ''body'', ''cta''])"

text \<open>The text of the approved copy for one channel.\<close>

definition approved_content :: "artifact \<Rightarrow> string \<Rightarrow> string res" where
  "approved_content a channel = (case get_or (art_payload a) ''variants'' JNull of
     JObj variants \<Rightarrow> (case get_or variants channel JNull of
       JObj d \<Rightarrow> if variant_parts (JObj d) = [] then Inl (GreenlightError ''copy artifact channel variant is empty'')
         else Inr (intercalate [CHR 0x0A, CHR 0x0A] (variant_parts (JObj d)))
     | _ \<Rightarrow> Inl (GreenlightError ''copy artifact has no authorized channel variant''))
   | _ \<Rightarrow> Inl (GreenlightError ''copy artifact variants are invalid''))"

text \<open>The approved image, checked against the media store; its URL and hash.\<close>

definition approved_media ::
  "service_env \<Rightarrow> media_table \<Rightarrow> string \<Rightarrow> string \<Rightarrow> run \<Rightarrow> greenlight \<Rightarrow> string option \<Rightarrow> (string \<times> string) res" where
  "approved_media env table tenant rid r g requested = (case requested of
     None \<Rightarrow> Inl (GreenlightError ''Instagram requires an approved media artifact'')
   | Some aid \<Rightarrow> (case artifact_by_id r aid of
       None \<Rightarrow> Inl (GreenlightError ''approved publication media is unavailable'')
     | Some m \<Rightarrow>
       if art_kind m \<noteq> ''publication_media'' then Inl (GreenlightError ''approved publication media is unavailable'')
       else rbind (approved_hash (approved_artifact_ids g) (approved_artifact_hashes g) (artifact_id m)
           (GreenlightError ''media artifact is not approved'')) (\<lambda>expected.
       if artifact_digest m \<noteq> expected then Inl (GreenlightError ''media artifact hash does not match Greenlight'')
       else if get_or (art_payload m) ''channel'' JNull \<noteq> JStr ''instagram''
       then Inl (GreenlightError ''media artifact channel does not match'')
       else (case (get_or (art_payload m) ''media_url'' JNull, get_or (art_payload m) ''sha256'' JNull,
               get_or (art_payload m) ''media_id'' JNull) of
           (JStr url, JStr digest, JStr mid) \<Rightarrow>
             rbind (media_get table tenant mid) (\<lambda>durable. case durable of
               None \<Rightarrow> Inl (GreenlightError ''publication media is expired, revoked or mismatched'')
             | Some d \<Rightarrow>
               if md_run_id d \<noteq> rid \<or> md_channel_id d \<noteq> ''instagram'' \<or> md_revoked_at d \<noteq> None
               then Inl (GreenlightError ''publication media is expired, revoked or mismatched'')
               else rbind (se_seconds env (md_expires_at d)) (\<lambda>expires.
                 rbind (se_seconds env (se_utc env)) (\<lambda>clk.
                 if expires \<le> clk \<or> md_sha256 d \<noteq> digest
                 then Inl (GreenlightError ''publication media is expired, revoked or mismatched'')
                 else rbind (media_get_content table tenant mid) (\<lambda>content.
                   if sha256_hex content \<noteq> digest then Inl (GreenlightError ''publication media bytes do not match Greenlight'')
                   else Inr (url, digest)))))
         | _ \<Rightarrow> Inl (GreenlightError ''publication media contract is invalid'')))))"

definition compliance_valid :: "run \<Rightarrow> greenlight \<Rightarrow> unit res" where
  "compliance_valid r g = (case first_of_kind r ''political_compliance_record'' of
     None \<Rightarrow> Inl (GreenlightError ''political compliance record is unavailable'')
   | Some c \<Rightarrow> rbind (approved_hash (approved_artifact_ids g) (approved_artifact_hashes g) (artifact_id c)
         (GreenlightError ''political compliance record is not approved'')) (\<lambda>expected.
       let field = (\<lambda>k. get_or (art_payload c) k JNull) in raise_first
         [(artifact_digest c \<noteq> expected
           \<or> field ''jurisdiction'' \<noteq> JStr (strip (jurisdiction (run_brief r)))
           \<or> field ''publication_mode'' \<noteq> JStr (publication_mode (run_brief r))
           \<or> field ''legal_reviewer'' \<noteq> JStr (strip (legal_reviewed_by (run_brief r)))
           \<or> field ''greenlight_approver'' \<noteq> JStr (gl_reviewer g)
           \<or> field ''retention_state'' \<noteq> JStr ''durable_until_governed_deletion'',
           GreenlightError ''political compliance record is invalid'')]))"

definition prepare_social_publication ::
  "service_env \<Rightarrow> string \<Rightarrow> string \<Rightarrow> string \<Rightarrow> publication_request \<Rightarrow> string \<Rightarrow> string option \<Rightarrow> pub_command command" where
  "prepare_social_publication env tenant rid channel q key confirmation =
     (if channel \<noteq> ''x'' \<and> channel \<noteq> ''instagram'' then slift (Inl (KeyError ''social channel not found''))
      else sbind (store_get env tenant rid) (\<lambda>r. case run_greenlight r of
        None \<Rightarrow> slift (Inl (GreenlightError ''Greenlight is not active''))
      | Some g \<Rightarrow>
        sthen (slift (raise_first
          [(run_status r \<noteq> Completed \<or> \<not> greenlight_active g, GreenlightError ''Greenlight is not active''),
           (campaign_type (run_brief r) = ''political''
             \<and> (case first_of_kind r ''risk_report'' of None \<Rightarrow> True | Some a \<Rightarrow> \<not> says_true a ''publication_eligible''),
             GreenlightError ''political critique is not publication eligible'')]))
       (sthen (assert_greenlight_effect_authorized env tenant rid (pq_greenlight_id q) (pq_greenlight_fencing_token q)
           (approved_artifact_ids g) (approved_artifact_hashes g) channel 0)
       (sbind (slift (case artifact_by_id r (pq_artifact_id q) of
            None \<Rightarrow> Inl (GreenlightError ''approved copy artifact is unavailable'')
          | Some a \<Rightarrow> if art_kind a \<noteq> ''copy_deck'' then Inl (GreenlightError ''approved copy artifact is unavailable'') else Inr a)) (\<lambda>a.
        sbind (slift (approved_hash (approved_artifact_ids g) (approved_artifact_hashes g) (artifact_id a)
            (GreenlightError ''copy artifact is not approved''))) (\<lambda>expected.
        sthen (slift (raise_first [(artifact_digest a \<noteq> expected, GreenlightError ''copy artifact hash does not match Greenlight'')]))
       (sbind (slift (approved_content a channel)) (\<lambda>content.
        sbind (if channel = ''instagram''
            then sbind (\<lambda>s. (s, approved_media env (sv_media s) tenant rid r g (pq_media_artifact_id q))) (\<lambda>(url, digest).
              sret (Some url, Some digest))
            else sret (None, None)) (\<lambda>(url, digest).
        sthen (slift (if campaign_type (run_brief r) = ''political'' then compliance_valid r g else Inr ()))
       (sbind (\<lambda>s. (s, get_connection (sv_connections s) tenant channel)) (\<lambda>conn. case conn of
            None \<Rightarrow> slift (Inl (GreenlightError ''authorized social account is not connected''))
          | Some c \<Rightarrow> sret \<lparr>pcmd_tenant_id = tenant, pcmd_channel_id = channel, pcmd_account_id = sn_account_id c,
              pcmd_run_id = rid, pcmd_artifact_id = artifact_id a,
              pcmd_artifact_hash = sha256_text (canonical_json (artifact_json a)), pcmd_content = content,
              pcmd_media_url = url, pcmd_media_hash = digest, pcmd_greenlight_id = pq_greenlight_id q,
              pcmd_greenlight_fencing_token = pq_greenlight_fencing_token q, pcmd_budget_cents = 0,
              pcmd_idempotency_key = key, pcmd_confirmation_hash = confirmation\<rparr>)))))))))))"

end
