(* ===== verification/ServiceMedia.thy ===== *)
theory ServiceMedia
  imports ServiceWork
begin

text \<open>
  Publication media, model effects and the audit events and sessions that \<open>RuntimeService\<close> writes for the
  HTTP layer.
\<close>

section \<open>Publication media\<close>

record validated_media =
  vm_content_type :: string
  vm_byte_size :: int
  vm_sha256 :: string
  vm_width :: int
  vm_height :: int

record media_request =
  mq_run_id :: string
  mq_channel_id :: string
  mq_validated :: validated_media
  mq_content :: string
  mq_alt_text :: string
  mq_request_id :: string
  mq_actor :: string
  mq_subject_id :: string
  mq_idempotency_key :: string
  mq_public_base_url :: string
  mq_ttl_seconds :: int

definition media_request_json :: "media_request \<Rightarrow> json" where
  "media_request_json q = (let v = mq_validated q in JObj
     [(''channel_id'', JStr (mq_channel_id q)), (''sha256'', JStr (vm_sha256 v)), (''content_type'', JStr (vm_content_type v)),
      (''byte_size'', JInt (vm_byte_size v)), (''width'', JInt (vm_width v)), (''height'', JInt (vm_height v)),
      (''alt_text_sha256'', JStr (sha256_text (strip (mq_alt_text q)))), (''rights_attested_by'', JStr (mq_subject_id q))])"

definition media_binding :: "string \<Rightarrow> media_request \<Rightarrow> string" where
  "media_binding tenant q = (let v = mq_validated q in sha256_text (canonical_json (JList
     [JStr tenant, JStr (mq_run_id q), JStr (mq_channel_id q), JStr (vm_sha256 v), JStr (vm_content_type v),
      JInt (vm_width v), JInt (vm_height v), JStr (strip (mq_alt_text q)), JStr (mq_subject_id q)])))"

definition media_ident :: "string \<Rightarrow> media_request \<Rightarrow> string" where
  "media_ident tenant q = stable_id ''publication-media'' [JStr tenant, JStr (mq_run_id q), JStr (mq_channel_id q),
     JStr (media_binding tenant q)] 48"

definition proposed_media :: "string \<Rightarrow> media_request \<Rightarrow> string \<Rightarrow> string \<Rightarrow> string \<Rightarrow> string \<Rightarrow> media" where
  "proposed_media tenant q created expires key_id token = (let v = mq_validated q in
     \<lparr>md_media_id = media_ident tenant q, md_tenant_id = tenant, md_run_id = mq_run_id q, md_channel_id = mq_channel_id q,
      md_content_type = vm_content_type v, md_byte_size = vm_byte_size v, md_sha256 = vm_sha256 v,
      md_width = vm_width v, md_height = vm_height v, md_alt_text = strip (mq_alt_text q),
      md_rights_attested_by = mq_subject_id q, md_public_token_digest = sha256_text token,
      md_public_signing_key_id = key_id, md_created_at = created, md_expires_at = expires, md_revoked_at = None,
      md_idempotency_digest = sha256_text (mq_idempotency_key q), md_binding_digest = media_binding tenant q,
      md_revocation_reason = []\<rparr>)"

definition media_artifact_payload :: "string \<Rightarrow> media \<Rightarrow> string \<Rightarrow> (string \<times> json) list" where
  "media_artifact_payload channel m url =
     [(''channel'', JStr channel), (''media_id'', JStr (md_media_id m)), (''media_url'', JStr url),
      (''content_type'', JStr (md_content_type m)), (''byte_size'', JInt (md_byte_size m)), (''sha256'', JStr (md_sha256 m)),
      (''width'', JInt (md_width m)), (''height'', JInt (md_height m)), (''alt_text'', JStr (md_alt_text m)),
      (''rights_status'', JStr ''confirmed''), (''rights_attested_by'', JStr (md_rights_attested_by m)),
      (''expires_at'', JStr (md_expires_at m))]"

definition media_audit_payload :: "media_request \<Rightarrow> string \<Rightarrow> media \<Rightarrow> json \<Rightarrow> (string \<times> json) list" where
  "media_audit_payload q aid m receipt =
     [(''run_id'', JStr (mq_run_id q)), (''channel_id'', JStr (mq_channel_id q)), (''artifact_id'', JStr aid),
      (''media_id'', JStr (md_media_id m)), (''sha256'', JStr (md_sha256 m)), (''byte_size'', JInt (md_byte_size m)),
      (''width'', JInt (md_width m)), (''height'', JInt (md_height m)),
      (''alt_text_sha256'', JStr (sha256_text (strip (mq_alt_text q)))),
      (''rights_attested_by'', JStr (md_rights_attested_by m)), (''expires_at'', JStr (md_expires_at m)),
      (''idempotency'', receipt)]"

text \<open>The artifact of the run for its channel, if there is one.\<close>

definition attached_media :: "run \<Rightarrow> string \<Rightarrow> artifact option" where
  "attached_media r channel = find (\<lambda>a. art_kind a = ''publication_media''
     \<and> get_or (art_payload a) ''channel'' JNull = JStr channel) (artifacts r)"

definition reserve_media :: "service_env \<Rightarrow> media \<Rightarrow> string \<Rightarrow> media_reservation command" where
  "reserve_media env m content = (\<lambda>s. case media_reserve (se_seconds env) (sv_media s) m content of
     Inl e \<Rightarrow> (s, Inl e) | Inr (rows, v) \<Rightarrow> (s\<lparr>sv_media := rows\<rparr>, Inr v))"

text \<open>The compensation: a new object is revoked, and the original exception is raised again.\<close>

definition compensate_media :: "service_env \<Rightarrow> string \<Rightarrow> media_reservation \<Rightarrow> exn \<Rightarrow> 'a command" where
  "compensate_media env tenant v e = (\<lambda>s.
     if mv_created v then
       (case media_revoke (sv_media s) tenant (md_media_id (mv_record v)) ''run_persistence_failed'' (se_utc env) of
          Inl _ \<Rightarrow> (s, Inl e) | Inr rows \<Rightarrow> (s\<lparr>sv_media := rows\<rparr>, Inl e))
     else (s, Inl e))"

definition attach_publication_media ::
  "service_env \<Rightarrow> keyring \<Rightarrow> string \<Rightarrow> media_request \<Rightarrow> (run \<times> bool) command" where
  "attach_publication_media env kr tenant q =
     (if mq_channel_id q \<noteq> ''instagram'' then slift (Inl (KeyError ''publication media channel is not supported''))
      else if strip (mq_alt_text q) = [] \<or> 2000 < utf8_len (strip (mq_alt_text q))
      then slift (Inl (PublicationMediaValidationError ''publication media alt text is invalid''))
      else let rid = mq_run_id q; operation = ''publication_media.attached:'' @ mq_channel_id q;
               event_id = command_event_id tenant operation (mq_idempotency_key q);
               fp = command_fingerprint operation (mq_subject_id q) rid (media_request_json q) in
       replay_first env tenant event_id operation fp
       (sbind (store_get env tenant rid) (\<lambda>r.
        sthen (slift (raise_first
          [(run_status r \<noteq> AwaitingGreenlight \<or> run_greenlight r \<noteq> None,
             GreenlightError ''publication media can only be attached before Greenlight''),
           (Instagram \<notin> set (platforms (run_brief r)),
             GreenlightError ''run does not authorize Instagram publication media'')]))
       (sbind (slift (se_seconds env (se_utc env))) (\<lambda>created.
          let expires = se_at_time env (created + mq_ttl_seconds q); mid = media_ident tenant q;
              aid = stable_id ''artifact'' [JStr tenant, JStr rid, JStr mid] 32;
              existing = attached_media r (mq_channel_id q) in
        sbind (slift (media_sign_active kr mid expires)) (\<lambda>(key_id, token0).
        sthen (slift (raise_first [(case existing of None \<Rightarrow> False | Some a \<Rightarrow> artifact_id a \<noteq> aid,
             PublicationMediaConflictError ''run already contains different publication media'')]))
       (sbind (reserve_media env (proposed_media tenant q (se_utc env) expires key_id token0) (mq_content q)) (\<lambda>v.
          let m = mv_record v in
        sbind (slift (media_sign kr (md_public_signing_key_id m) (md_media_id m) (md_expires_at m))) (\<lambda>token.
        sthen (slift (raise_first [(sha256_text token \<noteq> md_public_token_digest m,
             RuntimeError ''publication media durable token binding is invalid'')]))
       (let payload = media_artifact_payload (mq_channel_id q) m
              (mq_public_base_url q @ ''/api/v1/publication-media/public/'' @ token) in
        sbind (slift (case existing of
            Some a \<Rightarrow> if artifact_id a \<noteq> aid \<or> canonical_json (JObj (art_payload a)) \<noteq> canonical_json (JObj payload)
              then Inl (PublicationMediaConflictError ''run already contains different publication media'') else Inr r
          | None \<Rightarrow> Inr (add_artifact r \<lparr>artifact_id = aid, art_kind = ''publication_media'',
              art_title = ''Governed Instagram publication image'', created_by = Media, art_payload = payload,
              art_evidence_ids = []\<rparr>))) (\<lambda>r'.
          let w = \<lparr>aw_request_id = mq_request_id q, aw_action = operation, aw_resource_type = ''publication_media'',
                aw_resource_id = md_media_id m, aw_actor = mq_actor q,
                aw_payload = media_audit_payload q aid m (command_payload operation fp r'), aw_event_id = event_id\<rparr> in
        sthen (slift (check_audit_write w))
          (scatch (sthen (store_save env tenant r' AwaitingGreenlight w) (sret (r', mv_replayed v)))
            (\<lambda>e. case e of
               AuditEventConflictError _ \<Rightarrow> sbind (command_replay env tenant event_id operation fp) (\<lambda>found. case found of
                 None \<Rightarrow> slift (Inl e) | Some x \<Rightarrow> sret (x, True))
             | _ \<Rightarrow> compensate_media env tenant v e)))))))))))))"

section \<open>Model effects\<close>

record model_effect_request =
  eq_source_artifact_id :: string
  eq_instruction :: string
  eq_max_cost_micros :: int

definition MODEL_STATIONS :: "agent_role list" where
  "MODEL_STATIONS = [Research, Strategist, Growth, Writer, Media, Risk]"

definition MODEL_SYSTEM :: string where
  "MODEL_SYSTEM = ''Return only a bounded model-assisted refinement of the supplied ''
     @ ''governed artifact. Do not invent evidence, publication, spend or '' @ ''external execution.''"

definition prepare_model_effect ::
  "service_env \<Rightarrow> string \<Rightarrow> string \<Rightarrow> string \<Rightarrow> model_effect_request \<Rightarrow> string \<Rightarrow> me_command command" where
  "prepare_model_effect env tenant rid station q key =
     sbind (slift (case role_of station of
         Inl _ \<Rightarrow> Inl (KeyError ''model station not found'')
       | Inr role \<Rightarrow> if role \<in> set MODEL_STATIONS then Inr role else Inl (KeyError ''model station not found''))) (\<lambda>role.
     sbind (store_get env tenant rid) (\<lambda>r.
     sthen (slift (raise_first [(run_status r \<noteq> AwaitingGreenlight, GreenlightError ''run is not awaiting Greenlight'')]))
    (sbind (slift (case find (\<lambda>a. artifact_id a = eq_source_artifact_id q) (artifacts r) of
         None \<Rightarrow> Inl (GreenlightError ''source artifact is not owned by the target station'')
       | Some a \<Rightarrow> if artifact_id a \<in> set (as_artifact_ids (state_for r role)) then Inr a
           else Inl (GreenlightError ''source artifact is not owned by the target station''))) (\<lambda>src.
       let digest = sha256_text (canonical_json (artifact_json src)); instruction = strip (eq_instruction q) in
       sret \<lparr>cmd_tenant_id = tenant, cmd_run_id = rid, cmd_station = station, cmd_source_artifact_id = artifact_id src,
         cmd_source_artifact_hash = digest, cmd_instruction = instruction, cmd_max_cost_micros = eq_max_cost_micros q,
         cmd_idempotency_key = key,
         cmd_request = \<lparr>mr_request_id = stable_id ''model-request'' [JStr tenant, JStr rid, JStr station,
             JStr (artifact_id src), JStr digest, JStr (sha256_text instruction), JInt (eq_max_cost_micros q)] 48,
           mr_user = canonical_json (JObj [(''instruction'', JStr instruction),
             (''source_artifact'', to_primitive (artifact_json src))]), mr_system = MODEL_SYSTEM\<rparr>\<rparr>))))"

definition actor_of :: "principal \<Rightarrow> string" where
  "actor_of p = (if pn_auth_method p = ''session'' then ''browser-session'' else ''api-key'') @ '':'' @ pn_subject_id p"

definition completion_payload :: "me_result \<Rightarrow> (string \<times> json) list" where
  "completion_payload e = [(''effect_id'', JStr (mer_effect_id e)), (''provider_id'', JStr (mer_provider_id e)),
     (''model'', JStr (mer_model e)), (''source_artifact_id'', JStr (mer_source_artifact_id e)),
     (''source_artifact_hash'', JStr (mer_source_artifact_hash e)), (''output_text'', JStr (mer_output_text e)),
     (''output_sha256'', JStr (mer_output_sha256 e)), (''receipt'', JObj (mer_receipt e))]"

definition completion_id :: "me_result \<Rightarrow> string" where
  "completion_id e = stable_id ''artifact'' [JStr ''model-completion'', JStr (mer_effect_id e)] 48"

definition completion_event :: "principal \<Rightarrow> string \<Rightarrow> me_result \<Rightarrow> string \<Rightarrow> audit_write" where
  "completion_event p request_id e act = \<lparr>aw_request_id = request_id, aw_action = act, aw_resource_type = ''model_effect'',
     aw_resource_id = mer_effect_id e, aw_actor = actor_of p,
     aw_payload = [(''run_id'', JStr (mer_run_id e)), (''station'', JStr (mer_station e)),
       (''source_artifact_id'', JStr (mer_source_artifact_id e)), (''source_artifact_hash'', JStr (mer_source_artifact_hash e)),
       (''artifact_id'', JStr (completion_id e)), (''output_sha256'', JStr (mer_output_sha256 e)),
       (''provider_id'', JStr (mer_provider_id e)), (''model'', JStr (mer_model e)),
       (''execution_fencing_token'', JInt (mer_fence e))],
     aw_event_id = stable_id ''model-effect-audit'' [JStr (pn_tenant_id p), JStr act, JStr (mer_effect_id e)] 48\<rparr>"

text \<open>The artifact is appended and its id noted at the station, once.\<close>

definition attach_completion :: "run \<Rightarrow> artifact \<Rightarrow> run" where
  "attach_completion r a = (let r' = r\<lparr>artifacts := artifacts r @ [a]\<rparr>; st = state_for r' (created_by a) in
     if artifact_id a \<in> set (as_artifact_ids st) then r'
     else set_state r' (created_by a) (st\<lparr>as_artifact_ids := as_artifact_ids st @ [artifact_id a]\<rparr>))"

definition attach_model_effect_result ::
  "service_env \<Rightarrow> principal \<Rightarrow> string \<Rightarrow> me_result \<Rightarrow> string \<Rightarrow> run command" where
  "attach_model_effect_result env p request_id e act =
     sbind (slift (role_of (mer_station e))) (\<lambda>role.
     sbind (store_get env (pn_tenant_id p) (mer_run_id e)) (\<lambda>r.
     sthen (slift (raise_first [(run_status r \<noteq> AwaitingGreenlight,
         RunStateConflictError ''model effect output cannot modify this run state'')]))
    (case find (\<lambda>a. artifact_id a = completion_id e) (artifacts r) of
       Some a \<Rightarrow>
         if art_kind a \<noteq> ''model_completion'' \<or> created_by a \<noteq> role
           \<or> canonical_json (JObj (art_payload a)) \<noteq> canonical_json (JObj (completion_payload e))
         then slift (Inl (RunStateConflictError ''model effect artifact conflicts with durable state''))
         else sbind (from_db (\<lambda>db. audit_event (db_ledger db) (pn_tenant_id p) (aw_event_id (completion_event p request_id e act)))) (\<lambda>found.
           sthen (if found = None then store_append env (pn_tenant_id p) (completion_event p request_id e act) else sret ())
             (sret r))
     | None \<Rightarrow>
         sbind (slift (case find (\<lambda>a. artifact_id a = mer_source_artifact_id e) (artifacts r) of
             None \<Rightarrow> Inl StopIteration | Some a \<Rightarrow> Inr a)) (\<lambda>src.
         let r' = attach_completion r \<lparr>artifact_id = completion_id e, art_kind = ''model_completion'',
               art_title = ''Model-assisted '' @ mer_station e @ '' refinement'', created_by = role,
               art_payload = completion_payload e, art_evidence_ids = art_evidence_ids src\<rparr> in
         sthen (store_save env (pn_tenant_id p) r' AwaitingGreenlight (completion_event p request_id e act)) (sret r')))))"

section \<open>Audit events and sessions\<close>

definition record_publication_event ::
  "service_env \<Rightarrow> principal \<Rightarrow> string \<Rightarrow> string \<Rightarrow> string \<Rightarrow> (string \<times> json) list \<Rightarrow> unit command" where
  "record_publication_event env p request_id act intent payload =
     (let event_id = stable_id ''social-publication-audit'' [JStr (pn_tenant_id p), JStr act, JStr intent] 48 in
      sbind (from_db (\<lambda>db. audit_event (db_ledger db) (pn_tenant_id p) event_id)) (\<lambda>found. case found of
        Some e \<Rightarrow> let c = ar_content e in slift (raise_first
          [(ac_action c \<noteq> act \<or> ac_resource_type c \<noteq> ''social_publication'' \<or> ac_resource_id c \<noteq> intent
             \<or> to_primitive (JObj (ac_payload c)) \<noteq> to_primitive (JObj payload),
            AuditEventConflictError ''social publication audit event conflicts with durable state'')])
      | None \<Rightarrow> store_append env (pn_tenant_id p) \<lparr>aw_request_id = request_id, aw_action = act,
          aw_resource_type = ''social_publication'', aw_resource_id = intent, aw_actor = actor_of p, aw_payload = payload,
          aw_event_id = event_id\<rparr>))"

definition record_social_event ::
  "service_env \<Rightarrow> principal \<Rightarrow> string \<Rightarrow> string \<Rightarrow> string \<Rightarrow> (string \<times> json) list \<Rightarrow> unit command" where
  "record_social_event env p request_id act channel payload =
     store_append env (pn_tenant_id p) \<lparr>aw_request_id = request_id, aw_action = act, aw_resource_type = ''social_connection'',
       aw_resource_id = channel, aw_actor = actor_of p, aw_payload = payload, aw_event_id = []\<rparr>"

definition record_security_denial :: "service_env \<Rightarrow> principal \<Rightarrow> string \<Rightarrow> string \<Rightarrow> string \<Rightarrow> unit command" where
  "record_security_denial env p request_id reason permission =
     (let write = (\<lambda>act kind ident. store_append env (pn_tenant_id p) \<lparr>aw_request_id = request_id, aw_action = act,
          aw_resource_type = kind, aw_resource_id = ident, aw_actor = actor_of p,
          aw_payload = [(''reason'', JStr reason), (''auth_method'', JStr (pn_auth_method p)), (''role'', JStr (pn_role p))],
          aw_event_id = []\<rparr>) in
      if reason = ''authorization'' then
        (if permission = [] then slift (Inl (ValueError ''authorization denial requires a permission''))
         else write ''authorization.denied'' ''permission'' permission)
      else if reason = ''csrf'' then write ''request.verification_denied'' ''request'' ''mutation''
      else slift (Inl (ValueError ''unsupported security denial reason'')))"

definition create_browser_session ::
  "service_env \<Rightarrow> principal \<Rightarrow> int \<Rightarrow> string \<Rightarrow> int \<Rightarrow> session_seed \<Rightarrow> session_issue command" where
  "create_browser_session env p ttl request_id created seed = (\<lambda>s.
     case create_session (se_at_time env) (sv_db s) (pn_tenant_id p) (pn_credential_fingerprint p) ttl request_id (actor_of p)
         (pn_subject_id p) (pn_role p) (pn_key_id p) created seed (se_stamp env) of
       Inl e \<Rightarrow> (s, Inl e) | Inr (db, i) \<Rightarrow> (s\<lparr>sv_db := db\<rparr>, Inr i))"

definition revoke_browser_session :: "service_env \<Rightarrow> principal \<Rightarrow> string \<Rightarrow> int \<Rightarrow> unit command" where
  "revoke_browser_session env p request_id revoked = on_db (\<lambda>db.
     revoke_session (se_at_time env) db (pn_tenant_id p) (pn_session_id p) request_id (actor_of p) revoked (se_stamp env))"

definition resume_browser_session :: "string \<Rightarrow> string \<Rightarrow> int \<Rightarrow> session_issue command" where
  "resume_browser_session sid csrf clk = (\<lambda>s. case rotate_session_csrf (sv_db s) sid csrf clk of
     Inl e \<Rightarrow> (s, Inl e) | Inr (db, i) \<Rightarrow> (s\<lparr>sv_db := db\<rparr>, Inr i))"

end
