(* ===== verification/RunSound.thy ===== *)
theory RunSound
  imports OrchestratorSamples SerializationLaws
begin

text \<open>
  The orchestrator keeps runs storable: their execution and Greenlight stay valid, their brief stays what it
  was and each station's state keeps its name, whatever a command returns or raises.
\<close>

definition fit :: "run \<Rightarrow> bool" where
  "fit r \<longleftrightarrow> check_execution (execution r) = Inr () \<and> (\<forall>g. run_greenlight r = Some g \<longrightarrow> check_greenlight g = Inr ())"

definition stays_fit :: "work \<Rightarrow> work \<Rightarrow> bool" where
  "stays_fit w w' \<longleftrightarrow> (fit (wk_run w) \<longrightarrow> fit (wk_run w'))"

lemma fit_preorder: "preorder_rel stays_fit"
  by (auto simp: preorder_rel_def stays_fit_def)

lemma fit_change: "(\<And>r. fit r \<Longrightarrow> fit (f r)) \<Longrightarrow> keeps stays_fit (change_run f)"
  unfolding change_run_def by (rule keeps_sput) (simp add: stays_fit_def)

lemma fit_frame: "execution r' = execution r \<Longrightarrow> run_greenlight r' = run_greenlight r \<Longrightarrow> fit r \<Longrightarrow> fit r'"
  by (simp add: fit_def)

lemma fit_same: "keeps same_run m \<Longrightarrow> keeps stays_fit m"
  by (auto simp: keeps_def same_run_def stays_fit_def)

lemma fit_tick: "stays_fit w (w\<lparr>wk_tick := n\<rparr>)"
  by (simp add: stays_fit_def)

lemma fit_status: "keeps stays_fit (change_run (\<lambda>r. r\<lparr>run_status := rst\<rparr>))"
  by (rule fit_change) (simp add: fit_def)

lemma fit_completed: "keeps stays_fit (change_run (\<lambda>r. r\<lparr>completed_at := ca\<rparr>))"
  by (rule fit_change) (simp add: fit_def)

lemma fit_artifact: "keeps stays_fit (change_run (\<lambda>r. add_artifact r (f r)))"
  by (rule fit_change, rule fit_frame) (simp_all add: run_frame)

lemma fit_evidence: "keeps stays_fit (change_run (add_evidence evs))"
  by (rule fit_change, rule fit_frame) (simp_all add: run_frame)

lemma fit_execution:
  assumes "\<And>x. ex_state (f x) = ex_state x \<or> ex_state (f x) \<in> set EXECUTION_STATES"
    and "\<And>x. ex_fencing_token (f x) = ex_fencing_token x" "\<And>x. ex_attempts (f x) = ex_attempts x"
    and "\<And>x. ex_lease_owner (f x) = ex_lease_owner x" "\<And>x. ex_lease_expires_at (f x) = ex_lease_expires_at x"
  shows "keeps stays_fit (change_run (set_execution f))"
proof (rule fit_change)
  fix r show "fit r \<Longrightarrow> fit (set_execution f r)"
    using assms [of "execution r"] by (auto simp: fit_def set_execution_def check_execution_def)
qed

lemma fit_update: "keeps stays_fit (update_agent role st p d)"
proof -
  have "stays_fit w (fst (update_agent role st p d w))" for w
    by (cases "0 \<le> p \<and> p \<le> 100")
      (auto simp: stays_fit_def step_simps update_agent_def agent_state_update_def run_frame fit_def)
  then show ?thesis by (simp add: keeps_def)
qed

lemma fit_event: "keeps stays_fit (add_event env role act status detail aids eids)"
  by (simp add: keeps_def step_simps stays_fit_def fit_def run_frame)

lemma fit_remember: "keeps stays_fit (remember env role content conf tags a ev)"
  by (rule fit_same) (rule remember_keeps)

lemma fit_complete: "keeps stays_fit (complete_agent env role kind he pl ev d)"
  unfolding complete_agent_def Let_def
  by (intro keep_intros fit_preorder fit_evidence fit_artifact fit_update fit_event)

text \<open>A Greenlight is stored only after its check.\<close>

lemma keeps_checked: "preorder_rel R \<Longrightarrow> (\<And>v. r = Inr v \<Longrightarrow> keeps R (f v)) \<Longrightarrow> keeps R (sbind (slift r) f)"
  by (cases r) (auto simp: keeps_def step_simps preorder_rel_def)

lemma fit_greenlight: "check_greenlight g = Inr () \<Longrightarrow> keeps stays_fit (change_run (\<lambda>r. r\<lparr>run_greenlight := Some g\<rparr>))"
  by (rule fit_change) (simp add: fit_def)

lemmas fit_intros = keep_intros keeps_platforms fit_preorder fit_tick fit_status fit_completed fit_update fit_event fit_artifact
  fit_evidence fit_remember fit_complete

lemma fit_role: "keeps stays_fit (execute_role env role)"
proof (cases role)
  case CEO
  show ?thesis unfolding CEO execute_role.simps run_ceo_def Let_def by (intro fit_intros)
next
  case Research
  show ?thesis unfolding Research execute_role.simps run_research_def Let_def by (intro fit_intros)
next
  case Strategist
  show ?thesis unfolding Strategist execute_role.simps run_strategist_def Let_def by (intro fit_intros)
next
  case Growth
  show ?thesis unfolding Growth execute_role.simps run_growth_def Let_def by (intro fit_intros)
next
  case Writer
  show ?thesis unfolding Writer execute_role.simps run_writer_def Let_def by (intro fit_intros)
next
  case Media
  show ?thesis unfolding Media execute_role.simps run_media_def Let_def by (intro fit_intros)
next
  case Risk
  show ?thesis unfolding Risk execute_role.simps run_risk_def Let_def by (intro fit_intros)
next
  case Publisher
  show ?thesis unfolding Publisher execute_role.simps by (intro fit_intros)
qed

lemma fit_await: "keeps stays_fit (await_greenlight env)"
  unfolding await_greenlight_def Let_def by (intro fit_intros fit_execution) (simp_all add: EXECUTION_STATES_def)

lemma fit_stations: "keeps stays_fit (advance_stations env roles)"
proof (induction roles)
  case Nil
  show ?case by (simp add: fit_await)
next
  case (Cons role rest)
  show ?case unfolding advance_stations.simps Let_def begin_agent_def
    by (intro fit_intros fit_role fit_await Cons.IH fit_execution) simp_all
qed

lemma fit_advance: "keeps stays_fit (advance_work env)"
  unfolding advance_work_def by (intro fit_intros fit_stations fit_execution) (simp_all add: EXECUTION_STATES_def)

lemma fit_publish: "keeps stays_fit (publish_package env g)"
  unfolding publish_package_def Let_def by (intro fit_intros fit_execution) (simp_all add: EXECUTION_STATES_def)

lemma fit_reject: "keeps stays_fit (reject_run env t)"
  unfolding reject_run_def Let_def by (intro fit_intros fit_execution) (simp_all add: EXECUTION_STATES_def)

lemma fit_compliance: "keeps stays_fit (compliance_record env a)"
  unfolding compliance_record_def by (intro fit_intros)

lemma fit_decide: "keeps stays_fit (decide_work env reviewer d note)"
  unfolding decide_work_def Let_def
  by (intro fit_intros keeps_checked fit_greenlight fit_publish fit_reject fit_compliance) simp_all

lemma fit_revoke: "keeps stays_fit (revoke_work env reviewer reason)"
  unfolding revoke_work_def Let_def
  by (intro fit_intros keeps_option keeps_checked fit_greenlight fit_execution) (simp_all add: EXECUTION_STATES_def)

lemma perform_fit:
  obtains m where "perform env c = on_run (target c) m" and "keeps grows m" and "keeps stays_fit m"
  using grows_advance grows_decide grows_revoke fit_advance fit_decide fit_revoke
  by (cases c) (simp_all add: advance_def approve_def reject_def revoke_def)

section \<open>Storable runs\<close>

text \<open>A storable run stays storable, with its well-formedness.\<close>

definition sound_run :: "run \<Rightarrow> bool" where
  "sound_run r \<longleftrightarrow> run_wf r \<and> fit r \<and> check_brief (run_brief r) = Inr () \<and> list_all text_claim (evidence_claims (run_brief r))"

lemma sound_storable: "sound_run r \<Longrightarrow> storable r"
  by (auto simp: sound_run_def storable_def fit_def run_wf_def)

lemma perform_sound:
  assumes "or_runs h rid = Some r" and "sound_run r"
  shows "\<exists>r'. or_runs (fst (perform env c h)) rid = Some r' \<and> sound_run r' \<and> run_ext r r'"
proof (rule perform_fit [of env c])
  fix m assume p: "perform env c = on_run (target c) m" and g: "keeps grows m" and f: "keeps stays_fit m"
  show ?thesis
  proof (cases "rid = target c")
    case False
    then show ?thesis using assms p on_run_missing [of h "target c" m] on_run_run [of h "target c" _ m]
      by (cases "or_runs h (target c)") (auto simp: run_ext_def)
  next
    case True
    let ?w = "\<lparr>wk_run = r, wk_tick = or_tick h, wk_memory = or_memory h\<rparr>"
    obtain r' where r': "or_runs (fst (on_run (target c) m h)) = (or_runs h)(target c \<mapsto> r')" "r' = wk_run (fst (m ?w))"
      using on_run_run [of h "target c" r m] assms(1) True by auto
    have "run_ext r r' \<and> (run_wf r \<longrightarrow> run_wf r')" "fit r \<longrightarrow> fit r'"
      using g f r'(2) by (auto simp: keeps_def grows_def stays_fit_def dest!: spec [of _ ?w])
    moreover have "run_brief r' = run_brief r" using calculation(1) by (simp add: run_ext_def)
    ultimately show ?thesis using assms(2) p r'(1) True by (auto simp: sound_run_def)
  qed
qed

lemma created_sound:
  assumes "create_run env b asynchronous h = (h', Inr r)" and "check_brief b = Inr ()" and "list_all text_claim (evidence_claims b)"
  shows "sound_run r \<and> or_runs h' = (or_runs h)(run_id r \<mapsto> r) \<and> run_brief r = b \<and> run_id r = stable_id ''run'' [brief_json b] 16"
  using assms by (auto simp: create_run_def Let_def run_wf_def state_for_def new_agent_state_def sound_run_def fit_def split: if_splits sum.splits)

end
