(* ===== verification/ServiceRules.thy ===== *)
theory ServiceRules
  imports ServiceMedia RunSound RunStoreLaws
begin

text \<open>
  Rules for the commands of \<open>RuntimeService\<close>: steps under an invariant, the life cycle of stored runs and the
  governed writes, and what the orchestrator returns to a command.
\<close>

section \<open>Plain runs are sound\<close>

lemma plain_claim_text [simp]: "text_claim (plain_claim c)"
  by (auto simp: text_claim_def plain_claim_def)

lemma plain_run_fields [simp]:
  "run_id (plain_run r) = run_id r" "run_status (plain_run r) = run_status r" "execution (plain_run r) = execution r"
  "run_greenlight (plain_run r) = run_greenlight r" "trace (plain_run r) = trace r" "state_for (plain_run r) = state_for r"
  by (simp_all add: plain_run_def state_for_def fun_eq_iff)

lemma plain_sound:
  assumes "sound_run r" shows "sound_run (plain_run r)"
proof -
  have a: "artifact_id (plain_artifact x) = artifact_id x" "created_by (plain_artifact x) = created_by x" for x
    by (simp_all add: plain_artifact_def)
  have f: "map artifact_id (filter (\<lambda>x. created_by x = p) (map plain_artifact xs)) = map artifact_id (filter (\<lambda>x. created_by x = p) xs)" for p xs
    by (induction xs) (simp_all add: a)
  have e: "map evidence_id (map plain_evidence xs) = map evidence_id xs" for xs
    by (induction xs) (simp_all add: plain_evidence_def)
  have b: "run_brief (plain_run r) = plain_brief (run_brief r)" "artifacts (plain_run r) = map plain_artifact (artifacts r)"
    "evidence (plain_run r) = map plain_evidence (evidence r)" by (simp_all add: plain_run_def)
  have "list_all text_claim (evidence_claims (plain_brief (run_brief r)))"
    by (simp add: plain_brief_def list_all_iff)
  moreover have "check_brief (plain_brief (run_brief r)) = Inr ()" using assms plain_brief_checks by (simp add: sound_run_def)
  ultimately show ?thesis using assms unfolding sound_run_def run_wf_def fit_def b f e by simp
qed

section \<open>Steps under an invariant\<close>

text \<open>From states that satisfy \<open>I\<close> the step ends in such states, and what it returns satisfies \<open>Q\<close>.\<close>

definition holds :: "('s \<Rightarrow> bool) \<Rightarrow> ('s, 'a) step \<Rightarrow> ('a \<Rightarrow> bool) \<Rightarrow> bool" where
  "holds I m Q \<longleftrightarrow> (\<forall>s. I s \<longrightarrow> I (fst (m s)) \<and> (\<forall>v. snd (m s) = Inr v \<longrightarrow> Q v))"

named_theorems holds_intros \<open>rules of steps under an invariant\<close>

lemma holds_sret [holds_intros]: "Q v \<Longrightarrow> holds I (sret v) Q"
  by (simp add: holds_def step_simps)

lemma holds_slift [holds_intros]: "(\<And>v. r = Inr v \<Longrightarrow> Q v) \<Longrightarrow> holds I (slift r) Q"
  by (simp add: holds_def step_simps)

lemma holds_sget [holds_intros]: "(\<And>s. I s \<Longrightarrow> Q (f s)) \<Longrightarrow> holds I (sget f) Q"
  by (auto simp: holds_def step_simps)

lemma holds_sbind [holds_intros]:
  assumes "holds I m Q" and "\<And>v. Q v \<Longrightarrow> holds I (f v) P"
  shows "holds I (sbind m f) P"
  unfolding holds_def
proof (intro allI impI)
  fix s assume "I s"
  then have a: "I (fst (m s))" "\<And>v. snd (m s) = Inr v \<Longrightarrow> Q v" using assms(1) by (auto simp: holds_def)
  show "I (fst (sbind m f s)) \<and> (\<forall>v. snd (sbind m f s) = Inr v \<longrightarrow> P v)"
  proof (cases "m s")
    case (Pair s1 r)
    then show ?thesis using a assms(2) by (cases r) (auto simp: sbind_def holds_def)
  qed
qed

lemma holds_sthen [holds_intros]: "holds I m (\<lambda>_. True) \<Longrightarrow> holds I n P \<Longrightarrow> holds I (sthen m n) P"
  unfolding sthen_def by (rule holds_sbind)

lemma holds_scatch [holds_intros]:
  assumes "holds I m Q" and "\<And>e. holds I (h e) Q"
  shows "holds I (scatch m h) Q"
  unfolding holds_def
proof (intro allI impI)
  fix s assume "I s"
  then have a: "I (fst (m s))" "\<And>v. snd (m s) = Inr v \<Longrightarrow> Q v" using assms(1) by (auto simp: holds_def)
  show "I (fst (scatch m h s)) \<and> (\<forall>v. snd (scatch m h s) = Inr v \<longrightarrow> Q v)"
  proof (cases "m s")
    case (Pair s1 r)
    then show ?thesis using a assms(2) by (cases r) (auto simp: scatch_def holds_def)
  qed
qed

lemma holds_weaken: "holds I m Q \<Longrightarrow> (\<And>v. Q v \<Longrightarrow> P v) \<Longrightarrow> holds I m P"
  by (simp add: holds_def)

lemma holds_true: "holds I m Q \<Longrightarrow> holds I m (\<lambda>_. True)"
  by (simp add: holds_def)

lemma holds_if [holds_intros]: "(b \<Longrightarrow> holds I m Q) \<Longrightarrow> (\<not> b \<Longrightarrow> holds I n Q) \<Longrightarrow> holds I (if b then m else n) Q"
  by simp

lemma holds_option [holds_intros]:
  "(x = None \<Longrightarrow> holds I m Q) \<Longrightarrow> (\<And>v. x = Some v \<Longrightarrow> holds I (f v) Q) \<Longrightarrow> holds I (case x of None \<Rightarrow> m | Some v \<Rightarrow> f v) Q"
  by (cases x) simp_all

lemma sbind_assoc: "sbind (sbind m f) g = sbind m (\<lambda>v. sbind (f v) g)"
  by (auto simp: sbind_def fun_eq_iff split: prod.splits sum.splits)

section \<open>Governed writes\<close>

text \<open>The life cycle of a stored run: which status may replace which.\<close>

definition lifecycle :: "run_status \<Rightarrow> run_status \<Rightarrow> bool" where
  "lifecycle a b \<longleftrightarrow> (case a of
     Queued \<Rightarrow> b \<in> {Queued, Running, AwaitingGreenlight, Failed}
   | Running \<Rightarrow> b \<in> {Running, AwaitingGreenlight, Failed}
   | AwaitingGreenlight \<Rightarrow> b \<in> {AwaitingGreenlight, Completed, RunRejected}
   | Completed \<Rightarrow> b = Revoked
   | _ \<Rightarrow> False)"

text \<open>One write of the service: a new run with its receipt, a guarded save along the life cycle, or a write
  that leaves the runs alone.\<close>

inductive governed :: "run_db \<Rightarrow> run_db \<Rightarrow> bool" where
  created: "run_create db t r (Some w) ts s = Inr db' \<Longrightarrow> sound_run r \<Longrightarrow> governed db db'"
| saved: "run_save db t r ow (Some (run_status_value e)) ts s = Inr db' \<Longrightarrow> sound_run r \<Longrightarrow> lifecycle e (run_status r)
    \<Longrightarrow> governed db db'"
| other: "db_step at_time db db' \<Longrightarrow> db_runs db' = db_runs db \<Longrightarrow> governed db db'"

definition stored_run_ok :: "run_row \<Rightarrow> bool" where
  "stored_run_ok x \<longleftrightarrow> (\<exists>r. sound_run r \<and> rr_document x = execution_run_to_document r \<and> rr_run_id x = run_id r
     \<and> rr_status x = run_status_value (run_status r))"

definition service_db_ok :: "run_db \<Rightarrow> bool" where
  "service_db_ok db \<longleftrightarrow> db_inv db \<and> list_all stored_run_ok (db_runs db)"

lemma governed_step: "governed db db' \<Longrightarrow> \<exists>at_time. db_step at_time db db'"
  by (induction rule: governed.induct) (auto intro: db_step.intros)

lemma governed_ok:
  assumes "governed db db'" and "service_db_ok db" shows "service_db_ok db'"
proof -
  have inv: "db_inv db'" using governed_step [OF assms(1)] db_step_inv assms(2) by (auto simp: service_db_ok_def)
  have "list_all stored_run_ok (db_runs db')"
    using assms
  proof (induction rule: governed.induct)
    case (created db t r w ts s db')
    have "stored_run_ok (created_row t r ts)" using created(2) by (auto simp: stored_run_ok_def created_row_def)
    then show ?case using created by (simp add: service_db_ok_def run_create_Inr)
  next
    case (saved db t r ow e ts s db')
    then show ?case
      by (auto simp: service_db_ok_def run_save_Inr sql_update_def list_all_iff saved_row_def stored_run_ok_def save_matches_def run_key_def)
  qed (simp add: service_db_ok_def)
  then show ?thesis using inv by (simp add: service_db_ok_def)
qed

lemma governed_steps_ok: "governed\<^sup>*\<^sup>* db db' \<Longrightarrow> service_db_ok db \<Longrightarrow> service_db_ok db'"
  by (induction rule: rtranclp_induct) (auto dest: governed_ok)

text \<open>A service whose database was reached from \<open>db0\<close> by governed writes.\<close>

definition under :: "run_db \<Rightarrow> service \<Rightarrow> bool" where
  "under db0 s \<longleftrightarrow> service_db_ok (sv_db s) \<and> governed\<^sup>*\<^sup>* db0 (sv_db s)"

lemma under_write: "under db0 s \<Longrightarrow> governed (sv_db s) db \<Longrightarrow> under db0 (s\<lparr>sv_db := db\<rparr>)"
  using governed_ok by (auto simp: under_def)

lemma under_frame [simp]: "under db0 (s\<lparr>sv_runtimes := f\<rparr>) = under db0 s" "under db0 (s\<lparr>sv_media := g\<rparr>) = under db0 s"
  by (simp_all add: under_def)

lemma holds_on_db:
  assumes "\<And>db db'. service_db_ok db \<Longrightarrow> f db = Inr db' \<Longrightarrow> governed db db'"
  shows "holds (under db0) (on_db f) (\<lambda>_. True)"
  unfolding holds_def
proof (intro allI impI conjI)
  fix s assume u: "under db0 s"
  show "under db0 (fst (on_db f s))"
  proof (cases "f (sv_db s)")
    case (Inr db)
    then show ?thesis using under_write [OF u] assms u by (simp add: on_db_def under_def)
  qed (use u in \<open>simp add: on_db_def\<close>)
qed simp

lemma holds_from_db:
  "(\<And>db v. service_db_ok db \<Longrightarrow> f db = Inr v \<Longrightarrow> Q v) \<Longrightarrow> holds (under db0) (from_db f) Q"
  by (auto simp: holds_def from_db_def under_def)

lemma appended_governed: "append_audit (db_ledger db) t w tm u = Inr l \<Longrightarrow> governed db (db\<lparr>db_ledger := l\<rparr>)"
  using governed.other [OF db_step.appended] by simp

lemma holds_store_append [holds_intros]: "holds (under db0) (store_append env t w) (\<lambda>_. True)"
  unfolding store_append_def
  by (intro holds_intros holds_on_db) (auto simp: rbind_Inr_iff intro: appended_governed)

lemma holds_store_create: "sound_run r \<Longrightarrow> holds (under db0) (store_create env t r w) (\<lambda>_. True)"
  unfolding store_create_def by (intro holds_intros holds_on_db) (auto intro: governed.created)

lemma holds_store_save:
  "sound_run r \<Longrightarrow> lifecycle e (run_status r) \<Longrightarrow> holds (under db0) (store_save env t r e w) (\<lambda>_. True)"
  unfolding store_save_def by (intro holds_intros holds_on_db) (auto intro: governed.saved)

lemma run_get_sound:
  assumes "service_db_ok db" and "run_get iof db t rid = Inr r"
  shows "sound_run r \<and> run_id r = rid"
proof -
  obtain x where x: "sql_find (run_key t rid) (db_runs db) = Some x" "execution_run_from_document iof (rr_document x) = Inr r"
    using assms(2) by (auto simp: run_get_def split: option.splits)
  then have m: "x \<in> set (db_runs db)" "rr_run_id x = rid" by (auto dest: sql_find_Some simp: run_key_def)
  then obtain r0 where r0: "sound_run r0" "rr_document x = execution_run_to_document r0" "rid = run_id r0"
    using assms(1) by (auto simp: service_db_ok_def list_all_iff stored_run_ok_def)
  have "r = plain_run r0" using x(2) reads_run [OF sound_storable [OF r0(1)], of iof] r0(2) by simp
  then show ?thesis using plain_sound [OF r0(1)] r0(3) by simp
qed

lemma holds_store_get [holds_intros]: "(\<And>r. sound_run r \<Longrightarrow> run_id r = rid \<Longrightarrow> Q r) \<Longrightarrow> holds (under db0) (store_get env t rid) Q"
  unfolding store_get_def by (rule holds_from_db) (use run_get_sound in blast)

lemma holds_runtime_for [holds_intros]: "holds (under db0) (runtime_for t) (\<lambda>_. True)"
  unfolding runtime_for_def Let_def by (auto simp: holds_def split: option.split sum.split)

lemma holds_in_runtime:
  assumes "\<And>h h' v. m h = (h', Inr v) \<Longrightarrow> Q v" shows "holds (under db0) (in_runtime t m) Q"
  unfolding in_runtime_def
  by (rule holds_sbind [OF holds_runtime_for]) (auto simp: holds_def assms split: prod.splits)

lemma holds_command_replay [holds_intros]:
  "(\<And>r. Q (Some r)) \<Longrightarrow> Q None \<Longrightarrow> holds (under db0) (command_replay env t ev op fp) Q"
  unfolding command_replay_def by (rule holds_from_db) (auto simp: rbind_Inr_iff split: option.splits)

section \<open>What the orchestrator returns to a command\<close>

lemma on_run_sound:
  assumes "perform env c h = (h', Inr r')" and "or_runs h (target c) = Some r" and "sound_run r"
  shows "sound_run r' \<and> run_id r' = run_id r"
proof -
  obtain r1 where r1: "or_runs h' (target c) = Some r1" "sound_run r1" "run_ext r r1"
    using perform_sound [OF assms(2,3), of env c] assms(1) by auto
  have "perform env c h = (h', Inr r') \<Longrightarrow> or_runs h' (target c) = Some r'"
    using assms(2) by (cases c) (auto simp: advance_def approve_def reject_def revoke_def on_run_def rbind_Inr_iff split: prod.splits)
  then have "r1 = r'" using assms(1) r1(1) by simp
  then show ?thesis using r1 by (simp add: run_ext_def)
qed

lemma approved_status: "approve env rid reviewer note h = (h', Inr r') \<Longrightarrow> or_runs h rid = Some r \<Longrightarrow> run_status r' = Completed"
  by (auto simp: approve_def on_run_def rbind_Inr_iff published_def Let_def run_frame split: prod.splits elim!: decide_work_cases)

lemma rejected_status: "reject env rid reviewer note h = (h', Inr r') \<Longrightarrow> or_runs h rid = Some r \<Longrightarrow> run_status r' = RunRejected"
  by (auto simp: reject_def on_run_def rbind_Inr_iff rejected_run_def run_frame split: prod.splits elim!: decide_work_cases)

lemma revoked_status: "revoke env rid reviewer reason h = (h', Inr r') \<Longrightarrow> or_runs h rid = Some r \<Longrightarrow> run_status r' = Revoked"
  by (auto simp: revoke_def on_run_def rbind_Inr_iff revoked_run_def run_frame split: prod.splits elim!: revoke_work_cases)

text \<open>A run goes from one of its stations to the next.\<close>

definition moved_on :: "run \<Rightarrow> run \<Rightarrow> bool" where
  "moved_on r r' \<longleftrightarrow> run_status r' = AwaitingGreenlight \<or> run_status r' = Running \<and> work_left r' < work_left r"

lemma advanced_status:
  assumes "advance env rid h = (h', Inr r')" and "or_runs h rid = Some r" and "run_status r \<in> {Queued, Running}"
  shows "moved_on r r'"
proof -
  let ?w = "\<lparr>wk_run = r, wk_tick = or_tick h, wk_memory = or_memory h\<rparr>"
  obtain w' u where "advance_work env ?w = (w', Inr u)" "r' = wk_run w'"
    using assms(1,2) by (auto simp: advance_def on_run_def rbind_Inr_iff split: prod.splits)
  then show ?thesis using advance_progress [of ?w env w' u] assms(3) by (auto simp: moved_on_def)
qed

text \<open>A restored run, then one operation on it.\<close>

lemma runtime_for_stable: "runtime_for t s = (s1, Inr h) \<Longrightarrow> sv_runtimes s1 t = Some h"
  by (auto simp: runtime_for_def Let_def split: option.splits sum.splits)

lemma holds_restored:
  assumes "sound_run r" and "run_id r = target c"
    and "\<And>h h' r'. perform env c h = (h', Inr r') \<Longrightarrow> or_runs h (target c) = Some r \<Longrightarrow> P r'"
  shows "holds (under db0) (sbind (in_runtime t (restore_run r)) (\<lambda>_. in_runtime t (perform env c)))
    (\<lambda>r'. sound_run r' \<and> run_id r' = run_id r \<and> P r')"
  unfolding holds_def
proof (intro allI impI)
  fix s assume u: "under db0 s"
  obtain s1 x where g: "runtime_for t s = (s1, x)" by (cases "runtime_for t s")
  have u1: "under db0 s1" using holds_runtime_for [of db0 t] u g by (auto simp: holds_def)
  show "under db0 (fst (sbind (in_runtime t (restore_run r)) (\<lambda>_. in_runtime t (perform env c)) s)) \<and>
     (\<forall>r'. snd (sbind (in_runtime t (restore_run r)) (\<lambda>_. in_runtime t (perform env c)) s) = Inr r'
        \<longrightarrow> sound_run r' \<and> run_id r' = run_id r \<and> P r')"
  proof (cases x)
    case (Inl e)
    then show ?thesis using g u1 by (simp add: in_runtime_def sbind_def)
  next
    case (Inr h)
    let ?h = "h\<lparr>or_runs := (or_runs h)(run_id r \<mapsto> r)\<rparr>"
    obtain h' res where p: "perform env c ?h = (h', res)" by (cases "perform env c ?h")
    have run: "or_runs ?h (target c) = Some r" using assms(2) by simp
    have eq: "sbind (in_runtime t (restore_run r)) (\<lambda>_. in_runtime t (perform env c)) s
        = (s1\<lparr>sv_runtimes := (sv_runtimes s1)(t \<mapsto> h')\<rparr>, res)"
      using g Inr p by (simp add: in_runtime_def sbind_def restore_run_def runtime_for_def)
    show ?thesis unfolding eq using u1 on_run_sound [OF _ run assms(1)] p assms(3) [OF _ run] by auto
  qed
qed

lemma sthen_sbind_assoc: "sbind m (\<lambda>_. sbind n k) = sbind (sbind m (\<lambda>_. n)) k"
  by (simp add: sbind_assoc)

lemma drive_sound: "drive env rid h = Some out \<Longrightarrow> (\<forall>r. or_runs h rid = Some r \<longrightarrow> sound_run r \<longrightarrow>
    (\<forall>r'. snd out = Inr r' \<longrightarrow> sound_run r' \<and> run_ext r r'))"
proof (rule drive.raw_induct [where P = "\<lambda>env rid h y. \<forall>r. or_runs h rid = Some r \<longrightarrow> sound_run r \<longrightarrow>
    (\<forall>r'. snd y = Inr r' \<longrightarrow> sound_run r' \<and> run_ext r r')"])
  fix d env rid h y
  assume IH: "\<And>env rid h y. d env rid h = Some y \<Longrightarrow> \<forall>r. or_runs h rid = Some r \<longrightarrow> sound_run r \<longrightarrow>
      (\<forall>r'. snd y = Inr r' \<longrightarrow> sound_run r' \<and> run_ext r r')"
    and body: "(case or_runs h rid of None \<Rightarrow> Some (h, Inl (KeyError (''run not found: '' @ rid)))
      | Some r \<Rightarrow> if run_status r \<in> {Queued, Running}
          then case advance env rid h of (h1, Inl e) \<Rightarrow> Some (h1, Inl e) | (h1, Inr x) \<Rightarrow> d env rid h1
          else Some (h, Inr r)) = Some y"
  show "\<forall>r. or_runs h rid = Some r \<longrightarrow> sound_run r \<longrightarrow> (\<forall>r'. snd y = Inr r' \<longrightarrow> sound_run r' \<and> run_ext r r')"
  proof (intro allI impI)
    fix r r' assume r: "or_runs h rid = Some r" "sound_run r" and y: "snd y = Inr r'"
    show "sound_run r' \<and> run_ext r r'"
    proof (cases "run_status r \<in> {Queued, Running}")
      case False
      then show ?thesis using body r y by auto
    next
      case True
      obtain h1 res where a: "advance env rid h = (h1, res)" by (cases "advance env rid h")
      obtain r1 where r1: "or_runs h1 rid = Some r1" "sound_run r1" "run_ext r r1"
        using perform_sound [OF r, of env "Advance rid"] a by auto
      have "d env rid h1 = Some y" using body r(1) True a y by (cases res) auto
      then have "sound_run r' \<and> run_ext r1 r'" using IH r1 y by blast
      then show ?thesis using r1(3) run_ext_trans by blast
    qed
  qed
qed

lemma start_sound:
  assumes "start_step env b h = (h', Inr r)" and "check_brief b = Inr ()" and "list_all text_claim (evidence_claims b)"
  shows "sound_run r \<and> run_id r = stable_id ''run'' [brief_json b] 16"
proof -
  obtain h1 r1 where c: "create_run env b False h = (h1, Inr r1)" "drive env (run_id r1) h1 = Some (h', Inr r)"
    using assms(1) by (auto simp: start_step_def start_def split: option.splits prod.splits sum.splits)
  have s: "sound_run r1" "or_runs h1 (run_id r1) = Some r1" "run_id r1 = stable_id ''run'' [brief_json b] 16"
    using created_sound [OF c(1) assms(2,3)] by auto
  then show ?thesis using drive_sound [OF c(2)] by (auto simp: run_ext_def)
qed

end
