(* ===== verification/ServiceSteps.thy ===== *)
theory ServiceSteps
  imports ServiceRules
begin

text \<open>
  Every command of \<open>RuntimeService\<close>, returning or raising, changes the database by governed writes only.
\<close>

section \<open>Every command writes under governance\<close>

lemma holds_conflict_handlers [holds_intros]:
  "holds I m Q \<Longrightarrow> (\<And>e. holds I h Q) \<Longrightarrow> holds I (scatch m (\<lambda>e. case e of AuditEventConflictError x \<Rightarrow> h | _ \<Rightarrow> slift (Inl e))) Q"
  by (intro holds_intros) (auto intro: holds_intros split: exn.splits)

abbreviation any :: "'a \<Rightarrow> bool" where
  "any \<equiv> \<lambda>_. True"

text \<open>A result that is replayed, or satisfies \<open>P\<close>.\<close>

definition replay_or :: "(run \<Rightarrow> bool) \<Rightarrow> run \<times> bool \<Rightarrow> bool" where
  "replay_or P v \<longleftrightarrow> snd v \<or> P (fst v)"

lemma replay_or_pair [simp]: "replay_or P (r, b) \<longleftrightarrow> b \<or> P r"
  by (simp add: replay_or_def)

lemma holds_or_replay:
  "holds (under db0) m (replay_or P) \<Longrightarrow> holds (under db0) (or_replay env t ev op fp m) (replay_or P)"
  unfolding or_replay_def
  by (intro holds_scatch) (auto split: exn.splits intro!: holds_intros)

lemma holds_replay_first:
  "holds (under db0) m (replay_or P) \<Longrightarrow> holds (under db0) (replay_first env t ev op fp m) (replay_or P)"
  unfolding replay_first_def by (intro holds_sbind [where Q = any] holds_intros) auto

lemma holds_replay_first_any: "holds (under db0) m any \<Longrightarrow> holds (under db0) (replay_first env t ev op fp m) any"
  using holds_replay_first [of db0 m any] by (simp add: replay_or_def [abs_def])

lemma holds_or_replay_any: "holds (under db0) m any \<Longrightarrow> holds (under db0) (or_replay env t ev op fp m) any"
  using holds_or_replay [of db0 m any] by (simp add: replay_or_def [abs_def])

lemma holds_greenlight_error: "holds I m Q \<Longrightarrow> holds I (or_greenlight_error msg m) Q"
  unfolding or_greenlight_error_def by (intro holds_scatch) (auto split: exn.splits intro!: holds_intros)

lemma holds_effects_ready: "holds (under db0) (\<lambda>s. (s, model_effects_ready (sv_effects s) t r)) any"
  by (simp add: holds_def)

lemma holds_svc_start:
  assumes "list_all text_claim (evidence_claims q)"
  shows "holds (under db0) (svc_start env t q rq ac sub key asynchronous) (replay_or any)"
proof (cases "check_brief q")
  case (Inl e)
  then show ?thesis unfolding svc_start_def Let_def by (simp add: holds_def sthen_def sbind_def slift_def)
next
  case (Inr u)
  have new: "holds (under db0) (in_runtime t (if asynchronous then create_run (se_orch env) q True else start_step (se_orch env) q)) sound_run"
    using created_sound [of "se_orch env" q True] start_sound [of "se_orch env" q] assms Inr
    by (intro holds_in_runtime) (auto split: if_splits)
  have reuse: "holds (under db0) (sbind (store_get env t rid) (\<lambda>x. or_replay env t ev op fp (sthen (store_append env t (w x)) (sret (x, True))))) (replay_or any)"
    for rid ev op fp w
    by (rule holds_sbind [OF holds_store_get [where Q = any]]) (auto intro!: holds_or_replay holds_sthen holds_store_append holds_sret)
  have fresh: "holds (under db0) (sbind (in_runtime t (if asynchronous then create_run (se_orch env) q True else start_step (se_orch env) q))
      (\<lambda>r. or_replay env t ev op fp (sthen (store_create env t r (w r)) (sret (r, False))))) (replay_or any)" for ev op fp w
    by (rule holds_sbind [OF new]) (auto intro!: holds_or_replay holds_sthen holds_store_create holds_sret)
  have branch: "holds (under db0) (sbind (sget f) (\<lambda>b. if b then m else n)) Q"
    if "holds (under db0) m Q" "holds (under db0) n Q" for f :: "service \<Rightarrow> bool" and m n :: "(service, run \<times> bool) step" and Q
    by (rule holds_sbind [OF holds_sget [where Q = any]]) (use that in auto)
  show ?thesis unfolding svc_start_def Let_def
    by (intro holds_sthen holds_slift holds_replay_first branch reuse fresh) auto
qed

lemma perform_commands:
  "approve env rid a b = perform env (Approve rid a b)" "reject env rid a b = perform env (Reject rid a b)"
  "revoke env rid a b = perform env (Revoke rid a b)" "advance env rid = perform env (Advance rid)"
  by simp_all

lemma holds_restored_decide:
  assumes "sound_run r" and "run_id r = rid"
  shows "holds (under db0) (sbind (in_runtime t (restore_run r)) (\<lambda>_. in_runtime t
      (if d = Approved then approve env rid a b else reject env rid a b)))
    (\<lambda>r'. sound_run r' \<and> run_id r' = rid \<and> run_status r' \<in> {Completed, RunRejected})"
proof (cases "d = Approved")
  case True
  have "holds (under db0) (sbind (in_runtime t (restore_run r)) (\<lambda>_. in_runtime t (perform env (Approve rid a b))))
      (\<lambda>r'. sound_run r' \<and> run_id r' = run_id r \<and> run_status r' = Completed)"
    by (rule holds_restored [OF assms(1)]) (use assms(2) approved_status in auto)
  then show ?thesis using True assms(2) by (auto intro: holds_weaken)
next
  case False
  have "holds (under db0) (sbind (in_runtime t (restore_run r)) (\<lambda>_. in_runtime t (perform env (Reject rid a b))))
      (\<lambda>r'. sound_run r' \<and> run_id r' = run_id r \<and> run_status r' = RunRejected)"
    by (rule holds_restored [OF assms(1)]) (use assms(2) rejected_status in auto)
  then show ?thesis using False assms(2) by (auto intro: holds_weaken)
qed

lemma holds_svc_decide: "holds (under db0) (svc_decide env t rid reviewer note rq ac sub key d)
    (replay_or (\<lambda>r. run_id r = rid \<and> run_status r \<in> {Completed, RunRejected}))"
proof -
  have block: "holds (under db0)
     (sthen (if d = Approved then (\<lambda>s. (s, model_effects_ready (sv_effects s) t current)) else sret ())
      (sbind (in_runtime t (restore_run current)) (\<lambda>_.
       sbind (in_runtime t (if d = Approved then approve (se_orch env) rid sub note
           else reject (se_orch env) rid sub note)) (\<lambda>r.
         case run_greenlight r of
           None \<Rightarrow> slift (Inl (GreenlightError ''Greenlight decision was not recorded''))
         | Some g \<Rightarrow> or_greenlight_error ''Greenlight was already decided by another request''
             (or_replay env t ev op fp (sthen (store_save env t r AwaitingGreenlight (w r g)) (sret (r, False))))))))
     (replay_or (\<lambda>r. run_id r = rid \<and> run_status r \<in> {Completed, RunRejected}))"
    if "sound_run current" "run_id current = rid" for current ev op fp w
    unfolding sthen_sbind_assoc
    by (intro holds_sthen holds_if holds_effects_ready holds_sret holds_sbind [OF holds_restored_decide [OF that]] holds_option
        holds_slift holds_greenlight_error holds_or_replay holds_store_save)
      (auto simp: lifecycle_def)
  show ?thesis unfolding svc_decide_def Let_def
    by (rule holds_replay_first, rule holds_sbind [OF holds_runtime_for],
        rule holds_sbind [OF holds_store_get [where Q = "\<lambda>r. sound_run r \<and> run_id r = rid"]], simp, elim conjE, rule block)
qed

lemma holds_svc_revoke: "holds (under db0) (svc_revoke_greenlight env t rid reviewer reason rq ac sub key)
    (replay_or (\<lambda>r. run_id r = rid \<and> run_status r = Revoked))"
proof -
  have block: "holds (under db0) (sbind (in_runtime t (restore_run r)) (\<lambda>_. in_runtime t (revoke (se_orch env) rid sub reason)))
      (\<lambda>r'. sound_run r' \<and> run_id r' = run_id r \<and> run_status r' = Revoked)" if "sound_run r" "run_id r = rid" for r
    unfolding perform_commands by (rule holds_restored [OF that(1)]) (use that(2) revoked_status in auto)
  have main: "holds (under db0)
      (sbind (in_runtime t (restore_run current)) (\<lambda>_.
       sbind (in_runtime t (revoke (se_orch env) rid sub reason)) (\<lambda>r.
         case run_greenlight r of
           None \<Rightarrow> slift (Inl (GreenlightError ''Greenlight revocation was not recorded''))
         | Some g \<Rightarrow> or_greenlight_error ''Greenlight is not active''
             (or_replay env t ev op fp (sthen (store_save env t r Completed (w r g)) (sret (r, False)))))))
     (replay_or (\<lambda>r. run_id r = rid \<and> run_status r = Revoked))"
    if "sound_run current" "run_id current = rid" for current ev op fp w
    unfolding sthen_sbind_assoc
    by (intro holds_sbind [OF block [OF that]] holds_option holds_sthen holds_sret
        holds_slift holds_greenlight_error holds_or_replay holds_store_save)
      (use that in \<open>auto simp: lifecycle_def\<close>)
  show ?thesis unfolding svc_revoke_greenlight_def Let_def
    by (rule holds_replay_first, rule holds_sbind [OF holds_runtime_for],
        rule holds_sbind [OF holds_store_get [where Q = "\<lambda>r. sound_run r \<and> run_id r = rid"]], simp, elim conjE, rule main)
qed

section \<open>The worker\<close>

lemma lease_sound: "sound_run r \<Longrightarrow> sound_run (lease_run worker expires r) \<and> run_id (lease_run worker expires r) = run_id r
    \<and> run_status (lease_run worker expires r) = run_status r"
  by (auto simp: sound_run_def fit_def lease_run_def check_execution_def EXECUTION_STATES_def set_execution_def run_wf_def state_for_def)

lemma release_sound: "sound_run r \<Longrightarrow> sound_run (release_run cp r) \<and> run_status (release_run cp r) = run_status r"
  by (auto simp: sound_run_def fit_def release_run_def check_execution_def EXECUTION_STATES_def set_execution_def run_wf_def state_for_def)

lemma fail_sound: "sound_run r \<Longrightarrow> sound_run (fail_run cp e r) \<and> run_status (fail_run cp e r) = Failed"
  by (auto simp: sound_run_def fit_def fail_run_def check_execution_def EXECUTION_STATES_def set_execution_def run_wf_def state_for_def)

text \<open>What the advance of a leased run leaves to be saved.\<close>

definition worked :: "run \<Rightarrow> run \<times> exn option \<Rightarrow> bool" where
  "worked r v \<longleftrightarrow> (case v of (r2, failure) \<Rightarrow> sound_run r2 \<and> lifecycle (run_status r) (run_status r2) \<and> run_id r2 = run_id r
     \<and> ex_lease_owner (execution r2) = [] \<and> (if failure = None then moved_on r r2 else run_status r2 = Failed))"

lemma holds_advance_leased:
  assumes "sound_run r" and "run_id r = rid" and "run_status r \<in> {Queued, Running}"
  shows "holds (under db0) (advance_leased env t rid r) (worked r)"
  unfolding holds_def
proof (intro allI impI)
  fix s assume u: "under db0 s"
  let ?m = "advance_leased env t rid r" and ?Q = "worked r"
  obtain s1 x where g: "runtime_for t s = (s1, x)" by (cases "runtime_for t s")
  have u1: "under db0 s1" using holds_runtime_for [of db0 t] u g by (auto simp: holds_def)
  show "under db0 (fst (?m s)) \<and> (\<forall>v. snd (?m s) = Inr v \<longrightarrow> ?Q v)"
  proof (cases x)
    case (Inl e)
    then show ?thesis using g u1 by (simp add: advance_leased_def in_runtime_def sbind_def)
  next
    case (Inr h)
    let ?h = "h\<lparr>or_runs := (or_runs h)(run_id r \<mapsto> r)\<rparr>"
    obtain h' res where p: "advance (se_orch env) rid ?h = (h', res)" by (cases "advance (se_orch env) rid ?h")
    have run: "or_runs ?h rid = Some r" using assms(2) by simp
    obtain r1 where r1: "or_runs h' rid = Some r1" "sound_run r1" "run_ext r r1"
      using perform_sound [OF run assms(1), of "se_orch env" "Advance rid"] p by auto
    have q: "sound_run v \<and> run_id v = run_id r \<and> moved_on r v" if "res = Inr v" for v
      using on_run_sound [of "se_orch env" "Advance rid" ?h h' v r] advanced_status [of "se_orch env" rid ?h h' v r] p run that assms by simp
    have life: "\<And>b. b \<in> {Running, AwaitingGreenlight, Failed} \<Longrightarrow> lifecycle (run_status r) b"
      using assms(3) by (auto simp: lifecycle_def)
    have eq: "?m s = (s1\<lparr>sv_runtimes := (sv_runtimes s1)(t \<mapsto> h')\<rparr>, case res of
         Inr v \<Rightarrow> Inr (release_run (se_checkpoint env) v, None) | Inl e \<Rightarrow> Inr (fail_run (se_checkpoint env) e r1, Some e))"
      using g Inr p r1(1)
      by (cases res) (simp_all add: advance_leased_def in_runtime_def sbind_def scatch_def restore_run_def runtime_for_def sret_def sget_def)
    have good: "worked r (release_run (se_checkpoint env) v, None)" if "res = Inr v" for v
      using q [OF that] release_sound [of v "se_checkpoint env"] life unfolding worked_def moved_on_def
      by (auto simp: release_run_def set_execution_def work_left_def state_for_def)
    have failed: "worked r (fail_run (se_checkpoint env) e r1, Some e)" for e
      using fail_sound [OF r1(2)] r1(3) life unfolding worked_def by (auto simp: fail_run_def set_execution_def run_ext_def)
    show ?thesis unfolding eq using u1 good failed by (cases res) auto
  qed
qed

lemma holds_true_any: "holds (under db0) m Q \<Longrightarrow> holds (under db0) m any"
  by (rule holds_true)

lemma holds_in_runtime_any: "holds (under db0) (in_runtime t m) any"
  by (rule holds_in_runtime) simp

lemma holds_execute_run: "holds (under db0) (execute_run env worker clk t rid) any"
proof -
  have work: "holds (under db0) (let r1 = lease_run worker ex r; fence = ex_fencing_token (execution r1) in
        sthen (on_db (\<lambda>db. run_save db t r1 None (Some (run_status_value (run_status r))) c st))
          (sbind (advance_leased env t rid r1) (\<lambda>(r2, failure).
             sthen (in_runtime t (sbind (restore_run r2) (\<lambda>_. sret ())))
            (sthen (store_save env t r2 (run_status r) (w r2 failure fence)) (sret True))))) any"
    if "sound_run r" "run_id r = rid" "run_status r \<in> {Queued, Running}" for r ex c st w
  proof -
    let ?r1 = "lease_run worker ex r"
    have r1: "sound_run ?r1" "run_id ?r1 = rid" "run_status ?r1 = run_status r" using lease_sound that by auto
    have save: "holds (under db0) (on_db (\<lambda>db. run_save db t ?r1 None (Some (run_status_value (run_status r))) c st)) any"
      by (rule holds_on_db, erule governed.saved [OF _ r1(1)]) (use r1(3) that(3) in \<open>auto simp: lifecycle_def\<close>)
    have adv: "holds (under db0) (advance_leased env t rid ?r1) (worked ?r1)"
      using holds_advance_leased [OF r1(1,2), of db0 env t] r1(3) that(3) by simp
    show ?thesis unfolding Let_def
      by (rule holds_sthen [OF save], rule holds_sbind [OF adv])
        (auto intro!: holds_sthen holds_in_runtime_any holds_store_save holds_sret simp: worked_def r1(3))
  qed
  have body: "holds (under db0) (if run_status r \<notin> {Queued, Running} then sret False
       else sbind (slift x) (\<lambda>expires. if l expires then sret False
         else sbind (sget sv_lease_seconds) (\<lambda>lease. f lease))) any"
    if "run_status r \<in> {Queued, Running} \<Longrightarrow> (\<And>lease. holds (under db0) (f lease) any)"
    for r :: run and x :: "int option res" and l and f :: "int \<Rightarrow> (service, bool) step"
    by (intro holds_if holds_sret holds_sbind [OF holds_slift [where Q = any]] holds_sbind [OF holds_sget [where Q = any]])
      (use that in auto)
  show ?thesis unfolding execute_run_def
    by (rule holds_sbind [OF holds_runtime_for], rule holds_sbind [OF holds_store_get [where Q = "\<lambda>r. sound_run r \<and> run_id r = rid"]],
        simp, rule body, rule work) simp_all
qed

lemma holds_execute_each: "holds (under db0) (execute_each env worker k xs) any"
  by (induction env worker k xs rule: execute_each.induct)
    (auto intro!: holds_sret holds_sbind [OF holds_execute_run] holds_if)

lemma holds_execute_one: "holds (under db0) (execute_one_queued_run env worker) any"
  unfolding execute_one_queued_run_def
  by (rule holds_sbind [OF holds_from_db [where Q = any]]) (simp_all add: holds_execute_each)

section \<open>Media, model output and audit events\<close>

lemma add_artifact_sound:
  assumes "sound_run r" shows "sound_run (add_artifact r a)" "run_status (add_artifact r a) = run_status r"
  using assms by (auto simp: add_artifact_def Let_def sound_run_def fit_def run_wf_def state_for_def set_state_def)

lemma attach_completion_sound:
  assumes "sound_run r" and "find (\<lambda>x. artifact_id x = artifact_id a) (artifacts r) = None"
  shows "sound_run (attach_completion r a)" "run_status (attach_completion r a) = run_status r"
proof -
  have "artifact_id a \<notin> artifact_id ` set (artifacts r)" using assms(2) by (auto simp: find_None_iff)
  then have "artifact_id a \<notin> set (as_artifact_ids (state_for r (created_by a)))"
    using assms(1) by (auto simp: sound_run_def run_wf_def)
  then show "sound_run (attach_completion r a)" "run_status (attach_completion r a) = run_status r"
    using assms(1) by (auto simp: attach_completion_def Let_def sound_run_def fit_def run_wf_def state_for_def set_state_def)
qed

lemma holds_effect_step: "(\<And>s. sv_db (fst (m s)) = sv_db s) \<Longrightarrow> holds (under db0) m any"
  by (simp add: holds_def under_def)

lemma holds_reserve_media: "holds (under db0) (reserve_media env m c) any"
  by (rule holds_effect_step) (simp add: reserve_media_def split: sum.splits prod.splits)

lemma holds_compensate: "holds (under db0) (compensate_media env t v e) any"
  by (rule holds_effect_step) (simp add: compensate_media_def split: sum.splits)

lemma holds_store_save_same:
  "sound_run r \<Longrightarrow> run_status r = AwaitingGreenlight \<Longrightarrow> holds (under db0) (store_save env t r AwaitingGreenlight w) any"
  by (rule holds_store_save) (simp_all add: lifecycle_def)

lemma holds_media_handler:
  "holds (under db0) m any \<Longrightarrow> holds (under db0) (scatch m (\<lambda>e. case e of
     AuditEventConflictError _ \<Rightarrow> sbind (command_replay env t ev op fp) (\<lambda>found. case found of
       None \<Rightarrow> slift (Inl e) | Some x \<Rightarrow> sret (x, True))
   | _ \<Rightarrow> compensate_media env t v e)) any"
  by (intro holds_scatch) (auto split: exn.splits option.splits intro!: holds_sbind [OF holds_command_replay [where Q = any]]
      holds_slift holds_sret holds_compensate)

lemma holds_raise_first: "holds I (slift (raise_first cs)) any"
  by (rule holds_slift) simp

lemma attach_media_sound:
  assumes "(case ex of Some a \<Rightarrow> if b a then Inl e else Inr r | None \<Rightarrow> Inr (add_artifact r a')) = Inr r'"
    and "sound_run r" and "run_status r = AwaitingGreenlight"
  shows "sound_run r' \<and> run_status r' = AwaitingGreenlight"
  using assms add_artifact_sound [of r a'] by (auto split: option.splits if_splits)

lemma holds_attach_media: "holds (under db0) (attach_publication_media env kr t q) any"
proof -
  have save: "holds (under db0) (sbind (slift (case ex of Some a \<Rightarrow> if b a then Inl e else Inr r | None \<Rightarrow> Inr (add_artifact r a')))
        (\<lambda>r'. sthen (slift (check_audit_write (w r'))) (scatch (sthen (store_save env t r' AwaitingGreenlight (w r')) (sret (r', p)))
            (\<lambda>e. case e of
               AuditEventConflictError _ \<Rightarrow> sbind (command_replay env t ev op fp) (\<lambda>found. case found of
                 None \<Rightarrow> slift (Inl e) | Some x \<Rightarrow> sret (x, True))
             | _ \<Rightarrow> compensate_media env t v e)))) any"
    if "sound_run r" "run_status r = AwaitingGreenlight" for ex b e r a' w p ev op fp v
    by (rule holds_sbind [OF holds_slift [where Q = "\<lambda>r'. sound_run r' \<and> run_status r' = AwaitingGreenlight"]],
        rule attach_media_sound [OF _ that], assumption)
      (auto intro!: holds_sthen holds_slift holds_media_handler holds_store_save_same holds_sret)
  have body: "holds (under db0) (sthen (slift (raise_first [(run_status r \<noteq> AwaitingGreenlight \<or> c, e1), x])) m) any"
    if "run_status r = AwaitingGreenlight \<Longrightarrow> holds (under db0) m any"
    for r c e1 x and m :: "(service, run \<times> bool) step"
    using that by (auto simp: holds_def sthen_def sbind_def slift_def split: sum.splits)
  show ?thesis
    unfolding attach_publication_media_def
    apply (rule holds_if, rule holds_slift, simp, rule holds_if, rule holds_slift, simp)
    apply (unfold Let_def)
    apply (rule holds_replay_first_any, rule holds_sbind [OF holds_store_get [where Q = "\<lambda>r. sound_run r \<and> run_id r = mq_run_id q"]], simp)
    apply (elim conjE, rule body)
    apply (rule holds_sbind [OF holds_slift [where Q = any]], simp)
    apply (rule holds_sbind [OF holds_slift [where Q = any]], simp)
    apply (rename_tac kt, case_tac kt, simp only: prod.case)
    apply (rule holds_sthen [OF holds_raise_first])
    apply (rule holds_sbind [OF holds_reserve_media])
    apply (rule holds_sbind [OF holds_slift [where Q = any]], simp)
    apply (rule holds_sthen [OF holds_raise_first])
    apply (rule save)
    apply simp_all
    done
qed

lemma holds_attach_model: "holds (under db0) (attach_model_effect_result env p rq e act) any"
proof -
  have body: "holds (under db0) (sthen (slift (raise_first [(run_status r \<noteq> AwaitingGreenlight, e1)])) m) any"
    if "run_status r = AwaitingGreenlight \<Longrightarrow> holds (under db0) m any" for r e1 and m :: "(service, run) step"
    using that by (auto simp: holds_def sthen_def sbind_def slift_def)
  have old: "holds (under db0) (case a of x \<Rightarrow> if b x then slift (Inl e1) else sbind (from_db f) (\<lambda>found.
       sthen (if found = None then store_append env t w else sret ()) (sret r))) any"
    for a :: artifact and b e1 and f :: "run_db \<Rightarrow> audit_row option res" and t w and r :: run
    by (auto intro!: holds_if holds_slift holds_sbind [OF holds_from_db [where Q = any]] holds_sthen holds_store_append holds_sret)
  have new: "holds (under db0) (sbind (slift x) (\<lambda>src. sthen (store_save env t (attach_completion r (f src)) AwaitingGreenlight w)
        (sret (attach_completion r (f src))))) any"
    if "sound_run r" "run_status r = AwaitingGreenlight" "find (\<lambda>a. artifact_id a = completion_id e) (artifacts r) = None"
      "\<And>y. artifact_id (f y) = completion_id e"
    for r and x :: "artifact res" and f t w
  proof -
    have s: "sound_run (attach_completion r (f y))" "run_status (attach_completion r (f y)) = AwaitingGreenlight" for y
      using attach_completion_sound [of r "f y"] that by auto
    show ?thesis
      by (rule holds_sbind [OF holds_slift [where Q = any]], simp)
        (intro holds_sthen holds_store_save_same s holds_sret, simp)
  qed
  show ?thesis unfolding attach_model_effect_result_def
    apply (rule holds_sbind [OF holds_slift [where Q = any]], simp)
    apply (rule holds_sbind [OF holds_store_get [where Q = "\<lambda>r. sound_run r \<and> run_id r = mer_run_id e"]], simp)
    apply (elim conjE, rule body)
    apply (rule holds_option)
    apply (unfold Let_def)
    apply (rule new)
    apply simp_all
    apply (auto intro!: holds_slift holds_sbind [OF holds_from_db [where Q = any]] holds_sthen holds_store_append holds_sret)
    done
qed

lemma session_governed:
  "create_session at_time db t fp ttl rq ac sub ro k cr seed s = Inr (db', i) \<Longrightarrow> governed db db'"
  "rotate_session_csrf db sid csrf clk = Inr (db', i) \<Longrightarrow> governed db db'"
  "revoke_session at_time db t sid rq ac rv s = Inr db' \<Longrightarrow> governed db db'"
  by (frule governed.other [OF db_step.session_created], auto simp: create_session_Inr Let_def)
    (frule governed.other [OF db_step.csrf_rotated], auto simp: rotate_Inr,
     frule governed.other [OF db_step.session_revoked], auto simp: revoke_session_Inr)

lemma holds_sessions:
  "holds (under db0) (create_browser_session env p ttl rq created seed) any"
  "holds (under db0) (revoke_browser_session env p rq revoked) any"
  "holds (under db0) (resume_browser_session sid csrf clk) any"
proof -
  show "holds (under db0) (create_browser_session env p ttl rq created seed) any"
    unfolding create_browser_session_def holds_def
    by (auto split: sum.splits prod.splits dest: session_governed intro: under_write)
  show "holds (under db0) (resume_browser_session sid csrf clk) any"
    unfolding resume_browser_session_def holds_def
    by (auto split: sum.splits prod.splits dest: session_governed intro: under_write)
  show "holds (under db0) (revoke_browser_session env p rq revoked) any"
    unfolding revoke_browser_session_def by (rule holds_on_db) (rule session_governed)
qed

lemma holds_recorded:
  "holds (under db0) (record_publication_event env p rq act intent pl) any"
  "holds (under db0) (record_social_event env p rq act channel pl) any"
  "holds (under db0) (record_security_denial env p rq reason permission) any"
  unfolding record_publication_event_def record_social_event_def record_security_denial_def Let_def
  by (auto intro!: holds_sbind [OF holds_from_db [where Q = any]] holds_store_append holds_slift split: option.splits)

section \<open>Histories of commands\<close>

text \<open>One command of the service, returning or raising, or a step of one of its other stores.\<close>

inductive served :: "service \<Rightarrow> service \<Rightarrow> bool" where
  start: "list_all text_claim (evidence_claims q) \<Longrightarrow> served s (fst (svc_start env t q rq ac sub key asynchronous s))"
| decide: "served s (fst (svc_decide env t rid reviewer note rq ac sub key d s))"
| revoke: "served s (fst (svc_revoke_greenlight env t rid reviewer reason rq ac sub key s))"
| work: "served s (fst (execute_one_queued_run env worker s))"
| media: "served s (fst (attach_publication_media env kr t q s))"
| model: "served s (fst (attach_model_effect_result env p rq e act s))"
| publication: "served s (fst (record_publication_event env p rq act intent pl s))"
| social: "served s (fst (record_social_event env p rq act channel pl s))"
| denial: "served s (fst (record_security_denial env p rq reason permission s))"
| session: "served s (fst (create_browser_session env p ttl rq created seed s))"
| logout: "served s (fst (revoke_browser_session env p rq revoked s))"
| resume: "served s (fst (resume_browser_session sid csrf clk s))"
| stores: "sv_db s' = sv_db s \<Longrightarrow> served s s'"

lemma served_under: "served s s' \<Longrightarrow> under db0 s \<Longrightarrow> under db0 s'"
proof (induction rule: served.induct)
  case (start q s env t rq ac sub key asynchronous)
  then show ?case using holds_svc_start [of q db0 env t rq ac sub key asynchronous] by (simp add: holds_def)
next
  case (stores s' s)
  then show ?case by (simp add: under_def)
qed (use holds_true [OF holds_svc_decide] holds_true [OF holds_svc_revoke] holds_execute_one holds_attach_media holds_attach_model holds_recorded holds_sessions
    in \<open>simp_all add: holds_def\<close>)

lemma served_governed:
  assumes "served\<^sup>*\<^sup>* s s'" and "service_db_ok (sv_db s)"
  shows "governed\<^sup>*\<^sup>* (sv_db s) (sv_db s') \<and> service_db_ok (sv_db s')"
proof -
  have "under (sv_db s) s'" using assms(1)
    by (induction rule: rtranclp_induct) (auto simp: under_def assms(2) dest: served_under [of _ _ "sv_db s"])
  then show ?thesis by (simp add: under_def)
qed

end
