(* ===== verification/ServiceReceipts.thy ===== *)
theory ServiceReceipts
  imports ServiceSteps
begin

text \<open>
  What a command that returned leaves behind: its receipt in the audit chain, and its run in the store.
\<close>

section \<open>Results of steps\<close>

text \<open>What a step that returned leaves behind: its value and the state.\<close>

definition yields :: "('s \<Rightarrow> bool) \<Rightarrow> ('s, 'a) step \<Rightarrow> ('a \<Rightarrow> 's \<Rightarrow> bool) \<Rightarrow> bool" where
  "yields I m Q \<longleftrightarrow> (\<forall>s s' v. I s \<longrightarrow> m s = (s', Inr v) \<longrightarrow> Q v s')"

lemma yields_sbind:
  assumes "holds I m P" and "\<And>v. P v \<Longrightarrow> yields I (f v) Q"
  shows "yields I (sbind m f) Q"
  unfolding yields_def
proof (intro allI impI)
  fix s s' v assume "I s" and r: "sbind m f s = (s', Inr v)"
  then have a: "I (fst (m s))" "\<And>v. snd (m s) = Inr v \<Longrightarrow> P v" using assms(1) by (auto simp: holds_def)
  show "Q v s'"
  proof (cases "m s")
    case (Pair s1 x)
    then show ?thesis using a r assms(2) by (cases x) (auto simp: sbind_def yields_def)
  qed
qed

lemma yields_sthen: "holds I m (\<lambda>_. True) \<Longrightarrow> yields I n Q \<Longrightarrow> yields I (sthen m n) Q"
  unfolding sthen_def by (rule yields_sbind)

lemma yields_scatch:
  assumes "yields I m Q" and "holds I m (\<lambda>_. True)" and "\<And>e. yields I (h e) Q"
  shows "yields I (scatch m h) Q"
  unfolding yields_def
proof (intro allI impI)
  fix s s' v assume i: "I s" and r: "scatch m h s = (s', Inr v)"
  then have a: "I (fst (m s))" using assms(2) by (auto simp: holds_def)
  show "Q v s'"
  proof (cases "m s")
    case (Pair s1 x)
    then show ?thesis using a i r assms(1,3) by (cases x) (auto simp: scatch_def yields_def)
  qed
qed

lemma yields_slift_Inl: "yields I (slift (Inl e)) Q"
  by (simp add: yields_def slift_def)

lemma yields_sret: "(\<And>s. I s \<Longrightarrow> Q v s) \<Longrightarrow> yields I (sret v) Q"
  by (simp add: yields_def sret_def)

lemma yields_if: "(b \<Longrightarrow> yields I m Q) \<Longrightarrow> (\<not> b \<Longrightarrow> yields I n Q) \<Longrightarrow> yields I (if b then m else n) Q"
  by simp

lemma yields_option:
  "(x = None \<Longrightarrow> yields I m Q) \<Longrightarrow> (\<And>v. x = Some v \<Longrightarrow> yields I (f v) Q) \<Longrightarrow> yields I (case x of None \<Rightarrow> m | Some v \<Rightarrow> f v) Q"
  by (cases x) simp_all

section \<open>Receipts\<close>

definition receipted :: "run_db \<Rightarrow> string \<Rightarrow> string \<Rightarrow> string \<Rightarrow> string \<Rightarrow> run \<Rightarrow> bool" where
  "receipted db t ev op fp r \<longleftrightarrow> (\<exists>e \<in> set (led_events (db_ledger db)). row_tenant e = t \<and> row_event_id e = ev
     \<and> jget ''idempotency'' (ac_payload (ar_content e)) = Some (to_primitive (command_payload op fp r)))"

lemma sql_find_event:
  assumes "ledger_inv l" and "e \<in> set (led_events l)" and "row_tenant e = t" and "row_event_id e = ev"
  shows "sql_find (\<lambda>r. row_tenant r = t \<and> row_event_id r = ev) (led_events l) = Some e"
proof -
  have d: "distinct (map row_event_id (led_events l))" using assms(1) by (simp add: ledger_inv_def)
  obtain x where x: "sql_find (\<lambda>r. row_tenant r = t \<and> row_event_id r = ev) (led_events l) = Some x"
    using assms(2-4) by (cases "sql_find (\<lambda>r. row_tenant r = t \<and> row_event_id r = ev) (led_events l)") (auto simp: sql_find_def find_None_iff)
  then have "x \<in> set (led_events l)" "row_event_id x = ev" by (auto dest: sql_find_Some)
  then have "x = e" using d assms(2,4) by (auto simp: distinct_map inj_on_def)
  then show ?thesis using x by simp
qed

lemma receipt_read:
  assumes "receipted (sv_db s) t ev op fp r" and "service_db_ok (sv_db s)" and "sound_run r"
    and "require_non_empty t ''tenant_id'' = Inr ()" and "require_non_empty ev ''event_id'' = Inr ()"
  shows "command_replay env t ev op fp s = (s, Inr (Some (plain_run r)))"
    and "op' \<noteq> op \<or> fp' \<noteq> fp \<Longrightarrow> command_replay env t ev op' fp' s
      = (s, Inl (IdempotencyConflictError ''idempotency key conflicts with a prior request''))"
proof -
  obtain e where e: "e \<in> set (led_events (db_ledger (sv_db s)))" "row_tenant e = t" "row_event_id e = ev"
      "jget ''idempotency'' (ac_payload (ar_content e)) = Some (to_primitive (command_payload op fp r))"
    using assms(1) by (auto simp: receipted_def)
  have f: "audit_event (db_ledger (sv_db s)) t ev = Inr (Some e)"
    using sql_find_event [OF _ e(1-3)] assms(2,4,5) by (simp add: audit_event_def service_db_ok_def db_inv_def)
  obtain fs where fs: "execution_run_to_document r = JObj fs" by (simp add: execution_run_to_document_def to_primitive.simps(2))
  have i: "to_primitive (execution_run_to_document r) = execution_run_to_document r"
    unfolding execution_run_to_document_def by (rule to_primitive_idem)
  let ?d = "prim_object [(''operation'', JStr op), (''request_fingerprint'', JStr fp), (''response_document'', execution_run_to_document r)]"
  have p: "to_primitive (command_payload op fp r) = JObj ?d" by (simp add: command_payload_def prim_object_JObj)
  have d: "get_or ?d ''operation'' JNull = JStr op" "get_or ?d ''request_fingerprint'' JNull = JStr fp"
    "get_or ?d ''response_document'' JNull = JObj fs"
    unfolding get_or_def jget_prim_object using i fs by (simp_all add: jget_def del: to_primitive.simps(2))
  have r: "execution_run_from_document iof (JObj fs) = Inr (plain_run r)" for iof
    using reads_run [OF sound_storable [OF assms(3)]] fs by simp
  have g: "get_or (ac_payload (ar_content e)) ''idempotency'' JNull = JObj ?d" using e(4) p by (simp add: get_or_def)
  show "command_replay env t ev op fp s = (s, Inr (Some (plain_run r)))"
    by (simp add: command_replay_def from_db_def f replay_of_def g d r)
  show "op' \<noteq> op \<or> fp' \<noteq> fp \<Longrightarrow> command_replay env t ev op' fp' s
      = (s, Inl (IdempotencyConflictError ''idempotency key conflicts with a prior request''))"
    by (auto simp: command_replay_def from_db_def f replay_of_def g d)
qed

text \<open>Receipts stay.\<close>

lemma governed_receipted: "governed db db' \<Longrightarrow> service_db_ok db \<Longrightarrow> receipted db t ev op fp r \<Longrightarrow> receipted db' t ev op fp r"
proof -
  assume a: "governed db db'" "service_db_ok db" "receipted db t ev op fp r"
  then obtain at_time where "db_step at_time db db'" using governed_step by blast
  then have "set (led_events (db_ledger db)) \<subseteq> set (led_events (db_ledger db'))"
    using events_grow a(2) by (auto simp: service_db_ok_def db_inv_def)
  then show ?thesis using a(3) by (auto simp: receipted_def)
qed

lemma receipts_stay: "governed\<^sup>*\<^sup>* db db' \<Longrightarrow> service_db_ok db \<Longrightarrow> receipted db t ev op fp r \<Longrightarrow> receipted db' t ev op fp r"
  by (induction rule: rtranclp_induct) (auto dest: governed_steps_ok governed_receipted)

section \<open>The life of a stored run\<close>

definition run_at :: "run_db \<Rightarrow> string \<Rightarrow> string \<Rightarrow> run_status set \<Rightarrow> bool" where
  "run_at db t rid S \<longleftrightarrow> (\<exists>x \<in> set (db_runs db). run_key t rid x \<and> (\<exists>a \<in> S. rr_status x = run_status_value a))"

lemma run_status_value_eq [simp]: "run_status_value a = run_status_value b \<longleftrightarrow> a = b"
  by (cases a; cases b) simp_all

lemma governed_run_at:
  assumes "governed db db'" and "run_at db t rid S" and "\<And>a b. a \<in> S \<Longrightarrow> lifecycle a b \<Longrightarrow> b \<in> S"
  shows "run_at db' t rid S"
  using assms(1,2)
proof (induction rule: governed.induct)
  case (created db t' r w ts s db')
  then show ?case by (auto simp: run_create_Inr run_at_def)
next
  case (saved db t' r ow e ts s db')
  obtain x a where x: "x \<in> set (db_runs db)" "run_key t rid x" "a \<in> S" "rr_status x = run_status_value a"
    using saved(4) by (auto simp: run_at_def)
  let ?m = "save_matches t' (run_id r) (Some (run_status_value e))"
  have "(if ?m x then saved_row r ts x else x) \<in> set (db_runs db')" using saved(1) x(1) by (auto simp: run_save_Inr sql_update_def)
  moreover have "run_key t rid (if ?m x then saved_row r ts x else x)" using x(2) by (simp add: saved_row_def run_key_def)
  moreover have "\<exists>b \<in> S. rr_status (if ?m x then saved_row r ts x else x) = run_status_value b"
    using x(3,4) saved(3) assms(3) by (auto simp: saved_row_def save_matches_def)
  ultimately show ?case unfolding run_at_def by blast
qed (simp add: run_at_def)

lemma runs_stay_at:
  assumes "governed\<^sup>*\<^sup>* db db'" and "run_at db t rid S" and "\<And>a b. a \<in> S \<Longrightarrow> lifecycle a b \<Longrightarrow> b \<in> S"
  shows "run_at db' t rid S"
  using assms(1,2) by (induction rule: rtranclp_induct) (auto intro: governed_run_at assms(3))

lemma settled_closed: "a \<in> {Completed, RunRejected, Revoked} \<Longrightarrow> lifecycle a b \<Longrightarrow> b \<in> {Completed, RunRejected, Revoked}"
  and revoked_closed: "a \<in> {Revoked} \<Longrightarrow> lifecycle a b \<Longrightarrow> b \<in> {Revoked}"
  by (auto simp: lifecycle_def)

lemma settled_stays: "governed\<^sup>*\<^sup>* db db' \<Longrightarrow> run_at db t rid {Completed, RunRejected, Revoked} \<Longrightarrow> run_at db' t rid {Completed, RunRejected, Revoked}"
  by (erule runs_stay_at, assumption) (rule settled_closed)

lemma revoked_stays: "governed\<^sup>*\<^sup>* db db' \<Longrightarrow> run_at db t rid {Revoked} \<Longrightarrow> run_at db' t rid {Revoked}"
  by (erule runs_stay_at, assumption) (rule revoked_closed)

lemma run_at_get:
  assumes "run_at db t rid S" and "service_db_ok db" and "run_get iof db t rid = Inr r"
  shows "run_status r \<in> S"
proof -
  obtain x a where x: "x \<in> set (db_runs db)" "run_key t rid x" "a \<in> S" "rr_status x = run_status_value a"
    using assms(1) by (auto simp: run_at_def)
  obtain y where y: "sql_find (run_key t rid) (db_runs db) = Some y" "execution_run_from_document iof (rr_document y) = Inr r"
    using assms(3) by (auto simp: run_get_def split: option.splits)
  have yr: "y \<in> set (db_runs db)" "run_key t rid y" using y(1) by (auto dest: sql_find_Some)
  have "distinct (map (\<lambda>x. (rr_tenant_id x, rr_run_id x)) (db_runs db))" using assms(2) by (simp add: service_db_ok_def db_inv_def)
  then have "x = y" using x(1,2) yr by (auto simp: distinct_map inj_on_def run_key_def)
  moreover obtain r0 where "sound_run r0" "rr_document y = execution_run_to_document r0" "rr_status y = run_status_value (run_status r0)"
    using assms(2) yr(1) by (auto simp: service_db_ok_def list_all_iff stored_run_ok_def)
  moreover then have "r = plain_run r0" using y(2) reads_run [OF sound_storable] by auto
  ultimately show ?thesis using x(3,4) by simp
qed

section \<open>Commands and their receipts\<close>

datatype svc_command =
  StartRun brief bool
| DecideRun string string string decision
| RevokeRun string string string

fun issue :: "service_env \<Rightarrow> string \<Rightarrow> string \<Rightarrow> string \<Rightarrow> string \<Rightarrow> string \<Rightarrow> svc_command \<Rightarrow> (service, run \<times> bool) step" where
  "issue env t rq ac sub key (StartRun q asynchronous) = svc_start env t q rq ac sub key asynchronous"
| "issue env t rq ac sub key (DecideRun rid reviewer note d) = svc_decide env t rid reviewer note rq ac sub key d"
| "issue env t rq ac sub key (RevokeRun rid reviewer reason) = svc_revoke_greenlight env t rid reviewer reason rq ac sub key"

fun operation_of :: "svc_command \<Rightarrow> string" where
  "operation_of (StartRun q asynchronous) = ''run.create''"
| "operation_of (DecideRun rid reviewer note d) = ''greenlight.'' @ decision_value d"
| "operation_of (RevokeRun rid reviewer reason) = ''greenlight.revoked''"

fun fingerprint_of :: "string \<Rightarrow> svc_command \<Rightarrow> string" where
  "fingerprint_of sub (StartRun q asynchronous) = command_fingerprint ''run.create'' sub (stable_id ''run'' [brief_json q] 16) (brief_json q)"
| "fingerprint_of sub (DecideRun rid reviewer note d) = command_fingerprint (''greenlight.'' @ decision_value d) sub rid
     (JObj [(''reviewer'', JStr reviewer), (''note'', JStr note)])"
| "fingerprint_of sub (RevokeRun rid reviewer reason) = command_fingerprint ''greenlight.revoked'' sub rid
     (JObj [(''reviewer'', JStr reviewer), (''reason'', JStr reason)])"

text \<open>A brief of the API: valid, its claims mappings of texts.\<close>

fun well_formed_command :: "svc_command \<Rightarrow> bool" where
  "well_formed_command (StartRun q asynchronous) \<longleftrightarrow> check_brief q = Inr () \<and> list_all text_claim (evidence_claims q)"
| "well_formed_command _ \<longleftrightarrow> True"

lemma issue_served: "well_formed_command c \<Longrightarrow> served s (fst (issue env t rq ac sub key c s))"
  by (cases c) (auto intro: served.intros)

text \<open>A fresh result was written with its receipt, and the run is stored with its status.\<close>

definition fresh_result :: "string \<Rightarrow> string \<Rightarrow> string \<Rightarrow> string \<Rightarrow> run \<times> bool \<Rightarrow> service \<Rightarrow> bool" where
  "fresh_result t ev op fp v s \<longleftrightarrow> (case v of (r, replayed) \<Rightarrow> replayed \<or>
     (receipted (sv_db s) t ev op fp r \<and> sound_run r \<and> run_at (sv_db s) t (run_id r) {run_status r}))"

lemma appended_receipt:
  assumes "audit_of db t (Some w) st db'" and "ledger_inv (db_ledger db)" and "aw_event_id w = ev" and "ev \<noteq> []"
    and "jget ''idempotency'' (aw_payload w) = Some (command_payload op fp r)"
  shows "receipted db' t ev op fp r"
proof -
  have "appended_row (db_ledger db) t w (st_clock st) (st_uuid st) \<in> set (led_events (db_ledger db'))"
    using audit_of_events [OF assms(1,2)] by simp
  moreover have "jget ''idempotency'' (ac_payload (appended_content t w (st_clock st) (st_uuid st))) = Some (to_primitive (command_payload op fp r))"
    unfolding appended_content_def canonical_content_def using jget_prim_object [of "''idempotency''" "aw_payload w"] assms(5)
    by (simp add: prim_object_def)
  ultimately show ?thesis using assms(3,4) unfolding receipted_def by (intro bexI) auto
qed

lemma yields_store_write:
  assumes "sound_run r" and "aw_event_id w = ev" and "ev \<noteq> []"
    and "jget ''idempotency'' (aw_payload w) = Some (command_payload op fp r)"
  shows "yields (under db0) (sthen (store_create env t r w) (sret (r, False))) (fresh_result t ev op fp)"
    and "yields (under db0) (sthen (store_save env t r e w) (sret (r, False))) (fresh_result t ev op fp)"
proof -
  have c: "fresh_result t ev op fp (r, False) (s\<lparr>sv_db := db'\<rparr>)"
    if "run_create (sv_db s) t r (Some w) c st = Inr db'" "under db0 s" for s db' c st
    using that assms appended_receipt [of "sv_db s" t w st db'] unfolding fresh_result_def
    by (auto simp: run_create_Inr under_def service_db_ok_def db_inv_def run_at_def created_row_def run_key_def)
  show "yields (under db0) (sthen (store_create env t r w) (sret (r, False))) (fresh_result t ev op fp)"
    unfolding yields_def using c
    by (auto simp: store_create_def on_db_def sthen_def sbind_def slift_def sret_def split: sum.splits)
  have v: "fresh_result t ev op fp (r, False) (s\<lparr>sv_db := db'\<rparr>)"
    if "run_save (sv_db s) t r (Some w) ex c st = Inr db'" "under db0 s" for s db' ex c st
  proof -
    have i: "sql_count (save_matches t (run_id r) ex) (db_runs (sv_db s)) = 1"
      "db_runs db' = sql_update (save_matches t (run_id r) ex) (saved_row r c) (db_runs (sv_db s))"
      "audit_of (sv_db s) t (Some w) st db'" using that(1) by (simp_all add: run_save_Inr)
    have "0 < sql_count (save_matches t (run_id r) ex) (db_runs (sv_db s))" using i(1) by simp
    then obtain x where x: "x \<in> set (db_runs (sv_db s))" "save_matches t (run_id r) ex x" unfolding sql_count_pos by blast
    have "saved_row r c x \<in> set (db_runs db')" using x i(2) by (auto simp: sql_update_def)
    moreover have "run_key t (run_id r) (saved_row r c x) \<and> rr_status (saved_row r c x) = run_status_value (run_status r)"
      using x(2) by (simp add: saved_row_def save_matches_def run_key_def)
    ultimately have "run_at db' t (run_id r) {run_status r}" by (auto simp: run_at_def)
    then show ?thesis using that(2) assms appended_receipt [OF i(3)] unfolding fresh_result_def
      by (auto simp: under_def service_db_ok_def db_inv_def)
  qed
  show "yields (under db0) (sthen (store_save env t r e w) (sret (r, False))) (fresh_result t ev op fp)"
    unfolding yields_def using v
    by (auto simp: store_save_def on_db_def sthen_def sbind_def slift_def sret_def split: sum.splits)
qed

lemma fresh_replayed [simp]: "fresh_result t ev op fp (r, True) s"
  by (simp add: fresh_result_def)

lemma yields_replay:
  assumes "yields (under db0) m (fresh_result t ev op fp)"
  shows "yields (under db0) (replay_first env t ev' op' fp' m) (fresh_result t ev op fp)"
    and "holds (under db0) m any \<Longrightarrow> yields (under db0) (or_replay env t ev' op' fp' m) (fresh_result t ev op fp)"
    and "holds (under db0) m any \<Longrightarrow> yields (under db0) (or_greenlight_error msg m) (fresh_result t ev op fp)"
proof -
  show "yields (under db0) (replay_first env t ev' op' fp' m) (fresh_result t ev op fp)"
    unfolding replay_first_def
    by (rule yields_sbind [OF holds_command_replay [where Q = any]]) (auto intro!: yields_option assms yields_sret)
  assume h: "holds (under db0) m any"
  show "yields (under db0) (or_replay env t ev' op' fp' m) (fresh_result t ev op fp)"
    unfolding or_replay_def
    by (rule yields_scatch [OF assms h])
      (auto split: exn.splits intro!: yields_slift_Inl yields_sbind [OF holds_command_replay [where Q = any]] yields_option yields_sret)
  show "yields (under db0) (or_greenlight_error msg m) (fresh_result t ev op fp)"
    unfolding or_greenlight_error_def
    by (rule yields_scatch [OF assms h]) (auto split: exn.splits intro!: yields_slift_Inl)
qed

lemma command_event_id_nonempty [simp]: "command_event_id t op key \<noteq> []"
  by (simp add: command_event_id_def stable_id_def)

abbreviation fresh_of :: "string \<Rightarrow> string \<Rightarrow> string \<Rightarrow> svc_command \<Rightarrow> run \<times> bool \<Rightarrow> service \<Rightarrow> bool" where
  "fresh_of t sub key c \<equiv> fresh_result t (command_event_id t (operation_of c) key) (operation_of c) (fingerprint_of sub c)"

lemma start_payload_receipt: "jget ''idempotency'' (start_payload r b op fp) = Some (command_payload op fp r)"
  by (simp add: start_payload_def jget_def)

lemma decision_payload_receipt: "jget ''idempotency'' (decision_payload g op fp r) = Some (command_payload op fp r)"
  by (simp add: decision_payload_def jget_def)

lemma run_event_fields [simp]: "aw_event_id (run_event rq act rid ac pl ev) = ev" "aw_payload (run_event rq act rid ac pl ev) = pl"
  by (simp_all add: run_event_def)

lemma yields_start:
  assumes "check_brief q = Inr ()" and "list_all text_claim (evidence_claims q)"
  shows "yields (under db0) (svc_start env t q rq ac sub key asynchronous) (fresh_of t sub key (StartRun q asynchronous))"
proof -
  let ?ev = "command_event_id t ''run.create'' key" and ?op = "''run.create''"
  let ?fp = "fingerprint_of sub (StartRun q asynchronous)"
  have new: "holds (under db0) (in_runtime t (if asynchronous then create_run (se_orch env) q True else start_step (se_orch env) q)) sound_run"
    using created_sound [of "se_orch env" q True] start_sound [of "se_orch env" q] assms
    by (intro holds_in_runtime) (auto split: if_splits)
  have old: "yields (under db0) (sbind (store_get env t rid) (\<lambda>x. or_replay env t ev op fp (sthen (store_append env t (w x)) (sret (x, True)))))
      (fresh_result t ?ev ?op ?fp)" for rid ev op fp w
    by (rule yields_sbind [OF holds_store_get [where Q = any]], simp, rule yields_replay(2))
      (auto intro!: yields_sthen holds_store_append yields_sret holds_sthen holds_sret)
  have fresh: "yields (under db0) (sbind (in_runtime t (if asynchronous then create_run (se_orch env) q True else start_step (se_orch env) q))
      (\<lambda>r. or_replay env t ev op fp (sthen (store_create env t r (run_event rq act (run_id r) ac (start_payload r False ?op ?fp) ?ev))
        (sret (r, False))))) (fresh_result t ?ev ?op ?fp)" for ev op fp act
    by (rule yields_sbind [OF new], rule yields_replay(2))
      (intro yields_store_write(1) holds_sthen holds_store_create holds_sret; simp add: start_payload_receipt)+
  have branch: "yields (under db0) (sbind (sget f) (\<lambda>b. if b then m else n)) Q"
    if "yields (under db0) m Q" "yields (under db0) n Q" for f :: "service \<Rightarrow> bool" and m n :: "(service, run \<times> bool) step" and Q
    by (rule yields_sbind [OF holds_sget [where Q = any]]) (use that in auto)
  have "yields (under db0) (svc_start env t q rq ac sub key asynchronous) (fresh_result t ?ev ?op ?fp)"
    unfolding svc_start_def Let_def using fresh
    by (intro yields_sthen holds_slift yields_replay(1) branch old) simp_all
  then show ?thesis by simp
qed

lemma yields_decide:
  "yields (under db0) (svc_decide env t rid reviewer note rq ac sub key d) (fresh_of t sub key (DecideRun rid reviewer note d))"
proof -
  let ?op = "''greenlight.'' @ decision_value d" let ?ev = "command_event_id t ?op key"
  let ?fp = "fingerprint_of sub (DecideRun rid reviewer note d)"
  have block: "yields (under db0)
     (sthen (if d = Approved then (\<lambda>s. (s, model_effects_ready (sv_effects s) t current)) else sret ())
      (sbind (in_runtime t (restore_run current)) (\<lambda>_.
       sbind (in_runtime t (if d = Approved then approve (se_orch env) rid sub note
           else reject (se_orch env) rid sub note)) (\<lambda>r.
         case run_greenlight r of
           None \<Rightarrow> slift (Inl (GreenlightError ''Greenlight decision was not recorded''))
         | Some g \<Rightarrow> or_greenlight_error ''Greenlight was already decided by another request''
             (or_replay env t ?ev ?op ?fp (sthen (store_save env t r AwaitingGreenlight
                 (run_event rq ?op (run_id r) ac (decision_payload g ?op ?fp r) ?ev)) (sret (r, False))))))))
     (fresh_result t ?ev ?op ?fp)"
    if "sound_run current" "run_id current = rid" for current
    unfolding sthen_sbind_assoc
    by (intro yields_sthen holds_if holds_effects_ready holds_sret yields_sbind [OF holds_restored_decide [OF that]] yields_option
        yields_slift_Inl yields_replay(2,3) yields_store_write(2) holds_or_replay_any holds_sthen holds_store_save)
      (auto simp: lifecycle_def decision_payload_receipt)
  have "yields (under db0) (svc_decide env t rid reviewer note rq ac sub key d) (fresh_result t ?ev ?op ?fp)"
    unfolding svc_decide_def Let_def fingerprint_of.simps
    by (rule yields_replay(1), rule yields_sbind [OF holds_runtime_for],
        rule yields_sbind [OF holds_store_get [where Q = "\<lambda>r. sound_run r \<and> run_id r = rid"]], simp, elim conjE,
        rule block [unfolded fingerprint_of.simps])
  then show ?thesis by simp
qed

lemma yields_revoke:
  "yields (under db0) (svc_revoke_greenlight env t rid reviewer reason rq ac sub key) (fresh_of t sub key (RevokeRun rid reviewer reason))"
proof -
  let ?op = "''greenlight.revoked''" let ?ev = "command_event_id t ?op key"
  let ?fp = "fingerprint_of sub (RevokeRun rid reviewer reason)"
  have block: "holds (under db0) (sbind (in_runtime t (restore_run r)) (\<lambda>_. in_runtime t (revoke (se_orch env) rid sub reason)))
      (\<lambda>r'. sound_run r' \<and> run_id r' = run_id r \<and> run_status r' = Revoked)" if "sound_run r" "run_id r = rid" for r
    unfolding perform_commands by (rule holds_restored [OF that(1)]) (use that(2) revoked_status in auto)
  have main: "yields (under db0)
      (sbind (in_runtime t (restore_run current)) (\<lambda>_.
       sbind (in_runtime t (revoke (se_orch env) rid sub reason)) (\<lambda>r.
         case run_greenlight r of
           None \<Rightarrow> slift (Inl (GreenlightError ''Greenlight revocation was not recorded''))
         | Some g \<Rightarrow> or_greenlight_error ''Greenlight is not active''
             (or_replay env t ?ev ?op ?fp (sthen (store_save env t r Completed (run_event rq ?op (run_id r) ac
                   [(''greenlight_id'', JStr (greenlight_id g)), (''fencing_token'', JInt (gl_fencing_token g)),
                    (''reviewer'', JStr (gl_revoked_by g)), (''reason'', JStr (gl_revocation_reason g)),
                    (''idempotency'', command_payload ?op ?fp r)] ?ev)) (sret (r, False)))))))
     (fresh_result t ?ev ?op ?fp)"
    if "sound_run current" "run_id current = rid" for current
    unfolding sthen_sbind_assoc
    by (intro yields_sbind [OF block [OF that]] yields_option yields_slift_Inl yields_replay(2,3) yields_store_write(2)
        holds_or_replay_any holds_sthen holds_store_save holds_sret)
      (auto simp: lifecycle_def jget_def)
  have "yields (under db0) (svc_revoke_greenlight env t rid reviewer reason rq ac sub key) (fresh_result t ?ev ?op ?fp)"
    unfolding svc_revoke_greenlight_def Let_def fingerprint_of.simps
    by (rule yields_replay(1), rule yields_sbind [OF holds_runtime_for],
        rule yields_sbind [OF holds_store_get [where Q = "\<lambda>r. sound_run r \<and> run_id r = rid"]], simp, elim conjE,
        rule main [unfolded fingerprint_of.simps])
  then show ?thesis by simp
qed

lemma issue_fresh:
  assumes "issue env t rq ac sub key c s = (s', Inr (r, False))" and "well_formed_command c" and "service_db_ok (sv_db s)"
  shows "fresh_of t sub key c (r, False) s'"
proof -
  have "yields (under (sv_db s)) (issue env t rq ac sub key c) (fresh_of t sub key c)"
    using assms(2) yields_start yields_decide yields_revoke by (cases c) auto
  then show ?thesis using assms(1,3) by (auto simp: yields_def under_def)
qed

text \<open>Every command looks for its receipt first.\<close>

lemma issue_replay:
  assumes "well_formed_command c"
  obtains m where "issue env t rq ac sub key c = replay_first env t (command_event_id t (operation_of c) key) (operation_of c) (fingerprint_of sub c) m"
proof (cases c)
  case (StartRun q asynchronous)
  have unit: "sthen (slift (Inr ())) n = n" for n :: "(service, run \<times> bool) step"
    by (simp add: sthen_def sbind_def slift_def fun_eq_iff)
  show ?thesis by (rule that) (use StartRun assms in \<open>simp add: svc_start_def Let_def unit\<close>)
next
  case (DecideRun rid reviewer msg d)
  then show ?thesis using that by (simp add: svc_decide_def Let_def)
next
  case (RevokeRun rid reviewer reason)
  then show ?thesis using that by (simp add: svc_revoke_greenlight_def Let_def)
qed

lemma issue_ids:
  assumes "issue env t rq ac sub key c s = (s', Inr v)" and "well_formed_command c"
  shows "require_non_empty t ''tenant_id'' = Inr () \<and> require_non_empty (command_event_id t (operation_of c) key) ''event_id'' = Inr ()"
proof -
  obtain m where m: "issue env t rq ac sub key c = replay_first env t (command_event_id t (operation_of c) key) (operation_of c) (fingerprint_of sub c) m"
    by (rule issue_replay [OF assms(2)])
  obtain x where "audit_event (db_ledger (sv_db s)) t (command_event_id t (operation_of c) key) = Inr x"
    using assms(1) unfolding m by (cases "audit_event (db_ledger (sv_db s)) t (command_event_id t (operation_of c) key)")
      (auto simp: replay_first_def command_replay_def from_db_def sbind_def)
  then show ?thesis by (auto simp: audit_event_def rbind_Inr_iff)
qed

end
