(* ===== verification/ServiceLaws.thy ===== *)
theory ServiceLaws
  imports ServiceReceipts
begin

text \<open>
  The properties of \<open>RuntimeService\<close> over histories of commands: the life cycle, idempotent commands, one
  decision per run, no publication after a revocation, and the worker.
\<close>

lemma db_ok_later: "served\<^sup>*\<^sup>* s s' \<Longrightarrow> service_db_ok (sv_db s) \<Longrightarrow> service_db_ok (sv_db s')"
  using served_governed by blast

text \<open>C3: the refinement of the life cycle. Whatever commands run, return or raise, the database changes only
  by new runs with receipts, guarded saves along the life cycle and writes that leave the runs alone, and
  stays a database of sound runs with a valid audit chain.\<close>

theorem service_refines_lifecycle:
  assumes "service_db_ok (sv_db s)" and "served\<^sup>*\<^sup>* s s'"
  shows "governed\<^sup>*\<^sup>* (sv_db s) (sv_db s') \<and> service_db_ok (sv_db s')"
  by (rule served_governed [OF assms(2,1)])

lemma fresh_later:
  assumes "issue env t rq ac sub key c s = (s1, Inr (r, False))" and "well_formed_command c" and "service_db_ok (sv_db s)"
    and "served\<^sup>*\<^sup>* s1 s2"
  shows "receipted (sv_db s2) t (command_event_id t (operation_of c) key) (operation_of c) (fingerprint_of sub c) r"
    and "service_db_ok (sv_db s1)" and "service_db_ok (sv_db s2)" and "governed\<^sup>*\<^sup>* (sv_db s1) (sv_db s2)" and "sound_run r"
    and "run_at (sv_db s1) t (run_id r) {run_status r}"
proof -
  have f: "fresh_of t sub key c (r, False) s1" by (rule issue_fresh [OF assms(1-3)])
  have "served s s1" using issue_served [OF assms(2), of s env t rq ac sub key] assms(1) by simp
  then have ok: "service_db_ok (sv_db s1)" using db_ok_later [of s s1] assms(3) by blast
  have g: "governed\<^sup>*\<^sup>* (sv_db s1) (sv_db s2)" "service_db_ok (sv_db s2)" using served_governed [OF assms(4) ok] by simp_all
  show "receipted (sv_db s2) t (command_event_id t (operation_of c) key) (operation_of c) (fingerprint_of sub c) r"
    using receipts_stay [OF g(1) ok] f by (simp add: fresh_result_def)
  show "service_db_ok (sv_db s1)" "service_db_ok (sv_db s2)" "governed\<^sup>*\<^sup>* (sv_db s1) (sv_db s2)" "sound_run r"
    "run_at (sv_db s1) t (run_id r) {run_status r}"
    using ok g f by (simp_all add: fresh_result_def)
qed

text \<open>C2: commands are idempotent. A command that was executed is answered from its receipt however often and
  however late the same operation is sent again under its key, by whatever request and under whatever clocks,
  and nothing changes: with the run it returned then if subject, resource and content are the same (their
  fingerprints agree), and with a conflict otherwise.\<close>

theorem command_idempotent:
  assumes "service_db_ok (sv_db s)" and "well_formed_command c" and "well_formed_command c'"
    and "issue env t rq ac sub key c s = (s1, Inr (r, False))" and "served\<^sup>*\<^sup>* s1 s2" and "operation_of c' = operation_of c"
  shows "issue env' t rq' ac' sub' key c' s2 = (s2, if fingerprint_of sub' c' = fingerprint_of sub c then Inr (plain_run r, True)
    else Inl (IdempotencyConflictError ''idempotency key conflicts with a prior request''))"
proof -
  note f = fresh_later [OF assms(4,2,1,5)]
  obtain m where m: "issue env' t rq' ac' sub' key c' = replay_first env' t (command_event_id t (operation_of c') key) (operation_of c')
      (fingerprint_of sub' c') m" by (rule issue_replay [OF assms(3)])
  show ?thesis unfolding m assms(6) using receipt_read [OF f(1,3,5)] issue_ids [OF assms(4,2)]
    by (simp add: replay_first_def sbind_def sret_def)
qed

lemma holds_result: "holds (under (sv_db s)) m Q \<Longrightarrow> service_db_ok (sv_db s) \<Longrightarrow> m s = (s', Inr v) \<Longrightarrow> Q v"
  by (auto simp: holds_def under_def)

section \<open>One decision per run\<close>

lemma holds_settled_save:
  assumes "run_at db0 t (run_id r) {Completed, RunRejected, Revoked}" and "service_db_ok db0"
  shows "holds (under db0) (store_save env t r AwaitingGreenlight w) (\<lambda>_. False)"
proof -
  have no: "run_save (sv_db s) t r (Some w) (Some (run_status_value AwaitingGreenlight)) c st \<noteq> Inr db'" if "under db0 s" for s c st db'
  proof
    assume i: "run_save (sv_db s) t r (Some w) (Some (run_status_value AwaitingGreenlight)) c st = Inr db'"
    have ok: "service_db_ok (sv_db s)" using that by (simp add: under_def)
    have "run_at (sv_db s) t (run_id r) {Completed, RunRejected, Revoked}"
      using settled_stays [OF _ assms(1)] that by (simp add: under_def)
    then obtain x a where x: "x \<in> set (db_runs (sv_db s))" "run_key t (run_id r) x" "a \<in> {Completed, RunRejected, Revoked}"
        "rr_status x = run_status_value a" unfolding run_at_def by blast
    have "0 < sql_count (save_matches t (run_id r) (Some (run_status_value AwaitingGreenlight))) (db_runs (sv_db s))"
      using i by (simp add: run_save_Inr)
    then obtain y where y: "y \<in> set (db_runs (sv_db s))" "save_matches t (run_id r) (Some (run_status_value AwaitingGreenlight)) y"
      unfolding sql_count_pos by blast
    have "distinct (map (\<lambda>x. (rr_tenant_id x, rr_run_id x)) (db_runs (sv_db s)))" using ok by (simp add: service_db_ok_def db_inv_def)
    then have "x = y" using x(1,2) y by (auto simp: distinct_map inj_on_def run_key_def save_matches_def)
    then have "run_status_value a = run_status_value AwaitingGreenlight" using x(4) y(2) by (simp add: save_matches_def)
    then show False using x(3) by (simp only: run_status_value_eq) auto
  qed
  have t: "holds (under db0) (store_save env t r AwaitingGreenlight w) any \<Longrightarrow> ?thesis"
    using no by (auto simp: holds_def store_save_def on_db_def sthen_def sbind_def slift_def split: sum.splits)
  have "under db0 s \<Longrightarrow> fst (store_save env t r AwaitingGreenlight w s) = s" for s
    using no by (auto simp: store_save_def on_db_def sthen_def sbind_def slift_def split: sum.splits)
  then have "holds (under db0) (store_save env t r AwaitingGreenlight w) any" by (simp add: holds_def)
  then show ?thesis by (rule t)
qed

lemma holds_false: "holds I m (\<lambda>_. False) \<Longrightarrow> holds I m Q"
  by (simp add: holds_def)

lemma holds_decide_settled:
  assumes "run_at db0 t rid {Completed, RunRejected, Revoked}" and "service_db_ok db0"
  shows "holds (under db0) (svc_decide env t rid reviewer note rq ac sub key d) (replay_or (\<lambda>_. False))"
proof -
  have res: "holds (under db0) (sbind (in_runtime t (restore_run r)) (\<lambda>_. in_runtime t
      (if d = Approved then approve env rid a b else reject env rid a b))) (\<lambda>r'. run_id r' = rid)"
    if "sound_run r" "run_id r = rid" for r env a b
    using holds_restored [OF that(1), of "Approve rid a b" env any db0 t] holds_restored [OF that(1), of "Reject rid a b" env any db0 t] that(2)
    by (auto intro: holds_weaken)
  have block: "holds (under db0)
     (sthen (if d = Approved then (\<lambda>s. (s, model_effects_ready (sv_effects s) t current)) else sret ())
      (sbind (in_runtime t (restore_run current)) (\<lambda>_.
       sbind (in_runtime t (if d = Approved then approve (se_orch env) rid sub note
           else reject (se_orch env) rid sub note)) (\<lambda>r.
         case run_greenlight r of
           None \<Rightarrow> slift (Inl (GreenlightError ''Greenlight decision was not recorded''))
         | Some g \<Rightarrow> or_greenlight_error ''Greenlight was already decided by another request''
             (or_replay env t ev op fp (sthen (store_save env t r AwaitingGreenlight (w r g)) (sret (r, False)))))))) (replay_or (\<lambda>_. False))"
    if "sound_run current" "run_id current = rid" for current ev op fp w
    unfolding sthen_sbind_assoc sthen_def [of "store_save env t r AwaitingGreenlight w'" for r w']
    by (intro holds_sthen holds_if holds_effects_ready holds_sret holds_sbind [OF res [OF that]] holds_option
        holds_slift holds_greenlight_error holds_or_replay holds_sbind [OF holds_settled_save])
      (use assms in auto)
  show ?thesis unfolding svc_decide_def Let_def
    by (rule holds_replay_first, rule holds_sbind [OF holds_runtime_for],
        rule holds_sbind [OF holds_store_get [where Q = "\<lambda>r. sound_run r \<and> run_id r = rid"]], simp, elim conjE, rule block)
qed

text \<open>C8: a run is decided once. After a decision was recorded no later approval or rejection of that run takes
  effect, whoever sends it and under whatever key: it raises, or it is the replay of an earlier command.\<close>

theorem decided_once:
  assumes "service_db_ok (sv_db s)" and "svc_decide env t rid reviewer note rq ac sub key d s = (s1, Inr (r, False))"
    and "served\<^sup>*\<^sup>* s1 s2" and "svc_decide env' t rid reviewer' note' rq' ac' sub' key' d' s2 = (s3, Inr (r', replayed))"
  shows "run_id r = rid \<and> run_status r \<in> {Completed, RunRejected} \<and> replayed"
proof -
  have i: "issue env t rq ac sub key (DecideRun rid reviewer note d) s = (s1, Inr (r, False))" using assms(2) by simp
  note f = fresh_later [OF i _ assms(1,3), simplified]
  have r: "run_id r = rid" "run_status r \<in> {Completed, RunRejected}"
    using holds_result [OF holds_svc_decide assms(1,2)] by simp_all
  have "run_at (sv_db s1) t rid {Completed, RunRejected, Revoked}" using f(6) r by (auto simp: run_at_def)
  then have "run_at (sv_db s2) t rid {Completed, RunRejected, Revoked}" by (rule settled_stays [OF f(4)])
  then have "replay_or (\<lambda>_. False) (r', replayed)" using holds_result [OF holds_decide_settled f(3) assms(4)] f(3) by blast
  then show ?thesis using r by simp
qed

section \<open>No effect without authority\<close>

lemma prepare_reads:
  assumes "prepare_social_publication env t rid ch q key cf s = (s', Inr cmd)"
  obtains r g where "run_get (se_float env) (sv_db s) t rid = Inr r" "run_greenlight r = Some g" "run_status r = Completed" "greenlight_active g"
  using assms unfolding prepare_social_publication_def
  by (auto simp: store_get_def from_db_def sbind_def sthen_def slift_def raise_first.simps split: if_splits sum.splits option.splits prod.splits)

text \<open>C9: a revocation is final for publication. Once a Greenlight was revoked no command history leads to a
  state in which a publication of that run is prepared.\<close>

theorem revoked_never_prepared:
  assumes "service_db_ok (sv_db s)" and "svc_revoke_greenlight env t rid reviewer reason rq ac sub key s = (s1, Inr (r, False))"
    and "served\<^sup>*\<^sup>* s1 s2"
  shows "\<exists>e. snd (prepare_social_publication env' t rid ch q key' cf s2) = Inl e"
proof -
  have i: "issue env t rq ac sub key (RevokeRun rid reviewer reason) s = (s1, Inr (r, False))" using assms(2) by simp
  note f = fresh_later [OF i _ assms(1,3), simplified]
  have r: "run_id r = rid" "run_status r = Revoked"
    using holds_result [OF holds_svc_revoke assms(1,2)] by simp_all
  have rev: "run_at (sv_db s2) t rid {Revoked}" using revoked_stays [OF f(4)] f(6) r by simp
  show ?thesis
  proof (rule ccontr)
    assume "\<not> ?thesis"
    then obtain s3 cmd where "prepare_social_publication env' t rid ch q key' cf s2 = (s3, Inr cmd)"
      by (cases "prepare_social_publication env' t rid ch q key' cf s2"; cases "snd (prepare_social_publication env' t rid ch q key' cf s2)") auto
    then obtain r2 where "run_get (se_float env') (sv_db s2) t rid = Inr r2" "run_status r2 = Completed" by (rule prepare_reads)
    then show False using run_at_get [OF rev f(3)] by auto
  qed
qed

section \<open>The worker makes progress\<close>

lemma advance_leased_db: "sv_db (fst (advance_leased env t rid r s)) = sv_db s"
proof -
  have f: "sv_db (fst (in_runtime t m s)) = sv_db s" for m s
    by (auto simp: in_runtime_def runtime_for_def sbind_def Let_def split: option.splits sum.splits prod.splits)
  have b: "sv_db (fst (sbind m f s)) = sv_db s" if "\<And>s. sv_db (fst (m s)) = sv_db s" "\<And>v s. sv_db (fst (f v s)) = sv_db s"
    for m f s using that by (auto simp: sbind_def split: prod.splits sum.splits) (metis fst_conv)+
  have c: "sv_db (fst (scatch m h s)) = sv_db s" if "\<And>s. sv_db (fst (m s)) = sv_db s" "\<And>e s. sv_db (fst (h e s)) = sv_db s"
    for m h s using that by (auto simp: scatch_def split: prod.splits sum.splits) (metis fst_conv)+
  show ?thesis unfolding advance_leased_def
    by (intro b f c) (simp_all add: sret_def)
qed

lemma in_runtime_db: "sv_db (fst (in_runtime t m s)) = sv_db s"
  by (auto simp: in_runtime_def runtime_for_def sbind_def Let_def split: option.splits sum.splits prod.splits)

lemma lease_run_kept: "work_left (lease_run worker x r) = work_left r" "moved_on (lease_run worker x r) r' = moved_on r r'"
  by (simp_all add: lease_run_def set_execution_def work_left_def state_for_def moved_on_def)

lemma sbind_returns: "sbind m f s = (s', Inr v) \<longleftrightarrow> (\<exists>s1 x. m s = (s1, Inr x) \<and> f x s1 = (s', Inr v))"
  by (auto simp: sbind_def split: prod.splits sum.splits)

lemma sthen_returns: "sthen m n s = (s', Inr v) \<longleftrightarrow> (\<exists>s1 x. m s = (s1, Inr x) \<and> n s1 = (s', Inr v))"
  by (simp add: sthen_def sbind_returns)

lemma runtime_for_db: "runtime_for t s = (s1, x) \<Longrightarrow> sv_db s1 = sv_db s"
  by (auto simp: runtime_for_def Let_def split: option.splits sum.splits)

lemma on_db_Inr: "on_db f s = (s', Inr u) \<longleftrightarrow> (\<exists>db. f (sv_db s) = Inr db \<and> s' = s\<lparr>sv_db := db\<rparr>)"
  by (auto simp: on_db_def split: sum.splits)

lemma store_save_Inr: "store_save env t r e w s = (s', Inr u) \<longleftrightarrow> check_audit_write w = Inr ()
    \<and> (\<exists>db. run_save (sv_db s) t r (Some w) (Some (run_status_value e)) (se_clock env) (se_stamp env) = Inr db \<and> s' = s\<lparr>sv_db := db\<rparr>)"
  by (auto simp: store_save_def sthen_returns on_db_Inr slift_def)

lemma in_runtime_keeps: "in_runtime t m s = (s1, x) \<Longrightarrow> sv_db s1 = sv_db s"
  using in_runtime_db [of t m s] by simp

lemma sret_apply: "sret v s = (s, Inr v)"
  by (simp add: sret_def)

lemma executed_run:
  assumes "execute_run env worker clk t rid s = (s', Inr True)" and "service_db_ok (sv_db s)"
  obtains r r2 where "run_get (se_float env) (sv_db s) t rid = Inr r" and "run_status r \<in> {Queued, Running}"
    and "\<And>iof. run_get iof (sv_db s') t rid = Inr (plain_run r2)" and "ex_lease_owner (execution r2) = []"
    and "run_status r2 = Failed \<or> moved_on r r2" and "service_db_ok (sv_db s')"
proof -
  obtain s1 h where rt: "runtime_for t s = (s1, Inr h)"
    and e1: "sbind (store_get env t rid) (\<lambda>r.
       if run_status r \<notin> {Queued, Running} then sret False
       else sbind (slift (case ex_lease_expires_at (execution r) of None \<Rightarrow> Inr None
              | Some t \<Rightarrow> rbind (se_seconds env t) (\<lambda>n. Inr (Some n)))) (\<lambda>expires.
         if leased_elsewhere (execution r) worker expires clk then sret False
         else sbind (sget sv_lease_seconds) (\<lambda>lease.
           let r1 = lease_run worker (se_at_time env (clk + lease)) r; fence = ex_fencing_token (execution r1) in
           sthen (on_db (\<lambda>db. run_save db t r1 None (Some (run_status_value (run_status r))) (se_clock env) (se_stamp env)))
          (sbind (advance_leased env t rid r1) (\<lambda>(r2, failure).
             sthen (in_runtime t (sbind (restore_run r2) (\<lambda>_. sret ())))
            (sthen (store_save env t r2 (run_status r) (case failure of
                 None \<Rightarrow> checkpoint_event ''run.checkpointed'' worker t rid fence (checkpoint_payload r2 fence)
               | Some e \<Rightarrow> checkpoint_event ''run.failed'' worker t rid fence (failure_payload r2 fence e)))
              (sret True))))))) s1 = (s', Inr True)"
    using assms(1) unfolding execute_run_def sbind_returns by blast
  have db1: "sv_db s1 = sv_db s" using runtime_for_db [OF rt] .
  obtain r where r: "run_get (se_float env) (sv_db s) t rid = Inr r"
    using e1 by (auto simp: sbind_returns store_get_def from_db_def db1)
  note sr = run_get_sound [OF assms(2) r]
  obtain expires lease where st: "run_status r \<in> {Queued, Running}"
    and e2: "(let r1 = lease_run worker (se_at_time env (clk + lease)) r; fence = ex_fencing_token (execution r1) in
           sthen (on_db (\<lambda>db. run_save db t r1 None (Some (run_status_value (run_status r))) (se_clock env) (se_stamp env)))
          (sbind (advance_leased env t rid r1) (\<lambda>(r2, failure).
             sthen (in_runtime t (sbind (restore_run r2) (\<lambda>_. sret ())))
            (sthen (store_save env t r2 (run_status r) (case failure of
                 None \<Rightarrow> checkpoint_event ''run.checkpointed'' worker t rid fence (checkpoint_payload r2 fence)
               | Some e \<Rightarrow> checkpoint_event ''run.failed'' worker t rid fence (failure_payload r2 fence e)))
              (sret True))))) s1 = (s', Inr True)"
    using e1 r by (auto simp: sbind_returns store_get_def from_db_def db1 sget_def slift_def sret_def split: if_splits)
  let ?r1 = "lease_run worker (se_at_time env (clk + lease)) r"
  let ?w = "\<lambda>r2 f. case f of
      None \<Rightarrow> checkpoint_event ''run.checkpointed'' worker t rid (ex_fencing_token (execution ?r1)) (checkpoint_payload r2 (ex_fencing_token (execution ?r1)))
    | Some e \<Rightarrow> checkpoint_event ''run.failed'' worker t rid (ex_fencing_token (execution ?r1)) (failure_payload r2 (ex_fencing_token (execution ?r1)) e)"
  obtain dba s2 r2 f s3 u1 u2 where save1: "run_save (sv_db s) t ?r1 None (Some (run_status_value (run_status r))) (se_clock env) (se_stamp env) = Inr dba"
    and adv: "advance_leased env t rid ?r1 (s1\<lparr>sv_db := dba\<rparr>) = (s2, Inr (r2, f))"
    and rs: "in_runtime t (sbind (restore_run r2) (\<lambda>_. sret ())) s2 = (s3, Inr u1)"
    and sv: "store_save env t r2 (run_status r) (?w r2 f) s3 = (s', Inr u2)"
    using e2 unfolding Let_def by (auto simp: sthen_returns sbind_returns on_db_Inr db1 sret_apply split: prod.splits)
  have db3: "sv_db s3 = sv_db s2" by (rule in_runtime_keeps [OF rs])
  have save2: "run_save (sv_db s3) t r2 (Some (?w r2 f)) (Some (run_status_value (run_status r))) (se_clock env) (se_stamp env) = Inr (sv_db s')"
    using sv by (auto simp: store_save_Inr)
  have l: "sound_run ?r1" "run_id ?r1 = rid" "run_status ?r1 = run_status r" using lease_sound sr by auto
  have g1: "governed (sv_db s) dba" by (rule governed.saved [OF save1 l(1)]) (use l(3) st in \<open>auto simp: lifecycle_def\<close>)
  then have ok1: "service_db_ok dba" using governed_ok assms(2) by blast
  have wk: "worked ?r1 (r2, f)"
    by (rule holds_result [OF holds_advance_leased [OF l(1,2)] _ adv]) (use l(3) st ok1 in simp_all)
  have dbb: "sv_db s3 = dba" using db3 advance_leased_db [of env t rid ?r1 "s1\<lparr>sv_db := dba\<rparr>"] adv by simp
  have g2: "governed dba (sv_db s')"
    by (rule governed.saved [OF save2 [unfolded dbb]]) (use wk l(3) in \<open>auto simp: worked_def\<close>)
  have r2: "sound_run r2" "run_id r2 = rid" "ex_lease_owner (execution r2) = []" "run_status r2 = Failed \<or> moved_on r r2"
    using wk l(2) by (auto simp: worked_def lease_run_kept split: if_splits)
  obtain x where x: "sql_find (run_key t (run_id r2)) (db_runs (sv_db s')) = Some (saved_row r2 (se_clock env) x)"
    using run_save_row [OF _ save2 [unfolded dbb]] ok1 by (auto simp: service_db_ok_def)
  have "run_get iof (sv_db s') t rid = Inr (plain_run r2)" for iof
    using x reads_run [OF sound_storable [OF r2(1)]] r2(2) by (simp add: run_get_def saved_row_def)
  then show thesis using that r st r2 governed_ok [OF g2 ok1] by blast
qed

lemma plain_run_kept: "work_left (plain_run r) = work_left r" "moved_on r (plain_run r') = moved_on r r'"
  by (simp_all add: work_left_def moved_on_def)

lemma run_get_any: "service_db_ok db \<Longrightarrow> run_get iof db t rid = Inr r \<Longrightarrow> run_get iof' db t rid = Inr r"
proof -
  assume a: "service_db_ok db" "run_get iof db t rid = Inr r"
  obtain y where y: "sql_find (run_key t rid) (db_runs db) = Some y" "execution_run_from_document iof (rr_document y) = Inr r"
    using a(2) by (auto simp: run_get_def split: option.splits)
  obtain r0 where "sound_run r0" "rr_document y = execution_run_to_document r0"
    using a(1) y(1) by (auto simp: service_db_ok_def list_all_iff stored_run_ok_def dest: sql_find_Some)
  then show ?thesis using y reads_run [OF sound_storable] by (simp add: run_get_def)
qed

text \<open>Executions of one run by any workers at any times, that worked on it.\<close>

definition executed :: "string \<Rightarrow> string \<Rightarrow> service \<Rightarrow> service \<Rightarrow> bool" where
  "executed t rid s s' \<longleftrightarrow> (\<exists>env worker clk. execute_run env worker clk t rid s = (s', Inr True))"

lemma work_left_bound: "work_left r \<le> 14"
proof -
  have "station_weight x \<le> 2" for x by (cases x) simp_all
  then have "sum_list (map (\<lambda>x. station_weight (as_status (state_for r x))) EXECUTABLE) \<le> sum_list (map (\<lambda>x. 2) EXECUTABLE)"
    by (intro sum_list_mono) simp
  then show ?thesis by (simp add: work_left_def sum_list_triv)
qed

text \<open>C19: the worker ends. However many workers execute a stored run, at whatever times and with whatever
  failures, at most fifteen executions of it do any work, because each leaves less to do or ends it.\<close>

theorem worker_terminates:
  assumes "service_db_ok (sv_db s)" and "(executed t rid ^^ n) s s'"
  shows "n \<le> 15"
proof -
  have bound: "n \<le> Suc (work_left r)" if "service_db_ok (sv_db s)" "run_get iof (sv_db s) t rid = Inr r" "(executed t rid ^^ n) s s'" for iof r
    using that
  proof (induction n arbitrary: s r iof)
    case (Suc n)
    obtain s1 where s1: "executed t rid s s1" "(executed t rid ^^ n) s1 s'" using Suc.prems(3) by (rule relpowp_Suc_E2)
    obtain env worker clk where x: "execute_run env worker clk t rid s = (s1, Inr True)" using s1(1) by (auto simp: executed_def)
    obtain r2 where r2: "run_get iof (sv_db s1) t rid = Inr (plain_run r2)" "run_status r2 = Failed \<or> moved_on r r2" "service_db_ok (sv_db s1)"
      using executed_run [OF x Suc.prems(1)] run_get_any [OF Suc.prems(1,2)] by (metis Inr_inject)
    show ?case
    proof (cases "n = 0")
      case False
      then obtain m where m: "n = Suc m" by (cases n) auto
      obtain s2 where "executed t rid s1 s2" using s1(2) unfolding m by (rule relpowp_Suc_E2)
      then obtain env' worker' clk' where x2: "execute_run env' worker' clk' t rid s1 = (s2, Inr True)" by (auto simp: executed_def)
      have "run_status (plain_run r2) \<in> {Queued, Running}"
        using executed_run [OF x2 r2(3)] run_get_any [OF r2(3,1)] by (metis Inr_inject)
      then have "work_left r2 < work_left r" using r2(2) by (auto simp: moved_on_def)
      moreover have "n \<le> Suc (work_left (plain_run r2))" by (rule Suc.IH [OF r2(3,1) s1(2)])
      ultimately show ?thesis by (simp add: plain_run_kept)
    qed simp
  qed simp
  show ?thesis
  proof (cases n)
    case (Suc m)
    obtain s1 where "executed t rid s s1" using assms(2) unfolding Suc by (rule relpowp_Suc_E2)
    then obtain env worker clk where x: "execute_run env worker clk t rid s = (s1, Inr True)" by (auto simp: executed_def)
    obtain r where "run_get (se_float env) (sv_db s) t rid = Inr r" using executed_run [OF x assms(1)] by blast
    then have "n \<le> Suc (work_left r)" using bound assms by blast
    then show ?thesis using work_left_bound [of r] by simp
  qed simp
qed

text \<open>A lease excludes other workers. While another worker holds a lease that has not expired, an execution
  of that run does nothing to the database.\<close>

theorem lease_excludes:
  assumes "run_get (se_float env) (sv_db s) t rid = Inr r" and "ex_lease_owner (execution r) \<notin> {[], worker}"
    and "ex_lease_expires_at (execution r) = Some x" and "se_seconds env x = Inr expires" and "clk < expires"
  shows "sv_db (fst (execute_run env worker clk t rid s)) = sv_db s \<and> snd (execute_run env worker clk t rid s) \<noteq> Inr True"
proof (cases "runtime_for t s")
  case (Pair s1 h)
  then have db: "sv_db s1 = sv_db s" by (rule runtime_for_db)
  show ?thesis
  proof (cases h)
    case (Inr v)
    have "leased_elsewhere (execution r) worker (Some expires) clk" using assms(2,5) by (simp add: leased_elsewhere_def)
    then show ?thesis using Pair Inr db assms
      by (simp add: execute_run_def sbind_def store_get_def from_db_def slift_def sret_def)
  qed (use Pair db in \<open>simp add: execute_run_def sbind_def\<close>)
qed

end
