(* ===== verification/ServiceSamples.thy ===== *)
theory ServiceSamples
  imports ServiceLaws
begin

text \<open>
  One tenant with one stored run, on which the properties of the service apply.
\<close>

section \<open>Samples\<close>

definition sample_service_env :: service_env where
  "sample_service_env = \<lparr>se_orch = sample_orch_env, se_float = (\<lambda>_. Inr 0), se_seconds = (\<lambda>_. Inr 50), se_at_time = (\<lambda>_. ''t''),
     se_clock = ''u'', se_stamp = \<lparr>st_clock = ''u'', st_uuid = ''0''\<rparr>, se_utc = ''t'', se_now = (\<lambda>_. 0), se_checkpoint = ''t''\<rparr>"

definition sample_service :: "run_db \<Rightarrow> service" where
  "sample_service db = \<lparr>sv_lease_seconds = 60, sv_db = db, sv_runtimes = (\<lambda>_. None), sv_memories = [], sv_effects = [],
     sv_media = [], sv_connections = []\<rparr>"

definition stored_db :: "run \<Rightarrow> run_db" where
  "stored_db r = empty_db\<lparr>db_runs := [created_row ''acme'' r ''t'']\<rparr>"

lemma stored_db_ok: "sound_run r \<Longrightarrow> service_db_ok (stored_db r)"
  using empty_db_inv
  by (auto simp: service_db_ok_def stored_db_def db_inv_def empty_db_def run_row_ok_def created_row_def stored_run_ok_def)

lemma empty_service_ok: "service_db_ok empty_db"
  using empty_db_inv by (simp add: service_db_ok_def empty_db_def)

lemma sample_service_fields [simp]: "sv_db (sample_service db) = db" "sv_runtimes (sample_service db) t = None"
  "sv_memories (sample_service db) = []" "sv_effects (sample_service db) = []" "sv_lease_seconds (sample_service db) = 60"
  by (simp_all add: sample_service_def)

abbreviation acme_orchestrator :: orchestrator where
  "acme_orchestrator \<equiv> \<lparr>or_runs = (\<lambda>_. None), or_tick = 0, or_memory = \<lparr>mem_namespace = ''acme'', mem_rows = []\<rparr>\<rparr>"

lemma acme_memory: "make_memory ''acme'' [] = Inr \<lparr>mem_namespace = ''acme'', mem_rows = []\<rparr>"
  by code_simp

lemma acme_runtime: "runtime_for ''acme'' (sample_service db)
    = ((sample_service db)\<lparr>sv_runtimes := [''acme'' \<mapsto> acme_orchestrator]\<rparr>, Inr acme_orchestrator)"
proof -
  have "sv_runtimes (sample_service db) = Map.empty" by (simp add: sample_service_def)
  then show ?thesis by (simp add: runtime_for_def acme_memory Let_def)
qed

lemma acme_text: "strip ''acme'' \<noteq> []"
  by (simp add: strip_simps is_space_def)

lemma stable_id_text: "p \<noteq> [] \<Longrightarrow> \<not> is_space (hd p) \<Longrightarrow> strip (stable_id p xs n) \<noteq> []"
  by (cases p) (simp_all add: stable_id_def strip_simps)

lemma command_event_text: "strip (command_event_id t op key) \<noteq> []"
  unfolding command_event_id_def by (rule stable_id_text) (simp_all add: is_space_def)

lemma run_id_text: "run_id r = stable_id ''run'' xs n \<Longrightarrow> strip (run_id r) \<noteq> []"
  by (simp only:) (rule stable_id_text, simp_all add: is_space_def)

lemma no_receipt: "db_ledger (sv_db s) = empty_ledger \<Longrightarrow> command_replay env ''acme'' (command_event_id t op key) op' fp s = (s, Inr None)"
  using command_event_text acme_text
  by (simp add: command_replay_def from_db_def audit_event_def require_non_empty_Inr require_non_empty_def sql_find_def empty_ledger_def)

lemma sample_append_event:
  assumes "db_ledger db = empty_ledger"
  shows "audit_of db t (Some w) st (db\<lparr>db_ledger := append_row empty_ledger (appended_row empty_ledger t w (st_clock st) (st_uuid st)), db_runs := xs\<rparr>)"
  unfolding audit_of_Some assms append_audit_locked_eq [OF empty_ledger_inv] by (simp add: empty_ledger_def Let_def)

lemma sample_run_save:
  assumes "db_ledger db = empty_ledger" and "db_runs db = [x]" and "run_key ''acme'' (run_id r') x" and "rr_status x = run_status_value e"
  shows "\<exists>db'. run_save db ''acme'' r' (Some w) (Some (run_status_value e)) c st = Inr db'"
proof
  let ?m = "save_matches ''acme'' (run_id r') (Some (run_status_value e))"
  show "run_save db ''acme'' r' (Some w) (Some (run_status_value e)) c st
    = Inr (db\<lparr>db_ledger := append_row empty_ledger (appended_row empty_ledger ''acme'' w (st_clock st) (st_uuid st)),
        db_runs := sql_update ?m (saved_row r' c) (db_runs db)\<rparr>)"
    unfolding run_save_Inr using sample_append_event [OF assms(1)] assms(2-4)
    by (simp add: sql_count_def save_matches_def run_key_def)
qed

lemma stored_db_tables: "db_ledger (stored_db r) = empty_ledger" "db_runs (stored_db r) = [created_row ''acme'' r ''t'']"
  by (simp_all add: stored_db_def empty_db_def)

lemma sample_store_save:
  assumes "sv_db s = stored_db r" and "run_status r = e" and "run_id r' = run_id r" and "check_audit_write w = Inr ()"
  shows "\<exists>s'. store_save env ''acme'' r' e w s = (s', Inr ())"
  unfolding store_save_Inr assms(1)
  using sample_run_save [OF stored_db_tables, where r' = r' and e = e] assms(2-4) by (auto simp: run_key_def created_row_def)

lemma sample_get: "sound_run r \<Longrightarrow> run_get iof (stored_db r) ''acme'' (run_id r) = Inr (plain_run r)"
  using reads_run [OF sound_storable] by (simp add: run_get_def stored_db_def sql_find_def run_key_def created_row_def)

text \<open>The runs of the sample campaign at its gate and after its approval.\<close>

lemma plain_cleared: "cleared (plain_run r) = cleared r"
proof -
  have k: "art_kind (plain_artifact a) = art_kind a" for a by (simp add: plain_artifact_def)
  have s: "says_true (plain_artifact a) f = says_true a f" for a f
  proof -
    have "to_primitive v = JBool True \<longleftrightarrow> v = JBool True" for v by (cases v) simp_all
    then show ?thesis by (simp add: says_true_def plain_artifact_def jget_prim_object)
  qed
  have f: "find (\<lambda>a. art_kind a = x) (map plain_artifact xs) = map_option plain_artifact (find (\<lambda>a. art_kind a = x) xs)" for x xs
    by (induction xs) (simp_all add: k)
  have m: "artifacts (plain_run r) = map plain_artifact (artifacts r)" "campaign_type (run_brief (plain_run r)) = campaign_type (run_brief r)"
    by (simp_all add: plain_run_def plain_brief_def)
  show ?thesis unfolding cleared_def find_artifact_def m(2) m(1) rev_map f
    by (cases "find (\<lambda>a. art_kind a = ''risk_report'') (rev (artifacts r))") (simp_all add: s)
qed

lemma sample_stored_runs:
  obtains r1 r2 g where "sound_run r1" "run_status r1 = AwaitingGreenlight" "cleared r1" "strip (run_id r1) \<noteq> []"
    "sound_run r2" "run_status r2 = Completed" "run_greenlight r2 = Some g" "greenlight_active g" "check_greenlight g = Inr ()"
    "strip (run_id r2) \<noteq> []"
proof (rule sample_campaign)
  fix h1 h2 :: orchestrator and r1 r2 :: run and g
  assume a: "start sample_orch_env sample_brief sample_orchestrator = Some (h1, Inr r1)"
    "or_runs h1 (run_id r1) = Some r1" "may_approve r1 ''Ana''" "run_status r1 = AwaitingGreenlight"
    "approve sample_orch_env (run_id r1) ''Ana'' [] h1 = (h2, Inr r2)"
    "run_status r2 = Completed" "run_greenlight r2 = Some g" "greenlight_active g" "check_greenlight g = Inr ()"
  have c: "list_all text_claim (evidence_claims sample_brief)" by (simp add: sample_brief_def)
  have s1: "sound_run r1 \<and> run_id r1 = stable_id ''run'' [brief_json sample_brief] 16"
    using start_sound [of sample_orch_env sample_brief sample_orchestrator h1 r1] a(1) sample_start_hyps(1) c by (simp add: start_step_def)
  have s2: "sound_run r2 \<and> run_id r2 = run_id r1"
    using on_run_sound [of sample_orch_env "Approve (run_id r1) ''Ana'' []" h1 h2 r2 r1] a(2,5) s1 by simp
  have "strip (run_id r1) \<noteq> []" using s1 run_id_text by blast
  then show thesis using that [of r1 r2 g] s1 s2 a by (simp add: may_approve_def)
qed

lemma rejection_returns:
  assumes "clocks_ok env" and "or_runs h rid = Some r" and "run_status r = AwaitingGreenlight" and "cleared r"
    and "check_brief (run_brief r) = Inr ()" and "strip reviewer \<noteq> []"
  shows "\<exists>h' r' g. reject env rid reviewer note h = (h', Inr r') \<and> run_greenlight r' = Some g"
proof -
  have c: "check_decision r reviewer Rejected = Inr ()"
    using assms(3,4,6) by (auto simp: cleared_def check_decision_def split: sum.splits)
  have ret: "\<exists>w' g. decide_work env reviewer Rejected note w = (w', Inr ()) \<and> run_greenlight (wk_run w') = Some g" if "wk_run w = r" for w
    using c that greenlight_checks [OF assms(1,6), of r Rejected "note" "wk_tick w"] assms(5)
    by (simp add: decide_work_def step_simps reject_run_def run_frame)
  obtain w' g where "decide_work env reviewer Rejected note \<lparr>wk_run = r, wk_tick = or_tick h, wk_memory = or_memory h\<rparr> = (w', Inr ())"
    "run_greenlight (wk_run w') = Some g" using ret [of "\<lparr>wk_run = r, wk_tick = or_tick h, wk_memory = or_memory h\<rparr>"] by auto
  then show ?thesis using assms(2) by (simp add: reject_def on_run_def)
qed

lemma event_checks:
  "strip rid \<noteq> [] \<Longrightarrow> strip op \<noteq> [] \<Longrightarrow> check_audit_write (run_event ''rq'' op rid ''ann'' pl (command_event_id t o2 key)) = Inr ()"
  using command_event_text by (simp add: check_audit_write_def run_event_def strip_simps is_space_def)

lemma acme_restored: "in_runtime ''acme'' (restore_run r) (sample_service db\<lparr>sv_runtimes := [''acme'' \<mapsto> acme_orchestrator]\<rparr>)
    = (sample_service db\<lparr>sv_runtimes := [''acme'' \<mapsto> acme_orchestrator\<lparr>or_runs := [run_id r \<mapsto> r]\<rparr>]\<rparr>, Inr r)"
  by (simp add: in_runtime_def runtime_for_def sbind_def restore_run_def)

lemma acme_performed: "m h = (h', Inr r) \<Longrightarrow> in_runtime ''acme'' m (sample_service db\<lparr>sv_runtimes := [''acme'' \<mapsto> h]\<rparr>)
    = (sample_service db\<lparr>sv_runtimes := [''acme'' \<mapsto> h']\<rparr>, Inr r)"
  by (simp add: in_runtime_def runtime_for_def sbind_def)

lemma sample_rejection:
  assumes "sound_run r" and "run_status r = AwaitingGreenlight" and "cleared r" and "strip (run_id r) \<noteq> []"
  obtains s' r' where "svc_decide sample_service_env ''acme'' (run_id r) ''Ana'' ''no'' ''rq'' ''ann'' ''Ana'' ''key'' Rejected
    (sample_service (stored_db r)) = (s', Inr (r', False))"
proof -
  let ?s = "sample_service (stored_db r)" and ?op = "''greenlight.rejected''"
  let ?s1 = "?s\<lparr>sv_runtimes := [''acme'' \<mapsto> acme_orchestrator]\<rparr>" 
  let ?h = "\<lparr>or_runs = [run_id r \<mapsto> plain_run r], or_tick = 0, or_memory = \<lparr>mem_namespace = ''acme'', mem_rows = []\<rparr>\<rparr>"
  have pr: "sound_run (plain_run r)" by (rule plain_sound [OF assms(1)])
  have run: "or_runs ?h (run_id r) = Some (plain_run r)" by simp
  obtain h' r' g where rej: "reject sample_orch_env (run_id r) ''Ana'' ''no'' ?h = (h', Inr r')" "run_greenlight r' = Some g"
    using rejection_returns [OF sample_start_hyps(2) run, of "''Ana''" "''no''"] assms(2,3) pr
    by (auto simp: plain_cleared sound_run_def strip_simps is_space_def)
  have rid: "run_id r' = run_id r"
    using on_run_sound [of sample_orch_env "Reject (run_id r) ''Ana'' ''no''" ?h h' r' "plain_run r"] rej(1) run pr by simp
  let ?fp = "command_fingerprint ?op ''Ana'' (run_id r) (JObj [(''reviewer'', JStr ''Ana''), (''note'', JStr ''no'')])"
  let ?w = "run_event ''rq'' ?op (run_id r') ''ann'' (decision_payload g ?op ?fp r') (command_event_id ''acme'' ?op ''key'')"
  let ?s3 = "?s\<lparr>sv_runtimes := [''acme'' \<mapsto> h']\<rparr>"
  have w: "check_audit_write ?w = Inr ()" by (rule event_checks) (simp_all add: rid assms(4) strip_simps is_space_def)
  have db3: "sv_db ?s3 = stored_db r" by simp
  obtain s' where save: "store_save sample_service_env ''acme'' r' AwaitingGreenlight ?w ?s3 = (s', Inr ())"
    using sample_store_save [OF db3 assms(2) rid w] by blast
  have led: "db_ledger (sv_db ?s) = empty_ledger" by (simp add: stored_db_def empty_db_def)
  have orch: "se_orch sample_service_env = sample_orch_env" "se_float sample_service_env = (\<lambda>_. Inr 0)" by (simp_all add: sample_service_env_def)
  have get: "store_get sample_service_env ''acme'' (run_id r) ?s1 = (?s1, Inr (plain_run r))"
    using sample_get [OF assms(1)] by (simp add: store_get_def from_db_def)
  have res: "in_runtime ''acme'' (restore_run (plain_run r)) ?s1 = (?s\<lparr>sv_runtimes := [''acme'' \<mapsto> ?h]\<rparr>, Inr (plain_run r))"
    by (simp add: acme_restored)
  note per = acme_performed [where m = "reject sample_orch_env (run_id r) ''Ana'' ''no''", OF rej(1), of "stored_db r"]
  have "svc_decide sample_service_env ''acme'' (run_id r) ''Ana'' ''no'' ''rq'' ''ann'' ''Ana'' ''key'' Rejected ?s = (s', Inr (r', False))"
    unfolding svc_decide_def Let_def replay_first_def sbind_def no_receipt [OF led] sum.case prod.case option.case acme_runtime get
      sthen_def decision.distinct if_False sret_apply res orch per rej(2)
      or_greenlight_error_def or_replay_def scatch_def by (simp add: res per rej(2) save)
  then show thesis by (rule that)
qed

lemma sample_revocation:
  assumes "sound_run r" and "run_status r = Completed" and "run_greenlight r = Some g" and "greenlight_active g"
    and "check_greenlight g = Inr ()" and "strip (run_id r) \<noteq> []"
  obtains s' r' where "svc_revoke_greenlight sample_service_env ''acme'' (run_id r) ''Ana'' ''stop'' ''rq'' ''ann'' ''Ana'' ''key''
    (sample_service (stored_db r)) = (s', Inr (r', False))"
proof -
  let ?s = "sample_service (stored_db r)" and ?op = "''greenlight.revoked''"
  let ?s1 = "?s\<lparr>sv_runtimes := [''acme'' \<mapsto> acme_orchestrator]\<rparr>"
  let ?h = "\<lparr>or_runs = [run_id r \<mapsto> plain_run r], or_tick = 0, or_memory = \<lparr>mem_namespace = ''acme'', mem_rows = []\<rparr>\<rparr>"
  have pr: "sound_run (plain_run r)" by (rule plain_sound [OF assms(1)])
  have run: "or_runs ?h (run_id r) = Some (plain_run r)" by simp
  obtain h' r' where rev: "revoke sample_orch_env (run_id r) ''Ana'' ''stop'' ?h = (h', Inr r')"
    using revocation_returns [OF sample_start_hyps(2) run _ _ assms(4), of "''Ana''" "''stop''"] assms(2,3,5)
    by (auto simp: strip_simps is_space_def)
  obtain g' where g': "run_greenlight r' = Some g'"
    using rev by (auto simp: revoke_def on_run_def rbind_Inr_iff revoked_run_def run_frame split: prod.splits elim!: revoke_work_cases)
  have rid: "run_id r' = run_id r"
    using on_run_sound [of sample_orch_env "Revoke (run_id r) ''Ana'' ''stop''" ?h h' r' "plain_run r"] rev run pr by simp
  let ?fp = "command_fingerprint ?op ''Ana'' (run_id r) (JObj [(''reviewer'', JStr ''Ana''), (''reason'', JStr ''stop'')])"
  let ?w = "run_event ''rq'' ?op (run_id r') ''ann'' [(''greenlight_id'', JStr (greenlight_id g')),
      (''fencing_token'', JInt (gl_fencing_token g')), (''reviewer'', JStr (gl_revoked_by g')),
      (''reason'', JStr (gl_revocation_reason g')), (''idempotency'', command_payload ?op ?fp r')] (command_event_id ''acme'' ?op ''key'')"
  let ?s3 = "?s\<lparr>sv_runtimes := [''acme'' \<mapsto> h']\<rparr>"
  have w: "check_audit_write ?w = Inr ()" by (rule event_checks) (simp_all add: rid assms(6) strip_simps is_space_def)
  have db3: "sv_db ?s3 = stored_db r" by simp
  obtain s' where save: "store_save sample_service_env ''acme'' r' Completed ?w ?s3 = (s', Inr ())"
    using sample_store_save [OF db3 assms(2) rid w] by blast
  have led: "db_ledger (sv_db ?s) = empty_ledger" by (simp add: stored_db_def empty_db_def)
  have orch: "se_orch sample_service_env = sample_orch_env" "se_float sample_service_env = (\<lambda>_. Inr 0)" by (simp_all add: sample_service_env_def)
  have get: "store_get sample_service_env ''acme'' (run_id r) ?s1 = (?s1, Inr (plain_run r))"
    using sample_get [OF assms(1)] by (simp add: store_get_def from_db_def)
  have res: "in_runtime ''acme'' (restore_run (plain_run r)) ?s1 = (?s\<lparr>sv_runtimes := [''acme'' \<mapsto> ?h]\<rparr>, Inr (plain_run r))"
    by (simp add: acme_restored)
  note per = acme_performed [where m = "revoke sample_orch_env (run_id r) ''Ana'' ''stop''", OF rev, of "stored_db r"]
  have "svc_revoke_greenlight sample_service_env ''acme'' (run_id r) ''Ana'' ''stop'' ''rq'' ''ann'' ''Ana'' ''key'' ?s = (s', Inr (r', False))"
    unfolding svc_revoke_greenlight_def Let_def replay_first_def sbind_def no_receipt [OF led] sum.case prod.case option.case acme_runtime get
      sthen_def sret_apply res orch or_greenlight_error_def or_replay_def scatch_def by (simp add: res per g' save)
  then show thesis by (rule that)
qed

section \<open>Witnesses\<close>

theorem service_refines_lifecycle_witness:
  "\<exists>r (s :: service) s'. run_status r = AwaitingGreenlight \<and> sv_db s = stored_db r \<and> governed\<^sup>*\<^sup>* (sv_db s) (sv_db s')
     \<and> s' = fst (svc_decide sample_service_env ''acme'' (run_id r) ''Ana'' ''no'' ''rq'' ''ann'' ''Ana'' ''key'' Rejected s)"
proof (rule sample_stored_runs)
  fix r assume r: "sound_run r" "run_status r = AwaitingGreenlight"
  let ?s = "sample_service (stored_db r)"
  let ?s' = "fst (svc_decide sample_service_env ''acme'' (run_id r) ''Ana'' ''no'' ''rq'' ''ann'' ''Ana'' ''key'' Rejected ?s)"
  have ok: "service_db_ok (sv_db ?s)" using stored_db_ok [OF r(1)] by simp
  have "served\<^sup>*\<^sup>* ?s ?s'" by (rule r_into_rtranclp, rule served.decide)
  then have "governed\<^sup>*\<^sup>* (sv_db ?s) (sv_db ?s')" using service_refines_lifecycle [OF ok] by blast
  then show ?thesis using r(2) by (intro exI [of _ r] exI [of _ ?s] exI [of _ ?s']) simp
qed

theorem command_idempotent_witness:
  "\<exists>s s1 r c. issue sample_service_env ''acme'' ''rq'' ''ann'' ''Ana'' ''key'' c s = (s1, Inr (r, False))
     \<and> issue sample_service_env ''acme'' ''rq2'' ''bob'' ''Ana'' ''key'' c s1 = (s1, Inr (plain_run r, True))"
proof (rule sample_stored_runs)
  fix r assume r: "sound_run r" "run_status r = AwaitingGreenlight" "cleared r" "strip (run_id r) \<noteq> []"
  let ?c = "DecideRun (run_id r) ''Ana'' ''no'' Rejected"
  obtain s' r' where d: "issue sample_service_env ''acme'' ''rq'' ''ann'' ''Ana'' ''key'' ?c (sample_service (stored_db r)) = (s', Inr (r', False))"
    unfolding issue.simps by (rule sample_rejection [OF r])
  have ok: "service_db_ok (sv_db (sample_service (stored_db r)))" using stored_db_ok [OF r(1)] by simp
  show ?thesis using command_idempotent [OF ok _ _ d rtranclp.rtrancl_refl, of ?c sample_service_env "''rq2''" "''bob''" "''Ana''"] d
    by fastforce
qed

theorem decided_once_witness:
  "\<exists>s s1 r rid s3 r' b. svc_decide sample_service_env ''acme'' rid ''Ana'' ''no'' ''rq'' ''ann'' ''Ana'' ''key'' Rejected s = (s1, Inr (r, False))
     \<and> svc_decide sample_service_env ''acme'' rid ''Ana'' ''no'' ''rq'' ''ann'' ''Ana'' ''key'' Rejected s1 = (s3, Inr (r', b))
     \<and> run_status r \<in> {Completed, RunRejected} \<and> b"
proof (rule sample_stored_runs)
  fix r assume r: "sound_run r" "run_status r = AwaitingGreenlight" "cleared r" "strip (run_id r) \<noteq> []"
  let ?c = "DecideRun (run_id r) ''Ana'' ''no'' Rejected" and ?s = "sample_service (stored_db r)"
  obtain s' r' where d: "svc_decide sample_service_env ''acme'' (run_id r) ''Ana'' ''no'' ''rq'' ''ann'' ''Ana'' ''key'' Rejected ?s = (s', Inr (r', False))"
    by (rule sample_rejection [OF r])
  have i: "issue sample_service_env ''acme'' ''rq'' ''ann'' ''Ana'' ''key'' ?c ?s = (s', Inr (r', False))" using d by simp
  have ok: "service_db_ok (sv_db ?s)" using stored_db_ok [OF r(1)] by simp
  note f = fresh_later [OF i _ ok rtranclp.rtrancl_refl, simplified]
  have wf: "well_formed_command ?c" by simp
  obtain m where m: "issue sample_service_env ''acme'' ''rq'' ''ann'' ''Ana'' ''key'' ?c = replay_first sample_service_env ''acme''
      (command_event_id ''acme'' (operation_of ?c) ''key'') (operation_of ?c) (fingerprint_of ''Ana'' ?c) m" using issue_replay [OF wf] by blast
  have "issue sample_service_env ''acme'' ''rq'' ''ann'' ''Ana'' ''key'' ?c s' = (s', Inr (plain_run r', True))"
    unfolding m using receipt_read(1) [OF _ f(3,5)] f(1) issue_ids [OF i] by (simp add: replay_first_def sbind_def sret_def)
  then have d2: "svc_decide sample_service_env ''acme'' (run_id r) ''Ana'' ''no'' ''rq'' ''ann'' ''Ana'' ''key'' Rejected s' = (s', Inr (plain_run r', True))"
    by simp
  show ?thesis using decided_once [OF ok d rtranclp.rtrancl_refl d2] d d2 by blast
qed

theorem revoked_never_prepared_witness:
  "\<exists>s s1 r rid e. svc_revoke_greenlight sample_service_env ''acme'' rid ''Ana'' ''stop'' ''rq'' ''ann'' ''Ana'' ''key'' s = (s1, Inr (r, False))
     \<and> snd (prepare_social_publication sample_service_env ''acme'' rid ''x'' \<lparr>pq_artifact_id = ''a'', pq_media_artifact_id = None,
          pq_greenlight_id = ''g'', pq_greenlight_fencing_token = 1\<rparr> ''k'' None s1) = Inl e"
proof (rule sample_stored_runs)
  fix r g assume r: "sound_run r" "run_status r = Completed" "run_greenlight r = Some g" "greenlight_active g"
    "check_greenlight g = Inr ()" "strip (run_id r) \<noteq> []"
  obtain s' r' where d: "svc_revoke_greenlight sample_service_env ''acme'' (run_id r) ''Ana'' ''stop'' ''rq'' ''ann'' ''Ana'' ''key''
      (sample_service (stored_db r)) = (s', Inr (r', False))" by (rule sample_revocation [OF r])
  have ok: "service_db_ok (sv_db (sample_service (stored_db r)))" using stored_db_ok [OF r(1)] by simp
  show ?thesis using revoked_never_prepared [OF ok d rtranclp.rtrancl_refl] d by blast
qed

theorem lease_excludes_witness:
  "\<exists>r (s :: service). run_status r = AwaitingGreenlight \<and> ex_lease_owner (execution r) = ''other'' \<and> sv_db s = stored_db r
     \<and> sv_db (fst (execute_run sample_service_env ''me'' 10 ''acme'' (run_id r) s)) = sv_db s"
proof (rule sample_stored_runs)
  fix r0 assume r0: "sound_run r0" "run_status r0 = AwaitingGreenlight"
  let ?r = "lease_run ''other'' ''t'' r0" let ?s = "sample_service (stored_db ?r)"
  have s: "sound_run ?r" "run_status ?r = AwaitingGreenlight" using lease_sound [OF r0(1)] r0(2) by simp_all
  have l: "ex_lease_owner (execution (plain_run ?r)) \<notin> {[], ''me''}" "ex_lease_expires_at (execution (plain_run ?r)) = Some ''t''"
    "se_seconds sample_service_env ''t'' = Inr 50" "(10 :: int) < 50"
    by (simp_all add: lease_run_def set_execution_def sample_service_env_def)
  have g: "run_get (se_float sample_service_env) (sv_db ?s) ''acme'' (run_id ?r) = Inr (plain_run ?r)" using sample_get [OF s(1)] by simp
  show ?thesis using lease_excludes [OF g l] s(2)
    by (intro exI [of _ ?r] exI [of _ ?s]) (simp add: lease_run_def set_execution_def)
qed

lemma sample_execution:
  assumes "sound_run r" and "run_status r = Running" and "strip (run_id r) \<noteq> []" and "ex_lease_expires_at (execution r) = None"
  shows "\<exists>s'. execute_run sample_service_env ''me'' 0 ''acme'' (run_id r) (sample_service (stored_db r)) = (s', Inr True)"
proof -
  let ?env = sample_service_env let ?s = "sample_service (stored_db r)" let ?p = "plain_run r" let ?r1 = "lease_run ''me'' ''t'' ?p"
  let ?s1 = "?s\<lparr>sv_runtimes := [''acme'' \<mapsto> acme_orchestrator]\<rparr>"
  have get: "store_get ?env ''acme'' (run_id r) ?s1 = (?s1, Inr ?p)" using sample_get [OF assms(1)] by (simp add: store_get_def from_db_def)
  have p: "sound_run ?p" "run_status ?p = Running" "run_id ?p = run_id r" "ex_lease_expires_at (execution ?p) = None"
    using plain_sound assms by simp_all
  have r1: "run_id ?r1 = run_id r" "run_status ?r1 = Running" using lease_sound [OF p(1)] p by simp_all
  let ?db1 = "(stored_db r)\<lparr>db_runs := sql_update (save_matches ''acme'' (run_id r) (Some ''running'')) (saved_row ?r1 ''u'') (db_runs (stored_db r))\<rparr>"
  have save1: "run_save (stored_db r) ''acme'' ?r1 None (Some (run_status_value Running)) ''u'' st = Inr ?db1" for st
    unfolding run_save_Inr by (simp add: stored_db_tables sql_count_def save_matches_def run_key_def created_row_def r1(1) assms(2) audit_of_def)
  have runs1: "db_runs ?db1 = [saved_row ?r1 ''u'' (created_row ''acme'' r ''t'')]" "db_ledger ?db1 = empty_ledger"
    by (simp_all add: stored_db_tables sql_update_def save_matches_def run_key_def created_row_def assms(2))
  let ?s2 = "?s1\<lparr>sv_db := ?db1\<rparr>"
  let ?h = "\<lparr>or_runs = [run_id r \<mapsto> ?r1], or_tick = 0, or_memory = \<lparr>mem_namespace = ''acme'', mem_rows = []\<rparr>\<rparr>"
  obtain h' res where adv: "advance sample_orch_env (run_id r) ?h = (h', res)" by (cases "advance sample_orch_env (run_id r) ?h")
  have rt: "runtime_for ''acme'' ?s2 = (?s2, Inr acme_orchestrator)" by (simp add: runtime_for_def)
  have orch: "se_orch ?env = sample_orch_env" by (simp add: sample_service_env_def)
  have "\<exists>s3 r2 f h. advance_leased ?env ''acme'' (run_id r) ?r1 ?s2 = (s3, Inr (r2, f)) \<and> sv_runtimes s3 ''acme'' = Some h"
    using rt adv r1(1) orch
    by (cases res) (auto simp: advance_leased_def in_runtime_def sbind_def scatch_def restore_run_def runtime_for_def sret_def sget_def)
  then obtain s3 r2 f h where a: "advance_leased ?env ''acme'' (run_id r) ?r1 ?s2 = (s3, Inr (r2, f))" "sv_runtimes s3 ''acme'' = Some h" by blast
  have db3: "sv_db s3 = ?db1" using advance_leased_db [of ?env "''acme''" "run_id r" ?r1 ?s2] a(1) by simp
  have sr1: "sound_run ?r1" using lease_sound [OF p(1)] by simp
  have "governed (stored_db r) ?db1" by (rule governed.saved [OF save1 [of undefined] sr1]) (use r1 in \<open>simp add: lifecycle_def\<close>)
  then have ok: "service_db_ok (sv_db ?s2)" using governed_ok stored_db_ok [OF assms(1)] by simp
  have "worked ?r1 (r2, f)" using holds_result [OF holds_advance_leased [OF sr1 r1(1)] ok a(1)] r1(2) by simp
  then have r2: "run_id r2 = run_id r" using r1(1) by (simp add: worked_def)
  let ?w = "case f of
      None \<Rightarrow> checkpoint_event ''run.checkpointed'' ''me'' ''acme'' (run_id r) (ex_fencing_token (execution ?r1)) (checkpoint_payload r2 (ex_fencing_token (execution ?r1)))
    | Some e \<Rightarrow> checkpoint_event ''run.failed'' ''me'' ''acme'' (run_id r) (ex_fencing_token (execution ?r1)) (failure_payload r2 (ex_fencing_token (execution ?r1)) e)"
  obtain s4 where s4: "in_runtime ''acme'' (sbind (restore_run r2) (\<lambda>_. sret ())) s3 = (s4, Inr ())" "sv_db s4 = ?db1"
    using a(2) db3 by (auto simp: in_runtime_def runtime_for_def sbind_def restore_run_def sret_def)
  have ev: "strip (stable_id ''request'' xs 32) \<noteq> []" "strip (stable_id ''run-checkpoint'' xs 48) \<noteq> []" for xs
    by (rule stable_id_text; simp add: is_space_def)+
  have w: "check_audit_write ?w = Inr ()"
    using ev assms(3) by (cases f) (simp_all add: check_audit_write_def checkpoint_event_def strip_simps is_space_def)
  have key: "run_key ''acme'' (run_id r2) (saved_row ?r1 ''u'' (created_row ''acme'' r ''t''))"
    "rr_status (saved_row ?r1 ''u'' (created_row ''acme'' r ''t'')) = run_status_value Running"
    using r1(2) by (simp_all add: r2 run_key_def saved_row_def created_row_def)
  obtain s5 where s5: "store_save ?env ''acme'' r2 Running ?w s4 = (s5, Inr ())"
    using sample_run_save [OF runs1(2,1) key, of ?w "se_clock ?env" "se_stamp ?env"] w s4(2) by (auto simp: store_save_Inr)
  have dat: "se_at_time ?env x = ''t''" "se_clock ?env = ''u''" for x by (simp_all add: sample_service_env_def)
  have sv1: "on_db (\<lambda>db. run_save db ''acme'' ?r1 None (Some (run_status_value Running)) ''u'' st) ?s1 = (?s2, Inr ())" for st
    using save1 by (simp add: on_db_def)
  have "execute_run ?env ''me'' 0 ''acme'' (run_id r) ?s = (s5, Inr True)"
    unfolding execute_run_def sbind_def sthen_def acme_runtime prod.case sum.case get Let_def
    using s5 by (cases f) (simp_all add: assms(2,4) slift_def leased_elsewhere_def sget_def dat sv1 [simplified] a(1)
        s4(1) [unfolded sbind_def sret_def] sret_def)
  then show ?thesis by blast
qed

theorem worker_terminates_witness:
  "\<exists>r (s :: service) s' n. sv_db s = stored_db r \<and> (executed ''acme'' (run_id r) ^^ n) s s' \<and> 1 \<le> n \<and> n \<le> 15"
proof -
  let ?o = "create_run sample_orch_env sample_brief False sample_orchestrator"
  obtain r where c: "snd ?o = Inr r" "run_status r = Running" "ex_lease_expires_at (execution r) = None"
    using sample_start_hyps(1,4) by (auto simp: create_run_def Let_def check_execution_def EXECUTION_STATES_def)
  have "list_all text_claim (evidence_claims sample_brief)" by (simp add: sample_brief_def)
  then have i: "sound_run r" "run_id r = stable_id ''run'' [brief_json sample_brief] 16"
    using created_sound [of sample_orch_env sample_brief False sample_orchestrator "fst ?o" r] c(1) sample_start_hyps(1)
    by (auto simp: prod_eq_iff)
  note s = i(1) run_id_text [OF i(2)]
  obtain s' where "executed ''acme'' (run_id r) (sample_service (stored_db r)) s'"
    using sample_execution [OF s(1) c(2) s(2) c(3)] by (auto simp: executed_def)
  then have x: "(executed ''acme'' (run_id r) ^^ 1) (sample_service (stored_db r)) s'" by (simp only: relpowp_1)
  have ok: "service_db_ok (sv_db (sample_service (stored_db r)))" using stored_db_ok [OF s(1)] by simp
  show ?thesis
    by (rule exI [of _ r], rule exI [of _ "sample_service (stored_db r)"], rule exI [of _ s'], rule exI [of _ 1])
      (intro conjI sample_service_fields x worker_terminates [OF ok x], simp)
qed

end
