(* ===== verification/Twins.thy ===== *)
theory Twins
  imports EffectLedger
begin

text \<open>
  Two stores of one contract: the queries of PostgreSQL in terms of the tables of the model, and the
  simulation between two implementations that answer the same commands.
\<close>

section \<open>Queries\<close>

text \<open>\<open>SELECT ... WHERE p ORDER BY k LIMIT 1\<close>.\<close>

definition sql_first :: "('r \<Rightarrow> bool) \<Rightarrow> ('r \<Rightarrow> nat) \<Rightarrow> 'r list \<Rightarrow> 'r option" where
  "sql_first p k rows = (case sort_key k (filter p rows) of [] \<Rightarrow> None | r # _ \<Rightarrow> Some r)"

lemma insort_key_hd:
  "xs \<noteq> [] \<Longrightarrow> hd (insort_key k x xs) = (if k x \<le> k (hd xs) then x else hd xs)"
  by (cases xs) auto

lemma sort_key_hd:
  "xs \<noteq> [] \<Longrightarrow> sort_key k xs \<noteq> []"
  by (metis length_0_conv length_sort)

lemma sql_first_Cons:
  "sql_first p k (x # xs) = (if p x then (case sql_first p k xs of None \<Rightarrow> Some x
     | Some y \<Rightarrow> if k x \<le> k y then Some x else Some y) else sql_first p k xs)"
proof (cases "p x")
  case True
  show ?thesis
  proof (cases "sort_key k (filter p xs)")
    case Nil
    then show ?thesis using True by (simp add: sql_first_def)
  next
    case (Cons y ys)
    then show ?thesis using True by (simp add: sql_first_def)
  qed
qed (simp add: sql_first_def)

text \<open>Two ranks: the first row of the better rank, else the first of the other.\<close>

lemma sql_first_ranked:
  "sql_first (\<lambda>r. p r \<or> q r) (\<lambda>r. if p r then 0 else 1) rows
     = (case sql_find p rows of Some r \<Rightarrow> Some r | None \<Rightarrow> sql_find q rows)"
proof (induction rows)
  case Nil
  then show ?case by (simp add: sql_first_def sql_find_def)
next
  case (Cons x xs)
  have step: "sql_find t (x # xs) = (if t x then Some x else sql_find t xs)" for t by (simp add: sql_find_def)
  have "sql_find p xs = Some y \<Longrightarrow> p y" "sql_find p xs = None \<Longrightarrow> sql_find q xs = Some y \<Longrightarrow> \<not> p y" for y
    by (auto simp: sql_find_None dest!: sql_find_Some)
  then show ?case
    unfolding sql_first_Cons Cons.IH step
    by (cases "sql_find p xs"; cases "sql_find q xs"; simp)
qed

text \<open>\<open>ORDER BY\<close> a time: in the order of the instants, which is that of the texts a clock writes.\<close>

definition time_ordered :: "(string \<Rightarrow> int) \<Rightarrow> string set \<Rightarrow> bool" where
  "time_ordered instant ts \<longleftrightarrow> (\<forall>a \<in> ts. \<forall>b \<in> ts. instant a \<le> instant b \<longleftrightarrow> a \<le> b)"

lemma sort_key_cong_order:
  fixes f :: "'a \<Rightarrow> 'b::linorder" and g :: "'a \<Rightarrow> 'c::linorder"
  assumes "\<And>x y. x \<in> set xs \<Longrightarrow> y \<in> set xs \<Longrightarrow> f x \<le> f y \<longleftrightarrow> g x \<le> g y"
  shows "sort_key f xs = sort_key g xs"
  using assms
proof (induction xs)
  case (Cons x xs)
  have ins: "insort_key f x ys = insort_key g x ys" if "set ys \<subseteq> set xs" for ys
    using that Cons.prems by (induction ys) auto
  show ?case using Cons.IH Cons.prems ins [of "sort_key g xs"] by simp
qed simp

section \<open>Commands on a store\<close>

text \<open>A transaction: it commits, or raises and leaves the state as it was.\<close>

definition commit :: "('s \<times> 'a) res \<Rightarrow> 's \<Rightarrow> 's \<times> 'a res" where
  "commit r s = (case r of Inl e \<Rightarrow> (s, Inl e) | Inr (s', a) \<Rightarrow> (s', Inr a))"

lemma commit_simps [simp]:
  "commit (Inl e) s = (s, Inl e)" "commit (Inr (s', a)) s = (s', Inr a)"
  by (simp_all add: commit_def)

text \<open>The answers of a sequence of commands, and the state it leaves.\<close>

fun transcript :: "('c \<Rightarrow> 's \<Rightarrow> 's \<times> 'a) \<Rightarrow> 'c list \<Rightarrow> 's \<Rightarrow> 's \<times> 'a list" where
  "transcript exec [] s = (s, [])"
| "transcript exec (c # cs) s = (let (s1, a) = exec c s; (s2, as) = transcript exec cs s1 in (s2, a # as))"

text \<open>The commands a store is asked for, each admissible in the state it meets.\<close>

fun admissible :: "('c \<Rightarrow> 's \<Rightarrow> bool) \<Rightarrow> ('c \<Rightarrow> 's \<Rightarrow> 's \<times> 'a) \<Rightarrow> 'c list \<Rightarrow> 's \<Rightarrow> bool" where
  "admissible ok exec [] s = True"
| "admissible ok exec (c # cs) s = (ok c s \<and> admissible ok exec cs (fst (exec c s)))"

text \<open>An operation as a command, its result tagged by \<open>k\<close>.\<close>

definition answer :: "('b \<Rightarrow> 'a) \<Rightarrow> ('s \<times> 'b) res \<Rightarrow> 's \<Rightarrow> 's \<times> 'a res" where
  "answer k r s = commit (rbind r (\<lambda>(s', a). Inr (s', k a))) s"

definition answer_read :: "('b \<Rightarrow> 'a) \<Rightarrow> 'b res \<Rightarrow> 's \<Rightarrow> 's \<times> 'a res" where
  "answer_read k r s = (s, rbind r (\<lambda>a. Inr (k a)))"

locale twin_stores =
  fixes first :: "'c \<Rightarrow> 's \<Rightarrow> 's \<times> 'a"
    and second :: "'c \<Rightarrow> 't \<Rightarrow> 't \<times> 'b"
    and same :: "'s \<Rightarrow> 't \<Rightarrow> bool"
    and seen :: "'a \<Rightarrow> 'b \<Rightarrow> bool"
    and allowed :: "'c \<Rightarrow> 's \<Rightarrow> bool"
  assumes twin_step: "same s t \<Longrightarrow> allowed c s \<Longrightarrow>
      same (fst (first c s)) (fst (second c t)) \<and> seen (snd (first c s)) (snd (second c t))"
begin

lemma twin_transcript:
  "same s t \<Longrightarrow> admissible allowed first cs s \<Longrightarrow>
   same (fst (transcript first cs s)) (fst (transcript second cs t))
   \<and> list_all2 seen (snd (transcript first cs s)) (snd (transcript second cs t))"
proof (induction cs arbitrary: s t)
  case (Cons c cs)
  then have step: "same (fst (first c s)) (fst (second c t))" "seen (snd (first c s)) (snd (second c t))"
    using twin_step by auto
  from Cons.IH [OF step(1)] Cons.prems step(2) show ?case
    by (simp add: split_beta Let_def)
qed simp

end

text \<open>A reservation law that one store has by another's: the histories of the first are histories of the
  second, with the intents as the second stores them.\<close>

lemma history_transfer:
  assumes "history R S rows log"
    and "\<And>rows i rows' v. R rows i = Inr (rows', v) \<Longrightarrow> \<exists>v'. R' rows (f i) = Inr (rows', v')
          \<and> res_executable v' = res_executable v \<and> (res_executable v \<longrightarrow> res_intent v' = f (res_intent v))"
    and "\<And>rows rows'. S rows rows' \<Longrightarrow> S' rows rows'"
  shows "history R' S' rows (map f log)"
  using assms(1)
proof (induction rule: history.induct)
  case (granted rows log i rows' v)
  with assms(2) [OF granted(2)] show ?case using history.granted by fastforce
next
  case (refused rows log i rows' v)
  with assms(2) [OF refused(2)] show ?case using history.refused by fastforce
qed (auto intro: history.intros assms(3))

end
