(* ===== verification/PostgresIntents.thy ===== *)
theory PostgresIntents
  imports Twins ModelEffectStore PublicationStore
begin

text \<open>
  \<open>model_effect_postgres.py\<close> and \<open>social_publication_postgres.py\<close> of \<open>backend/agency_runtime\<close>: the intent
  tables on PostgreSQL. A \<open>TIMESTAMPTZ\<close> column gives back \<open>str\<close> of a datetime, not the text that was
  written, so \<open>ts\<close> is the text a time reads as and \<open>instant\<close> its place in time; both are documented
  conversions of the driver and arguments here. The advisory locks serialize reservations and have no
  effect on the rows. Each operation is compared with its SQLite twin.
\<close>

section \<open>Model effects\<close>

text \<open>\<open>intent_values\<close> into the columns and \<open>intent_from_mapping\<close> out of them.\<close>

definition me_pg_times :: "(string \<Rightarrow> string) \<Rightarrow> me_intent \<Rightarrow> me_intent" where
  "me_pg_times ts i = i\<lparr>me_created_at := ts (me_created_at i), me_updated_at := ts (me_updated_at i),
     me_completed_at := map_option ts (me_completed_at i), me_revoked_at := map_option ts (me_revoked_at i)\<rparr>"

definition me_pg_row :: "(string \<Rightarrow> string) \<Rightarrow> me_intent \<Rightarrow> me_intent" where
  "me_pg_row ts i = (me_pg_times ts i)\<lparr>me_receipt := canonical_receipt (me_receipt i)\<rparr>"

definition me_pg_insert :: "(string \<Rightarrow> string) \<Rightarrow> me_table \<Rightarrow> me_intent \<Rightarrow> me_table res" where
  "me_pg_insert ts rows i =
     (if list_ex (\<lambda>r. me_effect_id r = me_effect_id i) rows
         \<or> list_ex (\<lambda>r. me_tenant_id r = me_tenant_id i \<and> me_idempotency_digest r = me_idempotency_digest i) rows
         \<or> list_ex (\<lambda>r. me_tenant_id r = me_tenant_id i \<and> me_binding_digest r = me_binding_digest i) rows
      then Inl IntegrityError else Inr (rows @ [me_pg_row ts i]))"

definition me_pg_reserve ::
  "(string \<Rightarrow> string) \<Rightarrow> me_table \<Rightarrow> me_intent \<Rightarrow> (me_table \<times> me_intent reservation) res" where
  "me_pg_reserve ts rows i =
     rbind (me_validate_intent i True) (\<lambda>_.
       let idem = (\<lambda>r. me_tenant_id r = me_tenant_id i \<and> me_idempotency_digest r = me_idempotency_digest i);
           bind = (\<lambda>r. me_tenant_id r = me_tenant_id i \<and> me_binding_digest r = me_binding_digest i) in
       case sql_first (\<lambda>r. idem r \<or> bind r) (\<lambda>r. if idem r then 0 else 1) rows of
         Some r \<Rightarrow> rbind (raise_first
            [(me_idempotency_digest r = me_idempotency_digest i \<and> me_binding_digest r \<noteq> me_binding_digest i,
               ModelEffectConflictError ''model effect idempotency key conflicts with a prior binding''),
             (me_binding_digest r \<noteq> me_binding_digest i,
               ModelEffectConflictError ''model effect binding conflicts with a prior intent'')]) (\<lambda>_.
            Inr (rows, \<lparr>res_intent = r, res_executable = False, res_replayed = (me_status r = ''succeeded'')\<rparr>))
       | None \<Rightarrow> rbind (me_pg_insert ts rows i) (\<lambda>rows'.
            Inr (rows', \<lparr>res_intent = i, res_executable = True, res_replayed = False\<rparr>)))"

definition me_pg_get :: "me_table \<Rightarrow> string \<Rightarrow> string \<Rightarrow> me_intent res" where
  "me_pg_get rows tenant effect =
     rbind (me_validate_identity tenant effect) (\<lambda>_.
       case sql_find (\<lambda>r. me_tenant_id r = tenant \<and> me_effect_id r = effect) rows of
         None \<Rightarrow> Inl (KeyError ''model effect intent not found'') | Some r \<Rightarrow> Inr r)"

text \<open>The checks of \<open>_transition\<close>: unlike SQLite's, the digest is checked for its length only.\<close>

definition me_pg_check_change :: "string \<Rightarrow> string \<Rightarrow> int \<Rightarrow> me_change \<Rightarrow> unit res" where
  "me_pg_check_change tenant effect fence c =
     rbind (me_validate_identity tenant effect) (\<lambda>_.
     rbind (raise_first
       [(fence < 1, ValueError ''model effect fence must be positive''),
        (mc_status c \<notin> set ME_STATUSES, ValueError ''model effect status is invalid'')]) (\<lambda>_.
     rbind (case mc_output_text c of None \<Rightarrow> Inr () | Some t \<Rightarrow> me_validate_output t) (\<lambda>_.
     rbind (case mc_output_sha256 c of None \<Rightarrow> Inr () | Some d \<Rightarrow>
              raise_first [(length d \<noteq> 64, ValueError ''model effect output digest is invalid'')]) (\<lambda>_.
     rbind (case mc_receipt c of None \<Rightarrow> Inr () | Some r \<Rightarrow> me_validate_receipt r) (\<lambda>_.
       if mc_failure_reason c \<noteq> [] then me_validate_reason (mc_failure_reason c) else Inr ())))))"

text \<open>The assignments, in the order the code appends them.\<close>

definition me_pg_assign :: "(string \<Rightarrow> string) \<Rightarrow> me_change \<Rightarrow> string \<Rightarrow> me_intent \<Rightarrow> me_intent" where
  "me_pg_assign ts c now r =
     (let r1 = r\<lparr>me_status := mc_status c, me_updated_at := ts now\<rparr>;
          r2 = (case mc_output_text c of None \<Rightarrow> r1 | Some t \<Rightarrow> r1\<lparr>me_output_text := t\<rparr>);
          r3 = (case mc_output_sha256 c of None \<Rightarrow> r2 | Some d \<Rightarrow> r2\<lparr>me_output_sha256 := d\<rparr>);
          r4 = (case mc_receipt c of None \<Rightarrow> r3 | Some x \<Rightarrow> r3\<lparr>me_receipt := canonical_receipt x\<rparr>);
          r5 = (if mc_failure_reason c \<noteq> [] \<or> mc_status c = ''succeeded''
                then r4\<lparr>me_failure_reason := mc_failure_reason c\<rparr> else r4)
      in if mc_completed c then r5\<lparr>me_completed_at := Some (ts now)\<rparr> else r5)"

definition me_pg_transition ::
  "(string \<Rightarrow> string) \<Rightarrow> me_table \<Rightarrow> string \<Rightarrow> string \<Rightarrow> int \<Rightarrow> me_change \<Rightarrow> string \<Rightarrow> (me_table \<times> me_intent) res" where
  "me_pg_transition ts rows tenant effect fence c now =
     rbind (me_pg_check_change tenant effect fence c) (\<lambda>_.
       let hit = (\<lambda>r. me_tenant_id r = tenant \<and> me_effect_id r = effect \<and> me_status r = ''pending'' \<and> me_fence r = fence) in
       if sql_count hit rows \<noteq> 1
       then Inl (ModelEffectStateError ''model effect intent is not pending for this fence'')
       else let rows' = sql_update hit (me_pg_assign ts c now) rows in
         rbind (me_pg_get rows' tenant effect) (\<lambda>r. Inr (rows', r)))"

definition me_pg_complete ::
  "(string \<Rightarrow> string) \<Rightarrow> me_table \<Rightarrow> string \<Rightarrow> string \<Rightarrow> int \<Rightarrow> string \<Rightarrow> (string \<times> json) list \<Rightarrow> string
   \<Rightarrow> (me_table \<times> me_intent) res" where
  "me_pg_complete ts rows tenant effect fence output receipt now =
     rbind (me_validate_output output) (\<lambda>_.
     rbind (me_validate_receipt receipt) (\<lambda>_.
       me_pg_transition ts rows tenant effect fence
         \<lparr>mc_status = ''succeeded'', mc_output_text = Some output,
          mc_output_sha256 = Some (sha256_text output), mc_receipt = Some receipt,
          mc_failure_reason = [], mc_completed = True\<rparr> now))"

definition me_pg_mark_unknown ::
  "(string \<Rightarrow> string) \<Rightarrow> me_table \<Rightarrow> string \<Rightarrow> string \<Rightarrow> int \<Rightarrow> string \<Rightarrow> string \<Rightarrow> (me_table \<times> me_intent) res" where
  "me_pg_mark_unknown ts rows tenant effect fence reason now =
     me_pg_transition ts rows tenant effect fence \<lparr>mc_status = ''unknown'', mc_output_text = None,
       mc_output_sha256 = None, mc_receipt = None, mc_failure_reason = reason, mc_completed = False\<rparr> now"

definition me_pg_mark_failed ::
  "(string \<Rightarrow> string) \<Rightarrow> me_table \<Rightarrow> string \<Rightarrow> string \<Rightarrow> int \<Rightarrow> string \<Rightarrow> string \<Rightarrow> (me_table \<times> me_intent) res" where
  "me_pg_mark_failed ts rows tenant effect fence reason now =
     me_pg_transition ts rows tenant effect fence \<lparr>mc_status = ''failed'', mc_output_text = None,
       mc_output_sha256 = None, mc_receipt = None, mc_failure_reason = reason, mc_completed = False\<rparr> now"

definition me_pg_reconcile_success ::
  "(string \<Rightarrow> string) \<Rightarrow> me_table \<Rightarrow> string \<Rightarrow> string \<Rightarrow> string \<Rightarrow> (string \<times> json) list \<Rightarrow> string
   \<Rightarrow> (me_table \<times> me_intent) res" where
  "me_pg_reconcile_success ts rows tenant effect output receipt now =
     rbind (me_validate_identity tenant effect) (\<lambda>_.
     rbind (me_validate_output output) (\<lambda>_.
     rbind (me_validate_receipt receipt) (\<lambda>_.
       let hit = (\<lambda>r. me_tenant_id r = tenant \<and> me_effect_id r = effect \<and> me_status r = ''unknown'') in
       if sql_count hit rows \<noteq> 1 then
         (case sql_find (\<lambda>r. me_tenant_id r = tenant \<and> me_effect_id r = effect) rows of
            Some r \<Rightarrow> if me_reconciliation_matches r (sha256_text output) receipt then Inr (rows, r)
              else Inl (ModelEffectStateError ''only an unknown model effect can be reconciled'')
          | None \<Rightarrow> Inl (ModelEffectStateError ''only an unknown model effect can be reconciled''))
       else let rows' = sql_update hit (\<lambda>r. r\<lparr>me_status := ''succeeded'', me_output_text := output,
            me_output_sha256 := sha256_text output, me_receipt := canonical_receipt receipt, me_failure_reason := [],
            me_completed_at := Some (ts now), me_updated_at := ts now\<rparr>) rows in
         rbind (me_pg_get rows' tenant effect) (\<lambda>r. Inr (rows', r)))))"

definition me_pg_revoke_unused ::
  "(string \<Rightarrow> string) \<Rightarrow> me_table \<Rightarrow> string \<Rightarrow> string \<Rightarrow> string \<Rightarrow> string \<Rightarrow> (me_table \<times> nat) res" where
  "me_pg_revoke_unused ts rows tenant run reason now =
     rbind (me_validate_identity tenant run) (\<lambda>_.
     rbind (me_validate_reason reason) (\<lambda>_.
       let hit = (\<lambda>r. me_tenant_id r = tenant \<and> me_run_id r = run \<and> me_status r = ''pending'') in
       Inr (sql_update hit (\<lambda>r. r\<lparr>me_status := ''revoked'', me_fence := me_fence r + 1,
              me_failure_reason := reason, me_revoked_at := Some (ts now), me_updated_at := ts now\<rparr>) rows,
            sql_count hit rows)))"

definition me_pg_list_for_run :: "(string \<Rightarrow> int) \<Rightarrow> me_table \<Rightarrow> string \<Rightarrow> string \<Rightarrow> me_intent list res" where
  "me_pg_list_for_run instant rows tenant run =
     rbind (me_validate_identity tenant run) (\<lambda>_.
       Inr (sort_key (\<lambda>r. instant (me_created_at r)) (sort_key me_effect_id
         (filter (\<lambda>r. me_tenant_id r = tenant \<and> me_run_id r = run) rows))))"


text \<open>Against the SQLite twin: the same rows and results, with each time as the column reads.\<close>

lemma me_pg_find: "sql_first (\<lambda>r. (me_tenant_id r = me_tenant_id i \<and> me_idempotency_digest r = me_idempotency_digest i)
    \<or> (me_tenant_id r = me_tenant_id i \<and> me_binding_digest r = me_binding_digest i))
    (\<lambda>r. if me_tenant_id r = me_tenant_id i \<and> me_idempotency_digest r = me_idempotency_digest i then 0 else 1) rows
  = me_find_existing rows i"
  by (simp add: sql_first_ranked me_find_existing_def)

lemma me_pg_insert_eq: "me_pg_insert ts rows i = me_insert rows (me_pg_times ts i)"
  by (auto simp: me_pg_insert_def me_insert_def me_pg_row_def me_row_def me_pg_times_def list_ex_iff)

lemma me_pg_times_keys [simp]:
  "me_idempotency_digest (me_pg_times ts i) = me_idempotency_digest i"
  "me_binding_digest (me_pg_times ts i) = me_binding_digest i"
  "me_tenant_id (me_pg_times ts i) = me_tenant_id i" "me_status (me_pg_times ts i) = me_status i"
  by (simp_all add: me_pg_times_def)

definition me_pg_result :: "(string \<Rightarrow> string) \<Rightarrow> me_intent reservation \<Rightarrow> me_intent reservation" where
  "me_pg_result ts v = (if res_executable v then v\<lparr>res_intent := me_pg_times ts (res_intent v)\<rparr> else v)"

lemma me_validate_times [simp]: "me_validate_intent (me_pg_times ts i) b = me_validate_intent i b"
  by (simp add: me_validate_intent_def me_pg_times_def)

lemma me_find_times [simp]: "me_find_existing rows (me_pg_times ts i) = me_find_existing rows i"
  by (simp add: me_find_existing_def cong: option.case_cong)

lemma me_pg_reserve_eq:
  "me_reserve rows (me_pg_times ts i) = rbind (me_pg_reserve ts rows i) (\<lambda>(rows', v). Inr (rows', me_pg_result ts v))"
  unfolding me_reserve_def me_pg_reserve_def Let_def me_pg_find
  by (auto simp: me_pg_insert_eq me_pg_result_def rbind_def split: sum.splits option.splits)

lemma me_pg_get_eq: "me_pg_get = me_get"
  by (intro ext) (simp add: me_pg_get_def me_get_def)

lemma me_pg_assign_eq: "me_pg_assign ts c now = me_apply c (ts now)"
  by (intro ext) (simp add: me_pg_assign_def me_apply_def Let_def split: option.splits)

lemma me_pg_transition_eq:
  assumes "case mc_output_sha256 c of None \<Rightarrow> True | Some d \<Rightarrow> is_sha256 d"
  shows "me_pg_transition ts rows t e f c now = me_transition rows t e f c (ts now)"
proof -
  have "me_pg_check_change t e f c = me_check_change t e f c"
    using assms by (auto simp: me_pg_check_change_def me_check_change_def is_sha256_def split: option.splits)
  then show ?thesis
    by (simp add: me_pg_transition_def me_transition_def cas_update_def me_pg_assign_eq me_pg_get_eq Let_def)
qed

lemma me_pg_ops_eq:
  "me_pg_complete ts rows t e f out rec now = me_complete rows t e f out rec (ts now)"
  "me_pg_mark_unknown ts rows t e f reason now = me_mark_unknown rows t e f reason (ts now)"
  "me_pg_mark_failed ts rows t e f reason now = me_mark_failed rows t e f reason (ts now)"
  "me_pg_reconcile_success ts rows t e out rec now = me_reconcile_success rows t e out rec (ts now)"
  "me_pg_revoke_unused ts rows t run reason now = me_revoke_unused rows t run reason (ts now)"
  by (simp_all add: me_pg_complete_def me_complete_def me_pg_mark_unknown_def me_mark_unknown_def
      me_pg_mark_failed_def me_mark_failed_def me_failure_def me_pg_transition_eq me_pg_reconcile_success_def
      me_reconcile_success_def cas_update_def me_reconciled_def [abs_def] me_pg_get_eq me_pg_revoke_unused_def
      me_revoke_unused_def me_revoked_def [abs_def] Let_def if_distrib cong: option.case_cong)

lemma me_pg_list_eq:
  assumes "time_ordered instant (me_created_at ` set rows)"
  shows "me_pg_list_for_run instant rows t run = me_list_for_run rows t run"
  unfolding me_pg_list_for_run_def me_list_for_run_def
  using assms by (intro arg_cong2 [where f = rbind] refl ext arg_cong [where f = Inr] sort_key_cong_order)
    (auto simp: time_ordered_def)


text \<open>The commands of the store, with the reading of the clock they take.\<close>

datatype me_store_command =
    MeReserve me_intent
  | MeGet string string
  | MeComplete string string int string "(string \<times> json) list" string
  | MeUnknown string string int string string
  | MeFailed string string int string string
  | MeReconcile string string string "(string \<times> json) list" string
  | MeRevoke string string string string
  | MeList string string

datatype me_answer = MeReserved "me_intent reservation" | MeIntent me_intent | MeRevoked nat | MeIntents "me_intent list"

fun me_exec :: "me_store_command \<Rightarrow> me_table \<Rightarrow> me_table \<times> me_answer res" where
  "me_exec (MeReserve i) rows = answer MeReserved (me_reserve rows i) rows"
| "me_exec (MeGet t e) rows = answer_read MeIntent (me_get rows t e) rows"
| "me_exec (MeComplete t e f out rec now) rows = answer MeIntent (me_complete rows t e f out rec now) rows"
| "me_exec (MeUnknown t e f reason now) rows = answer MeIntent (me_mark_unknown rows t e f reason now) rows"
| "me_exec (MeFailed t e f reason now) rows = answer MeIntent (me_mark_failed rows t e f reason now) rows"
| "me_exec (MeReconcile t e out rec now) rows = answer MeIntent (me_reconcile_success rows t e out rec now) rows"
| "me_exec (MeRevoke t run reason now) rows = answer MeRevoked (me_revoke_unused rows t run reason now) rows"
| "me_exec (MeList t run) rows = answer_read MeIntents (me_list_for_run rows t run) rows"

fun me_pg_exec :: "(string \<Rightarrow> string) \<Rightarrow> (string \<Rightarrow> int) \<Rightarrow> me_store_command \<Rightarrow> me_table \<Rightarrow> me_table \<times> me_answer res" where
  "me_pg_exec ts instant (MeReserve i) rows = answer MeReserved (me_pg_reserve ts rows i) rows"
| "me_pg_exec ts instant (MeGet t e) rows = answer_read MeIntent (me_pg_get rows t e) rows"
| "me_pg_exec ts instant (MeComplete t e f out rec now) rows = answer MeIntent (me_pg_complete ts rows t e f out rec now) rows"
| "me_pg_exec ts instant (MeUnknown t e f reason now) rows = answer MeIntent (me_pg_mark_unknown ts rows t e f reason now) rows"
| "me_pg_exec ts instant (MeFailed t e f reason now) rows = answer MeIntent (me_pg_mark_failed ts rows t e f reason now) rows"
| "me_pg_exec ts instant (MeReconcile t e out rec now) rows = answer MeIntent (me_pg_reconcile_success ts rows t e out rec now) rows"
| "me_pg_exec ts instant (MeRevoke t run reason now) rows = answer MeRevoked (me_pg_revoke_unused ts rows t run reason now) rows"
| "me_pg_exec ts instant (MeList t run) rows = answer_read MeIntents (me_pg_list_for_run instant rows t run) rows"

text \<open>A command with its times as PostgreSQL reads them, and an answer with the times of a granted intent so.\<close>

fun me_command_times :: "(string \<Rightarrow> string) \<Rightarrow> me_store_command \<Rightarrow> me_store_command" where
  "me_command_times ts (MeReserve i) = MeReserve (me_pg_times ts i)"
| "me_command_times ts (MeComplete t e f out rec now) = MeComplete t e f out rec (ts now)"
| "me_command_times ts (MeUnknown t e f reason now) = MeUnknown t e f reason (ts now)"
| "me_command_times ts (MeFailed t e f reason now) = MeFailed t e f reason (ts now)"
| "me_command_times ts (MeReconcile t e out rec now) = MeReconcile t e out rec (ts now)"
| "me_command_times ts (MeRevoke t run reason now) = MeRevoke t run reason (ts now)"
| "me_command_times ts c = c"

definition me_answer_times :: "(string \<Rightarrow> string) \<Rightarrow> me_answer res \<Rightarrow> me_answer res" where
  "me_answer_times ts a = (case a of Inr (MeReserved v) \<Rightarrow> Inr (MeReserved (me_pg_result ts v)) | _ \<Rightarrow> a)"

text \<open>Lists are ordered by instants on PostgreSQL: the clock's texts must be in the order of their instants.\<close>

definition me_list_ordered :: "(string \<Rightarrow> int) \<Rightarrow> me_store_command \<Rightarrow> me_table \<Rightarrow> bool" where
  "me_list_ordered instant c rows \<longleftrightarrow>
     (case c of MeList t run \<Rightarrow> time_ordered instant (me_created_at ` set rows) | _ \<Rightarrow> True)"

lemma me_twin_step:
  assumes "me_list_ordered instant c rows"
  shows "me_exec (me_command_times ts c) rows
    = (fst (me_pg_exec ts instant c rows), me_answer_times ts (snd (me_pg_exec ts instant c rows)))"
proof (cases c)
  case (MeReserve i)
  then show ?thesis
    by (cases "me_pg_reserve ts rows i") (auto simp: me_pg_reserve_eq answer_def me_answer_times_def)
next
  case (MeList t run)
  then show ?thesis using assms
    by (cases "me_list_for_run rows t run")
      (simp_all add: me_list_ordered_def me_pg_list_eq answer_read_def me_answer_times_def)
qed (auto simp: me_pg_ops_eq me_pg_get_eq answer_def answer_read_def me_answer_times_def commit_def rbind_def split: sum.splits)

interpretation me_twins: twin_stores "me_pg_exec ts instant" "\<lambda>c. me_exec (me_command_times ts c)" "(=)"
    "\<lambda>a b. b = me_answer_times ts a" "me_list_ordered instant"
  for ts instant
  by unfold_locales (simp add: me_twin_step)

end
