(* ===== verification/PostgresPublications.thy ===== *)
theory PostgresPublications
  imports Twins PublicationStore
begin

text \<open>
  \<open>backend/agency_runtime/social_publication_postgres.py\<close>: the table of publication intents on PostgreSQL,
  in the style of \<open>PostgresIntents\<close>. Revocation validates its filter with other messages than SQLite's.
\<close>

section \<open>Operations\<close>

definition sp_pg_times :: "(string \<Rightarrow> string) \<Rightarrow> sp_intent \<Rightarrow> sp_intent" where
  "sp_pg_times ts i = i\<lparr>sp_created_at := ts (sp_created_at i), sp_updated_at := ts (sp_updated_at i),
     sp_completed_at := map_option ts (sp_completed_at i), sp_revoked_at := map_option ts (sp_revoked_at i)\<rparr>"

definition sp_pg_row :: "(string \<Rightarrow> string) \<Rightarrow> sp_intent \<Rightarrow> sp_intent" where
  "sp_pg_row ts i = (sp_pg_times ts i)\<lparr>sp_receipt := canonical_receipt (sp_receipt i)\<rparr>"

definition sp_pg_insert :: "(string \<Rightarrow> string) \<Rightarrow> sp_table \<Rightarrow> sp_intent \<Rightarrow> sp_table res" where
  "sp_pg_insert ts rows i =
     (if list_ex (\<lambda>r. sp_intent_id r = sp_intent_id i) rows
         \<or> list_ex (\<lambda>r. sp_tenant_id r = sp_tenant_id i \<and> sp_idempotency_digest r = sp_idempotency_digest i) rows
         \<or> list_ex (\<lambda>r. sp_tenant_id r = sp_tenant_id i \<and> sp_binding_digest r = sp_binding_digest i) rows
      then Inl IntegrityError else Inr (rows @ [sp_pg_row ts i]))"

definition sp_pg_reserve ::
  "(string \<Rightarrow> string) \<Rightarrow> sp_table \<Rightarrow> sp_intent \<Rightarrow> (sp_table \<times> sp_intent reservation) res" where
  "sp_pg_reserve ts rows i =
     rbind (sp_validate_intent i True) (\<lambda>_.
       let idem = (\<lambda>r. sp_tenant_id r = sp_tenant_id i \<and> sp_idempotency_digest r = sp_idempotency_digest i);
           bind = (\<lambda>r. sp_tenant_id r = sp_tenant_id i \<and> sp_binding_digest r = sp_binding_digest i) in
       case sql_first (\<lambda>r. idem r \<or> bind r) (\<lambda>r. if idem r then 0 else 1) rows of
         Some r \<Rightarrow> rbind (raise_first
            [(sp_idempotency_digest r = sp_idempotency_digest i \<and> sp_binding_digest r \<noteq> sp_binding_digest i,
               SocialPublicationConflictError ''publication idempotency key conflicts with a prior binding''),
             (sp_binding_digest r \<noteq> sp_binding_digest i,
               SocialPublicationConflictError ''publication binding conflicts with a prior intent'')]) (\<lambda>_.
            Inr (rows, \<lparr>res_intent = r, res_executable = False, res_replayed = (sp_status r = ''succeeded'')\<rparr>))
       | None \<Rightarrow> rbind (sp_pg_insert ts rows i) (\<lambda>rows'.
            Inr (rows', \<lparr>res_intent = i, res_executable = True, res_replayed = False\<rparr>)))"

definition sp_pg_get :: "sp_table \<Rightarrow> string \<Rightarrow> string \<Rightarrow> sp_intent res" where
  "sp_pg_get rows tenant ident =
     rbind (sp_validate_identity tenant ident) (\<lambda>_.
       case sql_find (\<lambda>r. sp_tenant_id r = tenant \<and> sp_intent_id r = ident) rows of
         None \<Rightarrow> Inl (KeyError ''social publication intent not found'') | Some r \<Rightarrow> Inr r)"

definition sp_pg_check_change :: "string \<Rightarrow> string \<Rightarrow> int \<Rightarrow> sp_change \<Rightarrow> unit res" where
  "sp_pg_check_change tenant ident fence c =
     rbind (sp_validate_identity tenant ident) (\<lambda>_.
     rbind (raise_first
       [(fence < 1, ValueError ''publication fence must be positive''),
        (sc_status c \<notin> set SP_STATUSES, ValueError ''publication status is invalid'')]) (\<lambda>_.
     rbind (case sc_container_id c of None \<Rightarrow> Inr () | Some v \<Rightarrow> sp_validate_provider_id v) (\<lambda>_.
     rbind (case sc_post_id c of None \<Rightarrow> Inr () | Some v \<Rightarrow> sp_validate_provider_id v) (\<lambda>_.
     rbind (case sc_receipt c of None \<Rightarrow> Inr () | Some r \<Rightarrow> sp_validate_receipt r) (\<lambda>_.
       if sc_failure_reason c \<noteq> [] then sp_validate_reason (sc_failure_reason c) else Inr ())))))"

text \<open>The assignments, in the order the code appends them.\<close>

definition sp_pg_assign :: "(string \<Rightarrow> string) \<Rightarrow> sp_change \<Rightarrow> string \<Rightarrow> sp_intent \<Rightarrow> sp_intent" where
  "sp_pg_assign ts c now r =
     (let r1 = r\<lparr>sp_status := sc_status c, sp_updated_at := ts now\<rparr>;
          r2 = (case sc_container_id c of None \<Rightarrow> r1 | Some v \<Rightarrow> r1\<lparr>sp_provider_container_id := Some v\<rparr>);
          r3 = (case sc_post_id c of None \<Rightarrow> r2 | Some v \<Rightarrow> r2\<lparr>sp_provider_post_id := Some v\<rparr>);
          r4 = (case sc_receipt c of None \<Rightarrow> r3 | Some x \<Rightarrow> r3\<lparr>sp_receipt := canonical_receipt x\<rparr>);
          r5 = (if sc_failure_reason c \<noteq> [] \<or> sc_status c = ''succeeded'' \<or> sc_status c = ''pending''
                then r4\<lparr>sp_failure_reason := sc_failure_reason c\<rparr> else r4)
      in if sc_completed c then r5\<lparr>sp_completed_at := Some (ts now)\<rparr> else r5)"

definition sp_pg_transition ::
  "(string \<Rightarrow> string) \<Rightarrow> sp_table \<Rightarrow> string \<Rightarrow> string \<Rightarrow> int \<Rightarrow> sp_change \<Rightarrow> string \<Rightarrow> (sp_table \<times> sp_intent) res" where
  "sp_pg_transition ts rows tenant ident fence c now =
     rbind (sp_pg_check_change tenant ident fence c) (\<lambda>_.
       let hit = (\<lambda>r. sp_tenant_id r = tenant \<and> sp_intent_id r = ident \<and> sp_status r = ''pending'' \<and> sp_fence r = fence) in
       if sql_count hit rows \<noteq> 1
       then Inl (SocialPublicationStateError ''publication intent is not pending for this fence'')
       else let rows' = sql_update hit (sp_pg_assign ts c now) rows in
         rbind (sp_pg_get rows' tenant ident) (\<lambda>r. Inr (rows', r)))"

definition sp_pg_record_container ::
  "(string \<Rightarrow> string) \<Rightarrow> sp_table \<Rightarrow> string \<Rightarrow> string \<Rightarrow> int \<Rightarrow> string \<Rightarrow> string \<Rightarrow> (sp_table \<times> sp_intent) res" where
  "sp_pg_record_container ts rows tenant ident fence container now =
     sp_pg_transition ts rows tenant ident fence
       \<lparr>sc_status = ''pending'', sc_container_id = Some container, sc_post_id = None, sc_receipt = None,
        sc_failure_reason = [], sc_completed = False\<rparr> now"

definition sp_pg_complete ::
  "(string \<Rightarrow> string) \<Rightarrow> sp_table \<Rightarrow> string \<Rightarrow> string \<Rightarrow> int \<Rightarrow> string \<Rightarrow> (string \<times> json) list \<Rightarrow> string
   \<Rightarrow> (sp_table \<times> sp_intent) res" where
  "sp_pg_complete ts rows tenant ident fence post receipt now =
     sp_pg_transition ts rows tenant ident fence
       \<lparr>sc_status = ''succeeded'', sc_container_id = None, sc_post_id = Some post, sc_receipt = Some receipt,
        sc_failure_reason = [], sc_completed = True\<rparr> now"

definition sp_pg_mark_unknown ::
  "(string \<Rightarrow> string) \<Rightarrow> sp_table \<Rightarrow> string \<Rightarrow> string \<Rightarrow> int \<Rightarrow> string \<Rightarrow> string \<Rightarrow> (sp_table \<times> sp_intent) res" where
  "sp_pg_mark_unknown ts rows tenant ident fence reason now =
     sp_pg_transition ts rows tenant ident fence \<lparr>sc_status = ''unknown'', sc_container_id = None,
       sc_post_id = None, sc_receipt = None, sc_failure_reason = reason, sc_completed = False\<rparr> now"

definition sp_pg_mark_failed ::
  "(string \<Rightarrow> string) \<Rightarrow> sp_table \<Rightarrow> string \<Rightarrow> string \<Rightarrow> int \<Rightarrow> string \<Rightarrow> string \<Rightarrow> (sp_table \<times> sp_intent) res" where
  "sp_pg_mark_failed ts rows tenant ident fence reason now =
     sp_pg_transition ts rows tenant ident fence \<lparr>sc_status = ''failed'', sc_container_id = None,
       sc_post_id = None, sc_receipt = None, sc_failure_reason = reason, sc_completed = False\<rparr> now"

definition sp_pg_reconcile_success ::
  "(string \<Rightarrow> string) \<Rightarrow> sp_table \<Rightarrow> string \<Rightarrow> string \<Rightarrow> string \<Rightarrow> (string \<times> json) list \<Rightarrow> string
   \<Rightarrow> (sp_table \<times> sp_intent) res" where
  "sp_pg_reconcile_success ts rows tenant ident post receipt now =
     rbind (sp_validate_identity tenant ident) (\<lambda>_.
     rbind (sp_validate_provider_id post) (\<lambda>_.
     rbind (sp_validate_receipt receipt) (\<lambda>_.
       let hit = (\<lambda>r. sp_tenant_id r = tenant \<and> sp_intent_id r = ident \<and> sp_status r = ''unknown'') in
       if sql_count hit rows \<noteq> 1 then
         (case sql_find (\<lambda>r. sp_tenant_id r = tenant \<and> sp_intent_id r = ident) rows of
            Some r \<Rightarrow> if sp_reconciliation_matches r post receipt then Inr (rows, r)
              else Inl (SocialPublicationStateError ''only an unknown publication can be reconciled'')
          | None \<Rightarrow> Inl (SocialPublicationStateError ''only an unknown publication can be reconciled''))
       else let rows' = sql_update hit (\<lambda>r. r\<lparr>sp_status := ''succeeded'', sp_provider_post_id := Some post,
            sp_receipt := canonical_receipt receipt, sp_failure_reason := [],
            sp_completed_at := Some (ts now), sp_updated_at := ts now\<rparr>) rows in
         rbind (sp_pg_get rows' tenant ident) (\<lambda>r. Inr (rows', r)))))"

definition sp_pg_revoke_unused ::
  "(string \<Rightarrow> string) \<Rightarrow> sp_table \<Rightarrow> string \<Rightarrow> string option \<Rightarrow> string option \<Rightarrow> string option \<Rightarrow> string \<Rightarrow> string
   \<Rightarrow> (sp_table \<times> nat) res" where
  "sp_pg_revoke_unused ts rows tenant channel account run reason now =
     rbind (sp_validate_identity tenant tenant) (\<lambda>_.
     rbind (case channel of None \<Rightarrow> Inr () | Some v \<Rightarrow>
       raise_first [(v \<notin> {''x'', ''instagram''}, ValueError ''channel_id is invalid'')]) (\<lambda>_.
     rbind (case account of None \<Rightarrow> Inr () | Some v \<Rightarrow> sp_validate_identity tenant v) (\<lambda>_.
     rbind (case run of None \<Rightarrow> Inr () | Some v \<Rightarrow> sp_validate_identity tenant v) (\<lambda>_.
     rbind (sp_validate_reason reason) (\<lambda>_.
       let given = (\<lambda>column value. case value of None \<Rightarrow> True | Some v \<Rightarrow> column = v);
           hit = (\<lambda>r. sp_tenant_id r = tenant \<and> sp_status r = ''pending'' \<and> given (sp_channel_id r) channel
             \<and> given (sp_account_id r) account \<and> given (sp_run_id r) run) in
       Inr (sql_update hit (\<lambda>r. r\<lparr>sp_status := ''revoked'', sp_failure_reason := reason,
              sp_revoked_at := Some (ts now), sp_updated_at := ts now\<rparr>) rows, sql_count hit rows))))))"

definition sp_pg_list_for_run :: "(string \<Rightarrow> int) \<Rightarrow> sp_table \<Rightarrow> string \<Rightarrow> string \<Rightarrow> sp_intent list res" where
  "sp_pg_list_for_run instant rows tenant run =
     rbind (sp_validate_identity tenant run) (\<lambda>_.
       Inr (sort_key (\<lambda>r. instant (sp_created_at r)) (sort_key sp_intent_id
         (filter (\<lambda>r. sp_tenant_id r = tenant \<and> sp_run_id r = run) rows))))"

section \<open>Against the SQLite twin\<close>

lemma sp_pg_find: "sql_first (\<lambda>r. (sp_tenant_id r = sp_tenant_id i \<and> sp_idempotency_digest r = sp_idempotency_digest i)
    \<or> (sp_tenant_id r = sp_tenant_id i \<and> sp_binding_digest r = sp_binding_digest i))
    (\<lambda>r. if sp_tenant_id r = sp_tenant_id i \<and> sp_idempotency_digest r = sp_idempotency_digest i then 0 else 1) rows
  = sp_find_existing rows i"
  by (simp add: sql_first_ranked sp_find_existing_def)

lemma sp_pg_insert_eq: "sp_pg_insert ts rows i = sp_insert rows (sp_pg_times ts i)"
  by (auto simp: sp_pg_insert_def sp_insert_def sp_pg_row_def sp_row_def sp_pg_times_def list_ex_iff)

lemma sp_pg_times_keys [simp]:
  "sp_idempotency_digest (sp_pg_times ts i) = sp_idempotency_digest i"
  "sp_binding_digest (sp_pg_times ts i) = sp_binding_digest i"
  "sp_tenant_id (sp_pg_times ts i) = sp_tenant_id i" "sp_status (sp_pg_times ts i) = sp_status i"
  by (simp_all add: sp_pg_times_def)

definition sp_pg_result :: "(string \<Rightarrow> string) \<Rightarrow> sp_intent reservation \<Rightarrow> sp_intent reservation" where
  "sp_pg_result ts v = (if res_executable v then v\<lparr>res_intent := sp_pg_times ts (res_intent v)\<rparr> else v)"

lemma sp_validate_times [simp]: "sp_validate_intent (sp_pg_times ts i) b = sp_validate_intent i b"
  by (simp add: sp_validate_intent_def sp_pg_times_def)

lemma sp_find_times [simp]: "sp_find_existing rows (sp_pg_times ts i) = sp_find_existing rows i"
  by (simp add: sp_find_existing_def cong: option.case_cong)

lemma sp_pg_reserve_eq:
  "sp_reserve rows (sp_pg_times ts i) = rbind (sp_pg_reserve ts rows i) (\<lambda>(rows', v). Inr (rows', sp_pg_result ts v))"
  unfolding sp_reserve_def sp_pg_reserve_def Let_def sp_pg_find
  by (auto simp: sp_pg_insert_eq sp_pg_result_def rbind_def split: sum.splits option.splits)

lemma sp_pg_get_eq: "sp_pg_get = sp_get"
  by (intro ext) (simp add: sp_pg_get_def sp_get_def)

lemma sp_pg_assign_eq: "sp_pg_assign ts c now = sp_apply c (ts now)"
  by (intro ext) (simp add: sp_pg_assign_def sp_apply_def Let_def split: option.splits)

lemma sp_pg_transition_eq: "sp_pg_transition ts rows t e f c now = sp_transition rows t e f c (ts now)"
  by (simp add: sp_pg_transition_def sp_transition_def cas_update_def sp_pg_assign_eq sp_pg_get_eq
      sp_pg_check_change_def sp_check_change_def Let_def)

lemma sp_pg_ops_eq:
  "sp_pg_record_container ts rows t e f cid now = sp_record_container rows t e f cid (ts now)"
  "sp_pg_complete ts rows t e f post rec now = sp_complete rows t e f post rec (ts now)"
  "sp_pg_mark_unknown ts rows t e f reason now = sp_mark_unknown rows t e f reason (ts now)"
  "sp_pg_mark_failed ts rows t e f reason now = sp_mark_failed rows t e f reason (ts now)"
  "sp_pg_reconcile_success ts rows t e post rec now = sp_reconcile_success rows t e post rec (ts now)"
  by (simp_all add: sp_pg_record_container_def sp_record_container_def sp_pg_complete_def sp_complete_def
      sp_pg_mark_unknown_def sp_mark_unknown_def sp_pg_mark_failed_def sp_mark_failed_def sp_failure_def
      sp_pg_transition_eq sp_pg_reconcile_success_def sp_reconcile_success_def cas_update_def
      sp_reconciled_def [abs_def] sp_pg_get_eq Let_def if_distrib cong: option.case_cong)

lemma sp_pg_list_eq:
  assumes "time_ordered instant (sp_created_at ` set rows)"
  shows "sp_pg_list_for_run instant rows t run = sp_list_for_run rows t run"
  unfolding sp_pg_list_for_run_def sp_list_for_run_def
  using assms by (intro arg_cong2 [where f = rbind] refl ext arg_cong [where f = Inr] sort_key_cong_order)
    (auto simp: time_ordered_def)

text \<open>A revocation with an invalid filter raises a \<open>ValueError\<close> on both, and with a valid one does the same.\<close>

lemma sp_pg_revoke_eq:
  "sp_pg_revoke_unused ts rows t ch ac run reason now = sp_revoke_unused rows t ch ac run reason (ts now)
   \<or> (\<exists>m m'. sp_pg_revoke_unused ts rows t ch ac run reason now = Inl (ValueError m)
        \<and> sp_revoke_unused rows t ch ac run reason (ts now) = Inl (ValueError m'))"
proof (cases "sp_identifier t \<and> pred_option sp_channel ch \<and> pred_option sp_identifier ac \<and> pred_option sp_identifier run")
  case True
  then have "sp_validate_identity t t = Inr ()"
    "(case ch of None \<Rightarrow> Inr () | Some v \<Rightarrow> raise_first [(v \<notin> {''x'', ''instagram''}, ValueError ''channel_id is invalid'')]) = Inr ()"
    "(case ac of None \<Rightarrow> Inr () | Some v \<Rightarrow> sp_validate_identity t v) = Inr ()"
    "(case run of None \<Rightarrow> Inr () | Some v \<Rightarrow> sp_validate_identity t v) = Inr ()"
    by (auto simp: sp_validate_identity_def sp_channel_def split: option.splits)
  moreover have "(case ch of None \<Rightarrow> False | Some v \<Rightarrow> \<not> sp_channel v) = False"
    "(case ac of None \<Rightarrow> False | Some v \<Rightarrow> \<not> sp_identifier v) = False"
    "(case run of None \<Rightarrow> False | Some v \<Rightarrow> \<not> sp_identifier v) = False"
    using True by (auto split: option.splits)
  ultimately show ?thesis
    using True by (simp add: sp_pg_revoke_unused_def sp_revoke_unused_def sp_revoke_matches_def [abs_def] sp_revoked_def [abs_def] Let_def)
next
  case False
  have "\<exists>m. sp_pg_revoke_unused ts rows t ch ac run reason now = Inl (ValueError m)"
    using False by (cases ch; cases ac; cases run) (auto simp: sp_pg_revoke_unused_def sp_validate_identity_def sp_channel_def)
  moreover have "\<exists>m. sp_revoke_unused rows t ch ac run reason (ts now) = Inl (ValueError m)"
    using False by (cases ch; cases ac; cases run) (auto simp: sp_revoke_unused_def)
  ultimately show ?thesis by blast
qed

datatype sp_command =
    SpReserve sp_intent
  | SpGet string string
  | SpContainer string string int string string
  | SpComplete string string int string "(string \<times> json) list" string
  | SpUnknown string string int string string
  | SpFailed string string int string string
  | SpReconcile string string string "(string \<times> json) list" string
  | SpRevoke string "string option" "string option" "string option" string string
  | SpList string string

datatype sp_answer = SpReserved "sp_intent reservation" | SpIntent sp_intent | SpRevoked nat | SpIntents "sp_intent list"

fun sp_exec :: "sp_command \<Rightarrow> sp_table \<Rightarrow> sp_table \<times> sp_answer res" where
  "sp_exec (SpReserve i) rows = answer SpReserved (sp_reserve rows i) rows"
| "sp_exec (SpGet t e) rows = answer_read SpIntent (sp_get rows t e) rows"
| "sp_exec (SpContainer t e f c now) rows = answer SpIntent (sp_record_container rows t e f c now) rows"
| "sp_exec (SpComplete t e f post rec now) rows = answer SpIntent (sp_complete rows t e f post rec now) rows"
| "sp_exec (SpUnknown t e f reason now) rows = answer SpIntent (sp_mark_unknown rows t e f reason now) rows"
| "sp_exec (SpFailed t e f reason now) rows = answer SpIntent (sp_mark_failed rows t e f reason now) rows"
| "sp_exec (SpReconcile t e post rec now) rows = answer SpIntent (sp_reconcile_success rows t e post rec now) rows"
| "sp_exec (SpRevoke t ch ac run reason now) rows = answer SpRevoked (sp_revoke_unused rows t ch ac run reason now) rows"
| "sp_exec (SpList t run) rows = answer_read SpIntents (sp_list_for_run rows t run) rows"

fun sp_pg_exec :: "(string \<Rightarrow> string) \<Rightarrow> (string \<Rightarrow> int) \<Rightarrow> sp_command \<Rightarrow> sp_table \<Rightarrow> sp_table \<times> sp_answer res" where
  "sp_pg_exec ts instant (SpReserve i) rows = answer SpReserved (sp_pg_reserve ts rows i) rows"
| "sp_pg_exec ts instant (SpGet t e) rows = answer_read SpIntent (sp_pg_get rows t e) rows"
| "sp_pg_exec ts instant (SpContainer t e f c now) rows = answer SpIntent (sp_pg_record_container ts rows t e f c now) rows"
| "sp_pg_exec ts instant (SpComplete t e f post rec now) rows = answer SpIntent (sp_pg_complete ts rows t e f post rec now) rows"
| "sp_pg_exec ts instant (SpUnknown t e f reason now) rows = answer SpIntent (sp_pg_mark_unknown ts rows t e f reason now) rows"
| "sp_pg_exec ts instant (SpFailed t e f reason now) rows = answer SpIntent (sp_pg_mark_failed ts rows t e f reason now) rows"
| "sp_pg_exec ts instant (SpReconcile t e post rec now) rows = answer SpIntent (sp_pg_reconcile_success ts rows t e post rec now) rows"
| "sp_pg_exec ts instant (SpRevoke t ch ac run reason now) rows = answer SpRevoked (sp_pg_revoke_unused ts rows t ch ac run reason now) rows"
| "sp_pg_exec ts instant (SpList t run) rows = answer_read SpIntents (sp_pg_list_for_run instant rows t run) rows"

fun sp_command_times :: "(string \<Rightarrow> string) \<Rightarrow> sp_command \<Rightarrow> sp_command" where
  "sp_command_times ts (SpReserve i) = SpReserve (sp_pg_times ts i)"
| "sp_command_times ts (SpContainer t e f c now) = SpContainer t e f c (ts now)"
| "sp_command_times ts (SpComplete t e f post rec now) = SpComplete t e f post rec (ts now)"
| "sp_command_times ts (SpUnknown t e f reason now) = SpUnknown t e f reason (ts now)"
| "sp_command_times ts (SpFailed t e f reason now) = SpFailed t e f reason (ts now)"
| "sp_command_times ts (SpReconcile t e post rec now) = SpReconcile t e post rec (ts now)"
| "sp_command_times ts (SpRevoke t ch ac run reason now) = SpRevoke t ch ac run reason (ts now)"
| "sp_command_times ts c = c"

text \<open>An answer of PostgreSQL and the answer of SQLite: equal, with the times of a granted intent as the column
  reads; or two \<open>ValueError\<close>s, whose texts may differ.\<close>

definition sp_answers_agree :: "(string \<Rightarrow> string) \<Rightarrow> sp_answer res \<Rightarrow> sp_answer res \<Rightarrow> bool" where
  "sp_answers_agree ts a b \<longleftrightarrow>
     b = (case a of Inr (SpReserved v) \<Rightarrow> Inr (SpReserved (sp_pg_result ts v)) | _ \<Rightarrow> a)
     \<or> (\<exists>m m'. a = Inl (ValueError m) \<and> b = Inl (ValueError m'))"

definition sp_list_ordered :: "(string \<Rightarrow> int) \<Rightarrow> sp_command \<Rightarrow> sp_table \<Rightarrow> bool" where
  "sp_list_ordered instant c rows \<longleftrightarrow>
     (case c of SpList t run \<Rightarrow> time_ordered instant (sp_created_at ` set rows) | _ \<Rightarrow> True)"

lemma sp_twin_step:
  assumes "sp_list_ordered instant c rows"
  shows "fst (sp_pg_exec ts instant c rows) = fst (sp_exec (sp_command_times ts c) rows)
    \<and> sp_answers_agree ts (snd (sp_pg_exec ts instant c rows)) (snd (sp_exec (sp_command_times ts c) rows))"
proof (cases c)
  case (SpReserve i)
  then show ?thesis
    by (cases "sp_pg_reserve ts rows i") (auto simp: sp_pg_reserve_eq answer_def sp_answers_agree_def)
next
  case (SpList t run)
  then show ?thesis using assms
    by (cases "sp_list_for_run rows t run")
      (simp_all add: sp_list_ordered_def sp_pg_list_eq answer_read_def sp_answers_agree_def)
next
  case (SpRevoke t ch ac run reason now)
  then show ?thesis
    using sp_pg_revoke_eq [of ts rows t ch ac run reason now]
    by (cases "sp_revoke_unused rows t ch ac run reason (ts now)") (auto simp: answer_def sp_answers_agree_def)
qed (auto simp: sp_pg_ops_eq sp_pg_get_eq answer_def answer_read_def sp_answers_agree_def commit_def rbind_def
    split: sum.splits)

interpretation sp_twins: twin_stores "sp_pg_exec ts instant" "\<lambda>c. sp_exec (sp_command_times ts c)" "(=)"
    "sp_answers_agree ts" "sp_list_ordered instant"
  for ts instant
  by unfold_locales (use sp_twin_step in auto)

end
