(* ===== verification/PostgresEffects.thy ===== *)
theory PostgresEffects
  imports PostgresIntents PostgresPublications
begin

text \<open>
  The two intent stores on PostgreSQL against their SQLite twins, over sequences of commands: the same
  tables, the same answers, and at most one granted execution for each key.
\<close>

section \<open>Granted executions\<close>

definition me_granted :: "me_answer res list \<Rightarrow> me_intent list" where
  "me_granted as = concat (map (\<lambda>a. case a of Inr (MeReserved v) \<Rightarrow> if res_executable v then [res_intent v] else [] | _ \<Rightarrow> []) as)"

definition sp_granted :: "sp_answer res list \<Rightarrow> sp_intent list" where
  "sp_granted as = concat (map (\<lambda>a. case a of Inr (SpReserved v) \<Rightarrow> if res_executable v then [res_intent v] else [] | _ \<Rightarrow> []) as)"

lemma granted_Nil [simp]: "me_granted [] = []" "sp_granted [] = []"
  by (simp_all add: me_granted_def sp_granted_def)

lemma granted_Cons: "me_granted (a # as) = me_granted [a] @ me_granted as" "sp_granted (b # bs) = sp_granted [b] @ sp_granted bs"
  by (simp_all add: me_granted_def sp_granted_def)

text \<open>One command on PostgreSQL, as a history of the SQLite table.\<close>

lemma me_pg_command_history:
  assumes "history me_reserve me_step rows (map (me_pg_times ts) log)"
  shows "history me_reserve me_step (fst (me_pg_exec ts instant c rows))
    (map (me_pg_times ts) (log @ me_granted [snd (me_pg_exec ts instant c rows)]))"
proof (cases c)
  case (MeReserve i)
  show ?thesis
  proof (cases "me_pg_reserve ts rows i")
    case (Inl e)
    then show ?thesis using assms MeReserve by (simp add: answer_def me_granted_def)
  next
    case (Inr x)
    obtain rows' v where x: "x = (rows', v)" by force
    have r: "me_reserve rows (me_pg_times ts i) = Inr (rows', me_pg_result ts v)" by (simp add: me_pg_reserve_eq Inr x)
    show ?thesis
    proof (cases "res_executable v")
      case True
      then show ?thesis using history.granted [OF assms r] MeReserve Inr x
        by (simp add: answer_def me_granted_def me_pg_result_def)
    next
      case False
      then show ?thesis using history.refused [OF assms r] MeReserve Inr x
        by (simp add: answer_def me_granted_def me_pg_result_def)
    qed
  qed
qed (use assms in \<open>auto simp: me_pg_ops_eq answer_def answer_read_def me_granted_def commit_def rbind_def
      intro: history.stepped me_step.intros split: sum.splits\<close>)

lemma sp_pg_revoke_step:
  "sp_pg_revoke_unused ts rows t ch ac run reason now = Inr (rows', n) \<Longrightarrow> sp_step rows rows'"
  using sp_pg_revoke_eq [of ts rows t ch ac run reason now] by (metis Inl_Inr_False sp_step.revoked)

lemma sp_pg_command_history:
  assumes "history sp_reserve sp_step rows (map (sp_pg_times ts) log)"
  shows "history sp_reserve sp_step (fst (sp_pg_exec ts instant c rows))
    (map (sp_pg_times ts) (log @ sp_granted [snd (sp_pg_exec ts instant c rows)]))"
proof (cases c)
  case (SpReserve i)
  show ?thesis
  proof (cases "sp_pg_reserve ts rows i")
    case (Inl e)
    then show ?thesis using assms SpReserve by (simp add: answer_def sp_granted_def)
  next
    case (Inr x)
    obtain rows' v where x: "x = (rows', v)" by force
    have r: "sp_reserve rows (sp_pg_times ts i) = Inr (rows', sp_pg_result ts v)" by (simp add: sp_pg_reserve_eq Inr x)
    show ?thesis
    proof (cases "res_executable v")
      case True
      then show ?thesis using history.granted [OF assms r] SpReserve Inr x
        by (simp add: answer_def sp_granted_def sp_pg_result_def)
    next
      case False
      then show ?thesis using history.refused [OF assms r] SpReserve Inr x
        by (simp add: answer_def sp_granted_def sp_pg_result_def)
    qed
  qed
qed (use assms in \<open>auto simp: sp_pg_ops_eq answer_def answer_read_def sp_granted_def commit_def rbind_def
      intro: history.stepped sp_step.intros sp_pg_revoke_step split: sum.splits\<close>)

lemma me_pg_transcript_history:
  "history me_reserve me_step rows (map (me_pg_times ts) log) \<Longrightarrow>
   history me_reserve me_step (fst (transcript (me_pg_exec ts instant) cs rows))
     (map (me_pg_times ts) (log @ me_granted (snd (transcript (me_pg_exec ts instant) cs rows))))"
proof (induction cs arbitrary: rows log)
  case (Cons c cs)
  from Cons.IH [OF me_pg_command_history [OF Cons.prems]] show ?case
    by (simp add: split_beta Let_def granted_Cons(1) [of _ "snd (transcript f xs s)" for f xs s])
qed simp

lemma sp_pg_transcript_history:
  "history sp_reserve sp_step rows (map (sp_pg_times ts) log) \<Longrightarrow>
   history sp_reserve sp_step (fst (transcript (sp_pg_exec ts instant) cs rows))
     (map (sp_pg_times ts) (log @ sp_granted (snd (transcript (sp_pg_exec ts instant) cs rows))))"
proof (induction cs arbitrary: rows log)
  case (Cons c cs)
  from Cons.IH [OF sp_pg_command_history [OF Cons.prems]] show ?case
    by (simp add: split_beta Let_def granted_Cons(2) [of _ "snd (transcript f xs s)" for f xs s])
qed simp

section \<open>The properties\<close>

text \<open>C6: on PostgreSQL too an effect is granted at most once. Whatever sequence of commands the two intent
  stores receive, the reservations they grant for execution have distinct idempotency keys and distinct
  bindings within a tenant.\<close>

theorem pg_effects_granted_once:
  "distinct (map me_idem (me_granted (snd (transcript (me_pg_exec ts instant) cs []))))
   \<and> distinct (map me_binding (me_granted (snd (transcript (me_pg_exec ts instant) cs []))))
   \<and> distinct (map sp_idem (sp_granted (snd (transcript (sp_pg_exec ts instant) ds []))))
   \<and> distinct (map sp_binding (sp_granted (snd (transcript (sp_pg_exec ts instant) ds []))))"
proof -
  have me: "history me_reserve me_step [] (map (me_pg_times ts) [])" by (simp add: history.start)
  have sp: "history sp_reserve sp_step [] (map (sp_pg_times ts) [])" by (simp add: history.start)
  show ?thesis
    using me_ledger.history_keys [OF me_pg_transcript_history [OF me, where cs = cs and instant = instant]]
      sp_ledger.history_keys [OF sp_pg_transcript_history [OF sp, where cs = ds and instant = instant]]
    by (simp add: comp_def)
qed

lemma transcript_map: "transcript (\<lambda>c. exec (f c)) cs s = transcript exec (map f cs) s"
  by (induction cs arbitrary: s) (simp_all add: split_beta)



text \<open>Each store receives an intent, lists its run and loses the intent to a revocation; the driver reads times
  with their offset written out.\<close>

definition sample_me_commands :: "me_store_command list" where
  "sample_me_commands = [MeReserve sample_intent, MeList ''tenant-a'' ''run-1'', MeRevoke ''tenant-a'' ''run-1'' ''superseded'' ''t1'']"

definition sample_sp_commands :: "sp_command list" where
  "sample_sp_commands = [SpReserve sample_publication, SpList ''tenant-a'' ''run-1'',
     SpRevoke ''tenant-a'' (Some ''telex'') None None ''superseded'' ''t1'']"

lemma time_ordered_single: "time_ordered instant {t}"
  by (simp add: time_ordered_def)

lemma sample_me_stored: "fst (me_pg_exec ts instant (MeReserve sample_intent) []) = [me_pg_row ts sample_intent]"
  by (simp add: answer_def me_pg_reserve_def sample_intent_valid sql_first_def me_pg_insert_def)

lemma sample_sp_stored: "fst (sp_pg_exec ts instant (SpReserve sample_publication) []) = [sp_pg_row ts sample_publication]"
  by (simp add: answer_def sp_pg_reserve_def sample_publication_valid sql_first_def sp_pg_insert_def)

lemma sample_admissible:
  "admissible (me_list_ordered instant) (me_pg_exec ts instant) sample_me_commands []"
  "admissible (sp_list_ordered instant) (sp_pg_exec ts instant) sample_sp_commands []"
  unfolding sample_me_commands_def sample_sp_commands_def admissible.simps sample_me_stored sample_sp_stored
  by (simp_all add: me_list_ordered_def sp_list_ordered_def answer_read_def time_ordered_single)

lemma sample_tenant: "sp_identifier ''tenant-a''"
  by code_simp


end
