(* ===== verification/PostgresStore.thy ===== *)
theory PostgresStore
  imports RunStore
begin

text \<open>
  \<open>PostgresRunStore\<close> (\<open>backend/agency_runtime/postgres.py\<close>): runs, audit ledger and browser sessions on PostgreSQL.
  A \<open>TIMESTAMPTZ\<close> is an instant, its number of seconds, and \<open>at_time\<close> is \<open>isoformat\<close>. The number an event gets
  from the table's \<open>BIGSERIAL\<close> comes with the command, because a transaction that is rolled back still uses one
  up. The advisory locks make an operation atomic and have no effect on the rows. The content of an event
  holds the text of its time, as it is read back.
\<close>

section \<open>The database\<close>

record pg_run_row =
  pr_tenant_id :: string
  pr_run_id :: string
  pr_status :: string
  pr_document :: json
  pr_version :: int
  pr_created_at :: int
  pr_updated_at :: int

record pg_db =
  pg_runs :: "pg_run_row list"
  pg_events :: "audit_row list"
  pg_heads :: "(string \<times> audit_head) list"
  pg_sessions :: "session_row list"

record pg_stamp =
  ps_clock :: int
  ps_uuid :: string
  ps_sequence :: nat

definition pg_empty :: pg_db where
  "pg_empty = \<lparr>pg_runs = [], pg_events = [], pg_heads = [], pg_sessions = []\<rparr>"

section \<open>The audit ledger\<close>

definition pg_tenant_rows :: "pg_db \<Rightarrow> string \<Rightarrow> audit_row list" where
  "pg_tenant_rows db tenant = sort_key ar_sequence (filter (\<lambda>r. row_tenant r = tenant) (pg_events db))"

definition pg_head :: "pg_db \<Rightarrow> string \<Rightarrow> audit_head option" where
  "pg_head db tenant = map_option snd (sql_find (\<lambda>(t, h). t = tenant) (pg_heads db))"

text \<open>\<open>INSERT ... ON CONFLICT (tenant_id) DO UPDATE\<close>.\<close>

definition pg_head_upsert :: "string \<Rightarrow> audit_head \<Rightarrow> (string \<times> audit_head) list \<Rightarrow> (string \<times> audit_head) list" where
  "pg_head_upsert tenant h hs =
     (if list_ex (\<lambda>(t, _). t = tenant) hs then sql_update (\<lambda>(t, _). t = tenant) (\<lambda>(t, _). (t, h)) hs
      else hs @ [(tenant, h)])"

definition pg_append :: "(int \<Rightarrow> string) \<Rightarrow> pg_db \<Rightarrow> string \<Rightarrow> audit_write \<Rightarrow> pg_stamp \<Rightarrow> pg_db res" where
  "pg_append at_time db tenant w s =
     (let previous_hash = (case pg_head db tenant of None \<Rightarrow> GENESIS_AUDIT_HASH | Some h \<Rightarrow> ah_head_hash h);
          previous_count = (case pg_head db tenant of None \<Rightarrow> 0 | Some h \<Rightarrow> ah_event_count h);
          event_id = (if aw_event_id w = [] then ''audit-'' @ ps_uuid s else aw_event_id w);
          content = \<lparr>ac_event_id = event_id, ac_tenant_id = tenant, ac_request_id = aw_request_id w,
            ac_occurred_at = at_time (ps_clock s), ac_action = aw_action w, ac_resource_type = aw_resource_type w,
            ac_resource_id = aw_resource_id w, ac_actor = aw_actor w, ac_payload = aw_payload w\<rparr>
      in rbind (audit_event_hash content previous_hash) (\<lambda>event_hash.
        if list_ex (\<lambda>r. row_event_id r = event_id) (pg_events db) then Inl IntegrityError
        else Inr (db\<lparr>pg_events := pg_events db @ [\<lparr>ar_sequence = ps_sequence s, ar_content = canonical_content content,
                        ar_previous_hash = previous_hash, ar_event_hash = event_hash\<rparr>],
                     pg_heads := pg_head_upsert tenant \<lparr>ah_event_count = previous_count + 1,
                        ah_head_event_id = event_id, ah_head_hash = event_hash\<rparr> (pg_heads db)\<rparr>)))"

definition pg_append_audit :: "(int \<Rightarrow> string) \<Rightarrow> pg_db \<Rightarrow> string \<Rightarrow> audit_write \<Rightarrow> pg_stamp \<Rightarrow> pg_db res" where
  "pg_append_audit at_time db tenant w s =
     rbind (require_non_empty tenant ''tenant_id'') (\<lambda>_. pg_append at_time db tenant w s)"

definition pg_audit_event :: "pg_db \<Rightarrow> string \<Rightarrow> string \<Rightarrow> audit_row option res" where
  "pg_audit_event db tenant event_id =
     rbind (require_non_empty tenant ''tenant_id'') (\<lambda>_.
     rbind (require_non_empty event_id ''event_id'') (\<lambda>_.
       Inr (sql_find (\<lambda>r. row_tenant r = tenant \<and> row_event_id r = event_id) (pg_events db))))"

definition pg_audit_events :: "pg_db \<Rightarrow> string \<Rightarrow> int \<Rightarrow> int \<Rightarrow> audit_row list res" where
  "pg_audit_events db tenant after_sequence limit =
     rbind (raise_first
       [(after_sequence < 0, ValueError ''after_sequence must not be negative''),
        (limit < 1 \<or> 1000 < limit, ValueError ''limit must be between 1 and 1000'')]) (\<lambda>_.
       Inr (take (nat limit) (filter (\<lambda>r. after_sequence < int (ar_sequence r)) (pg_tenant_rows db tenant))))"

definition pg_audit_count :: "pg_db \<Rightarrow> string \<Rightarrow> nat" where
  "pg_audit_count db tenant = sql_count (\<lambda>r. row_tenant r = tenant) (pg_events db)"

fun pg_verify_rows :: "string \<Rightarrow> string \<Rightarrow> audit_row list \<Rightarrow> (string \<times> string) res" where
  "pg_verify_rows previous_hash head_event_id [] = Inr (previous_hash, head_event_id)"
| "pg_verify_rows previous_hash head_event_id (r # rs) =
     (if ar_previous_hash r \<noteq> previous_hash
      then Inl (AuditIntegrityError ''audit previous hash linkage is invalid'')
      else case audit_event_hash (ar_content r) previous_hash of
        Inl e \<Rightarrow> Inl e
      | Inr expected \<Rightarrow>
          if ar_event_hash r \<noteq> expected then Inl (AuditIntegrityError ''audit event hash is invalid'')
          else pg_verify_rows (ar_event_hash r) (row_event_id r) rs)"

definition pg_verify_audit_chain :: "pg_db \<Rightarrow> string \<Rightarrow> string \<Rightarrow> checkpoint res" where
  "pg_verify_audit_chain db tenant clk =
     rbind (require_non_empty tenant ''tenant_id'') (\<lambda>_.
       let rows = pg_tenant_rows db tenant; head = pg_head db tenant in
       rbind (pg_verify_rows GENESIS_AUDIT_HASH [] rows) (\<lambda>(previous_hash, head_event_id).
       rbind (if rows = [] then
                (if head \<noteq> None then Inl (AuditIntegrityError ''audit chain head exists without events'') else Inr ())
              else (case head of
                None \<Rightarrow> Inl (AuditIntegrityError ''audit chain head does not match events'')
              | Some h \<Rightarrow> if ah_event_count h \<noteq> length rows \<or> ah_head_event_id h \<noteq> head_event_id \<or> ah_head_hash h \<noteq> previous_hash
                  then Inl (AuditIntegrityError ''audit chain head does not match events'') else Inr ())) (\<lambda>_.
         make_checkpoint \<lparr>cp_tenant_id = tenant, cp_event_count = length rows, cp_head_event_id = head_event_id,
           cp_head_hash = previous_hash, cp_verified_at = clk\<rparr>)))"

section \<open>Runs\<close>

definition pg_audited_if :: "(int \<Rightarrow> string) \<Rightarrow> pg_db \<Rightarrow> string \<Rightarrow> audit_write option \<Rightarrow> pg_stamp \<Rightarrow> pg_db res" where
  "pg_audited_if at_time db tenant ow s = (case ow of None \<Rightarrow> Inr db | Some w \<Rightarrow> pg_append at_time db tenant w s)"

text \<open>The handler of \<open>dbapi.IntegrityError\<close>: a known receipt is a conflict, else the error goes on.\<close>

definition pg_receipt_conflict :: "pg_db \<Rightarrow> string \<Rightarrow> audit_write option \<Rightarrow> pg_db res" where
  "pg_receipt_conflict db tenant ow = (case ow of
     None \<Rightarrow> Inl IntegrityError
   | Some w \<Rightarrow> if aw_event_id w = [] then Inl IntegrityError else
       rbind (pg_audit_event db tenant (aw_event_id w)) (\<lambda>found.
         if found \<noteq> None then Inl (AuditEventConflictError ''command receipt already exists'') else Inl IntegrityError))"

definition pg_on_integrity_error :: "pg_db res \<Rightarrow> pg_db res \<Rightarrow> pg_db res" where
  "pg_on_integrity_error attempt handler = (if attempt = Inl IntegrityError then handler else attempt)"

text \<open>The insertion has \<open>ON CONFLICT DO NOTHING\<close>, so a run that exists is found by the row count.\<close>

definition pg_create ::
  "(int \<Rightarrow> string) \<Rightarrow> pg_db \<Rightarrow> string \<Rightarrow> run \<Rightarrow> audit_write option \<Rightarrow> int \<Rightarrow> pg_stamp \<Rightarrow> pg_db res" where
  "pg_create at_time db tenant r ow clk s =
     pg_on_integrity_error
       (if list_ex (\<lambda>x. pr_tenant_id x = tenant \<and> pr_run_id x = run_id r) (pg_runs db)
        then Inl (ValueError (''run already exists for tenant: '' @ run_id r))
        else pg_audited_if at_time (db\<lparr>pg_runs := pg_runs db @
            [\<lparr>pr_tenant_id = tenant, pr_run_id = run_id r, pr_status = run_status_value (run_status r),
              pr_document = execution_run_to_document r, pr_version = 1, pr_created_at = clk, pr_updated_at = clk\<rparr>]\<rparr>)
          tenant ow s)
       (pg_receipt_conflict db tenant ow)"

definition pg_save ::
  "(int \<Rightarrow> string) \<Rightarrow> pg_db \<Rightarrow> string \<Rightarrow> run \<Rightarrow> audit_write option \<Rightarrow> string option \<Rightarrow> int \<Rightarrow> pg_stamp \<Rightarrow> pg_db res" where
  "pg_save at_time db tenant r ow expected clk s =
     (let key = (\<lambda>x. pr_tenant_id x = tenant \<and> pr_run_id x = run_id r);
          hit = (case expected of None \<Rightarrow> key | Some st \<Rightarrow> (\<lambda>x. key x \<and> pr_status x = st));
          updated = sql_update hit (\<lambda>x. x\<lparr>pr_status := run_status_value (run_status r),
            pr_document := execution_run_to_document r, pr_version := pr_version x + 1, pr_updated_at := clk\<rparr>) (pg_runs db)
      in pg_on_integrity_error
       (if sql_count hit (pg_runs db) = 1 then pg_audited_if at_time (db\<lparr>pg_runs := updated\<rparr>) tenant ow s
        else if list_ex key updated
        then Inl (RunStateConflictError (''run state changed before persistence: '' @ run_id r))
        else Inl (KeyError (''run not found: '' @ run_id r)))
       (pg_receipt_conflict db tenant ow))"

definition pg_get :: "(string \<Rightarrow> int res) \<Rightarrow> pg_db \<Rightarrow> string \<Rightarrow> string \<Rightarrow> run res" where
  "pg_get iof db tenant rid = (case sql_find (\<lambda>x. pr_tenant_id x = tenant \<and> pr_run_id x = rid) (pg_runs db) of
     None \<Rightarrow> Inl (KeyError (''run not found: '' @ rid))
   | Some x \<Rightarrow> execution_run_from_document iof (pr_document x))"

definition pg_exists :: "pg_db \<Rightarrow> string \<Rightarrow> string \<Rightarrow> bool" where
  "pg_exists db tenant rid = list_ex (\<lambda>x. pr_tenant_id x = tenant \<and> pr_run_id x = rid) (pg_runs db)"

definition pg_count :: "pg_db \<Rightarrow> string \<Rightarrow> nat" where
  "pg_count db tenant = sql_count (\<lambda>x. pr_tenant_id x = tenant) (pg_runs db)"

definition pg_executable_runs :: "pg_db \<Rightarrow> int \<Rightarrow> (string \<times> string) list res" where
  "pg_executable_runs db limit =
     (if limit < 1 \<or> 1000 < limit then Inl (ValueError ''limit must be between 1 and 1000'')
      else Inr (map (\<lambda>x. (pr_tenant_id x, pr_run_id x)) (take (nat limit)
        (sort_key (\<lambda>x. (pr_updated_at x, pr_tenant_id x, pr_run_id x))
          (filter (\<lambda>x. pr_status x \<in> {''queued'', ''running''}) (pg_runs db))))))"

section \<open>Sessions\<close>

definition pg_token_hash :: "string \<Rightarrow> string" where
  "pg_token_hash token = sha256_text token"

definition pg_create_session ::
  "(int \<Rightarrow> string) \<Rightarrow> pg_db \<Rightarrow> string \<Rightarrow> string \<Rightarrow> int \<Rightarrow> string \<Rightarrow> string \<Rightarrow> string \<Rightarrow> string \<Rightarrow> string
    \<Rightarrow> int \<Rightarrow> session_seed \<Rightarrow> pg_stamp \<Rightarrow> (pg_db \<times> session_issue) res" where
  "pg_create_session at_time db tenant fingerprint ttl request actor subject role key created seed s =
     (let subject' = (if subject = [] then ''tenant:'' @ tenant else subject);
          key' = (if key = [] then ''legacy:'' @ tenant else key);
          expires = created + ttl;
          sid = ''session-'' @ sd_uuid seed;
          hash = pg_token_hash (sd_session_token seed);
          row = \<lparr>ss_session_id = sid, ss_tenant_id = tenant, ss_session_token_hash = hash,
            ss_csrf_token_hash = pg_token_hash (sd_csrf_token seed), ss_credential_fingerprint = fingerprint,
            ss_subject_id = subject', ss_role = role, ss_key_id = key', ss_created_at = created,
            ss_expires_at = expires, ss_revoked_at = None\<rparr>;
          event = \<lparr>aw_request_id = request, aw_action = ''session.created'', aw_resource_type = ''browser_session'',
            aw_resource_id = sid, aw_actor = actor,
            aw_payload = [(''auth_method'', JStr ''http_only_cookie''), (''subject_id'', JStr subject'), (''role'', JStr role),
              (''key_id'', JStr key'), (''expires_at'', JStr (at_time expires))], aw_event_id = []\<rparr>
      in if ttl < 300 \<or> 86400 < ttl then Inl (ValueError ''session ttl must be between 300 and 86400 seconds'')
         else if list_ex (\<lambda>y. ss_session_id y = sid \<or> ss_session_token_hash y = hash) (pg_sessions db)
         then Inl IntegrityError
         else rbind (check_audit_write event) (\<lambda>_.
           rbind (pg_append at_time (db\<lparr>pg_sessions := pg_sessions db @ [row]\<rparr>) tenant event s) (\<lambda>db'.
             Inr (db', \<lparr>si_session_id = sid, si_session_token = sd_session_token seed, si_csrf_token = sd_csrf_token seed,
               si_tenant_id = tenant, si_subject_id = subject', si_role = role, si_key_id = key',
               si_credential_fingerprint = fingerprint, si_expires_at = expires\<rparr>))))"

definition pg_row_to_session :: "session_row \<Rightarrow> session_record" where
  "pg_row_to_session x = \<lparr>sr_session_id = ss_session_id x, sr_tenant_id = ss_tenant_id x, sr_subject_id = ss_subject_id x,
     sr_role = ss_role x, sr_key_id = ss_key_id x, sr_credential_fingerprint = ss_credential_fingerprint x,
     sr_created_at = ss_created_at x, sr_expires_at = ss_expires_at x, sr_revoked_at = ss_revoked_at x\<rparr>"

definition pg_authenticate_session :: "pg_db \<Rightarrow> string \<Rightarrow> int \<Rightarrow> session_record res" where
  "pg_authenticate_session db token clk =
     (if token = [] then Inl (SessionAuthenticationError ''browser session is missing'')
      else case sql_find (\<lambda>x. ss_session_token_hash x = pg_token_hash token) (pg_sessions db) of
        None \<Rightarrow> Inl (SessionAuthenticationError ''browser session is invalid'')
      | Some x \<Rightarrow> rbind (raise_first
          [(pg_token_hash token \<noteq> ss_session_token_hash x, SessionAuthenticationError ''browser session is invalid''),
           (ss_revoked_at x \<noteq> None, SessionAuthenticationError ''browser session is revoked''),
           (ss_expires_at x \<le> clk, SessionAuthenticationError ''browser session is expired'')])
          (\<lambda>_. Inr (pg_row_to_session x)))"

definition pg_rotate_session_csrf :: "pg_db \<Rightarrow> string \<Rightarrow> string \<Rightarrow> int \<Rightarrow> (pg_db \<times> session_issue) res" where
  "pg_rotate_session_csrf db sid csrf clk =
     (case sql_find (\<lambda>x. ss_session_id x = sid) (pg_sessions db) of
        None \<Rightarrow> Inl (SessionAuthenticationError ''browser session is not active'')
      | Some x \<Rightarrow> rbind (raise_first
          [(ss_revoked_at x \<noteq> None, SessionAuthenticationError ''browser session is not active''),
           (ss_expires_at x \<le> clk, SessionAuthenticationError ''browser session is expired'')])
          (\<lambda>_. Inr (db\<lparr>pg_sessions := sql_update (\<lambda>y. ss_session_id y = sid)
              (\<lambda>y. y\<lparr>ss_csrf_token_hash := pg_token_hash csrf\<rparr>) (pg_sessions db)\<rparr>,
            \<lparr>si_session_id = ss_session_id x, si_session_token = [], si_csrf_token = csrf, si_tenant_id = ss_tenant_id x,
              si_subject_id = ss_subject_id x, si_role = ss_role x, si_key_id = ss_key_id x,
              si_credential_fingerprint = ss_credential_fingerprint x, si_expires_at = ss_expires_at x\<rparr>)))"

definition pg_verify_session_csrf :: "pg_db \<Rightarrow> string \<Rightarrow> string \<Rightarrow> int \<Rightarrow> unit res" where
  "pg_verify_session_csrf db sid csrf clk =
     (if csrf = [] then Inl (SessionCsrfError ''CSRF token is required'')
      else case sql_find (\<lambda>x. ss_session_id x = sid) (pg_sessions db) of
        None \<Rightarrow> Inl (SessionCsrfError ''browser session is not active'')
      | Some x \<Rightarrow> raise_first
          [(ss_revoked_at x \<noteq> None, SessionCsrfError ''browser session is not active''),
           (ss_expires_at x \<le> clk, SessionCsrfError ''browser session is expired''),
           (pg_token_hash csrf \<noteq> ss_csrf_token_hash x, SessionCsrfError ''CSRF token is invalid'')])"

definition pg_revoke_session ::
  "(int \<Rightarrow> string) \<Rightarrow> pg_db \<Rightarrow> string \<Rightarrow> string \<Rightarrow> string \<Rightarrow> string \<Rightarrow> int \<Rightarrow> pg_stamp \<Rightarrow> pg_db res" where
  "pg_revoke_session at_time db tenant sid request actor revoked s =
     (let hit = (\<lambda>x. ss_tenant_id x = tenant \<and> ss_session_id x = sid \<and> ss_revoked_at x = None);
          event = \<lparr>aw_request_id = request, aw_action = ''session.revoked'', aw_resource_type = ''browser_session'',
            aw_resource_id = sid, aw_actor = actor, aw_payload = [(''revoked_at'', JStr (at_time revoked))], aw_event_id = []\<rparr>
      in if sql_count hit (pg_sessions db) \<noteq> 1 then Inl (KeyError ''active browser session not found'')
         else rbind (check_audit_write event) (\<lambda>_. pg_append at_time
           (db\<lparr>pg_sessions := sql_update hit (\<lambda>x. x\<lparr>ss_revoked_at := Some revoked\<rparr>) (pg_sessions db)\<rparr>) tenant event s))"

definition pg_session_count :: "pg_db \<Rightarrow> string \<Rightarrow> bool \<Rightarrow> int \<Rightarrow> nat" where
  "pg_session_count db tenant include_revoked clk =
     (if include_revoked then sql_count (\<lambda>x. ss_tenant_id x = tenant) (pg_sessions db)
      else sql_count (\<lambda>x. ss_tenant_id x = tenant \<and> ss_revoked_at x = None \<and> clk < ss_expires_at x) (pg_sessions db))"

end
