(* ===== verification/PostgresStoreLaws.thy ===== *)
theory PostgresStoreLaws
  imports Twins PostgresStore RunStoreLaws
begin

text \<open>
  The run store on PostgreSQL against the one on SQLite: the relation between their databases, one command at
  a time, and the agreement of all answers over sequences of commands.
\<close>

section \<open>Related databases\<close>

definition unnumber :: "audit_row \<Rightarrow> audit_row" where
  "unnumber r = r\<lparr>ar_sequence := 0\<rparr>"

definition pg_run_text :: "(int \<Rightarrow> string) \<Rightarrow> pg_run_row \<Rightarrow> run_row" where
  "pg_run_text at_time x = \<lparr>rr_tenant_id = pr_tenant_id x, rr_run_id = pr_run_id x, rr_status = pr_status x,
     rr_document = pr_document x, rr_created_at = at_time (pr_created_at x), rr_updated_at = at_time (pr_updated_at x)\<rparr>"

definition numbered :: "audit_row list \<Rightarrow> bool" where
  "numbered rows \<longleftrightarrow> sorted_wrt (<) (map ar_sequence rows) \<and> (\<forall>r \<in> set rows. 0 < ar_sequence r)"

definition pg_same :: "(int \<Rightarrow> string) \<Rightarrow> pg_db \<Rightarrow> run_db \<Rightarrow> bool" where
  "pg_same at_time p d \<longleftrightarrow> map (pg_run_text at_time) (pg_runs p) = db_runs d \<and> pg_sessions p = db_sessions d
     \<and> map unnumber (pg_events p) = map unnumber (led_events (db_ledger d))
     \<and> (\<forall>t. pg_head p t = map_of (led_heads (db_ledger d)) t)
     \<and> numbered (pg_events p) \<and> numbered (led_events (db_ledger d))
     \<and> (\<forall>r \<in> set (led_events (db_ledger d)). ar_sequence r < led_next_sequence (db_ledger d))
     \<and> 0 < led_next_sequence (db_ledger d)"

text \<open>Tables that agree up to a projection are searched, filtered and counted alike.\<close>

lemma map_eq_filter:
  assumes "map f xs = map f ys" and "\<And>x y. f x = f y \<Longrightarrow> P x = P y"
  shows "map f (filter P xs) = map f (filter P ys)"
  using assms(1)
proof (induction xs arbitrary: ys)
  case (Cons x xs)
  then obtain y zs where "ys = y # zs" "f x = f y" "map f xs = map f zs" by (cases ys) auto
  then show ?case using Cons.IH [of zs] assms(2) [of x y] by simp
qed simp

lemma map_eq_list_ex:
  assumes "map f xs = map f ys" and "\<And>x y. f x = f y \<Longrightarrow> P x = P y"
  shows "list_ex P xs = list_ex P ys"
proof -
  have "map f (filter P xs) = [] \<longleftrightarrow> map f (filter P ys) = []" using map_eq_filter [OF assms] by simp
  then show ?thesis by (auto simp: filter_empty_conv list_ex_iff)
qed

lemma map_eq_sql_find:
  assumes "map f xs = map f ys" and "\<And>x y. f x = f y \<Longrightarrow> P x = P y"
  shows "map_option f (sql_find P xs) = map_option f (sql_find P ys)"
  using assms(1)
proof (induction xs arbitrary: ys)
  case (Cons x xs)
  then obtain y zs where "ys = y # zs" "f x = f y" "map f xs = map f zs" by (cases ys) auto
  then show ?case using Cons.IH [of zs] assms(2) [of x y] by (simp add: sql_find_def)
qed simp

lemma map_eq_sql_count:
  assumes "map f xs = map f ys" and "\<And>x y. f x = f y \<Longrightarrow> P x = P y"
  shows "sql_count P xs = sql_count P ys"
proof -
  have "length (map f (filter P xs)) = length (map f (filter P ys))" using map_eq_filter [OF assms] by simp
  then show ?thesis by (simp add: sql_count_def)
qed

lemma unnumber_fields: "unnumber x = unnumber y \<Longrightarrow> ar_content x = ar_content y \<and> ar_previous_hash x = ar_previous_hash y
    \<and> ar_event_hash x = ar_event_hash y"
  by (cases x; cases y) (simp add: unnumber_def)

text \<open>Tables that are the images of others.\<close>

lemma sql_count_map: "sql_count P (map g xs) = sql_count (P \<circ> g) xs"
  by (simp add: sql_count_def filter_map)

lemma sql_find_map: "sql_find P (map g xs) = map_option g (sql_find (P \<circ> g) xs)"
  by (induction xs) (simp_all add: sql_find_def)

lemma sql_update_map:
  "(\<And>x. f (g x) = g (h x)) \<Longrightarrow> sql_update P f (map g xs) = map g (sql_update (P \<circ> g) h xs)"
  by (simp add: sql_update_def)

section \<open>The ledger\<close>

lemma pg_tenant_rows_numbered: "numbered (pg_events p) \<Longrightarrow> pg_tenant_rows p t = filter (\<lambda>r. row_tenant r = t) (pg_events p)"
  using sorted_tenant_rows [of "\<lparr>led_events = pg_events p, led_heads = [], led_next_sequence = 0\<rparr>" t]
  by (simp add: pg_tenant_rows_def tenant_rows_def numbered_def)

lemma pg_same_tenant_rows:
  assumes "pg_same at_time p d"
  shows "map unnumber (pg_tenant_rows p t) = map unnumber (tenant_rows (db_ledger d) t)"
proof -
  have "tenant_rows (db_ledger d) t = filter (\<lambda>r. row_tenant r = t) (led_events (db_ledger d))"
    using assms by (intro sorted_tenant_rows) (simp add: pg_same_def numbered_def)
  moreover have "pg_tenant_rows p t = filter (\<lambda>r. row_tenant r = t) (pg_events p)"
    using assms by (intro pg_tenant_rows_numbered) (simp add: pg_same_def)
  moreover have "map unnumber (pg_events p) = map unnumber (led_events (db_ledger d))" using assms by (simp add: pg_same_def)
  moreover have "map unnumber (filter (\<lambda>r. row_tenant r = t) (pg_events p))
      = map unnumber (filter (\<lambda>r. row_tenant r = t) (led_events (db_ledger d)))"
    by (rule map_eq_filter) (use assms in \<open>simp add: pg_same_def\<close>, drule unnumber_fields, simp)
  ultimately show ?thesis by simp
qed

lemma pg_verify_rows_eq: "map unnumber xs = map unnumber ys \<Longrightarrow> pg_verify_rows h e xs = verify_rows h e ys"
proof (induction xs arbitrary: ys h e)
  case (Cons x xs)
  then obtain y zs where y: "ys = y # zs" "unnumber x = unnumber y" "map unnumber xs = map unnumber zs" by (cases ys) auto
  from unnumber_fields [OF y(2)] y(1) Cons.IH [OF y(3)] show ?case
    by (cases "audit_event_hash (ar_content y) h") simp_all
qed simp

lemma pg_verify_chain_eq:
  assumes "pg_same at_time p d"
  shows "pg_verify_audit_chain p t clk = verify_audit_chain (db_ledger d) t clk"
proof -
  note rows = pg_same_tenant_rows [OF assms, of t]
  have "length (pg_tenant_rows p t) = length (tenant_rows (db_ledger d) t)" using rows by (metis length_map)
  moreover have "pg_tenant_rows p t = [] \<longleftrightarrow> tenant_rows (db_ledger d) t = []" using rows by (metis map_is_Nil_conv)
  moreover have "pg_head p t = map_of (led_heads (db_ledger d)) t" using assms by (simp add: pg_same_def)
  ultimately show ?thesis
    unfolding pg_verify_audit_chain_def verify_audit_chain_def pg_verify_rows_eq [OF rows] Let_def
    by (intro arg_cong2 [where f = rbind] refl ext)
      (auto simp: rbind_def split: sum.splits option.splits prod.splits)
qed

lemma find_pair: "map_option snd (sql_find (\<lambda>(u, h). u = t) hs) = map_of hs t"
  by (induction hs) (auto simp: sql_find_def)

lemma map_of_head_update: "map_of (sql_update (\<lambda>(u, _). u = t) (\<lambda>(u, _). (u, h)) hs) v
    = (if v = t \<and> map_of hs t \<noteq> None then Some h else map_of hs v)"
  by (induction hs) (auto simp: sql_update_def)

lemma map_of_head_upsert: "map_of (pg_head_upsert t h hs) = (map_of hs)(t \<mapsto> h)"
proof -
  have "list_ex (\<lambda>(u, _). u = t) hs \<longleftrightarrow> map_of hs t \<noteq> None"
    by (auto simp: list_ex_iff map_of_eq_None_iff rev_image_eqI)
  then show ?thesis
    by (auto simp: pg_head_upsert_def map_of_head_update map_add_def fun_eq_iff split: option.splits)
qed

lemma numbered_snoc:
  "numbered rows \<Longrightarrow> (\<forall>x \<in> set rows. ar_sequence x < ar_sequence r) \<Longrightarrow> 0 < ar_sequence r \<Longrightarrow> numbered (rows @ [r])"
  by (auto simp: numbered_def sorted_wrt_append)

text \<open>Both ledgers take or refuse an event alike.\<close>

definition pg_fresh :: "pg_stamp \<Rightarrow> pg_db \<Rightarrow> bool" where
  "pg_fresh s p \<longleftrightarrow> 0 < ps_sequence s \<and> (\<forall>r \<in> set (pg_events p). ar_sequence r < ps_sequence s)"

definition lite_stamp :: "(int \<Rightarrow> string) \<Rightarrow> pg_stamp \<Rightarrow> stamp" where
  "lite_stamp at_time s = \<lparr>st_clock = at_time (ps_clock s), st_uuid = ps_uuid s\<rparr>"

definition same_result :: "(int \<Rightarrow> string) \<Rightarrow> pg_db res \<Rightarrow> run_db res \<Rightarrow> bool" where
  "same_result at_time a b \<longleftrightarrow> (case (a, b) of (Inl e, Inl e') \<Rightarrow> e = e' | (Inr p, Inr d) \<Rightarrow> pg_same at_time p d | _ \<Rightarrow> False)"

lemma same_result_simps [simp]:
  "same_result at_time (Inl e) b \<longleftrightarrow> b = Inl e" "same_result at_time (Inr p) (Inr d) \<longleftrightarrow> pg_same at_time p d"
  "same_result at_time a (Inl e) \<longleftrightarrow> a = Inl e"
  by (auto simp: same_result_def split: sum.splits)

lemma pg_append_same:
  assumes same: "pg_same at_time p d" and fresh: "pg_fresh s p"
  shows "same_result at_time (pg_append at_time p t w s) (audited d t w (lite_stamp at_time s))"
proof -
  let ?l = "db_ledger d"
  have head: "pg_head p t = map_of (led_heads ?l) t" using same by (simp add: pg_same_def)
  have ev: "map unnumber (pg_events p) = map unnumber (led_events ?l)" using same by (simp add: pg_same_def)
  have taken: "list_ex (\<lambda>r. row_event_id r = i) (pg_events p) \<longleftrightarrow> (\<exists>r \<in> set (led_events ?l). row_event_id r = i)" for i
  proof -
    have "list_ex (\<lambda>r. row_event_id r = i) (pg_events p) = list_ex (\<lambda>r. row_event_id r = i) (led_events ?l)"
      by (rule map_eq_list_ex [OF ev]) (drule unnumber_fields, simp)
    then show ?thesis by (simp add: list_ex_iff)
  qed
  obtain pre n where pre: "(case map_of (led_heads ?l) t of None \<Rightarrow> GENESIS_AUDIT_HASH | Some h \<Rightarrow> ah_head_hash h) = pre"
    "(case map_of (led_heads ?l) t of None \<Rightarrow> 0 | Some h \<Rightarrow> ah_event_count h) = n" by blast
  have ids: "(if aw_event_id w = [] then ''audit-'' @ ps_uuid s else aw_event_id w)
      = (if aw_event_id w \<noteq> [] then aw_event_id w else ''audit-'' @ ps_uuid s)" by simp
  have same': "pg_same at_time (p\<lparr>pg_events := pg_events p @ [\<lparr>ar_sequence = ps_sequence s, ar_content = c,
        ar_previous_hash = pre, ar_event_hash = e\<rparr>], pg_heads := pg_head_upsert t h (pg_heads p)\<rparr>)
      (d\<lparr>db_ledger := ?l\<lparr>led_events := led_events ?l @ [\<lparr>ar_sequence = led_next_sequence ?l, ar_content = c,
        ar_previous_hash = pre, ar_event_hash = e\<rparr>], led_heads := dict_set t h (led_heads ?l),
        led_next_sequence := Suc (led_next_sequence ?l)\<rparr>\<rparr>)" for c e h
    using same fresh
    by (auto simp: pg_same_def pg_fresh_def pg_head_def find_pair map_of_head_upsert unnumber_def numbered_snoc less_Suc_eq)
  show ?thesis
    unfolding pg_append_def audited_def append_audit_locked_def Let_def head lite_stamp_def ids stamp.simps taken pre
    by (cases "audit_event_hash \<lparr>ac_event_id = if aw_event_id w \<noteq> [] then aw_event_id w else ''audit-'' @ ps_uuid s,
        ac_tenant_id = t, ac_request_id = aw_request_id w, ac_occurred_at = at_time (ps_clock s),
        ac_action = aw_action w, ac_resource_type = aw_resource_type w, ac_resource_id = aw_resource_id w,
        ac_actor = aw_actor w, ac_payload = aw_payload w\<rparr> pre")
      (simp_all add: same')
qed


section \<open>Runs\<close>

lemma pg_audited_if_same:
  "pg_same at_time p d \<Longrightarrow> pg_fresh s p \<Longrightarrow>
   same_result at_time (pg_audited_if at_time p t ow s) (audited_if d t ow (lite_stamp at_time s))"
  by (cases ow) (simp_all add: pg_audited_if_def audited_if_def pg_append_same)

lemma pg_same_runs:
  "pg_same at_time p d \<Longrightarrow> map (pg_run_text at_time) xs = ys \<Longrightarrow> pg_same at_time (p\<lparr>pg_runs := xs\<rparr>) (d\<lparr>db_runs := ys\<rparr>)"
  by (simp add: pg_same_def pg_head_def)

lemma pg_same_sessions:
  "pg_same at_time p d \<Longrightarrow> pg_same at_time (p\<lparr>pg_sessions := xs\<rparr>) (d\<lparr>db_sessions := xs\<rparr>)"
  by (simp add: pg_same_def pg_head_def)

lemma pg_fresh_tables [simp]: "pg_fresh s (p\<lparr>pg_runs := xs\<rparr>) = pg_fresh s p" "pg_fresh s (p\<lparr>pg_sessions := ys\<rparr>) = pg_fresh s p"
  by (simp_all add: pg_fresh_def)

lemma run_key_text [simp]: "run_key t rid (pg_run_text at_time x) \<longleftrightarrow> pr_tenant_id x = t \<and> pr_run_id x = rid"
  by (simp add: run_key_def pg_run_text_def)

lemma pg_same_key: "pg_same at_time p d \<Longrightarrow>
    list_ex (run_key t rid) (db_runs d) = list_ex (\<lambda>x. pr_tenant_id x = t \<and> pr_run_id x = rid) (pg_runs p)"
proof -
  assume "pg_same at_time p d"
  then have "db_runs d = map (pg_run_text at_time) (pg_runs p)" by (simp add: pg_same_def)
  then show ?thesis by (simp add: list_ex_iff)
qed

lemma pg_same_receipt:
  assumes "pg_same at_time p d" and "strip t \<noteq> []" and "check_audit_write w = Inr ()" and "aw_event_id w \<noteq> []"
  shows "pg_audit_event p t (aw_event_id w) = Inr (sql_find (\<lambda>r. row_tenant r = t \<and> row_event_id r = aw_event_id w) (pg_events p))"
    and "audit_event (db_ledger d) t (aw_event_id w)
      = Inr (sql_find (\<lambda>r. row_tenant r = t \<and> row_event_id r = aw_event_id w) (led_events (db_ledger d)))"
  using assms(2-4) by (simp_all add: pg_audit_event_def audit_event_def require_non_empty_def check_audit_write_def)

lemma pg_same_found:
  assumes "pg_same at_time p d"
  shows "map_option unnumber (sql_find (\<lambda>r. row_tenant r = t \<and> row_event_id r = i) (pg_events p))
    = map_option unnumber (sql_find (\<lambda>r. row_tenant r = t \<and> row_event_id r = i) (led_events (db_ledger d)))"
  by (rule map_eq_sql_find) (use assms in \<open>simp add: pg_same_def\<close>, drule unnumber_fields, simp)

text \<open>What the stores raise when they refuse a creation.\<close>

definition creation_refused :: "exn \<Rightarrow> exn \<Rightarrow> bool" where
  "creation_refused e e' \<longleftrightarrow>
     (\<exists>rid. e = ValueError (''run already exists for tenant: '' @ rid) \<and> e' = AuditEventConflictError ''command receipt already exists''
       \<or> e = IntegrityError \<and> e' = ValueError (''run already exists for tenant: '' @ rid))"

definition valid_event :: "audit_write option \<Rightarrow> bool" where
  "valid_event ow \<longleftrightarrow> (case ow of None \<Rightarrow> True | Some w \<Rightarrow> check_audit_write w = Inr ())"

lemma integrity_error_cases:
  assumes "pg_same at_time p d" and "strip t \<noteq> []" and "valid_event ow"
  obtains "pg_receipt_conflict p t ow = Inl IntegrityError" "integrity_error d t ow e = Inl e"
  | "pg_receipt_conflict p t ow = Inl (AuditEventConflictError ''command receipt already exists'')"
    "integrity_error d t ow e = Inl (AuditEventConflictError ''command receipt already exists'')"
proof (cases "ow = None \<or> aw_event_id (the ow) = []")
  case True
  then show ?thesis
    by (intro that(1); cases ow) (auto simp: pg_receipt_conflict_def integrity_error_def)
next
  case False
  then obtain w where w: "ow = Some w" "aw_event_id w \<noteq> []" "check_audit_write w = Inr ()"
    using assms(3) by (auto simp: valid_event_def)
  note found = pg_same_found [OF assms(1), of t "aw_event_id w"] and both = pg_same_receipt [OF assms(1,2) w(3,2)]
  have none: "sql_find (\<lambda>r. row_tenant r = t \<and> row_event_id r = aw_event_id w) (pg_events p) = None
      \<longleftrightarrow> sql_find (\<lambda>r. row_tenant r = t \<and> row_event_id r = aw_event_id w) (led_events (db_ledger d)) = None"
    using arg_cong [OF found, of "\<lambda>x. x = None"] by (simp only: option.map_disc_iff)
  show ?thesis
  proof (cases "sql_find (\<lambda>r. row_tenant r = t \<and> row_event_id r = aw_event_id w) (pg_events p) = None")
    case True
    with none have "sql_find (\<lambda>r. row_tenant r = t \<and> row_event_id r = aw_event_id w) (led_events (db_ledger d)) = None" by blast
    with True show ?thesis using that(1) w both by (simp add: pg_receipt_conflict_def integrity_error_def)
  next
    case False
    with none have "sql_find (\<lambda>r. row_tenant r = t \<and> row_event_id r = aw_event_id w) (led_events (db_ledger d)) \<noteq> None" by blast
    with False show ?thesis using that(2) w both by (simp add: pg_receipt_conflict_def integrity_error_def)
  qed
qed

lemma same_result_error: "same_result at_time a b \<Longrightarrow> a = Inl e \<longleftrightarrow> b = Inl e"
  by (auto simp: same_result_def split: sum.splits)

lemma pg_create_same:
  assumes same: "pg_same at_time p d" and "pg_fresh s p" and "strip t \<noteq> []" and "valid_event ow"
  shows "same_result at_time (pg_create at_time p t r ow clk s) (run_create d t r ow (at_time clk) (lite_stamp at_time s))
    \<or> (\<exists>e e'. pg_create at_time p t r ow clk s = Inl e
        \<and> run_create d t r ow (at_time clk) (lite_stamp at_time s) = Inl e' \<and> creation_refused e e')"
proof (cases "list_ex (run_key t (run_id r)) (db_runs d)")
  case True
  then have "list_ex (\<lambda>x. pr_tenant_id x = t \<and> pr_run_id x = run_id r) (pg_runs p)" by (simp add: pg_same_key [OF same])
  then have "pg_create at_time p t r ow clk s = Inl (ValueError (''run already exists for tenant: '' @ run_id r))"
    by (simp add: pg_create_def pg_on_integrity_error_def)
  moreover have "run_create d t r ow (at_time clk) (lite_stamp at_time s)
      = integrity_error d t ow (ValueError (''run already exists for tenant: '' @ run_id r))"
    using True by (simp add: run_create_def on_integrity_error_def)
  ultimately show ?thesis
    by (cases rule: integrity_error_cases [OF same assms(3,4), of "ValueError (''run already exists for tenant: '' @ run_id r)"])
      (simp_all add: creation_refused_def)
next
  case False
  let ?x = "\<lparr>pr_tenant_id = t, pr_run_id = run_id r, pr_status = run_status_value (run_status r),
    pr_document = execution_run_to_document r, pr_version = 1, pr_created_at = clk, pr_updated_at = clk\<rparr>"
  let ?p = "p\<lparr>pg_runs := pg_runs p @ [?x]\<rparr>" and ?d = "d\<lparr>db_runs := db_runs d @ [pg_run_text at_time ?x]\<rparr>"
  have "pg_same at_time ?p ?d" using same by (intro pg_same_runs) (simp_all add: pg_same_def)
  from pg_audited_if_same [OF this, of s t ow] assms(2)
  have a: "same_result at_time (pg_audited_if at_time ?p t ow s) (audited_if ?d t ow (lite_stamp at_time s))" by simp
  have ops: "pg_create at_time p t r ow clk s = pg_on_integrity_error (pg_audited_if at_time ?p t ow s) (pg_receipt_conflict p t ow)"
    "run_create d t r ow (at_time clk) (lite_stamp at_time s) = on_integrity_error (audited_if ?d t ow (lite_stamp at_time s))
       (integrity_error d t ow (ValueError (''run already exists for tenant: '' @ run_id r)))"
    using False by (simp_all add: pg_create_def run_create_def pg_same_key [OF same] pg_run_text_def)
  show ?thesis
  proof (cases "audited_if ?d t ow (lite_stamp at_time s) = Inl IntegrityError")
    case True
    then have "pg_create at_time p t r ow clk s = pg_receipt_conflict p t ow"
      "run_create d t r ow (at_time clk) (lite_stamp at_time s)
        = integrity_error d t ow (ValueError (''run already exists for tenant: '' @ run_id r))"
      unfolding ops using same_result_error [OF a, of IntegrityError]
      by (simp_all add: pg_on_integrity_error_def on_integrity_error_def)
    then show ?thesis
      by (cases rule: integrity_error_cases [OF same assms(3,4), of "ValueError (''run already exists for tenant: '' @ run_id r)"])
        (simp_all add: creation_refused_def)
  next
    case False
    then show ?thesis unfolding ops using same_result_error [OF a, of IntegrityError] a
      by (simp add: pg_on_integrity_error_def on_integrity_error_def)
  qed
qed

lemma pg_save_same:
  assumes same: "pg_same at_time p d" and "pg_fresh s p" and "strip t \<noteq> []" and "valid_event ow"
  shows "same_result at_time (pg_save at_time p t r ow ex clk s) (run_save d t r ow ex (at_time clk) (lite_stamp at_time s))"
proof -
  define hit where "hit = (case ex of None \<Rightarrow> (\<lambda>x :: pg_run_row. pr_tenant_id x = t \<and> pr_run_id x = run_id r)
    | Some st \<Rightarrow> (\<lambda>x. (pr_tenant_id x = t \<and> pr_run_id x = run_id r) \<and> pr_status x = st))"
  define xs where "xs = sql_update hit (\<lambda>x. x\<lparr>pr_status := run_status_value (run_status r),
    pr_document := execution_run_to_document r, pr_version := pr_version x + 1, pr_updated_at := clk\<rparr>) (pg_runs p)"
  define ys where "ys = sql_update (save_matches t (run_id r) ex) (\<lambda>x. x\<lparr>rr_status := run_status_value (run_status r),
    rr_document := execution_run_to_document r, rr_updated_at := at_time clk\<rparr>) (db_runs d)"
  have runs: "db_runs d = map (pg_run_text at_time) (pg_runs p)" using same by (simp add: pg_same_def)
  have hit: "save_matches t (run_id r) ex \<circ> pg_run_text at_time = hit"
    by (cases ex) (auto simp: hit_def save_matches_def pg_run_text_def run_key_def)
  have ys: "map (pg_run_text at_time) xs = ys"
    unfolding ys_def runs xs_def hit [symmetric] by (rule sql_update_map [symmetric]) (simp add: pg_run_text_def)
  have count: "sql_count (save_matches t (run_id r) ex) (db_runs d) = sql_count hit (pg_runs p)"
    unfolding runs by (simp add: sql_count_map hit)
  have a: "same_result at_time (pg_audited_if at_time (p\<lparr>pg_runs := xs\<rparr>) t ow s) (audited_if (d\<lparr>db_runs := ys\<rparr>) t ow (lite_stamp at_time s))"
    using assms(2) by (intro pg_audited_if_same pg_same_runs [OF same ys]) simp
  have key: "sql_find (run_key t (run_id r)) ys = None \<longleftrightarrow> \<not> list_ex (\<lambda>x. pr_tenant_id x = t \<and> pr_run_id x = run_id r) xs"
    unfolding ys [symmetric] by (auto simp: sql_find_None list_ex_iff)
  have ops: "pg_save at_time p t r ow ex clk s = pg_on_integrity_error
      (if sql_count hit (pg_runs p) = 1 then pg_audited_if at_time (p\<lparr>pg_runs := xs\<rparr>) t ow s
       else if list_ex (\<lambda>x. pr_tenant_id x = t \<and> pr_run_id x = run_id r) xs
       then Inl (RunStateConflictError (''run state changed before persistence: '' @ run_id r))
       else Inl (KeyError (''run not found: '' @ run_id r))) (pg_receipt_conflict p t ow)"
    by (simp add: pg_save_def xs_def hit_def Let_def)
  have ops': "run_save d t r ow ex (at_time clk) (lite_stamp at_time s) = on_integrity_error
      (if sql_count hit (pg_runs p) \<noteq> 1 then
         (if sql_find (run_key t (run_id r)) ys = None then Inl (KeyError (''run not found: '' @ run_id r))
          else Inl (RunStateConflictError (''run state changed before persistence: '' @ run_id r)))
       else audited_if (d\<lparr>db_runs := ys\<rparr>) t ow (lite_stamp at_time s)) (integrity_error d t ow IntegrityError)"
    by (simp add: run_save_def ys_def count Let_def)
  show ?thesis
  proof (cases "sql_count hit (pg_runs p) = 1 \<and> audited_if (d\<lparr>db_runs := ys\<rparr>) t ow (lite_stamp at_time s) = Inl IntegrityError")
    case True
    then have "pg_save at_time p t r ow ex clk s = pg_receipt_conflict p t ow"
      "run_save d t r ow ex (at_time clk) (lite_stamp at_time s) = integrity_error d t ow IntegrityError"
      unfolding ops ops' using same_result_error [OF a, of IntegrityError]
      by (simp_all add: pg_on_integrity_error_def on_integrity_error_def)
    then show ?thesis
      by (cases rule: integrity_error_cases [OF same assms(3,4), of IntegrityError]) simp_all
  next
    case False
    then show ?thesis unfolding ops ops' using same_result_error [OF a, of IntegrityError] a
      by (auto simp: pg_on_integrity_error_def on_integrity_error_def key)
  qed
qed


text \<open>The queue of the worker: ordered by instants, and so by their texts if \<open>at_time\<close> keeps their order.\<close>

definition queue_ordered :: "(int \<Rightarrow> string) \<Rightarrow> pg_db \<Rightarrow> bool" where
  "queue_ordered at_time p \<longleftrightarrow>
     (\<forall>x \<in> set (pg_runs p). \<forall>y \<in> set (pg_runs p). at_time (pr_updated_at x) \<le> at_time (pr_updated_at y)
       \<longleftrightarrow> pr_updated_at x \<le> pr_updated_at y)"

lemma pg_executable_same:
  assumes "pg_same at_time p d" and "queue_ordered at_time p"
  shows "pg_executable_runs p limit = executable_runs d limit"
proof -
  let ?g = "pg_run_text at_time" and ?active = "\<lambda>x :: pg_run_row. pr_status x \<in> {''queued'', ''running''}"
  have runs: "db_runs d = map ?g (pg_runs p)" using assms(1) by (simp add: pg_same_def)
  have "filter (\<lambda>x. rr_status x = ''queued'' \<or> rr_status x = ''running'') (db_runs d) = map ?g (filter ?active (pg_runs p))"
    unfolding runs by (simp add: filter_map comp_def pg_run_text_def)
  moreover have sort_map: "sort_key k (map ?g xs) = map ?g (sort_key (\<lambda>x. k (?g x)) xs)"
    for k :: "run_row \<Rightarrow> string \<times> string \<times> string" and xs
  proof (induction xs)
    case (Cons x xs)
    have "insort_key k (?g x) (map ?g ys) = map ?g (insort_key (\<lambda>x. k (?g x)) x ys)" for ys by (induction ys) simp_all
    with Cons show ?case by simp
  qed simp
  moreover have "sort_key (\<lambda>x. (at_time (pr_updated_at x), pr_tenant_id x, pr_run_id x)) (filter ?active (pg_runs p))
      = sort_key (\<lambda>x. (pr_updated_at x, pr_tenant_id x, pr_run_id x)) (filter ?active (pg_runs p))"
  proof (rule sort_key_cong_order)
    fix x y assume xy: "x \<in> set (filter ?active (pg_runs p))" "y \<in> set (filter ?active (pg_runs p))"
    then have o: "at_time (pr_updated_at a) \<le> at_time (pr_updated_at b) \<longleftrightarrow> pr_updated_at a \<le> pr_updated_at b"
      if "a \<in> {x, y}" "b \<in> {x, y}" for a b
      using assms(2) that by (auto simp: queue_ordered_def)
    have "at_time (pr_updated_at x) = at_time (pr_updated_at y) \<longleftrightarrow> pr_updated_at x = pr_updated_at y"
      using o [of x y] o [of y x] by (auto simp: order_eq_iff)
    with o [of x y] show "(at_time (pr_updated_at x), pr_tenant_id x, pr_run_id x) \<le> (at_time (pr_updated_at y), pr_tenant_id y, pr_run_id y)
        \<longleftrightarrow> (pr_updated_at x, pr_tenant_id x, pr_run_id x) \<le> (pr_updated_at y, pr_tenant_id y, pr_run_id y)"
      by (auto simp: less_eq_prod_def order_less_le)
  qed
  ultimately show ?thesis
    by (simp add: pg_executable_runs_def executable_runs_def comp_def pg_run_text_def take_map del: insert_iff)
qed

section \<open>Sessions\<close>

lemma pg_create_session_same:
  assumes "pg_same at_time p d" and "pg_fresh s p"
  shows "case (pg_create_session at_time p t fp ttl rq ac sub ro k cr seed s,
      create_session at_time d t fp ttl rq ac sub ro k cr seed (lite_stamp at_time s)) of
     (Inl e, Inl e') \<Rightarrow> e = e' | (Inr (p', i), Inr (d', i')) \<Rightarrow> i = i' \<and> pg_same at_time p' d' | _ \<Rightarrow> False"
proof -
  let ?x = "new_session t fp ttl sub ro k cr seed"
  have a: "same_result at_time (pg_append at_time (p\<lparr>pg_sessions := pg_sessions p @ [?x]\<rparr>) t w s)
      (audited (d\<lparr>db_sessions := db_sessions d @ [?x]\<rparr>) t w (lite_stamp at_time s))" for w
    using assms by (intro pg_append_same) (simp_all add: pg_same_def pg_head_def pg_fresh_def)
  let ?w = "session_created_event at_time ?x rq ac"
  have pg: "pg_create_session at_time p t fp ttl rq ac sub ro k cr seed s =
     (if ttl < 300 \<or> 86400 < ttl then Inl (ValueError ''session ttl must be between 300 and 86400 seconds'')
      else if list_ex (\<lambda>y. ss_session_id y = ss_session_id ?x \<or> ss_session_token_hash y = ss_session_token_hash ?x) (pg_sessions p)
      then Inl IntegrityError
      else rbind (check_audit_write ?w) (\<lambda>_. rbind (pg_append at_time (p\<lparr>pg_sessions := pg_sessions p @ [?x]\<rparr>) t ?w s)
        (\<lambda>db'. Inr (db', session_issue_of ?x (sd_session_token seed) (sd_csrf_token seed)))))"
    by (simp add: pg_create_session_def Let_def pg_token_hash_def new_session_def session_created_event_def session_issue_of_def
        del: check_audit_write_def)
  have same: "pg_sessions p = db_sessions d" using assms(1) by (simp add: pg_same_def)
  show ?thesis
  proof (cases "check_audit_write ?w")
    case (Inl e)
    then show ?thesis by (simp add: pg create_session_def Let_def same checked_audited_def)
  next
    case (Inr u)
    with a [of ?w] show ?thesis
      by (cases "pg_append at_time (p\<lparr>pg_sessions := pg_sessions p @ [?x]\<rparr>) t ?w s";
          cases "audited (d\<lparr>db_sessions := db_sessions d @ [?x]\<rparr>) t ?w (lite_stamp at_time s)")
        (simp_all add: pg create_session_def Let_def same checked_audited_def)
  qed
qed

lemma pg_revoke_session_same:
  assumes "pg_same at_time p d" and "pg_fresh s p"
  shows "same_result at_time (pg_revoke_session at_time p t sid rq ac rv s) (revoke_session at_time d t sid rq ac rv (lite_stamp at_time s))"
proof -
  let ?hit = "\<lambda>x. ss_tenant_id x = t \<and> ss_session_id x = sid \<and> ss_revoked_at x = None"
  let ?xs = "sql_update ?hit (\<lambda>x. x\<lparr>ss_revoked_at := Some rv\<rparr>) (pg_sessions p)"
  let ?w = "session_revoked_event at_time sid rq ac rv"
  have same: "pg_sessions p = db_sessions d" using assms(1) by (simp add: pg_same_def)
  have a: "same_result at_time (pg_append at_time (p\<lparr>pg_sessions := ?xs\<rparr>) t ?w s)
      (audited (d\<lparr>db_sessions := ?xs\<rparr>) t ?w (lite_stamp at_time s))"
    using assms by (intro pg_append_same pg_same_sessions) simp_all
  have pg: "pg_revoke_session at_time p t sid rq ac rv s =
     (if sql_count ?hit (pg_sessions p) \<noteq> 1 then Inl (KeyError ''active browser session not found'')
      else rbind (check_audit_write ?w) (\<lambda>_. pg_append at_time (p\<lparr>pg_sessions := ?xs\<rparr>) t ?w s))"
    by (simp add: pg_revoke_session_def Let_def session_revoked_event_def)
  show ?thesis
    by (cases "check_audit_write ?w") (use a in \<open>simp_all add: pg revoke_session_def Let_def same checked_audited_def\<close>)
qed

lemma pg_session_reads:
  assumes "pg_same at_time p d"
  shows "pg_authenticate_session p token clk = authenticate_session d token clk"
    and "pg_verify_session_csrf p sid csrf clk = verify_session_csrf d sid csrf clk"
    and "pg_session_count p t b clk = session_count d t b clk"
  using assms
  by (auto simp: pg_same_def pg_authenticate_session_def authenticate_session_def pg_token_hash_def pg_row_to_session_def
      session_record_of_def pg_verify_session_csrf_def verify_session_csrf_def pg_session_count_def session_count_def
      split: option.splits)

lemma pg_rotate_same:
  assumes "pg_same at_time p d"
  shows "case (pg_rotate_session_csrf p sid csrf clk, rotate_session_csrf d sid csrf clk) of
     (Inl e, Inl e') \<Rightarrow> e = e' | (Inr (p', i), Inr (d', i')) \<Rightarrow> i = i' \<and> pg_same at_time p' d' | _ \<Rightarrow> False"
proof -
  have "pg_sessions p = db_sessions d" using assms by (simp add: pg_same_def)
  then show ?thesis using pg_same_sessions [OF assms]
    by (auto simp: pg_rotate_session_csrf_def rotate_session_csrf_def pg_token_hash_def session_issue_of_def split: option.splits)
qed


section \<open>Commands\<close>

datatype store_command =
    DoCreate string run "audit_write option" int pg_stamp
  | DoSave string run "audit_write option" "string option" int pg_stamp
  | DoAppend string audit_write pg_stamp
  | DoOpenSession string string int string string string string string int session_seed pg_stamp
  | DoRotateCsrf string string int
  | DoRevokeSession string string string string int pg_stamp
  | DoGet string string
  | DoExists string string
  | DoCount string
  | DoQueue int
  | DoEvents string int
  | DoEvent string string
  | DoCountEvents string
  | DoVerify string string
  | DoAuthenticate string int
  | DoCheckCsrf string string int
  | DoCountSessions string bool int

datatype store_answer =
    AnsDone
  | AnsIssue session_issue
  | AnsRun run
  | AnsFlag bool
  | AnsNumber nat
  | AnsQueue "(string \<times> string) list"
  | AnsEvents "audit_row list"
  | AnsEvent "audit_row option"
  | AnsCheckpoint checkpoint
  | AnsSession session_record

definition answer_write :: "'s res \<Rightarrow> 's \<Rightarrow> 's \<times> store_answer res" where
  "answer_write r s = (case r of Inl e \<Rightarrow> (s, Inl e) | Inr s' \<Rightarrow> (s', Inr AnsDone))"

fun pg_store_exec :: "(int \<Rightarrow> string) \<Rightarrow> (string \<Rightarrow> int res) \<Rightarrow> store_command \<Rightarrow> pg_db \<Rightarrow> pg_db \<times> store_answer res" where
  "pg_store_exec at_time iof (DoCreate t r ow clk s) p = answer_write (pg_create at_time p t r ow clk s) p"
| "pg_store_exec at_time iof (DoSave t r ow ex clk s) p = answer_write (pg_save at_time p t r ow ex clk s) p"
| "pg_store_exec at_time iof (DoAppend t w s) p = answer_write (pg_append_audit at_time p t w s) p"
| "pg_store_exec at_time iof (DoOpenSession t fp ttl rq ac sub ro k cr seed s) p =
     answer AnsIssue (pg_create_session at_time p t fp ttl rq ac sub ro k cr seed s) p"
| "pg_store_exec at_time iof (DoRotateCsrf sid csrf clk) p = answer AnsIssue (pg_rotate_session_csrf p sid csrf clk) p"
| "pg_store_exec at_time iof (DoRevokeSession t sid rq ac rv s) p = answer_write (pg_revoke_session at_time p t sid rq ac rv s) p"
| "pg_store_exec at_time iof (DoGet t rid) p = answer_read AnsRun (pg_get iof p t rid) p"
| "pg_store_exec at_time iof (DoExists t rid) p = (p, Inr (AnsFlag (pg_exists p t rid)))"
| "pg_store_exec at_time iof (DoCount t) p = (p, Inr (AnsNumber (pg_count p t)))"
| "pg_store_exec at_time iof (DoQueue limit) p = answer_read AnsQueue (pg_executable_runs p limit) p"
| "pg_store_exec at_time iof (DoEvents t limit) p = answer_read AnsEvents (pg_audit_events p t 0 limit) p"
| "pg_store_exec at_time iof (DoEvent t i) p = answer_read AnsEvent (pg_audit_event p t i) p"
| "pg_store_exec at_time iof (DoCountEvents t) p = (p, Inr (AnsNumber (pg_audit_count p t)))"
| "pg_store_exec at_time iof (DoVerify t clk) p = answer_read AnsCheckpoint (pg_verify_audit_chain p t clk) p"
| "pg_store_exec at_time iof (DoAuthenticate token clk) p = answer_read AnsSession (pg_authenticate_session p token clk) p"
| "pg_store_exec at_time iof (DoCheckCsrf sid csrf clk) p = answer_read (\<lambda>_. AnsDone) (pg_verify_session_csrf p sid csrf clk) p"
| "pg_store_exec at_time iof (DoCountSessions t b clk) p = (p, Inr (AnsNumber (pg_session_count p t b clk)))"

fun store_exec :: "(int \<Rightarrow> string) \<Rightarrow> (string \<Rightarrow> int res) \<Rightarrow> store_command \<Rightarrow> run_db \<Rightarrow> run_db \<times> store_answer res" where
  "store_exec at_time iof (DoCreate t r ow clk s) d = answer_write (run_create d t r ow (at_time clk) (lite_stamp at_time s)) d"
| "store_exec at_time iof (DoSave t r ow ex clk s) d = answer_write (run_save d t r ow ex (at_time clk) (lite_stamp at_time s)) d"
| "store_exec at_time iof (DoAppend t w s) d = answer_write
     (rbind (append_audit (db_ledger d) t w (at_time (ps_clock s)) (ps_uuid s)) (\<lambda>l. Inr (d\<lparr>db_ledger := l\<rparr>))) d"
| "store_exec at_time iof (DoOpenSession t fp ttl rq ac sub ro k cr seed s) d =
     answer AnsIssue (create_session at_time d t fp ttl rq ac sub ro k cr seed (lite_stamp at_time s)) d"
| "store_exec at_time iof (DoRotateCsrf sid csrf clk) d = answer AnsIssue (rotate_session_csrf d sid csrf clk) d"
| "store_exec at_time iof (DoRevokeSession t sid rq ac rv s) d =
     answer_write (revoke_session at_time d t sid rq ac rv (lite_stamp at_time s)) d"
| "store_exec at_time iof (DoGet t rid) d = answer_read AnsRun (run_get iof d t rid) d"
| "store_exec at_time iof (DoExists t rid) d = (d, Inr (AnsFlag (run_exists d t rid)))"
| "store_exec at_time iof (DoCount t) d = (d, Inr (AnsNumber (run_count d t)))"
| "store_exec at_time iof (DoQueue limit) d = answer_read AnsQueue (executable_runs d limit) d"
| "store_exec at_time iof (DoEvents t limit) d = answer_read AnsEvents (audit_events (db_ledger d) t 0 limit) d"
| "store_exec at_time iof (DoEvent t i) d = answer_read AnsEvent (audit_event (db_ledger d) t i) d"
| "store_exec at_time iof (DoCountEvents t) d = (d, Inr (AnsNumber (audit_count (db_ledger d) t)))"
| "store_exec at_time iof (DoVerify t clk) d = answer_read AnsCheckpoint (verify_audit_chain (db_ledger d) t clk) d"
| "store_exec at_time iof (DoAuthenticate token clk) d = answer_read AnsSession (authenticate_session d token clk) d"
| "store_exec at_time iof (DoCheckCsrf sid csrf clk) d = answer_read (\<lambda>_. AnsDone) (verify_session_csrf d sid csrf clk) d"
| "store_exec at_time iof (DoCountSessions t b clk) d = (d, Inr (AnsNumber (session_count d t b clk)))"

text \<open>What both need: receipts that were validated, a sequence that counts up, times whose texts keep their order.\<close>

definition store_allowed :: "(int \<Rightarrow> string) \<Rightarrow> store_command \<Rightarrow> pg_db \<Rightarrow> bool" where
  "store_allowed at_time c p \<longleftrightarrow> (case c of
     DoCreate t r ow clk s \<Rightarrow> strip t \<noteq> [] \<and> valid_event ow \<and> pg_fresh s p
   | DoSave t r ow ex clk s \<Rightarrow> strip t \<noteq> [] \<and> valid_event ow \<and> pg_fresh s p
   | DoAppend t w s \<Rightarrow> pg_fresh s p
   | DoOpenSession t fp ttl rq ac sub ro k cr seed s \<Rightarrow> pg_fresh s p
   | DoRevokeSession t sid rq ac rv s \<Rightarrow> pg_fresh s p
   | DoQueue limit \<Rightarrow> queue_ordered at_time p
   | _ \<Rightarrow> True)"

text \<open>Answers agree: events up to their sequence numbers, and refused creations up to the exception.\<close>

fun unnumbered_answer :: "store_answer \<Rightarrow> store_answer" where
  "unnumbered_answer (AnsEvents rs) = AnsEvents (map unnumber rs)"
| "unnumbered_answer (AnsEvent r) = AnsEvent (map_option unnumber r)"
| "unnumbered_answer a = a"

definition store_answers_agree :: "store_answer res \<Rightarrow> store_answer res \<Rightarrow> bool" where
  "store_answers_agree a b \<longleftrightarrow> rbind a (\<lambda>x. Inr (unnumbered_answer x)) = rbind b (\<lambda>x. Inr (unnumbered_answer x))
     \<or> (\<exists>e e'. a = Inl e \<and> b = Inl e' \<and> creation_refused e e')"

lemma store_answers_refl [simp]: "store_answers_agree a a"
  by (simp add: store_answers_agree_def)

lemma answer_write_same:
  assumes "pg_same at_time p d" and "same_result at_time a b \<or> (\<exists>e e'. a = Inl e \<and> b = Inl e' \<and> creation_refused e e')"
  shows "pg_same at_time (fst (answer_write a p)) (fst (answer_write b d))
    \<and> store_answers_agree (snd (answer_write a p)) (snd (answer_write b d))"
  using assms by (auto simp: answer_write_def same_result_def store_answers_agree_def split: sum.splits)

lemma answer_issue_same:
  assumes "pg_same at_time p d"
    and "case (a, b) of (Inl e, Inl e') \<Rightarrow> e = e' | (Inr (p', i), Inr (d', i')) \<Rightarrow> i = i' \<and> pg_same at_time p' d' | _ \<Rightarrow> False"
  shows "pg_same at_time (fst (answer AnsIssue a p)) (fst (answer AnsIssue b d))
    \<and> store_answers_agree (snd (answer AnsIssue a p)) (snd (answer AnsIssue b d))"
  using assms by (cases a; cases b) (auto simp: answer_def)

lemma pg_append_audit_same:
  assumes "pg_same at_time p d" and "pg_fresh s p"
  shows "same_result at_time (pg_append_audit at_time p t w s)
    (rbind (append_audit (db_ledger d) t w (at_time (ps_clock s)) (ps_uuid s)) (\<lambda>l. Inr (d\<lparr>db_ledger := l\<rparr>)))"
  using pg_append_same [OF assms, of t w]
  by (auto simp: pg_append_audit_def append_audit_def audited_def lite_stamp_def require_non_empty_def)

lemma pg_audit_events_same:
  assumes "pg_same at_time p d"
  shows "rbind (pg_audit_events p t 0 limit) (\<lambda>rs. Inr (map unnumber rs))
    = rbind (audit_events (db_ledger d) t 0 limit) (\<lambda>rs. Inr (map unnumber rs))"
proof -
  have all: "filter (\<lambda>r. 0 < ar_sequence r) (pg_tenant_rows p t) = pg_tenant_rows p t"
    "filter (\<lambda>r. 0 < ar_sequence r) (tenant_rows (db_ledger d) t) = tenant_rows (db_ledger d) t"
    using assms by (auto simp: filter_id_conv pg_tenant_rows_def tenant_rows_def pg_same_def numbered_def)
  show ?thesis
    using pg_same_tenant_rows [OF assms, of t] all
    by (simp add: pg_audit_events_def audit_events_def take_map [symmetric])
qed

lemma store_twin_step:
  assumes same: "pg_same at_time p d" and "store_allowed at_time c p"
  shows "pg_same at_time (fst (pg_store_exec at_time iof c p)) (fst (store_exec at_time iof c d))
    \<and> store_answers_agree (snd (pg_store_exec at_time iof c p)) (snd (store_exec at_time iof c d))"
proof (cases c)
  case (DoCreate t r ow clk s)
  with assms(2) have "pg_fresh s p" "strip t \<noteq> []" "valid_event ow" by (simp_all add: store_allowed_def)
  from answer_write_same [OF same pg_create_same [OF same this]] DoCreate show ?thesis by simp
next
  case (DoSave t r ow ex clk s)
  with assms show ?thesis by (simp add: store_allowed_def answer_write_same pg_save_same)
next
  case (DoAppend t w s)
  with assms show ?thesis by (simp add: store_allowed_def answer_write_same pg_append_audit_same)
next
  case (DoOpenSession t fp ttl rq ac sub ro k cr seed s)
  with assms(2) have "pg_fresh s p" by (simp add: store_allowed_def)
  from answer_issue_same [OF same pg_create_session_same [OF same this]] DoOpenSession show ?thesis by simp
next
  case (DoRotateCsrf sid csrf clk)
  with answer_issue_same [OF same pg_rotate_same [OF same]] show ?thesis by simp
next
  case (DoRevokeSession t sid rq ac rv s)
  with assms show ?thesis by (simp add: store_allowed_def answer_write_same pg_revoke_session_same)
next
  case (DoGet t rid)
  have "sql_find (run_key t rid) (db_runs d)
      = map_option (pg_run_text at_time) (sql_find (\<lambda>x. pr_tenant_id x = t \<and> pr_run_id x = rid) (pg_runs p))"
  proof -
    have "db_runs d = map (pg_run_text at_time) (pg_runs p)" using same by (simp add: pg_same_def)
    moreover have "run_key t rid \<circ> pg_run_text at_time = (\<lambda>x. pr_tenant_id x = t \<and> pr_run_id x = rid)" by auto
    ultimately show ?thesis by (simp add: sql_find_map)
  qed
  then have "pg_get iof p t rid = run_get iof d t rid"
    by (simp add: pg_get_def run_get_def pg_run_text_def split: option.splits)
  with DoGet same show ?thesis by (simp add: answer_read_def)
next
  case (DoExists t rid)
  have "pg_exists p t rid = run_exists d t rid"
    using pg_same_key [OF same, of t rid] by (auto simp: pg_exists_def run_exists_def sql_find_None list_ex_iff)
  with DoExists same show ?thesis by simp
next
  case (DoCount t)
  have "db_runs d = map (pg_run_text at_time) (pg_runs p)" using same by (simp add: pg_same_def)
  then have "pg_count p t = run_count d t"
    by (simp add: pg_count_def run_count_def sql_count_map comp_def pg_run_text_def)
  with DoCount same show ?thesis by simp
next
  case (DoQueue limit)
  with assms show ?thesis by (simp add: store_allowed_def pg_executable_same answer_read_def)
next
  case (DoEvents t limit)
  with same pg_audit_events_same [OF same, of t limit] show ?thesis
    by (cases "pg_audit_events p t 0 limit"; cases "audit_events (db_ledger d) t 0 limit")
      (simp_all add: answer_read_def store_answers_agree_def)
next
  case (DoEvent t i)
  with same pg_same_found [OF same, of t i] show ?thesis
    by (simp add: answer_read_def store_answers_agree_def pg_audit_event_def audit_event_def require_non_empty_def)
next
  case (DoCountEvents t)
  have "pg_audit_count p t = audit_count (db_ledger d) t"
    unfolding pg_audit_count_def audit_count_def
    by (rule map_eq_sql_count [where f = unnumber]) (use same in \<open>simp add: pg_same_def\<close>, drule unnumber_fields, simp)
  with DoCountEvents same show ?thesis by simp
next
  case (DoVerify t clk)
  with same show ?thesis by (simp add: answer_read_def pg_verify_chain_eq [OF same])
qed (use same in \<open>simp_all add: answer_read_def pg_session_reads [OF same]\<close>)

interpretation store_twins: twin_stores "pg_store_exec at_time iof" "store_exec at_time iof" "pg_same at_time"
    store_answers_agree "store_allowed at_time"
  for at_time iof
  by unfold_locales (rule store_twin_step)

lemma pg_same_empty: "pg_same at_time pg_empty empty_db"
  by (simp add: pg_same_def pg_empty_def empty_db_def empty_ledger_def pg_head_def sql_find_def numbered_def)



text \<open>A session is opened, authenticates and is revoked; the sequence skips the numbers of transactions that were
  rolled back.\<close>

definition sample_pg_stamp :: "nat \<Rightarrow> pg_stamp" where
  "sample_pg_stamp n = \<lparr>ps_clock = int n, ps_uuid = replicate n CHR ''a'', ps_sequence = n\<rparr>"

definition sample_opening :: store_command where
  "sample_opening = DoOpenSession ''acme'' ''fp'' 300 ''rq'' ''ann'' [] ''admin'' [] 100 sample_seed (sample_pg_stamp 1)"

definition sample_store_commands :: "store_command list" where
  "sample_store_commands = [sample_opening, DoAuthenticate ''tok'' 200,
     DoRevokeSession ''acme'' ''session-1'' ''rq'' ''ann'' 250 (sample_pg_stamp 4), DoVerify ''acme'' ''now'', DoQueue 10]"

lemma pg_append_sequence:
  "pg_append at_time p t w s = Inr p' \<Longrightarrow> \<exists>r. pg_events p' = pg_events p @ [r] \<and> ar_sequence r = ps_sequence s \<and> pg_runs p' = pg_runs p"
  by (auto simp: pg_append_def Let_def rbind_Inr_iff split: if_splits)

lemma pg_create_session_sequence:
  "pg_create_session at_time p t fp ttl rq ac sub ro k cr seed s = Inr (p', i)
    \<Longrightarrow> \<exists>r. pg_events p' = pg_events p @ [r] \<and> ar_sequence r = ps_sequence s \<and> pg_runs p' = pg_runs p"
  by (auto simp: pg_create_session_def Let_def rbind_Inr_iff dest!: pg_append_sequence split: if_splits)

lemma sample_opening_fresh: "pg_fresh (sample_pg_stamp 4) (fst (pg_store_exec at_time iof sample_opening pg_empty))
    \<and> pg_runs (fst (pg_store_exec at_time iof sample_opening pg_empty)) = []"
proof (cases "pg_create_session at_time pg_empty ''acme'' ''fp'' 300 ''rq'' ''ann'' [] ''admin'' [] 100 sample_seed (sample_pg_stamp 1)")
  case (Inl e)
  then show ?thesis
    by (simp add: sample_opening_def answer_def pg_fresh_def pg_empty_def sample_pg_stamp_def)
next
  case (Inr x)
  obtain p' i where x: "x = (p', i)" by force
  then obtain r where "pg_events p' = [r]" "ar_sequence r = 1" "pg_runs p' = []"
    using pg_create_session_sequence [OF Inr [unfolded x]] by (auto simp: pg_empty_def sample_pg_stamp_def)
  with Inr x show ?thesis by (simp add: sample_opening_def answer_def pg_fresh_def sample_pg_stamp_def)
qed

lemma sample_store_admissible: "admissible (store_allowed at_time) (pg_store_exec at_time iof) sample_store_commands pg_empty"
proof -
  let ?p = "fst (pg_store_exec at_time iof sample_opening pg_empty)"
  let ?q = "fst (pg_store_exec at_time iof (DoRevokeSession ''acme'' ''session-1'' ''rq'' ''ann'' 250 (sample_pg_stamp 4)) ?p)"
  have "store_allowed at_time sample_opening pg_empty"
    by (simp add: sample_opening_def store_allowed_def pg_fresh_def pg_empty_def sample_pg_stamp_def)
  moreover have "pg_runs ?q = pg_runs ?p"
    by (auto simp: answer_write_def pg_revoke_session_def Let_def rbind_Inr_iff dest!: pg_append_sequence split: sum.splits if_splits)
  ultimately show ?thesis
    using sample_opening_fresh [of at_time iof]
    by (simp add: sample_store_commands_def store_allowed_def answer_read_def queue_ordered_def)
qed


end
