(* ===== verification/PostgresLimits.thy ===== *)
theory PostgresLimits
  imports RateLimitLaws
begin

text \<open>
  The rate limits of \<open>PostgresRunStore\<close> (\<open>backend/agency_runtime/postgres.py\<close>). The request quota is SQLite's; failed
  authentications are counted in a fixed window per bucket, where SQLite keeps a sliding one. Times are
  seconds, and a raise rolls the transaction back.
\<close>

section \<open>Failed authentications\<close>

record pg_failure_row =
  pf_bucket_hash :: string
  pf_window_started_at :: int
  pf_failure_count :: int

type_synonym pg_failures = "pg_failure_row list"

definition pg_check_failure_limits :: "bucket_limits \<Rightarrow> int \<Rightarrow> unit res" where
  "pg_check_failure_limits bl window =
     (if bl = [] then Inl (ValueError ''at least one authentication bucket is required'')
      else if list_ex (\<lambda>(b, m). m < 1) bl then Inl (ValueError ''max_failures must be positive'')
      else if window < 1 then Inl (ValueError ''window_seconds must be positive'')
      else Inr ())"

definition pg_failure_find :: "string \<Rightarrow> pg_failures \<Rightarrow> pg_failure_row option" where
  "pg_failure_find b fs = sql_find (\<lambda>r. pf_bucket_hash r = b) fs"

fun pg_enforce_each :: "bucket_limits \<Rightarrow> int \<Rightarrow> int \<Rightarrow> pg_failures \<Rightarrow> pg_failures res" where
  "pg_enforce_each [] window clk fs = Inr fs"
| "pg_enforce_each ((b, m) # bl) window clk fs = (case pg_failure_find b fs of
     None \<Rightarrow> pg_enforce_each bl window clk fs
   | Some r \<Rightarrow>
       if pf_window_started_at r + window \<le> clk
       then pg_enforce_each bl window clk (sql_delete (\<lambda>x. pf_bucket_hash x = b) fs)
       else if m \<le> pf_failure_count r
       then Inl (AuthenticationRateLimitError (pf_window_started_at r + window - clk + 1))
       else pg_enforce_each bl window clk fs)"

definition pg_enforce_authentication_rate_limit :: "bucket_limits \<Rightarrow> int \<Rightarrow> int \<Rightarrow> pg_failures \<Rightarrow> pg_failures res" where
  "pg_enforce_authentication_rate_limit bl window clk fs =
     rbind (pg_check_failure_limits bl window) (\<lambda>_. pg_enforce_each (sort bl) window clk fs)"

fun pg_record_each :: "bucket_limits \<Rightarrow> int \<Rightarrow> int \<Rightarrow> pg_failures \<Rightarrow> pg_failures res" where
  "pg_record_each [] window clk fs = Inr fs"
| "pg_record_each ((b, m) # bl) window clk fs = (case pg_failure_find b fs of
     None \<Rightarrow> pg_record_each bl window clk
       (fs @ [\<lparr>pf_bucket_hash = b, pf_window_started_at = clk, pf_failure_count = 1\<rparr>])
   | Some r \<Rightarrow>
       if pf_window_started_at r + window \<le> clk
       then pg_record_each bl window clk (sql_update (\<lambda>x. pf_bucket_hash x = b)
         (\<lambda>x. x\<lparr>pf_window_started_at := clk, pf_failure_count := 1\<rparr>) fs)
       else if m \<le> pf_failure_count r
       then Inl (AuthenticationRateLimitError (pf_window_started_at r + window - clk + 1))
       else pg_record_each bl window clk (sql_update (\<lambda>x. pf_bucket_hash x = b)
         (\<lambda>x. x\<lparr>pf_failure_count := pf_failure_count x + 1\<rparr>) fs))"

definition pg_record_authentication_failure :: "bucket_limits \<Rightarrow> int \<Rightarrow> int \<Rightarrow> pg_failures \<Rightarrow> pg_failures res" where
  "pg_record_authentication_failure bl window clk fs =
     rbind (pg_check_failure_limits bl window) (\<lambda>_. pg_record_each (sort bl) window clk fs)"

definition pg_authentication_failure_count :: "string \<Rightarrow> pg_failures \<Rightarrow> int" where
  "pg_authentication_failure_count b fs = (case pg_failure_find b fs of None \<Rightarrow> 0 | Some r \<Rightarrow> pf_failure_count r)"

section \<open>Authenticated requests\<close>

definition pg_check_quota_limits :: "bucket_limits \<Rightarrow> int \<Rightarrow> unit res" where
  "pg_check_quota_limits bl window =
     (if bl = [] then Inl (ValueError ''at least one authenticated request bucket is required'')
      else if list_ex (\<lambda>(b, m). b = []) bl then Inl (ValueError ''authenticated request bucket hash is required'')
      else if card (set (map fst bl)) \<noteq> length bl then Inl (ValueError ''authenticated request bucket hashes must be unique'')
      else if list_ex (\<lambda>(b, m). m < 1) bl then Inl (ValueError ''max authenticated requests must be positive'')
      else if window < 1 then Inl (ValueError ''authenticated request window must be positive'')
      else Inr ())"

text \<open>The loop that collects the updates, as the list \<open>updates\<close> grows.\<close>

fun pg_quota_updates :: "bucket_limits \<Rightarrow> int \<Rightarrow> int \<Rightarrow> quotas \<Rightarrow> quota_row list \<Rightarrow> quota_row list res" where
  "pg_quota_updates [] window clk qs us = Inr us"
| "pg_quota_updates ((b, m) # bl) window clk qs us =
     (let fresh = \<lparr>qr_bucket_hash = b, qr_window_started_at = clk, qr_request_count = 1\<rparr> in
      case sql_find (\<lambda>r. qr_bucket_hash r = b) qs of
        None \<Rightarrow> pg_quota_updates bl window clk qs (us @ [fresh])
      | Some r \<Rightarrow>
          if qr_window_started_at r + window \<le> clk then pg_quota_updates bl window clk qs (us @ [fresh])
          else if m \<le> qr_request_count r
          then Inl (AuthenticatedRequestRateLimitError (qr_window_started_at r + window - clk + 1))
          else pg_quota_updates bl window clk qs (us @ [\<lparr>qr_bucket_hash = b,
            qr_window_started_at = qr_window_started_at r, qr_request_count = qr_request_count r + 1\<rparr>]))"

fun pg_quota_write :: "quota_row list \<Rightarrow> quotas \<Rightarrow> quotas" where
  "pg_quota_write [] qs = qs"
| "pg_quota_write (u # us) qs = pg_quota_write us
     (if list_ex (\<lambda>r. qr_bucket_hash r = qr_bucket_hash u) qs
      then map (\<lambda>r. if qr_bucket_hash r = qr_bucket_hash u
        then r\<lparr>qr_window_started_at := qr_window_started_at u, qr_request_count := qr_request_count u\<rparr> else r) qs
      else qs @ [u])"

definition pg_consume_quota :: "bucket_limits \<Rightarrow> int \<Rightarrow> int \<Rightarrow> quotas \<Rightarrow> quotas res" where
  "pg_consume_quota bl window clk qs =
     rbind (pg_check_quota_limits bl window) (\<lambda>_.
       let kept = sql_delete (\<lambda>r. qr_window_started_at r < clk - window) qs in
     rbind (pg_quota_updates (sort bl) window clk kept []) (\<lambda>us. Inr (pg_quota_write us kept)))"

definition pg_quota_count :: "string \<Rightarrow> quotas \<Rightarrow> int" where
  "pg_quota_count b qs = (case sql_find (\<lambda>r. qr_bucket_hash r = b) qs of None \<Rightarrow> 0 | Some r \<Rightarrow> qr_request_count r)"

text \<open>The quota of both stores is one function.\<close>

lemma pg_check_quota_eq: "pg_check_quota_limits bl window = check_quota_limits bl window"
proof -
  have "card (set (map fst bl)) \<noteq> length bl \<longleftrightarrow> \<not> distinct (map fst bl)"
    using distinct_card [of "map fst bl"] card_distinct [of "map fst bl"] by auto
  then show ?thesis by (simp add: pg_check_quota_limits_def check_quota_limits_def)
qed

lemma pg_quota_updates_eq:
  "pg_quota_updates bl window clk qs us = rbind (quota_updates bl window clk qs) (\<lambda>vs. Inr (us @ vs))"
proof (induction bl arbitrary: us)
  case (Cons p bl)
  then show ?case
    by (cases p) (auto simp: quota_update_def quota_find_def retry_after_def Let_def rbind_def split: option.splits sum.splits)
qed simp

lemma pg_quota_write_eq: "pg_quota_write us qs = fold quota_upsert us qs"
  by (induction us arbitrary: qs) (simp_all add: quota_upsert_def sql_update_def list_ex_iff)

lemma pg_quota_eq:
  "pg_consume_quota bl window clk qs = consume_authenticated_request_quota bl window clk qs"
  "pg_quota_count b qs = authenticated_request_quota_count b qs"
  by (simp_all add: pg_consume_quota_def consume_authenticated_request_quota_def pg_check_quota_eq pg_quota_updates_eq
      pg_quota_write_eq rbind_def pg_quota_count_def authenticated_request_quota_count_def quota_find_def Let_def split: sum.splits)


section \<open>The fixed window of failures\<close>

definition window_row :: "pg_failure_row \<Rightarrow> quota_row" where
  "window_row r = \<lparr>qr_bucket_hash = pf_bucket_hash r, qr_window_started_at = pf_window_started_at r, qr_request_count = pf_failure_count r\<rparr>"

text \<open>The failures recorded for a bucket at the times \<open>ts\<close> are counted in windows that do not overlap.\<close>

definition windowed :: "int \<Rightarrow> nat \<Rightarrow> int list \<Rightarrow> pg_failure_row option \<Rightarrow> int \<Rightarrow> bool" where
  "windowed w l ts row t \<longleftrightarrow> (\<exists>es. map snd es = ts \<and> bucket_inv w l es (map_option window_row row) t)"

lemma windowed_later: "windowed w l ts row t \<Longrightarrow> t \<le> t' \<Longrightarrow> windowed w l ts row t'"
  unfolding windowed_def using bucket_later by blast

lemma windowed_expired: "windowed w l ts (Some r) t \<Longrightarrow> pf_window_started_at r + w \<le> t \<Longrightarrow> 1 \<le> w \<Longrightarrow> windowed w l ts None t"
  unfolding windowed_def using bucket_expired [of w l _ "window_row r" t] by (fastforce simp: window_row_def)

lemma windowed_fresh:
  assumes "windowed w l ts None t" and "1 \<le> w" and "1 \<le> l" and "pf_window_started_at r = t" and "pf_failure_count r = 1"
  shows "windowed w l (ts @ [t]) (Some r) t"
proof -
  obtain es where "map snd es = ts" "bucket_inv w l es None t" using assms(1) by (auto simp: windowed_def)
  with bucket_fresh [OF this(2) assms(2,3), of "pf_bucket_hash r"] show ?thesis
    using assms(4,5) by (auto simp: windowed_def window_row_def intro!: exI [of _ "es @ [(t, t)]"])
qed

lemma windowed_next:
  assumes "windowed w l ts (Some r) t" and "t < pf_window_started_at r + w" and "pf_failure_count r < int l"
  shows "windowed w l (ts @ [t]) (Some (r\<lparr>pf_failure_count := pf_failure_count r + 1\<rparr>)) t"
proof -
  obtain es where "map snd es = ts" "bucket_inv w l es (Some (window_row r)) t" using assms(1) by (auto simp: windowed_def)
  with bucket_next [OF this(2), of "pf_bucket_hash r"] show ?thesis
    using assms(2,3) by (auto simp: windowed_def window_row_def intro!: exI [of _ "es @ [(pf_window_started_at r, t)]"])
qed

lemma failure_find_append:
  "pg_failure_find c (fs @ [r]) = (case pg_failure_find c fs of Some x \<Rightarrow> Some x
     | None \<Rightarrow> if pf_bucket_hash r = c then Some r else None)"
  by (induction fs) (auto simp: pg_failure_find_def sql_find_def)

lemma failure_find_new:
  "pg_failure_find b fs = None \<Longrightarrow> pf_bucket_hash r = b \<Longrightarrow>
   pg_failure_find c (fs @ [r]) = (if c = b then Some r else pg_failure_find c fs)"
  by (simp add: failure_find_append split: option.splits)

lemma failure_find_update:
  "(\<And>x. pf_bucket_hash (f x) = pf_bucket_hash x) \<Longrightarrow>
   pg_failure_find c (sql_update (\<lambda>x. pf_bucket_hash x = b) f fs)
     = (if c = b then map_option f (pg_failure_find c fs) else pg_failure_find c fs)"
  by (induction fs) (auto simp: pg_failure_find_def sql_find_def sql_update_def)

lemma failure_find_delete:
  "pg_failure_find c (sql_delete (\<lambda>x. pf_bucket_hash x = b) fs) = (if c = b then None else pg_failure_find c fs)"
  by (induction fs) (auto simp: pg_failure_find_def sql_find_def sql_delete_def)

definition times_of :: "string \<Rightarrow> (string \<times> int) list \<Rightarrow> int list" where
  "times_of b hs = map snd (filter (\<lambda>h. fst h = b) hs)"

abbreviation all_windowed :: "int \<Rightarrow> (string \<Rightarrow> nat) \<Rightarrow> (string \<times> int) list \<Rightarrow> pg_failures \<Rightarrow> int \<Rightarrow> bool" where
  "all_windowed w limit hs fs t \<equiv> \<forall>b. windowed w (limit b) (times_of b hs) (pg_failure_find b fs) t"

lemma times_of_snoc: "times_of b (hs @ [(c, t)]) = (if b = c then times_of b hs @ [t] else times_of b hs)"
  by (simp add: times_of_def)

lemma pg_record_each_windowed:
  assumes "pg_record_each bl w t fs = Inr fs'" and "all_windowed w limit hs fs t" and "1 \<le> w"
    and "\<And>b m. (b, m) \<in> set bl \<Longrightarrow> 1 \<le> m \<and> m \<le> int (limit b)"
  shows "all_windowed w limit (hs @ map (\<lambda>(b, m). (b, t)) bl) fs' t"
  using assms
proof (induction bl arbitrary: fs hs)
  case (Cons p bl)
  obtain b m where p: "p = (b, m)" by force
  have lim: "1 \<le> limit b" "m \<le> int (limit b)" using Cons.prems(4) [of b m] p by auto
  have step: ?case if "pg_record_each bl w t fs1 = Inr fs'" "all_windowed w limit (hs @ [(b, t)]) fs1 t" for fs1
  proof -
    have "1 \<le> m' \<and> m' \<le> int (limit b')" if "(b', m') \<in> set bl" for b' m'
      using Cons.prems(4) [of b' m'] that by auto
    from Cons.IH [OF that(1) that(2) Cons.prems(3) this] show ?thesis using p by simp
  qed
  have old: "windowed w (limit c) (times_of c hs) (pg_failure_find c fs) t" for c using Cons.prems(2) by blast
  show ?case
  proof (cases "pg_failure_find b fs")
    case None
    let ?r = "\<lparr>pf_bucket_hash = b, pf_window_started_at = t, pf_failure_count = 1\<rparr>"
    have "windowed w (limit b) (times_of b hs @ [t]) (Some ?r) t"
      using old [of b] None Cons.prems(3) lim(1) by (intro windowed_fresh) simp_all
    then show ?thesis using Cons.prems(1) None p old
      by (intro step [of "fs @ [?r]"]) (simp_all add: times_of_snoc failure_find_new)
  next
    case (Some r)
    have here: "windowed w (limit b) (times_of b hs) (Some r) t" using old [of b] Some by simp
    show ?thesis
    proof (cases "pf_window_started_at r + w \<le> t")
      case True
      let ?f = "\<lambda>x. x\<lparr>pf_window_started_at := t, pf_failure_count := 1\<rparr>"
      have "windowed w (limit b) (times_of b hs @ [t]) (Some (?f r)) t"
        using windowed_expired [OF here True Cons.prems(3)] Cons.prems(3) lim(1) by (intro windowed_fresh) simp_all
      then show ?thesis using Cons.prems(1) Some True p old
        by (intro step [of "sql_update (\<lambda>x. pf_bucket_hash x = b) ?f fs"]) (auto simp: times_of_snoc failure_find_update)
    next
      case False
      let ?f = "\<lambda>x. x\<lparr>pf_failure_count := pf_failure_count x + 1\<rparr>"
      have m: "pf_failure_count r < m" using Cons.prems(1) Some False p by (simp split: if_splits)
      then have "windowed w (limit b) (times_of b hs @ [t]) (Some (?f r)) t"
        using here False lim(2) by (intro windowed_next) simp_all
      then show ?thesis using Cons.prems(1) Some False m p old
        by (intro step [of "sql_update (\<lambda>x. pf_bucket_hash x = b) ?f fs"]) (auto simp: times_of_snoc failure_find_update)
    qed
  qed
qed simp

lemma pg_enforce_each_windowed:
  assumes "pg_enforce_each bl w t fs = Inr fs'" and "all_windowed w limit hs fs t" and "1 \<le> w"
  shows "all_windowed w limit hs fs' t"
  using assms
proof (induction bl arbitrary: fs)
  case (Cons p bl)
  obtain b m where p: "p = (b, m)" by force
  show ?case
  proof (cases "pg_failure_find b fs")
    case None
    then show ?thesis using Cons p by simp
  next
    case (Some r)
    show ?thesis
    proof (cases "pf_window_started_at r + w \<le> t")
      case True
      have "windowed w (limit b) (times_of b hs) None t"
        using Cons.prems(2) Some True Cons.prems(3) by (intro windowed_expired [of _ _ _ r]) (auto dest: spec [of _ b])
      then have "all_windowed w limit hs (sql_delete (\<lambda>x. pf_bucket_hash x = b) fs) t"
        using Cons.prems(2) by (auto simp: failure_find_delete)
      then show ?thesis using Cons.IH Cons.prems Some True p by simp
    next
      case False
      then have "pg_enforce_each bl w t fs = Inr fs'" using Cons.prems(1) Some p by (simp split: if_splits)
      then show ?thesis by (rule Cons.IH [OF _ Cons.prems(2,3)])
    qed
  qed
qed simp

text \<open>Histories of the two operations: each recorded failure with its time.\<close>

inductive pg_failure_history :: "int \<Rightarrow> (string \<Rightarrow> nat) \<Rightarrow> (string \<times> int) list \<Rightarrow> pg_failures \<Rightarrow> int \<Rightarrow> bool" for window limit where
  started: "pg_failure_history window limit [] [] t"
| enforced: "pg_failure_history window limit hs fs t \<Longrightarrow> t \<le> t'
    \<Longrightarrow> pg_enforce_authentication_rate_limit bl window t' fs = Inr fs' \<Longrightarrow> pg_failure_history window limit hs fs' t'"
| recorded: "pg_failure_history window limit hs fs t \<Longrightarrow> t \<le> t' \<Longrightarrow> (\<And>b m. (b, m) \<in> set bl \<Longrightarrow> m \<le> int (limit b))
    \<Longrightarrow> pg_record_authentication_failure bl window t' fs = Inr fs'
    \<Longrightarrow> pg_failure_history window limit (hs @ map (\<lambda>(b, m). (b, t')) (sort bl)) fs' t'"

lemma pg_history_windowed:
  "pg_failure_history w limit hs fs t \<Longrightarrow> 1 \<le> w \<Longrightarrow> all_windowed w limit hs fs t"
proof (induction rule: pg_failure_history.induct)
  case (started t)
  show ?case by (simp add: windowed_def times_of_def pg_failure_find_def sql_find_def bucket_inv_def counted_def)
next
  case (enforced hs fs t t' bl fs')
  have "pg_enforce_each (sort bl) w t' fs = Inr fs'"
    using enforced.hyps(3) by (auto simp: pg_enforce_authentication_rate_limit_def rbind_Inr_iff)
  moreover have "all_windowed w limit hs fs t'" using enforced.IH enforced.prems enforced.hyps(2) windowed_later by blast
  ultimately show ?case using enforced.prems by (rule pg_enforce_each_windowed)
next
  case (recorded hs fs t t' bl fs')
  have r: "pg_record_each (sort bl) w t' fs = Inr fs'" and pos: "\<And>b m. (b, m) \<in> set bl \<Longrightarrow> 1 \<le> m"
    using recorded.hyps(4) by (auto simp: pg_record_authentication_failure_def pg_check_failure_limits_def rbind_Inr_iff list_ex_iff
        split: if_splits)
  moreover have "all_windowed w limit hs fs t'" using recorded.IH recorded.prems recorded.hyps(2) windowed_later by blast
  ultimately show ?case using recorded.prems recorded.hyps(3)
    by (intro pg_record_each_windowed [OF r]) simp_all
qed

text \<open>C40: on PostgreSQL the request quota is SQLite's, and failed authentications are bounded by twice the limit:
  over every history no half-open interval as long as the window contains more recorded failures of a bucket,
  and its stored count is within the limit.\<close>

theorem pg_failures_bounded:
  assumes "pg_failure_history window limit hs fs t" and "1 \<le> window"
  shows "length (filter (\<lambda>(b', s). b' = b \<and> u \<le> s \<and> s < u + window) hs) \<le> 2 * limit b
    \<and> pg_authentication_failure_count b fs \<le> int (limit b)
    \<and> pg_consume_quota bl window clk qs = consume_authenticated_request_quota bl window clk qs"
proof (intro conjI)
  obtain es where es: "map snd es = times_of b hs" "bucket_inv window (limit b) es (map_option window_row (pg_failure_find b fs)) t"
    using pg_history_windowed [OF assms] by (fastforce simp: windowed_def)
  have "length (filter (\<lambda>(b', s). b' = b \<and> u \<le> s \<and> s < u + window) hs)
      = length (filter (\<lambda>s. u \<le> s \<and> s < u + window) (times_of b hs))"
    by (induction hs) (auto simp: times_of_def)
  also have "\<dots> = length (filter (\<lambda>(ws, s). u \<le> s \<and> s < u + window) es)"
    unfolding es(1) [symmetric] by (simp add: filter_map comp_def case_prod_unfold)
  also have "\<dots> \<le> 2 * limit b" by (rule entries_bound [OF es(2) assms(2)])
  finally show "length (filter (\<lambda>(b', s). b' = b \<and> u \<le> s \<and> s < u + window) hs) \<le> 2 * limit b" .
  show "pg_authentication_failure_count b fs \<le> int (limit b)"
    using es(2) by (auto simp: pg_authentication_failure_count_def bucket_inv_def window_row_def split: option.splits)
      (metis of_nat_le_iff)
qed (rule pg_quota_eq)

text \<open>The bound is not the limit: three failures within one window of a bucket whose limit is two.\<close>

lemma sample_failures:
  "pg_record_authentication_failure [(''k'', 2)] 60 0 [] = Inr [\<lparr>pf_bucket_hash = ''k'', pf_window_started_at = 0, pf_failure_count = 1\<rparr>]"
  "pg_record_authentication_failure [(''k'', 2)] 60 59 [\<lparr>pf_bucket_hash = ''k'', pf_window_started_at = 0, pf_failure_count = 1\<rparr>]
     = Inr [\<lparr>pf_bucket_hash = ''k'', pf_window_started_at = 0, pf_failure_count = 2\<rparr>]"
  "pg_record_authentication_failure [(''k'', 2)] 60 60 [\<lparr>pf_bucket_hash = ''k'', pf_window_started_at = 0, pf_failure_count = 2\<rparr>]
     = Inr [\<lparr>pf_bucket_hash = ''k'', pf_window_started_at = 60, pf_failure_count = 1\<rparr>]"
  "pg_record_authentication_failure [(''k'', 2)] 60 61 [\<lparr>pf_bucket_hash = ''k'', pf_window_started_at = 60, pf_failure_count = 1\<rparr>]
     = Inr [\<lparr>pf_bucket_hash = ''k'', pf_window_started_at = 60, pf_failure_count = 2\<rparr>]"
  by (simp_all add: pg_record_authentication_failure_def pg_check_failure_limits_def pg_failure_find_def sql_find_def sql_update_def)

theorem pg_failures_bounded_witness:
  "\<exists>hs fs. hs = [(''k'', 0), (''k'', 59), (''k'', 60), (''k'', 61)] \<and> pg_failure_history 60 (\<lambda>_. 2) hs fs 61
    \<and> length (filter (\<lambda>(b', s). b' = ''k'' \<and> 59 \<le> s \<and> s < 59 + 60) hs) = 3
    \<and> length (filter (\<lambda>(b', s). b' = ''k'' \<and> 59 \<le> s \<and> s < 59 + 60) hs) \<le> 2 * 2"
proof (intro exI conjI)
  let ?hs = "[(''k'', 0), (''k'', 59), (''k'', 60), (''k'', 61)] :: (string \<times> int) list"
  let ?fs = "[\<lparr>pf_bucket_hash = ''k'', pf_window_started_at = 60, pf_failure_count = 2\<rparr>]"
  note rec = pg_failure_history.recorded [where bl = "[(''k'', 2)]" and window = 60 and limit = "\<lambda>_. 2"]
  have h1: "pg_failure_history 60 (\<lambda>_. 2) [(''k'', 0)] [\<lparr>pf_bucket_hash = ''k'', pf_window_started_at = 0, pf_failure_count = 1\<rparr>] 0"
    using rec [OF pg_failure_history.started [of 60 "\<lambda>_. 2" 0] _ _ sample_failures(1)] by simp
  have h2: "pg_failure_history 60 (\<lambda>_. 2) [(''k'', 0), (''k'', 59)] [\<lparr>pf_bucket_hash = ''k'', pf_window_started_at = 0, pf_failure_count = 2\<rparr>] 59"
    using rec [OF h1 _ _ sample_failures(2)] by simp
  have h3: "pg_failure_history 60 (\<lambda>_. 2) [(''k'', 0), (''k'', 59), (''k'', 60)] [\<lparr>pf_bucket_hash = ''k'', pf_window_started_at = 60, pf_failure_count = 1\<rparr>] 60"
    using rec [OF h2 _ _ sample_failures(3)] by simp
  show h4: "pg_failure_history 60 (\<lambda>_. 2) ?hs ?fs 61"
    using rec [OF h3 _ _ sample_failures(4)] by simp
  show "length (filter (\<lambda>(b', s). b' = ''k'' \<and> 59 \<le> s \<and> s < 59 + 60) ?hs) = 3" by simp
  show "length (filter (\<lambda>(b', s). b' = ''k'' \<and> 59 \<le> s \<and> s < 59 + 60) ?hs) \<le> 2 * 2"
    using pg_failures_bounded [OF h4, of "''k''" 59] by simp
qed simp

end
