(* ===== verification/PostgresMedia.thy ===== *)
theory PostgresMedia
  imports Twins MediaStore OAuthStore
begin

text \<open>
  \<open>publication_media_postgres.py\<close> and \<open>PostgresSocialOAuthStore\<close> (\<open>social_oauth_store.py\<close>) of
  \<open>backend/agency_runtime\<close>: images, authorizations in progress and connected accounts on PostgreSQL. A time
  reads back as the text \<open>ts\<close> gives, \<open>instant\<close> is its place in time and \<open>seconds\<close> is \<open>datetime.fromisoformat\<close>, which
  reads both texts alike.
\<close>

section \<open>Publication media\<close>

definition media_pg_times :: "(string \<Rightarrow> string) \<Rightarrow> media \<Rightarrow> media" where
  "media_pg_times ts m = m\<lparr>md_created_at := ts (md_created_at m), md_expires_at := ts (md_expires_at m),
     md_revoked_at := map_option ts (md_revoked_at m)\<rparr>"

text \<open>The \<open>CHECK\<close> constraints of the table, which bound the size of an image and its sides.\<close>

definition media_pg_check :: "media \<Rightarrow> bool" where
  "media_pg_check m \<longleftrightarrow> md_channel_id m = ''instagram'' \<and> md_content_type m = ''image/jpeg''
     \<and> 0 < md_byte_size m \<and> md_byte_size m \<le> 8388608
     \<and> 320 \<le> md_width m \<and> md_width m \<le> 1440 \<and> 320 \<le> md_height m \<and> md_height m \<le> 1440"

definition media_pg_insert :: "(string \<Rightarrow> string) \<Rightarrow> media_table \<Rightarrow> media \<Rightarrow> string \<Rightarrow> media_table res" where
  "media_pg_insert ts rows m content =
     (if \<not> media_pg_check m \<or> list_ex (\<lambda>r. media_clash (mr_media r) m) rows then Inl IntegrityError
      else Inr (rows @ [\<lparr>mr_media = media_pg_times ts m, mr_content = content\<rparr>]))"

definition media_pg_create ::
  "(string \<Rightarrow> string) \<Rightarrow> (string \<Rightarrow> int res) \<Rightarrow> media_table \<Rightarrow> media \<Rightarrow> string \<Rightarrow> (media_table \<times> media) res" where
  "media_pg_create ts seconds rows m content =
     rbind (validate_media seconds m content) (\<lambda>_. case media_pg_insert ts rows m content of
       Inl _ \<Rightarrow> Inl (PublicationMediaConflictError ''publication media conflicts with existing durable state'')
     | Inr rows' \<Rightarrow> Inr (rows', m))"

text \<open>The row of the best rank: the idempotency key's, the binding's, the id's. An empty digest is NULL and matches
  nothing.\<close>

definition media_pg_existing :: "media_table \<Rightarrow> media \<Rightarrow> media_row option" where
  "media_pg_existing rows m =
     (let idem = (\<lambda>r. md_tenant_id (mr_media r) = md_tenant_id m \<and> md_idempotency_digest m \<noteq> []
            \<and> md_idempotency_digest (mr_media r) = md_idempotency_digest m);
          bind = (\<lambda>r. md_tenant_id (mr_media r) = md_tenant_id m \<and> md_binding_digest m \<noteq> []
            \<and> md_binding_digest (mr_media r) = md_binding_digest m)
      in sql_first (\<lambda>r. md_media_id (mr_media r) = md_media_id m \<or> idem r \<or> bind r)
           (\<lambda>r. if idem r then 0 else if bind r then 1 else 2) rows)"

definition media_pg_reserve ::
  "(string \<Rightarrow> string) \<Rightarrow> (string \<Rightarrow> int res) \<Rightarrow> media_table \<Rightarrow> media \<Rightarrow> string \<Rightarrow> (media_table \<times> media_reservation) res" where
  "media_pg_reserve ts seconds rows m content =
     rbind (validate_media seconds m content) (\<lambda>_. case media_pg_existing rows m of
       Some r \<Rightarrow> rbind (raise_first
         [(md_binding_digest (mr_media r) \<noteq> md_binding_digest m,
            PublicationMediaConflictError ''publication media idempotency key conflicts with prior input''),
          (mr_content r \<noteq> content,
            PublicationMediaConflictError ''publication media bytes conflict with durable binding'')])
         (\<lambda>_. Inr (rows, \<lparr>mv_record = mr_media r, mv_created = False, mv_replayed = True\<rparr>))
     | None \<Rightarrow> (case media_pg_insert ts rows m content of
           Inl _ \<Rightarrow> Inl (PublicationMediaConflictError ''publication media conflicts with existing durable state'')
         | Inr rows' \<Rightarrow> Inr (rows', \<lparr>mv_record = m, mv_created = True, mv_replayed = False\<rparr>)))"

definition media_pg_get :: "media_table \<Rightarrow> string \<Rightarrow> string \<Rightarrow> media option res" where
  "media_pg_get rows tenant mid =
     rbind (validate_media_identity tenant mid) (\<lambda>_. Inr (map_option mr_media
       (sql_find (\<lambda>r. md_tenant_id (mr_media r) = tenant \<and> md_media_id (mr_media r) = mid) rows)))"

definition media_pg_get_content :: "media_table \<Rightarrow> string \<Rightarrow> string \<Rightarrow> string res" where
  "media_pg_get_content rows tenant mid =
     rbind (validate_media_identity tenant mid) (\<lambda>_.
       case sql_find (\<lambda>r. md_tenant_id (mr_media r) = tenant \<and> md_media_id (mr_media r) = mid) rows of
         None \<Rightarrow> Inl (KeyError ''publication media not found'') | Some r \<Rightarrow> Inr (mr_content r))"

definition media_pg_get_public :: "(string \<Rightarrow> int) \<Rightarrow> media_table \<Rightarrow> string \<Rightarrow> string \<Rightarrow> (media \<times> string) res" where
  "media_pg_get_public instant rows digest clk =
     (if length digest \<noteq> 64 \<or> list_ex (\<lambda>c. c \<notin> set ''0123456789abcdef'') digest
      then Inl (KeyError ''publication media not found'')
      else case sql_find (\<lambda>r. md_public_token_digest (mr_media r) = digest \<and> md_revoked_at (mr_media r) = None
           \<and> instant clk < instant (md_expires_at (mr_media r))) rows of
        None \<Rightarrow> Inl (KeyError ''publication media not found'')
      | Some r \<Rightarrow> rbind (raise_first [(sha256_hex (mr_content r) \<noteq> md_sha256 (mr_media r),
            PublicationMediaStoreError ''publication media bytes do not match durable hash'')])
          (\<lambda>_. Inr (mr_media r, mr_content r)))"

definition media_pg_revoke ::
  "(string \<Rightarrow> string) \<Rightarrow> media_table \<Rightarrow> string \<Rightarrow> string \<Rightarrow> string \<Rightarrow> string \<Rightarrow> media_table res" where
  "media_pg_revoke ts rows tenant mid reason clk =
     rbind (validate_media_identity tenant mid) (\<lambda>_.
       if reason = [] \<or> 512 < utf8_len reason then Inl (ValueError ''publication media revocation reason is invalid'')
       else let hit = (\<lambda>r. md_tenant_id (mr_media r) = tenant \<and> md_media_id (mr_media r) = mid
              \<and> md_revoked_at (mr_media r) = None) in
         if sql_count hit rows = 1
         then Inr (sql_update hit (\<lambda>r. r\<lparr>mr_media := (mr_media r)\<lparr>md_revoked_at := Some (ts clk),
           md_revocation_reason := reason\<rparr>\<rparr>) rows)
         else Inl (KeyError ''publication media not found''))"

section \<open>Authorizations and connections\<close>

definition oauth_pg_times :: "(string \<Rightarrow> string) \<Rightarrow> oauth_state \<Rightarrow> oauth_state" where
  "oauth_pg_times ts s = s\<lparr>os_created_at := ts (os_created_at s), os_expires_at := ts (os_expires_at s),
     os_consumed_at := map_option ts (os_consumed_at s)\<rparr>"

definition connection_pg_times :: "(string \<Rightarrow> string) \<Rightarrow> social_connection \<Rightarrow> social_connection" where
  "connection_pg_times ts c = c\<lparr>sn_token_expires_at := map_option ts (sn_token_expires_at c),
     sn_connected_at := ts (sn_connected_at c), sn_updated_at := ts (sn_updated_at c)\<rparr>"

definition oauth_pg_create_state ::
  "(string \<Rightarrow> string) \<Rightarrow> (string \<Rightarrow> int res) \<Rightarrow> oauth_states \<Rightarrow> oauth_state \<Rightarrow> oauth_states res" where
  "oauth_pg_create_state ts seconds rows s =
     rbind (oauth_validate_state seconds s) (\<lambda>_.
       let kept = sql_delete (\<lambda>r. os_tenant_id r = os_tenant_id s \<and> os_session_id r = os_session_id s
             \<and> os_channel_id r = os_channel_id s \<and> os_consumed_at r = None) rows in
       if list_ex (\<lambda>r. os_state_id r = os_state_id s) kept \<or> list_ex (\<lambda>r. os_state_digest r = os_state_digest s) kept
       then Inl (SocialOAuthStoreError ''social OAuth state could not be created'')
       else Inr (kept @ [(oauth_pg_times ts s)\<lparr>os_consumed_at := None\<rparr>]))"

text \<open>\<open>UPDATE ... RETURNING\<close>: the first row of those it changed, which the unique digest makes the only one.\<close>

definition oauth_pg_consume_state ::
  "(string \<Rightarrow> string) \<Rightarrow> (string \<Rightarrow> int) \<Rightarrow> oauth_states \<Rightarrow> string \<Rightarrow> string \<Rightarrow> string \<Rightarrow> string \<Rightarrow> string option \<Rightarrow> string
    \<Rightarrow> (oauth_states \<times> oauth_state) res" where
  "oauth_pg_consume_state ts instant rows tenant session channel digest token_digest clk =
     rbind (oauth_validate_lookup tenant session channel digest token_digest) (\<lambda>_.
       let hit = (\<lambda>r. os_tenant_id r = tenant \<and> os_session_id r = session \<and> os_channel_id r = channel
             \<and> os_state_digest r = digest
             \<and> (os_provider_token_digest r = None \<and> token_digest = None
               \<or> (\<exists>d. os_provider_token_digest r = Some d \<and> token_digest = Some d))
             \<and> os_consumed_at r = None \<and> instant clk < instant (os_expires_at r));
           used = (\<lambda>r. r\<lparr>os_consumed_at := Some (ts clk)\<rparr>) in
       case sql_find hit rows of
         None \<Rightarrow> Inl (SocialOAuthStateUnavailableError ''social OAuth state is unavailable'')
       | Some x \<Rightarrow> Inr (sql_update hit used rows, used x))"

definition connection_pg_upsert ::
  "(string \<Rightarrow> string) \<Rightarrow> (string \<Rightarrow> int res) \<Rightarrow> connections \<Rightarrow> social_connection \<Rightarrow> connections res" where
  "connection_pg_upsert ts seconds rows c =
     rbind (validate_connection seconds c) (\<lambda>_.
       if list_ex (connection_key (sn_tenant_id c) (sn_channel_id c)) rows
       then Inr (map (\<lambda>r. if connection_key (sn_tenant_id c) (sn_channel_id c) r
         then r\<lparr>sn_account_id := sn_account_id c, sn_account_username := sn_account_username c,
           sn_encrypted_tokens := sn_encrypted_tokens c, sn_scopes := sn_scopes c,
           sn_token_expires_at := map_option ts (sn_token_expires_at c), sn_connected_at := ts (sn_connected_at c),
           sn_updated_at := ts (sn_updated_at c)\<rparr> else r) rows)
       else Inr (rows @ [connection_pg_times ts c]))"

definition connection_pg_get :: "connections \<Rightarrow> string \<Rightarrow> string \<Rightarrow> social_connection option res" where
  "connection_pg_get rows tenant channel =
     rbind (validate_tenant_channel tenant channel) (\<lambda>_. Inr (sql_find (connection_key tenant channel) rows))"

definition connection_pg_list :: "connections \<Rightarrow> string \<Rightarrow> connections res" where
  "connection_pg_list rows tenant =
     (if sp_identifier tenant then Inr (sort_key sn_channel_id (filter (\<lambda>r. sn_tenant_id r = tenant) rows))
      else Inl (ValueError ''tenant_id is invalid''))"

definition connection_pg_delete :: "(string \<Rightarrow> string) \<Rightarrow> connections \<Rightarrow> string \<Rightarrow> string \<Rightarrow> string \<Rightarrow> (connections \<times> bool) res" where
  "connection_pg_delete ts rows tenant channel clk =
     rbind (validate_tenant_channel tenant channel) (\<lambda>_.
     case sql_find (connection_key tenant channel) rows of
       None \<Rightarrow> Inr (rows, False)
     | Some x \<Rightarrow>
         (let wiped = sql_update (connection_key tenant channel) (\<lambda>r. r\<lparr>
                sn_encrypted_tokens := (sn_encrypted_tokens r)\<lparr>ec_ciphertext :=
                  replicate (max 32 (length (ec_ciphertext (sn_encrypted_tokens x)))) (CHR ''0'')\<rparr>,
                sn_account_id := ''deleted-account'', sn_account_username := ''deleted-account'', sn_scopes := [],
                sn_token_expires_at := None, sn_updated_at := ts clk\<rparr>) rows
          in Inr (sql_delete (connection_key tenant channel) wiped, sql_count (connection_key tenant channel) wiped = 1)))"

definition connection_pg_count :: "connections \<Rightarrow> string \<Rightarrow> nat res" where
  "connection_pg_count rows tenant =
     (if sp_identifier tenant then Inr (sql_count (\<lambda>r. sn_tenant_id r = tenant) rows)
      else Inl (ValueError ''tenant_id is invalid''))"

definition oauth_pg_clear_tenant :: "oauth_states \<Rightarrow> connections \<Rightarrow> string \<Rightarrow> (oauth_states \<times> connections) res" where
  "oauth_pg_clear_tenant rows conns tenant =
     (if sp_identifier tenant
      then Inr (sql_delete (\<lambda>r. os_tenant_id r = tenant) rows, sql_delete (\<lambda>r. sn_tenant_id r = tenant) conns)
      else Inl (ValueError ''tenant_id is invalid''))"

section \<open>Against the SQLite twins\<close>

text \<open>What the SQLite tables keep: unique ids and digests, one connection for each tenant and channel.\<close>

definition oauth_keys :: "oauth_states \<Rightarrow> bool" where
  "oauth_keys rows \<longleftrightarrow> distinct (map os_state_id rows) \<and> distinct (map os_state_digest rows)"

definition reads_alike :: "(string \<Rightarrow> string) \<Rightarrow> (string \<Rightarrow> int res) \<Rightarrow> bool" where
  "reads_alike ts seconds \<longleftrightarrow> (\<forall>t. seconds (ts t) = seconds t)"

lemma validate_media_times: "reads_alike ts seconds \<Longrightarrow> validate_media seconds (media_pg_times ts m) c = validate_media seconds m c"
  by (cases "md_revoked_at m")
    (simp_all add: validate_media_def media_pg_times_def reads_alike_def cong: if_cong option.case_cong)

lemma media_clash_times: "media_clash r (media_pg_times ts m) = media_clash r m"
  by (simp add: media_clash_def media_pg_times_def)

text \<open>Creation differs from SQLite's in the images whose sides the table refuses, and in nothing else.\<close>

lemma media_pg_create_eq:
  assumes "reads_alike ts seconds" and "320 \<le> md_width m" "md_width m \<le> 1440" "320 \<le> md_height m" "md_height m \<le> 1440"
  shows "media_create seconds rows (media_pg_times ts m) content = rbind (media_pg_create ts seconds rows m content) (\<lambda>(rows', _). Inr rows')"
proof (cases "validate_media seconds m content")
  case (Inl e)
  then show ?thesis by (simp add: media_create_def media_pg_create_def validate_media_times [OF assms(1)])
next
  case (Inr u)
  then have "media_pg_check m"
    using assms(2-) by (auto simp: media_pg_check_def validate_media_def rbind_Inr_iff raise_first_Inr length_greater_0_conv)
  with Inr show ?thesis
    by (simp add: media_create_def media_pg_create_def validate_media_times [OF assms(1)] media_insert_def media_pg_insert_def
        media_clash_times list_ex_iff)
qed

lemma media_pg_get_eq: "media_pg_get = media_get"
  by (intro ext) (simp add: media_pg_get_def media_get_def)

lemma media_pg_content_eq:
  assumes "distinct (map (\<lambda>r. md_media_id (mr_media r)) rows)"
  shows "media_pg_get_content rows t mid = media_get_content rows t mid"
proof (cases "sql_find (\<lambda>r. md_tenant_id (mr_media r) = t \<and> md_media_id (mr_media r) = mid) rows")
  case None
  then show ?thesis by (simp add: media_pg_get_content_def media_get_content_def media_get_def rbind_def split: sum.splits)
next
  case (Some r)
  then have r: "r \<in> set rows" "md_media_id (mr_media r) = mid" by (auto dest: sql_find_Some)
  then have "sql_find (\<lambda>r. md_media_id (mr_media r) = mid) rows = Some r"
    using assms by (intro sql_find_unique [of "\<lambda>r. md_media_id (mr_media r)"]) auto
  with Some show ?thesis
    by (simp add: media_pg_get_content_def media_get_content_def media_get_def media_content_for_def rbind_def split: sum.splits)
qed

lemma hex_digit: "c \<in> set ''0123456789abcdef'' \<longleftrightarrow> is_lower_hex c"
proof -
  have "''0123456789abcdef'' = map char_of ([48..<58] @ [97..<103] :: nat list)" by code_simp
  then have "set ''0123456789abcdef'' = char_of ` ({48..<58} \<union> {97..<103} :: nat set)"
    unfolding set_upt [symmetric] set_append [symmetric] set_map [symmetric] by (rule arg_cong)
  then have "c \<in> set ''0123456789abcdef'' \<longleftrightarrow> c \<in> char_of ` ({48..<58} \<union> {97..<103} :: nat set)" by (rule arg_cong)
  also have "\<dots> \<longleftrightarrow> (of_char c :: nat) \<in> {48..<58} \<union> {97..<103}"
  proof
    assume "c \<in> char_of ` ({48..<58} \<union> {97..<103} :: nat set)"
    then obtain n :: nat where "n \<in> {48..<58} \<union> {97..<103}" "c = char_of n" by blast
    then show "(of_char c :: nat) \<in> {48..<58} \<union> {97..<103}" by (auto simp: of_char_of)
  next
    assume "(of_char c :: nat) \<in> {48..<58} \<union> {97..<103}"
    then show "c \<in> char_of ` ({48..<58} \<union> {97..<103} :: nat set)" by (intro image_eqI [of _ _ "of_char c"]) simp_all
  qed
  also have "\<dots> \<longleftrightarrow> is_lower_hex c" by (auto simp: is_lower_hex_def is_ascii_digit_def in_range_def)
  finally show ?thesis .
qed

lemma media_pg_public_eq:
  assumes "time_ordered instant (insert clk ((\<lambda>r. md_expires_at (mr_media r)) ` set rows))"
  shows "media_pg_get_public instant rows d clk = media_get_public rows d clk"
proof -
  have hex: "(length d \<noteq> 64 \<or> list_ex (\<lambda>c. c \<notin> set ''0123456789abcdef'') d) = (\<not> is_sha256 d)"
    unfolding hex_digit is_sha256_def list_ex_iff list_all_iff by blast
  have "sql_find (\<lambda>r. md_public_token_digest (mr_media r) = d \<and> md_revoked_at (mr_media r) = None
       \<and> instant clk < instant (md_expires_at (mr_media r))) rows
    = sql_find (\<lambda>r. md_public_token_digest (mr_media r) = d \<and> md_revoked_at (mr_media r) = None
       \<and> clk < md_expires_at (mr_media r)) rows"
    unfolding sql_find_def using assms by (intro find_cong) (auto simp: time_ordered_def simp flip: not_le)
  then show ?thesis unfolding media_pg_get_public_def media_get_public_def hex by (simp split: option.splits)
qed

lemma media_pg_revoke_eq: "media_pg_revoke ts rows t mid reason clk = media_revoke rows t mid reason (ts clk)"
  by (simp add: media_pg_revoke_def media_revoke_def Let_def)

lemma if_swap: "(if \<not> b then x else y) = (if b then y else x)"
  by simp

lemma connection_pg_eq:
  "connection_pg_get = get_connection" "connection_pg_list = list_connections" "connection_pg_count = connection_count"
  "connection_pg_delete ts rows t ch clk = delete_connection rows t ch (ts clk)"
  by (simp_all only: fun_eq_iff connection_pg_get_def get_connection_def connection_pg_list_def list_connections_def
      connection_pg_count_def connection_count_def connection_pg_delete_def delete_connection_def simp_thms if_swap)

section \<open>An authorization is consumed once\<close>

text \<open>The digests of the authorizations that were consumed.\<close>

definition spent :: "oauth_states \<Rightarrow> string set" where
  "spent rows = os_state_digest ` {r \<in> set rows. os_consumed_at r \<noteq> None}"

text \<open>Histories of a store: the authorizations consumed so far.\<close>

inductive authorizations ::
  "(oauth_states \<Rightarrow> oauth_state \<Rightarrow> oauth_states res) \<Rightarrow> (oauth_states \<Rightarrow> 'a \<Rightarrow> (oauth_states \<times> oauth_state) res)
    \<Rightarrow> oauth_states \<Rightarrow> string list \<Rightarrow> bool" for create consume where
  none: "authorizations create consume [] []"
| created: "authorizations create consume rows log \<Longrightarrow> create rows s = Inr rows' \<Longrightarrow> authorizations create consume rows' log"
| consumed: "authorizations create consume rows log \<Longrightarrow> consume rows a = Inr (rows', x)
    \<Longrightarrow> authorizations create consume rows' (log @ [os_state_digest x])"

locale one_time_store =
  fixes create :: "oauth_states \<Rightarrow> oauth_state \<Rightarrow> oauth_states res"
    and consume :: "oauth_states \<Rightarrow> 'a \<Rightarrow> (oauth_states \<times> oauth_state) res"
  assumes create_keeps: "create rows s = Inr rows' \<Longrightarrow> distinct (map os_state_digest rows) \<Longrightarrow>
      distinct (map os_state_digest rows') \<and> spent rows' = spent rows"
    and consume_spends: "consume rows a = Inr (rows', x) \<Longrightarrow> distinct (map os_state_digest rows) \<Longrightarrow>
      distinct (map os_state_digest rows') \<and> os_state_digest x \<notin> spent rows
      \<and> spent rows' = insert (os_state_digest x) (spent rows)"
begin

lemma consumed_once:
  "authorizations create consume rows log \<Longrightarrow> distinct log \<and> set log = spent rows \<and> distinct (map os_state_digest rows)"
proof (induction rule: authorizations.induct)
  case none
  show ?case by (simp add: spent_def)
next
  case (created rows log s rows')
  then show ?case using create_keeps by blast
next
  case (consumed rows log a rows' x)
  then show ?case using consume_spends [of rows a rows' x] by auto
qed

end

text \<open>Both stores keep the laws. A new authorization replaces unfinished ones only, and a consumed one stays.\<close>

lemma created_keeps:
  assumes "distinct (map os_state_digest rows)" and "\<And>r. p r \<Longrightarrow> os_consumed_at r = None"
    and "\<forall>r \<in> set (sql_delete p rows). os_state_digest r \<noteq> os_state_digest s" and "os_consumed_at s = None"
  shows "distinct (map os_state_digest (sql_delete p rows @ [s])) \<and> spent (sql_delete p rows @ [s]) = spent rows"
proof
  show "distinct (map os_state_digest (sql_delete p rows @ [s]))"
    using assms(1,3) by (auto simp: sql_delete_def distinct_map inj_on_def)
  show "spent (sql_delete p rows @ [s]) = spent rows"
    using assms(2,4) by (auto simp: spent_def sql_delete_def)
qed

lemma update_spends_key:
  assumes "distinct (map k rows)" and "x \<in> set rows" and "\<not> q x" and "\<And>r. r \<in> set rows \<Longrightarrow> p r \<longleftrightarrow> r = x"
    and "\<And>r. k (f r) = k r" and "\<And>r. q (f r)"
  shows "distinct (map k (sql_update p f rows))" and "k x \<notin> k ` {r \<in> set rows. q r}"
    and "k ` {r \<in> set (sql_update p f rows). q r} = insert (k x) (k ` {r \<in> set rows. q r})"
proof -
  show "distinct (map k (sql_update p f rows))" using assms(1,5) by (simp add: map_sql_update_key)
  show "k x \<notin> k ` {r \<in> set rows. q r}" using assms(1-3) by (auto dest: unique_key)
  have "set (sql_update p f rows) = insert (f x) (set rows - {x})"
    using assms(2,4) unfolding set_sql_update by auto
  then have "{r \<in> set (sql_update p f rows). q r} = insert (f x) {r \<in> set rows. q r}" using assms(3,6) by auto
  then show "k ` {r \<in> set (sql_update p f rows). q r} = insert (k x) (k ` {r \<in> set rows. q r})" using assms(5) by simp
qed

lemma consumed_spends:
  fixes x :: oauth_state
  assumes "distinct (map os_state_digest rows)" and "x \<in> set rows" and "os_consumed_at x = None"
    and "\<And>r. r \<in> set rows \<Longrightarrow> p r \<longleftrightarrow> r = x"
    and "\<And>r. os_state_digest (f r) = os_state_digest r" and "\<And>r. os_consumed_at (f r) \<noteq> None"
  shows "distinct (map os_state_digest (sql_update p f rows)) \<and> os_state_digest x \<notin> spent rows
    \<and> spent (sql_update p f rows) = insert (os_state_digest x) (spent rows)"
  unfolding spent_def using update_spends_key [of os_state_digest rows x "\<lambda>r. os_consumed_at r \<noteq> None", OF assms(1,2) _ assms(4-6)] assms(3)
  by simp

definition lite_consume :: "oauth_states \<Rightarrow> string \<times> string \<times> string \<times> string \<times> string option \<times> string \<Rightarrow> (oauth_states \<times> oauth_state) res" where
  "lite_consume rows a = (case a of (t, session, ch, d, td, clk) \<Rightarrow> oauth_consume_state rows t session ch d td clk)"

definition pg_consume ::
  "(string \<Rightarrow> string) \<Rightarrow> (string \<Rightarrow> int) \<Rightarrow> oauth_states \<Rightarrow> string \<times> string \<times> string \<times> string \<times> string option \<times> string \<Rightarrow> (oauth_states \<times> oauth_state) res" where
  "pg_consume ts instant rows a = (case a of (t, session, ch, d, td, clk) \<Rightarrow> oauth_pg_consume_state ts instant rows t session ch d td clk)"

definition replaced :: "oauth_state \<Rightarrow> oauth_state \<Rightarrow> bool" where
  "replaced s r \<longleftrightarrow> os_tenant_id r = os_tenant_id s \<and> os_session_id r = os_session_id s
     \<and> os_channel_id r = os_channel_id s \<and> os_consumed_at r = None"

lemma oauth_create_state_Inr:
  assumes "oauth_create_state seconds rows s = Inr rows'"
  shows "rows' = sql_delete (replaced s) rows @ [s\<lparr>os_consumed_at := None\<rparr>]"
    "\<forall>r \<in> set (sql_delete (replaced s) rows). os_state_digest r \<noteq> os_state_digest s"
  using assms unfolding oauth_create_state_def rbind_Inr_iff Let_def replaced_def [abs_def]
  by (simp_all split: if_splits)

lemma oauth_pg_create_state_Inr:
  assumes "oauth_pg_create_state ts seconds rows s = Inr rows'"
  shows "rows' = sql_delete (replaced s) rows @ [(oauth_pg_times ts s)\<lparr>os_consumed_at := None\<rparr>]"
    "\<forall>r \<in> set (sql_delete (replaced s) rows). os_state_digest r \<noteq> os_state_digest s"
  using assms unfolding oauth_pg_create_state_def rbind_Inr_iff Let_def replaced_def [abs_def]
  by (simp_all add: list_ex_iff split: if_splits)

interpretation lite_authorizations: one_time_store "oauth_create_state seconds" lite_consume
  for seconds
proof
  fix rows rows' and s :: oauth_state
  assume c: "oauth_create_state seconds rows s = Inr rows'" and "distinct (map os_state_digest rows)"
  then show "distinct (map os_state_digest rows') \<and> spent rows' = spent rows"
    unfolding oauth_create_state_Inr(1) [OF c] using oauth_create_state_Inr(2) [OF c]
    by (intro created_keeps) (simp_all add: replaced_def)
next
  fix rows rows' x and a :: "string \<times> string \<times> string \<times> string \<times> string option \<times> string"
  assume c: "lite_consume rows a = Inr (rows', x)" and keys: "distinct (map os_state_digest rows)"
  obtain t session ch d td clk where a: "a = (t, session, ch, d, td, clk)" by (cases a) blast
  obtain y where y: "sql_find (\<lambda>r. os_tenant_id r = t \<and> os_session_id r = session \<and> os_channel_id r = ch
         \<and> os_state_digest r = d \<and> os_provider_token_digest r = td
         \<and> os_consumed_at r = None \<and> clk < os_expires_at r) rows = Some y"
    and n: "sql_count (\<lambda>r. os_state_id r = os_state_id y \<and> os_consumed_at r = None) rows = 1"
    and x: "x = y\<lparr>os_consumed_at := Some clk\<rparr>"
    and rows': "rows' = sql_update (\<lambda>r. os_state_id r = os_state_id y \<and> os_consumed_at r = None) (\<lambda>r. r\<lparr>os_consumed_at := Some clk\<rparr>) rows"
    using c by (auto simp: lite_consume_def a oauth_consume_state_def Let_def rbind_Inr_iff split: option.splits if_splits)
  have yy: "y \<in> set rows" "os_consumed_at y = None" using sql_find_Some [OF y] by auto
  obtain z where z: "filter (\<lambda>r. os_state_id r = os_state_id y \<and> os_consumed_at r = None) rows = [z]"
    using n by (auto simp: sql_count_def length_Suc_conv)
  have only: "(os_state_id r = os_state_id y \<and> os_consumed_at r = None) \<longleftrightarrow> r = y" if "r \<in> set rows" for r
  proof -
    have "x \<in> {x \<in> set rows. os_state_id x = os_state_id y \<and> os_consumed_at x = None} \<longleftrightarrow> x = z" for x
      using z by (simp flip: set_filter)
    from this [of r] this [of y] that yy show ?thesis by blast
  qed
  show "distinct (map os_state_digest rows') \<and> os_state_digest x \<notin> spent rows \<and> spent rows' = insert (os_state_digest x) (spent rows)"
    unfolding rows' x using consumed_spends [OF keys yy only, of "\<lambda>r. r\<lparr>os_consumed_at := Some clk\<rparr>"] by simp
qed

interpretation pg_authorizations: one_time_store "oauth_pg_create_state ts seconds" "pg_consume ts instant"
  for ts seconds instant
proof
  fix rows rows' and s :: oauth_state
  assume c: "oauth_pg_create_state ts seconds rows s = Inr rows'" and "distinct (map os_state_digest rows)"
  then show "distinct (map os_state_digest rows') \<and> spent rows' = spent rows"
    unfolding oauth_pg_create_state_Inr(1) [OF c] using oauth_pg_create_state_Inr(2) [OF c]
    by (intro created_keeps) (simp_all add: replaced_def oauth_pg_times_def)
next
  fix rows rows' x and a :: "string \<times> string \<times> string \<times> string \<times> string option \<times> string"
  assume c: "pg_consume ts instant rows a = Inr (rows', x)" and keys: "distinct (map os_state_digest rows)"
  obtain t session ch d td clk where a: "a = (t, session, ch, d, td, clk)" by (cases a) blast
  define hit where "hit = (\<lambda>r :: oauth_state. os_tenant_id r = t \<and> os_session_id r = session \<and> os_channel_id r = ch
             \<and> os_state_digest r = d
             \<and> (os_provider_token_digest r = None \<and> td = None
               \<or> (\<exists>d. os_provider_token_digest r = Some d \<and> td = Some d))
             \<and> os_consumed_at r = None \<and> instant clk < instant (os_expires_at r))"
  obtain y where y: "sql_find hit rows = Some y" and x: "x = y\<lparr>os_consumed_at := Some (ts clk)\<rparr>"
    and rows': "rows' = sql_update hit (\<lambda>r. r\<lparr>os_consumed_at := Some (ts clk)\<rparr>) rows"
    using c by (auto simp: pg_consume_def a oauth_pg_consume_state_def Let_def rbind_Inr_iff hit_def [symmetric] split: option.splits)
  have yy: "y \<in> set rows" "os_consumed_at y = None" "hit y" using sql_find_Some [OF y] by (auto simp: hit_def)
  have only: "hit r \<longleftrightarrow> r = y" if "r \<in> set rows" for r
    using unique_key [OF keys that yy(1)] yy(3) by (auto simp: hit_def)
  show "distinct (map os_state_digest rows') \<and> os_state_digest x \<notin> spent rows \<and> spent rows' = insert (os_state_digest x) (spent rows)"
    unfolding rows' x using consumed_spends [OF keys yy(1,2) only, of "\<lambda>r. r\<lparr>os_consumed_at := Some (ts clk)\<rparr>"] by simp
qed


definition sample_authorization :: oauth_state where
  "sample_authorization = \<lparr>os_state_id = ''state-1'', os_tenant_id = ''tenant-1'', os_session_id = ''session-1'',
     os_channel_id = ''instagram'', os_state_digest = replicate 64 (CHR ''a''), os_provider_token_digest = None,
     os_encrypted_payload = \<lparr>ec_key_id = ''key-1'', ec_ciphertext = ''sealed''\<rparr>,
     os_created_at = ''2026-01-01T10:00:00+00:00'', os_expires_at = ''2026-01-01T10:10:00+00:00'', os_consumed_at = None\<rparr>"

definition sample_seconds :: "string \<Rightarrow> int" where
  "sample_seconds t = (if t = ''2026-01-01T10:00:00+00:00'' then 0 else if t = ''2026-01-01T10:05:00+00:00'' then 300 else 600)"


end
