(* ===== verification/Auth.thy ===== *)
theory Auth
  imports Service RateLimits
begin

text \<open>
  \<open>TenantAuthenticator\<close> (\<open>backend/agency_runtime/auth.py\<close>): the credentials of a configuration, kept by the digest
  of their keys, and the principal a key or a browser session resolves to. \<open>json.loads\<close> is the argument
  \<open>loads\<close>, which gives \<open>None\<close> for a text that is not JSON and objects whose keys are distinct.
\<close>

section \<open>Roles\<close>

definition valid_roles :: "string list" where
  "valid_roles = [''admin'', ''approver'', ''operator'', ''viewer'']"

text \<open>The permissions of a role, sorted as \<open>permissions\<close> gives them; another role is a \<open>KeyError\<close>.\<close>

definition role_permissions :: "string \<Rightarrow> string list res" where
  "role_permissions role =
     (if role = ''viewer'' then Inr [''audit:read'', ''identity:read'', ''runs:read'']
      else if role = ''operator'' then Inr [''audit:read'', ''identity:read'', ''runs:create'', ''runs:read'']
      else if role = ''approver'' then
        Inr [''audit:read'', ''greenlight:decide'', ''greenlight:revoke'', ''identity:read'', ''runs:read'']
      else if role = ''admin'' then
        Inr [''audit:read'', ''greenlight:decide'', ''greenlight:revoke'', ''identity:read'', ''model:execute'',
          ''runs:create'', ''runs:read'', ''social:manage'', ''social:publish'']
      else Inl (KeyError role))"

definition quoted :: "string \<Rightarrow> string" where
  "quoted s = CHR 0x27 # s @ [CHR 0x27]"

definition permits :: "principal \<Rightarrow> string \<Rightarrow> bool res" where
  "permits p permission = rbind (role_permissions (pn_role p)) (\<lambda>ps. Inr (permission \<in> set ps))"

definition require_permission :: "principal \<Rightarrow> string \<Rightarrow> unit res" where
  "require_permission p permission = rbind (permits p permission) (\<lambda>ok.
     if ok then Inr ()
     else Inl (AuthorizationError (''role '' @ quoted (pn_role p) @ '' does not grant '' @ quoted permission)))"

section \<open>Normalization\<close>

definition config_error :: "string \<Rightarrow> 'a res" where
  "config_error m = Inl (AuthConfigurationError m)"

definition is_id_char :: "char \<Rightarrow> bool" where
  "is_id_char c \<longleftrightarrow> is_alnum c \<or> c \<in> set ''._:-''"

definition auth_tenant_id :: "string \<Rightarrow> string res" where
  "auth_tenant_id value =
     (let normalized = str_lower (strip value); base = (\<lambda>c. is_lower c \<or> is_ascii_digit c) in
      if fullmatch_class base (\<lambda>c. base c \<or> c = CHR ''_'' \<or> c = CHR ''-'') 0 62 normalized then Inr normalized
      else config_error ''tenant ids must match [a-z0-9][a-z0-9_-]{0,62}'')"

definition auth_subject_id :: "string \<Rightarrow> string res" where
  "auth_subject_id value =
     (let normalized = strip value in
      if fullmatch_class is_alnum (\<lambda>c. is_id_char c \<or> c = CHR ''@'') 0 127 normalized then Inr normalized
      else config_error ''subject ids must contain 1-128 safe identity characters'')"

definition auth_key_id :: "string \<Rightarrow> string res" where
  "auth_key_id value =
     (let normalized = strip value in
      if fullmatch_class is_alnum is_id_char 0 127 normalized then Inr normalized
      else config_error ''key ids must contain 1-128 safe identifier characters'')"

definition auth_role :: "string \<Rightarrow> string res" where
  "auth_role value =
     (let normalized = str_lower (strip value) in
      if normalized \<in> set valid_roles then Inr normalized
      else config_error (''role must be one of: '' @ intercalate '', '' valid_roles))"

fun json_text :: "json \<Rightarrow> string option" where
  "json_text (JStr s) = Some s"
| "json_text _ = None"

text \<open>An absent list of entitlements is an empty one.\<close>

definition auth_entitlements :: "json option \<Rightarrow> string list res" where
  "auth_entitlements value = (case value of
     None \<Rightarrow> Inr []
   | Some JNull \<Rightarrow> Inr []
   | Some (JList items) \<Rightarrow>
       if \<exists>i \<in> set items. json_text i = None then config_error ''identity entitlements must contain strings''
       else let normalized = map (\<lambda>i. str_lower (strip (the (json_text i)))) items;
                unknown = sort (remdups (filter (\<lambda>e. e \<noteq> ''theme:premium'') normalized)) in
         if \<exists>e \<in> set normalized. e = [] then config_error ''identity entitlements must not be empty''
         else if \<not> distinct normalized then config_error ''identity entitlements must not contain duplicates''
         else if unknown \<noteq> [] then config_error (''unsupported identity entitlement: '' @ intercalate '', '' unknown)
         else Inr (sort normalized)
   | Some _ \<Rightarrow> config_error ''identity entitlements must be an array'')"

definition validate_api_key :: "string \<Rightarrow> unit res" where
  "validate_api_key key =
     (if length key < 24 then config_error ''API keys must contain at least 24 characters'' else Inr ())"

definition fingerprint :: "string \<Rightarrow> string" where
  "fingerprint key = sha256_text key"

section \<open>Credentials\<close>

record credential =
  cr_digest :: string
  cr_tenant_id :: string
  cr_subject_id :: string
  cr_role :: string
  cr_key_id :: string
  cr_entitlements :: "string list"
  cr_legacy :: bool

definition credential_principal :: "string \<Rightarrow> string \<Rightarrow> credential \<Rightarrow> principal" where
  "credential_principal auth_method session e = \<lparr>pn_tenant_id = cr_tenant_id e, pn_subject_id = cr_subject_id e,
     pn_role = cr_role e, pn_key_id = cr_key_id e, pn_credential_fingerprint = cr_digest e,
     pn_entitlements = cr_entitlements e, pn_auth_method = auth_method, pn_session_id = session\<rparr>"

text \<open>What the constructor has read so far.\<close>

record registry =
  rg_entries :: "credential list"
  rg_digests :: "string list"
  rg_key_ids :: "(string \<times> string) list"
  rg_authority :: "string \<times> string \<Rightarrow> (string \<times> string list) option"

definition empty_registry :: registry where
  "empty_registry = \<lparr>rg_entries = [], rg_digests = [], rg_key_ids = [], rg_authority = (\<lambda>_. None)\<rparr>"

definition add_entry ::
  "string \<Rightarrow> string \<Rightarrow> string \<Rightarrow> string \<Rightarrow> string \<Rightarrow> string list \<Rightarrow> bool \<Rightarrow> registry \<Rightarrow> registry res" where
  "add_entry tenant subject role key_id api_key entitlements legacy rg =
     rbind (auth_tenant_id tenant) (\<lambda>t.
     rbind (auth_subject_id subject) (\<lambda>s.
     rbind (auth_role role) (\<lambda>r.
     rbind (auth_key_id key_id) (\<lambda>k.
     rbind (auth_entitlements (Some (JList (map JStr entitlements)))) (\<lambda>es.
     rbind (validate_api_key api_key) (\<lambda>_.
       let digest = fingerprint api_key in
       if digest \<in> set (rg_digests rg) then config_error ''the same API key cannot be assigned to multiple identities''
       else if (t, k) \<in> set (rg_key_ids rg) then config_error (''key_id must be unique within a tenant: '' @ k)
       else if rg_authority rg (t, s) \<notin> {None, Some (r, es)}
       then config_error ''active keys for one subject must share role and entitlements''
       else Inr (rg\<lparr>rg_authority := (rg_authority rg)((t, s) \<mapsto> (r, es)),
         rg_digests := rg_digests rg @ [digest], rg_key_ids := rg_key_ids rg @ [(t, k)],
         rg_entries := rg_entries rg @ [\<lparr>cr_digest = digest, cr_tenant_id = t, cr_subject_id = s, cr_role = r,
           cr_key_id = k, cr_entitlements = es, cr_legacy = legacy\<rparr>]\<rparr>)))))))"

fun add_legacy :: "(string \<times> string) list \<Rightarrow> registry \<Rightarrow> registry res" where
  "add_legacy [] rg = Inr rg"
| "add_legacy ((tenant, api_key) # rest) rg =
     rbind (auth_tenant_id tenant) (\<lambda>t.
     rbind (add_entry t (''tenant:'' @ t) ''admin'' (''legacy:'' @ t) api_key [] True rg) (add_legacy rest))"

text \<open>The credential at an index: an object, active unless it says otherwise, with five strings.\<close>

definition at_index :: "nat \<Rightarrow> string" where
  "at_index i = '' at index '' @ show_nat i"

definition text_field :: "(string \<times> json) list \<Rightarrow> string \<Rightarrow> string option" where
  "text_field kvs name = Option.bind (jget name kvs) json_text"

definition add_identity :: "nat \<Rightarrow> json \<Rightarrow> registry \<Rightarrow> registry res" where
  "add_identity i raw rg = (case raw of
     JObj kvs \<Rightarrow> (case jget ''active'' kvs of
         Some (JBool False) \<Rightarrow> Inr rg
       | active \<Rightarrow>
           if active \<notin> {None, Some (JBool True)}
           then config_error (''identity credential active must be boolean'' @ at_index i)
           else case map (text_field kvs) [''tenant_id'', ''subject_id'', ''role'', ''key_id'', ''api_key''] of
             [Some t, Some s, Some r, Some k, Some key] \<Rightarrow>
               rbind (auth_entitlements (jget ''entitlements'' kvs)) (\<lambda>es. add_entry t s r k key es False rg)
           | _ \<Rightarrow> config_error (''identity credential'' @ at_index i @
               '' must contain string tenant_id, subject_id, role, key_id and api_key''))
   | _ \<Rightarrow> config_error (''identity credential'' @ at_index i @ '' must be an object''))"

fun add_identities :: "nat \<Rightarrow> json list \<Rightarrow> registry \<Rightarrow> registry res" where
  "add_identities i [] rg = Inr rg"
| "add_identities i (raw # rest) rg = rbind (add_identity i raw rg) (add_identities (Suc i) rest)"

section \<open>The authenticator\<close>

record authenticator =
  au_entries :: "credential list"
  au_individual :: bool

definition make_authenticator :: "(string \<times> string) list \<Rightarrow> json list \<Rightarrow> authenticator res" where
  "make_authenticator tenant_api_keys identities =
     rbind (add_legacy (sort tenant_api_keys) empty_registry) (\<lambda>rg.
     rbind (add_identities 0 identities rg) (\<lambda>rg.
       Inr \<lparr>au_entries = sort_key (\<lambda>e. (cr_tenant_id e, cr_subject_id e, cr_key_id e)) (rg_entries rg),
         au_individual = list_ex (\<lambda>e. \<not> cr_legacy e) (rg_entries rg)\<rparr>))"

definition auth_configured :: "authenticator \<Rightarrow> bool" where
  "auth_configured a \<longleftrightarrow> au_entries a \<noteq> []"

definition credential_count :: "authenticator \<Rightarrow> nat" where
  "credential_count a = length (au_entries a)"

text \<open>The loops go on after a match, so the last one counts.\<close>

definition last_match :: "(credential \<Rightarrow> bool) \<Rightarrow> credential list \<Rightarrow> credential option" where
  "last_match p es = fold (\<lambda>e matched. if p e then Some e else matched) es None"

definition authenticate :: "authenticator \<Rightarrow> string \<Rightarrow> principal res" where
  "authenticate a api_key = (case last_match (\<lambda>e. fingerprint api_key = cr_digest e) (au_entries a) of
     None \<Rightarrow> Inl (AuthenticationError ''invalid bearer credential'')
   | Some e \<Rightarrow> Inr (credential_principal ''bearer'' [] e))"

text \<open>A session names a credential by its digest or, in old sessions, by the first 16 characters of it. The
  comparison raises a \<open>TypeError\<close> when the stored text is not ASCII.\<close>

fun session_matches :: "(credential \<Rightarrow> bool) \<Rightarrow> string \<Rightarrow> credential list \<Rightarrow> credential option \<Rightarrow> credential option res" where
  "session_matches ident fp [] matched = Inr matched"
| "session_matches ident fp (e # es) matched =
     rbind (compare_digest (cr_digest e) fp) (\<lambda>full.
     rbind (if length fp = 16 then compare_digest (take 16 (cr_digest e)) fp else Inr False) (\<lambda>legacy.
       session_matches ident fp es (if ident e \<and> (full \<or> legacy) then Some e else matched)))"

definition resolve_active_session ::
  "authenticator \<Rightarrow> string \<Rightarrow> string \<Rightarrow> string \<Rightarrow> string \<Rightarrow> string \<Rightarrow> principal res" where
  "resolve_active_session a tenant subject key_id fp session =
     rbind (session_matches (\<lambda>e. cr_tenant_id e = tenant \<and> cr_subject_id e = subject \<and> cr_key_id e = key_id)
         fp (au_entries a) None) (\<lambda>matched. case matched of
       None \<Rightarrow> Inl (AuthenticationError ''session credential is no longer active'')
     | Some e \<Rightarrow> Inr (credential_principal ''session'' session e))"

section \<open>Configuration\<close>

definition legacy_json :: "(string \<Rightarrow> json option) \<Rightarrow> string option \<Rightarrow> (string \<times> string) list res" where
  "legacy_json loads raw = (case raw of
     None \<Rightarrow> Inr []
   | Some text \<Rightarrow>
       if strip text = [] then Inr []
       else case loads text of
         None \<Rightarrow> config_error ''AGENCY_TENANT_API_KEYS_JSON must be valid JSON''
       | Some (JObj kvs) \<Rightarrow>
           if \<forall>(k, v) \<in> set kvs. json_text v \<noteq> None then Inr (map (\<lambda>(k, v). (k, the (json_text v))) kvs)
           else config_error ''AGENCY_TENANT_API_KEYS_JSON must be an object of tenant to API key''
       | Some _ \<Rightarrow> config_error ''AGENCY_TENANT_API_KEYS_JSON must be an object of tenant to API key'')"

fun json_is_object :: "json \<Rightarrow> bool" where
  "json_is_object (JObj _) = True"
| "json_is_object _ = False"

definition identity_json :: "(string \<Rightarrow> json option) \<Rightarrow> string option \<Rightarrow> json list res" where
  "identity_json loads raw = (case raw of
     None \<Rightarrow> Inr []
   | Some text \<Rightarrow>
       if strip text = [] then Inr []
       else case loads text of
         None \<Rightarrow> config_error ''AGENCY_IDENTITY_CREDENTIALS_JSON must be valid JSON''
       | Some (JList items) \<Rightarrow>
           if \<forall>i \<in> set items. json_is_object i then Inr items
           else config_error ''AGENCY_IDENTITY_CREDENTIALS_JSON must be an array of objects''
       | Some _ \<Rightarrow> config_error ''AGENCY_IDENTITY_CREDENTIALS_JSON must be an array of objects'')"

definition from_json :: "(string \<Rightarrow> json option) \<Rightarrow> string option \<Rightarrow> authenticator res" where
  "from_json loads raw = rbind (legacy_json loads raw) (\<lambda>keys. make_authenticator keys [])"

definition from_environment :: "(string \<Rightarrow> json option) \<Rightarrow> string option \<Rightarrow> string option \<Rightarrow> authenticator res" where
  "from_environment loads keys identities =
     rbind (legacy_json loads keys) (\<lambda>ks. rbind (identity_json loads identities) (\<lambda>is. make_authenticator ks is))"

section \<open>The registry\<close>

definition credential_ok :: "credential \<Rightarrow> bool" where
  "credential_ok e \<longleftrightarrow> auth_tenant_id (cr_tenant_id e) = Inr (cr_tenant_id e) \<and> cr_role e \<in> set valid_roles
     \<and> is_sha256 (cr_digest e) \<and> set (cr_entitlements e) \<subseteq> {''theme:premium''}"

definition registry_inv :: "registry \<Rightarrow> bool" where
  "registry_inv rg \<longleftrightarrow> map cr_digest (rg_entries rg) = rg_digests rg \<and> distinct (rg_digests rg)
     \<and> map (\<lambda>e. (cr_tenant_id e, cr_key_id e)) (rg_entries rg) = rg_key_ids rg \<and> distinct (rg_key_ids rg)
     \<and> (\<forall>e \<in> set (rg_entries rg). credential_ok e
         \<and> rg_authority rg (cr_tenant_id e, cr_subject_id e) = Some (cr_role e, cr_entitlements e))"

lemma empty_registry_inv: "registry_inv empty_registry"
  by (simp add: registry_inv_def empty_registry_def)

text \<open>Normalizing twice is normalizing once.\<close>

lemma strip_no_space:
  assumes "\<And>c. c \<in> set s \<Longrightarrow> \<not> is_space c"
  shows "strip s = s"
proof (cases "s = []")
  case False
  then have "\<not> is_space (hd s)" "\<not> is_space (last s)" using assms by simp_all
  then show ?thesis by (simp add: strip_def lstrip_id rstrip_id)
qed simp

lemma auth_tenant_id_Inr:
  assumes "auth_tenant_id v = Inr t"
  shows "t = str_lower (strip v)" "auth_tenant_id t = Inr t"
proof -
  let ?base = "\<lambda>c. is_lower c \<or> is_ascii_digit c"
  show t: "t = str_lower (strip v)" using assms by (auto simp: auth_tenant_id_def Let_def config_error_def split: if_splits)
  have m: "fullmatch_class ?base (\<lambda>c. ?base c \<or> c = CHR ''_'' \<or> c = CHR ''-'') 0 62 t"
    using assms by (auto simp: auth_tenant_id_def Let_def config_error_def split: if_splits)
  have c: "\<not> is_space c \<and> lower_char c = c" if "c \<in> set t" for c
  proof -
    have "?base c \<or> c = CHR ''_'' \<or> c = CHR ''-''" using m that by (auto simp: fullmatch_class_def list_all_iff split: list.splits)
    then show ?thesis
      by (auto simp: is_lower_def is_ascii_digit_def in_range_def lower_char_def is_upper_def is_space_def Let_def)
  qed
  then have "strip t = t" by (intro strip_no_space) simp
  moreover have "str_lower t = t" using c by (simp add: str_lower_def map_idI)
  ultimately show "auth_tenant_id t = Inr t" using m by (simp add: auth_tenant_id_def)
qed

lemma sort_Nil_iff: "sort xs = [] \<longleftrightarrow> xs = []"
  by (metis length_0_conv length_sort)

lemma auth_entitlements_Inr:
  assumes "auth_entitlements v = Inr es"
  shows "set es \<subseteq> {''theme:premium''}" "distinct es"
proof -
  have "set es \<subseteq> {''theme:premium''} \<and> distinct es"
  proof (cases v)
    case (Some j)
    with assms show ?thesis
      by (cases j) (auto simp: auth_entitlements_def config_error_def Let_def filter_empty_conv sort_Nil_iff split: if_splits)
  qed (use assms in \<open>simp add: auth_entitlements_def\<close>)
  then show "set es \<subseteq> {''theme:premium''}" "distinct es" by simp_all
qed

text \<open>The constructor normalizes them twice.\<close>

lemma auth_entitlements_again:
  assumes "auth_entitlements v = Inr es"
  shows "auth_entitlements (Some (JList (map JStr es))) = Inr es"
proof -
  have "es = [] \<or> es = [''theme:premium'']"
    using auth_entitlements_Inr [OF assms] by (cases es; cases "tl es") auto
  moreover have "auth_entitlements (Some (JList (map JStr [''theme:premium'']))) = Inr [''theme:premium'']"
    "auth_entitlements (Some (JList (map JStr []))) = Inr []" by code_simp+
  ultimately show ?thesis by metis
qed

lemma add_entry_Inr:
  assumes "add_entry tenant subject role key_id api_key ents legacy rg = Inr rg'"
  obtains t s r k es where "auth_tenant_id tenant = Inr t" "auth_subject_id subject = Inr s" "auth_role role = Inr r"
    "auth_key_id key_id = Inr k" "auth_entitlements (Some (JList (map JStr ents))) = Inr es"
    "fingerprint api_key \<notin> set (rg_digests rg)" "(t, k) \<notin> set (rg_key_ids rg)"
    "rg_authority rg (t, s) \<in> {None, Some (r, es)}"
    "rg' = rg\<lparr>rg_authority := (rg_authority rg)((t, s) \<mapsto> (r, es)),
         rg_digests := rg_digests rg @ [fingerprint api_key], rg_key_ids := rg_key_ids rg @ [(t, k)],
         rg_entries := rg_entries rg @ [\<lparr>cr_digest = fingerprint api_key, cr_tenant_id = t, cr_subject_id = s, cr_role = r,
           cr_key_id = k, cr_entitlements = es, cr_legacy = legacy\<rparr>]\<rparr>"
  using assms unfolding add_entry_def rbind_Inr_iff Let_def raise_else_Inr config_error_def by blast

lemma add_entry_inv:
  assumes "registry_inv rg" and "add_entry tenant subject role key_id api_key ents legacy rg = Inr rg'"
  shows "registry_inv rg'"
proof (rule add_entry_Inr [OF assms(2)])
  fix t s r k es
  assume "auth_tenant_id tenant = Inr t" and "auth_role role = Inr r"
    and es: "auth_entitlements (Some (JList (map JStr ents))) = Inr es"
    and d: "fingerprint api_key \<notin> set (rg_digests rg)" "(t, k) \<notin> set (rg_key_ids rg)"
    and a: "rg_authority rg (t, s) \<in> {None, Some (r, es)}"
    and rg': "rg' = rg\<lparr>rg_authority := (rg_authority rg)((t, s) \<mapsto> (r, es)),
         rg_digests := rg_digests rg @ [fingerprint api_key], rg_key_ids := rg_key_ids rg @ [(t, k)],
         rg_entries := rg_entries rg @ [\<lparr>cr_digest = fingerprint api_key, cr_tenant_id = t, cr_subject_id = s, cr_role = r,
           cr_key_id = k, cr_entitlements = es, cr_legacy = legacy\<rparr>]\<rparr>"
  then have "auth_tenant_id t = Inr t" "r \<in> set valid_roles"
    using auth_tenant_id_Inr by (auto simp: auth_role_def Let_def config_error_def split: if_splits)
  then show ?thesis
    using assms(1) d a auth_entitlements_Inr [OF es] unfolding rg'
    by (auto simp: registry_inv_def credential_ok_def fingerprint_def)
qed

lemma add_legacy_inv: "registry_inv rg \<Longrightarrow> add_legacy kvs rg = Inr rg' \<Longrightarrow> registry_inv rg'"
proof (induction kvs arbitrary: rg)
  case (Cons kv kvs)
  then show ?case by (cases kv) (auto simp: rbind_Inr_iff intro: add_entry_inv)
qed simp

lemma add_identity_cases:
  assumes "add_identity i raw rg = Inr rg'"
  shows "rg' = rg \<or> (\<exists>t s r k key es. add_entry t s r k key es False rg = Inr rg')"
  using assms unfolding add_identity_def config_error_def
  by (auto simp: rbind_Inr_iff split: json.splits option.splits bool.splits if_splits)

lemma add_identities_inv: "registry_inv rg \<Longrightarrow> add_identities i raws rg = Inr rg' \<Longrightarrow> registry_inv rg'"
proof (induction raws arbitrary: i rg)
  case (Cons raw raws)
  then obtain rg1 where "add_identity i raw rg = Inr rg1" "add_identities (Suc i) raws rg1 = Inr rg'"
    by (auto simp: rbind_Inr_iff)
  with Cons show ?case using add_identity_cases add_entry_inv by metis
qed simp

section \<open>What a configuration grants\<close>

text \<open>The credential an identity and a legacy key stand for.\<close>

definition grants :: "json \<Rightarrow> credential \<Rightarrow> bool" where
  "grants raw e \<longleftrightarrow> (\<exists>kvs t s r k key. raw = JObj kvs \<and> jget ''active'' kvs \<in> {None, Some (JBool True)}
     \<and> map (text_field kvs) [''tenant_id'', ''subject_id'', ''role'', ''key_id'', ''api_key''] = [Some t, Some s, Some r, Some k, Some key]
     \<and> auth_tenant_id t = Inr (cr_tenant_id e) \<and> auth_subject_id s = Inr (cr_subject_id e) \<and> auth_role r = Inr (cr_role e)
     \<and> auth_key_id k = Inr (cr_key_id e) \<and> auth_entitlements (jget ''entitlements'' kvs) = Inr (cr_entitlements e)
     \<and> fingerprint key = cr_digest e \<and> \<not> cr_legacy e)"

definition legacy_grants :: "string \<times> string \<Rightarrow> credential \<Rightarrow> bool" where
  "legacy_grants kv e \<longleftrightarrow> auth_tenant_id (fst kv) = Inr (cr_tenant_id e)
     \<and> auth_subject_id (''tenant:'' @ cr_tenant_id e) = Inr (cr_subject_id e) \<and> cr_role e = ''admin''
     \<and> auth_key_id (''legacy:'' @ cr_tenant_id e) = Inr (cr_key_id e) \<and> cr_entitlements e = []
     \<and> fingerprint (snd kv) = cr_digest e \<and> cr_legacy e"

lemma add_identity_entries:
  assumes "add_identity i raw rg = Inr rg'"
  shows "set (rg_entries rg') = set (rg_entries rg) \<union> {e. grants raw e}"
proof (cases raw)
  case (JObj kvs)
  show ?thesis
  proof (cases "jget ''active'' kvs = Some (JBool False)")
    case True
    then have "\<not> grants raw e" for e by (auto simp: grants_def JObj)
    moreover have "rg' = rg" using assms True by (simp add: add_identity_def JObj)
    ultimately show ?thesis by simp
  next
    case False
    then have act: "jget ''active'' kvs \<in> {None, Some (JBool True)}"
      using assms by (auto simp: add_identity_def JObj config_error_def split: option.splits json.splits bool.splits if_splits)
    obtain t s r k key es where f: "map (text_field kvs) [''tenant_id'', ''subject_id'', ''role'', ''key_id'', ''api_key''] =
        [Some t, Some s, Some r, Some k, Some key]"
      and es: "auth_entitlements (jget ''entitlements'' kvs) = Inr es" and ad: "add_entry t s r k key es False rg = Inr rg'"
      using assms act False
      by (auto simp: add_identity_def JObj config_error_def rbind_Inr_iff split: option.splits)
    show ?thesis
    proof (rule add_entry_Inr [OF ad])
      fix t' s' r' k' es'
      assume n: "auth_tenant_id t = Inr t'" "auth_subject_id s = Inr s'" "auth_role r = Inr r'" "auth_key_id k = Inr k'"
        and es': "auth_entitlements (Some (JList (map JStr es))) = Inr es'"
        and rg': "rg' = rg\<lparr>rg_authority := (rg_authority rg)((t', s') \<mapsto> (r', es')),
         rg_digests := rg_digests rg @ [fingerprint key], rg_key_ids := rg_key_ids rg @ [(t', k')],
         rg_entries := rg_entries rg @ [\<lparr>cr_digest = fingerprint key, cr_tenant_id = t', cr_subject_id = s', cr_role = r',
           cr_key_id = k', cr_entitlements = es', cr_legacy = False\<rparr>]\<rparr>"
      have "es' = es" using es' auth_entitlements_again [OF es] by simp
      then have "grants raw e \<longleftrightarrow> e = \<lparr>cr_digest = fingerprint key, cr_tenant_id = t', cr_subject_id = s', cr_role = r',
           cr_key_id = k', cr_entitlements = es', cr_legacy = False\<rparr>" for e
        using n es f act unfolding grants_def JObj by (cases e) auto
      then show ?thesis unfolding rg' by auto
    qed
  qed
qed (use assms in \<open>simp_all add: add_identity_def config_error_def\<close>)

lemma add_identities_entries:
  "add_identities i raws rg = Inr rg' \<Longrightarrow> set (rg_entries rg') = set (rg_entries rg) \<union> {e. \<exists>raw \<in> set raws. grants raw e}"
proof (induction raws arbitrary: i rg)
  case (Cons raw raws)
  then obtain rg1 where "add_identity i raw rg = Inr rg1" and r: "add_identities (Suc i) raws rg1 = Inr rg'"
    by (auto simp: rbind_Inr_iff)
  from add_identity_entries [OF this(1)] Cons.IH [OF r] show ?case by auto
qed simp

lemma auth_role_admin: "auth_role ''admin'' = Inr ''admin''"
  by code_simp

lemma no_entitlements: "auth_entitlements (Some (JList (map JStr []))) = Inr []"
  by code_simp

lemma add_legacy_entries:
  "add_legacy kvs rg = Inr rg' \<Longrightarrow> set (rg_entries rg') = set (rg_entries rg) \<union> {e. \<exists>kv \<in> set kvs. legacy_grants kv e}"
proof (induction kvs arbitrary: rg)
  case (Cons kv kvs)
  obtain tenant key where kv: "kv = (tenant, key)" by (cases kv)
  obtain t rg1 where t: "auth_tenant_id tenant = Inr t"
    and ad: "add_entry t (''tenant:'' @ t) ''admin'' (''legacy:'' @ t) key [] True rg = Inr rg1" and r: "add_legacy kvs rg1 = Inr rg'"
    using Cons.prems by (auto simp: kv rbind_Inr_iff)
  have "set (rg_entries rg1) = set (rg_entries rg) \<union> {e. legacy_grants kv e}"
  proof (rule add_entry_Inr [OF ad])
    fix t' s' r' k' es'
    assume n: "auth_tenant_id t = Inr t'" "auth_subject_id (''tenant:'' @ t) = Inr s'" "auth_role ''admin'' = Inr r'"
        "auth_key_id (''legacy:'' @ t) = Inr k'" "auth_entitlements (Some (JList (map JStr []))) = Inr es'"
      and rg1: "rg1 = rg\<lparr>rg_authority := (rg_authority rg)((t', s') \<mapsto> (r', es')),
       rg_digests := rg_digests rg @ [fingerprint key], rg_key_ids := rg_key_ids rg @ [(t', k')],
       rg_entries := rg_entries rg @ [\<lparr>cr_digest = fingerprint key, cr_tenant_id = t', cr_subject_id = s', cr_role = r',
         cr_key_id = k', cr_entitlements = es', cr_legacy = True\<rparr>]\<rparr>"
    have "t' = t" "r' = ''admin''" "es' = []"
      using n auth_tenant_id_Inr(2) [OF t] auth_role_admin no_entitlements by auto
    then have "legacy_grants kv e \<longleftrightarrow> e = \<lparr>cr_digest = fingerprint key, cr_tenant_id = t', cr_subject_id = s', cr_role = r',
         cr_key_id = k', cr_entitlements = es', cr_legacy = True\<rparr>" for e
      using n t unfolding legacy_grants_def kv by (cases e) auto
    then show ?thesis unfolding rg1 by auto
  qed
  with Cons.IH [OF r] show ?case by auto
qed simp

lemma make_authenticator_registry:
  assumes "make_authenticator keys ids = Inr a"
  shows "\<exists>rg. registry_inv rg \<and> set (au_entries a) = set (rg_entries rg) \<and> length (au_entries a) = length (rg_entries rg)
    \<and> set (rg_entries rg) = {e. (\<exists>kv \<in> set keys. legacy_grants kv e) \<or> (\<exists>raw \<in> set ids. grants raw e)}"
proof -
  obtain rg1 rg where l: "add_legacy (sort keys) empty_registry = Inr rg1" and i: "add_identities 0 ids rg1 = Inr rg"
    and a: "au_entries a = sort_key (\<lambda>e. (cr_tenant_id e, cr_subject_id e, cr_key_id e)) (rg_entries rg)"
    using assms by (auto simp: make_authenticator_def rbind_Inr_iff)
  have "registry_inv rg" using add_identities_inv [OF add_legacy_inv [OF empty_registry_inv l] i] .
  moreover have "set (rg_entries rg) = {e. (\<exists>kv \<in> set keys. legacy_grants kv e) \<or> (\<exists>raw \<in> set ids. grants raw e)}"
    using add_legacy_entries [OF l] add_identities_entries [OF i] by (auto simp: empty_registry_def)
  ultimately show ?thesis using a by auto
qed

lemma last_match_append: "last_match p (xs @ [x]) = (if p x then Some x else last_match p xs)"
  by (simp add: last_match_def)

lemma last_match_Some: "last_match p xs = Some x \<Longrightarrow> x \<in> set xs \<and> p x"
  by (induction xs rule: rev_induct) (auto simp: last_match_append last_match_def [of p "[]"] split: if_splits)

lemma last_match_unique:
  assumes "x \<in> set xs" and "p x" and "\<And>y. y \<in> set xs \<Longrightarrow> p y \<Longrightarrow> y = x"
  shows "last_match p xs = Some x"
  using assms
proof (induction xs rule: rev_induct)
  case (snoc z zs)
  show ?case
  proof (cases "p z")
    case True
    then have "z = x" using snoc.prems(3) [of z] by simp
    with True show ?thesis by (simp add: last_match_append)
  next
    case False
    then have "x \<in> set zs" using snoc.prems(1,2) by auto
    then have "last_match p zs = Some x" using snoc.prems(2,3) by (intro snoc.IH) simp_all
    with False show ?thesis by (simp add: last_match_append)
  qed
qed simp

lemma registry_inv_distinct:
  "registry_inv rg \<Longrightarrow> distinct (map cr_digest (rg_entries rg))"
  "registry_inv rg \<Longrightarrow> distinct (map (\<lambda>e. (cr_tenant_id e, cr_key_id e)) (rg_entries rg))"
  unfolding registry_inv_def by (elim conjE, simp only:)+

lemma registry_inv_authority:
  "registry_inv rg \<Longrightarrow> e \<in> set (rg_entries rg) \<Longrightarrow> credential_ok e
     \<and> rg_authority rg (cr_tenant_id e, cr_subject_id e) = Some (cr_role e, cr_entitlements e)"
  unfolding registry_inv_def by blast

lemma registry_inv_unique:
  assumes "registry_inv rg" and "e \<in> set (rg_entries rg)" "f \<in> set (rg_entries rg)" "cr_digest e = cr_digest f"
  shows "e = f"
  by (rule unique_key [OF registry_inv_distinct(1) [OF assms(1)] assms(2-4)])

section \<open>Properties\<close>

text \<open>C12: a key authenticates exactly as the configuration says. A key is accepted if and only if an active identity
  or a legacy tenant key with its digest is configured, and it gives that one credential's tenant, subject, role,
  key id and entitlements, normalized; in particular two configured credentials never answer one key.\<close>

theorem authentication_exact:
  assumes "make_authenticator keys ids = Inr a"
  shows "authenticate a key = Inr p \<longleftrightarrow>
    (\<exists>e. ((\<exists>kv \<in> set keys. legacy_grants kv e) \<or> (\<exists>raw \<in> set ids. grants raw e))
       \<and> sha256_text key = cr_digest e \<and> p = credential_principal ''bearer'' [] e)"
proof -
  obtain rg where inv: "registry_inv rg" and a: "set (au_entries a) = set (rg_entries rg)"
    and g: "set (rg_entries rg) = {e. (\<exists>kv \<in> set keys. legacy_grants kv e) \<or> (\<exists>raw \<in> set ids. grants raw e)}"
    using make_authenticator_registry [OF assms] by blast
  have "last_match (\<lambda>e. fingerprint key = cr_digest e) (au_entries a) = Some e
      \<longleftrightarrow> e \<in> set (rg_entries rg) \<and> sha256_text key = cr_digest e" for e
    using registry_inv_unique [OF inv] a
    by (auto simp: fingerprint_def dest: last_match_Some intro!: last_match_unique)
  moreover have "authenticate a key = Inr p \<longleftrightarrow>
      (\<exists>e. last_match (\<lambda>e. fingerprint key = cr_digest e) (au_entries a) = Some e \<and> p = credential_principal ''bearer'' [] e)"
    by (auto simp: authenticate_def split: option.splits)
  ultimately show ?thesis unfolding g by auto
qed

text \<open>The credentials of an authenticator are consistent. No two have one digest or one key id in a tenant, those
  of one subject share role and entitlements, and every role, tenant id and entitlement is one of the allowed.\<close>

theorem authenticator_consistent:
  assumes "make_authenticator keys ids = Inr a"
  shows "distinct (map cr_digest (au_entries a)) \<and> distinct (map (\<lambda>e. (cr_tenant_id e, cr_key_id e)) (au_entries a))
    \<and> (\<forall>e \<in> set (au_entries a). \<forall>f \<in> set (au_entries a). cr_tenant_id e = cr_tenant_id f \<and> cr_subject_id e = cr_subject_id f
         \<longrightarrow> cr_role e = cr_role f \<and> cr_entitlements e = cr_entitlements f)
    \<and> (\<forall>e \<in> set (au_entries a). credential_ok e)"
proof -
  obtain rg where inv: "registry_inv rg" and a: "set (au_entries a) = set (rg_entries rg)" "length (au_entries a) = length (rg_entries rg)"
    using make_authenticator_registry [OF assms] by blast
  have d: "distinct (map k (au_entries a))" if "distinct (map k (rg_entries rg))" for k :: "credential \<Rightarrow> 'b"
  proof -
    have "distinct (rg_entries rg)" "inj_on k (set (rg_entries rg))" using that by (simp_all add: distinct_map)
    then show ?thesis using a by (simp add: distinct_map card_distinct distinct_card)
  qed
  have "cr_role e = cr_role f \<and> cr_entitlements e = cr_entitlements f"
    if "e \<in> set (rg_entries rg)" "f \<in> set (rg_entries rg)" "cr_tenant_id e = cr_tenant_id f" "cr_subject_id e = cr_subject_id f" for e f
    using registry_inv_authority [OF inv that(1)] registry_inv_authority [OF inv that(2)] that(3,4) by simp
  moreover have "\<forall>e \<in> set (rg_entries rg). credential_ok e" using registry_inv_authority [OF inv] by blast
  ultimately show ?thesis unfolding a(1)
    using d [OF registry_inv_distinct(1) [OF inv]] d [OF registry_inv_distinct(2) [OF inv]] by blast
qed

lemma session_matches_Some:
  "session_matches ident fp es m0 = Inr (Some e) \<Longrightarrow>
     m0 = Some e \<or> e \<in> set es \<and> ident e \<and> (fp = cr_digest e \<or> fp = take 16 (cr_digest e))"
proof (induction es arbitrary: m0)
  case (Cons x es)
  from Cons.prems obtain full legacy where c: "compare_digest (cr_digest x) fp = Inr full"
    "(if length fp = 16 then compare_digest (take 16 (cr_digest x)) fp else Inr False) = Inr legacy"
    "session_matches ident fp es (if ident x \<and> (full \<or> legacy) then Some x else m0) = Inr (Some e)"
    by (auto simp: rbind_Inr_iff)
  from Cons.IH [OF c(3)] c(1,2) show ?case by (auto simp: compare_digest_def split: if_splits)
qed simp

lemma resolve_active_session_Inr:
  assumes "resolve_active_session a tenant subject key_id fp session = Inr p"
  shows "\<exists>e \<in> set (au_entries a). cr_tenant_id e = tenant \<and> cr_subject_id e = subject \<and> cr_key_id e = key_id
    \<and> (fp = cr_digest e \<or> fp = take 16 (cr_digest e)) \<and> p = credential_principal ''session'' session e"
  using assms by (auto simp: resolve_active_session_def rbind_Inr_iff split: option.splits dest!: session_matches_Some)

lemma authenticate_key_Inr:
  "authenticate a key = Inr p \<Longrightarrow>
    \<exists>e \<in> set (au_entries a). sha256_text key = cr_digest e \<and> p = credential_principal ''bearer'' [] e"
  by (auto simp: authenticate_def fingerprint_def split: option.splits dest!: last_match_Some)

lemma permits_True:
  "permits p q = Inr True \<longleftrightarrow> (\<exists>ps. role_permissions (pn_role p) = Inr ps \<and> q \<in> set ps)"
  by (auto simp: permits_def rbind_Inr_iff)

text \<open>C14: a session lives by the current configuration. It resolves only while a configured credential has its tenant,
  subject and key id and a digest that starts with the session's fingerprint, and what it may do is what that
  credential's role grants now; a key that is rotated or removed, without another under its id, ends its sessions.\<close>

theorem session_needs_credential:
  assumes "make_authenticator keys ids = Inr a" and "resolve_active_session a tenant subject key_id fp session = Inr p"
  shows "\<exists>e \<in> set (au_entries a). cr_tenant_id e = tenant \<and> cr_subject_id e = subject \<and> cr_key_id e = key_id
    \<and> (fp = cr_digest e \<or> fp = take 16 (cr_digest e)) \<and> p = credential_principal ''session'' session e
    \<and> (\<forall>q. permits p q = Inr True \<longleftrightarrow> (\<exists>ps. role_permissions (cr_role e) = Inr ps \<and> q \<in> set ps))
    \<and> (\<forall>f \<in> set (au_entries a). cr_tenant_id f = tenant \<and> cr_key_id f = key_id \<longrightarrow> f = e)"
proof -
  obtain e where in_a: "e \<in> set (au_entries a)" and i: "cr_tenant_id e = tenant" "cr_subject_id e = subject" "cr_key_id e = key_id"
    and fp: "fp = cr_digest e \<or> fp = take 16 (cr_digest e)" and p: "p = credential_principal ''session'' session e"
    using resolve_active_session_Inr [OF assms(2)] by blast
  obtain rg where inv: "registry_inv rg" and a: "set (au_entries a) = set (rg_entries rg)"
    using make_authenticator_registry [OF assms(1)] by blast
  have "f = e" if "f \<in> set (au_entries a)" "cr_tenant_id f = tenant" "cr_key_id f = key_id" for f
    using that in_a i unfolding a by (intro unique_key [OF registry_inv_distinct(2) [OF inv]]) simp_all
  moreover have "permits p q = Inr True \<longleftrightarrow> (\<exists>ps. role_permissions (cr_role e) = Inr ps \<and> q \<in> set ps)" for q
    by (simp add: p permits_True credential_principal_def)
  ultimately show ?thesis using in_a i fp p by blast
qed

definition sample_identity :: json where
  "sample_identity = JObj [(''tenant_id'', JStr '' Acme ''), (''subject_id'', JStr ''ana@acme.io''), (''role'', JStr ''Approver''),
     (''key_id'', JStr ''key-2026''), (''api_key'', JStr ''a-key-with-more-than-24-characters'')]"

definition sample_credential :: credential where
  "sample_credential = \<lparr>cr_digest = fingerprint ''a-key-with-more-than-24-characters'', cr_tenant_id = ''acme'',
     cr_subject_id = ''ana@acme.io'', cr_role = ''approver'', cr_key_id = ''key-2026'', cr_entitlements = [], cr_legacy = False\<rparr>"

lemma sample_key_fields:
  "auth_tenant_id '' Acme '' = Inr ''acme''" "auth_subject_id ''ana@acme.io'' = Inr ''ana@acme.io''"
  "auth_role ''Approver'' = Inr ''approver''" "auth_key_id ''key-2026'' = Inr ''key-2026''"
  "auth_entitlements None = Inr []" "validate_api_key ''a-key-with-more-than-24-characters'' = Inr ()"
  by code_simp+

lemma sample_authenticator:
  "make_authenticator [] [sample_identity] = Inr \<lparr>au_entries = [sample_credential], au_individual = True\<rparr>"
  by (simp add: make_authenticator_def add_identity_def add_entry_def sample_identity_def sample_credential_def jget_def
      text_field_def sample_key_fields no_entitlements [simplified] empty_registry_def Let_def)

theorem authentication_exact_witness:
  "authenticate \<lparr>au_entries = [sample_credential], au_individual = True\<rparr> ''a-key-with-more-than-24-characters''
    = Inr (credential_principal ''bearer'' [] sample_credential)"
  unfolding authentication_exact [OF sample_authenticator]
  by (rule exI [of _ sample_credential])
    (simp add: grants_def sample_identity_def sample_credential_def sample_key_fields jget_def text_field_def fingerprint_def)

theorem authenticator_consistent_witness: "credential_ok sample_credential"
  using authenticator_consistent [OF sample_authenticator] by simp

theorem session_needs_credential_witness:
  "permits (credential_principal ''session'' ''session-1'' sample_credential) ''greenlight:decide'' = Inr True"
proof -
  have "is_ascii (fingerprint ''a-key-with-more-than-24-characters'')"
    using is_sha256_text [of "''a-key-with-more-than-24-characters''"]
    by (auto simp: fingerprint_def is_sha256_def is_ascii_def list_all_iff is_lower_hex_def is_ascii_digit_def in_range_def)
  then have "resolve_active_session \<lparr>au_entries = [sample_credential], au_individual = True\<rparr> ''acme'' ''ana@acme.io'' ''key-2026''
      (cr_digest sample_credential) ''session-1'' = Inr (credential_principal ''session'' ''session-1'' sample_credential)"
    by (simp add: resolve_active_session_def sample_credential_def compare_digest_def fingerprint_def is_sha256_text [unfolded is_sha256_def])
  from session_needs_credential [OF sample_authenticator this] show ?thesis
    by (simp add: sample_credential_def role_permissions_def)
qed

end
