(* ===== verification/HttpAccess.thy ===== *)
theory HttpAccess
  imports Auth ServiceMedia
begin

text \<open>
  The access layer of the HTTP application (\<open>create_app\<close> in \<open>backend/agency_runtime/api.py\<close>): how a request
  becomes a principal, the two rate limits, the permission and CSRF checks, and the error responses. FastAPI runs the
  dependencies of a handler in order, which is sequencing here; a request brings what the framework parsed from it.
  The metrics and the log lines have no effect on the state and are left out.
\<close>

section \<open>State\<close>

record web =
  wb_service :: service
  wb_failures :: failures
  wb_quotas :: quotas
  wb_publications :: sp_table

record web_config =
  wc_auth :: authenticator
  wc_max_failures :: int
  wc_source_max_failures :: int
  wc_rate_window :: int
  wc_max_per_principal :: int
  wc_max_per_tenant :: int
  wc_quota_window :: int
  wc_session_ttl :: int
  wc_political_content :: bool
  wc_political_paid_media :: bool
  wc_political_publication :: bool

text \<open>What the handlers read from a request: its id, the client's host, the parsed \<open>Authorization\<close> header, the
  session cookie and the CSRF header, which are empty when absent.\<close>

record web_request =
  hr_request_id :: string
  hr_client :: "string option"
  hr_credentials :: "(string \<times> string) option"
  hr_cookie :: string
  hr_csrf :: string

text \<open>The readings of the clock, and the stamps of a denial and of a second audit event.\<close>

record web_env =
  ve_service :: service_env
  ve_later :: service_env
  ve_limit :: int
  ve_failure :: int
  ve_session :: int
  ve_quota :: int
  ve_csrf :: int

type_synonym 'a http_step = "(web, 'a) step"

definition with_service :: "'a command \<Rightarrow> 'a http_step" where
  "with_service m = (\<lambda>w. case m (wb_service w) of (s, r) \<Rightarrow> (w\<lparr>wb_service := s\<rparr>, r))"

definition on_failures :: "(failures \<Rightarrow> failures res) \<Rightarrow> unit http_step" where
  "on_failures f = (\<lambda>w. case f (wb_failures w) of Inl e \<Rightarrow> (w, Inl e) | Inr t \<Rightarrow> (w\<lparr>wb_failures := t\<rparr>, Inr ()))"

definition on_quotas :: "(quotas \<Rightarrow> quotas res) \<Rightarrow> unit http_step" where
  "on_quotas f = (\<lambda>w. case f (wb_quotas w) of Inl e \<Rightarrow> (w, Inl e) | Inr t \<Rightarrow> (w\<lparr>wb_quotas := t\<rparr>, Inr ()))"

definition on_publications :: "(sp_table \<Rightarrow> (sp_table \<times> 'a) res) \<Rightarrow> 'a http_step" where
  "on_publications f = (\<lambda>w. case f (wb_publications w) of
     Inl e \<Rightarrow> (w, Inl e) | Inr (t, v) \<Rightarrow> (w\<lparr>wb_publications := t\<rparr>, Inr v))"

section \<open>Errors\<close>

text \<open>\<open>PublicApiError\<close> checks what it makes public.\<close>

definition public_error :: "int \<Rightarrow> string \<Rightarrow> string \<Rightarrow> (string \<times> string) list \<Rightarrow> 'a res" where
  "public_error status code detail headers =
     (if status < 400 \<or> 599 < status then Inl (ValueError ''public API errors require a 4xx or 5xx status'')
      else if \<not> fullmatch_class is_lower (\<lambda>c. is_lower c \<or> is_ascii_digit c \<or> c = CHR ''_'') 2 63 code
      then Inl (ValueError ''public API error code is invalid'')
      else if detail = [] \<or> 200 < length detail \<or> (\<exists>c \<in> set detail. code_point c < 32 \<or> code_point c = 127)
      then Inl (ValueError ''public API error detail is invalid'')
      else Inl (PublicApiError status code detail headers))"

definition SAFE_HTTP_ERRORS :: "(int \<times> string \<times> string) list" where
  "SAFE_HTTP_ERRORS = [(400, ''invalid_request'', ''invalid request''), (401, ''authentication_failed'', ''authentication failed''),
     (403, ''authorization_denied'', ''request not permitted''), (404, ''resource_not_found'', ''resource not found''),
     (405, ''method_not_allowed'', ''method not allowed''), (409, ''resource_state_conflict'', ''resource state conflict''),
     (413, ''request_too_large'', ''request too large''), (422, ''request_validation_failed'', ''request validation failed''),
     (429, ''authentication_rate_limited'', ''authentication temporarily rate limited''),
     (503, ''service_unavailable'', ''service unavailable'')]"

record http_response =
  hs_status :: int
  hs_headers :: "(string \<times> string) list"
  hs_body :: json

definition error_body :: "string \<Rightarrow> string \<Rightarrow> string \<Rightarrow> json" where
  "error_body code detail request_id = JObj [(''code'', JStr code), (''detail'', JStr detail), (''request_id'', JStr request_id)]"

definition error_headers :: "string \<Rightarrow> (string \<times> string) list \<Rightarrow> (string \<times> string) list" where
  "error_headers request_id headers = dict_set ''X-Request-ID'' request_id headers"

text \<open>The exception handlers: a public error speaks for itself, an HTTP error by its status, any other exception
  is an internal error.\<close>

definition error_response :: "string \<Rightarrow> exn \<Rightarrow> http_response" where
  "error_response request_id e = (case e of
     PublicApiError status code detail headers \<Rightarrow>
       \<lparr>hs_status = status, hs_headers = error_headers request_id headers, hs_body = error_body code detail request_id\<rparr>
   | HTTPException status _ \<Rightarrow>
       (case map_of SAFE_HTTP_ERRORS status of
          Some (code, detail) \<Rightarrow> \<lparr>hs_status = status, hs_headers = error_headers request_id [], hs_body = error_body code detail request_id\<rparr>
        | None \<Rightarrow> \<lparr>hs_status = status, hs_headers = error_headers request_id [],
            hs_body = error_body ''request_failed'' ''request failed'' request_id\<rparr>)
   | _ \<Rightarrow> \<lparr>hs_status = 500, hs_headers = error_headers request_id [],
            hs_body = error_body ''internal_error'' ''internal service error'' request_id\<rparr>)"

definition handled :: "web_request \<Rightarrow> http_response http_step \<Rightarrow> web \<Rightarrow> web \<times> http_response" where
  "handled rq h w = (case h w of
     (w', Inr response) \<Rightarrow> (w', response)
   | (w', Inl e) \<Rightarrow> (w', error_response (hr_request_id rq) e))"

section \<open>Rate limits\<close>

definition authentication_buckets :: "web_config \<Rightarrow> web_request \<Rightarrow> string \<Rightarrow> bucket_limits" where
  "authentication_buckets cfg rq api_key =
     [(sha256_text (''credential:'' @ fingerprint api_key), wc_max_failures cfg),
      (sha256_text (''source:'' @ (case hr_client rq of Some host \<Rightarrow> host | None \<Rightarrow> ''unknown'')), wc_source_max_failures cfg)]"

definition authenticated_request_buckets :: "web_config \<Rightarrow> principal \<Rightarrow> bucket_limits" where
  "authenticated_request_buckets cfg p =
     [(sha256_text (canonical_json (JList [JStr ''authenticated-request-principal'', JStr (pn_tenant_id p), JStr (pn_subject_id p)])),
        wc_max_per_principal cfg),
      (sha256_text (canonical_json (JList [JStr ''authenticated-request-tenant'', JStr (pn_tenant_id p)])), wc_max_per_tenant cfg)]"

definition or_rate_limited :: "'a http_step \<Rightarrow> 'a http_step" where
  "or_rate_limited m = scatch m (\<lambda>e. case e of
     AuthenticationRateLimitError seconds \<Rightarrow> slift (public_error 429 ''authentication_rate_limited''
       ''authentication temporarily rate limited'' [(''Retry-After'', show_int seconds)])
   | _ \<Rightarrow> slift (Inl e))"

definition rate_limited_authenticate :: "web_config \<Rightarrow> web_env \<Rightarrow> web_request \<Rightarrow> string \<Rightarrow> principal http_step" where
  "rate_limited_authenticate cfg env rq api_key =
     (let buckets = authentication_buckets cfg rq api_key; window = wc_rate_window cfg in
      sthen (or_rate_limited (on_failures (enforce_authentication_rate_limit buckets window (ve_limit env))))
     (scatch (slift (authenticate (wc_auth cfg) api_key)) (\<lambda>e. case e of
        AuthenticationError _ \<Rightarrow>
          sthen (or_rate_limited (on_failures (record_authentication_failure buckets window (ve_failure env)))) (slift (Inl e))
      | _ \<Rightarrow> slift (Inl e))))"

definition consume_quota :: "web_config \<Rightarrow> web_env \<Rightarrow> principal \<Rightarrow> unit http_step" where
  "consume_quota cfg env p =
     scatch (on_quotas (consume_authenticated_request_quota (authenticated_request_buckets cfg p) (wc_quota_window cfg) (ve_quota env)))
       (\<lambda>e. case e of
          AuthenticatedRequestRateLimitError seconds \<Rightarrow> slift (public_error 429 ''request_rate_limited''
            ''authenticated request temporarily rate limited'' [(''Retry-After'', show_int seconds)])
        | _ \<Rightarrow> slift (Inl e))"

section \<open>Principals\<close>

definition authentication_failed :: "'a res" where
  "authentication_failed = public_error 401 ''authentication_failed'' ''authentication failed'' [(''WWW-Authenticate'', ''Bearer'')]"

definition bearer_principal :: "web_config \<Rightarrow> web_env \<Rightarrow> web_request \<Rightarrow> string \<times> string \<Rightarrow> principal http_step" where
  "bearer_principal cfg env rq c = (case c of (scheme, credentials) \<Rightarrow>
     if str_lower scheme \<noteq> ''bearer'' then slift authentication_failed
     else scatch (rate_limited_authenticate cfg env rq credentials) (\<lambda>e. case e of
        AuthenticationError _ \<Rightarrow> slift authentication_failed | _ \<Rightarrow> slift (Inl e)))"

definition session_principal :: "web_config \<Rightarrow> web_env \<Rightarrow> web_request \<Rightarrow> principal http_step" where
  "session_principal cfg env rq =
     scatch (sbind (with_service (from_db (\<lambda>db. authenticate_session db (hr_cookie rq) (ve_session env)))) (\<lambda>x.
         slift (resolve_active_session (wc_auth cfg) (sr_tenant_id x) (sr_subject_id x) (sr_key_id x)
           (sr_credential_fingerprint x) (sr_session_id x))))
       (\<lambda>e. case e of
          SessionAuthenticationError _ \<Rightarrow> slift authentication_failed
        | AuthenticationError _ \<Rightarrow> slift authentication_failed
        | _ \<Rightarrow> slift (Inl e))"

definition require_principal :: "web_config \<Rightarrow> web_env \<Rightarrow> web_request \<Rightarrow> principal http_step" where
  "require_principal cfg env rq =
     (if \<not> auth_configured (wc_auth cfg)
      then slift (public_error 503 ''authentication_unavailable'' ''authentication is unavailable'' [])
      else sbind (case hr_credentials rq of
          Some c \<Rightarrow> bearer_principal cfg env rq c | None \<Rightarrow> session_principal cfg env rq) (\<lambda>p.
        sthen (consume_quota cfg env p) (sret p)))"

definition security_denial :: "web_env \<Rightarrow> web_request \<Rightarrow> principal \<Rightarrow> string \<Rightarrow> string \<Rightarrow> unit http_step" where
  "security_denial env rq p reason permission =
     with_service (record_security_denial (ve_service env) p (hr_request_id rq) reason permission)"

definition require_mutation_principal :: "web_config \<Rightarrow> web_env \<Rightarrow> web_request \<Rightarrow> principal http_step" where
  "require_mutation_principal cfg env rq =
     sbind (require_principal cfg env rq) (\<lambda>p.
       if pn_auth_method p = ''session'' then
         scatch (sthen (with_service (from_db (\<lambda>db. verify_session_csrf db (pn_session_id p) (hr_csrf rq) (ve_csrf env)))) (sret p))
           (\<lambda>e. case e of
              SessionCsrfError _ \<Rightarrow> sthen (security_denial env rq p ''csrf'' [])
                (slift (public_error 403 ''request_verification_failed'' ''request verification failed'' []))
            | _ \<Rightarrow> slift (Inl e))
       else sret p)"

definition authorize :: "web_env \<Rightarrow> web_request \<Rightarrow> string \<Rightarrow> principal \<Rightarrow> principal http_step" where
  "authorize env rq permission p =
     scatch (sthen (slift (require_permission p permission)) (sret p)) (\<lambda>e. case e of
        AuthorizationError _ \<Rightarrow> sthen (security_denial env rq p ''authorization'' permission)
          (slift (public_error 403 ''authorization_denied'' ''request not permitted'' []))
      | _ \<Rightarrow> slift (Inl e))"

definition session_required :: "principal \<Rightarrow> principal http_step" where
  "session_required p =
     (if pn_auth_method p \<noteq> ''session'' \<or> pn_session_id p = []
      then slift (public_error 400 ''browser_session_required'' ''browser session is required'' [])
      else sret p)"

definition require_identity_reader :: "web_config \<Rightarrow> web_env \<Rightarrow> web_request \<Rightarrow> principal http_step" where
  "require_identity_reader cfg env rq = sbind (require_principal cfg env rq) (authorize env rq ''identity:read'')"

definition require_run_reader :: "web_config \<Rightarrow> web_env \<Rightarrow> web_request \<Rightarrow> principal http_step" where
  "require_run_reader cfg env rq = sbind (require_principal cfg env rq) (authorize env rq ''runs:read'')"

definition require_audit_reader :: "web_config \<Rightarrow> web_env \<Rightarrow> web_request \<Rightarrow> principal http_step" where
  "require_audit_reader cfg env rq = sbind (require_principal cfg env rq) (authorize env rq ''audit:read'')"

definition require_run_creator :: "web_config \<Rightarrow> web_env \<Rightarrow> web_request \<Rightarrow> principal http_step" where
  "require_run_creator cfg env rq = sbind (require_mutation_principal cfg env rq) (authorize env rq ''runs:create'')"

definition require_greenlight_approver :: "web_config \<Rightarrow> web_env \<Rightarrow> web_request \<Rightarrow> principal http_step" where
  "require_greenlight_approver cfg env rq = sbind (require_mutation_principal cfg env rq) (authorize env rq ''greenlight:decide'')"

definition require_greenlight_revoker :: "web_config \<Rightarrow> web_env \<Rightarrow> web_request \<Rightarrow> principal http_step" where
  "require_greenlight_revoker cfg env rq = sbind (require_mutation_principal cfg env rq) (authorize env rq ''greenlight:revoke'')"

definition require_social_manager :: "web_config \<Rightarrow> web_env \<Rightarrow> web_request \<Rightarrow> principal http_step" where
  "require_social_manager cfg env rq =
     sbind (sbind (require_mutation_principal cfg env rq) (authorize env rq ''social:manage'')) session_required"

definition require_social_publisher :: "web_config \<Rightarrow> web_env \<Rightarrow> web_request \<Rightarrow> principal http_step" where
  "require_social_publisher cfg env rq =
     sbind (sbind (require_mutation_principal cfg env rq) (authorize env rq ''social:publish'')) session_required"

definition require_model_executor :: "web_config \<Rightarrow> web_env \<Rightarrow> web_request \<Rightarrow> principal http_step" where
  "require_model_executor cfg env rq =
     sbind (sbind (require_mutation_principal cfg env rq) (authorize env rq ''model:execute'')) session_required"

definition require_social_callback_manager :: "web_config \<Rightarrow> web_env \<Rightarrow> web_request \<Rightarrow> principal http_step" where
  "require_social_callback_manager cfg env rq =
     sbind (sbind (require_principal cfg env rq) (authorize env rq ''social:manage'')) session_required"

end
