(* ===== verification/HttpCommands.thy ===== *)
theory HttpCommands
  imports HttpAccess
begin

text \<open>
  The handlers of the HTTP application (\<open>create_app\<close> in \<open>backend/agency_runtime/api.py\<close>) for sessions, runs,
  Greenlight decisions, publications, media, model effects and the audit ledger: the principal a handler depends on,
  then its body. The framework validates the shape of a request before the body runs; here a handler gets the values.
  The publication and the model-effect authority are values of the configuration, with the network as an argument.
\<close>

section \<open>Documents\<close>

definition run_document :: "run \<Rightarrow> string \<Rightarrow> json" where
  "run_document r tenant = (case execution_run_to_document r of
     JObj kvs \<Rightarrow> JObj (dict_set ''external_side_effects_enabled'' (JBool False) (dict_set ''sandbox'' (JBool True)
       (dict_set ''tenant_id'' (JStr tenant) kvs)))
   | j \<Rightarrow> j)"

definition jopt :: "string option \<Rightarrow> json" where
  "jopt v = (case v of None \<Rightarrow> JNull | Some s \<Rightarrow> JStr s)"

definition publication_document :: "sp_intent \<Rightarrow> json" where
  "publication_document i = JObj [(''intent_id'', JStr (sp_intent_id i)), (''channel_id'', JStr (sp_channel_id i)),
     (''account_id'', JStr (sp_account_id i)), (''run_id'', JStr (sp_run_id i)), (''artifact_id'', JStr (sp_artifact_id i)),
     (''artifact_hash'', JStr (sp_artifact_hash i)), (''media_hash'', jopt (sp_media_hash i)),
     (''confirmation_hash'', jopt (sp_confirmation_hash i)), (''greenlight_id'', JStr (sp_greenlight_id i)),
     (''greenlight_fencing_token'', JInt (sp_greenlight_fencing_token i)), (''status'', JStr (sp_status i)),
     (''execution_fencing_token'', JInt (sp_fence i)), (''provider_container_id'', jopt (sp_provider_container_id i)),
     (''provider_post_id'', jopt (sp_provider_post_id i)), (''receipt'', JObj (sp_receipt i)),
     (''failure_reason'', JStr (sp_failure_reason i)), (''created_at'', JStr (sp_created_at i)),
     (''updated_at'', JStr (sp_updated_at i)), (''completed_at'', jopt (sp_completed_at i)), (''revoked_at'', jopt (sp_revoked_at i))]"

definition pub_public_dict :: "pub_result \<Rightarrow> json" where
  "pub_public_dict e = JObj [(''intent_id'', JStr (pr_intent_id e)), (''channel_id'', JStr (pr_channel_id e)),
     (''account_id'', JStr (pr_account_id e)), (''run_id'', JStr (pr_run_id e)), (''artifact_id'', JStr (pr_artifact_id e)),
     (''artifact_hash'', JStr (pr_artifact_hash e)), (''greenlight_id'', JStr (pr_greenlight_id e)),
     (''greenlight_fencing_token'', JInt (pr_greenlight_fencing_token e)), (''status'', JStr (pr_status e)),
     (''execution_fencing_token'', JInt (pr_fence e)), (''provider_container_id'', jopt (pr_provider_container_id e)),
     (''provider_post_id'', jopt (pr_provider_post_id e)), (''receipt'', JObj (pr_receipt e)), (''replayed'', JBool (pr_replayed e))]"

definition model_effect_document :: "me_intent \<Rightarrow> json" where
  "model_effect_document i = JObj [(''effect_id'', JStr (me_effect_id i)), (''run_id'', JStr (me_run_id i)),
     (''station'', JStr (me_station i)), (''source_artifact_id'', JStr (me_source_artifact_id i)),
     (''source_artifact_hash'', JStr (me_source_artifact_hash i)), (''provider_id'', JStr (me_provider_id i)),
     (''model'', JStr (me_model i)), (''endpoint_host'', JStr (me_endpoint_host i)), (''request_sha256'', JStr (me_request_sha256 i)),
     (''max_output_tokens'', JInt (me_max_output_tokens i)), (''max_cost_micros'', JInt (me_max_cost_micros i)),
     (''binding_digest'', JStr (me_binding_digest i)), (''status'', JStr (me_status i)),
     (''execution_fencing_token'', JInt (me_fence i)), (''output_sha256'', JStr (me_output_sha256 i)),
     (''receipt'', JObj (me_receipt i)), (''failure_reason'', JStr (me_failure_reason i)), (''created_at'', JStr (me_created_at i)),
     (''updated_at'', JStr (me_updated_at i)), (''completed_at'', jopt (me_completed_at i)), (''revoked_at'', jopt (me_revoked_at i))]"

definition me_public_dict :: "me_result \<Rightarrow> json" where
  "me_public_dict e = JObj [(''effect_id'', JStr (mer_effect_id e)), (''tenant_id'', JStr (mer_tenant_id e)),
     (''run_id'', JStr (mer_run_id e)), (''station'', JStr (mer_station e)), (''source_artifact_id'', JStr (mer_source_artifact_id e)),
     (''source_artifact_hash'', JStr (mer_source_artifact_hash e)), (''provider_id'', JStr (mer_provider_id e)),
     (''model'', JStr (mer_model e)), (''status'', JStr (mer_status e)), (''execution_fencing_token'', JInt (mer_fence e)),
     (''output_text'', JStr (mer_output_text e)), (''output_sha256'', JStr (mer_output_sha256 e)),
     (''receipt'', JObj (mer_receipt e)), (''replayed'', JBool (mer_replayed e))]"

definition respond :: "int \<Rightarrow> (string \<times> string) list \<Rightarrow> json \<Rightarrow> http_response" where
  "respond status headers body = \<lparr>hs_status = status, hs_headers = headers, hs_body = body\<rparr>"

definition replayed_header :: "(string \<times> string) list" where
  "replayed_header = [(''X-Command-Replayed'', ''true'')]"

section \<open>Exceptions\<close>

definition not_found :: "'a http_step" where
  "not_found = slift (Inl (HTTPException 404 ''resource not found''))"

definition idempotency_conflict :: "'a http_step" where
  "idempotency_conflict =
     slift (public_error 409 ''idempotency_conflict'' ''idempotency key conflicts with a prior request'' [])"

text \<open>The classes that derive from \<open>ValueError\<close>, and those that derive from \<open>RuntimeError\<close>.\<close>

definition value_error_message :: "exn \<Rightarrow> string option" where
  "value_error_message e = (case e of
     ValueError m \<Rightarrow> Some m | AuthConfigurationError m \<Rightarrow> Some m | AuditCheckpointSigningConfigurationError m \<Rightarrow> Some m
   | PublicMediaSigningConfigurationError m \<Rightarrow> Some m | PublicationMediaValidationError m \<Rightarrow> Some m
   | SocialTokenCipherConfigurationError m \<Rightarrow> Some m | SocialTokenDecryptionError m \<Rightarrow> Some m | _ \<Rightarrow> None)"

definition is_value_error :: "exn \<Rightarrow> bool" where
  "is_value_error e \<longleftrightarrow> value_error_message e \<noteq> None"

definition is_greenlight_error :: "exn \<Rightarrow> bool" where
  "is_greenlight_error e = (case e of GreenlightError _ \<Rightarrow> True | PoliticalReviewerSeparationError _ \<Rightarrow> True | _ \<Rightarrow> False)"

definition is_runtime_error :: "exn \<Rightarrow> bool" where
  "is_runtime_error e \<longleftrightarrow> is_greenlight_error e \<or> (case e of
     RuntimeError _ \<Rightarrow> True | AuditIntegrityError _ \<Rightarrow> True | AuditCheckpointSigningKeyUnavailableError _ \<Rightarrow> True
   | RunStateConflictError _ \<Rightarrow> True | AuditEventConflictError _ \<Rightarrow> True
   | ModelEffectConflictError _ \<Rightarrow> True | ModelEffectStateError _ \<Rightarrow> True | ModelEffectUnavailableError _ \<Rightarrow> True
   | ModelEffectBlockedError _ \<Rightarrow> True | ModelEffectUnknownError _ \<Rightarrow> True
   | SocialPublicationConflictError _ \<Rightarrow> True | SocialPublicationStateError _ \<Rightarrow> True | SocialPublicationUnavailableError _ \<Rightarrow> True
   | SocialPublicationBlockedError _ \<Rightarrow> True | SocialPublicationProviderRejectedError _ _ _ _ _ \<Rightarrow> True
   | SocialPublicationUnknownError _ \<Rightarrow> True | PublicationMediaConflictError _ \<Rightarrow> True | PublicationMediaStoreError _ \<Rightarrow> True
   | ModelGatewayDisabledError _ \<Rightarrow> True | ModelGatewayConfigurationError _ \<Rightarrow> True | ModelGatewayProviderError _ \<Rightarrow> True
   | IdempotencyConflictError _ \<Rightarrow> True | PublicMediaSigningKeyUnavailableError _ \<Rightarrow> True
   | SocialOAuthStoreError _ \<Rightarrow> True | SocialOAuthStateUnavailableError _ \<Rightarrow> True | SocialOAuthUnavailableError _ \<Rightarrow> True
   | SocialOAuthCallbackError _ \<Rightarrow> True | SocialOAuthProviderError _ _ _ _ _ _ _ \<Rightarrow> True | PostgresSchemaError _ \<Rightarrow> True
   | _ \<Rightarrow> False)"

section \<open>Browser sessions\<close>

text \<open>The response carries the cookie's value; its attributes come from the configuration.\<close>

definition session_cookie :: "string \<Rightarrow> (string \<times> string) list" where
  "session_cookie token = [(''Set-Cookie'', token)]"

definition session_login :: "web_config \<Rightarrow> web_env \<Rightarrow> web_request \<Rightarrow> string option \<Rightarrow> string \<Rightarrow> principal http_step" where
  "session_login cfg env rq username api_key =
     scatch (sbind (rate_limited_authenticate cfg env rq api_key) (\<lambda>p.
       sthen (consume_quota cfg env p)
         (case username of
            None \<Rightarrow> sret p
          | Some u \<Rightarrow> sbind (slift (compare_digest u (pn_subject_id p))) (\<lambda>same.
              if same then sret p else slift (Inl (AuthenticationError ''username does not match credential''))))))
       (\<lambda>e. case e of
          AuthenticationError _ \<Rightarrow> slift (Inl (HTTPException 401 ''invalid session credential''))
        | _ \<Rightarrow> slift (Inl e))"

definition http_create_session ::
  "web_config \<Rightarrow> web_env \<Rightarrow> web_request \<Rightarrow> string option \<Rightarrow> string \<Rightarrow> session_seed \<Rightarrow> http_response http_step" where
  "http_create_session cfg env rq username api_key seed =
     (if \<not> auth_configured (wc_auth cfg)
      then slift (Inl (HTTPException 503 ''tenant authentication is not configured''))
      else sbind (session_login cfg env rq username api_key) (\<lambda>p.
        sbind (with_service (create_browser_session (ve_service env) p (wc_session_ttl cfg) (hr_request_id rq) (ve_session env) seed)) (\<lambda>i.
          sret (respond 201 (session_cookie (si_session_token i)) (JObj
            [(''tenant_id'', JStr (si_tenant_id i)), (''subject_id'', JStr (si_subject_id i)), (''role'', JStr (si_role i)),
             (''key_id'', JStr (si_key_id i)), (''entitlements'', jstrs (pn_entitlements p)), (''csrf_token'', JStr (si_csrf_token i)),
             (''expires_at'', JStr (se_at_time (ve_service env) (si_expires_at i)))])))))"

definition current_session_required :: "principal \<Rightarrow> unit http_step" where
  "current_session_required p = slift (raise_first
     [(pn_auth_method p \<noteq> ''session'' \<or> pn_session_id p = [], HTTPException 400 ''current browser session required'')])"

definition http_resume_session :: "web_config \<Rightarrow> web_env \<Rightarrow> web_request \<Rightarrow> string \<Rightarrow> http_response http_step" where
  "http_resume_session cfg env rq csrf =
     sbind (require_principal cfg env rq) (\<lambda>p.
     sthen (current_session_required p)
    (sbind (scatch (with_service (resume_browser_session (pn_session_id p) csrf (ve_csrf env))) (\<lambda>e. case e of
          SessionAuthenticationError m \<Rightarrow> slift (Inl (HTTPException 401 m)) | _ \<Rightarrow> slift (Inl e))) (\<lambda>i.
       sret (respond 200 [] (JObj
         [(''tenant_id'', JStr (si_tenant_id i)), (''subject_id'', JStr (pn_subject_id p)), (''role'', JStr (pn_role p)),
          (''key_id'', JStr (pn_key_id p)), (''entitlements'', jstrs (pn_entitlements p)), (''csrf_token'', JStr (si_csrf_token i)),
          (''expires_at'', JStr (se_at_time (ve_service env) (si_expires_at i)))])))))"

definition http_revoke_session :: "web_config \<Rightarrow> web_env \<Rightarrow> web_request \<Rightarrow> http_response http_step" where
  "http_revoke_session cfg env rq =
     sbind (require_mutation_principal cfg env rq) (\<lambda>p.
     sthen (current_session_required p)
    (sthen (scatch (with_service (revoke_browser_session (ve_service env) p (hr_request_id rq) (ve_session env))) (\<lambda>e. case e of
          KeyError m \<Rightarrow> slift (Inl (HTTPException 404 m)) | _ \<Rightarrow> slift (Inl e)))
       (sret (respond 200 (session_cookie []) (JObj [(''status'', JStr ''revoked'')])))))"

definition http_me :: "web_config \<Rightarrow> web_env \<Rightarrow> web_request \<Rightarrow> http_response http_step" where
  "http_me cfg env rq =
     sbind (require_identity_reader cfg env rq) (\<lambda>p.
     sbind (slift (role_permissions (pn_role p))) (\<lambda>ps.
       sret (respond 200 [] (JObj
         [(''tenant_id'', JStr (pn_tenant_id p)), (''subject_id'', JStr (pn_subject_id p)), (''role'', JStr (pn_role p)),
          (''key_id'', JStr (pn_key_id p)), (''permissions'', jstrs ps), (''entitlements'', jstrs (pn_entitlements p)),
          (''auth_method'', JStr (pn_auth_method p))]))))"

section \<open>Runs\<close>

text \<open>A claim that asks to be verified is reviewed by the caller, any other by nobody; the same for the legal review.\<close>

definition claim_verified :: "json \<Rightarrow> bool" where
  "claim_verified c = (case c of JObj kvs \<Rightarrow> jget ''verification_status'' kvs = Some (JStr ''verified'') | _ \<Rightarrow> False)"

definition attribute_claim :: "string \<Rightarrow> json \<Rightarrow> json" where
  "attribute_claim subject c = (case c of
     JObj kvs \<Rightarrow> JObj (dict_set ''reviewed_by'' (JStr (if claim_verified c then subject else [])) kvs)
   | _ \<Rightarrow> c)"

definition attributed_brief :: "string \<Rightarrow> brief \<Rightarrow> brief" where
  "attributed_brief subject b = b\<lparr>
     legal_reviewed_by := (if legal_review_status b = ''approved'' then subject else []),
     evidence_claims := map (attribute_claim subject) (evidence_claims b)\<rparr>"

definition respond_async :: "string option \<Rightarrow> bool" where
  "respond_async prefer \<longleftrightarrow> ''respond-async'' \<in> set (map (\<lambda>item. str_lower (strip item))
     (filter (\<lambda>item. strip item \<noteq> []) (split_on (CHR '','') (case prefer of None \<Rightarrow> [] | Some s \<Rightarrow> s))))"

definition http_create_run :: "web_config \<Rightarrow> web_env \<Rightarrow> web_request \<Rightarrow> brief \<Rightarrow> string \<Rightarrow> string option \<Rightarrow> http_response http_step" where
  "http_create_run cfg env rq b key prefer =
     sbind (require_run_creator cfg env rq) (\<lambda>p.
     scatch (sthen (slift (if campaign_type b = ''political'' \<and> \<not> wc_political_content cfg
         then public_error 409 ''political_content_disabled'' ''political content creation requires explicit enablement'' []
         else if campaign_type b = ''political'' \<and> publication_mode b = ''paid'' \<and> \<not> wc_political_paid_media cfg
         then public_error 409 ''political_paid_media_disabled'' ''paid political planning requires explicit enablement'' []
         else Inr ()))
      (sthen (if (\<exists>c \<in> set (evidence_claims b). claim_verified c) \<or> legal_review_status b = ''approved''
         then sbind (authorize env rq ''greenlight:decide'' p) (\<lambda>_. sret ()) else sret ())
      (sbind (with_service (svc_start (ve_service env) (pn_tenant_id p) (attributed_brief (pn_subject_id p) b) (hr_request_id rq)
           (actor_of p) (pn_subject_id p) key (respond_async prefer))) (\<lambda>(r, replayed).
         sret (if replayed then respond 200 replayed_header (run_document r (pn_tenant_id p))
           else if respond_async prefer
           then respond 202 [(''Preference-Applied'', ''respond-async''), (''Location'', ''/api/v1/runs/'' @ run_id r)]
             (run_document r (pn_tenant_id p))
           else respond 201 [] (run_document r (pn_tenant_id p)))))))
       (\<lambda>e. case e of
          IdempotencyConflictError _ \<Rightarrow> idempotency_conflict
        | _ \<Rightarrow> (case value_error_message e of Some m \<Rightarrow> slift (Inl (HTTPException 409 m)) | None \<Rightarrow> slift (Inl e))))"

definition http_get_run :: "web_config \<Rightarrow> web_env \<Rightarrow> web_request \<Rightarrow> string \<Rightarrow> http_response http_step" where
  "http_get_run cfg env rq rid =
     sbind (require_run_reader cfg env rq) (\<lambda>p.
     sbind (scatch (with_service (store_get (ve_service env) (pn_tenant_id p) rid)) (\<lambda>e. case e of
         KeyError m \<Rightarrow> slift (Inl (HTTPException 404 m)) | _ \<Rightarrow> slift (Inl e))) (\<lambda>r.
       sret (respond 200 [] (run_document r (pn_tenant_id p)))))"

text \<open>The handlers of the three Greenlight commands.\<close>

definition on_decision_error :: "'a http_step \<Rightarrow> bool \<Rightarrow> 'a http_step" where
  "on_decision_error m separation = scatch m (\<lambda>e. case e of
     IdempotencyConflictError _ \<Rightarrow> idempotency_conflict
   | KeyError msg \<Rightarrow> slift (Inl (HTTPException 404 msg))
   | PoliticalReviewerSeparationError msg \<Rightarrow>
       (if separation then slift (public_error 409 ''political_reviewer_separation_required''
          ''political legal and Greenlight reviewers must be distinct'' [])
        else slift (Inl (HTTPException 409 msg)))
   | GreenlightError msg \<Rightarrow> slift (Inl (HTTPException 409 msg))
   | _ \<Rightarrow> slift (Inl e))"

definition http_approve :: "web_config \<Rightarrow> web_env \<Rightarrow> web_request \<Rightarrow> string \<Rightarrow> string \<Rightarrow> string \<Rightarrow> string \<Rightarrow> http_response http_step" where
  "http_approve cfg env rq rid reviewer decision_note key =
     sbind (require_greenlight_approver cfg env rq) (\<lambda>p.
     on_decision_error (sbind (with_service (svc_approve (ve_service env) (pn_tenant_id p) rid reviewer decision_note
         (hr_request_id rq) (actor_of p) (pn_subject_id p) key)) (\<lambda>(r, replayed).
       sret (respond 200 [] (run_document r (pn_tenant_id p))))) True)"

definition http_reject :: "web_config \<Rightarrow> web_env \<Rightarrow> web_request \<Rightarrow> string \<Rightarrow> string \<Rightarrow> string \<Rightarrow> string \<Rightarrow> http_response http_step" where
  "http_reject cfg env rq rid reviewer decision_note key =
     sbind (require_greenlight_approver cfg env rq) (\<lambda>p.
     on_decision_error (sbind (with_service (svc_reject (ve_service env) (pn_tenant_id p) rid reviewer decision_note
         (hr_request_id rq) (actor_of p) (pn_subject_id p) key)) (\<lambda>(r, replayed).
       sret (respond 200 [] (run_document r (pn_tenant_id p))))) False)"

definition revoke_run_intents :: "web_env \<Rightarrow> web_request \<Rightarrow> principal \<Rightarrow> string \<Rightarrow> unit http_step" where
  "revoke_run_intents env rq p rid =
     sbind (on_publications (\<lambda>rows. sp_revoke_unused rows (pn_tenant_id p) None None (Some rid) ''greenlight_revoked''
        (se_utc (ve_later env)))) (\<lambda>revoked.
       if revoked = 0 then sret ()
       else with_service (record_publication_event (ve_later env) p (hr_request_id rq) ''social.publication_intents_revoked'' rid
         [(''run_id'', JStr rid), (''reason'', JStr ''greenlight_revoked''), (''pending_intents_revoked'', JInt (int revoked))]))"

definition http_revoke_greenlight ::
  "web_config \<Rightarrow> web_env \<Rightarrow> web_request \<Rightarrow> string \<Rightarrow> string \<Rightarrow> string \<Rightarrow> string \<Rightarrow> http_response http_step" where
  "http_revoke_greenlight cfg env rq rid reviewer reason key =
     sbind (require_greenlight_revoker cfg env rq) (\<lambda>p.
     on_decision_error (sbind (with_service (svc_revoke_greenlight (ve_service env) (pn_tenant_id p) rid reviewer reason
         (hr_request_id rq) (actor_of p) (pn_subject_id p) key)) (\<lambda>(r, replayed).
       sthen (if replayed then sret () else revoke_run_intents env rq p rid)
         (sret (respond 200 [] (run_document r (pn_tenant_id p)))))) False)"

section \<open>Publications\<close>

text \<open>The authority: its settings, the network, its clock and the decryption of a connection's tokens.\<close>

record publisher =
  pb_env :: pub_env
  pb_net :: network
  pb_clock :: clock
  pb_decrypt :: "social_connection \<Rightarrow> (string \<times> json) list option"

definition connection_of :: "social_connection \<Rightarrow> connection" where
  "connection_of c = \<lparr>cn_account_id = sn_account_id c, cn_username = sn_account_username c, cn_token_expires_at = sn_token_expires_at c\<rparr>"

definition run_publication :: "publisher \<Rightarrow> pub_command \<Rightarrow> pub_result http_step" where
  "run_publication pb c = (\<lambda>w.
     let found = sql_find (connection_key (pcmd_tenant_id c) (pcmd_channel_id c)) (sv_connections (wb_service w)) in
     case pub_execute (pb_env pb) (pb_net pb) (pb_clock pb) (map_option connection_of found) (Option.bind found (pb_decrypt pb)) c
         \<lparr>ps_rows = wb_publications w, ps_log = []\<rparr> of
       (s, r) \<Rightarrow> (w\<lparr>wb_publications := ps_rows s\<rparr>, r))"

definition find_connection :: "string \<Rightarrow> string \<Rightarrow> social_connection option http_step" where
  "find_connection tenant channel = with_service (\<lambda>s. (s, get_connection (sv_connections s) tenant channel))"

definition drop_connection :: "string \<Rightarrow> string \<Rightarrow> string \<Rightarrow> bool http_step" where
  "drop_connection tenant channel clk = with_service (\<lambda>s. case delete_connection (sv_connections s) tenant channel clk of
     Inl e \<Rightarrow> (s, Inl e) | Inr (conns, deleted) \<Rightarrow> (s\<lparr>sv_connections := conns\<rparr>, Inr deleted))"

text \<open>The intents of an account are revoked before its connection goes.\<close>

definition release_account :: "web_env \<Rightarrow> web_request \<Rightarrow> principal \<Rightarrow> string \<Rightarrow> string \<Rightarrow> string \<Rightarrow> (string \<times> json) list \<Rightarrow> bool http_step" where
  "release_account env rq p channel reason act extra =
     sbind (find_connection (pn_tenant_id p) channel) (\<lambda>found.
     sbind (case found of
         None \<Rightarrow> sret 0
       | Some c \<Rightarrow> on_publications (\<lambda>rows. sp_revoke_unused rows (pn_tenant_id p) (Some channel) (Some (sn_account_id c)) None reason
           (se_utc (ve_later env)))) (\<lambda>revoked.
     sbind (drop_connection (pn_tenant_id p) channel (se_utc (ve_later env))) (\<lambda>gone.
       sthen (if gone then with_service (record_social_event (ve_later env) p (hr_request_id rq) act channel
           (extra @ [(''tokens_deleted'', JBool True), (''pending_publication_intents_revoked'', JInt (int revoked))])) else sret ())
         (sret gone))))"

definition political_confirmation_hash ::
  "web_config \<Rightarrow> run \<Rightarrow> string \<Rightarrow> string \<Rightarrow> string \<Rightarrow> string option res" where
  "political_confirmation_hash cfg r rid channel confirmation =
     (if campaign_type (run_brief r) \<noteq> ''political'' then Inr None
      else if publication_mode (run_brief r) = ''paid''
      then public_error 409 ''paid_publication_requires_ads_authority'' ''paid political media requires a separate ads authority'' []
      else if \<not> wc_political_publication cfg
      then public_error 409 ''political_publication_disabled'' ''political publication requires a separate operator enablement'' []
      else let expected = ''PUBLICAR POLITICA '' @ rid @ '' '' @ channel in
        rbind (compare_digest confirmation expected) (\<lambda>same.
          if same then Inr (Some (sha256_text expected))
          else public_error 409 ''political_confirmation_invalid'' ''political publication confirmation is invalid'' []))"

definition publication_event :: "pub_result \<Rightarrow> string option \<Rightarrow> (string \<times> json) list" where
  "publication_event e confirmation = [(''channel_id'', JStr (pr_channel_id e)), (''account_id'', JStr (pr_account_id e)),
     (''run_id'', JStr (pr_run_id e)), (''artifact_id'', JStr (pr_artifact_id e)), (''artifact_hash'', JStr (pr_artifact_hash e)),
     (''greenlight_id'', JStr (pr_greenlight_id e)), (''greenlight_fencing_token'', JInt (pr_greenlight_fencing_token e)),
     (''execution_fencing_token'', JInt (pr_fence e)), (''provider_post_id'', jopt (pr_provider_post_id e)),
     (''provider_container_id'', jopt (pr_provider_container_id e)), (''confirmation_hash'', jopt confirmation)]"

text \<open>A rejection with Instagram's code 190 means that the token is dead: the connection goes, with its intents.\<close>

definition publication_failure :: "web_env \<Rightarrow> web_request \<Rightarrow> principal \<Rightarrow> string \<Rightarrow> exn \<Rightarrow> 'a http_step" where
  "publication_failure env rq p channel e = (case e of
     SocialPublicationConflictError _ \<Rightarrow> idempotency_conflict
   | SocialPublicationBlockedError _ \<Rightarrow>
       slift (public_error 409 ''social_publication_blocked'' ''social publication is blocked by durable state'' [])
   | SocialPublicationProviderRejectedError _ _ code _ _ \<Rightarrow>
       (if channel = ''instagram'' \<and> code = ''190'' then
          sbind (release_account env rq p channel ''provider_credential_invalidated'' ''social.reauthorization_required''
              [(''provider_code'', JStr ''190'')]) (\<lambda>_.
            slift (public_error 409 ''social_connection_reauthorization_required'' ''Instagram connection must be authorized again'' []))
        else slift (public_error 502 ''social_publication_rejected'' ''social provider rejected publication'' []))
   | SocialPublicationUnknownError _ \<Rightarrow>
       slift (public_error 503 ''social_publication_unknown'' ''social publication outcome requires reconciliation'' [])
   | KeyError _ \<Rightarrow> not_found
   | SocialPublicationUnavailableError _ \<Rightarrow>
       slift (public_error 409 ''social_publication_unavailable'' ''social publication is not ready'' [])
   | _ \<Rightarrow> if is_greenlight_error e \<or> is_value_error e
          then slift (public_error 409 ''social_publication_unavailable'' ''social publication is not ready'' [])
          else slift (Inl e))"

definition http_publish ::
  "web_config \<Rightarrow> publisher option \<Rightarrow> web_env \<Rightarrow> web_request \<Rightarrow> string \<Rightarrow> string \<Rightarrow> publication_request \<Rightarrow> string \<Rightarrow> string
    \<Rightarrow> http_response http_step" where
  "http_publish cfg authority env rq rid channel q confirmation key =
     sbind (require_social_publisher cfg env rq) (\<lambda>p.
     sbind (scatch (with_service (store_get (ve_service env) (pn_tenant_id p) rid)) (\<lambda>e. case e of
         KeyError _ \<Rightarrow> not_found | _ \<Rightarrow> slift (Inl e))) (\<lambda>r.
     sbind (slift (political_confirmation_hash cfg r rid channel confirmation)) (\<lambda>hash. case authority of
       None \<Rightarrow> slift (public_error 409 ''social_publication_unavailable'' ''social publication is disabled'' [])
     | Some pb \<Rightarrow>
         if \<not> pe_enabled (pb_env pb)
         then slift (public_error 409 ''social_publication_unavailable'' ''social publication is disabled'' [])
         else scatch
          (sbind (with_service (prepare_social_publication (ve_service env) (pn_tenant_id p) rid channel q key hash)) (\<lambda>c.
           sbind (run_publication pb c) (\<lambda>e.
           sthen (with_service (record_publication_event (ve_service env) p (hr_request_id rq) ''social.publication_succeeded''
               (pr_intent_id e) (publication_event e hash)))
             (sret (if pr_replayed e then respond 200 replayed_header (pub_public_dict e) else respond 201 [] (pub_public_dict e))))))
          (publication_failure env rq p channel))))"

text \<open>A run that does not exist is a \<open>KeyError\<close> that no handler turns into a 404.\<close>

definition http_list_publications :: "web_config \<Rightarrow> web_env \<Rightarrow> web_request \<Rightarrow> string \<Rightarrow> http_response http_step" where
  "http_list_publications cfg env rq rid =
     sbind (require_run_reader cfg env rq) (\<lambda>p.
     sbind (with_service (store_get (ve_service env) (pn_tenant_id p) rid)) (\<lambda>_.
     sbind (on_publications (\<lambda>rows. rbind (sp_list_for_run rows (pn_tenant_id p) rid) (\<lambda>is. Inr (rows, is)))) (\<lambda>is.
       sret (respond 200 [] (JObj [(''tenant_id'', JStr (pn_tenant_id p)), (''run_id'', JStr rid),
         (''publications'', JList (map publication_document is))])))))"

record publication_reconciliation =
  rc_provider_post_id :: string
  rc_provider_request_id :: string
  rc_note :: string

definition reconciliation_binding :: "publication_reconciliation \<Rightarrow> string" where
  "reconciliation_binding q = sha256_text (canonical_json (JObj [(''provider_post_id'', JStr (rc_provider_post_id q)),
     (''provider_request_id'', JStr (rc_provider_request_id q)), (''reconciliation_note_sha256'', JStr (sha256_text (rc_note q)))]))"

definition reconciliation_receipt :: "sp_intent \<Rightarrow> publication_reconciliation \<Rightarrow> string \<Rightarrow> (string \<times> json) list" where
  "reconciliation_receipt i q key = [(''provider'', JStr (sp_channel_id i)), (''provider_post_id'', JStr (rc_provider_post_id q)),
     (''provider_request_id'', JStr (rc_provider_request_id q)), (''reconciled'', JBool True),
     (''reconciliation_note_sha256'', JStr (sha256_text (rc_note q))),
     (''reconciliation_idempotency_digest'', JStr (sha256_text key)),
     (''reconciliation_binding_digest'', JStr (reconciliation_binding q)),
     (''artifact_hash'', JStr (sp_artifact_hash i)), (''binding_digest'', JStr (sp_binding_digest i))]"

definition http_reconcile_publication ::
  "web_config \<Rightarrow> web_env \<Rightarrow> web_request \<Rightarrow> string \<Rightarrow> publication_reconciliation \<Rightarrow> string \<Rightarrow> http_response http_step" where
  "http_reconcile_publication cfg env rq intent q key =
     sbind (require_social_publisher cfg env rq) (\<lambda>p.
     sbind (scatch
       (sbind (on_publications (\<lambda>rows. rbind (sp_get rows (pn_tenant_id p) intent) (\<lambda>i. Inr (rows, i)))) (\<lambda>i.
        sbind (on_publications (\<lambda>rows. sp_reconcile_success rows (pn_tenant_id p) intent (rc_provider_post_id q)
            (reconciliation_receipt i q key) (se_utc (ve_service env)))) (\<lambda>i'. sret (sp_status i = ''succeeded'', i'))))
       (\<lambda>e. case e of
          KeyError _ \<Rightarrow> not_found
        | SocialPublicationStateError _ \<Rightarrow> slift (public_error 409 ''social_publication_reconciliation_conflict''
            ''publication reconciliation conflicts with durable state'' [])
        | _ \<Rightarrow> slift (Inl e))) (\<lambda>(replayed, i).
     sthen (with_service (record_publication_event (ve_service env) p (hr_request_id rq) ''social.publication_reconciled'' (sp_intent_id i)
         [(''channel_id'', JStr (sp_channel_id i)), (''run_id'', JStr (sp_run_id i)), (''artifact_id'', JStr (sp_artifact_id i)),
          (''artifact_hash'', JStr (sp_artifact_hash i)), (''provider_post_id'', jopt (sp_provider_post_id i)),
          (''reconciled'', JBool True), (''reconciliation_binding_digest'', JStr (reconciliation_binding q))]))
       (sret (respond 200 (if replayed then replayed_header else []) (publication_document i)))))"

definition http_disconnect :: "web_config \<Rightarrow> web_env \<Rightarrow> web_request \<Rightarrow> string \<Rightarrow> http_response http_step" where
  "http_disconnect cfg env rq channel =
     sbind (require_social_manager cfg env rq) (\<lambda>p.
       if \<not> sp_channel (str_lower (strip channel)) then slift (Inl (HTTPException 404 ''social channel not found''))
       else sbind (release_account env rq p channel ''account_disconnected'' ''social.disconnected'' []) (\<lambda>gone.
         sret (respond 200 [] (JObj [(''tenant_id'', JStr (pn_tenant_id p)), (''channel_id'', JStr channel),
           (''connection_state'', JStr ''not_connected''), (''disconnected'', JBool gone)]))))"

section \<open>Publication media\<close>

text \<open>Delivery settings; the decoding of the alternative text and the reading of the image come from libraries.\<close>

record media_delivery =
  dl_base_url :: string
  dl_keyring :: "keyring option"
  dl_ttl_seconds :: int
  dl_decode_alt :: "string \<Rightarrow> string option"
  dl_validate :: "string \<Rightarrow> string \<Rightarrow> validated_media res"

definition media_failure :: "exn \<Rightarrow> 'a http_step" where
  "media_failure e = (case e of
     PublicationMediaValidationError _ \<Rightarrow> slift (public_error 422 ''publication_media_invalid'' ''publication media is invalid'' [])
   | PublicationMediaConflictError _ \<Rightarrow>
       slift (public_error 409 ''publication_media_conflict'' ''publication media conflicts with durable state'' [])
   | IdempotencyConflictError _ \<Rightarrow> idempotency_conflict
   | KeyError _ \<Rightarrow> not_found
   | _ \<Rightarrow> if is_greenlight_error e then slift (public_error 409 ''publication_media_state_invalid''
            ''publication media cannot be attached in the current run state'' [])
          else if is_runtime_error e then slift (public_error 503 ''publication_media_unavailable''
            ''publication media storage is unavailable'' [])
          else slift (Inl e))"

definition http_attach_media ::
  "web_config \<Rightarrow> media_delivery \<Rightarrow> web_env \<Rightarrow> web_request \<Rightarrow> string \<Rightarrow> string \<Rightarrow> string \<Rightarrow> string \<Rightarrow> string \<Rightarrow> string \<Rightarrow> string
    \<Rightarrow> http_response http_step" where
  "http_attach_media cfg dl env rq rid channel key alt64 rights content_type content =
     sbind (require_social_publisher cfg env rq) (\<lambda>p. case dl_keyring dl of
       None \<Rightarrow> slift (public_error 409 ''publication_media_unavailable'' ''publication media delivery is not configured'' [])
     | Some kr \<Rightarrow>
       if dl_base_url dl = []
       then slift (public_error 409 ''publication_media_unavailable'' ''publication media delivery is not configured'' [])
       else if str_lower (strip rights) \<notin> {''1'', ''true'', ''yes'', ''on''}
       then slift (public_error 422 ''publication_media_rights_required'' ''publication media rights confirmation is required'' [])
       else case dl_decode_alt dl alt64 of
         None \<Rightarrow> slift (public_error 422 ''publication_media_alt_text_invalid'' ''publication media alt text encoding is invalid'' [])
       | Some alt \<Rightarrow>
           sbind (scatch (sbind (slift (dl_validate dl content content_type)) (\<lambda>validated.
               with_service (attach_publication_media (ve_service env) kr (pn_tenant_id p)
                 \<lparr>mq_run_id = rid, mq_channel_id = channel, mq_validated = validated, mq_content = content, mq_alt_text = alt,
                   mq_request_id = hr_request_id rq, mq_actor = actor_of p, mq_subject_id = pn_subject_id p,
                   mq_idempotency_key = key, mq_public_base_url = dl_base_url dl, mq_ttl_seconds = dl_ttl_seconds dl\<rparr>)))
             media_failure) (\<lambda>(r, replayed).
             sret (if replayed then respond 200 replayed_header (run_document r (pn_tenant_id p))
                   else respond 201 [] (run_document r (pn_tenant_id p)))))"

text \<open>The body calls \<open>service.revoke_publication_media\<close>, which \<open>RuntimeService\<close> does not have, so that whatever is
  asked the lookup of the method raises.\<close>

definition http_revoke_media ::
  "web_config \<Rightarrow> web_env \<Rightarrow> web_request \<Rightarrow> string \<Rightarrow> string \<Rightarrow> string \<Rightarrow> string \<Rightarrow> http_response http_step" where
  "http_revoke_media cfg env rq rid mid reason key =
     sbind (require_social_publisher cfg env rq) (\<lambda>p.
     sbind (scatch (slift (Inl (AttributeError ''RuntimeService object has no attribute revoke_publication_media'')))
       (\<lambda>e. case e of
          IdempotencyConflictError _ \<Rightarrow> idempotency_conflict
        | KeyError _ \<Rightarrow> not_found
        | PublicationMediaConflictError _ \<Rightarrow>
            slift (public_error 409 ''publication_media_revocation_failed'' ''publication media could not be revoked'' [])
        | _ \<Rightarrow> if is_greenlight_error e then slift (public_error 409 ''publication_media_revocation_blocked''
                 ''publication media can only be revoked before Greenlight'' [])
               else if is_value_error e
               then slift (public_error 409 ''publication_media_revocation_failed'' ''publication media could not be revoked'' [])
               else if is_runtime_error e
               then slift (public_error 503 ''publication_media_unavailable'' ''publication media storage is unavailable'' [])
               else slift (Inl e))) (\<lambda>(r, replayed).
       sret (respond 200 (if replayed then replayed_header else []) (run_document r (pn_tenant_id p)))))"

text \<open>Public: the token is the capability.\<close>

definition http_read_media :: "web_env \<Rightarrow> string \<Rightarrow> (int \<times> string \<times> (string \<times> string) list \<times> string) http_step" where
  "http_read_media env token =
     (if length token < 32 \<or> 128 < length token then not_found
      else sbind (scatch (with_service (\<lambda>s. (s, media_get_public (sv_media s) (sha256_text token) (se_utc (ve_service env)))))
          (\<lambda>e. case e of KeyError _ \<Rightarrow> not_found | _ \<Rightarrow> slift (Inl e))) (\<lambda>(m, content).
        sbind (slift (se_seconds (ve_service env) (md_expires_at m))) (\<lambda>expires.
        sbind (slift (se_seconds (ve_service env) (se_utc (ve_service env)))) (\<lambda>clk.
          sret (200, md_content_type m,
            [(''Cache-Control'', ''public, max-age='' @ show_int (max 0 (min 300 (expires - clk)))),
             (''ETag'', CHR 0x22 # md_sha256 m @ [CHR 0x22]), (''X-Content-Type-Options'', ''nosniff''),
             (''Cross-Origin-Resource-Policy'', ''cross-origin'')], content)))))"

section \<open>Model effects\<close>

text \<open>The authority: the gateway, whether it is enabled, what the provider answers and three readings of its clock.\<close>

record model_authority =
  ma_gateway :: gateway
  ma_enabled :: bool
  ma_outcome :: http_outcome
  ma_clock :: "string \<times> string \<times> string"

definition run_model_effect :: "model_authority \<Rightarrow> me_command \<Rightarrow> me_result command" where
  "run_model_effect ma c = (\<lambda>s. case ma_clock ma of (t0, t1, t2) \<Rightarrow>
     case me_execute (ma_gateway ma) (ma_enabled ma) (sv_effects s) c (ma_outcome ma) t0 t1 t2 of
       (rows, r) \<Rightarrow> (s\<lparr>sv_effects := rows\<rparr>, r))"

definition model_not_ready :: "'a http_step" where
  "model_not_ready = slift (public_error 409 ''model_effect_unavailable'' ''model effect is not ready'' [])"

definition model_failure :: "exn \<Rightarrow> 'a http_step" where
  "model_failure e = (case e of
     ModelEffectConflictError _ \<Rightarrow> idempotency_conflict
   | ModelEffectBlockedError _ \<Rightarrow> slift (public_error 409 ''model_effect_blocked'' ''model effect is blocked by durable state'' [])
   | ModelEffectUnknownError _ \<Rightarrow> slift (public_error 503 ''model_effect_unknown'' ''model effect outcome requires reconciliation'' [])
   | KeyError _ \<Rightarrow> not_found
   | ModelEffectUnavailableError _ \<Rightarrow> model_not_ready
   | RunStateConflictError _ \<Rightarrow> model_not_ready
   | _ \<Rightarrow> if is_greenlight_error e \<or> is_value_error e then model_not_ready else slift (Inl e))"

definition http_model_effect ::
  "web_config \<Rightarrow> model_authority \<Rightarrow> web_env \<Rightarrow> web_request \<Rightarrow> string \<Rightarrow> string \<Rightarrow> model_effect_request \<Rightarrow> string
    \<Rightarrow> http_response http_step" where
  "http_model_effect cfg ma env rq rid station q key =
     sbind (require_model_executor cfg env rq) (\<lambda>p.
       if \<not> ma_enabled ma
       then slift (public_error 409 ''model_effect_unavailable'' ''model effect authority is disabled'' [])
       else scatch
         (sbind (with_service (prepare_model_effect (ve_service env) (pn_tenant_id p) rid station q key)) (\<lambda>c.
          sbind (with_service (run_model_effect ma c)) (\<lambda>e.
          sbind (with_service (attach_model_effect_result (ve_service env) p (hr_request_id rq) e ''model.effect_succeeded'')) (\<lambda>r.
            sret (respond (if mer_replayed e then 200 else 201) (if mer_replayed e then replayed_header else [])
              (JObj [(''effect'', me_public_dict e), (''run'', run_document r (pn_tenant_id p))]))))))
         model_failure)"

definition http_list_model_effects :: "web_config \<Rightarrow> web_env \<Rightarrow> web_request \<Rightarrow> string \<Rightarrow> http_response http_step" where
  "http_list_model_effects cfg env rq rid =
     sbind (require_run_reader cfg env rq) (\<lambda>p.
     sbind (with_service (store_get (ve_service env) (pn_tenant_id p) rid)) (\<lambda>_.
     sbind (with_service (\<lambda>s. (s, me_list_for_run (sv_effects s) (pn_tenant_id p) rid))) (\<lambda>is.
       sret (respond 200 [] (JObj [(''tenant_id'', JStr (pn_tenant_id p)), (''run_id'', JStr rid),
         (''effects'', JList (map model_effect_document is))])))))"

record model_reconciliation =
  rn_output_text :: string
  rn_provider_request_id :: string
  rn_note :: string

definition model_reconciliation_binding :: "me_intent \<Rightarrow> model_reconciliation \<Rightarrow> string" where
  "model_reconciliation_binding i q = sha256_text (canonical_json (JObj [(''effect_id'', JStr (me_effect_id i)),
     (''effect_binding_digest'', JStr (me_binding_digest i)), (''output_sha256'', JStr (sha256_text (strip (rn_output_text q)))),
     (''provider_request_id'', JStr (rn_provider_request_id q)), (''note_sha256'', JStr (sha256_text (strip (rn_note q))))]))"

definition model_reconciliation_receipt :: "me_intent \<Rightarrow> model_reconciliation \<Rightarrow> string \<Rightarrow> (string \<times> json) list" where
  "model_reconciliation_receipt i q key = [(''provider_id'', JStr (me_provider_id i)), (''model'', JStr (me_model i)),
     (''provider_request_id'', JStr (rn_provider_request_id q)), (''request_sha256'', JStr (me_request_sha256 i)),
     (''output_sha256'', JStr (sha256_text (strip (rn_output_text q)))), (''reconciled'', JBool True),
     (''reconciliation_note_sha256'', JStr (sha256_text (strip (rn_note q)))),
     (''reconciliation_idempotency_digest'', JStr (sha256_text key)),
     (''reconciliation_binding_digest'', JStr (model_reconciliation_binding i q)),
     (''effect_binding_digest'', JStr (me_binding_digest i)), (''execution_fencing_token'', JInt (me_fence i)),
     (''max_cost_micros'', JInt (me_max_cost_micros i))]"

definition reconciliation_not_ready :: "'a http_step" where
  "reconciliation_not_ready = slift (public_error 409 ''model_effect_reconciliation_unavailable''
     ''model effect reconciliation is not ready'' [])"

definition http_reconcile_model_effect ::
  "web_config \<Rightarrow> web_env \<Rightarrow> web_request \<Rightarrow> string \<Rightarrow> model_reconciliation \<Rightarrow> string \<Rightarrow> http_response http_step" where
  "http_reconcile_model_effect cfg env rq eff q key =
     sbind (require_model_executor cfg env rq) (\<lambda>p. scatch
       (sbind (with_service (\<lambda>s. (s, me_get (sv_effects s) (pn_tenant_id p) eff))) (\<lambda>i.
        sbind (with_service (\<lambda>s. case me_reconcile_success (sv_effects s) (pn_tenant_id p) eff (strip (rn_output_text q))
              (model_reconciliation_receipt i q key) (se_utc (ve_service env)) of
            Inl e \<Rightarrow> (s, Inl e) | Inr (rows, i') \<Rightarrow> (s\<lparr>sv_effects := rows\<rparr>, Inr i'))) (\<lambda>i'.
          let replayed = me_status i = ''succeeded''; e = result_from_intent i' replayed in
        sbind (with_service (attach_model_effect_result (ve_service env) p (hr_request_id rq) e ''model.effect_reconciled'')) (\<lambda>r.
          sret (respond 200 (if replayed then replayed_header else [])
            (JObj [(''effect'', me_public_dict e), (''run'', run_document r (pn_tenant_id p))]))))))
       (\<lambda>e. case e of
          KeyError _ \<Rightarrow> not_found
        | ModelEffectStateError _ \<Rightarrow> slift (public_error 409 ''model_effect_reconciliation_conflict''
            ''model effect reconciliation conflicts with durable state'' [])
        | RunStateConflictError _ \<Rightarrow> reconciliation_not_ready
        | _ \<Rightarrow> if is_greenlight_error e \<or> is_value_error e then reconciliation_not_ready else slift (Inl e)))"

section \<open>The audit ledger\<close>

definition audit_event_document :: "audit_row \<Rightarrow> json" where
  "audit_event_document r = (let c = ar_content r in JObj [(''sequence'', JInt (int (ar_sequence r))),
     (''event_id'', JStr (ac_event_id c)), (''tenant_id'', JStr (ac_tenant_id c)), (''request_id'', JStr (ac_request_id c)),
     (''occurred_at'', JStr (ac_occurred_at c)), (''action'', JStr (ac_action c)), (''resource_type'', JStr (ac_resource_type c)),
     (''resource_id'', JStr (ac_resource_id c)), (''actor'', JStr (ac_actor c)), (''payload'', to_primitive (JObj (ac_payload c))),
     (''previous_hash'', JStr (ar_previous_hash r)), (''event_hash'', JStr (ar_event_hash r))])"

definition http_list_audit_events :: "web_config \<Rightarrow> web_env \<Rightarrow> web_request \<Rightarrow> int \<Rightarrow> int \<Rightarrow> http_response http_step" where
  "http_list_audit_events cfg env rq after_sequence limit =
     sbind (require_audit_reader cfg env rq) (\<lambda>p.
     sbind (with_service (from_db (\<lambda>db. audit_events (db_ledger db) (pn_tenant_id p) after_sequence (limit + 1)))) (\<lambda>rows.
       let page = take (nat limit) rows in
       sret (respond 200 [] (JObj [(''events'', JList (map audit_event_document page)),
         (''next_after_sequence'', JInt (if page = [] then after_sequence else int (ar_sequence (last page)))),
         (''has_more'', JBool (limit < int (length rows)))]))))"

definition http_audit_integrity :: "web_config \<Rightarrow> keyring option \<Rightarrow> web_env \<Rightarrow> web_request \<Rightarrow> signed_checkpoint http_step" where
  "http_audit_integrity cfg kr env rq =
     sbind (require_audit_reader cfg env rq) (\<lambda>p. case kr of
       None \<Rightarrow> slift (public_error 409 ''audit_checkpoint_signing_unavailable'' ''audit checkpoint signing is not configured'' [])
     | Some k \<Rightarrow>
         sbind (scatch (with_service (from_db (\<lambda>db. verify_audit_chain (db_ledger db) (pn_tenant_id p) (se_utc (ve_service env)))))
           (\<lambda>e. case e of
              AuditIntegrityError _ \<Rightarrow> slift (public_error 503 ''audit_integrity_verification_failed''
                ''audit ledger integrity verification failed'' [])
            | _ \<Rightarrow> slift (Inl e))) (\<lambda>c. slift (sign k c)))"

end
