(* ===== verification/HttpLaws.thy ===== *)
theory HttpLaws
  imports HttpCommands
begin

text \<open>
  What the access layer promises: before a handler's body runs, the request has shown a configured credential with
  the handler's permission, and a browser also its CSRF token; a request that is refused changes nothing but the
  rate limits and the audit ledger.
\<close>

section \<open>What a refusal leaves alone\<close>

text \<open>Everything but the two rate limits and the audit ledger.\<close>

definition business :: "web \<Rightarrow> run_row list \<times> session_row list \<times> me_table \<times> media_table \<times> connections \<times> sp_table" where
  "business w = (db_runs (sv_db (wb_service w)), db_sessions (sv_db (wb_service w)), sv_effects (wb_service w),
     sv_media (wb_service w), sv_connections (wb_service w), wb_publications w)"

definition same_business :: "web \<Rightarrow> web \<Rightarrow> bool" where
  "same_business w w' \<longleftrightarrow> business w' = business w"

lemma same_business_preorder: "preorder_rel same_business"
  by (simp add: preorder_rel_def same_business_def)

lemma keeps_scatch [keep_intros]:
  assumes "preorder_rel R" and "keeps R m" and "\<And>e. keeps R (h e)"
  shows "keeps R (scatch m h)"
  unfolding keeps_def
proof
  fix s
  obtain s1 r where m: "m s = (s1, r)" by (cases "m s")
  have first: "R s s1" using assms(2) m by (rule keepsD)
  have "R s1 (fst (h e s1))" for e using assms(3) by (simp add: keeps_def)
  then have "R s (fst (h e s1))" for e using assms(1) first unfolding preorder_rel_def by blast
  then show "R s (fst (scatch m h s))" using m first by (cases r) (simp_all add: scatch_def)
qed

lemma keeps_limits:
  "keeps same_business (on_failures f)" "keeps same_business (on_quotas g)"
  by (auto simp: keeps_def on_failures_def on_quotas_def same_business_def business_def split: sum.splits)

lemma keeps_read: "keeps same_business (with_service (from_db f))"
  by (simp add: keeps_def with_service_def from_db_def same_business_def business_def)

lemma keeps_store_append: "keeps same_business (with_service (store_append env t w))"
  by (auto simp: keeps_def with_service_def store_append_def sthen_def sbind_def slift_def on_db_def same_business_def business_def
      rbind_def split: sum.splits)

lemma keeps_with_pure: "keeps same_business (with_service (slift r))"
  by (simp add: keeps_def with_service_def slift_def same_business_def business_def)

lemma keeps_security_denial: "keeps same_business (security_denial env rq p reason permission)"
  unfolding security_denial_def record_security_denial_def Let_def by (auto intro: keeps_store_append keeps_with_pure)

lemmas keeps_access = same_business_preorder keeps_limits keeps_read keeps_security_denial

lemma keeps_exn_case:
  "preorder_rel R \<Longrightarrow> (\<And>m. keeps R (f m)) \<Longrightarrow> keeps R (case e of AuthenticationError m \<Rightarrow> f m | _ \<Rightarrow> slift (Inl e))"
  "preorder_rel R \<Longrightarrow> (\<And>n. keeps R (g n)) \<Longrightarrow> keeps R (case e of AuthenticationRateLimitError n \<Rightarrow> g n | _ \<Rightarrow> slift (Inl e))"
  "preorder_rel R \<Longrightarrow> (\<And>n. keeps R (g n)) \<Longrightarrow> keeps R (case e of AuthenticatedRequestRateLimitError n \<Rightarrow> g n | _ \<Rightarrow> slift (Inl e))"
  "preorder_rel R \<Longrightarrow> (\<And>m. keeps R (f m)) \<Longrightarrow> keeps R (case e of SessionCsrfError m \<Rightarrow> f m | _ \<Rightarrow> slift (Inl e))"
  "preorder_rel R \<Longrightarrow> (\<And>m. keeps R (f m)) \<Longrightarrow> keeps R (case e of AuthorizationError m \<Rightarrow> f m | _ \<Rightarrow> slift (Inl e))"
  "preorder_rel R \<Longrightarrow> (\<And>m. keeps R (f m)) \<Longrightarrow> (\<And>m. keeps R (f' m)) \<Longrightarrow>
     keeps R (case e of SessionAuthenticationError m \<Rightarrow> f m | AuthenticationError m \<Rightarrow> f' m | _ \<Rightarrow> slift (Inl e))"
  by (cases e; simp add: keep_intros)+

lemma keeps_rate_limited: "keeps same_business (rate_limited_authenticate cfg env rq key)"
  unfolding rate_limited_authenticate_def Let_def or_rate_limited_def
  by (intro keep_intros keeps_access keeps_exn_case)

lemma keeps_require_principal: "keeps same_business (require_principal cfg env rq)"
proof -
  have "keeps same_business (bearer_principal cfg env rq c)" for c
    unfolding bearer_principal_def by (cases c) (auto intro!: keep_intros keeps_access keeps_exn_case keeps_rate_limited)
  moreover have "keeps same_business (session_principal cfg env rq)"
    unfolding session_principal_def by (intro keep_intros keeps_access keeps_exn_case)
  moreover have "keeps same_business (consume_quota cfg env p)" for p
    unfolding consume_quota_def by (intro keep_intros keeps_access keeps_exn_case)
  ultimately show ?thesis
    unfolding require_principal_def by (auto intro!: keep_intros keeps_access split: option.splits)
qed

lemma keeps_require_mutation: "keeps same_business (require_mutation_principal cfg env rq)"
  unfolding require_mutation_principal_def
  by (intro keep_intros keeps_access keeps_exn_case keeps_require_principal)

lemma keeps_authorize: "keeps same_business (authorize env rq permission p)"
  unfolding authorize_def by (intro keep_intros keeps_access keeps_exn_case)

section \<open>What an accepted request has shown\<close>

text \<open>A bearer key with the credential's digest; or the cookie of a session of that credential, neither revoked nor
  expired, and for a mutation the CSRF token of that session.\<close>

definition shows_session :: "web_env \<Rightarrow> web_request \<Rightarrow> session_row \<Rightarrow> credential \<Rightarrow> bool" where
  "shows_session env rq x e \<longleftrightarrow> ss_session_token_hash x = sha256_text (hr_cookie rq) \<and> ss_revoked_at x = None
     \<and> ve_session env < ss_expires_at x
     \<and> ss_tenant_id x = cr_tenant_id e \<and> ss_subject_id x = cr_subject_id e \<and> ss_key_id x = cr_key_id e
     \<and> ss_credential_fingerprint x \<in> {cr_digest e, take 16 (cr_digest e)}"

definition presents :: "web_env \<Rightarrow> web_request \<Rightarrow> session_row list \<Rightarrow> bool \<Rightarrow> credential \<Rightarrow> bool" where
  "presents env rq sessions mutation e = (case hr_credentials rq of
     Some (scheme, key) \<Rightarrow> str_lower scheme = ''bearer'' \<and> sha256_text key = cr_digest e
   | None \<Rightarrow> (\<exists>x \<in> set sessions. shows_session env rq x e
       \<and> (mutation \<longrightarrow> (\<exists>y \<in> set sessions. ss_session_id y = ss_session_id x \<and> ss_csrf_token_hash y = sha256_text (hr_csrf rq)
             \<and> ss_revoked_at y = None \<and> ve_csrf env < ss_expires_at y))))"

definition role_grants :: "credential \<Rightarrow> string \<Rightarrow> bool" where
  "role_grants e permission \<longleftrightarrow> (case role_permissions (cr_role e) of Inr ps \<Rightarrow> permission \<in> set ps | Inl _ \<Rightarrow> False)"

lemma scatch_Inr: "(\<And>e s1. snd (h e s1) \<noteq> Inr v) \<Longrightarrow> scatch m h s = (s', Inr v) \<longleftrightarrow> m s = (s', Inr v)"
  by (auto simp: scatch_def split: prod.splits sum.splits) (metis snd_conv)+

lemma public_error_Inr: "public_error a b c d \<noteq> Inr v"
  by (simp add: public_error_def)

lemma slift_Inr: "slift r s = (s', Inr v) \<longleftrightarrow> s' = s \<and> r = Inr v"
  by (auto simp: slift_def)

lemma rate_limited_authenticate_Inr:
  assumes "rate_limited_authenticate cfg env rq key w = (w', Inr p)"
  shows "authenticate (wc_auth cfg) key = Inr p"
proof -
  obtain w1 h where h: "scatch (slift (authenticate (wc_auth cfg) key)) h w1 = (w', Inr p)"
    and hx: "\<And>e w2 v. snd (h e w2) \<noteq> Inr v"
  proof -
    let ?h = "\<lambda>e. case e of
        AuthenticationError _ \<Rightarrow>
          sthen (or_rate_limited (on_failures (record_authentication_failure (authentication_buckets cfg rq key)
            (wc_rate_window cfg) (ve_failure env)))) (slift (Inl e))
      | _ \<Rightarrow> slift (Inl e)"
    have "snd (?h e w2) \<noteq> Inr v" for e w2 and v :: principal
      by (cases e) (simp_all add: slift_def sthen_def sbind_def split: prod.split sum.split)
    moreover obtain w1 where "scatch (slift (authenticate (wc_auth cfg) key)) ?h w1 = (w', Inr p)"
      using assms unfolding rate_limited_authenticate_def Let_def sthen_eq_Inr by blast
    ultimately show ?thesis using that by blast
  qed
  show ?thesis
  proof (cases "authenticate (wc_auth cfg) key")
    case (Inl e)
    then show ?thesis using h hx [of e w1 p] by (simp add: scatch_def slift_def)
  qed (use h in \<open>simp add: scatch_def slift_def\<close>)
qed

lemma bearer_principal_Inr:
  assumes "bearer_principal cfg env rq (scheme, key) w = (w', Inr p)"
  shows "str_lower scheme = ''bearer'' \<and> (\<exists>e \<in> set (au_entries (wc_auth cfg)). sha256_text key = cr_digest e
    \<and> p = credential_principal ''bearer'' [] e)"
proof -
  have "str_lower scheme = ''bearer''"
    using assms by (auto simp: bearer_principal_def slift_Inr authentication_failed_def public_error_Inr split: if_splits)
  moreover have "rate_limited_authenticate cfg env rq key w = (w', Inr p)"
    using assms by (auto simp: bearer_principal_def scatch_def slift_Inr authentication_failed_def public_error_Inr
        split: if_splits prod.splits sum.splits exn.splits)
  ultimately show ?thesis using authenticate_key_Inr [OF rate_limited_authenticate_Inr] by blast
qed

lemma authenticate_session_Inr:
  assumes "authenticate_session db token clk = Inr x"
  shows "\<exists>y \<in> set (db_sessions db). ss_session_token_hash y = sha256_text token \<and> ss_revoked_at y = None
    \<and> clk < ss_expires_at y \<and> x = session_record_of y"
  using assms by (auto simp: authenticate_session_def split: if_splits option.splits dest!: sql_find_Some)

lemma session_principal_Inr:
  assumes "session_principal cfg env rq w = (w', Inr p)"
  shows "\<exists>e \<in> set (au_entries (wc_auth cfg)). \<exists>x \<in> set (db_sessions (sv_db (wb_service w))).
    shows_session env rq x e \<and> p = credential_principal ''session'' (ss_session_id x) e"
proof -
  obtain x where x: "authenticate_session (sv_db (wb_service w)) (hr_cookie rq) (ve_session env) = Inr x"
    and r: "resolve_active_session (wc_auth cfg) (sr_tenant_id x) (sr_subject_id x) (sr_key_id x)
        (sr_credential_fingerprint x) (sr_session_id x) = Inr p"
    using assms by (auto simp: session_principal_def scatch_def slift_Inr authentication_failed_def public_error_Inr sbind_def
        with_service_def from_db_def slift_def split: sum.splits exn.splits)
  obtain y where y: "y \<in> set (db_sessions (sv_db (wb_service w)))" "ss_session_token_hash y = sha256_text (hr_cookie rq)"
      "ss_revoked_at y = None" "ve_session env < ss_expires_at y" "x = session_record_of y"
    using authenticate_session_Inr [OF x] by blast
  obtain e where e: "e \<in> set (au_entries (wc_auth cfg))" "cr_tenant_id e = sr_tenant_id x" "cr_subject_id e = sr_subject_id x"
      "cr_key_id e = sr_key_id x" "sr_credential_fingerprint x = cr_digest e \<or> sr_credential_fingerprint x = take 16 (cr_digest e)"
      "p = credential_principal ''session'' (sr_session_id x) e"
    using resolve_active_session_Inr [OF r] by blast
  have "shows_session env rq y e" "p = credential_principal ''session'' (ss_session_id y) e"
    using y e by (auto simp: shows_session_def session_record_of_def)
  with y(1) e(1) show ?thesis by blast
qed

lemma require_principal_Inr:
  assumes "require_principal cfg env rq w = (w', Inr p)"
  shows "\<exists>e \<in> set (au_entries (wc_auth cfg)). presents env rq (db_sessions (sv_db (wb_service w))) False e
    \<and> (hr_credentials rq \<noteq> None \<and> p = credential_principal ''bearer'' [] e
      \<or> hr_credentials rq = None \<and> (\<exists>x \<in> set (db_sessions (sv_db (wb_service w))).
          shows_session env rq x e \<and> p = credential_principal ''session'' (ss_session_id x) e))"
proof (cases "hr_credentials rq")
  case None
  then obtain w1 where "session_principal cfg env rq w = (w1, Inr p)"
    using assms by (auto simp: require_principal_def sbind_eq_Inr sthen_eq_Inr sret_def slift_Inr public_error_Inr split: if_splits)
  from session_principal_Inr [OF this] show ?thesis unfolding None presents_def option.case by blast
next
  case (Some c)
  obtain scheme key where c: "c = (scheme, key)" by (cases c)
  obtain w1 where "bearer_principal cfg env rq (scheme, key) w = (w1, Inr p)"
    using assms Some c by (auto simp: require_principal_def sbind_eq_Inr sthen_eq_Inr sret_def slift_Inr public_error_Inr split: if_splits)
  from bearer_principal_Inr [OF this] show ?thesis by (auto simp: Some c presents_def)
qed

lemma verify_session_csrf_Inr:
  assumes "verify_session_csrf db sid csrf clk = Inr u"
  shows "\<exists>y \<in> set (db_sessions db). ss_session_id y = sid \<and> ss_csrf_token_hash y = sha256_text csrf \<and> ss_revoked_at y = None
    \<and> clk < ss_expires_at y"
  using assms by (auto simp: verify_session_csrf_def split: if_splits option.splits dest!: sql_find_Some)

text \<open>The principal a credential gives: by its key, or by a session.\<close>

definition stands_for :: "principal \<Rightarrow> credential \<Rightarrow> bool" where
  "stands_for p e \<longleftrightarrow> pn_tenant_id p = cr_tenant_id e \<and> pn_subject_id p = cr_subject_id e \<and> pn_role p = cr_role e
     \<and> pn_key_id p = cr_key_id e \<and> pn_credential_fingerprint p = cr_digest e"

lemma require_mutation_Inr:
  assumes "require_mutation_principal cfg env rq w = (w', Inr p)"
  shows "\<exists>e \<in> set (au_entries (wc_auth cfg)). presents env rq (db_sessions (sv_db (wb_service w))) True e \<and> stands_for p e"
proof -
  let ?db = "db_sessions (sv_db (wb_service w))"
  obtain w1 q where q: "require_principal cfg env rq w = (w1, Inr q)"
    and rest: "(if pn_auth_method q = ''session'' then
         scatch (sthen (with_service (from_db (\<lambda>db. verify_session_csrf db (pn_session_id q) (hr_csrf rq) (ve_csrf env)))) (sret q))
           (\<lambda>e. case e of
              SessionCsrfError _ \<Rightarrow> sthen (security_denial env rq q ''csrf'' [])
                (slift (public_error 403 ''request_verification_failed'' ''request verification failed'' []))
            | _ \<Rightarrow> slift (Inl e))
       else sret q) w1 = (w', Inr p)"
    using assms unfolding require_mutation_principal_def sbind_eq_Inr by blast
  have same: "db_sessions (sv_db (wb_service w1)) = ?db"
    using keepsD [OF keeps_require_principal q] by (simp add: same_business_def business_def)
  obtain e where e: "e \<in> set (au_entries (wc_auth cfg))" "presents env rq ?db False e"
    and cases: "hr_credentials rq \<noteq> None \<and> q = credential_principal ''bearer'' [] e
      \<or> hr_credentials rq = None \<and> (\<exists>x \<in> set ?db.
          shows_session env rq x e \<and> q = credential_principal ''session'' (ss_session_id x) e)"
    using require_principal_Inr [OF q] by blast
  from cases show ?thesis
  proof
    assume b: "hr_credentials rq \<noteq> None \<and> q = credential_principal ''bearer'' [] e"
    then have "p = q" using rest by (simp add: credential_principal_def sret_def)
    moreover have "presents env rq ?db True e" using e(2) b by (auto simp: presents_def)
    ultimately show ?thesis using e(1) b by (auto simp: stands_for_def credential_principal_def)
  next
    assume "hr_credentials rq = None \<and> (\<exists>x \<in> set ?db.
          shows_session env rq x e \<and> q = credential_principal ''session'' (ss_session_id x) e)"
    then obtain x where none: "hr_credentials rq = None" and x: "x \<in> set ?db" "shows_session env rq x e"
      and q: "q = credential_principal ''session'' (ss_session_id x) e" by blast
    have v: "verify_session_csrf (sv_db (wb_service w1)) (ss_session_id x) (hr_csrf rq) (ve_csrf env) = Inr ()" and p: "p = q"
      using rest by (auto simp: q credential_principal_def scatch_def sthen_eq_Inr sthen_def sbind_def with_service_def from_db_def
          sret_def slift_def public_error_Inr split: sum.splits exn.splits prod.splits)
    from verify_session_csrf_Inr [OF v] have "presents env rq ?db True e"
      using none x unfolding same presents_def none option.case by blast
    then show ?thesis using e(1) unfolding p q stands_for_def by (auto simp: credential_principal_def)
  qed
qed

lemma authorize_Inr:
  assumes "authorize env rq permission p w = (w', Inr q)"
  shows "q = p" "permits p permission = Inr True"
proof -
  have "require_permission p permission = Inr () \<and> q = p"
    using assms by (auto simp: authorize_def scatch_def sthen_eq_Inr sthen_def sbind_def slift_def sret_def public_error_Inr
        split: sum.splits exn.splits prod.splits)
  then show "q = p" "permits p permission = Inr True" by (auto simp: require_permission_def rbind_Inr_iff split: if_splits)
qed

lemma permits_grants:
  assumes "stands_for p e" and "permits p permission = Inr True"
  shows "role_grants e permission"
proof -
  have "pn_role p = cr_role e" using assms(1) by (simp add: stands_for_def)
  then show ?thesis using assms(2) by (auto simp: permits_True role_grants_def)
qed

section \<open>Guarded handlers\<close>

text \<open>A dependency with a permission: it changes no business data, and a principal it returns stands for a credential
  that was shown, with a CSRF token for a mutation, and whose role has the permission.\<close>

definition guarded :: "web_config \<Rightarrow> web_env \<Rightarrow> web_request \<Rightarrow> bool \<Rightarrow> string \<Rightarrow> principal http_step \<Rightarrow> bool" where
  "guarded cfg env rq mutation permission g \<longleftrightarrow> keeps same_business g \<and> (\<forall>w w' p. g w = (w', Inr p) \<longrightarrow>
     (\<exists>e \<in> set (au_entries (wc_auth cfg)). presents env rq (db_sessions (sv_db (wb_service w))) mutation e
        \<and> stands_for p e \<and> role_grants e permission))"

lemma principal_stands:
  assumes "require_principal cfg env rq w = (w', Inr p)"
  shows "\<exists>e \<in> set (au_entries (wc_auth cfg)). presents env rq (db_sessions (sv_db (wb_service w))) False e \<and> stands_for p e"
  using require_principal_Inr [OF assms] by (auto simp: stands_for_def credential_principal_def)

lemma guarded_authorize:
  "guarded cfg env rq True permission (sbind (require_mutation_principal cfg env rq) (authorize env rq permission))"
  "guarded cfg env rq False permission (sbind (require_principal cfg env rq) (authorize env rq permission))"
  unfolding guarded_def sbind_eq_Inr
  by (auto intro!: keep_intros keeps_require_mutation keeps_require_principal keeps_authorize same_business_preorder
      dest!: require_mutation_Inr principal_stands dest: authorize_Inr intro: permits_grants)

lemma guarded_session:
  assumes "guarded cfg env rq mutation permission g"
  shows "guarded cfg env rq mutation permission (sbind g session_required)"
proof -
  have k: "keeps same_business (session_required p)" for p
    unfolding session_required_def by (intro keep_intros keeps_access)
  have "q = p \<and> w1 = w'" if "session_required p w1 = (w', Inr q)" for p q w1 w'
    using that by (auto simp: session_required_def slift_Inr public_error_Inr sret_def split: if_splits)
  then show ?thesis using assms k unfolding guarded_def sbind_eq_Inr
    by (auto intro!: keep_intros same_business_preorder) blast
qed

lemma guards:
  "guarded cfg env rq False ''identity:read'' (require_identity_reader cfg env rq)"
  "guarded cfg env rq False ''runs:read'' (require_run_reader cfg env rq)"
  "guarded cfg env rq False ''audit:read'' (require_audit_reader cfg env rq)"
  "guarded cfg env rq True ''runs:create'' (require_run_creator cfg env rq)"
  "guarded cfg env rq True ''greenlight:decide'' (require_greenlight_approver cfg env rq)"
  "guarded cfg env rq True ''greenlight:revoke'' (require_greenlight_revoker cfg env rq)"
  "guarded cfg env rq True ''social:manage'' (require_social_manager cfg env rq)"
  "guarded cfg env rq True ''social:publish'' (require_social_publisher cfg env rq)"
  "guarded cfg env rq True ''model:execute'' (require_model_executor cfg env rq)"
  "guarded cfg env rq False ''social:manage'' (require_social_callback_manager cfg env rq)"
  unfolding require_identity_reader_def require_run_reader_def require_audit_reader_def require_run_creator_def
    require_greenlight_approver_def require_greenlight_revoker_def require_social_manager_def require_social_publisher_def
    require_model_executor_def require_social_callback_manager_def
  by (intro guarded_session guarded_authorize)+

lemma guarded_body:
  assumes "guarded cfg env rq mutation permission g" and "business (fst (sbind g body w)) \<noteq> business w"
  shows "\<exists>e \<in> set (au_entries (wc_auth cfg)). presents env rq (db_sessions (sv_db (wb_service w))) mutation e \<and> role_grants e permission"
proof -
  obtain w1 r where g: "g w = (w1, r)" by (cases "g w")
  have "business w1 = business w" using assms(1) g unfolding guarded_def by (auto dest: keepsD simp: same_business_def)
  then obtain p where "r = Inr p" using assms(2) g by (cases r) (simp_all add: sbind_def)
  then show ?thesis using assms(1) g unfolding guarded_def by blast
qed

section \<open>The application\<close>

text \<open>The routes with their parameters; what the application is configured with.\<close>

datatype route =
    PostRun brief string "string option"
  | GetRun string
  | PostApprove string string string string
  | PostReject string string string string
  | PostRevoke string string string string
  | PostPublication string string publication_request string string
  | GetPublications string
  | PostPublicationReconcile string publication_reconciliation string
  | DeleteConnection string
  | PostMedia string string string string string string string
  | DeleteMedia string string string string
  | PostModelEffect string string model_effect_request string
  | GetModelEffects string
  | PostModelEffectReconcile string model_reconciliation string
  | GetAuditEvents int int
  | GetMe

record application =
  ap_config :: web_config
  ap_publisher :: "publisher option"
  ap_media :: media_delivery
  ap_model :: model_authority

fun serve :: "application \<Rightarrow> web_env \<Rightarrow> web_request \<Rightarrow> route \<Rightarrow> http_response http_step" where
  "serve ap env rq (PostRun b key prefer) = http_create_run (ap_config ap) env rq b key prefer"
| "serve ap env rq (GetRun rid) = http_get_run (ap_config ap) env rq rid"
| "serve ap env rq (PostApprove rid reviewer t key) = http_approve (ap_config ap) env rq rid reviewer t key"
| "serve ap env rq (PostReject rid reviewer t key) = http_reject (ap_config ap) env rq rid reviewer t key"
| "serve ap env rq (PostRevoke rid reviewer t key) = http_revoke_greenlight (ap_config ap) env rq rid reviewer t key"
| "serve ap env rq (PostPublication rid ch q confirmation key) =
     http_publish (ap_config ap) (ap_publisher ap) env rq rid ch q confirmation key"
| "serve ap env rq (GetPublications rid) = http_list_publications (ap_config ap) env rq rid"
| "serve ap env rq (PostPublicationReconcile i q key) = http_reconcile_publication (ap_config ap) env rq i q key"
| "serve ap env rq (DeleteConnection ch) = http_disconnect (ap_config ap) env rq ch"
| "serve ap env rq (PostMedia rid ch key alt rights ct content) =
     http_attach_media (ap_config ap) (ap_media ap) env rq rid ch key alt rights ct content"
| "serve ap env rq (DeleteMedia rid mid reason key) = http_revoke_media (ap_config ap) env rq rid mid reason key"
| "serve ap env rq (PostModelEffect rid st q key) = http_model_effect (ap_config ap) (ap_model ap) env rq rid st q key"
| "serve ap env rq (GetModelEffects rid) = http_list_model_effects (ap_config ap) env rq rid"
| "serve ap env rq (PostModelEffectReconcile i q key) = http_reconcile_model_effect (ap_config ap) env rq i q key"
| "serve ap env rq (GetAuditEvents a n) = http_list_audit_events (ap_config ap) env rq a n"
| "serve ap env rq GetMe = http_me (ap_config ap) env rq"

fun route_permission :: "route \<Rightarrow> string" where
  "route_permission (PostRun _ _ _) = ''runs:create''"
| "route_permission (PostApprove _ _ _ _) = ''greenlight:decide''"
| "route_permission (PostReject _ _ _ _) = ''greenlight:decide''"
| "route_permission (PostRevoke _ _ _ _) = ''greenlight:revoke''"
| "route_permission (DeleteConnection _) = ''social:manage''"
| "route_permission (PostModelEffect _ _ _ _) = ''model:execute''"
| "route_permission (PostModelEffectReconcile _ _ _) = ''model:execute''"
| "route_permission (PostPublication _ _ _ _ _) = ''social:publish''"
| "route_permission (PostPublicationReconcile _ _ _) = ''social:publish''"
| "route_permission (PostMedia _ _ _ _ _ _ _) = ''social:publish''"
| "route_permission (DeleteMedia _ _ _ _) = ''social:publish''"
| "route_permission (GetAuditEvents _ _) = ''audit:read''"
| "route_permission GetMe = ''identity:read''"
| "route_permission _ = ''runs:read''"

fun is_get :: "route \<Rightarrow> bool" where
  "is_get (GetRun _) = True" | "is_get (GetPublications _) = True" | "is_get (GetModelEffects _) = True"
| "is_get (GetAuditEvents _ _) = True" | "is_get GetMe = True" | "is_get _ = False"

lemma keeps_service_read: "(\<And>s. fst (m s) = s) \<Longrightarrow> keeps same_business (with_service m)"
  by (simp add: keeps_def with_service_def same_business_def business_def split: prod.split) (metis fst_conv)

lemma keeps_publication_read: "keeps same_business (on_publications (\<lambda>rows. rbind (f rows) (\<lambda>is. Inr (rows, is))))"
  by (auto simp: keeps_def on_publications_def same_business_def business_def rbind_def split: sum.splits)

lemma keeps_guard: "guarded cfg env rq mutation permission g \<Longrightarrow> keeps same_business g"
  by (simp add: guarded_def)

lemma keeps_key_error:
  "preorder_rel R \<Longrightarrow> (\<And>m. keeps R (f m)) \<Longrightarrow> keeps R (case e of KeyError m \<Rightarrow> f m | _ \<Rightarrow> slift (Inl e))"
  by (cases e; simp add: keep_intros)

lemma get_keeps: "is_get rt \<Longrightarrow> keeps same_business (serve ap env rq rt)"
  by (cases rt)
    (auto simp: http_get_run_def http_list_publications_def http_list_model_effects_def http_list_audit_events_def http_me_def
        store_get_def Let_def from_db_def
      intro!: keep_intros same_business_preorder keeps_guard [OF guards(1)] keeps_guard [OF guards(2)] keeps_guard [OF guards(3)]
        keeps_service_read keeps_publication_read keeps_key_error)

lemma serve_guarded:
  assumes "\<not> is_get rt"
  shows "\<exists>g body. serve ap env rq rt = sbind g body \<and> guarded (ap_config ap) env rq True (route_permission rt) g"
proof (cases rt)
  case (PostRun b key pref)
  then show ?thesis by (simp add: http_create_run_def) (metis guards(4))
next
  case (PostApprove a b c d)
  then show ?thesis by (simp add: http_approve_def) (metis guards(5))
next
  case (PostReject a b c d)
  then show ?thesis by (simp add: http_reject_def) (metis guards(5))
next
  case (PostRevoke a b c d)
  then show ?thesis by (simp add: http_revoke_greenlight_def) (metis guards(6))
next
  case (DeleteConnection a)
  then show ?thesis by (simp add: http_disconnect_def) (metis guards(7))
next
  case (PostPublication a b c d e)
  then show ?thesis by (simp add: http_publish_def) (metis guards(8))
next
  case (PostPublicationReconcile a b c)
  then show ?thesis by (simp add: http_reconcile_publication_def) (metis guards(8))
next
  case (PostMedia a b c d e f g)
  then show ?thesis by (simp add: http_attach_media_def) (metis guards(8))
next
  case (DeleteMedia a b c d)
  then show ?thesis by (simp add: http_revoke_media_def) (metis guards(8))
next
  case (PostModelEffect a b c d)
  then show ?thesis by (simp add: http_model_effect_def) (metis guards(9))
next
  case (PostModelEffectReconcile a b c)
  then show ?thesis by (simp add: http_reconcile_model_effect_def) (metis guards(9))
qed (use assms in simp_all)

lemma handled_state: "fst (handled rq h w) = fst (h w)"
  by (auto simp: handled_def split: prod.split sum.split)

section \<open>Properties\<close>



definition review_requested :: "brief \<Rightarrow> bool" where
  "review_requested b \<longleftrightarrow> (\<exists>c \<in> set (evidence_claims b). claim_verified c) \<or> legal_review_status b = ''approved''"

lemma http_create_run_Inr:
  assumes "http_create_run cfg env rq b key pref w = (w', Inr response)"
  shows "\<exists>e \<in> set (au_entries (wc_auth cfg)). presents env rq (db_sessions (sv_db (wb_service w))) True e
    \<and> (if review_requested b then cr_role e = ''admin'' else role_grants e ''runs:create'')
    \<and> (\<exists>s r replayed actor. svc_start (ve_service env) (cr_tenant_id e) (attributed_brief (cr_subject_id e) b) (hr_request_id rq)
          actor (cr_subject_id e) key (respond_async pref) s = (wb_service w', Inr (r, replayed))
        \<and> hs_body response = run_document r (cr_tenant_id e))"
proof -
  let ?h = "\<lambda>e. case e of IdempotencyConflictError _ \<Rightarrow> idempotency_conflict
        | _ \<Rightarrow> (case value_error_message e of Some m \<Rightarrow> slift (Inl (HTTPException 409 m)) | None \<Rightarrow> slift (Inl e))"
  have h: "snd (?h e s) \<noteq> Inr v" for e s and v :: http_response
    by (cases e) (simp_all add: idempotency_conflict_def slift_def public_error_Inr split: option.split)
  obtain w1 p where g: "require_run_creator cfg env rq w = (w1, Inr p)"
    and w2: "\<exists>w2 u. (if (\<exists>c \<in> set (evidence_claims b). claim_verified c) \<or> legal_review_status b = ''approved''
         then sbind (authorize env rq ''greenlight:decide'' p) (\<lambda>_. sret ()) else sret ()) w1 = (w2, Inr u)
       \<and> (\<exists>w3 v. with_service (svc_start (ve_service env) (pn_tenant_id p) (attributed_brief (pn_subject_id p) b) (hr_request_id rq)
           (actor_of p) (pn_subject_id p) key (respond_async pref)) w2 = (w3, Inr v)
         \<and> (case v of (r, replayed) \<Rightarrow> sret (if replayed then respond 200 replayed_header (run_document r (pn_tenant_id p))
           else if respond_async pref
           then respond 202 [(''Preference-Applied'', ''respond-async''), (''Location'', ''/api/v1/runs/'' @ run_id r)]
             (run_document r (pn_tenant_id p))
           else respond 201 [] (run_document r (pn_tenant_id p)))) w3 = (w', Inr response))"
    using assms unfolding http_create_run_def sbind_eq_Inr scatch_Inr [of ?h, OF h] sthen_eq_Inr slift_Inr by blast
  obtain w2 u w3 r replayed where q: "(if (\<exists>c \<in> set (evidence_claims b). claim_verified c) \<or> legal_review_status b = ''approved''
         then sbind (authorize env rq ''greenlight:decide'' p) (\<lambda>_. sret ()) else sret ()) w1 = (w2, Inr u)"
    and start: "with_service (svc_start (ve_service env) (pn_tenant_id p) (attributed_brief (pn_subject_id p) b) (hr_request_id rq)
           (actor_of p) (pn_subject_id p) key (respond_async pref)) w2 = (w3, Inr (r, replayed))"
    and out: "w' = w3" "hs_body response = run_document r (pn_tenant_id p)"
    using w2 by (auto simp: sret_def respond_def)
  obtain e where e: "e \<in> set (au_entries (wc_auth cfg))" "presents env rq (db_sessions (sv_db (wb_service w))) True e"
    and s: "stands_for p e" "role_grants e ''runs:create''"
    using guards(4) [of cfg env rq] g unfolding guarded_def by blast
  have "cr_role e = ''admin''" if "review_requested b"
  proof -
    have "sbind (authorize env rq ''greenlight:decide'' p) (\<lambda>_. sret ()) w1 = (w2, Inr u)"
      using q that unfolding review_requested_def by (simp only: if_True)
    then obtain q' where "authorize env rq ''greenlight:decide'' p w1 = (w2, Inr q')"
      unfolding sbind_eq_Inr by (auto simp: sret_def)
    then have "role_grants e ''greenlight:decide''" using permits_grants [OF s(1) authorize_Inr(2)] by blast
    with s(2) show ?thesis by (auto simp: role_grants_def role_permissions_def split: if_splits)
  qed
  moreover have ids: "pn_tenant_id p = cr_tenant_id e" "pn_subject_id p = cr_subject_id e" using s(1) by (simp_all add: stands_for_def)
  moreover have "svc_start (ve_service env) (cr_tenant_id e) (attributed_brief (cr_subject_id e) b) (hr_request_id rq)
           (actor_of p) (cr_subject_id e) key (respond_async pref) (wb_service w2) = (wb_service w', Inr (r, replayed))"
    using start unfolding ids out by (auto simp: with_service_def split: prod.splits)
  ultimately show ?thesis using e s(2) out(2) unfolding ids by (intro bexI [of _ e]) auto
qed

text \<open>C13: nobody reviews in another's name. A request to create a run raises, or it has shown a credential and the run
  starts for that credential's tenant and subject, from the brief in which this subject is the only reviewer named,
  whatever names the request carried; and a request with verified claims or an approved legal review needs an
  administrator, the one role that both creates runs and decides Greenlights.\<close>

theorem reviews_attributed:
  "(\<exists>x. snd (http_create_run cfg env rq b key pref w) = Inl x)
   \<or> (\<exists>e \<in> set (au_entries (wc_auth cfg)). presents env rq (db_sessions (sv_db (wb_service w))) True e
       \<and> (if review_requested b then cr_role e = ''admin'' else role_grants e ''runs:create'')
       \<and> (\<exists>s r replayed actor. svc_start (ve_service env) (cr_tenant_id e) (attributed_brief (cr_subject_id e) b) (hr_request_id rq)
             actor (cr_subject_id e) key (respond_async pref) s
             = (wb_service (fst (http_create_run cfg env rq b key pref w)), Inr (r, replayed))))"
proof -
  obtain w' x where x: "http_create_run cfg env rq b key pref w = (w', x)" by (cases "http_create_run cfg env rq b key pref w")
  show ?thesis
  proof (cases x)
    case (Inr response)
    show ?thesis using http_create_run_Inr [OF x [unfolded Inr]] unfolding x fst_conv by blast
  qed (simp add: x)
qed

end
