(* ===== verification/Spec2Isabelle.thy ===== *)
theory Spec2Isabelle
  imports Models AuditLedger ModelEffect PublicationSamples RunStoreLaws RateLimitLaws ServiceSamples
    PostgresEffects PostgresStoreLaws PostgresLimits PostgresMedia HttpLaws
begin

text \<open>
  A model of the backend of the agency runtime (\<open>backend/agency_runtime\<close>): a service that takes a
  campaign brief, lets eight stations write artifacts about it, stops at a human gate, and only then
  publishes or calls a model, keeping every command in a hash-chained audit ledger.

  \<^bold>\<open>How the program is put together.\<close> \<open>RuntimeService\<close> (\<open>api.py\<close>) receives commands with an idempotency
  key. It loads the run from the run store (\<open>persistence.py\<close>), puts it into the tenant's orchestrator
  (\<open>orchestrator.py\<close>), which drives the stations (\<open>campaign_intelligence.py\<close>, \<open>tools.py\<close>, \<open>memory.py\<close>), and saves
  the run together with an audit event (\<open>audit_integrity.py\<close>) that is also the receipt of the command. External
  effects have authorities of their own: \<open>model_effect.py\<close> in front of \<open>model_gateway.py\<close>, and
  \<open>social_publication.py\<close> in front of the networks. Each reserves a durable intent
  (\<open>model_effect_store.py\<close>, \<open>social_publication_store.py\<close>) before it sends anything. Images and the accounts
  they are published to are kept by \<open>publication_media_store.py\<close> and \<open>social_oauth_store.py\<close>.

  \<^bold>\<open>Conventions.\<close> A Python class is a record and an enum a datatype. An exception is a value of the type
  \<open>exn\<close> of \<open>Prelude\<close>, and a function that may raise returns \<open>exn + 'a\<close>. Code that mutates state and may
  raise is a step of \<open>Effects\<close>, which returns the state it leaves beside the value or the exception, so a
  write before a \<open>raise\<close> stays. A database transaction that raises returns no database: it is rolled back.
  Strings are lists of \<open>char\<close>, the code points up to U+00FF. Integers are unbounded, as in Python. Clocks,
  random tokens, identifiers of the network and the replies of providers are arguments, as are the few parts
  of the standard library whose result no decision depends on (Unicode folding, \<open>int\<close> of a float).

  \<^bold>\<open>Foundations.\<close> \<open>Prelude\<close> has exceptions, strings, guards and lists; \<open>Effects\<close> steps and their rules; \<open>Sha256\<close>
  the hash, HMAC and base64; \<open>Json\<close> the canonical JSON of \<open>utils.py\<close>, with its injectivity; \<open>Url\<close> the
  parts of \<open>urllib.parse\<close> and of case mapping the source uses; \<open>Models\<close> the domain model of \<open>models.py\<close>.

  \<^bold>\<open>Audit.\<close> \<open>AuditIntegrity\<close> models \<open>audit_integrity.py\<close>: the event hash, checkpoints, the signing keyring.
  \<open>AuditLedger\<close> models the ledger tables of \<open>persistence.py\<close>, the append and verify operations and the pass at
  start-up, and shows that every reachable ledger verifies and that two ledgers with one head hold the same
  events unless SHA-256 collides.

  \<^bold>\<open>Runs.\<close> \<open>Tools\<close>, \<open>SemanticText\<close>, \<open>MemoryStore\<close> and \<open>Campaign\<close> model what the stations call, \<open>Orchestrator\<close> the
  runtime. \<open>OrchestratorSteps\<close> has the equations of its building blocks; \<open>Pipeline\<close> states the abstract pipeline
  of a run and the refinement of every operation to it; \<open>OrchestratorLaws\<close> the Greenlight boundary, the
  order of stations, finality and termination; \<open>StationTotality\<close> and \<open>CampaignCompletion\<close> that a valid
  brief never fails and reaches its package; \<open>OrchestratorSamples\<close> one campaign as a witness.

  \<^bold>\<open>Documents and stores.\<close> \<open>Serialization\<close> models \<open>serialization.py\<close>, \<open>SerializationLaws\<close> its round trip.
  \<open>RunStore\<close> models runs and browser sessions of \<open>persistence.py\<close>, \<open>RunStoreLaws\<close> their invariant,
  compare-and-swap and revocation; \<open>RateLimits\<close> and \<open>RateLimitLaws\<close> the two limits of the same file.
  \<open>MediaStore\<close> and \<open>OAuthStore\<close> model images, their signed links and connected accounts.

  \<^bold>\<open>Effects on the outside.\<close> \<open>EffectLedger\<close> is the contract of a table of intents, a locale with the
  reservation law that both tables are interpretations of: \<open>ModelEffectStore\<close> and \<open>PublicationStore\<close>.
  \<open>ModelGateway\<close> and \<open>ModelEffect\<close> model the model call, \<open>Publication\<close> the posts to X and Instagram;
  \<open>PublicationLaws\<close> is a small Hoare logic for the latter and shows that a command sends at most once, that outcomes
  last and that a result was verified. \<open>PublicationSamples\<close> has concrete exchanges.

  \<^bold>\<open>Service.\<close> \<open>Service\<close>, \<open>ServiceWork\<close> and \<open>ServiceMedia\<close> model \<open>RuntimeService\<close>: commands, worker, authority checks,
  media and model effects. \<open>RunSound\<close> shows that the orchestrator keeps runs storable; \<open>ServiceRules\<close> and
  \<open>ServiceSteps\<close> that every command writes the database by governed writes only; \<open>ServiceReceipts\<close> what a command
  that returned leaves behind; \<open>ServiceLaws\<close> the properties over histories of commands (idempotency, one decision,
  final revocation, an ending worker, leases), and \<open>ServiceSamples\<close> their witnesses.

  \<^bold>\<open>PostgreSQL.\<close> Every store has a twin on PostgreSQL. \<open>Twins\<close> is the contract between twins, a locale of two
  step functions and a relation of their states, whose conclusion is about sequences of commands. \<open>PostgresIntents\<close> and
  \<open>PostgresPublications\<close> model \<open>model_effect_postgres.py\<close> and \<open>social_publication_postgres.py\<close>, \<open>PostgresEffects\<close>
  interprets them; \<open>PostgresStore\<close> models \<open>PostgresRunStore\<close> of \<open>postgres.py\<close>, \<open>PostgresStoreLaws\<close> its agreement with
  SQLite; \<open>PostgresLimits\<close> the limits, where the two differ in the window of failures; \<open>PostgresMedia\<close> models
  \<open>publication_media_postgres.py\<close> and the second class of \<open>social_oauth_store.py\<close>. How the driver renders a time and
  which instant a text denotes are parameters.

  \<^bold>\<open>HTTP.\<close> \<open>Auth\<close> models \<open>auth.py\<close>: roles, the registry of credentials, authentication and sessions. \<open>HttpAccess\<close>
  models the access layer of \<open>create_app\<close> in \<open>api.py\<close>: errors, rate limits, principals, CSRF and permissions;
  \<open>HttpCommands\<close> the handlers on top of it; \<open>HttpLaws\<close> shows what they promise whatever request is served.

  \<^bold>\<open>Not modelled.\<close> The connection pool, DDL and full-text memory of \<open>postgres.py\<close>: they talk to a driver and a
  server. The OAuth exchanges with the networks and the encryption of tokens (\<open>social_oauth_service.py\<close>, \<open>social_oauth.py\<close>):
  the stores behind them are modelled, stored ciphertexts stay opaque. Image decoding (\<open>publication_media.py\<close>), which a
  third-party package does. Parsing and shape checks of requests, which the web framework does. Threads: a command
  holds the store's lock, so commands are steps. Metrics, logs, listings of configuration, the command line and the
  scripts of operation, which no decision of the program depends on.

  \<^bold>\<open>Bounds and fuel.\<close> The loop of \<open>start\<close> is a partial function to an option that is proved to return for every brief, clock and memory.
  The polls of a container recurse on the configured number of attempts. No other loop needs a bound.
\<close>

end
